(* ===== verification/Prelude.thy ===== *)
theory Prelude
  imports Main "HOL-Library.Char_ord" "HOL-Library.List_Lexorder"
begin

text \<open>
  What every component of the model shares: the exceptions of
  backend/app/core/exceptions.py as a datatype, sequencing of operations that may raise
  (\<open>ebind\<close>, \<open>ensure\<close>, \<open>from_opt\<close>), the for-loop that stops at the first exception
  (\<open>foldE\<close>, \<open>check_all\<close>), and tables as lists of rows in insertion order with the
  lookups, updates and inserts of backend/app/db/repository.py (\<open>get_by\<close>, \<open>upd_by\<close>).
  The locale \<open>keyed_table\<close> is the contract of a repository and \<open>draft_gate\<close> the contract
  of an operation that takes a document out of its draft state; the components interpret both.

  An operation that raises returns \<open>Inl\<close> of the exception and no state: the router commits
  only after the service returned, so every write of a failed request is rolled back.
\<close>

section \<open>Exceptions\<close>

type_synonym uuid = nat

datatype err =
    NotFoundError
  | ConflictError
  | StateTransitionError
  | ConcurrentModificationError
  | PermissionDenied
  | ConversationLockError
  | ValidationError string
  | PostingError string
  | ValueError
  | MultipleResultsFound
  | IntegrityError string

text \<open>
  An exception the database raises inside a flush leaves the transaction aborted: every later
  statement of the same session fails, whatever the caller catches.
\<close>

fun poisons_session :: "err \<Rightarrow> bool" where
  "poisons_session (IntegrityError c) = True"
| "poisons_session e = False"

section \<open>Sequencing\<close>

named_theorems ok_simps

text \<open>The definitions that evaluate an operation on a concrete state.\<close>

named_theorems evals

definition ebind :: "'e + 'a \<Rightarrow> ('a \<Rightarrow> 'e + 'b) \<Rightarrow> 'e + 'b" where
  "ebind m f = (case m of Inl e \<Rightarrow> Inl e | Inr x \<Rightarrow> f x)"

definition ensure :: "bool \<Rightarrow> 'e \<Rightarrow> 'e + unit" where
  "ensure b e = (if b then Inr () else Inl e)"

definition from_opt :: "'e \<Rightarrow> 'a option \<Rightarrow> 'e + 'a" where
  "from_opt e o' = (case o' of None \<Rightarrow> Inl e | Some x \<Rightarrow> Inr x)"

lemma ebind_simps [simp]:
  "ebind (Inr x) f = f x" "ebind (Inl e) f = Inl e"
  by (simp_all add: ebind_def)

text \<open>For evaluation: the rest of a sequence is not looked at before its first step has a value.\<close>

lemma ebind_weak_cong: "m = m' \<Longrightarrow> ebind m f = ebind m' f"
  by simp

lemma ebind_Inr_iff [ok_simps]:
  "(ebind m f = Inr y) = (\<exists>x. m = Inr x \<and> f x = Inr y)"
  by (cases m) auto

lemma not_isl_Inr: "\<not> isl x \<Longrightarrow> x = Inr (projr x)"
  by (cases x) auto

lemma ebind_Inl_iff:
  "(ebind m f = Inl e) = (m = Inl e \<or> (\<exists>x. m = Inr x \<and> f x = Inl e))"
  by (cases m) auto

lemma ensure_simps [simp]:
  "ensure True e = Inr ()" "ensure False e = Inl e"
  by (simp_all add: ensure_def)

lemma ensure_Inr_iff [simp]: "(ensure b e = Inr u) = b"
  by (simp add: ensure_def)

lemma ensure_Inl_iff [simp]: "(ensure b e = Inl e') = (\<not> b \<and> e' = e)"
  by (auto simp: ensure_def)

lemma from_opt_simps [simp]:
  "from_opt e (Some x) = Inr x" "from_opt e None = Inl e"
  by (simp_all add: from_opt_def)

lemma from_opt_Inr_iff [simp]: "(from_opt e o' = Inr x) = (o' = Some x)"
  by (cases o') auto

lemma from_opt_Inl_iff [simp]: "(from_opt e o' = Inl e') = (o' = None \<and> e' = e)"
  by (cases o') auto

subsection \<open>Loops that may raise\<close>

primrec foldE :: "('a \<Rightarrow> 's \<Rightarrow> 'e + 's) \<Rightarrow> 'a list \<Rightarrow> 's \<Rightarrow> 'e + 's" where
  "foldE f [] s = Inr s"
| "foldE f (x # xs) s = ebind (f x s) (foldE f xs)"

text \<open>The loop rule: what every turn keeps holds of the final state.\<close>

lemma foldE_inv:
  assumes "foldE f xs s = Inr s'" and "P s"
    and "\<And>x s s'. x \<in> set xs \<Longrightarrow> P s \<Longrightarrow> f x s = Inr s' \<Longrightarrow> P s'"
  shows "P s'"
  using assms
proof (induction xs arbitrary: s)
  case Nil
  then show ?case by simp
next
  case (Cons x xs)
  from Cons.prems(1) obtain t where t: "f x s = Inr t" "foldE f xs t = Inr s'"
    by (auto simp: ok_simps)
  from t(1) Cons.prems have "P t" by auto
  show ?case
    by (rule Cons.IH [OF t(2) \<open>P t\<close>]) (use Cons.prems(3) in auto)
qed

lemma foldE_append: "foldE f (xs @ ys) s = ebind (foldE f xs s) (foldE f ys)"
  by (induction xs arbitrary: s) (auto simp: ebind_def split: sum.splits)

primrec check_all :: "('a \<Rightarrow> 'e + unit) \<Rightarrow> 'a list \<Rightarrow> 'e + unit" where
  "check_all f [] = Inr ()"
| "check_all f (x # xs) = ebind (f x) (\<lambda>_. check_all f xs)"

lemma check_all_Inr [simp]: "(check_all f xs = Inr u) = (\<forall>x\<in>set xs. f x = Inr ())"
  by (induction xs) (auto simp: ok_simps)

lemma check_all_Inl: "check_all f xs = Inl e \<Longrightarrow> \<exists>x\<in>set xs. f x = Inl e"
  by (induction xs) (auto simp: ebind_Inl_iff)

lemma check_all_first:
  "f x = Inl e \<Longrightarrow> (\<forall>y\<in>set xs. f y = Inr ()) \<Longrightarrow> check_all f (xs @ x # ys) = Inl e"
  by (induction xs) auto

section \<open>Tables\<close>

definition get_by :: "('r \<Rightarrow> 'k) \<Rightarrow> 'k \<Rightarrow> 'r list \<Rightarrow> 'r option" where
  "get_by key k rs = find (\<lambda>r. key r = k) rs"

definition upd_by :: "('r \<Rightarrow> 'k) \<Rightarrow> 'k \<Rightarrow> ('r \<Rightarrow> 'r) \<Rightarrow> 'r list \<Rightarrow> 'r list" where
  "upd_by key k f rs = map (\<lambda>r. if key r = k then f r else r) rs"

text \<open>\<open>scalar_one_or_none()\<close> of a query result: more than one row raises.\<close>

definition scalar_one_or_none :: "'r list \<Rightarrow> err + 'r option" where
  "scalar_one_or_none rs =
     (case rs of [] \<Rightarrow> Inr None | [r] \<Rightarrow> Inr (Some r) | _ \<Rightarrow> Inl MultipleResultsFound)"

declare scalar_one_or_none_def [evals]

lemma get_by_Nil [simp]: "get_by key k [] = None"
  by (simp add: get_by_def)

lemma get_by_Cons [simp]:
  "get_by key k (r # rs) = (if key r = k then Some r else get_by key k rs)"
  by (simp add: get_by_def)

lemma get_by_Some: "get_by key k rs = Some r \<Longrightarrow> r \<in> set rs \<and> key r = k"
  by (induction rs) (auto split: if_splits)

lemma get_by_None_iff: "(get_by key k rs = None) = (k \<notin> key ` set rs)"
  by (induction rs) auto

lemma get_by_append:
  "get_by key k (rs @ qs) = (case get_by key k rs of None \<Rightarrow> get_by key k qs | Some r \<Rightarrow> Some r)"
  by (induction rs) auto

lemma get_by_mem:
  "distinct (map key rs) \<Longrightarrow> r \<in> set rs \<Longrightarrow> get_by key (key r) rs = Some r"
  by (induction rs) (auto simp: rev_image_eqI)

lemma upd_by_Nil [simp]: "upd_by key k f [] = []"
  by (simp add: upd_by_def)

lemma upd_by_Cons [simp]:
  "upd_by key k f (r # rs) = (if key r = k then f r else r) # upd_by key k f rs"
  by (simp add: upd_by_def)

lemma upd_by_append [simp]: "upd_by key k f (rs @ qs) = upd_by key k f rs @ upd_by key k f qs"
  by (simp add: upd_by_def)

lemma length_upd_by [simp]: "length (upd_by key k f rs) = length rs"
  by (simp add: upd_by_def)

lemma set_upd_by: "set (upd_by key k f rs) = (\<lambda>r. if key r = k then f r else r) ` set rs"
  by (simp add: upd_by_def)

lemma map_upd_by:
  "(\<And>r. key r = k \<Longrightarrow> g (f r) = g r) \<Longrightarrow> map g (upd_by key k f rs) = map g rs"
  by (induction rs) auto

lemma ball_upd_by:
  "(\<And>r. P (f r) = P r) \<Longrightarrow> (\<forall>r\<in>set (upd_by key k f rs). P r) = (\<forall>r\<in>set rs. P r)"
  by (induction rs) auto

lemma get_by_upd_by:
  assumes "\<And>r. key (f r) = key r"
  shows "get_by key j (upd_by key k f rs) =
    (if j = k then map_option f (get_by key j rs) else get_by key j rs)"
  by (induction rs) (auto simp: assms)

lemma map_one:
  assumes "distinct (map key xs)" "r \<in> set xs"
  obtains ys zs where "xs = ys @ r # zs" "map (\<lambda>x. if key x = key r then f x else x) xs = ys @ f r # zs"
proof -
  obtain ys zs where xs: "xs = ys @ r # zs" using split_list [OF assms(2)] by blast
  have "key x \<noteq> key r" if "x \<in> set ys \<union> set zs" for x
    using assms(1) that by (auto simp: xs) (metis imageI)+
  then have "map (\<lambda>x. if key x = key r then f x else x) xs = ys @ f r # zs" by (simp add: xs map_idI)
  with xs show ?thesis by (rule that)
qed

lemma upd_by_other: "k \<notin> key ` set rs \<Longrightarrow> upd_by key k f rs = rs"
  by (induction rs) auto

section \<open>Sums over a join\<close>

lemma sum_filter_split:
  "sum_list (map f (filter P xs)) = sum_list (map f (filter (\<lambda>x. Q x) (filter P xs)))
     + (sum_list (map f (filter (\<lambda>x. \<not> Q x) (filter P xs))) :: 'b :: comm_monoid_add)"
  by (induction xs) (auto simp: ac_simps)

lemma sum_list_pick:
  assumes "distinct (map key rs)" and "k \<in> key ` set rs"
  shows "sum_list (map (\<lambda>r. if k = key r then x else (0 :: 'm :: comm_monoid_add)) rs) = x"
  using assms
proof (induction rs)
  case Nil
  then show ?case by simp
next
  case (Cons r rs)
  show ?case
  proof (cases "k = key r")
    case True
    have "map (\<lambda>r. if k = key r then x else 0) rs = map (\<lambda>r. 0) rs"
      using Cons.prems(1) True by (auto intro: rev_image_eqI)
    then have "sum_list (map (\<lambda>r. if k = key r then x else 0) rs) = sum_list (map (\<lambda>r. 0) rs)"
      by (rule arg_cong)
    with True show ?thesis by simp
  next
    case False
    with Cons show ?thesis by auto
  qed
qed

text \<open>
  Grouping lines by the row they point to and adding up the groups is adding up the lines:
  the double entry argument of the trial balance, and of every total over a header's lines.
\<close>

lemma sum_join:
  fixes f :: "'l \<Rightarrow> 'm :: comm_monoid_add"
  assumes "distinct (map key rs)" and "\<And>l. l \<in> set ls \<Longrightarrow> g l \<in> key ` set rs"
  shows "sum_list (map (\<lambda>r. sum_list (map f (filter (\<lambda>l. g l = key r) ls))) rs)
    = sum_list (map f ls)"
  using assms(2)
proof (induction ls)
  case Nil
  show ?case by simp
next
  case (Cons l ls)
  have "sum_list (map (\<lambda>r. sum_list (map f (filter (\<lambda>l. g l = key r) (l # ls)))) rs)
      = sum_list (map (\<lambda>r. (if g l = key r then f l else 0)
          + sum_list (map f (filter (\<lambda>l. g l = key r) ls))) rs)"
    by (rule arg_cong [where f = sum_list]) (auto intro!: map_cong)
  also have "\<dots> = sum_list (map (\<lambda>r. if g l = key r then f l else 0) rs) + sum_list (map f ls)"
    using Cons by (simp add: sum_list_addf)
  also have "sum_list (map (\<lambda>r. if g l = key r then f l else 0) rs) = f l"
    using Cons.prems by (intro sum_list_pick assms(1)) auto
  finally show ?case by simp
qed

section \<open>Interfaces\<close>

text \<open>
  The contract of a repository (backend/app/db/repository.py): \<open>get\<close>, \<open>create\<close> and \<open>update\<close> of
  one table of the session. A row keeps its key; a row is found after it is created; an
  update changes the row it names and no other.
\<close>

locale keyed_table =
  fixes lookup :: "'k \<Rightarrow> 's \<Rightarrow> 'r option"
    and create :: "'r \<Rightarrow> 's \<Rightarrow> 's"
    and update :: "'k \<Rightarrow> ('r \<Rightarrow> 'r) \<Rightarrow> 's \<Rightarrow> 's"
    and key :: "'r \<Rightarrow> 'k"
  assumes lookup_key: "lookup k s = Some r \<Longrightarrow> key r = k"
    and lookup_create: "lookup k (create r s)
      = (case lookup k s of Some x \<Rightarrow> Some x | None \<Rightarrow> if key r = k then Some r else None)"
    and lookup_update: "(\<And>r. key (f r) = key r) \<Longrightarrow>
      lookup k (update j f s) = (if k = j then map_option f (lookup k s) else lookup k s)"
begin

lemma created_found: "lookup (key r) s = None \<Longrightarrow> lookup (key r) (create r s) = Some r"
  by (simp add: lookup_create)

lemma create_keeps: "lookup k s = Some x \<Longrightarrow> lookup k (create r s) = Some x"
  by (simp add: lookup_create)

lemma create_other: "key r \<noteq> k \<Longrightarrow> lookup k (create r s) = lookup k s"
  by (simp add: lookup_create split: option.splits)

lemma updated_found:
  "(\<And>r. key (f r) = key r) \<Longrightarrow> lookup k s = Some r \<Longrightarrow> lookup k (update k f s) = Some (f r)"
  by (simp add: lookup_update)

lemma update_other:
  "(\<And>r. key (f r) = key r) \<Longrightarrow> k \<noteq> j \<Longrightarrow> lookup k (update j f s) = lookup k s"
  by (simp add: lookup_update)

end

text \<open>
  The contract of an operation that takes a document out of its draft state (issue, confirm):
  it runs only on a draft and leaves none behind, so it never takes effect twice.
\<close>

locale draft_gate =
  fixes run :: "'s \<Rightarrow> err + 's"
    and status :: "'s \<Rightarrow> 'st option"
    and draft :: 'st
  assumes run_needs_draft: "run s = Inr s' \<Longrightarrow> status s = Some draft"
    and run_leaves_draft: "run s = Inr s' \<Longrightarrow> status s' \<noteq> Some draft"
begin

lemma refused_unless_draft: "status s \<noteq> Some draft \<Longrightarrow> \<exists>e. run s = Inl e"
  using run_needs_draft by (cases "run s") auto

lemma runs_once: "run s = Inr s' \<Longrightarrow> \<exists>e. run s' = Inl e"
  by (intro refused_unless_draft run_leaves_draft)

text \<open>Whatever else happens in between, as long as nothing makes the document a draft again.\<close>

lemma runs_once_later:
  assumes "run s = Inr s'" and "foldE f xs s' = Inr t"
    and "\<And>x u u'. f x u = Inr u' \<Longrightarrow> status u \<noteq> Some draft \<Longrightarrow> status u' \<noteq> Some draft"
  shows "\<exists>e. run t = Inl e"
proof (rule refused_unless_draft)
  show "status t \<noteq> Some draft"
    by (rule foldE_inv [OF assms(2), where P = "\<lambda>u. status u \<noteq> Some draft"])
      (use assms(1,3) run_leaves_draft in auto)
qed

end

text \<open>
  The contract of bookings against a fixed amount: a step books its amount, is refused when
  the amount does not fit, and does not change the amount it is booked against.
\<close>

locale allocation_book =
  fixes step :: "'r \<Rightarrow> 's \<Rightarrow> err + 's"
    and booked :: "'s \<Rightarrow> 'n :: ordered_ab_group_add"
    and cap :: "'s \<Rightarrow> 'n"
    and amount :: "'r \<Rightarrow> 'n"
  assumes step_books: "step r s = Inr s' \<Longrightarrow> booked s' = booked s + amount r"
    and step_fits: "step r s = Inr s' \<Longrightarrow> booked s + amount r \<le> cap s"
    and step_cap: "step r s = Inr s' \<Longrightarrow> cap s' = cap s"
begin

lemma step_within: "step r s = Inr s' \<Longrightarrow> booked s' \<le> cap s'"
  by (simp add: step_books step_fits step_cap)

lemma refused_beyond: "\<not> booked s + amount r \<le> cap s \<Longrightarrow> \<exists>e. step r s = Inl e"
  using step_fits by (cases "step r s") auto

lemma steps_book:
  "foldE step rs s = Inr s' \<Longrightarrow> booked s' = booked s + sum_list (map amount rs) \<and> cap s' = cap s"
proof (induction rs arbitrary: s)
  case (Cons r rs)
  then obtain t where "step r s = Inr t" "foldE step rs t = Inr s'"
    by (auto simp: ok_simps)
  with Cons.IH [of t] show ?case
    by (simp add: step_books step_cap add.assoc)
qed simp

lemma steps_within:
  "foldE step rs s = Inr s' \<Longrightarrow> booked s \<le> cap s \<Longrightarrow> booked s' \<le> cap s'"
  by (rule foldE_inv [where P = "\<lambda>s. booked s \<le> cap s"]) (auto intro: step_within)

end

end
