(* ===== verification/Numbering.thy ===== *)
theory Numbering
  imports Prelude
begin

text \<open>
  Calendar dates and document numbers. A date is its proleptic Gregorian ordinal (Python's
  \<open>date.toordinal()\<close>; day 1 is 1 January of year 1), so comparing dates and subtracting them in
  days is arithmetic; \<open>year_of\<close> and \<open>ymd2ord\<close> are the standard library's conversions.
  A document number is \<open>prefix-year-00001\<close>, as \<open>_next_entry_no\<close> of ledger/posting.py,
  \<open>_next_doc_number\<close> of payables/service.py and the \<open>generate_*_no\<close> methods format it;
  \<open>doc_no_inject\<close> shows that the format loses nothing.
\<close>

section \<open>Dates\<close>

type_synonym date = nat

definition year_of :: "date \<Rightarrow> nat" where
  "year_of d =
     (let n = d - 1; n400 = n div 146097; r400 = n mod 146097;
          n100 = r400 div 36524; r100 = r400 mod 36524;
          n4 = r100 div 1461; r4 = r100 mod 1461;
          n1 = r4 div 365;
          y = n400 * 400 + 1 + n100 * 100 + n4 * 4 + n1
      in if n1 = 4 \<or> n100 = 4 then y - 1 else y)"

definition is_leap :: "nat \<Rightarrow> bool" where
  "is_leap y = (y mod 4 = 0 \<and> (y mod 100 \<noteq> 0 \<or> y mod 400 = 0))"

definition days_before_month :: "nat \<Rightarrow> nat \<Rightarrow> nat" where
  "days_before_month y m =
     [0, 31, 59, 90, 120, 151, 181, 212, 243, 273, 304, 334] ! (m - 1)
     + (if m > 2 \<and> is_leap y then 1 else 0)"

definition ymd2ord :: "nat \<Rightarrow> nat \<Rightarrow> nat \<Rightarrow> date" where
  "ymd2ord y m d =
     (y - 1) * 365 + (y - 1) div 4 - (y - 1) div 100 + (y - 1) div 400
     + days_before_month y m + d"

lemma year_of_examples:
  "ymd2ord 2024 12 31 = 739251" "year_of 739251 = 2024" "year_of 739252 = 2025"
  "year_of 1 = 1" "year_of 366 = 2"
  by (simp_all add: ymd2ord_def days_before_month_def is_leap_def year_of_def Let_def)

section \<open>Decimal numerals\<close>

definition digit_char :: "nat \<Rightarrow> char" where
  "digit_char d = char_of (48 + d)"

fun dec :: "nat \<Rightarrow> string" where
  "dec n = (if n < 10 then [digit_char n] else dec (n div 10) @ [digit_char (n mod 10)])"

declare dec.simps [simp del]

text \<open>Python's \<open>{n:05d}\<close>: zeros on the left up to width 5.\<close>

definition pad5 :: "nat \<Rightarrow> string" where
  "pad5 n = replicate (5 - length (dec n)) (CHR ''0'') @ dec n"

definition undec :: "string \<Rightarrow> nat" where
  "undec = foldl (\<lambda>a c. a * 10 + (of_char c - 48)) 0"

lemma of_char_digit [simp]: "d < 10 \<Longrightarrow> (of_char (digit_char d) :: nat) = 48 + d"
  by (simp add: digit_char_def)

lemma digit_char_eval [simp]:
  "digit_char 0 = CHR ''0''" "digit_char 1 = CHR ''1''" "digit_char 2 = CHR ''2''"
  "digit_char 3 = CHR ''3''" "digit_char 4 = CHR ''4''" "digit_char 5 = CHR ''5''"
  "digit_char 6 = CHR ''6''" "digit_char 7 = CHR ''7''" "digit_char 8 = CHR ''8''"
  "digit_char 9 = CHR ''9''"
  by code_simp+

lemma doc_no_example_digits: "dec 2024 = ''2024''" "pad5 7 = ''00007''"
  by code_simp+

lemma undec_dec [simp]: "undec (dec n) = n"
proof (induction n rule: dec.induct)
  case (1 n)
  show ?case
  proof (cases "n < 10")
    case True
    then show ?thesis by (subst dec.simps) (simp add: undec_def)
  next
    case False
    with 1 show ?thesis by (subst dec.simps) (simp add: undec_def)
  qed
qed

lemma undec_zeros: "undec (replicate k (CHR ''0'') @ s) = undec s"
  by (induction k) (auto simp: undec_def)

lemma undec_pad5 [simp]: "undec (pad5 n) = n"
  by (simp add: pad5_def undec_zeros)

lemma dec_inject [simp]: "(dec m = dec n) = (m = n)"
  by (metis undec_dec)

lemma pad5_inject [simp]: "(pad5 m = pad5 n) = (m = n)"
  by (metis undec_pad5)

lemma digit_char_not_dash: "d < 10 \<Longrightarrow> digit_char d \<noteq> CHR ''-''"
proof
  assume "d < 10" "digit_char d = CHR ''-''"
  then have "(of_char (CHR ''-'') :: nat) = 48 + d" by (metis of_char_digit)
  then show False by simp
qed

lemma dash_notin_dec: "CHR ''-'' \<notin> set (dec n)"
proof (induction n rule: dec.induct)
  case (1 n)
  show ?case
  proof (cases "n < 10")
    case True
    then show ?thesis by (subst dec.simps) (auto dest: digit_char_not_dash)
  next
    case False
    with 1 show ?thesis
      by (subst dec.simps) (use digit_char_not_dash [of "n mod 10"] in auto)
  qed
qed

section \<open>Document numbers\<close>

definition doc_no :: "string \<Rightarrow> nat \<Rightarrow> nat \<Rightarrow> string" where
  "doc_no prefix fy n = prefix @ ''-'' @ dec fy @ ''-'' @ pad5 n"

lemma zeros_eval [evals]:
  "replicate (Suc 0) (CHR ''0'') = ''0''" "replicate 2 (CHR ''0'') = ''00''"
  "replicate 3 (CHR ''0'') = ''000''" "replicate 4 (CHR ''0'') = ''0000''"
  "digit_char (Suc 0) = CHR ''1''"
  using digit_char_eval(2) by (simp_all add: eval_nat_numeral)

lemma dec_eval [evals]:
  "dec (numeral k) = (if (numeral k :: nat) < 10 then [digit_char (numeral k)]
     else dec (numeral k div 10) @ [digit_char (numeral k mod 10)])"
  "dec 0 = ''0''" "dec (Suc 0) = ''1''"
proof -
  show "dec (numeral k) = (if (numeral k :: nat) < 10 then [digit_char (numeral k)]
     else dec (numeral k div 10) @ [digit_char (numeral k mod 10)])"
    by (rule dec.simps)
  show "dec 0 = ''0''" by (subst dec.simps) simp
  show "dec (Suc 0) = ''1''" by (subst dec.simps) (simp flip: One_nat_def)
qed

declare year_of_def [evals] is_leap_def [evals] days_before_month_def [evals] ymd2ord_def [evals]
  pad5_def [evals] doc_no_def [evals]

lemma split_at_dash:
  assumes "xs @ c # ys = xs' @ c # ys'" and "c \<notin> set xs" and "c \<notin> set xs'"
  shows "xs = xs' \<and> ys = ys'"
  using assms
proof (induction xs arbitrary: xs')
  case Nil
  then show ?case by (cases xs') auto
next
  case (Cons x xs)
  then show ?case by (cases xs') auto
qed

lemma doc_no_inject:
  assumes "CHR ''-'' \<notin> set p" and "CHR ''-'' \<notin> set q"
  shows "(doc_no p y n = doc_no q z m) = (p = q \<and> y = z \<and> n = m)"
proof
  assume "doc_no p y n = doc_no q z m"
  then have "p @ CHR ''-'' # (dec y @ CHR ''-'' # pad5 n)
      = q @ CHR ''-'' # (dec z @ CHR ''-'' # pad5 m)"
    by (simp add: doc_no_def)
  from split_at_dash [OF this assms]
  have "p = q" and "dec y @ CHR ''-'' # pad5 n = dec z @ CHR ''-'' # pad5 m"
    by auto
  from split_at_dash [OF this(2) dash_notin_dec dash_notin_dec] this(1)
  show "p = q \<and> y = z \<and> n = m" by simp
qed simp

section \<open>Numbers by counting\<close>

text \<open>
  The \<open>generate_*_no\<close> methods of the repositories: one more than the number of rows that were
  created in the current year. No row of these tables is ever deleted, so the rows of a year
  carry the numbers 1, 2, 3, ... (\<open>counted_ok\<close>) and the next number is free.
\<close>

definition generate_no :: "string \<Rightarrow> ('r \<Rightarrow> nat) \<Rightarrow> 'r list \<Rightarrow> nat \<Rightarrow> string" where
  "generate_no prefix created_year rows year =
     (let count = length (filter (\<lambda>r. created_year r = year) rows) + 1
      in doc_no prefix year count)"

definition counted_ok :: "string \<Rightarrow> ('r \<Rightarrow> nat) \<Rightarrow> ('r \<Rightarrow> string) \<Rightarrow> 'r list \<Rightarrow> bool" where
  "counted_ok prefix created_year no rows = (\<forall>r\<in>set rows. no r \<in> doc_no prefix (created_year r) `
     {1..length (filter (\<lambda>q. created_year q = created_year r) rows)})"

declare generate_no_def [evals]

lemma counted_ok_Nil [simp]: "counted_ok prefix c no []"
  by (simp add: counted_ok_def)

lemma generate_no_fresh:
  assumes "counted_ok prefix c no rows" and "CHR ''-'' \<notin> set prefix"
  shows "generate_no prefix c rows y \<notin> no ` set rows"
proof
  assume "generate_no prefix c rows y \<in> no ` set rows"
  then obtain r where r: "r \<in> set rows" "no r = generate_no prefix c rows y" by force
  with assms(1) obtain k where "no r = doc_no prefix (c r) k"
    "k \<le> length (filter (\<lambda>q. c q = c r) rows)"
    by (force simp: counted_ok_def)
  with r(2) show False
    by (auto simp: generate_no_def Let_def doc_no_inject [OF assms(2) assms(2)])
qed

lemma counted_ok_add:
  assumes "counted_ok prefix c no rows" and "no r = generate_no prefix c rows (c r)"
  shows "counted_ok prefix c no (rows @ [r])"
  unfolding counted_ok_def
proof
  fix x assume "x \<in> set (rows @ [r])"
  then consider "x \<in> set rows" | "x = r" by auto
  then show "no x \<in> doc_no prefix (c x) ` {1..length (filter (\<lambda>q. c q = c x) (rows @ [r]))}"
  proof cases
    case 1
    with assms(1) have "no x \<in> doc_no prefix (c x) ` {1..length (filter (\<lambda>q. c q = c x) rows)}"
      by (simp add: counted_ok_def)
    then show ?thesis by (auto simp: image_iff intro: bexI)
  next
    case 2
    with assms(2) show ?thesis by (auto simp: generate_no_def Let_def)
  qed
qed

text \<open>An update that keeps the number and the year of creation keeps the numbering.\<close>

lemma counted_ok_upd:
  assumes "\<And>r. no (f r) = no r" and "\<And>r. c (f r) = c r"
  shows "counted_ok prefix c no (upd_by key k f rows) = counted_ok prefix c no rows"
proof -
  have "length (filter (\<lambda>q. c q = y) (upd_by key k f rs)) = length (filter (\<lambda>q. c q = y) rs)" for y rs
    by (induction rs) (auto simp: assms(2))
  then show ?thesis
    unfolding counted_ok_def by (subst ball_upd_by) (simp_all add: assms)
qed

end
