(* ===== verification/Money.thy ===== *)
theory Money
  imports Complex_Main Prelude
begin

text \<open>
  backend/app/core/money.py: every monetary column is NUMERIC(19,4), quantities NUMERIC(12,2)
  and rates NUMERIC(19,8). A \<open>Decimal\<close> is a rational; \<open>quantize\<close> is
  \<open>Decimal.quantize(..., ROUND_HALF_UP)\<close>, which rounds a tie away from zero, as PostgreSQL does
  when it stores a value in a NUMERIC column. The model has no limit on the number of digits
  (the code's decimal context has 28 and its columns 19), and it starts from a \<open>Decimal\<close>: the
  conversion of text or of a float is not modelled.
\<close>

section \<open>Definitions\<close>

definition round_half_up :: "rat \<Rightarrow> int" where
  "round_half_up x = (if x \<ge> 0 then \<lfloor>x + 1 / 2\<rfloor> else - \<lfloor>- x + 1 / 2\<rfloor>)"

definition quantize :: "nat \<Rightarrow> rat \<Rightarrow> rat" where
  "quantize places x = of_int (round_half_up (x * 10 ^ places)) / 10 ^ places"

definition money :: "rat \<Rightarrow> rat" where
  "money amount = quantize 4 amount"

definition money_zero :: rat where
  "money_zero = quantize 4 0"

definition money_sum :: "rat list \<Rightarrow> rat" where
  "money_sum xs = money (foldl (+) 0 xs)"

definition money_round :: "rat \<Rightarrow> nat \<Rightarrow> rat" where
  "money_round d places = quantize places d"

definition fx_rate :: "rat \<Rightarrow> rat" where
  "fx_rate rate = quantize 8 rate"

definition qty :: "rat \<Rightarrow> rat" where
  "qty quantity = quantize 2 quantity"

text \<open>A value with at most \<open>p\<close> decimal places.\<close>

definition quantized :: "nat \<Rightarrow> rat \<Rightarrow> bool" where
  "quantized p x = (x * 10 ^ p \<in> \<int>)"

abbreviation is_money :: "rat \<Rightarrow> bool" where
  "is_money \<equiv> quantized 4"

declare round_half_up_def [evals] quantize_def [evals] money_def [evals] money_sum_def [evals]
  fx_rate_def [evals] qty_def [evals]

text \<open>Floors of numeral fractions, for evaluation.\<close>

lemma floor_rat_eval [simp]:
  "\<lfloor>(numeral a :: rat) / numeral b\<rfloor> = numeral a div numeral b"
  "\<lfloor>(1 :: rat) / numeral b\<rfloor> = 1 div numeral b"
proof -
  show "\<lfloor>(numeral a :: rat) / numeral b\<rfloor> = numeral a div numeral b"
    by (metis floor_divide_of_int_eq of_int_numeral)
  show "\<lfloor>(1 :: rat) / numeral b\<rfloor> = 1 div numeral b"
    by (metis floor_divide_of_int_eq of_int_numeral of_int_1)
qed

section \<open>Rounding\<close>

lemma round_half_up_of_int [simp]: "round_half_up (of_int k) = k"
proof -
  have "\<lfloor>of_int k + 1 / 2 :: rat\<rfloor> = k" for k by linarith
  moreover have "\<lfloor>- of_int k + 1 / 2 :: rat\<rfloor> = - k" by linarith
  ultimately show ?thesis by (simp add: round_half_up_def)
qed

lemma round_half_up_minus: "round_half_up (- x) = - round_half_up x"
proof (cases "x = 0")
  case True
  then show ?thesis using round_half_up_of_int [of 0] by simp
next
  case False
  then show ?thesis by (auto simp: round_half_up_def)
qed

lemma round_half_up_error: "\<bar>of_int (round_half_up x) - x\<bar> \<le> 1 / 2"
proof (cases "x \<ge> 0")
  case True
  have "\<bar>of_int \<lfloor>x + 1 / 2\<rfloor> - x\<bar> \<le> 1 / 2" by linarith
  with True show ?thesis by (simp add: round_half_up_def)
next
  case False
  have "\<bar>- of_int \<lfloor>- x + 1 / 2\<rfloor> - x\<bar> \<le> 1 / 2" by linarith
  with False show ?thesis by (simp add: round_half_up_def)
qed

lemma round_half_up_mono: "x \<le> y \<Longrightarrow> round_half_up x \<le> round_half_up y"
  unfolding round_half_up_def by (auto simp: floor_mono; linarith)

lemma round_half_up_tie: "0 \<le> k \<Longrightarrow> round_half_up (of_int k + 1 / 2) = k + 1"
  unfolding round_half_up_def by (auto; linarith)

lemma quantized_quantize [simp]: "quantized p (quantize p x)"
  by (simp add: quantized_def quantize_def)

lemma quantize_quantized: "quantized p x \<Longrightarrow> quantize p x = x"
  by (auto simp: quantized_def quantize_def field_simps elim!: Ints_cases)

lemma quantize_idem [simp]: "quantize p (quantize p x) = quantize p x"
  by (rule quantize_quantized) simp

lemma quantize_minus: "quantize p (- x) = - quantize p x"
  by (simp add: quantize_def round_half_up_minus)

lemma quantize_error: "\<bar>quantize p x - x\<bar> \<le> 1 / (2 * 10 ^ p)"
proof -
  have "quantize p x - x = (of_int (round_half_up (x * 10 ^ p)) - x * 10 ^ p) / 10 ^ p"
    by (simp add: quantize_def field_simps)
  then have "\<bar>quantize p x - x\<bar> = \<bar>of_int (round_half_up (x * 10 ^ p)) - x * 10 ^ p\<bar> / 10 ^ p"
    by simp
  also have "\<dots> \<le> (1 / 2) / 10 ^ p"
    by (rule divide_right_mono [OF round_half_up_error]) simp
  finally show ?thesis by simp
qed

lemma quantize_mono: "x \<le> y \<Longrightarrow> quantize p x \<le> quantize p y"
  by (simp add: quantize_def divide_right_mono round_half_up_mono)

lemma quantize_zero [simp]: "quantize p 0 = 0"
  using round_half_up_of_int [of 0] by (simp add: quantize_def)

lemma quantize_nonneg: "0 \<le> x \<Longrightarrow> 0 \<le> quantize p x"
  using quantize_mono [of 0 x p] by simp

section \<open>Quantized values\<close>

lemma quantized_0 [simp, intro]: "quantized p 0"
  by (simp add: quantized_def)

lemma quantized_1 [simp, intro]: "quantized p 1"
proof -
  have "(10 :: rat) ^ p = of_int (10 ^ p)" by simp
  then show ?thesis unfolding quantized_def by (metis Ints_of_int mult_1)
qed

lemma quantized_add [intro]: "quantized p x \<Longrightarrow> quantized p y \<Longrightarrow> quantized p (x + y)"
  by (simp add: quantized_def distrib_right)

lemma quantized_minus [simp]: "quantized p (- x) = quantized p x"
  by (simp add: quantized_def)

lemma quantized_diff [intro]: "quantized p x \<Longrightarrow> quantized p y \<Longrightarrow> quantized p (x - y)"
  by (simp add: quantized_def left_diff_distrib)

lemma quantized_sum_list:
  "(\<And>x. x \<in> set xs \<Longrightarrow> quantized p x) \<Longrightarrow> quantized p (sum_list xs)"
  by (induction xs) auto

lemma foldl_plus_sum_list: "foldl (+) (a :: rat) xs = a + sum_list xs"
  by (induction xs arbitrary: a) (auto simp: add.assoc)

lemma money_quantized [simp]: "is_money (money x)"
  by (simp add: money_def)

lemma money_is_money: "is_money x \<Longrightarrow> money x = x"
  by (simp add: money_def quantize_quantized)

lemma money_0 [simp]: "money 0 = 0"
  by (simp add: money_def)

lemma money_zero_0 [simp]: "money_zero = 0"
  by (simp add: money_zero_def)

lemma money_minus: "money (- x) = - money x"
  by (simp add: money_def quantize_minus)

lemma money_mono: "x \<le> y \<Longrightarrow> money x \<le> money y"
  by (simp add: money_def quantize_mono)

lemma money_nonneg: "0 \<le> x \<Longrightarrow> 0 \<le> money x"
  by (simp add: money_def quantize_nonneg)

lemma money_error: "\<bar>money x - x\<bar> \<le> 1 / 20000"
  using quantize_error [of 4 x] by (simp add: money_def)

lemma money_sum_money: "money_sum xs = money (sum_list xs)"
  by (simp add: money_sum_def foldl_plus_sum_list)

lemma money_sum_is_money: "(\<And>x. x \<in> set xs \<Longrightarrow> is_money x) \<Longrightarrow> money_sum xs = sum_list xs"
  by (simp add: money_sum_money money_is_money quantized_sum_list)

lemma is_money_numeral [simp]:
  "is_money (numeral n)"
  "(numeral m :: int) dvd 10000 \<Longrightarrow> is_money (numeral n / numeral m)"
proof -
  have "(numeral n :: rat) * 10 ^ 4 = of_int (numeral n * 10000)" by simp
  then show "is_money (numeral n)" unfolding quantized_def by (metis Ints_of_int)
next
  assume "(numeral m :: int) dvd 10000"
  then obtain k where "(10000 :: int) = numeral m * k" by (elim dvdE)
  then have k: "(10000 :: rat) = numeral m * of_int k"
    by (metis of_int_mult of_int_numeral)
  have "(numeral n :: rat) / numeral m * 10 ^ 4 = (numeral n / numeral m) * (numeral m * of_int k)"
    using k by simp
  also have "\<dots> = of_int (numeral n * k)" by simp
  finally show "is_money (numeral n / numeral m)" unfolding quantized_def by (metis Ints_of_int)
qed

end
