(* ===== verification/Session.thy ===== *)
theory Session
  imports Numbering Money
begin

text \<open>
  The database session every service works on: the identifiers still unused, the calendar day
  (\<open>date.today()\<close>), the contacts table (backend/app/modules/contacts/models.py, the columns the
  ERP reads, and the column \<open>credit_limit\<close> that migration erp0_d_contacts_finance.py adds), the number sequences (ledger/models.py) and the audit log. The ERP components
  extend this record with their own tables, so a component cannot touch a table it does not
  declare or import. A new row gets the identifier \<open>next_id\<close>: \<open>gen_random_uuid()\<close> never returns
  an identifier that is in use.
\<close>

record contact =
  c_id :: uuid
  c_name :: "string option"
  c_credit_limit :: "rat option"

record audit_row =
  au_actor_type :: string
  au_actor_id :: "uuid option"
  au_action :: string
  au_entity_type :: string
  au_entity_id :: "uuid option"

record session =
  next_id :: uuid
  today :: date
  contacts :: "contact list"
  sequences :: "string \<times> nat \<Rightarrow> nat option"
  audit_log :: "audit_row list"

definition get_contact :: "uuid \<Rightarrow> 'a session_scheme \<Rightarrow> contact option" where
  "get_contact i s = get_by c_id i (contacts s)"

definition fresh_id :: "'a session_scheme \<Rightarrow> uuid \<times> 'a session_scheme" where
  "fresh_id s = (next_id s, s\<lparr>next_id := Suc (next_id s)\<rparr>)"

text \<open>\<open>AuditRepository.append\<close>: the JSON snapshots of the row are left out.\<close>

definition audit_append :: "audit_row \<Rightarrow> 'a session_scheme \<Rightarrow> 'a session_scheme" where
  "audit_append r s = s\<lparr>audit_log := audit_log s @ [r]\<rparr>"

text \<open>
  The body \<open>_next_entry_no\<close> and \<open>_next_doc_number\<close> share: lock the row of the document type
  and year, create it at the first use, return its value and store the next one.
\<close>

definition alloc_number :: "string \<Rightarrow> nat \<Rightarrow> 'a session_scheme \<Rightarrow> nat \<times> 'a session_scheme" where
  "alloc_number doc_type fy s =
     (case sequences s (doc_type, fy) of
        None \<Rightarrow> (1, s\<lparr>sequences := (sequences s)((doc_type, fy) \<mapsto> 2)\<rparr>)
      | Some next_val \<Rightarrow>
          (next_val, s\<lparr>sequences := (sequences s)((doc_type, fy) \<mapsto> next_val + 1)\<rparr>))"

definition next_value :: "string \<Rightarrow> nat \<Rightarrow> 'a session_scheme \<Rightarrow> nat" where
  "next_value doc_type fy s = (case sequences s (doc_type, fy) of None \<Rightarrow> 1 | Some n \<Rightarrow> n)"

declare get_contact_def [evals] fresh_id_def [evals] audit_append_def [evals] alloc_number_def [evals]
  next_value_def [evals]

lemma alloc_number_eq:
  "alloc_number doc_type fy s =
     (next_value doc_type fy s,
      s\<lparr>sequences := (sequences s)((doc_type, fy) \<mapsto> Suc (next_value doc_type fy s))\<rparr>)"
  by (simp add: alloc_number_def next_value_def numeral_2_eq_2 split: option.splits)

lemma next_value_upd [simp]:
  "next_value t y (s\<lparr>sequences := (sequences s)((t', y') \<mapsto> n)\<rparr>)
     = (if (t', y') = (t, y) then n else next_value t y s)"
  by (auto simp: next_value_def)

lemma next_value_update_cong:
  "sequences s' = sequences s \<Longrightarrow> next_value t y s' = next_value t y s"
  by (simp add: next_value_def)

end
