(* ===== verification/Strings.thy ===== *)
theory Strings
  imports Prelude "HOL-Library.Sublist"
begin

text \<open>
  The methods of Python's \<open>str\<close> the components use, on code points below 256 (a \<open>char\<close> of this logic);
  \<open>lower\<close> is \<open>str.lower\<close> on the ASCII letters.
\<close>

fun split_on :: "char \<Rightarrow> string \<Rightarrow> string list" where
  "split_on c [] = [[]]"
| "split_on c (x # xs) =
     (if x = c then [] # split_on c xs
      else case split_on c xs of [] \<Rightarrow> [[x]] | w # ws \<Rightarrow> (x # w) # ws)"

definition py_space :: "char \<Rightarrow> bool" where
  "py_space c = ((of_char c :: nat) \<in> {9, 10, 11, 12, 13, 28, 29, 30, 31, 32, 133, 160})"

definition strip :: "string \<Rightarrow> string" where
  "strip w = rev (dropWhile py_space (rev (dropWhile py_space w)))"

definition lower_char :: "char \<Rightarrow> char" where
  "lower_char c = (if (of_char c :: nat) \<in> {65..90} then char_of ((of_char c :: nat) + 32) else c)"

definition lower :: "string \<Rightarrow> string" where
  "lower w = map lower_char w"

definition ascii_digit :: "char \<Rightarrow> bool" where
  "ascii_digit c = ((of_char c :: nat) \<in> {48..57})"

definition join :: "string \<Rightarrow> string list \<Rightarrow> string" where
  "join sep ws = (case ws of [] \<Rightarrow> [] | w # rest \<Rightarrow> w @ concat (map (\<lambda>v. sep @ v) rest))"

text \<open>\<open>needle in text\<close>\<close>

definition contains :: "string \<Rightarrow> string \<Rightarrow> bool" where
  "contains needle text = sublist needle text"

lemma strip_empty [simp]: "strip [] = []"
  by (simp add: strip_def)

lemma join_simps [simp]: "join sep [] = []" "join sep [w] = w"
  "join sep (w # v # ws) = w @ sep @ join sep (v # ws)"
  by (simp_all add: join_def)

lemmas string_evals = py_space_def strip_def lower_char_def lower_def ascii_digit_def join_def

declare string_evals [evals]

end
