(* ===== verification/Crm.thy ===== *)
theory Crm
  imports Session Strings
begin

text \<open>
  The tables of the CRM side (the models.py and constants.py of backend/app/modules/auth, contacts,
  conversations, messaging, media, templates, campaigns, categorization, settings) as one state
  record. It extends the database session; the ERP's view of the contacts (\<open>contacts\<close>) is another
  projection of the same table and is not used here.

  \<open>clock\<close> is \<open>datetime.now(UTC)\<close> and the database's \<open>now()\<close>, in microseconds since the epoch.
  \<open>published\<close> is the log of the domain events sent, by name and entity; \<open>task_queue\<close> the Celery tasks
  enqueued, in order; \<open>redis_keys\<close> the keys set in Redis (their expiry is not modelled) and
  \<open>redis_counters\<close> its counters, 0 for a key that is not set. Where a query orders by a time that may tie, or takes one row of
  several without an order, \<open>row_choice\<close> gives the position it takes. JSON snapshots of audit rows,
  titles, costs and file contents are left out.
\<close>

section \<open>Enumerations\<close>

datatype conv_state = CS_NEW | CS_AI_ACTIVE | CS_AWAITING_APPROVAL | CS_HUMAN_ASSIGNED | CS_AI_PAUSED | CS_CLOSED

datatype outreach_state = OS_PENDING | OS_OUTREACH_SENT | OS_COLD_FOLLOWUP_SENT | OS_REENGAGE_1 | OS_REENGAGE_2
  | OS_RESCUE_1 | OS_RESCUE_2 | OS_CONVERTED | OS_UNRESPONSIVE | OS_UNDELIVERABLE | OS_SUPPRESSED

datatype message_direction = INBOUND | OUTBOUND

datatype sender_type = SENDER_CONTACT | SENDER_AGENT | SENDER_AI | SENDER_SYSTEM

datatype delivery_status = MSG_PENDING | MSG_DRAFT | MSG_QUEUED | MSG_SENT | MSG_DELIVERED | MSG_READ | MSG_FAILED

datatype contact_status = CT_ACTIVE | CT_INACTIVE | CT_BLOCKED | CT_CONTACTED | CT_FOLLOW_UP | CT_INTERESTED
  | CT_NOT_INTERESTED

datatype campaign_status = CP_DRAFT | CP_VALIDATING | CP_SCHEDULED | CP_QUEUED | CP_DISPATCHING | CP_COMPLETED
  | CP_FAILED | CP_CANCELLED

datatype campaign_type = CT_IMMEDIATE | CT_SCHEDULED | CT_RECURRING

datatype recipient_status = CR_PENDING | CR_SENT | CR_DELIVERED | CR_FAILED

datatype compliance_code = TEMPLATE_NOT_APPROVED | NO_RECIPIENTS | OUTSIDE_SESSION_WINDOW | INVALID_CRON
  | SCHEDULED_AT_IN_PAST

datatype template_status = TS_PENDING | TS_APPROVED | TS_REJECTED | TS_DISABLED

text \<open>The integer keys of Redis: the throttle of a campaign in a second, the sends of a local day.\<close>

datatype redis_counter = ThrottleKey uuid int | DailyCapKey int

section \<open>Tables\<close>

record user =
  us_id :: uuid
  us_role :: string
  us_is_active :: bool

record crm_contact =
  ct_id :: uuid
  ct_phone :: string
  ct_name :: "string option"
  ct_company :: "string option"
  ct_information :: "string option"
  ct_status :: contact_status
  ct_assigned_agent_id :: "uuid option"
  ct_ai_assigned :: bool
  ct_do_not_contact :: bool
  ct_marketing_opt_out :: bool
  ct_last_interaction_at :: "int option"
  ct_last_contacted_at :: "int option"
  ct_last_inbound_at :: "int option"

record conversation =
  cv_id :: uuid
  cv_contact_id :: uuid
  cv_state :: conv_state
  cv_outreach_state :: "outreach_state option"
  cv_ai_enabled :: bool
  cv_locked_by :: "uuid option"
  cv_lock_expires_at :: "int option"
  cv_last_message_at :: "int option"
  cv_last_read_at :: "int option"
  cv_created_at :: int
  cv_updated_at :: int

text \<open>
  The texts under the keys of \<open>deleted_by\<close>: an ISO time, which the code writes, and a UUID, with which
  it compares; no text is both.
\<close>

datatype deleted_mark = IsoTime int | UuidText uuid

record message =
  ms_id :: uuid
  ms_conversation_id :: uuid
  ms_direction :: message_direction
  ms_sender_type :: sender_type
  ms_content :: string
  ms_meta_message_id :: "string option"
  ms_delivery_status :: delivery_status
  ms_last_error :: "string option"
  ms_error_code :: "int option"
  ms_retry_count :: nat
  ms_delivery_retry_count :: nat
  ms_template_name :: "string option"
  ms_template_language :: "string option"
  ms_msg_type :: string
  ms_context_message_id :: "uuid option"
  ms_deleted_by :: "(string \<times> deleted_mark) list option"
  ms_deleted_for_everyone :: bool
  ms_created_at :: int

record media_asset =
  ma_id :: uuid
  ma_message_id :: "uuid option"
  ma_media_type :: string

record tag =
  tg_id :: uuid
  tg_name :: string
  tg_description :: "string option"
  tg_color :: "string option"

record contact_tag =
  ctg_contact_id :: uuid
  ctg_tag_id :: uuid
  ctg_approved_by :: "uuid option"

record template =
  tp_id :: uuid
  tp_name :: string
  tp_language :: string
  tp_status :: template_status
  tp_meta_template_id :: "string option"
  tp_body :: "string option"

record audience_filter =
  af_tags :: "uuid list"
  af_status :: "contact_status list"
  af_assigned_agent_id :: "uuid option"
  af_last_interaction_after :: "int option"
  af_last_interaction_before :: "int option"
  af_contact_ids :: "uuid list"

record campaign =
  cp_id :: uuid
  cp_template_id :: uuid
  cp_status :: campaign_status
  cp_type :: campaign_type
  cp_scheduled_at :: "int option"
  cp_cron_expression :: "string option"
  cp_next_run_at :: "int option"
  cp_last_run_at :: "int option"
  cp_audience_filter :: audience_filter
  cp_rate_limit_per_second :: "nat option"
  cp_validation_errors :: "compliance_code list"
  cp_started_at :: "int option"
  cp_completed_at :: "int option"
  cp_audience_count :: nat
  cp_sent_count :: nat
  cp_delivered_count :: nat
  cp_failed_count :: nat
  cp_response_count :: nat
  cp_category_id :: "uuid option"

record campaign_recipient =
  cr_id :: uuid
  cr_campaign_id :: uuid
  cr_contact_id :: uuid
  cr_message_id :: "uuid option"
  cr_status :: recipient_status
  cr_outreach_state :: "outreach_state option"
  cr_sent_at :: "int option"
  cr_delivered_at :: "int option"
  cr_failed_at :: "int option"
  cr_responded :: bool
  cr_attempt_count :: nat
  cr_error_message :: "string option"
  cr_error_code :: "int option"
  cr_meta_message_id :: "string option"
  cr_created_at :: int

text \<open>What a follow-up is given of the thread: nothing, the number of inbound messages, or the last messages.\<close>

datatype followup_context = NoContext | InboundCount nat
  | ThreadMessages "(message_direction \<times> sender_type \<times> string) list"

text \<open>
  The Celery tasks the modelled code enqueues, with their arguments and countdown in seconds, that of a
  follow-up in microseconds.
\<close>

datatype celery_task =
    SendOutbound uuid
  | ResetAndRetry uuid nat int
  | RequestAiReply uuid string
  | SendAiReply uuid uuid int
  | UpdateMemoryOnResume uuid
  | RequestMetaDeletion uuid
  | DispatchCampaign uuid
  | ProcessCampaignBatch uuid "uuid list"
  | CompleteCampaign uuid int
  | ScheduledFollowup uuid outreach_state followup_context bool int

record crm = session +
  clock :: int
  users :: "user list"
  crm_contacts :: "crm_contact list"
  conversations :: "conversation list"
  messages :: "message list"
  media_assets :: "media_asset list"
  tags :: "tag list"
  contact_tags :: "contact_tag list"
  templates :: "template list"
  campaigns :: "campaign list"
  campaign_recipients :: "campaign_recipient list"
  bool_settings :: "string \<Rightarrow> bool option"
  redis_keys :: "string list"
  redis_counters :: "redis_counter \<Rightarrow> nat"
  published :: "(string \<times> uuid) list"
  task_queue :: "celery_task list"
  row_choice :: "nat \<Rightarrow> nat"

section \<open>Access\<close>

definition microseconds :: "int \<Rightarrow> int" where
  "microseconds seconds = seconds * 1000000"

text \<open>\<open>ORDER BY <time> DESC LIMIT 1\<close>: one of the latest rows.\<close>

definition latest_by :: "('r \<Rightarrow> int) \<Rightarrow> 'r list \<Rightarrow> 'a crm_scheme \<Rightarrow> 'r option" where
  "latest_by time rs s =
     (let top = filter (\<lambda>r. \<forall>q\<in>set rs. time q \<le> time r) rs
      in if top = [] then None else Some (top ! (row_choice s (length top) mod length top)))"

lemma pick_mem: "xs \<noteq> [] \<Longrightarrow> xs ! (n mod length xs) \<in> set xs"
  by simp

lemma latest_by_Some:
  assumes "latest_by time rs s = Some r"
  shows "r \<in> set rs" "\<forall>q\<in>set rs. time q \<le> time r"
proof -
  define top where "top = filter (\<lambda>r. \<forall>q\<in>set rs. time q \<le> time r) rs"
  have "top \<noteq> []" "r = top ! (row_choice s (length top) mod length top)"
    using assms unfolding latest_by_def top_def [symmetric] by (simp_all add: Let_def split: if_splits)
  then have "r \<in> set top" using pick_mem by blast
  then show "r \<in> set rs" "\<forall>q\<in>set rs. time q \<le> time r" by (simp_all add: top_def)
qed

lemma latest_by_None: "(latest_by time rs s = None) = (rs = [])"
proof -
  have "\<exists>r\<in>set rs. \<forall>q\<in>set rs. time q \<le> time r" if "rs \<noteq> []"
  proof -
    have "Max (time ` set rs) \<in> time ` set rs" using that by simp
    then obtain r where "r \<in> set rs" "time r = Max (time ` set rs)" by auto
    then show ?thesis by (metis Max_ge finite_imageI finite_set imageI)
  qed
  then show ?thesis by (auto simp: latest_by_def Let_def filter_empty_conv)
qed

definition get_crm_contact :: "uuid \<Rightarrow> 'a crm_scheme \<Rightarrow> crm_contact option" where
  "get_crm_contact i s = get_by ct_id i (crm_contacts s)"

definition upd_contact :: "uuid \<Rightarrow> (crm_contact \<Rightarrow> crm_contact) \<Rightarrow> 'a crm_scheme \<Rightarrow> 'a crm_scheme" where
  "upd_contact i f s = s\<lparr>crm_contacts := upd_by ct_id i f (crm_contacts s)\<rparr>"

definition get_message :: "uuid \<Rightarrow> 'a crm_scheme \<Rightarrow> message option" where
  "get_message i s = get_by ms_id i (messages s)"

definition upd_message :: "uuid \<Rightarrow> (message \<Rightarrow> message) \<Rightarrow> 'a crm_scheme \<Rightarrow> 'a crm_scheme" where
  "upd_message i f s = s\<lparr>messages := upd_by ms_id i f (messages s)\<rparr>"

definition publish :: "string \<Rightarrow> uuid \<Rightarrow> 'a crm_scheme \<Rightarrow> 'a crm_scheme" where
  "publish event_name i s = s\<lparr>published := published s @ [(event_name, i)]\<rparr>"

definition enqueue :: "celery_task \<Rightarrow> 'a crm_scheme \<Rightarrow> 'a crm_scheme" where
  "enqueue t s = s\<lparr>task_queue := task_queue s @ [t]\<rparr>"

lemmas crm_evals = microseconds_def latest_by_def get_crm_contact_def upd_contact_def get_message_def
  upd_message_def publish_def enqueue_def

declare crm_evals [evals]

end
