(* ===== verification/Conversations.thy ===== *)
theory Conversations
  imports Crm
begin

text \<open>
  The CRM side's conversations (backend/app/modules/conversations: constants, state_machine, models,
  repository, service; modules/assignments: repository, service, tasks; and the state changes of
  modules/messaging/tasks.py and modules/ai/service.py). A conversation has a state of the machine of
  state_machine.py and a lock (holder and expiry) for the agent who works on it.

  Updates through an ORM statement or object set \<open>updated_at\<close>; no handler subscribes to the events of
  conversations in process.
\<close>

section \<open>Constants and the state machine\<close>

definition lock_timeout_seconds :: int where
  "lock_timeout_seconds = 120"

fun conv_state_value :: "conv_state \<Rightarrow> string" where
  "conv_state_value CS_NEW = ''NEW''"
| "conv_state_value CS_AI_ACTIVE = ''AI_ACTIVE''"
| "conv_state_value CS_AWAITING_APPROVAL = ''AWAITING_APPROVAL''"
| "conv_state_value CS_HUMAN_ASSIGNED = ''HUMAN_ASSIGNED''"
| "conv_state_value CS_AI_PAUSED = ''AI_PAUSED''"
| "conv_state_value CS_CLOSED = ''CLOSED''"

fun allowed_transitions :: "conv_state \<Rightarrow> conv_state list" where
  "allowed_transitions CS_NEW = [CS_AI_ACTIVE, CS_HUMAN_ASSIGNED, CS_CLOSED]"
| "allowed_transitions CS_AI_ACTIVE = [CS_AWAITING_APPROVAL, CS_HUMAN_ASSIGNED, CS_AI_PAUSED, CS_CLOSED]"
| "allowed_transitions CS_AWAITING_APPROVAL = [CS_AI_ACTIVE, CS_HUMAN_ASSIGNED, CS_AI_PAUSED, CS_CLOSED]"
| "allowed_transitions CS_HUMAN_ASSIGNED = [CS_AI_PAUSED, CS_AI_ACTIVE, CS_CLOSED]"
| "allowed_transitions CS_AI_PAUSED = [CS_AI_ACTIVE, CS_HUMAN_ASSIGNED, CS_CLOSED]"
| "allowed_transitions CS_CLOSED = []"

definition terminal_states :: "conv_state list" where
  "terminal_states = [CS_CLOSED]"

definition can_transition :: "conv_state \<Rightarrow> conv_state \<Rightarrow> bool" where
  "can_transition current target = (target \<in> set (allowed_transitions current))"

definition assert_transition :: "conv_state \<Rightarrow> conv_state \<Rightarrow> err + unit" where
  "assert_transition current target =
     ebind (ensure (current \<notin> set terminal_states) ConflictError) (\<lambda>_.
     ebind (ensure (current \<noteq> target) (ValidationError ''invalid_transition'')) (\<lambda>_.
     ensure (can_transition current target) (ValidationError ''invalid_transition'')))"

definition transition_events :: "conv_state \<times> conv_state \<Rightarrow> string option" where
  "transition_events arc = map_of
     [((CS_NEW, CS_AI_ACTIVE), ''conversation.first_activated''),
      ((CS_NEW, CS_HUMAN_ASSIGNED), ''conversation.assigned''),
      ((CS_NEW, CS_CLOSED), ''conversation.closed''),
      ((CS_AI_ACTIVE, CS_AI_PAUSED), ''conversation.ai_paused''),
      ((CS_AI_ACTIVE, CS_AWAITING_APPROVAL), ''conversation.escalated''),
      ((CS_AI_ACTIVE, CS_HUMAN_ASSIGNED), ''conversation.assigned''),
      ((CS_AI_ACTIVE, CS_CLOSED), ''conversation.closed''),
      ((CS_AWAITING_APPROVAL, CS_AI_ACTIVE), ''conversation.approved''),
      ((CS_AWAITING_APPROVAL, CS_AI_PAUSED), ''conversation.ai_paused''),
      ((CS_AWAITING_APPROVAL, CS_HUMAN_ASSIGNED), ''conversation.rejected''),
      ((CS_AWAITING_APPROVAL, CS_CLOSED), ''conversation.closed''),
      ((CS_HUMAN_ASSIGNED, CS_AI_ACTIVE), ''conversation.ai_resumed''),
      ((CS_HUMAN_ASSIGNED, CS_AI_PAUSED), ''conversation.ai_paused''),
      ((CS_HUMAN_ASSIGNED, CS_CLOSED), ''conversation.closed''),
      ((CS_AI_PAUSED, CS_AI_ACTIVE), ''conversation.ai_resumed''),
      ((CS_AI_PAUSED, CS_HUMAN_ASSIGNED), ''conversation.assigned''),
      ((CS_AI_PAUSED, CS_CLOSED), ''conversation.closed'')] arc"

section \<open>ConversationRepository\<close>

definition get_conv :: "uuid \<Rightarrow> 'a crm_scheme \<Rightarrow> conversation option" where
  "get_conv i s = get_by cv_id i (conversations s)"

definition upd_conv :: "uuid \<Rightarrow> (conversation \<Rightarrow> conversation) \<Rightarrow> 'a crm_scheme \<Rightarrow> 'a crm_scheme" where
  "upd_conv i f s = s\<lparr>conversations := upd_by cv_id i (\<lambda>c. (f c)\<lparr>cv_updated_at := clock s\<rparr>) (conversations s)\<rparr>"

definition conv_create_for_contact :: "uuid \<Rightarrow> 'a crm_scheme \<Rightarrow> err + uuid \<times> 'a crm_scheme" where
  "conv_create_for_contact contact_id s =
     ebind (ensure (contact_id \<in> ct_id ` set (crm_contacts s))
              (IntegrityError ''conversations_contact_id_fkey'')) (\<lambda>_.
     let (i, s1) = fresh_id s
     in Inr (i, s1\<lparr>conversations := conversations s1 @
          [\<lparr>cv_id = i, cv_contact_id = contact_id, cv_state = CS_NEW, cv_outreach_state = None,
            cv_ai_enabled = True, cv_locked_by = None, cv_lock_expires_at = None,
            cv_last_message_at = None, cv_last_read_at = None, cv_created_at = clock s1,
            cv_updated_at = clock s1\<rparr>]\<rparr>))"

definition get_open_for_contact :: "uuid \<Rightarrow> 'a crm_scheme \<Rightarrow> conversation option" where
  "get_open_for_contact contact_id s =
     latest_by cv_created_at
       (filter (\<lambda>c. cv_contact_id c = contact_id \<and> cv_state c \<noteq> CS_CLOSED) (conversations s)) s"

text \<open>\<open>UPDATE ... WHERE id = ... AND state = expected\<close>, with the number of rows.\<close>

definition update_state ::
  "uuid \<Rightarrow> conv_state \<Rightarrow> conv_state \<Rightarrow> 'a crm_scheme \<Rightarrow> nat \<times> 'a crm_scheme" where
  "update_state i expected new_state s =
     (case get_conv i s of
        None \<Rightarrow> (0, s)
      | Some c \<Rightarrow> if cv_state c = expected then (1, upd_conv i (\<lambda>c. c\<lparr>cv_state := new_state\<rparr>) s) else (0, s))"

definition conv_acquire_lock :: "uuid \<Rightarrow> uuid \<Rightarrow> int \<Rightarrow> 'a crm_scheme \<Rightarrow> err + bool \<times> 'a crm_scheme" where
  "conv_acquire_lock i agent_id ttl_seconds s =
     (case get_conv i s of
        None \<Rightarrow> Inr (False, s)
      | Some c \<Rightarrow>
          if cv_locked_by c = None
             \<or> (case cv_lock_expires_at c of None \<Rightarrow> False | Some t \<Rightarrow> t < clock s)
             \<or> cv_locked_by c = Some agent_id
          then ebind (ensure (agent_id \<in> us_id ` set (users s))
                       (IntegrityError ''fk_conversations_locked_by'')) (\<lambda>_.
               Inr (True, upd_conv i (\<lambda>c. c\<lparr>cv_locked_by := Some agent_id,
                  cv_lock_expires_at := Some (clock s + microseconds ttl_seconds)\<rparr>) s))
          else Inr (False, s))"

definition conv_release_lock :: "uuid \<Rightarrow> uuid option \<Rightarrow> 'a crm_scheme \<Rightarrow> bool \<times> 'a crm_scheme" where
  "conv_release_lock i agent_id s =
     (case get_conv i s of
        None \<Rightarrow> (False, s)
      | Some c \<Rightarrow>
          if agent_id = None \<or> cv_locked_by c = agent_id
          then (True, upd_conv i (\<lambda>c. c\<lparr>cv_locked_by := None, cv_lock_expires_at := None\<rparr>) s)
          else (False, s))"

definition touch_last_message :: "uuid \<Rightarrow> int \<Rightarrow> 'a crm_scheme \<Rightarrow> 'a crm_scheme" where
  "touch_last_message i t s = upd_conv i (\<lambda>c. c\<lparr>cv_last_message_at := Some t\<rparr>) s"

definition touch_last_read :: "uuid \<Rightarrow> int \<Rightarrow> 'a crm_scheme \<Rightarrow> 'a crm_scheme" where
  "touch_last_read i t s = upd_conv i (\<lambda>c. c\<lparr>cv_last_read_at := Some t\<rparr>) s"

definition update_outreach_state ::
  "uuid \<Rightarrow> outreach_state \<Rightarrow> outreach_state option \<Rightarrow> 'a crm_scheme \<Rightarrow> nat \<times> 'a crm_scheme" where
  "update_outreach_state i new_state expected_state s =
     (case get_conv i s of
        None \<Rightarrow> (0, s)
      | Some c \<Rightarrow>
          if expected_state = None \<or> cv_outreach_state c = expected_state
          then (1, upd_conv i (\<lambda>c. c\<lparr>cv_outreach_state := Some new_state\<rparr>) s)
          else (0, s))"

text \<open>The pages of the list: last message first, conversations without one at the end.\<close>

definition list_conversations ::
  "nat \<Rightarrow> nat \<Rightarrow> conv_state option \<Rightarrow> uuid option \<Rightarrow> 'a crm_scheme \<Rightarrow> conversation list" where
  "list_conversations page page_size state agent_id s =
     (let rows = filter (\<lambda>c. (case state of None \<Rightarrow> True | Some st \<Rightarrow> cv_state c = st)
                   \<and> (case agent_id of None \<Rightarrow> True | Some a \<Rightarrow> cv_locked_by c = Some a)) (conversations s)
      in take page_size (drop ((page - 1) * page_size)
           (sort_key (\<lambda>c. - the (cv_last_message_at c)) (filter (\<lambda>c. cv_last_message_at c \<noteq> None) rows)
            @ filter (\<lambda>c. cv_last_message_at c = None) rows)))"

definition count_needs_human :: "'a crm_scheme \<Rightarrow> nat \<times> nat \<times> nat" where
  "count_needs_human s =
     (let count = (\<lambda>st. length (filter (\<lambda>c. cv_state c = st) (conversations s)))
      in (count CS_AWAITING_APPROVAL, count CS_HUMAN_ASSIGNED,
          count CS_AWAITING_APPROVAL + count CS_HUMAN_ASSIGNED))"

section \<open>MessageRepository\<close>

definition update_delivery_status ::
  "uuid \<Rightarrow> delivery_status \<Rightarrow> string option \<Rightarrow> int option \<Rightarrow> string option \<Rightarrow> 'a crm_scheme \<Rightarrow> 'a crm_scheme" where
  "update_delivery_status i new_status last_error error_code meta_message_id s =
     upd_message i (\<lambda>m. m\<lparr>ms_delivery_status := new_status, ms_last_error := last_error, ms_error_code := error_code,
       ms_meta_message_id := (if meta_message_id = None then ms_meta_message_id m else meta_message_id)\<rparr>) s"

definition increment_retry :: "uuid \<Rightarrow> 'a crm_scheme \<Rightarrow> 'a crm_scheme" where
  "increment_retry i s = upd_message i (\<lambda>m. m\<lparr>ms_retry_count := ms_retry_count m + 1\<rparr>) s"

definition get_pending_outbound :: "nat \<Rightarrow> 'a crm_scheme \<Rightarrow> message list" where
  "get_pending_outbound limit s =
     take limit (sort_key ms_created_at (filter (\<lambda>m. ms_delivery_status m = MSG_QUEUED) (messages s)))"

definition get_latest_draft_outbound :: "uuid \<Rightarrow> 'a crm_scheme \<Rightarrow> message option" where
  "get_latest_draft_outbound conversation_id s =
     latest_by ms_created_at (filter (\<lambda>m. ms_conversation_id m = conversation_id
       \<and> ms_direction m = OUTBOUND \<and> ms_delivery_status m = MSG_DRAFT) (messages s)) s"

section \<open>ConversationService\<close>

definition conv_audit :: "string \<Rightarrow> uuid option \<Rightarrow> string \<Rightarrow> uuid option \<Rightarrow> 'a crm_scheme \<Rightarrow> 'a crm_scheme" where
  "conv_audit actor_type actor_id action entity_id s =
     audit_append \<lparr>au_actor_type = actor_type, au_actor_id = actor_id, au_action = action,
       au_entity_type = ''conversation'', au_entity_id = entity_id\<rparr> s"

definition lock_active :: "conversation \<Rightarrow> 'a crm_scheme \<Rightarrow> bool" where
  "lock_active c s = (cv_locked_by c \<noteq> None
     \<and> (case cv_lock_expires_at c of None \<Rightarrow> False | Some t \<Rightarrow> t > clock s))"

definition assert_actor_holds_lock ::
  "conversation \<Rightarrow> uuid \<Rightarrow> string option \<Rightarrow> 'a crm_scheme \<Rightarrow> err + unit" where
  "assert_actor_holds_lock c actor_id actor_role s =
     (if actor_role = Some ''admin'' then Inr ()
      else ensure (\<not> (lock_active c s \<and> cv_locked_by c \<noteq> Some actor_id)) PermissionDenied)"

definition assert_can_act_on_awaiting ::
  "conversation \<Rightarrow> uuid \<Rightarrow> string option \<Rightarrow> 'a crm_scheme \<Rightarrow> err + unit" where
  "assert_can_act_on_awaiting c actor_id actor_role s =
     (if actor_role = Some ''admin'' then Inr ()
      else let owner = Option.bind (get_crm_contact (cv_contact_id c) s) ct_assigned_agent_id
           in ensure (\<not> (owner \<noteq> None \<and> owner \<noteq> Some actor_id)) PermissionDenied)"

definition conv_transition ::
  "uuid \<Rightarrow> conv_state \<Rightarrow> conv_state \<Rightarrow> string \<Rightarrow> uuid option \<Rightarrow> 'a crm_scheme \<Rightarrow> err + 'a crm_scheme" where
  "conv_transition i from_state to_state actor_type actor_id s =
     (let (rows_affected, s1) = update_state i from_state to_state s in
      ebind (ensure (rows_affected \<noteq> 0) ConcurrentModificationError) (\<lambda>_.
      let action = (case transition_events (from_state, to_state) of
                      Some e \<Rightarrow> e
                    | None \<Rightarrow> ''conversation.'' @ conv_state_value from_state @ ''_to_'' @ conv_state_value to_state);
          event_name = (case transition_events (from_state, to_state) of
                          Some e \<Rightarrow> e | None \<Rightarrow> ''conversation.transitioned'')
      in Inr (publish event_name i (conv_audit actor_type actor_id action (Some i) s1))))"

definition handle_inbound_message :: "uuid \<Rightarrow> 'a crm_scheme \<Rightarrow> err + uuid \<times> 'a crm_scheme" where
  "handle_inbound_message contact_id s =
     ebind (conv_create_for_contact contact_id s) (\<lambda>(i, s1).
     ebind (conv_transition i CS_NEW CS_AI_ACTIVE ''system'' None s1) (\<lambda>s2.
     Inr (i, publish ''conversation.first_activated'' i s2)))"

definition mark_read :: "uuid \<Rightarrow> 'a crm_scheme \<Rightarrow> 'a crm_scheme" where
  "mark_read i s = touch_last_read i (clock s) s"

definition pause_ai :: "uuid \<Rightarrow> uuid \<Rightarrow> string option \<Rightarrow> 'a crm_scheme \<Rightarrow> err + 'a crm_scheme" where
  "pause_ai i actor_id actor_role s =
     ebind (from_opt NotFoundError (get_conv i s)) (\<lambda>conv.
     ebind (assert_actor_holds_lock conv actor_id actor_role s) (\<lambda>_.
     conv_transition i CS_AI_ACTIVE CS_AI_PAUSED ''agent'' (Some actor_id) s))"

definition resume_ai :: "uuid \<Rightarrow> uuid \<Rightarrow> 'a crm_scheme \<Rightarrow> err + 'a crm_scheme" where
  "resume_ai i actor_id s =
     ebind (from_opt NotFoundError (get_conv i s)) (\<lambda>conv.
     ebind (conv_transition i CS_AI_PAUSED CS_AI_ACTIVE ''agent'' (Some actor_id) s) (\<lambda>s1.
     Inr (if cv_locked_by conv \<noteq> None then snd (conv_release_lock i None s1) else s1)))"

text \<open>\<open>lock_ttl\<close> is the setting CONVERSATION_LOCK_TTL_SECONDS, 120 when it is missing.\<close>

definition conv_assign ::
  "int \<Rightarrow> uuid \<Rightarrow> uuid \<Rightarrow> uuid \<Rightarrow> string option \<Rightarrow> 'a crm_scheme \<Rightarrow> err + 'a crm_scheme" where
  "conv_assign lock_ttl i agent_id actor_id actor_role s =
     ebind (from_opt NotFoundError (get_conv i s)) (\<lambda>conv.
     ebind (assert_transition (cv_state conv) CS_HUMAN_ASSIGNED) (\<lambda>_.
     ebind (assert_actor_holds_lock conv actor_id actor_role s) (\<lambda>_.
     ebind (from_opt NotFoundError (get_by us_id agent_id (users s))) (\<lambda>_.
     ebind (conv_acquire_lock i agent_id lock_ttl s) (\<lambda>(_, s1).
     conv_transition i (cv_state conv) CS_HUMAN_ASSIGNED ''agent'' (Some actor_id) s1)))))"

definition request_approval :: "uuid \<Rightarrow> 'a crm_scheme \<Rightarrow> err + 'a crm_scheme" where
  "request_approval i s =
     ebind (from_opt NotFoundError (get_conv i s)) (\<lambda>conv.
     conv_transition i CS_AI_ACTIVE CS_AWAITING_APPROVAL ''ai'' None s)"

definition approve ::
  "uuid \<Rightarrow> uuid \<Rightarrow> string option \<Rightarrow> 'a crm_scheme \<Rightarrow> err + uuid option \<times> 'a crm_scheme" where
  "approve i actor_id actor_role s =
     ebind (from_opt NotFoundError (get_conv i s)) (\<lambda>conv.
     ebind (ensure (cv_state conv = CS_AWAITING_APPROVAL) StateTransitionError) (\<lambda>_.
     ebind (assert_can_act_on_awaiting conv actor_id actor_role s) (\<lambda>_.
     ebind (conv_transition i CS_AWAITING_APPROVAL CS_AI_ACTIVE ''agent'' (Some actor_id) s) (\<lambda>s1.
     case get_latest_draft_outbound i s1 of
       None \<Rightarrow> Inr (None, s1)
     | Some draft \<Rightarrow> Inr (Some (ms_id draft), update_delivery_status (ms_id draft) MSG_QUEUED None None None s1)))))"

definition reject :: "uuid \<Rightarrow> uuid \<Rightarrow> string option \<Rightarrow> 'a crm_scheme \<Rightarrow> err + 'a crm_scheme" where
  "reject i actor_id actor_role s =
     ebind (from_opt NotFoundError (get_conv i s)) (\<lambda>conv.
     ebind (ensure (cv_state conv = CS_AWAITING_APPROVAL) StateTransitionError) (\<lambda>_.
     ebind (assert_can_act_on_awaiting conv actor_id actor_role s) (\<lambda>_.
     conv_transition i CS_AWAITING_APPROVAL CS_HUMAN_ASSIGNED ''agent'' (Some actor_id) s)))"

definition conv_close :: "uuid \<Rightarrow> uuid \<Rightarrow> string option \<Rightarrow> 'a crm_scheme \<Rightarrow> err + 'a crm_scheme" where
  "conv_close i actor_id actor_role s =
     ebind (from_opt NotFoundError (get_conv i s)) (\<lambda>conv.
     ebind (assert_actor_holds_lock conv actor_id actor_role s) (\<lambda>_.
     let s1 = (if cv_locked_by conv \<noteq> None then snd (conv_release_lock i None s) else s)
     in conv_transition i (cv_state conv) CS_CLOSED ''agent'' (Some actor_id) s1))"

definition lock_releasing_states :: "conv_state list" where
  "lock_releasing_states = [CS_AI_ACTIVE, CS_AI_PAUSED, CS_AWAITING_APPROVAL, CS_CLOSED]"

text \<open>The memory task that follows a hand-back to the AI is queued after all writes.\<close>

definition force_transition :: "uuid \<Rightarrow> conv_state \<Rightarrow> uuid \<Rightarrow> 'a crm_scheme \<Rightarrow> err + 'a crm_scheme" where
  "force_transition i target_state actor_id s =
     ebind (from_opt NotFoundError (get_conv i s)) (\<lambda>conv.
     ebind (assert_transition (cv_state conv) target_state) (\<lambda>_.
     let s1 = (if cv_state conv = CS_HUMAN_ASSIGNED \<and> target_state \<in> set lock_releasing_states
               then snd (conv_release_lock i None s) else s)
     in ebind (conv_transition i (cv_state conv) target_state ''admin'' (Some actor_id) s1) (\<lambda>s2.
        Inr (if cv_state conv = CS_HUMAN_ASSIGNED \<and> target_state = CS_AI_ACTIVE
             then enqueue (UpdateMemoryOnResume i) (upd_conv i (\<lambda>c. c\<lparr>cv_ai_enabled := True\<rparr>) s2) else s2))))"

subsection \<open>Bulk updates\<close>

record bulk_patch =
  bp_state :: "conv_state option"
  bp_add_tag_ids :: "uuid list option"
  bp_remove_tag_ids :: "uuid list option"

datatype bulk_error = BULK_NOT_FOUND | BULK_CONCURRENT | BULK_EXC err

text \<open>\<open>fields_set\<close> are the fields the request names, null or not; the identifiers keep their first occurrence.\<close>

definition parse_bulk_request ::
  "uuid list \<Rightarrow> string list \<Rightarrow> bulk_patch \<Rightarrow> err + uuid list \<times> bulk_patch" where
  "parse_bulk_request ids fields_set patch =
     ebind (ensure (1 \<le> length ids \<and> length ids \<le> 100) ValueError) (\<lambda>_.
     ebind (ensure (fields_set \<noteq> []) ValueError) (\<lambda>_.
     Inr (rev (remdups (rev ids)), patch)))"

definition attach_tag :: "uuid \<Rightarrow> uuid \<Rightarrow> uuid option \<Rightarrow> 'a crm_scheme \<Rightarrow> 'a crm_scheme" where
  "attach_tag contact_id tag_id approver_id s =
     (if \<exists>r\<in>set (contact_tags s). ctg_contact_id r = contact_id \<and> ctg_tag_id r = tag_id then s
      else s\<lparr>contact_tags := contact_tags s @
        [\<lparr>ctg_contact_id = contact_id, ctg_tag_id = tag_id, ctg_approved_by = approver_id\<rparr>]\<rparr>)"

definition detach_tag :: "uuid \<Rightarrow> uuid \<Rightarrow> 'a crm_scheme \<Rightarrow> 'a crm_scheme" where
  "detach_tag contact_id tag_id s = s\<lparr>contact_tags :=
     filter (\<lambda>r. \<not> (ctg_contact_id r = contact_id \<and> ctg_tag_id r = tag_id)) (contact_tags s)\<rparr>"

text \<open>The state part of one conversation: the error that is collected, or the new state.\<close>

definition bulk_set_state ::
  "conv_state \<Rightarrow> conversation \<Rightarrow> uuid \<Rightarrow> string option \<Rightarrow> 'a crm_scheme \<Rightarrow> bulk_error + 'a crm_scheme" where
  "bulk_set_state target_state conv actor_id actor_role s =
     (case ebind (assert_transition (cv_state conv) target_state) (\<lambda>_.
           if actor_role \<noteq> Some ''admin'' then assert_actor_holds_lock conv actor_id actor_role s else Inr ()) of
        Inl e \<Rightarrow> Inl (BULK_EXC e)
      | Inr _ \<Rightarrow>
          let (rows, s1) = update_state (cv_id conv) (cv_state conv) target_state s
          in ebind (ensure (rows \<noteq> 0) BULK_CONCURRENT) (\<lambda>_.
             Inr (if cv_state conv = CS_HUMAN_ASSIGNED \<and> target_state \<in> set lock_releasing_states
                  then snd (conv_release_lock (cv_id conv) None s1) else s1)))"

definition bulk_one ::
  "bulk_patch \<Rightarrow> uuid \<Rightarrow> string option \<Rightarrow> uuid
     \<Rightarrow> (uuid \<times> bulk_error) list \<times> nat \<times> 'a crm_scheme \<Rightarrow> (uuid \<times> bulk_error) list \<times> nat \<times> 'a crm_scheme" where
  "bulk_one patch actor_id actor_role cid acc =
     (let (failed, count, s) = acc in
      case get_conv cid s of
        None \<Rightarrow> (failed @ [(cid, BULK_NOT_FOUND)], count, s)
      | Some conv \<Rightarrow>
          (case (case bp_state patch of None \<Rightarrow> Inr s
                 | Some target \<Rightarrow> bulk_set_state target conv actor_id actor_role s) of
             Inl e \<Rightarrow> (failed @ [(cid, e)], count, s)
           | Inr s1 \<Rightarrow>
               (failed, count + 1,
                fold (\<lambda>t. detach_tag (cv_contact_id conv) t) (case bp_remove_tag_ids patch of None \<Rightarrow> [] | Some ts \<Rightarrow> ts)
                  (fold (\<lambda>t. attach_tag (cv_contact_id conv) t (Some actor_id))
                     (case bp_add_tag_ids patch of None \<Rightarrow> [] | Some ts \<Rightarrow> ts) s1))))"

definition conv_bulk_update ::
  "uuid list \<Rightarrow> bulk_patch \<Rightarrow> uuid \<Rightarrow> string option \<Rightarrow> 'a crm_scheme
     \<Rightarrow> err + ((uuid \<times> bulk_error) list \<times> nat) \<times> 'a crm_scheme" where
  "conv_bulk_update ids patch actor_id actor_role s =
     ebind (ensure (\<forall>t\<in>set (case bp_add_tag_ids patch of None \<Rightarrow> [] | Some ts \<Rightarrow> ts). t \<in> tg_id ` set (tags s))
              NotFoundError) (\<lambda>_.
     ebind (ensure (\<forall>t\<in>set (case bp_remove_tag_ids patch of None \<Rightarrow> [] | Some ts \<Rightarrow> ts). t \<in> tg_id ` set (tags s))
              NotFoundError) (\<lambda>_.
     let (failed, count, s1) = fold (bulk_one patch actor_id actor_role) ids ([], 0, s)
     in Inr ((failed, count), conv_audit ''agent'' (Some actor_id) ''conversation.bulk_updated'' None s1)))"

section \<open>AssignmentService\<close>

definition acquire_lock :: "uuid \<Rightarrow> uuid \<Rightarrow> uuid option \<Rightarrow> 'a crm_scheme \<Rightarrow> err + 'a crm_scheme" where
  "acquire_lock i agent_id actor_id s =
     ebind (from_opt NotFoundError (get_conv i s)) (\<lambda>_.
     ebind (conv_acquire_lock i agent_id lock_timeout_seconds s) (\<lambda>(ok, s1).
     ebind (ensure ok ConversationLockError) (\<lambda>_.
     Inr (conv_audit ''agent'' (Some (case actor_id of None \<Rightarrow> agent_id | Some a \<Rightarrow> a))
            ''conversation.locked'' (Some i) s1))))"

definition renew_lock :: "uuid \<Rightarrow> uuid \<Rightarrow> 'a crm_scheme \<Rightarrow> err + 'a crm_scheme" where
  "renew_lock i agent_id s =
     ebind (from_opt NotFoundError (get_conv i s)) (\<lambda>conv.
     ebind (ensure (cv_locked_by conv = Some agent_id) ConversationLockError) (\<lambda>_.
     ebind (conv_acquire_lock i agent_id lock_timeout_seconds s) (\<lambda>(ok, s1).
     ebind (ensure ok ConversationLockError) (\<lambda>_. Inr s1))))"

definition release_lock :: "uuid \<Rightarrow> uuid \<Rightarrow> uuid option \<Rightarrow> bool \<Rightarrow> 'a crm_scheme \<Rightarrow> err + 'a crm_scheme" where
  "release_lock i agent_id actor_id admin_override s =
     ebind (from_opt NotFoundError (get_conv i s)) (\<lambda>conv.
     case cv_locked_by conv of
       None \<Rightarrow> Inr s
     | Some holder \<Rightarrow>
         ebind (ensure (admin_override \<or> holder = agent_id) ConversationLockError) (\<lambda>_.
         let (ok, s1) = conv_release_lock i (Some holder) s
         in Inr (if \<not> ok then s1
                 else conv_audit (if admin_override then ''admin'' else ''agent'')
                        (Some (case actor_id of None \<Rightarrow> agent_id | Some a \<Rightarrow> a))
                        ''conversation.unlocked'' (Some i) s1)))"

definition eligible_agent :: "user \<Rightarrow> bool" where
  "eligible_agent u = (us_is_active u \<and> us_role u \<in> {''agent'', ''admin''})"

definition list_active_agents :: "'a crm_scheme \<Rightarrow> user list" where
  "list_active_agents s = sort_key us_id (filter eligible_agent (users s))"

text \<open>The latest update of a conversation the user has locked; \<open>None\<close> comes first.\<close>

definition last_locked_at :: "'a crm_scheme \<Rightarrow> user \<Rightarrow> int option" where
  "last_locked_at s u =
     (let times = map cv_updated_at (filter (\<lambda>c. cv_locked_by c = Some (us_id u)) (conversations s))
      in if times = [] then None else Some (Max (set times)))"

definition next_round_robin_agent :: "'a crm_scheme \<Rightarrow> user option" where
  "next_round_robin_agent s =
     (let agents = list_active_agents s;
          never = filter (\<lambda>u. last_locked_at s u = None) agents;
          queue = never @ sort_key (\<lambda>u. the (last_locked_at s u))
                    (filter (\<lambda>u. last_locked_at s u \<noteq> None) agents)
      in case queue of [] \<Rightarrow> None | u # _ \<Rightarrow> Some u)"

definition auto_assign :: "int \<Rightarrow> uuid \<Rightarrow> uuid option \<Rightarrow> 'a crm_scheme \<Rightarrow> err + user \<times> 'a crm_scheme" where
  "auto_assign lock_ttl i actor_id s =
     ebind (from_opt ConflictError (next_round_robin_agent s)) (\<lambda>agent.
     ebind (conv_assign lock_ttl i (us_id agent) (case actor_id of None \<Rightarrow> us_id agent | Some a \<Rightarrow> a) None s)
       (\<lambda>s1. Inr (agent, s1)))"

text \<open>The reaper: the expired locks, oldest expiry first, at most 200 in a run.\<close>

definition expired_locks :: "'a crm_scheme \<Rightarrow> conversation list" where
  "expired_locks s = sort_key (\<lambda>c. the (cv_lock_expires_at c))
     (filter (\<lambda>c. cv_locked_by c \<noteq> None
        \<and> (case cv_lock_expires_at c of None \<Rightarrow> False | Some t \<Rightarrow> t < clock s)) (conversations s))"

definition expire_lock :: "conversation \<Rightarrow> nat \<times> 'a crm_scheme \<Rightarrow> nat \<times> 'a crm_scheme" where
  "expire_lock row acc =
     (let (released, s) = acc; (ok, s1) = conv_release_lock (cv_id row) (cv_locked_by row) s
      in if \<not> ok then (released, s1)
         else (released + 1, publish ''conversation.lock_expired'' (cv_id row)
                (conv_audit ''system'' None ''conversation.lock_expired'' (Some (cv_id row)) s1)))"

definition expire_stale_locks :: "'a crm_scheme \<Rightarrow> (nat \<times> nat) \<times> 'a crm_scheme" where
  "expire_stale_locks s =
     (let rows = take 200 (expired_locks s); (released, s1) = fold expire_lock rows (0, s)
      in ((length rows, released), s1))"

section \<open>State changes of messaging and the AI service\<close>

text \<open>
  The conversation part of \<open>process_inbound_message_task\<close>: an open conversation is reused or one is
  created, its first activation, and the new row of the message. \<open>ai_should_run\<close> is the result.
\<close>

definition inbound_conversation :: "crm_contact \<Rightarrow> 'a crm_scheme \<Rightarrow> err + uuid \<times> 'a crm_scheme" where
  "inbound_conversation contact s =
     (case get_open_for_contact (ct_id contact) s of
        Some c \<Rightarrow> Inr (cv_id c, s)
      | None \<Rightarrow>
          ebind (conv_create_for_contact (ct_id contact) s) (\<lambda>(i, s1).
          Inr (i, if ct_ai_assigned contact then upd_conv i (\<lambda>c. c\<lparr>cv_ai_enabled := True\<rparr>) s1
                  else if ct_assigned_agent_id contact \<noteq> None
                  then upd_conv i (\<lambda>c. c\<lparr>cv_ai_enabled := False\<rparr>) s1 else s1)))"

definition inbound_transition :: "uuid \<Rightarrow> 'a crm_scheme \<Rightarrow> err + (bool \<times> bool) \<times> 'a crm_scheme" where
  "inbound_transition i s =
     ebind (from_opt NotFoundError (get_conv i s)) (\<lambda>conv.
     if cv_state conv = CS_NEW \<and> cv_ai_enabled conv then
       (let (rowcount, s1) = update_state i CS_NEW CS_AI_ACTIVE s in
        ebind (ensure (rowcount \<noteq> 0) ConcurrentModificationError) (\<lambda>_. Inr ((True, True), s1)))
     else if cv_state conv = CS_AI_ACTIVE \<and> cv_ai_enabled conv then Inr ((True, False), s)
     else if cv_state conv = CS_NEW \<and> \<not> cv_ai_enabled conv then
       (let (rowcount, s1) = update_state i CS_NEW CS_HUMAN_ASSIGNED s in
        ebind (ensure (rowcount \<noteq> 0) ConcurrentModificationError) (\<lambda>_. Inr ((False, False), s1)))
     else Inr ((False, False), s))"

definition assign_human :: "uuid \<Rightarrow> 'a crm_scheme \<Rightarrow> err + 'a crm_scheme" where
  "assign_human i s =
     (case get_conv i s of
        None \<Rightarrow> Inr s
      | Some conv \<Rightarrow>
          if cv_state conv = CS_HUMAN_ASSIGNED \<or> cv_state conv = CS_CLOSED then Inr s
          else if isl (assert_transition (cv_state conv) CS_HUMAN_ASSIGNED) then Inr s
          else let (rows, s1) = update_state i (cv_state conv) CS_HUMAN_ASSIGNED s in
               ebind (ensure (rows \<noteq> 0) ConcurrentModificationError) (\<lambda>_.
               Inr (publish ''conversation.escalated'' i (upd_conv i (\<lambda>c. c\<lparr>cv_ai_enabled := False\<rparr>) s1))))"

text \<open>The transition from the row the session loaded, which may be older than the state.\<close>

definition ai_transition_from :: "conversation \<Rightarrow> conv_state \<Rightarrow> 'a crm_scheme \<Rightarrow> err + 'a crm_scheme" where
  "ai_transition_from conv target s =
     (if cv_state conv = target then Inr s
      else ebind (assert_transition (cv_state conv) target) (\<lambda>_.
        let (rows, s1) = update_state (cv_id conv) (cv_state conv) target s in
        ebind (ensure (rows \<noteq> 0) ConcurrentModificationError) (\<lambda>_.
        Inr (publish (case transition_events (cv_state conv, target) of
               Some e \<Rightarrow> e | None \<Rightarrow> ''conversation.transitioned'') (cv_id conv) s1))))"

lemmas conversation_evals = lock_timeout_seconds_def terminal_states_def can_transition_def
  assert_transition_def transition_events_def get_conv_def upd_conv_def 
  conv_create_for_contact_def get_open_for_contact_def update_state_def conv_acquire_lock_def
  conv_release_lock_def touch_last_message_def touch_last_read_def update_outreach_state_def
  update_delivery_status_def get_latest_draft_outbound_def conv_audit_def
  lock_active_def assert_actor_holds_lock_def assert_can_act_on_awaiting_def conv_transition_def
  handle_inbound_message_def mark_read_def pause_ai_def resume_ai_def conv_assign_def request_approval_def
  approve_def reject_def conv_close_def lock_releasing_states_def force_transition_def attach_tag_def
  detach_tag_def bulk_set_state_def bulk_one_def conv_bulk_update_def acquire_lock_def renew_lock_def
  release_lock_def eligible_agent_def list_active_agents_def last_locked_at_def next_round_robin_agent_def
  auto_assign_def expired_locks_def expire_lock_def expire_stale_locks_def inbound_conversation_def
  inbound_transition_def assign_human_def ai_transition_from_def

declare conversation_evals [evals]

end
