(* ===== verification/Contacts.thy ===== *)
theory Contacts
  imports Crm
begin

text \<open>
  Contacts (backend/app/core/phone.py and backend/app/modules/contacts: phone, schemas, import_csv, repository,
  service, tasks). A phone number is stored in the digits-only form of WhatsApp and is unique. The
  CSV reader is the standard library's: the model starts from the rows it yields, each a list of
  cells by header. Notes, value estimates, search and the memory of the AI are left out, and so is the
  deletion of contacts, which cascades through tables of both halves of the program.
\<close>

section \<open>Phone numbers\<close>

text \<open>\<open>canonicalize_phone\<close>; the empty string stands for \<open>None\<close> too.\<close>

definition canonicalize_phone :: "string \<Rightarrow> string" where
  "canonicalize_phone raw = filter ascii_digit raw"

definition format_rules :: "(string \<times> nat list) list" where
  "format_rules =
     [(''971'', [2, 3, 4]), (''966'', [2, 3, 4]), (''965'', [3, 4]), (''974'', [4, 4]), (''973'', [4, 4]),
      (''968'', [4, 4]), (''1'', [3, 3, 4]), (''44'', [4, 6]), (''91'', [5, 5]), (''92'', [3, 7])]"

fun phone_groups :: "nat list \<Rightarrow> string \<Rightarrow> string list" where
  "phone_groups [] national = (if national = [] then [] else [national])"
| "phone_groups (g # gs) national =
     (let chunk = take g national
      in (if chunk = [] then [] else [chunk]) @ phone_groups gs (drop g national))"

definition format_phone_for_display :: "string \<Rightarrow> string" where
  "format_phone_for_display raw =
     (let canonical = canonicalize_phone raw
      in if canonical = [] then raw
         else case filter (\<lambda>(cc, _). prefix cc canonical) (sort_key (\<lambda>(cc, _). - int (length cc)) format_rules) of
                [] \<Rightarrow> ''+'' @ canonical
              | (cc, groups) # _ \<Rightarrow>
                  join '' '' ((''+'' @ cc) # phone_groups groups (drop (length cc) canonical)))"

section \<open>ContactRepository\<close>

definition get_by_phone :: "string \<Rightarrow> 'a crm_scheme \<Rightarrow> crm_contact option" where
  "get_by_phone phone s = get_by ct_phone phone (crm_contacts s)"

definition new_contact :: "uuid \<Rightarrow> string \<Rightarrow> crm_contact" where
  "new_contact i phone = \<lparr>ct_id = i, ct_phone = phone, ct_name = None, ct_company = None, ct_information = None,
     ct_status = CT_ACTIVE, ct_assigned_agent_id = None, ct_ai_assigned = False, ct_do_not_contact = False,
     ct_marketing_opt_out = False, ct_last_interaction_at = None, ct_last_contacted_at = None,
     ct_last_inbound_at = None\<rparr>"

text \<open>An INSERT: the phone is unique and the agent a user.\<close>

definition contact_insert :: "crm_contact \<Rightarrow> 'a crm_scheme \<Rightarrow> err + 'a crm_scheme" where
  "contact_insert c s =
     ebind (ensure (ct_phone c \<notin> ct_phone ` set (crm_contacts s)) (IntegrityError ''contacts_phone_key'')) (\<lambda>_.
     ebind (ensure (case ct_assigned_agent_id c of None \<Rightarrow> True | Some a \<Rightarrow> a \<in> us_id ` set (users s))
              (IntegrityError ''contacts_assigned_agent_id_fkey'')) (\<lambda>_.
     Inr (s\<lparr>crm_contacts := crm_contacts s @ [c]\<rparr>)))"

definition blank :: "string option \<Rightarrow> bool" where
  "blank x = (case x of None \<Rightarrow> True | Some w \<Rightarrow> w = [])"

text \<open>\<open>upsert_by_phone\<close> and its sync twin: only one session runs, so the insert meets no other.\<close>

definition upsert_by_phone ::
  "string \<Rightarrow> string option \<Rightarrow> string option \<Rightarrow> 'a crm_scheme \<Rightarrow> err + crm_contact \<times> 'a crm_scheme" where
  "upsert_by_phone phone name information s =
     (case get_by_phone phone s of
        Some existing \<Rightarrow>
          if \<not> blank information \<and> blank (ct_information existing)
          then Inr (existing\<lparr>ct_information := information\<rparr>,
                    upd_contact (ct_id existing) (\<lambda>c. c\<lparr>ct_information := information\<rparr>) s)
          else Inr (existing, s)
      | None \<Rightarrow>
          let (i, s1) = fresh_id s;
              c = (new_contact i phone)\<lparr>ct_name := name, ct_information := information\<rparr>
          in ebind (contact_insert c s1) (\<lambda>s2. Inr (c, s2)))"

definition append_information :: "string \<Rightarrow> crm_contact \<Rightarrow> crm_contact" where
  "append_information information c = c\<lparr>ct_information :=
     Some (if blank (ct_information c) then information
           else the (ct_information c) @ [CHR 0x0A, CHR 0x0A] @ ''---'' @ [CHR 0x0A, CHR 0x0A] @ information)\<rparr>"

definition upsert_by_phone_append ::
  "string \<Rightarrow> string option \<Rightarrow> string option \<Rightarrow> 'a crm_scheme \<Rightarrow> err + crm_contact \<times> 'a crm_scheme" where
  "upsert_by_phone_append phone name information s =
     (case get_by_phone phone s of
        Some existing \<Rightarrow>
          let named = (\<lambda>c. if \<not> blank name \<and> blank (ct_name c) then c\<lparr>ct_name := name\<rparr> else c);
              informed = (\<lambda>c. if \<not> blank information then append_information (the information) c else c)
          in Inr (informed (named existing), upd_contact (ct_id existing) (informed \<circ> named) s)
      | None \<Rightarrow>
          let (i, s1) = fresh_id s;
              c = (new_contact i phone)\<lparr>ct_name := name, ct_information := information\<rparr>
          in ebind (contact_insert c s1) (\<lambda>s2. Inr (c, s2)))"

definition touch_last_contacted :: "uuid \<Rightarrow> 'a crm_scheme \<Rightarrow> 'a crm_scheme" where
  "touch_last_contacted i s = upd_contact i (\<lambda>c. c\<lparr>ct_last_contacted_at := Some (clock s)\<rparr>) s"

definition touch_last_inbound :: "uuid \<Rightarrow> 'a crm_scheme \<Rightarrow> 'a crm_scheme" where
  "touch_last_inbound i s = upd_contact i (\<lambda>c. c\<lparr>ct_last_inbound_at := Some (clock s)\<rparr>) s"

definition transition_status :: "uuid \<Rightarrow> contact_status \<Rightarrow> 'a crm_scheme \<Rightarrow> 'a crm_scheme" where
  "transition_status i st s = upd_contact i (\<lambda>c. c\<lparr>ct_status := st\<rparr>) s"

definition set_do_not_contact :: "uuid \<Rightarrow> bool \<Rightarrow> 'a crm_scheme \<Rightarrow> 'a crm_scheme" where
  "set_do_not_contact i v s = upd_contact i (\<lambda>c. c\<lparr>ct_do_not_contact := v\<rparr>) s"

section \<open>ContactService\<close>

text \<open>A create request; the validator stores the canonical phone.\<close>

record contact_create_request =
  ccr_phone :: string
  ccr_name :: "string option"
  ccr_company :: "string option"
  ccr_status :: "contact_status option"
  ccr_information :: "string option"
  ccr_assigned_agent_id :: "uuid option"
  ccr_ai_assigned :: bool

definition parse_contact_create :: "contact_create_request \<Rightarrow> err + contact_create_request" where
  "parse_contact_create r =
     ebind (ensure (4 \<le> length (ccr_phone r) \<and> length (ccr_phone r) \<le> 32) ValueError) (\<lambda>_.
     ebind (ensure (canonicalize_phone (ccr_phone r) \<noteq> []) ValueError) (\<lambda>_.
     Inr (r\<lparr>ccr_phone := canonicalize_phone (ccr_phone r)\<rparr>)))"

text \<open>The columns an update may set: \<open>None\<close> is a field the request does not name, \<open>Some None\<close> a null.\<close>

record contact_updates =
  cu_name :: "string option option"
  cu_company :: "string option option"
  cu_information :: "string option option"
  cu_status :: "contact_status option option"
  cu_assigned_agent_id :: "uuid option option"
  cu_ai_assigned :: "bool option option"

definition no_updates :: contact_updates where
  "no_updates = \<lparr>cu_name = None, cu_company = None, cu_information = None, cu_status = None,
     cu_assigned_agent_id = None, cu_ai_assigned = None\<rparr>"

definition normalize_assignment :: "contact_updates \<Rightarrow> contact_updates" where
  "normalize_assignment kwargs =
     (if cu_ai_assigned kwargs = Some (Some True) then kwargs\<lparr>cu_assigned_agent_id := Some None\<rparr>
      else if cu_assigned_agent_id kwargs \<noteq> None \<and> cu_assigned_agent_id kwargs \<noteq> Some None
      then kwargs\<lparr>cu_ai_assigned := Some (Some False)\<rparr> else kwargs)"

definition set_or :: "'v option \<Rightarrow> 'v \<Rightarrow> 'v" where
  "set_or upd old = (case upd of None \<Rightarrow> old | Some v \<Rightarrow> v)"

text \<open>The UPDATE of one row: status and the AI flag may not be null, the agent is a user.\<close>

definition apply_updates :: "contact_updates \<Rightarrow> crm_contact \<Rightarrow> crm_contact" where
  "apply_updates u c = c\<lparr>ct_name := set_or (cu_name u) (ct_name c), ct_company := set_or (cu_company u) (ct_company c),
     ct_information := set_or (cu_information u) (ct_information c),
     ct_status := (case cu_status u of Some (Some st) \<Rightarrow> st | _ \<Rightarrow> ct_status c),
     ct_assigned_agent_id := set_or (cu_assigned_agent_id u) (ct_assigned_agent_id c),
     ct_ai_assigned := (case cu_ai_assigned u of Some (Some b) \<Rightarrow> b | _ \<Rightarrow> ct_ai_assigned c)\<rparr>"

definition contact_repo_update :: "uuid \<Rightarrow> contact_updates \<Rightarrow> 'a crm_scheme \<Rightarrow> err + 'a crm_scheme" where
  "contact_repo_update i u s =
     ebind (ensure (cu_status u \<noteq> Some None \<and> cu_ai_assigned u \<noteq> Some None) (IntegrityError ''not_null'')) (\<lambda>_.
     ebind (ensure (case cu_assigned_agent_id u of Some (Some a) \<Rightarrow> a \<in> us_id ` set (users s) | _ \<Rightarrow> True)
              (IntegrityError ''contacts_assigned_agent_id_fkey'')) (\<lambda>_.
     Inr (upd_contact i (apply_updates u) s)))"

definition contact_audit :: "uuid option \<Rightarrow> string \<Rightarrow> uuid option \<Rightarrow> 'a crm_scheme \<Rightarrow> 'a crm_scheme" where
  "contact_audit actor_id action entity_id s =
     audit_append \<lparr>au_actor_type = ''agent'', au_actor_id = actor_id, au_action = action,
       au_entity_type = ''contact'', au_entity_id = entity_id\<rparr> s"

definition create_contact :: "contact_create_request \<Rightarrow> uuid \<Rightarrow> 'a crm_scheme \<Rightarrow> err + uuid \<times> 'a crm_scheme" where
  "create_contact r actor_id s =
     ebind (ensure (get_by_phone (ccr_phone r) s = None) ConflictError) (\<lambda>_.
     let k = normalize_assignment (no_updates\<lparr>
               cu_assigned_agent_id := map_option Some (ccr_assigned_agent_id r),
               cu_ai_assigned := Some (Some (ccr_ai_assigned r))\<rparr>);
         (i, s1) = fresh_id s
     in ebind (contact_insert
          (apply_updates k ((new_contact i (ccr_phone r))\<lparr>ct_name := ccr_name r, ct_company := ccr_company r,
             ct_information := ccr_information r,
             ct_status := (case ccr_status r of None \<Rightarrow> CT_ACTIVE | Some st \<Rightarrow> st)\<rparr>)) s1) (\<lambda>s2.
        Inr (i, contact_audit (Some actor_id) ''contact.created'' (Some i) s2)))"

definition update_contact :: "uuid \<Rightarrow> contact_updates \<Rightarrow> uuid \<Rightarrow> 'a crm_scheme \<Rightarrow> err + 'a crm_scheme" where
  "update_contact i updates actor_id s =
     ebind (from_opt NotFoundError (get_crm_contact i s)) (\<lambda>_.
     if updates = no_updates then Inr s
     else ebind (contact_repo_update i (normalize_assignment updates) s) (\<lambda>s1.
          Inr (contact_audit (Some actor_id) ''contact.updated'' (Some i) s1)))"

definition contact_bulk_update ::
  "uuid list \<Rightarrow> contact_updates \<Rightarrow> uuid \<Rightarrow> 'a crm_scheme \<Rightarrow> err + (nat \<times> uuid list) \<times> 'a crm_scheme" where
  "contact_bulk_update ids patch actor_id s =
     (let updates = normalize_assignment patch;
          step = (\<lambda>cid (failed, count, s).
            if get_crm_contact cid s = None then Inr (failed @ [cid], count, s)
            else ebind (contact_repo_update cid updates s) (\<lambda>s1. Inr (failed, count + 1, s1)))
      in ebind (foldE step ids ([], 0, s)) (\<lambda>(failed, count, s1).
         Inr ((count, failed), contact_audit (Some actor_id) ''contact.bulk_updated'' None s1)))"

section \<open>CSV import\<close>

definition max_import_rows :: nat where
  "max_import_rows = 10000"

datatype csv_row = ParsedContactRow nat string "string option" "string option"
  | ParseError nat "string option" string

definition normalize_header :: "string \<Rightarrow> string" where
  "normalize_header name = lower (strip name)"

text \<open>\<open>^\+?[0-9]{4,32}$\<close> on a canonical number.\<close>

definition valid_phone :: "string \<Rightarrow> bool" where
  "valid_phone phone = (list_all ascii_digit phone \<and> 4 \<le> length phone \<and> length phone \<le> 32)"

definition cell :: "string option \<Rightarrow> (string \<Rightarrow> string option) \<Rightarrow> string" where
  "cell key row = (case key of None \<Rightarrow> [] | Some k \<Rightarrow> strip (case row k of None \<Rightarrow> [] | Some v \<Rightarrow> v))"

definition none_if_empty :: "string \<Rightarrow> string option" where
  "none_if_empty w = (if w = [] then None else Some w)"

text \<open>
  \<open>parse_csv\<close>: \<open>fieldnames\<close> is the header of the reader (\<open>None\<close> for an empty file), \<open>rows\<close> its
  dictionaries. Of two headers with the same normal form the later one counts.
\<close>

definition header_key :: "string list \<Rightarrow> string \<Rightarrow> string option" where
  "header_key fieldnames name = map_of (rev (map (\<lambda>h. (normalize_header h, h)) fieldnames)) name"

definition parse_row ::
  "string list \<Rightarrow> nat \<Rightarrow> (string \<Rightarrow> string option) \<Rightarrow> csv_row list" where
  "parse_row fieldnames idx row =
     (if list_all (\<lambda>k. cell (Some k) row = []) fieldnames then []
      else let raw_phone = cell (header_key fieldnames ''phone'') row;
               phone = canonicalize_phone raw_phone
           in if raw_phone = [] then [ParseError idx None ''missing_phone'']
              else if \<not> valid_phone phone then [ParseError idx (Some raw_phone) ''invalid_phone_format'']
              else [ParsedContactRow idx phone (none_if_empty (cell (header_key fieldnames ''name'') row))
                      (none_if_empty (cell (header_key fieldnames ''company'') row))])"

definition parse_csv ::
  "nat \<Rightarrow> string list option \<Rightarrow> (string \<Rightarrow> string option) list \<Rightarrow> csv_row list" where
  "parse_csv max_rows fieldnames rows =
     (case fieldnames of
        None \<Rightarrow> []
      | Some hs \<Rightarrow>
          if header_key hs ''phone'' = None then [ParseError 1 None ''csv_missing_phone_column'']
          else concat (map (\<lambda>(idx, row). parse_row hs idx row)
                 (zip [2 ..< length rows + 2] (take max_rows rows))))"

record import_receipt =
  ir_total_rows :: nat
  ir_created :: nat
  ir_updated :: nat
  ir_skipped :: nat
  ir_errors :: "(nat \<times> string option \<times> string) list"

definition import_error_cap :: nat where
  "import_error_cap = 100"

definition import_skip :: "nat \<Rightarrow> string option \<Rightarrow> string \<Rightarrow> import_receipt \<Rightarrow> import_receipt" where
  "import_skip row phone e r = r\<lparr>ir_skipped := ir_skipped r + 1,
     ir_errors := (if length (ir_errors r) < import_error_cap then ir_errors r @ [(row, phone, e)] else ir_errors r)\<rparr>"

text \<open>A row of the file overwrites the name and company it carries.\<close>

definition import_changes :: "string option \<Rightarrow> string option \<Rightarrow> crm_contact \<Rightarrow> crm_contact" where
  "import_changes name company c = c\<lparr>ct_name := (if name \<noteq> None then name else ct_name c),
     ct_company := (if company \<noteq> None then company else ct_company c)\<rparr>"

fun import_row :: "csv_row \<Rightarrow> import_receipt \<times> 'a crm_scheme \<Rightarrow> import_receipt \<times> 'a crm_scheme" where
  "import_row (ParseError row phone e) (r, s) =
     (import_skip row phone e (r\<lparr>ir_total_rows := ir_total_rows r + 1\<rparr>), s)"
| "import_row (ParsedContactRow row phone name company) (r, s) =
     (let r1 = r\<lparr>ir_total_rows := ir_total_rows r + 1\<rparr>; existed = get_by_phone phone s
      in case upsert_by_phone phone name None s of
           Inl e \<Rightarrow> (import_skip row (Some phone) ''persist_error'' r1, s)
         | Inr (c, s1) \<Rightarrow>
             (if existed = None then r1\<lparr>ir_created := ir_created r1 + 1\<rparr>
              else r1\<lparr>ir_updated := ir_updated r1 + 1\<rparr>,
              if import_changes name company c = c then s1
              else upd_contact (ct_id c) (import_changes name company) s1))"

definition empty_receipt :: import_receipt where
  "empty_receipt = \<lparr>ir_total_rows = 0, ir_created = 0, ir_updated = 0, ir_skipped = 0, ir_errors = []\<rparr>"

definition import_csv ::
  "string list option \<Rightarrow> (string \<Rightarrow> string option) list \<Rightarrow> uuid \<Rightarrow> 'a crm_scheme \<Rightarrow> import_receipt \<times> 'a crm_scheme" where
  "import_csv fieldnames rows actor_id s =
     (let parsed = parse_csv max_import_rows fieldnames rows in
      if parsed = [ParseError 1 None ''csv_missing_phone_column'']
      then (empty_receipt\<lparr>ir_errors := [(1, None, ''csv_missing_phone_column'')]\<rparr>, s)
      else let (r, s1) = fold import_row parsed (empty_receipt, s)
           in (r, contact_audit (Some actor_id) ''contact.imported_csv'' None s1))"

section \<open>The follow-up sweep\<close>

definition follow_up_sweep_hours :: int where
  "follow_up_sweep_hours = 12"

definition stale_contacted :: "int \<Rightarrow> crm_contact \<Rightarrow> bool" where
  "stale_contacted cutoff c = (ct_status c = CT_CONTACTED
     \<and> (case ct_last_contacted_at c of None \<Rightarrow> False
        | Some t \<Rightarrow> t \<le> cutoff \<and> (case ct_last_inbound_at c of None \<Rightarrow> True | Some i \<Rightarrow> i < t)))"

definition sweep_follow_up :: "'a crm_scheme \<Rightarrow> nat \<times> 'a crm_scheme" where
  "sweep_follow_up s =
     (let cutoff = clock s - microseconds (follow_up_sweep_hours * 3600)
      in (length (filter (stale_contacted cutoff) (crm_contacts s)),
          s\<lparr>crm_contacts := map (\<lambda>c. if stale_contacted cutoff c then c\<lparr>ct_status := CT_FOLLOW_UP\<rparr> else c)
               (crm_contacts s)\<rparr>))"

lemmas contact_evals = canonicalize_phone_def format_rules_def format_phone_for_display_def get_by_phone_def
  new_contact_def contact_insert_def blank_def upsert_by_phone_def append_information_def
  upsert_by_phone_append_def touch_last_contacted_def touch_last_inbound_def transition_status_def
  set_do_not_contact_def parse_contact_create_def no_updates_def normalize_assignment_def set_or_def
  apply_updates_def contact_repo_update_def contact_audit_def create_contact_def update_contact_def
  contact_bulk_update_def max_import_rows_def normalize_header_def valid_phone_def cell_def
  none_if_empty_def header_key_def parse_row_def parse_csv_def import_error_cap_def import_skip_def
  import_changes_def empty_receipt_def import_csv_def follow_up_sweep_hours_def stale_contacted_def
  sweep_follow_up_def

declare contact_evals [evals]

end
