(* ===== verification/Outreach.thy ===== *)
theory Outreach
  imports Crm
begin

text \<open>
  backend/app/modules/engagement/constants.py: the regimes and delays of the follow-up policy, the
  opt-out keywords and the delivery failures that are final. A text is the bytes of its UTF-8 encoding
  here; a keyword occurs in a text exactly when its bytes do. \<open>lower\<close> folds the ASCII letters only: the two
  other code points that fold into ASCII (the Kelvin sign and the dotted capital I) are not modelled.
\<close>

section \<open>Outreach states\<close>

definition outreach_terminal_states :: "outreach_state list" where
  "outreach_terminal_states = [OS_CONVERTED, OS_UNRESPONSIVE, OS_UNDELIVERABLE, OS_SUPPRESSED]"

definition outreach_cold_states :: "outreach_state list" where
  "outreach_cold_states = [OS_PENDING, OS_OUTREACH_SENT, OS_COLD_FOLLOWUP_SENT]"

definition outreach_reengage_states :: "outreach_state list" where
  "outreach_reengage_states = [OS_REENGAGE_1, OS_REENGAGE_2]"

definition outreach_rescue_states :: "outreach_state list" where
  "outreach_rescue_states = [OS_RESCUE_1, OS_RESCUE_2]"

text \<open>A state that is set and not terminal.\<close>

definition outreach_open :: "outreach_state option \<Rightarrow> bool" where
  "outreach_open x = (case x of None \<Rightarrow> False | Some st \<Rightarrow> st \<notin> set outreach_terminal_states)"

section \<open>Opt-out keywords\<close>

definition opt_out_keywords :: "string list" where
  "opt_out_keywords =
    [''stop'', ''unsubscribe'', ''unstop'', ''stopall'', ''cancel'', ''end'', ''quit'',
     ''do not message'', ''don'' @ [CHR 0x27] @ ''t message'', ''dont message'', ''stop messaging'',
     ''stop contacting'', ''please stop'', ''remove me'', ''delete my number'',
     ''don'' @ [CHR 0x27] @ ''t contact'', ''dont contact'', ''do not contact'', ''do not text'',
     ''no more messages'', ''take me off'', ''leave me alone'',
     [CHR 0xE4, CHR 0xB8, CHR 0x8D, CHR 0xE8, CHR 0xA6, CHR 0x81, CHR 0xE5, CHR 0x86, CHR 0x8D, CHR 0xE5,
      CHR 0x8F, CHR 0x91],
     [CHR 0xE4, CHR 0xB8, CHR 0x8D, CHR 0xE8, CHR 0xA6, CHR 0x81, CHR 0xE8, CHR 0x81, CHR 0x94, CHR 0xE7,
      CHR 0xB3, CHR 0xBB],
     [CHR 0xD9, CHR 0x84, CHR 0xD8, CHR 0xA7, CHR 0x20, CHR 0xD8, CHR 0xAA, CHR 0xD8, CHR 0xB1, CHR 0xD8,
      CHR 0xB3, CHR 0xD9, CHR 0x84],
     [CHR 0xD8, CHR 0xAA, CHR 0xD9, CHR 0x88, CHR 0xD9, CHR 0x82, CHR 0xD9, CHR 0x81],
     [CHR 0xD8, CHR 0xA7, CHR 0xD8, CHR 0xB1, CHR 0xD9, CHR 0x8A, CHR 0xD8, CHR 0xAF, CHR 0x20, CHR 0xD8,
      CHR 0xA7, CHR 0xD9, CHR 0x84, CHR 0xD8, CHR 0xBA, CHR 0xD8, CHR 0xA7, CHR 0xD8, CHR 0xA1],
     [CHR 0xD8, CHR 0xAD, CHR 0xD8, CHR 0xB0, CHR 0xD9, CHR 0x81, CHR 0x20, CHR 0xD8, CHR 0xB1, CHR 0xD9,
      CHR 0x82, CHR 0xD9, CHR 0x85, CHR 0xD9, CHR 0x8A]]"

text \<open>\<open>str.strip\<close>; no keyword begins or ends with a space, so the spaces outside ASCII do not matter.\<close>

definition strip_ascii :: "string \<Rightarrow> string" where
  "strip_ascii w = (let sp = (\<lambda>c. (of_char c :: nat) \<in> {9, 10, 11, 12, 13, 28, 29, 30, 31, 32})
     in rev (dropWhile sp (rev (dropWhile sp w))))"

definition detect_opt_out_keywords :: "string option \<Rightarrow> bool" where
  "detect_opt_out_keywords text =
     (case text of
        None \<Rightarrow> False
      | Some w \<Rightarrow> w \<noteq> [] \<and> (let lowered = strip_ascii (lower w) in list_ex (\<lambda>kw. contains kw lowered) opt_out_keywords))"

section \<open>Delivery failures\<close>

definition permanent_failure_codes :: "int list" where
  "permanent_failure_codes = [131026, 131047, 131049, 131051, 131052, 131053]"

definition is_permanent_failure :: "int option \<Rightarrow> bool" where
  "is_permanent_failure error_code = (case error_code of None \<Rightarrow> False | Some c \<Rightarrow> c \<in> set permanent_failure_codes)"

definition tag_for_failure_code :: "int option \<Rightarrow> string option" where
  "tag_for_failure_code error_code =
     (case error_code of
        None \<Rightarrow> None
      | Some c \<Rightarrow>
          if c \<in> {131026, 131047, 131049, 131053} then Some ''NOT_ON_WHATSAPP''
          else if c \<in> {131052} then Some ''INVALID_NUMBER''
          else if c \<in> {131051} then Some ''UNDELIVERABLE''
          else Some ''UNDELIVERABLE'')"

section \<open>Tags applied by the system\<close>

text \<open>
  The pair of inserts of \<open>_apply_opt_out_tag_sync\<close>, \<open>_auto_apply_delivery_tag_sync\<close> and
  \<open>_auto_tag_contact\<close>: the tag under its name, if there is none yet, then the link, if there is none.
\<close>

definition tag_by_name :: "string \<Rightarrow> 'a crm_scheme \<Rightarrow> tag option" where
  "tag_by_name name s = get_by tg_name name (tags s)"

definition ensure_tag :: "string \<Rightarrow> 'a crm_scheme \<Rightarrow> uuid \<times> 'a crm_scheme" where
  "ensure_tag name s =
     (case tag_by_name name s of
        Some t \<Rightarrow> (tg_id t, s)
      | None \<Rightarrow> let (i, s1) = fresh_id s in (i, s1\<lparr>tags := tags s1 @ [\<lparr>tg_id = i, tg_name = name, tg_description = None, tg_color = None\<rparr>]\<rparr>))"

definition has_tag :: "uuid \<Rightarrow> uuid \<Rightarrow> 'a crm_scheme \<Rightarrow> bool" where
  "has_tag contact_id tag_id s =
     list_ex (\<lambda>l. ctg_contact_id l = contact_id \<and> ctg_tag_id l = tag_id) (contact_tags s)"

definition auto_tag :: "uuid \<Rightarrow> string \<Rightarrow> 'a crm_scheme \<Rightarrow> 'a crm_scheme" where
  "auto_tag contact_id name s =
     (let (i, s1) = ensure_tag name s
      in if has_tag contact_id i s1 then s1
         else s1\<lparr>contact_tags := contact_tags s1 @
                [\<lparr>ctg_contact_id = contact_id, ctg_tag_id = i, ctg_approved_by = None\<rparr>]\<rparr>)"

definition tagged_with :: "uuid \<Rightarrow> string \<Rightarrow> 'a crm_scheme \<Rightarrow> bool" where
  "tagged_with contact_id name s =
     (case tag_by_name name s of None \<Rightarrow> False | Some t \<Rightarrow> has_tag contact_id (tg_id t) s)"

lemmas outreach_evals = outreach_terminal_states_def outreach_cold_states_def outreach_reengage_states_def
  outreach_rescue_states_def outreach_open_def permanent_failure_codes_def is_permanent_failure_def
  tag_for_failure_code_def tag_by_name_def ensure_tag_def has_tag_def auto_tag_def tagged_with_def

declare outreach_evals [evals]

text \<open>After the inserts the contact has the tag, and no other tag or link is gone.\<close>

lemma auto_tag_tagged: "tagged_with c name (auto_tag c name s)"
proof (cases "tag_by_name name s")
  case None
  then show ?thesis
    by (auto simp: auto_tag_def ensure_tag_def tagged_with_def tag_by_name_def has_tag_def fresh_id_def Let_def get_by_append)
next
  case (Some t)
  then show ?thesis by (auto simp: auto_tag_def ensure_tag_def tagged_with_def tag_by_name_def has_tag_def)
qed

lemma auto_tag_frame [simp]:
  "crm_contacts (auto_tag c n s) = crm_contacts s" "conversations (auto_tag c n s) = conversations s"
  "messages (auto_tag c n s) = messages s" "campaigns (auto_tag c n s) = campaigns s"
  "campaign_recipients (auto_tag c n s) = campaign_recipients s" "task_queue (auto_tag c n s) = task_queue s"
  "redis_keys (auto_tag c n s) = redis_keys s" "clock (auto_tag c n s) = clock s" "users (auto_tag c n s) = users s"
  "media_assets (auto_tag c n s) = media_assets s" "bool_settings (auto_tag c n s) = bool_settings s"
  "published (auto_tag c n s) = published s" "templates (auto_tag c n s) = templates s"
  by (simp_all add: auto_tag_def ensure_tag_def fresh_id_def Let_def split: option.splits)

end
