(* ===== verification/Recipients.thy ===== *)
theory Recipients
  imports Crm
begin

text \<open>
  backend/app/modules/campaigns/repository.py: the queries and updates of campaigns and of their
  recipients that the services and the workers share. The asynchronous and the synchronous versions of a
  method run the same statement.
\<close>

section \<open>CampaignRepository\<close>

definition get_campaign :: "uuid \<Rightarrow> 'a crm_scheme \<Rightarrow> campaign option" where
  "get_campaign i s = get_by cp_id i (campaigns s)"

definition upd_campaign :: "uuid \<Rightarrow> (campaign \<Rightarrow> campaign) \<Rightarrow> 'a crm_scheme \<Rightarrow> 'a crm_scheme" where
  "upd_campaign i f s = s\<lparr>campaigns := upd_by cp_id i f (campaigns s)\<rparr>"

text \<open>\<open>update_status_sync\<close>: no condition on the current status; returns the number of rows.\<close>

definition update_status :: "uuid \<Rightarrow> campaign_status \<Rightarrow> (campaign \<Rightarrow> campaign) \<Rightarrow> 'a crm_scheme \<Rightarrow> nat \<times> 'a crm_scheme" where
  "update_status i status extra s =
     (if get_campaign i s = None then (0, s)
      else (1, upd_campaign i (\<lambda>c. extra (c\<lparr>cp_status := status\<rparr>)) s))"

text \<open>A missing or empty entry of the filter leaves its clause out; a null time satisfies no comparison.\<close>

definition in_audience :: "audience_filter \<Rightarrow> 'a crm_scheme \<Rightarrow> crm_contact \<Rightarrow> bool" where
  "in_audience f s c =
     (ct_status c \<noteq> CT_BLOCKED \<and> \<not> ct_marketing_opt_out c
      \<and> (af_tags f = [] \<or> list_ex (\<lambda>l. ctg_contact_id l = ct_id c \<and> ctg_tag_id l \<in> set (af_tags f)) (contact_tags s))
      \<and> (af_status f = [] \<or> ct_status c \<in> set (af_status f))
      \<and> (af_assigned_agent_id f = None \<or> ct_assigned_agent_id c = af_assigned_agent_id f)
      \<and> (case af_last_interaction_after f of None \<Rightarrow> True
         | Some t \<Rightarrow> (case ct_last_interaction_at c of None \<Rightarrow> False | Some i \<Rightarrow> t \<le> i))
      \<and> (case af_last_interaction_before f of None \<Rightarrow> True
         | Some t \<Rightarrow> (case ct_last_interaction_at c of None \<Rightarrow> False | Some i \<Rightarrow> i \<le> t))
      \<and> (af_contact_ids f = [] \<or> ct_id c \<in> set (af_contact_ids f)))"

definition select_audience_contact_ids :: "audience_filter \<Rightarrow> 'a crm_scheme \<Rightarrow> uuid list" where
  "select_audience_contact_ids f s = map ct_id (filter (in_audience f s) (crm_contacts s))"

record counter_deltas =
  sent_delta :: nat
  delivered_delta :: nat
  failed_delta :: nat
  response_delta :: nat

definition no_deltas :: counter_deltas where
  "no_deltas = \<lparr>sent_delta = 0, delivered_delta = 0, failed_delta = 0, response_delta = 0\<rparr>"

definition increment_counters :: "uuid \<Rightarrow> counter_deltas \<Rightarrow> 'a crm_scheme \<Rightarrow> 'a crm_scheme" where
  "increment_counters i d s = upd_campaign i (\<lambda>c. c\<lparr>cp_sent_count := cp_sent_count c + sent_delta d,
     cp_delivered_count := cp_delivered_count c + delivered_delta d,
     cp_failed_count := cp_failed_count c + failed_delta d,
     cp_response_count := cp_response_count c + response_delta d\<rparr>) s"

definition due_for_scheduler :: "int \<Rightarrow> campaign \<Rightarrow> bool" where
  "due_for_scheduler ts c = (cp_status c = CP_SCHEDULED
     \<and> ((cp_type c = CT_SCHEDULED \<and> (case cp_scheduled_at c of None \<Rightarrow> False | Some t \<Rightarrow> t \<le> ts))
       \<or> (cp_type c = CT_RECURRING \<and> (case cp_next_run_at c of None \<Rightarrow> False | Some t \<Rightarrow> t \<le> ts))))"

text \<open>\<open>ORDER BY ... NULLS LAST\<close> on two columns.\<close>

fun nulls_last :: "int option \<Rightarrow> nat \<times> int" where
  "nulls_last None = (1, 0)"
| "nulls_last (Some t) = (0, t)"

definition find_due_for_scheduler :: "nat \<Rightarrow> 'a crm_scheme \<Rightarrow> campaign list" where
  "find_due_for_scheduler limit s =
     (let due = filter (due_for_scheduler (clock s)) (campaigns s)
      in take limit (sort_key (\<lambda>c. let (a, t) = nulls_last (cp_scheduled_at c); (b, u) = nulls_last (cp_next_run_at c)
           in [int a, t, int b, u]) due))"

section \<open>CampaignRecipientRepository\<close>

definition recipients_of :: "uuid \<Rightarrow> 'a crm_scheme \<Rightarrow> campaign_recipient list" where
  "recipients_of campaign_id s = filter (\<lambda>r. cr_campaign_id r = campaign_id) (campaign_recipients s)"

definition upd_recipients ::
  "(campaign_recipient \<Rightarrow> bool) \<Rightarrow> (campaign_recipient \<Rightarrow> campaign_recipient) \<Rightarrow> 'a crm_scheme \<Rightarrow> 'a crm_scheme" where
  "upd_recipients P f s = s\<lparr>campaign_recipients := map (\<lambda>r. if P r then f r else r) (campaign_recipients s)\<rparr>"

definition get_recipient :: "uuid \<Rightarrow> 'a crm_scheme \<Rightarrow> campaign_recipient option" where
  "get_recipient i s = get_by cr_id i (campaign_recipients s)"

definition new_recipient :: "uuid \<Rightarrow> uuid \<Rightarrow> uuid \<Rightarrow> int \<Rightarrow> campaign_recipient" where
  "new_recipient i campaign_id contact_id now = \<lparr>cr_id = i, cr_campaign_id = campaign_id, cr_contact_id = contact_id,
     cr_message_id = None, cr_status = CR_PENDING, cr_outreach_state = None, cr_sent_at = None,
     cr_delivered_at = None, cr_failed_at = None, cr_responded = False, cr_attempt_count = 0,
     cr_error_message = None, cr_error_code = None, cr_meta_message_id = None, cr_created_at = now\<rparr>"

text \<open>\<open>INSERT ... ON CONFLICT (campaign, contact) DO NOTHING\<close>, with the number of rows inserted.\<close>

definition insert_recipient :: "uuid \<Rightarrow> uuid \<Rightarrow> nat \<times> 'a crm_scheme \<Rightarrow> nat \<times> 'a crm_scheme" where
  "insert_recipient campaign_id contact_id acc =
     (let (n, s) = acc in
      if list_ex (\<lambda>r. cr_campaign_id r = campaign_id \<and> cr_contact_id r = contact_id) (campaign_recipients s)
      then (n, s)
      else let (i, s1) = fresh_id s
           in (n + 1, s1\<lparr>campaign_recipients := campaign_recipients s1 @
                 [new_recipient i campaign_id contact_id (clock s1)]\<rparr>))"

definition bulk_insert :: "uuid \<Rightarrow> uuid list \<Rightarrow> 'a crm_scheme \<Rightarrow> nat \<times> 'a crm_scheme" where
  "bulk_insert campaign_id contact_ids s = fold (insert_recipient campaign_id) contact_ids (0, s)"

definition count_status :: "uuid \<Rightarrow> recipient_status \<Rightarrow> 'a crm_scheme \<Rightarrow> nat" where
  "count_status campaign_id st s = length (filter (\<lambda>r. cr_status r = st) (recipients_of campaign_id s))"

definition cancel_pending :: "uuid \<Rightarrow> 'a crm_scheme \<Rightarrow> nat \<times> 'a crm_scheme" where
  "cancel_pending campaign_id s =
     (count_status campaign_id CR_PENDING s,
      upd_recipients (\<lambda>r. cr_campaign_id r = campaign_id \<and> cr_status r = CR_PENDING)
        (\<lambda>r. r\<lparr>cr_status := CR_FAILED, cr_failed_at := Some (clock s), cr_error_message := Some ''campaign_cancelled''\<rparr>) s)"

text \<open>Rows with equal \<open>created_at\<close> come in the order of insertion.\<close>

definition list_pending_ids :: "uuid \<Rightarrow> nat \<Rightarrow> nat \<Rightarrow> 'a crm_scheme \<Rightarrow> uuid list" where
  "list_pending_ids campaign_id limit offset s =
     map cr_id (take limit (drop offset (sort_key cr_created_at
       (filter (\<lambda>r. cr_status r = CR_PENDING) (recipients_of campaign_id s)))))"

definition get_with_contact :: "uuid \<Rightarrow> 'a crm_scheme \<Rightarrow> (campaign_recipient \<times> crm_contact) option" where
  "get_with_contact i s =
     (case get_recipient i s of
        None \<Rightarrow> None
      | Some r \<Rightarrow> (case get_crm_contact (cr_contact_id r) s of None \<Rightarrow> None | Some c \<Rightarrow> Some (r, c)))"

definition mark_sent :: "uuid \<Rightarrow> uuid \<Rightarrow> string option \<Rightarrow> 'a crm_scheme \<Rightarrow> 'a crm_scheme" where
  "mark_sent i message_id meta_message_id s = upd_recipients (\<lambda>r. cr_id r = i)
     (\<lambda>r. r\<lparr>cr_status := CR_SENT, cr_sent_at := Some (clock s), cr_message_id := Some message_id,
        cr_meta_message_id := meta_message_id, cr_attempt_count := cr_attempt_count r + 1,
        cr_error_message := None, cr_error_code := None\<rparr>) s"

definition mark_failed :: "uuid \<Rightarrow> string \<Rightarrow> int option \<Rightarrow> 'a crm_scheme \<Rightarrow> 'a crm_scheme" where
  "mark_failed i e error_code s = upd_recipients (\<lambda>r. cr_id r = i)
     (\<lambda>r. r\<lparr>cr_status := CR_FAILED, cr_failed_at := Some (clock s), cr_attempt_count := cr_attempt_count r + 1,
        cr_error_message := Some (take 500 e), cr_error_code := error_code\<rparr>) s"

text \<open>\<open>update_delivery_status_sync\<close>: more than one recipient under the identifier raises.\<close>

definition recipient_delivery_status ::
  "string \<Rightarrow> recipient_status \<Rightarrow> int option \<Rightarrow> string option \<Rightarrow> 'a crm_scheme
   \<Rightarrow> err + campaign_recipient option \<times> 'a crm_scheme" where
  "recipient_delivery_status meta_message_id new_status error_code error_message s =
     ebind (scalar_one_or_none (filter (\<lambda>r. cr_meta_message_id r = Some meta_message_id) (campaign_recipients s))) (\<lambda>found.
     case found of
       None \<Rightarrow> Inr (None, s)
     | Some recipient \<Rightarrow> Inr (Some recipient, upd_recipients (\<lambda>r. cr_id r = cr_id recipient)
         (\<lambda>r. let r1 = r\<lparr>cr_status := new_status\<rparr> in
           if new_status = CR_DELIVERED
           then r1\<lparr>cr_delivered_at := Some (clock s), cr_error_code := None, cr_error_message := None\<rparr>
           else if new_status = CR_FAILED
           then r1\<lparr>cr_failed_at := Some (clock s),
                 cr_error_code := (if error_code = None then cr_error_code r else error_code),
                 cr_error_message := (case error_message of None \<Rightarrow> cr_error_message r | Some m \<Rightarrow> Some (take 500 m))\<rparr>
           else r1) s))"

definition recent_unanswered :: "uuid \<Rightarrow> int \<Rightarrow> campaign_recipient \<Rightarrow> bool" where
  "recent_unanswered contact_id since r = (cr_contact_id r = contact_id \<and> \<not> cr_responded r
     \<and> (case cr_sent_at r of None \<Rightarrow> False | Some t \<Rightarrow> since \<le> t))"

definition mark_responded_for_contact :: "uuid \<Rightarrow> int \<Rightarrow> 'a crm_scheme \<Rightarrow> nat \<times> 'a crm_scheme" where
  "mark_responded_for_contact contact_id since s =
     (length (filter (recent_unanswered contact_id since) (campaign_recipients s)),
      upd_recipients (recent_unanswered contact_id since) (\<lambda>r. r\<lparr>cr_responded := True\<rparr>) s)"

text \<open>The failure reasons of a campaign with their counts.\<close>

definition error_pairs :: "uuid \<Rightarrow> 'a crm_scheme \<Rightarrow> (string \<times> int option) list" where
  "error_pairs campaign_id s = map (\<lambda>r. (the (cr_error_message r), cr_error_code r))
     (filter (\<lambda>r. cr_status r = CR_FAILED \<and> cr_error_message r \<noteq> None) (recipients_of campaign_id s))"

definition error_breakdown :: "uuid \<Rightarrow> 'a crm_scheme \<Rightarrow> ((string \<times> int option) \<times> nat) list" where
  "error_breakdown campaign_id s =
     (let ps = error_pairs campaign_id s
      in take 10 (sort_key (\<lambda>(p, n). - int n) (map (\<lambda>p. (p, length (filter ((=) p) ps))) (remdups ps))))"

lemmas recipient_evals = get_campaign_def upd_campaign_def update_status_def in_audience_def
  select_audience_contact_ids_def no_deltas_def increment_counters_def due_for_scheduler_def
  find_due_for_scheduler_def recipients_of_def upd_recipients_def get_recipient_def new_recipient_def
  insert_recipient_def bulk_insert_def count_status_def cancel_pending_def list_pending_ids_def
  get_with_contact_def mark_sent_def mark_failed_def recipient_delivery_status_def recent_unanswered_def
  mark_responded_for_contact_def error_pairs_def error_breakdown_def

declare recipient_evals [evals]

end
