(* ===== verification/Messaging.thy ===== *)
theory Messaging
  imports Conversations Contacts Outreach Recipients
begin

text \<open>
  Messages (backend/app/modules/messaging: constants, models, repository, service, router, tasks). What
  Meta answers and whether Redis or a file is there are arguments. A Celery task is a function from the
  state and the number of retries so far to the state it committed and how it ended: done, failed with an
  exception, or asking to be run again after a countdown while the given number of retries is not
  exceeded. Texts are the bytes of their UTF-8 encoding.
\<close>

section \<open>Constants\<close>

definition message_types :: "string list" where
  "message_types = [''text'', ''image'', ''video'', ''audio'', ''contact'']"

definition retry_delay_seconds :: "int list" where
  "retry_delay_seconds = [0, 30, 120, 600]"

definition max_send_attempts :: nat where
  "max_send_attempts = length retry_delay_seconds"

definition delivery_failure_retry_delays :: "int list" where
  "delivery_failure_retry_delays = [900, 10800, 43200]"

definition max_delivery_retries :: nat where
  "max_delivery_retries = length delivery_failure_retry_delays"

definition max_retries :: nat where
  "max_retries = 4"

definition retry_delays :: "int list" where
  "retry_delays = [0, 30, 120, 600]"

definition redis_down_retry_seconds :: int where
  "redis_down_retry_seconds = 60"

definition redis_down_max_retries :: nat where
  "redis_down_max_retries = 30"

text \<open>\<open>_DELIVERY_RANK.get(status, -1)\<close>\<close>

fun delivery_rank :: "delivery_status \<Rightarrow> int" where
  "delivery_rank MSG_PENDING = -1"
| "delivery_rank MSG_DRAFT = 0"
| "delivery_rank MSG_QUEUED = 1"
| "delivery_rank MSG_SENT = 2"
| "delivery_rank MSG_FAILED = 3"
| "delivery_rank MSG_DELIVERED = 4"
| "delivery_rank MSG_READ = 5"

datatype task_end = TaskDone | TaskFailed | TaskRetry int nat

section \<open>MessageRepository\<close>

definition get_by_meta_id :: "string \<Rightarrow> 'a crm_scheme \<Rightarrow> message option" where
  "get_by_meta_id meta_id s = find (\<lambda>m. ms_meta_message_id m = Some meta_id) (messages s)"

definition new_message ::
  "uuid \<Rightarrow> message_direction \<Rightarrow> sender_type \<Rightarrow> string \<Rightarrow> delivery_status \<Rightarrow> int \<Rightarrow> message" where
  "new_message conversation_id direction sender content status created_at = \<lparr>ms_id = 0,
     ms_conversation_id = conversation_id, ms_direction = direction, ms_sender_type = sender, ms_content = content,
     ms_meta_message_id = None, ms_delivery_status = status, ms_last_error = None, ms_error_code = None,
     ms_retry_count = 0, ms_delivery_retry_count = 0, ms_template_name = None, ms_template_language = None,
     ms_msg_type = ''text'', ms_context_message_id = None, ms_deleted_by = None,
     ms_deleted_for_everyone = False, ms_created_at = created_at\<rparr>"

text \<open>The INSERT with the constraints of the table; the row gets a fresh identifier.\<close>

definition create_message :: "message \<Rightarrow> 'a crm_scheme \<Rightarrow> err + uuid \<times> 'a crm_scheme" where
  "create_message m s =
     ebind (ensure (ms_msg_type m \<in> set message_types) (IntegrityError ''ck_messages_msg_type_valid'')) (\<lambda>_.
     ebind (ensure (ms_conversation_id m \<in> cv_id ` set (conversations s))
              (IntegrityError ''messages_conversation_id_fkey'')) (\<lambda>_.
     ebind (ensure (case ms_context_message_id m of None \<Rightarrow> True | Some c \<Rightarrow> c \<in> ms_id ` set (messages s))
              (IntegrityError ''messages_context_message_id_fkey'')) (\<lambda>_.
     ebind (ensure (case ms_meta_message_id m of None \<Rightarrow> True | Some w \<Rightarrow> get_by_meta_id w s = None)
              (IntegrityError ''messages_meta_message_id_key'')) (\<lambda>_.
     let (i, s1) = fresh_id s
     in Inr (i, s1\<lparr>messages := messages s1 @ [m\<lparr>ms_id := i\<rparr>]\<rparr>)))))"

definition increment_delivery_retry :: "uuid \<Rightarrow> 'a crm_scheme \<Rightarrow> 'a crm_scheme" where
  "increment_delivery_retry i s = upd_message i (\<lambda>m. m\<lparr>ms_delivery_retry_count := ms_delivery_retry_count m + 1\<rparr>) s"

section \<open>MessagingService\<close>

definition msg_audit :: "uuid \<Rightarrow> string \<Rightarrow> uuid option \<Rightarrow> 'a crm_scheme \<Rightarrow> 'a crm_scheme" where
  "msg_audit actor_id action entity_id s =
     audit_append \<lparr>au_actor_type = ''agent'', au_actor_id = Some actor_id, au_action = action,
       au_entity_type = ''message'', au_entity_id = entity_id\<rparr> s"

definition get_media :: "uuid \<Rightarrow> 'a crm_scheme \<Rightarrow> media_asset option" where
  "get_media i s = get_by ma_id i (media_assets s)"

definition link_media :: "uuid \<Rightarrow> uuid \<Rightarrow> 'a crm_scheme \<Rightarrow> 'a crm_scheme" where
  "link_media i message_id s =
     s\<lparr>media_assets := upd_by ma_id i (\<lambda>a. a\<lparr>ma_message_id := Some message_id\<rparr>) (media_assets s)\<rparr>"

definition resolve_msg_type :: "string option \<Rightarrow> uuid option \<Rightarrow> 'a crm_scheme \<Rightarrow> string" where
  "resolve_msg_type msg_type media_asset_id s =
     (let resolved = (case msg_type of None \<Rightarrow> ''text'' | Some t \<Rightarrow> if t = [] then ''text'' else t)
      in if resolved = ''text''
         then case Option.bind media_asset_id (\<lambda>i. get_media i s) of None \<Rightarrow> resolved | Some a \<Rightarrow> ma_media_type a
         else resolved)"

definition send_message ::
  "uuid \<Rightarrow> string \<Rightarrow> uuid \<Rightarrow> uuid option \<Rightarrow> uuid option \<Rightarrow> string option \<Rightarrow> 'a crm_scheme
   \<Rightarrow> err + uuid \<times> 'a crm_scheme" where
  "send_message conversation_id content actor_id media_asset_id context_message_id msg_type s =
     ebind (from_opt NotFoundError (get_conv conversation_id s)) (\<lambda>conv.
     ebind (ensure (cv_state conv \<noteq> CS_CLOSED) StateTransitionError) (\<lambda>_.
     ebind (ensure (case context_message_id of None \<Rightarrow> True | Some c \<Rightarrow> get_message c s \<noteq> None)
              (ValidationError ''context_message_id'')) (\<lambda>_.
     ebind (create_message ((new_message conversation_id OUTBOUND SENDER_AGENT content MSG_QUEUED (clock s))
              \<lparr>ms_msg_type := resolve_msg_type msg_type media_asset_id s,
               ms_context_message_id := context_message_id\<rparr>) s) (\<lambda>(i, s1).
     let s2 = (case media_asset_id of None \<Rightarrow> s1 | Some a \<Rightarrow> link_media a i s1)
     in Inr (i, msg_audit actor_id ''message.outbound_queued'' (Some i) s2)))))"

definition visible_to :: "uuid option \<Rightarrow> message \<Rightarrow> bool" where
  "visible_to actor_id m =
     (case actor_id of
        None \<Rightarrow> True
      | Some a \<Rightarrow> (case ms_deleted_by m of
                     None \<Rightarrow> True
                   | Some d \<Rightarrow> map_of d ''agent_id'' = None \<or> map_of d ''agent_id'' \<noteq> Some (UuidText a)))"

text \<open>The newest \<open>limit\<close> messages after \<open>offset\<close>, oldest first, and the total.\<close>

definition list_messages ::
  "uuid \<Rightarrow> nat \<Rightarrow> nat \<Rightarrow> uuid option \<Rightarrow> 'a crm_scheme \<Rightarrow> message list \<times> nat" where
  "list_messages conversation_id limit offset actor_id s =
     (let found = filter (\<lambda>m. ms_conversation_id m = conversation_id \<and> visible_to actor_id m) (messages s)
      in (rev (take limit (drop offset (rev (sort_key ms_created_at found)))), length found))"

definition assets_of :: "uuid \<Rightarrow> 'a crm_scheme \<Rightarrow> media_asset list" where
  "assets_of message_id s = filter (\<lambda>a. ma_message_id a = Some message_id) (media_assets s)"

definition first_asset :: "uuid \<Rightarrow> 'a crm_scheme \<Rightarrow> media_asset option" where
  "first_asset message_id s =
     (let assets = assets_of message_id s
      in if assets = [] then None else Some (assets ! (row_choice s (length assets) mod length assets)))"

definition forward_message :: "uuid \<Rightarrow> uuid \<Rightarrow> uuid \<Rightarrow> 'a crm_scheme \<Rightarrow> err + uuid \<times> 'a crm_scheme" where
  "forward_message message_id target_conversation_id actor_id s =
     ebind (from_opt NotFoundError (get_message message_id s)) (\<lambda>source.
     ebind (from_opt NotFoundError (get_conv target_conversation_id s)) (\<lambda>target.
     ebind (ensure (cv_state target \<noteq> CS_CLOSED) StateTransitionError) (\<lambda>_.
     ebind (create_message ((new_message target_conversation_id OUTBOUND SENDER_AGENT (ms_content source)
              MSG_QUEUED (clock s))\<lparr>ms_msg_type := ms_msg_type source,
              ms_context_message_id := Some (ms_id source)\<rparr>) s) (\<lambda>(i, s1).
     let s2 = (if ms_msg_type source = ''text'' then s1
               else case first_asset (ms_id source) s1 of None \<Rightarrow> s1 | Some a \<Rightarrow> link_media (ma_id a) i s1)
     in Inr (i, msg_audit actor_id ''message.forwarded'' (Some i) s2)))))"

text \<open>\<open>bulk_forward\<close>: a message that cannot be forwarded is an error of the list.\<close>

definition bulk_forward ::
  "uuid list \<Rightarrow> uuid \<Rightarrow> uuid \<Rightarrow> 'a crm_scheme \<Rightarrow> err + (uuid list \<times> uuid list) \<times> 'a crm_scheme" where
  "bulk_forward message_ids target_conversation_id actor_id s =
     ebind (from_opt NotFoundError (get_conv target_conversation_id s)) (\<lambda>target.
     ebind (ensure (cv_state target \<noteq> CS_CLOSED) StateTransitionError) (\<lambda>_.
     let (sent, failed, s1) = fold (\<lambda>mid (sent, failed, s).
           case forward_message mid target_conversation_id actor_id s of
             Inl e \<Rightarrow> (sent, failed @ [mid], s)
           | Inr (i, s') \<Rightarrow> (sent @ [i], failed, s')) message_ids ([], [], s)
     in Inr ((sent, failed), s1)))"

text \<open>
  \<open>bulk_delete\<close> sets the key \<open>agent_id\<close> of the JSON to the present time. It changes a dictionary that is
  already there in place and assigns the same object, which the ORM does not see as a change.
\<close>

definition mark_deleted :: "string \<Rightarrow> int \<Rightarrow> message \<Rightarrow> message" where
  "mark_deleted scope now m =
     (let m1 = (case ms_deleted_by m of
                  Some (d # ds) \<Rightarrow> m
                | _ \<Rightarrow> m\<lparr>ms_deleted_by := Some [(''agent_id'', IsoTime now)]\<rparr>)
      in if scope = ''for_everyone'' then m1\<lparr>ms_deleted_for_everyone := True\<rparr> else m1)"

definition bulk_delete ::
  "uuid list \<Rightarrow> string \<Rightarrow> uuid \<Rightarrow> 'a crm_scheme \<Rightarrow> (nat \<times> uuid list) \<times> 'a crm_scheme" where
  "bulk_delete message_ids scope actor_id s =
     (let (count, failed, s1) = fold (\<lambda>mid (count, failed, s).
            if get_message mid s = None then (count, failed @ [mid], s)
            else (count + 1, failed, upd_message mid (mark_deleted scope (clock s)) s)) message_ids (0, [], s)
      in ((count, failed), msg_audit actor_id ''messages.bulk_deleted'' None s1))"

definition start_conversation_with_template ::
  "uuid \<Rightarrow> uuid \<Rightarrow> uuid \<Rightarrow> 'a crm_scheme \<Rightarrow> err + (uuid \<times> uuid) \<times> 'a crm_scheme" where
  "start_conversation_with_template contact_id template_id actor_id s =
     ebind (from_opt NotFoundError (get_crm_contact contact_id s)) (\<lambda>_.
     ebind (from_opt NotFoundError (get_by tp_id template_id (templates s))) (\<lambda>template.
     ebind (ensure (tp_status template = TS_APPROVED) (ValidationError ''template'')) (\<lambda>_.
     ebind (case get_open_for_contact contact_id s of
              Some c \<Rightarrow> Inr (cv_id c, s) | None \<Rightarrow> conv_create_for_contact contact_id s) (\<lambda>(conv, s1).
     ebind (create_message ((new_message conv OUTBOUND SENDER_AGENT (tp_name template) MSG_QUEUED (clock s1))
              \<lparr>ms_template_name := Some (tp_name template),
               ms_template_language := Some (tp_language template)\<rparr>) s1) (\<lambda>(i, s2).
     Inr ((conv, i), msg_audit actor_id ''message.outbound_queued'' (Some i) s2))))))"

text \<open>The endpoints: the service, the commit, then the tasks.\<close>

definition post_send ::
  "uuid \<Rightarrow> string \<Rightarrow> uuid \<Rightarrow> uuid option \<Rightarrow> uuid option \<Rightarrow> string option \<Rightarrow> 'a crm_scheme
   \<Rightarrow> err + uuid \<times> 'a crm_scheme" where
  "post_send conversation_id content actor_id media_asset_id context_message_id msg_type s =
     ebind (send_message conversation_id content actor_id media_asset_id context_message_id msg_type s) (\<lambda>(i, s1).
     Inr (i, enqueue (SendOutbound i) s1))"

definition post_start :: "uuid \<Rightarrow> uuid \<Rightarrow> uuid \<Rightarrow> 'a crm_scheme \<Rightarrow> err + (uuid \<times> uuid) \<times> 'a crm_scheme" where
  "post_start contact_id template_id actor_id s =
     ebind (start_conversation_with_template contact_id template_id actor_id s) (\<lambda>((conv, i), s1).
     Inr ((conv, i), enqueue (SendOutbound i) s1))"

definition post_forward :: "uuid \<Rightarrow> uuid \<Rightarrow> uuid \<Rightarrow> 'a crm_scheme \<Rightarrow> err + uuid \<times> 'a crm_scheme" where
  "post_forward message_id target_conversation_id actor_id s =
     ebind (forward_message message_id target_conversation_id actor_id s) (\<lambda>(i, s1).
     Inr (i, enqueue (SendOutbound i) s1))"

definition post_bulk_forward ::
  "uuid list \<Rightarrow> uuid \<Rightarrow> uuid \<Rightarrow> 'a crm_scheme \<Rightarrow> err + (uuid list \<times> uuid list) \<times> 'a crm_scheme" where
  "post_bulk_forward message_ids target_conversation_id actor_id s =
     ebind (bulk_forward message_ids target_conversation_id actor_id s) (\<lambda>((sent, failed), s1).
     Inr ((sent, failed), fold (\<lambda>i. enqueue (SendOutbound i)) sent s1))"

definition post_bulk_delete ::
  "uuid list \<Rightarrow> string \<Rightarrow> uuid \<Rightarrow> 'a crm_scheme \<Rightarrow> (nat \<times> uuid list) \<times> 'a crm_scheme" where
  "post_bulk_delete message_ids scope actor_id s =
     (let (r, s1) = bulk_delete message_ids scope actor_id s
      in (r, if scope = ''for_everyone'' then fold (\<lambda>i. enqueue (RequestMetaDeletion i)) message_ids s1 else s1))"

lemmas messaging_service_evals = message_types_def retry_delay_seconds_def max_send_attempts_def
  delivery_failure_retry_delays_def max_delivery_retries_def max_retries_def retry_delays_def
  redis_down_retry_seconds_def redis_down_max_retries_def get_by_meta_id_def new_message_def create_message_def
  increment_delivery_retry_def msg_audit_def get_media_def link_media_def resolve_msg_type_def send_message_def
  visible_to_def list_messages_def assets_of_def first_asset_def forward_message_def bulk_forward_def
  mark_deleted_def bulk_delete_def start_conversation_with_template_def post_send_def post_start_def
  post_forward_def post_bulk_forward_def post_bulk_delete_def

declare messaging_service_evals [evals]

end
