(* ===== verification/MessagingTasks.thy ===== *)
theory MessagingTasks
  imports Messaging
begin

text \<open>
  The workers of backend/app/modules/messaging/tasks.py: inbound messages and delivery callbacks of Meta,
  the sending of a queued message and the retries after a failed delivery. A worker that raises before its
  commit leaves the state as it was.
\<close>

section \<open>Inbound messages\<close>

text \<open>
  A message of the webhook payload by the entries the code reads: \<open>wa_captions\<close> and \<open>wa_media_ids\<close> by
  media kind, \<open>wa_cards\<close> the name and phones of shared contacts, and a button or list reply with its title
  (\<open>None\<close> where the object is missing or empty).
\<close>

record wa_message =
  wa_id :: "string option"
  wa_from :: "string option"
  wa_timestamp :: "int option"
  wa_type :: "string option"
  wa_text_body :: "string option"
  wa_captions :: "string \<Rightarrow> string option"
  wa_media_ids :: "string \<Rightarrow> string option"
  wa_cards :: "(string option \<times> string list) list"
  wa_button_text :: "string option"
  wa_button_reply :: "string option option"
  wa_list_reply :: "string option option"
  wa_context_id :: "string option"
  wa_reaction_emoji :: "string option"
  wa_reaction_message_id :: "string option"

definition some_text :: "string option \<Rightarrow> bool" where
  "some_text w = (case w of None \<Rightarrow> False | Some v \<Rightarrow> v \<noteq> [])"

definition media_kinds :: "string list" where
  "media_kinds = [''image'', ''video'', ''audio'', ''document'']"

definition em_dash :: string where
  "em_dash = [CHR 0xE2, CHR 0x80, CHR 0x94]"

definition red_heart :: string where
  "red_heart = [CHR 0xE2, CHR 0x9D, CHR 0xA4, CHR 0xEF, CHR 0xB8, CHR 0x8F]"

definition bracketed :: "string \<Rightarrow> string" where
  "bracketed w = ''['' @ w @ '']''"

definition extract_text_content :: "wa_message \<Rightarrow> string option" where
  "extract_text_content msg =
     (case wa_type msg of
        None \<Rightarrow> None
      | Some t \<Rightarrow>
          if t = ''text'' then wa_text_body msg
          else if t \<in> set media_kinds
          then (if some_text (wa_captions msg t) then wa_captions msg t else Some (bracketed t))
          else if t = ''contacts''
          then (case wa_cards msg of
                  [] \<Rightarrow> Some ''[contact]''
                | (name, phones) # _ \<Rightarrow>
                    let ps = filter (\<lambda>p. p \<noteq> []) phones
                    in Some ((if some_text name then the name else ''Unknown'') @ '' '' @ em_dash @ '' ''
                         @ (if ps = [] then ''No phone'' else join '', '' ps)))
          else if t = ''button'' then wa_button_text msg
          else if t = ''interactive'' \<and> wa_button_reply msg \<noteq> None then the (wa_button_reply msg)
          else if t = ''interactive'' \<and> wa_list_reply msg \<noteq> None then the (wa_list_reply msg)
          else if t = ''reaction''
          then (if some_text (wa_reaction_emoji msg) then wa_reaction_emoji msg else Some red_heart)
          else if t = [] then None else Some (bracketed t))"

definition classify_msg_type :: "wa_message \<Rightarrow> string" where
  "classify_msg_type msg =
     (let meta_type = (case wa_type msg of None \<Rightarrow> ''text'' | Some t \<Rightarrow> t)
      in if meta_type \<in> set media_kinds then meta_type
         else if meta_type = ''contacts'' then ''contact'' else ''text'')"

definition first_media_id :: "wa_message \<Rightarrow> string option" where
  "first_media_id msg =
     (case filter some_text (map (wa_media_ids msg) [''image'', ''audio'', ''video'', ''document'']) of
        [] \<Rightarrow> None | i # _ \<Rightarrow> i)"

text \<open>The row of a media file; \<open>fetched\<close> tells whether the file could be had.\<close>

definition store_media ::
  "(string \<Rightarrow> bool) \<Rightarrow> string \<Rightarrow> string \<Rightarrow> uuid \<Rightarrow> 'a crm_scheme \<Rightarrow> 'a crm_scheme" where
  "store_media fetched media_id msg_type message_id s =
     (if fetched media_id
      then let (i, s1) = fresh_id s
           in s1\<lparr>media_assets := media_assets s1 @
                [\<lparr>ma_id = i, ma_message_id = Some message_id, ma_media_type = msg_type\<rparr>]\<rparr>
      else s)"

definition attribute_inbound_to_campaigns :: "uuid \<Rightarrow> int \<Rightarrow> 'a crm_scheme \<Rightarrow> 'a crm_scheme" where
  "attribute_inbound_to_campaigns contact_id when s =
     (let window_start = when - microseconds (30 * 86400);
          rows = map cr_campaign_id (filter (recent_unanswered contact_id window_start) (campaign_recipients s));
          s1 = snd (mark_responded_for_contact contact_id window_start s)
      in if rows = [] then s
         else fold (\<lambda>cid. increment_counters cid (no_deltas\<lparr>response_delta := 1\<rparr>)) (remdups rows) s1)"

text \<open>The phone, the sender's unless it is missing, in canonical form.\<close>

definition inbound_phone :: "string option \<Rightarrow> wa_message \<Rightarrow> string" where
  "inbound_phone display_phone msg =
     (let raw = (if some_text (wa_from msg) then wa_from msg else display_phone)
      in case raw of None \<Rightarrow> [] | Some p \<Rightarrow> canonicalize_phone p)"

definition context_of :: "wa_message \<Rightarrow> 'a crm_scheme \<Rightarrow> uuid option" where
  "context_of msg s =
     (let ctx = (if some_text (wa_context_id msg) then wa_context_id msg else wa_reaction_message_id msg)
      in if some_text ctx then map_option ms_id (get_by_meta_id (the ctx) s) else None)"

definition inbound_row :: "wa_message \<Rightarrow> uuid \<Rightarrow> int \<Rightarrow> 'a crm_scheme \<Rightarrow> message" where
  "inbound_row msg conv_id created_at s =
     (new_message conv_id INBOUND SENDER_CONTACT (case extract_text_content msg of None \<Rightarrow> [] | Some w \<Rightarrow> w)
        MSG_DELIVERED created_at)
     \<lparr>ms_meta_message_id := wa_id msg, ms_msg_type := classify_msg_type msg,
      ms_context_message_id := context_of msg s\<rparr>"

text \<open>The first transaction: the contact, the conversation and the message; yields what the rest needs.\<close>

definition store_inbound ::
  "(string \<Rightarrow> bool) \<Rightarrow> string \<Rightarrow> wa_message \<Rightarrow> 'a crm_scheme
   \<Rightarrow> err + (uuid \<times> uuid \<times> bool \<times> bool) \<times> 'a crm_scheme" where
  "store_inbound fetched phone msg s =
     (let created_at = (case wa_timestamp msg of None \<Rightarrow> clock s | Some t \<Rightarrow> microseconds t) in
     ebind (upsert_by_phone phone None None s) (\<lambda>(contact, s1).
     let s2 = touch_last_inbound (ct_id contact) s1;
         first = (\<forall>c\<in>set (conversations s2). cv_contact_id c \<noteq> ct_id contact) in
     ebind (inbound_conversation contact s2) (\<lambda>(conv, s3).
     let s4 = (if first then auto_tag (ct_id contact) ''Inbound Contact'' s3 else s3) in
     ebind (inbound_transition conv s4) (\<lambda>((ai_should_run, first_activated), s5).
     ebind (create_message (inbound_row msg conv created_at s5) s5) (\<lambda>(i, s6).
     let s7 = (case first_media_id msg of
                 None \<Rightarrow> s6
               | Some m \<Rightarrow> if classify_msg_type msg \<noteq> ''text''
                          then store_media fetched m (classify_msg_type msg) i s6 else s6)
     in Inr ((ct_id contact, conv, ai_should_run, first_activated),
         touch_last_message conv created_at
           (attribute_inbound_to_campaigns (ct_id contact) created_at s7)))))))"

text \<open>The second transaction: a keyword suppresses the contact.\<close>

definition suppress_contact :: "uuid \<Rightarrow> uuid \<Rightarrow> 'a crm_scheme \<Rightarrow> 'a crm_scheme" where
  "suppress_contact contact_id conv_id s =
     snd (update_outreach_state conv_id OS_SUPPRESSED None
       (auto_tag contact_id ''DO_NOT_CONTACT'' (set_do_not_contact contact_id True s)))"

definition cancel_pending_outreach_on_reply :: "uuid \<Rightarrow> 'a crm_scheme \<Rightarrow> 'a crm_scheme" where
  "cancel_pending_outreach_on_reply conv_id s =
     (case get_conv conv_id s of
        None \<Rightarrow> s
      | Some conv \<Rightarrow>
          let s1 = (if outreach_open (cv_outreach_state conv)
                    then upd_conv conv_id (\<lambda>c. c\<lparr>cv_outreach_state := Some OS_CONVERTED\<rparr>) s else s)
          in upd_recipients (\<lambda>r. cr_contact_id r = cv_contact_id conv \<and> outreach_open (cr_outreach_state r))
               (\<lambda>r. r\<lparr>cr_outreach_state := Some OS_CONVERTED\<rparr>) s1)"

definition after_inbound :: "wa_message \<Rightarrow> uuid \<times> uuid \<times> bool \<times> bool \<Rightarrow> 'a crm_scheme \<Rightarrow> 'a crm_scheme" where
  "after_inbound msg found s =
     (let (contact_id, conv_id, ai_should_run, first_activated) = found;
          content = extract_text_content msg;
          out = some_text content \<and> detect_opt_out_keywords content;
          s1 = (if out then suppress_contact contact_id conv_id s else s);
          s2 = (if first_activated \<and> \<not> out then publish ''conversation.first_activated'' conv_id s1 else s1);
          s3 = cancel_pending_outreach_on_reply conv_id (publish ''message.received'' conv_id s2)
      in if ai_should_run \<and> \<not> out \<and> some_text content
         then enqueue (RequestAiReply conv_id (the content)) s3 else s3)"

definition persist_inbound ::
  "(string \<Rightarrow> bool) \<Rightarrow> string option \<Rightarrow> wa_message \<Rightarrow> 'a crm_scheme \<Rightarrow> err + 'a crm_scheme" where
  "persist_inbound fetched display_phone msg s =
     (if inbound_phone display_phone msg = [] then Inr s
      else ebind (store_inbound fetched (inbound_phone display_phone msg) msg s) (\<lambda>(found, s1).
           Inr (after_inbound msg found s1)))"

section \<open>Delivery callbacks\<close>

text \<open>A callback by the entries read: the status and the first error, its text and its code.\<close>

record wa_status =
  st_id :: "string option"
  st_status :: "string option"
  st_error_text :: "string option"
  st_error_code :: "int option"

definition status_map :: "string \<Rightarrow> delivery_status option" where
  "status_map name = map_of [(''sent'', MSG_SENT), (''delivered'', MSG_DELIVERED), (''read'', MSG_READ),
     (''failed'', MSG_FAILED)] name"

definition get_bool_setting :: "string \<Rightarrow> bool \<Rightarrow> 'a crm_scheme \<Rightarrow> bool" where
  "get_bool_setting key dflt s = (case bool_settings s key of None \<Rightarrow> dflt | Some b \<Rightarrow> b)"

definition maybe_schedule_delivery_retry :: "uuid \<Rightarrow> nat \<Rightarrow> 'a crm_scheme \<Rightarrow> 'a crm_scheme" where
  "maybe_schedule_delivery_retry i n s =
     (if max_delivery_retries \<le> n \<or> \<not> get_bool_setting ''ops.delivery_failure_retry'' True s then s
      else enqueue (ResetAndRetry i n (delivery_failure_retry_delays ! n)) s)"

definition propagate_to_campaign_recipient ::
  "string \<Rightarrow> delivery_status \<Rightarrow> int option \<Rightarrow> string option \<Rightarrow> 'a crm_scheme \<Rightarrow> err + 'a crm_scheme" where
  "propagate_to_campaign_recipient meta_id new_status error_code error_message s =
     (if new_status = MSG_DELIVERED \<or> new_status = MSG_FAILED
      then ebind (recipient_delivery_status meta_id (if new_status = MSG_DELIVERED then CR_DELIVERED else CR_FAILED)
                   error_code error_message s) (\<lambda>(found, s1).
           case found of
             None \<Rightarrow> Inr s1
           | Some r \<Rightarrow> Inr (increment_counters (cr_campaign_id r)
               (if new_status = MSG_DELIVERED then no_deltas\<lparr>delivered_delta := 1\<rparr>
                else no_deltas\<lparr>failed_delta := 1\<rparr>) s1))
      else Inr s)"

text \<open>The tag on the contact of a conversation.\<close>

definition tag_conversation_contact :: "uuid \<Rightarrow> string \<Rightarrow> 'a crm_scheme \<Rightarrow> 'a crm_scheme" where
  "tag_conversation_contact conv_id name s =
     (case get_conv conv_id s of None \<Rightarrow> s | Some c \<Rightarrow> auto_tag (cv_contact_id c) name s)"

definition classify_delivery :: "message \<Rightarrow> delivery_status \<Rightarrow> int option \<Rightarrow> 'a crm_scheme \<Rightarrow> 'a crm_scheme" where
  "classify_delivery m new_status error_code s =
     (if new_status = MSG_FAILED
      then if is_permanent_failure error_code
           then snd (update_outreach_state (ms_conversation_id m) OS_UNDELIVERABLE None
                  (tag_conversation_contact (ms_conversation_id m)
                     (case tag_for_failure_code error_code of None \<Rightarrow> ''UNDELIVERABLE'' | Some t \<Rightarrow> t) s))
           else s
      else if (new_status = MSG_DELIVERED \<or> new_status = MSG_READ) \<and> ms_direction m = OUTBOUND
      then tag_conversation_contact (ms_conversation_id m) ''NEEDS_FOLLOW_UP'' s
      else s)"

definition apply_status_update :: "string \<Rightarrow> string \<Rightarrow> wa_status \<Rightarrow> 'a crm_scheme \<Rightarrow> err + 'a crm_scheme" where
  "apply_status_update meta_id status_text upd s =
     (case status_map (lower status_text) of
        None \<Rightarrow> Inr s
      | Some new_status \<Rightarrow>
        (case get_by_meta_id meta_id s of
           None \<Rightarrow> Inr s
         | Some existing \<Rightarrow>
           if delivery_rank new_status \<le> delivery_rank (ms_delivery_status existing) then Inr s
           else
             let error_text = (if new_status = MSG_FAILED then st_error_text upd else None);
                 error_code = (if new_status = MSG_FAILED then st_error_code upd else None)
             in ebind (propagate_to_campaign_recipient meta_id new_status error_code error_text
                    (update_delivery_status (ms_id existing) new_status error_text error_code None s)) (\<lambda>s1.
                let s2 = classify_delivery existing new_status error_code s1
                in Inr (if new_status = MSG_FAILED \<and> \<not> is_permanent_failure error_code
                        then maybe_schedule_delivery_retry (ms_id existing) (ms_delivery_retry_count existing) s2
                        else s2))))"

section \<open>The webhook\<close>

record wa_value =
  wv_display_phone :: "string option"
  wv_messages :: "wa_message list"
  wv_statuses :: "wa_status list"

definition set_redis_key :: "string \<Rightarrow> 'a crm_scheme \<Rightarrow> 'a crm_scheme" where
  "set_redis_key k s = s\<lparr>redis_keys := redis_keys s @ [k]\<rparr>"

definition inbound_key :: "string \<Rightarrow> string" where
  "inbound_key i = ''dedup:inbound:'' @ i"

definition status_key :: "string \<Rightarrow> string \<Rightarrow> string" where
  "status_key i st = ''dedup:status:'' @ i @ '':'' @ st"

text \<open>One message and one callback: the state, and whether the loop goes on.\<close>

definition process_message ::
  "(string \<Rightarrow> bool) \<Rightarrow> string option \<Rightarrow> wa_message \<Rightarrow> 'a crm_scheme \<Rightarrow> bool \<times> 'a crm_scheme" where
  "process_message fetched display_phone msg s =
     (if \<not> some_text (wa_id msg) then (True, s)
      else let key = inbound_key (the (wa_id msg))
           in if key \<in> set (redis_keys s) then (True, s)
              else case persist_inbound fetched display_phone msg s of
                     Inl e \<Rightarrow> (False, s)
                   | Inr s1 \<Rightarrow> (True, set_redis_key key s1))"

definition process_status :: "wa_status \<Rightarrow> 'a crm_scheme \<Rightarrow> bool \<times> 'a crm_scheme" where
  "process_status upd s =
     (if \<not> some_text (st_id upd) \<or> \<not> some_text (st_status upd) then (True, s)
      else let key = status_key (the (st_id upd)) (the (st_status upd))
           in if key \<in> set (redis_keys s) then (True, s)
              else case apply_status_update (the (st_id upd)) (the (st_status upd)) upd s of
                     Inl e \<Rightarrow> (False, s)
                   | Inr s1 \<Rightarrow> (True, set_redis_key key s1))"

fun while_ok :: "('x \<Rightarrow> 's \<Rightarrow> bool \<times> 's) \<Rightarrow> 'x list \<Rightarrow> 's \<Rightarrow> bool \<times> 's" where
  "while_ok f [] s = (True, s)"
| "while_ok f (x # xs) s = (let (ok, s1) = f x s in if ok then while_ok f xs s1 else (False, s1))"

definition process_value :: "(string \<Rightarrow> bool) \<Rightarrow> wa_value \<Rightarrow> 'a crm_scheme \<Rightarrow> bool \<times> 'a crm_scheme" where
  "process_value fetched v s =
     (let (ok, s1) = while_ok (process_message fetched (wv_display_phone v)) (wv_messages v) s
      in if ok then while_ok process_status (wv_statuses v) s1 else (False, s1))"

definition process_inbound_webhook ::
  "(string \<Rightarrow> bool) \<Rightarrow> wa_value list \<Rightarrow> 'a crm_scheme \<Rightarrow> task_end \<times> 'a crm_scheme" where
  "process_inbound_webhook fetched payload s =
     (let (ok, s1) = while_ok (process_value fetched) payload s
      in (if ok then TaskDone else TaskRetry 10 3, s1))"

section \<open>Sending\<close>

datatype meta_call = SendMedia string "string option" | SendContact string "string list"
  | SendTemplate string string | SendText string

datatype meta_outcome = MetaSent "string option" | MetaError bool "int option" string | OtherError

text \<open>\<open>str.partition\<close>: the text before and after the first separator.\<close>

fun partition_text :: "string \<Rightarrow> string \<Rightarrow> string \<times> string" where
  "partition_text sep [] = ([], [])"
| "partition_text sep (c # cs) =
     (if prefix sep (c # cs) then ([], drop (length sep) (c # cs))
      else let (a, b) = partition_text sep cs in (c # a, b))"

definition contact_card :: "string \<Rightarrow> string \<Rightarrow> meta_call" where
  "contact_card content phone =
     (let (name_part, phones_part) = partition_text ('' '' @ em_dash @ '' '') content;
          name = (if strip_ascii name_part = [] then ''Contact'' else strip_ascii name_part);
          phones = filter (\<lambda>p. p \<noteq> []) (map strip_ascii (split_on (CHR '','') phones_part))
      in SendContact name (if phones = [] then [phone] else phones))"

definition text_call :: "message \<Rightarrow> string \<Rightarrow> meta_call" where
  "text_call m phone =
     (if ms_msg_type m = ''contact'' then contact_card (ms_content m) phone
      else if some_text (ms_template_name m)
      then SendTemplate (the (ms_template_name m))
             (if some_text (ms_template_language m) then the (ms_template_language m) else ''en'')
      else SendText (ms_content m))"

text \<open>What Meta is asked and answers; a file that is nowhere is an error that is not retried.\<close>

definition call_meta ::
  "(media_asset \<Rightarrow> bool) \<Rightarrow> (meta_call \<Rightarrow> string \<Rightarrow> meta_outcome) \<Rightarrow> message \<Rightarrow> string \<Rightarrow> 'a crm_scheme
   \<Rightarrow> meta_outcome" where
  "call_meta file_ready meta m phone s =
     (case first_asset (ms_id m) s of
        Some a \<Rightarrow> if file_ready a
                 then meta (SendMedia (ma_media_type a) (if ms_content m = [] then None else Some (ms_content m))) phone
                 else MetaError False None ''meta_media_file_missing''
      | None \<Rightarrow> meta (text_call m phone) phone)"

definition backfill_meta_id :: "uuid \<Rightarrow> string option \<Rightarrow> 'a crm_scheme \<Rightarrow> 'a crm_scheme" where
  "backfill_meta_id message_id meta_id s =
     (if some_text meta_id
      then upd_recipients (\<lambda>r. cr_message_id r = Some message_id) (\<lambda>r. r\<lparr>cr_meta_message_id := meta_id\<rparr>) s
      else s)"

definition handle_send_failure ::
  "uuid \<Rightarrow> nat \<Rightarrow> bool \<Rightarrow> int option \<Rightarrow> string \<Rightarrow> 'a crm_scheme \<Rightarrow> task_end \<times> 'a crm_scheme" where
  "handle_send_failure i attempt retryable code msg s =
     (let next_attempt = attempt + 1;
          s1 = (if retryable then increment_retry i s else s)
      in if \<not> retryable \<or> max_retries < next_attempt
         then (TaskDone, update_delivery_status i MSG_FAILED (Some msg) code None s1)
         else (TaskRetry (if next_attempt < length retry_delays then retry_delays ! next_attempt else 600) max_retries,
               s1))"

text \<open>The writes after Meta accepted; a second message under the same identifier aborts them.\<close>

definition record_sent :: "message \<Rightarrow> conversation \<Rightarrow> crm_contact \<Rightarrow> string option \<Rightarrow> 'a crm_scheme \<Rightarrow> task_end \<times> 'a crm_scheme" where
  "record_sent m conv contact meta_id s =
     (if (case meta_id of None \<Rightarrow> False | Some w \<Rightarrow>
            (case get_by_meta_id w s of None \<Rightarrow> False | Some o' \<Rightarrow> ms_id o' \<noteq> ms_id m))
      then (TaskFailed, s)
      else let s1 = backfill_meta_id (ms_id m) meta_id (update_delivery_status (ms_id m) MSG_SENT None None meta_id s);
               s2 = (if ct_status contact \<in> {CT_ACTIVE, CT_FOLLOW_UP, CT_NOT_INTERESTED}
                     then transition_status (ct_id contact) CT_CONTACTED s1 else s1);
               s3 = touch_last_contacted (ct_id contact) s2
           in (TaskDone, publish ''message.sent'' (cv_id conv) (touch_last_message (cv_id conv) (clock s3) s3)))"

definition send_outbound_message ::
  "bool \<Rightarrow> (media_asset \<Rightarrow> bool) \<Rightarrow> (meta_call \<Rightarrow> string \<Rightarrow> meta_outcome) \<Rightarrow> nat \<Rightarrow> uuid \<Rightarrow> 'a crm_scheme
   \<Rightarrow> task_end \<times> 'a crm_scheme" where
  "send_outbound_message redis_ok file_ready meta retries i s =
     (if \<not> redis_ok then (TaskRetry redis_down_retry_seconds redis_down_max_retries, s)
      else case get_message i s of
        None \<Rightarrow> (TaskDone, s)
      | Some m \<Rightarrow>
          if ms_delivery_status m \<noteq> MSG_QUEUED then (TaskDone, s)
          else case get_conv (ms_conversation_id m) s of
            None \<Rightarrow> (TaskFailed, s)
          | Some conv \<Rightarrow>
            (case get_crm_contact (cv_contact_id conv) s of
               None \<Rightarrow> (TaskFailed, s)
             | Some contact \<Rightarrow>
               (case call_meta file_ready meta m (ct_phone contact) s of
                  MetaSent meta_id \<Rightarrow> record_sent m conv contact meta_id s
                | MetaError retryable code msg \<Rightarrow> handle_send_failure i retries retryable code msg s
                | OtherError \<Rightarrow> (TaskFailed, s))))"

definition reset_and_retry_message :: "uuid \<Rightarrow> 'a crm_scheme \<Rightarrow> 'a crm_scheme" where
  "reset_and_retry_message i s =
     (if \<not> get_bool_setting ''ops.delivery_failure_retry'' True s then s
      else case get_message i s of
        None \<Rightarrow> s
      | Some m \<Rightarrow>
          if ms_delivery_status m \<noteq> MSG_FAILED then s
          else enqueue (SendOutbound i)
                 (update_delivery_status i MSG_QUEUED None None None (increment_delivery_retry i s)))"

definition request_meta_deletion :: "(string \<Rightarrow> meta_outcome) \<Rightarrow> nat \<Rightarrow> uuid \<Rightarrow> 'a crm_scheme \<Rightarrow> task_end" where
  "request_meta_deletion delete retries i s =
     (case get_message i s of
        None \<Rightarrow> TaskDone
      | Some m \<Rightarrow>
          if \<not> some_text (ms_meta_message_id m) then TaskDone
          else case delete (the (ms_meta_message_id m)) of
                 MetaSent _ \<Rightarrow> TaskDone
               | MetaError retryable _ _ \<Rightarrow>
                   if retryable \<and> retries < 3 then TaskRetry ([30, 120, 300] ! retries) 3 else TaskDone
               | OtherError \<Rightarrow> TaskFailed)"

lemmas messaging_task_evals = some_text_def media_kinds_def em_dash_def red_heart_def bracketed_def
  extract_text_content_def classify_msg_type_def first_media_id_def store_media_def
  attribute_inbound_to_campaigns_def inbound_phone_def context_of_def inbound_row_def store_inbound_def
  suppress_contact_def cancel_pending_outreach_on_reply_def after_inbound_def persist_inbound_def
  status_map_def get_bool_setting_def maybe_schedule_delivery_retry_def propagate_to_campaign_recipient_def
  tag_conversation_contact_def classify_delivery_def apply_status_update_def set_redis_key_def inbound_key_def
  status_key_def process_message_def process_status_def process_value_def process_inbound_webhook_def
  contact_card_def text_call_def call_meta_def backfill_meta_id_def handle_send_failure_def record_sent_def
  send_outbound_message_def reset_and_retry_message_def request_meta_deletion_def

declare messaging_task_evals [evals]

end
