(* ===== verification/Engagement.thy ===== *)
theory Engagement
  imports MessagingTasks
begin

text \<open>
  The follow-up policy (backend/app/modules/engagement: constants.py, service.py, tasks.py): the sweep that
  schedules follow-ups of silent conversations, and the task that sends one when its countdown is over. The time
  is that of the state for the whole of a transaction. What the code reads from elsewhere is a record: the hour
  of the wall clock in a zone (\<open>None\<close> where \<open>zoneinfo\<close> does not know the zone), the zone of the setting
  \<open>ops.timezone\<close>, and the reply of the model to a prompt (\<open>None\<close> for an exception).
\<close>

section \<open>Constants\<close>

definition cold_followup_delay_hours :: int where
  "cold_followup_delay_hours = 24"

definition reengage_1_min_hours :: int where
  "reengage_1_min_hours = 3"

definition reengage_1_max_hours :: int where
  "reengage_1_max_hours = 6"

definition reengage_2_target_hours :: int where
  "reengage_2_target_hours = 23"

definition rescue_1_min_hours :: int where
  "rescue_1_min_hours = 1"

definition rescue_1_max_hours :: int where
  "rescue_1_max_hours = 2"

definition rescue_2_min_hours :: int where
  "rescue_2_min_hours = 6"

definition rescue_2_max_hours :: int where
  "rescue_2_max_hours = 12"

definition free_window_hours :: int where
  "free_window_hours = 24"

definition default_active_hours_start :: int where
  "default_active_hours_start = 8"

definition default_active_hours_end :: int where
  "default_active_hours_end = 21"

definition hours :: "int \<Rightarrow> int" where
  "hours h = microseconds (h * 3600)"

text \<open>\<open>lo + (hi - lo) / 2\<close> hours\<close>

definition midway :: "int \<Rightarrow> int \<Rightarrow> int" where
  "midway lo hi = microseconds (lo * 3600 + (hi - lo) * 1800)"

section \<open>The thread\<close>

definition thread :: "uuid \<Rightarrow> 'a crm_scheme \<Rightarrow> message list" where
  "thread i s = filter (\<lambda>m. ms_conversation_id m = i) (messages s)"

definition inbound_of :: "uuid \<Rightarrow> 'a crm_scheme \<Rightarrow> message list" where
  "inbound_of i s = filter (\<lambda>m. ms_direction m = INBOUND) (thread i s)"

definition outbound_of :: "uuid \<Rightarrow> 'a crm_scheme \<Rightarrow> message list" where
  "outbound_of i s = filter (\<lambda>m. ms_direction m = OUTBOUND) (thread i s)"

definition last_time :: "message list \<Rightarrow> int option" where
  "last_time ms = (case ms of [] \<Rightarrow> None | m # rest \<Rightarrow> Some (fold (\<lambda>q. max (ms_created_at q)) rest (ms_created_at m)))"

definition last_inbound :: "uuid \<Rightarrow> 'a crm_scheme \<Rightarrow> int option" where
  "last_inbound i s = last_time (inbound_of i s)"

definition last_outbound :: "uuid \<Rightarrow> 'a crm_scheme \<Rightarrow> int option" where
  "last_outbound i s = last_time (outbound_of i s)"

text \<open>The last six messages, the oldest first; of messages of one time those inserted later count as later.\<close>

definition load_thread_context :: "uuid \<Rightarrow> 'a crm_scheme \<Rightarrow> followup_context" where
  "load_thread_context i s = ThreadMessages (map (\<lambda>m. (ms_direction m, ms_sender_type m, ms_content m))
     (rev (take 6 (rev (sort_key ms_created_at (thread i s))))))"

section \<open>EngagementService\<close>

text \<open>\<open>LIKE 'engagement.followup_%'\<close>, where the underscore stands for any one character.\<close>

definition like_followup :: "string \<Rightarrow> bool" where
  "like_followup action = (prefix ''engagement.followup'' action \<and> 19 < length action)"

definition followup_rows :: "uuid \<Rightarrow> 'a session_scheme \<Rightarrow> audit_row list" where
  "followup_rows i s = filter (\<lambda>r. au_entity_type r = ''conversation'' \<and> au_entity_id r = Some i
     \<and> like_followup (au_action r)) (audit_log s)"

definition resolve_followup_stage :: "uuid \<Rightarrow> 'a session_scheme \<Rightarrow> nat option" where
  "resolve_followup_stage i s =
     (let sent_count = length (followup_rows i s) in if 2 \<le> sent_count then None else Some (sent_count + 1))"

definition window_open :: "int option \<Rightarrow> 'a crm_scheme \<Rightarrow> bool" where
  "window_open latest s = (case latest of None \<Rightarrow> False | Some t \<Rightarrow> clock s - t < hours free_window_hours)"

definition reengage_regime :: "uuid \<Rightarrow> int \<Rightarrow> 'a crm_scheme \<Rightarrow> (outreach_state \<times> int \<times> followup_context) option" where
  "reengage_regime i t s =
     (if clock s - t < hours reengage_1_min_hours then None
      else case resolve_followup_stage i s of
        None \<Rightarrow> None
      | Some stage \<Rightarrow>
          if stage = 1
          then Some (OS_REENGAGE_1, t + midway reengage_1_min_hours reengage_1_max_hours, InboundCount 1)
          else let fire_at = t + hours reengage_2_target_hours;
                   window_closes = t + hours free_window_hours
               in Some (OS_REENGAGE_2,
                   if window_closes < fire_at then window_closes - microseconds (30 * 60) else fire_at, InboundCount 1))"

definition rescue_regime ::
  "conversation \<Rightarrow> int \<Rightarrow> 'a crm_scheme \<Rightarrow> (outreach_state \<times> int \<times> followup_context) option" where
  "rescue_regime conv t s =
     (if cv_state conv \<noteq> CS_AI_ACTIVE \<or> clock s - t < hours rescue_1_min_hours then None
      else case resolve_followup_stage (cv_id conv) s of
        None \<Rightarrow> None
      | Some stage \<Rightarrow>
          if stage = 1
          then Some (OS_RESCUE_1, t + midway rescue_1_min_hours rescue_1_max_hours, load_thread_context (cv_id conv) s)
          else Some (OS_RESCUE_2, t + midway rescue_2_min_hours rescue_2_max_hours, load_thread_context (cv_id conv) s))"

definition select_regime :: "uuid \<Rightarrow> 'a crm_scheme \<Rightarrow> (outreach_state \<times> int \<times> followup_context) option" where
  "select_regime i s =
     (case get_conv i s of
        None \<Rightarrow> None
      | Some conv \<Rightarrow>
          if cv_outreach_state conv \<noteq> None then None
          else let inbound_count = length (inbound_of i s); latest = last_inbound i s
               in if inbound_count = 0 then None
                  else if inbound_count = 1 \<and> window_open latest s then reengage_regime i (the latest) s
                  else if 2 \<le> inbound_count \<and> window_open latest s then rescue_regime conv (the latest) s
                  else None)"

subsection \<open>Checks before a follow-up\<close>

datatype followup_prompt = RescuePrompt "(sender_type \<times> string) list" | NudgePrompt

record engagement_env =
  ee_zone_hour :: "string \<Rightarrow> int \<Rightarrow> int option"
  ee_timezone :: "string option"
  ee_propose :: "followup_prompt \<Rightarrow> string option"

definition rescue_blocked_states :: "conv_state list" where
  "rescue_blocked_states = [CS_HUMAN_ASSIGNED, CS_AWAITING_APPROVAL, CS_AI_PAUSED, CS_CLOSED]"

definition utc_hour :: "int \<Rightarrow> int" where
  "utc_hour t = (t div hours 1) mod 24"

definition within_active_hours :: "engagement_env \<Rightarrow> 'a crm_scheme \<Rightarrow> bool" where
  "within_active_hours env s =
     (let tz_name = (case ee_timezone env of None \<Rightarrow> ''UTC'' | Some n \<Rightarrow> n);
          hour = (case ee_zone_hour env tz_name (clock s) of None \<Rightarrow> utc_hour (clock s) | Some h \<Rightarrow> h)
      in default_active_hours_start \<le> hour \<and> hour < default_active_hours_end)"

definition inbound_since_outbound :: "uuid \<Rightarrow> 'a crm_scheme \<Rightarrow> bool" where
  "inbound_since_outbound i s =
     (case last_outbound i s of None \<Rightarrow> False | Some t \<Rightarrow> list_ex (\<lambda>m. t < ms_created_at m) (inbound_of i s))"

definition window_passed :: "uuid \<Rightarrow> 'a crm_scheme \<Rightarrow> bool" where
  "window_passed i s =
     (case last_inbound i s of None \<Rightarrow> False | Some t \<Rightarrow> hours free_window_hours - (clock s - t) \<le> 0)"

text \<open>\<open>None\<close> when every check passes, else the reason.\<close>

definition pre_fire_checks :: "engagement_env \<Rightarrow> uuid \<Rightarrow> bool \<Rightarrow> 'a crm_scheme \<Rightarrow> string option" where
  "pre_fire_checks env i is_rescue s =
     (case get_conv i s of
        None \<Rightarrow> Some ''conversation_missing''
      | Some conv \<Rightarrow>
          if (case get_crm_contact (cv_contact_id conv) s of None \<Rightarrow> False | Some k \<Rightarrow> ct_do_not_contact k)
          then Some ''contact_suppressed''
          else if is_rescue \<and> cv_state conv \<in> set rescue_blocked_states then Some ''human_took_over''
          else if cv_outreach_state conv \<noteq> None \<and> inbound_since_outbound i s then Some ''inbound_since_scheduled''
          else if (case cv_outreach_state conv of None \<Rightarrow> False
                   | Some st \<Rightarrow> st \<in> set outreach_reengage_states \<or> st \<in> set outreach_rescue_states) \<and> window_passed i s
          then Some ''window_closed''
          else if \<not> within_active_hours env s then Some ''outside_active_hours''
          else None)"

subsection \<open>Schedule and cancel\<close>

definition schedule_followup ::
  "uuid \<Rightarrow> outreach_state \<Rightarrow> int \<Rightarrow> followup_context \<Rightarrow> 'a crm_scheme
   \<Rightarrow> (uuid \<times> int \<times> followup_context) option \<times> 'a crm_scheme" where
  "schedule_followup i st fire_at ctx s =
     (case get_conv i s of
        None \<Rightarrow> (None, s)
      | Some conv \<Rightarrow>
          if cv_outreach_state conv \<noteq> None then (None, s)
          else (Some (i, max 0 (fire_at - clock s), ctx), snd (update_outreach_state i st None s)))"

definition cancel_pending_followups :: "uuid \<Rightarrow> 'a crm_scheme \<Rightarrow> nat \<times> 'a crm_scheme" where
  "cancel_pending_followups i s =
     (case get_conv i s of
        None \<Rightarrow> (0, s)
      | Some conv \<Rightarrow>
          if outreach_open (cv_outreach_state conv) then update_outreach_state i OS_CONVERTED None s else (0, s))"

definition on_first_reply :: "uuid \<Rightarrow> 'a crm_scheme \<Rightarrow> 'a crm_scheme" where
  "on_first_reply i s =
     (case get_conv i s of
        None \<Rightarrow> s
      | Some conv \<Rightarrow>
          if outreach_open (cv_outreach_state conv) then snd (update_outreach_state i OS_CONVERTED None s) else s)"

section \<open>The sweep\<close>

record sweep_result =
  sw_reengage :: nat
  sw_rescue :: nat
  sw_cold :: nat
  sw_dispatches :: "celery_task list"

definition no_followups :: sweep_result where
  "no_followups = \<lparr>sw_reengage = 0, sw_rescue = 0, sw_cold = 0, sw_dispatches = []\<rparr>"

text \<open>The rows of the query: the conversations that have a message, in the order of the table.\<close>

definition sweep_candidates :: "'a crm_scheme \<Rightarrow> (uuid \<times> conv_state \<times> nat \<times> int option) list" where
  "sweep_candidates s =
     map (\<lambda>c. (cv_id c, cv_state c, length (thread (cv_id c) s), last_inbound (cv_id c) s))
       (filter (\<lambda>c. cv_outreach_state c = None \<and> cv_ai_enabled c \<and> thread (cv_id c) s \<noteq> []) (conversations s))"

definition schedule_selected ::
  "(sweep_result \<Rightarrow> sweep_result) \<Rightarrow> uuid \<Rightarrow> sweep_result \<times> 'a crm_scheme \<Rightarrow> sweep_result \<times> 'a crm_scheme" where
  "schedule_selected count i = (\<lambda>(res, s).
     case select_regime i s of
       None \<Rightarrow> (res, s)
     | Some (st, fire_at, ctx) \<Rightarrow>
         (case schedule_followup i st fire_at ctx s of
            (None, s1) \<Rightarrow> (res, s1)
          | (Some (entity_id, countdown, ctx'), s1) \<Rightarrow>
              (count (res\<lparr>sw_dispatches := sw_dispatches res @ [ScheduledFollowup entity_id st ctx' False countdown]\<rparr>), s1)))"

definition sweep_conversation ::
  "uuid \<times> conv_state \<times> nat \<times> int option \<Rightarrow> sweep_result \<times> 'a crm_scheme \<Rightarrow> sweep_result \<times> 'a crm_scheme" where
  "sweep_conversation row = (\<lambda>(res, s).
     let (i, state, msg_count, latest) = row in
     case latest of
       None \<Rightarrow> (res, s)
     | Some t \<Rightarrow>
         let since_inbound = clock s - t in
         if msg_count = 1
         then if since_inbound < hours reengage_1_min_hours then (res, s)
              else if hours free_window_hours < since_inbound
              then (res, tag_conversation_contact i ''UNRESPONSIVE'' (snd (update_outreach_state i OS_UNRESPONSIVE None s)))
              else schedule_selected (\<lambda>r. r\<lparr>sw_reengage := sw_reengage r + 1\<rparr>) i (res, s)
         else if 2 \<le> msg_count \<and> state = CS_AI_ACTIVE
         then if since_inbound < hours rescue_1_min_hours \<or> hours free_window_hours < since_inbound then (res, s)
              else schedule_selected (\<lambda>r. r\<lparr>sw_rescue := sw_rescue r + 1\<rparr>) i (res, s)
         else (res, s))"

definition cold_candidate :: "int \<Rightarrow> campaign_recipient \<Rightarrow> bool" where
  "cold_candidate now r =
     (cr_outreach_state r = Some OS_OUTREACH_SENT \<and> \<not> cr_responded r
      \<and> (case cr_sent_at r of None \<Rightarrow> False | Some t \<Rightarrow> t < now - hours cold_followup_delay_hours))"

definition set_recipient_outreach :: "uuid \<Rightarrow> outreach_state \<Rightarrow> 'a crm_scheme \<Rightarrow> 'a crm_scheme" where
  "set_recipient_outreach i st s = upd_recipients (\<lambda>r. cr_id r = i) (\<lambda>r. r\<lparr>cr_outreach_state := Some st\<rparr>) s"

definition replied_since :: "campaign_recipient \<Rightarrow> 'a crm_scheme \<Rightarrow> bool" where
  "replied_since r s =
     (case latest_by cv_created_at (filter (\<lambda>c. cv_contact_id c = cr_contact_id r) (conversations s)) s of
        None \<Rightarrow> False
      | Some conv \<Rightarrow> list_ex (\<lambda>m. the (cr_sent_at r) < ms_created_at m) (inbound_of (cv_id conv) s))"

definition sweep_cold :: "campaign_recipient \<Rightarrow> sweep_result \<times> 'a crm_scheme \<Rightarrow> sweep_result \<times> 'a crm_scheme" where
  "sweep_cold r = (\<lambda>(res, s).
     if replied_since r s then (res, set_recipient_outreach (cr_id r) OS_CONVERTED s)
     else (res\<lparr>sw_cold := sw_cold res + 1,
               sw_dispatches := sw_dispatches res
                 @ [ScheduledFollowup (cr_id r) OS_COLD_FOLLOWUP_SENT NoContext True (microseconds 300)]\<rparr>,
           set_recipient_outreach (cr_id r) OS_COLD_FOLLOWUP_SENT s))"

definition engagement_sweep :: "'a crm_scheme \<Rightarrow> sweep_result \<times> 'a crm_scheme" where
  "engagement_sweep s =
     (let in_window = fold sweep_conversation (sweep_candidates s) (no_followups, s);
          cold = filter (cold_candidate (clock s)) (campaign_recipients (snd in_window));
          (res, s1) = fold sweep_cold cold in_window
      in (res, fold enqueue (sw_dispatches res) s1))"

section \<open>A follow-up\<close>

datatype followup_end = Skipped string | ColdSent | FollowupSent uuid

text \<open>The reply without the spaces around it (those outside ASCII stay); an empty one counts as none.\<close>

definition generate_followup_content :: "engagement_env \<Rightarrow> outreach_state \<Rightarrow> followup_context \<Rightarrow> string option" where
  "generate_followup_content env st ctx =
     (let prompt = (if st \<in> set outreach_rescue_states
                    then RescuePrompt (case ctx of ThreadMessages ms \<Rightarrow> map snd (drop (length ms - 6) ms) | _ \<Rightarrow> [])
                    else NudgePrompt)
      in case ee_propose env prompt of
           None \<Rightarrow> None
         | Some w \<Rightarrow> if strip_ascii w = [] then None else Some (strip_ascii w))"

definition process_cold_followup :: "engagement_env \<Rightarrow> uuid \<Rightarrow> 'a crm_scheme \<Rightarrow> followup_end \<times> 'a crm_scheme" where
  "process_cold_followup env i s =
     (case get_recipient i s of
        None \<Rightarrow> (Skipped ''campaign_recipient_missing'', s)
      | Some r \<Rightarrow>
          if (case get_crm_contact (cr_contact_id r) s of None \<Rightarrow> False | Some k \<Rightarrow> ct_do_not_contact k)
          then (Skipped ''contact_suppressed'', s)
          else if \<not> within_active_hours env s then (Skipped ''outside_active_hours'', s)
          else case cr_message_id r of
            None \<Rightarrow> (Skipped ''no_message_id'', s)
          | Some m \<Rightarrow> (ColdSent, enqueue (SendOutbound m) s))"

definition process_scheduled_followup ::
  "engagement_env \<Rightarrow> uuid \<Rightarrow> outreach_state \<Rightarrow> followup_context \<Rightarrow> bool \<Rightarrow> 'a crm_scheme
   \<Rightarrow> followup_end \<times> 'a crm_scheme" where
  "process_scheduled_followup env i st ctx is_cold s =
     (if is_cold then process_cold_followup env i s
      else let is_rescue = (st \<in> set outreach_rescue_states) in
        case pre_fire_checks env i is_rescue s of
          Some reason \<Rightarrow>
            (Skipped reason, if is_rescue \<and> reason = ''human_took_over'' then snd (cancel_pending_followups i s) else s)
        | None \<Rightarrow>
          (case generate_followup_content env st ctx of
             None \<Rightarrow> (Skipped ''ai_content_generation_failed'', s)
           | Some draft \<Rightarrow>
               let (m, s1) = fresh_id s;
                   row = (new_message i OUTBOUND SENDER_AI draft MSG_QUEUED (clock s1))\<lparr>ms_id := m\<rparr>
               in (FollowupSent m, enqueue (SendOutbound m) (s1\<lparr>messages := messages s1 @ [row]\<rparr>))))"

lemmas engagement_constants = cold_followup_delay_hours_def reengage_1_min_hours_def reengage_1_max_hours_def
  reengage_2_target_hours_def rescue_1_min_hours_def rescue_1_max_hours_def rescue_2_min_hours_def
  rescue_2_max_hours_def free_window_hours_def default_active_hours_start_def default_active_hours_end_def
  hours_def midway_def

lemmas engagement_evals = engagement_constants thread_def inbound_of_def outbound_of_def last_time_def
  last_inbound_def last_outbound_def load_thread_context_def like_followup_def followup_rows_def
  resolve_followup_stage_def window_open_def reengage_regime_def rescue_regime_def select_regime_def
  rescue_blocked_states_def utc_hour_def within_active_hours_def inbound_since_outbound_def window_passed_def
  pre_fire_checks_def schedule_followup_def cancel_pending_followups_def on_first_reply_def no_followups_def
  sweep_candidates_def schedule_selected_def sweep_conversation_def cold_candidate_def
  set_recipient_outreach_def replied_since_def sweep_cold_def engagement_sweep_def
  generate_followup_content_def process_cold_followup_def process_scheduled_followup_def

declare engagement_evals [evals]

end
