(* ===== verification/MessagingProps.thy ===== *)
theory MessagingProps
  imports MessagingTasks
begin

text \<open>
  Messages: what the callbacks of Meta leave, in whatever order they come, that a webhook counts once, what
  an opt-out does, that sending ends and how often it is tried, and what is lost.
\<close>

section \<open>What the parts of the pipeline leave alone\<close>

lemma upd_conv_frame [simp]:
  "messages (upd_conv i f s) = messages s" "crm_contacts (upd_conv i f s) = crm_contacts s"
  "task_queue (upd_conv i f s) = task_queue s" "redis_keys (upd_conv i f s) = redis_keys s"
  "tags (upd_conv i f s) = tags s" "contact_tags (upd_conv i f s) = contact_tags s"
  "campaign_recipients (upd_conv i f s) = campaign_recipients s" "campaigns (upd_conv i f s) = campaigns s"
  "clock (upd_conv i f s) = clock s" "bool_settings (upd_conv i f s) = bool_settings s"
  "media_assets (upd_conv i f s) = media_assets s"
  by (simp_all add: upd_conv_def)

lemma update_outreach_frame [simp]:
  "messages (snd (update_outreach_state i st e s)) = messages s"
  "crm_contacts (snd (update_outreach_state i st e s)) = crm_contacts s"
  "task_queue (snd (update_outreach_state i st e s)) = task_queue s"
  "redis_keys (snd (update_outreach_state i st e s)) = redis_keys s"
  "tags (snd (update_outreach_state i st e s)) = tags s"
  "contact_tags (snd (update_outreach_state i st e s)) = contact_tags s"
  "bool_settings (snd (update_outreach_state i st e s)) = bool_settings s"
  by (simp_all add: update_outreach_state_def split: option.splits)

lemma tag_conversation_frame [simp]:
  "messages (tag_conversation_contact i n s) = messages s"
  "task_queue (tag_conversation_contact i n s) = task_queue s"
  "redis_keys (tag_conversation_contact i n s) = redis_keys s"
  "bool_settings (tag_conversation_contact i n s) = bool_settings s"
  by (simp_all add: tag_conversation_contact_def split: option.splits)

lemma classify_delivery_frame [simp]:
  "messages (classify_delivery m st e s) = messages s"
  "task_queue (classify_delivery m st e s) = task_queue s"
  "redis_keys (classify_delivery m st e s) = redis_keys s"
  "bool_settings (classify_delivery m st e s) = bool_settings s"
  by (simp_all add: classify_delivery_def)

lemma upd_recipients_frame [simp]:
  "messages (upd_recipients P f s) = messages s" "task_queue (upd_recipients P f s) = task_queue s"
  "redis_keys (upd_recipients P f s) = redis_keys s" "bool_settings (upd_recipients P f s) = bool_settings s"
  "crm_contacts (upd_recipients P f s) = crm_contacts s" "conversations (upd_recipients P f s) = conversations s"
  "tags (upd_recipients P f s) = tags s" "contact_tags (upd_recipients P f s) = contact_tags s"
  "clock (upd_recipients P f s) = clock s" "media_assets (upd_recipients P f s) = media_assets s"
  "campaigns (upd_recipients P f s) = campaigns s"
  by (simp_all add: upd_recipients_def)

lemma increment_counters_frame [simp]:
  "messages (increment_counters i d s) = messages s" "task_queue (increment_counters i d s) = task_queue s"
  "redis_keys (increment_counters i d s) = redis_keys s" "bool_settings (increment_counters i d s) = bool_settings s"
  "crm_contacts (increment_counters i d s) = crm_contacts s" "conversations (increment_counters i d s) = conversations s"
  "tags (increment_counters i d s) = tags s" "contact_tags (increment_counters i d s) = contact_tags s"
  "campaign_recipients (increment_counters i d s) = campaign_recipients s"
  "clock (increment_counters i d s) = clock s" "media_assets (increment_counters i d s) = media_assets s"
  by (simp_all add: increment_counters_def upd_campaign_def)

text \<open>What every part of the pipeline keeps, as one relation.\<close>

definition pipeline_frame :: "'a crm_scheme \<Rightarrow> 'a crm_scheme \<Rightarrow> bool" where
  "pipeline_frame s s' = (messages s' = messages s \<and> task_queue s' = task_queue s \<and> redis_keys s' = redis_keys s
     \<and> bool_settings s' = bool_settings s)"

lemma recipient_status_frame:
  assumes "recipient_delivery_status w st c t s = Inr (r, s')"
  shows "pipeline_frame s s'"
proof -
  obtain found where "scalar_one_or_none (filter (\<lambda>r. cr_meta_message_id r = Some w) (campaign_recipients s)) = Inr found"
    and rest: "(case found of None \<Rightarrow> Inr (None, s) | Some q \<Rightarrow> Inr (Some q, upd_recipients (\<lambda>r. cr_id r = cr_id q)
      (\<lambda>r. let r1 = r\<lparr>cr_status := st\<rparr> in
           if st = CR_DELIVERED
           then r1\<lparr>cr_delivered_at := Some (clock s), cr_error_code := None, cr_error_message := None\<rparr>
           else if st = CR_FAILED
           then r1\<lparr>cr_failed_at := Some (clock s),
                 cr_error_code := (if c = None then cr_error_code r else c),
                 cr_error_message := (case t of None \<Rightarrow> cr_error_message r | Some m \<Rightarrow> Some (take 500 m))\<rparr>
           else r1) s)) = (Inr (r, s') :: err + campaign_recipient option \<times> 'a crm_scheme)"
    using assms unfolding recipient_delivery_status_def by (simp only: ebind_Inr_iff) blast
  show ?thesis
  proof (cases found)
    case None
    then show ?thesis using rest by (simp add: pipeline_frame_def)
  next
    case (Some q)
    then have "\<exists>P f. s' = upd_recipients P f s" using rest by (simp only: option.case sum.inject prod.inject) blast
    then show ?thesis by (auto simp: pipeline_frame_def)
  qed
qed

lemma propagate_frame:
  assumes "propagate_to_campaign_recipient w st c t s = Inr s'"
  shows "pipeline_frame s s'"
proof (cases "st = MSG_DELIVERED \<or> st = MSG_FAILED")
  case True
  let ?d = "if st = MSG_DELIVERED then no_deltas\<lparr>delivered_delta := 1\<rparr> else no_deltas\<lparr>failed_delta := 1\<rparr>"
  obtain found s1 where one: "recipient_delivery_status w (if st = MSG_DELIVERED then CR_DELIVERED else CR_FAILED) c t s
      = Inr (found, s1)"
    and rest: "(case found of None \<Rightarrow> Inr s1 | Some r \<Rightarrow> Inr (increment_counters (cr_campaign_id r) ?d s1)) = (Inr s' :: err + _)"
    using assms True unfolding propagate_to_campaign_recipient_def if_P [OF True]
    by (simp only: ebind_Inr_iff split_paired_Ex prod.case) blast
  have "pipeline_frame s s1" by (rule recipient_status_frame [OF one])
  then show ?thesis using rest by (cases found) (auto simp: pipeline_frame_def)
next
  case False
  then show ?thesis using assms by (simp add: propagate_to_campaign_recipient_def pipeline_frame_def)
qed

section \<open>Delivery callbacks\<close>

definition callback :: "string \<Rightarrow> wa_status \<Rightarrow> 'a crm_scheme \<Rightarrow> err + 'a crm_scheme" where
  "callback w u s = apply_status_update w (case st_status u of None \<Rightarrow> [] | Some t \<Rightarrow> t) u s"

definition callback_rank :: "wa_status \<Rightarrow> int" where
  "callback_rank u = (case status_map (lower (case st_status u of None \<Rightarrow> [] | Some t \<Rightarrow> t)) of
     None \<Rightarrow> -1 | Some st \<Rightarrow> delivery_rank st)"

lemma delivery_rank_bounds: "-1 \<le> delivery_rank st" "delivery_rank st \<le> 5"
  by (cases st; simp)+

lemma delivery_rank_inj: "delivery_rank a = delivery_rank b \<Longrightarrow> a = b"
  by (cases a; cases b; simp)

lemma find_map: "(\<And>x. x \<in> set xs \<Longrightarrow> P (f x) = P x) \<Longrightarrow> find P (map f xs) = map_option f (find P xs)"
  by (induction xs) auto

lemma get_by_meta_id_update:
  assumes "get_by_meta_id w s = Some m"
  shows "get_by_meta_id w (update_delivery_status (ms_id m) st e c None s) =
    Some (m\<lparr>ms_delivery_status := st, ms_last_error := e, ms_error_code := c\<rparr>)"
  using assms unfolding get_by_meta_id_def update_delivery_status_def upd_message_def upd_by_def
  by (simp add: find_map)

lemma get_by_meta_id_cong: "messages s' = messages s \<Longrightarrow> get_by_meta_id w s' = get_by_meta_id w s"
  by (simp add: get_by_meta_id_def)

lemma maybe_schedule_messages [simp]: "messages (maybe_schedule_delivery_retry i n s) = messages s"
  "redis_keys (maybe_schedule_delivery_retry i n s) = redis_keys s"
  by (simp_all add: maybe_schedule_delivery_retry_def enqueue_def)

text \<open>A callback that is not stale.\<close>

lemma callback_advances:
  assumes "apply_status_update w t u s = Inr s'" "get_by_meta_id w s = Some m" "status_map (lower t) = Some st"
    and "\<not> delivery_rank st \<le> delivery_rank (ms_delivery_status m)"
  shows "\<exists>s1. propagate_to_campaign_recipient w st (if st = MSG_FAILED then st_error_code u else None)
      (if st = MSG_FAILED then st_error_text u else None)
      (update_delivery_status (ms_id m) st (if st = MSG_FAILED then st_error_text u else None)
        (if st = MSG_FAILED then st_error_code u else None) None s) = Inr s1
    \<and> s' = (if st = MSG_FAILED \<and> \<not> is_permanent_failure (st_error_code u)
      then maybe_schedule_delivery_retry (ms_id m) (ms_delivery_retry_count m)
        (classify_delivery m st (if st = MSG_FAILED then st_error_code u else None) s1)
      else classify_delivery m st (if st = MSG_FAILED then st_error_code u else None) s1)"
proof -
  let ?c = "if st = MSG_FAILED then st_error_code u else None"
  obtain s1 where "propagate_to_campaign_recipient w st ?c (if st = MSG_FAILED then st_error_text u else None)
      (update_delivery_status (ms_id m) st (if st = MSG_FAILED then st_error_text u else None) ?c None s) = Inr s1"
    and "s' = (if st = MSG_FAILED \<and> \<not> is_permanent_failure ?c
      then maybe_schedule_delivery_retry (ms_id m) (ms_delivery_retry_count m) (classify_delivery m st ?c s1)
      else classify_delivery m st ?c s1)"
    using assms(1) unfolding apply_status_update_def assms(2,3) option.case Let_def if_not_P [OF assms(4)]
    by (simp only: ebind_Inr_iff sum.inject) blast
  then show ?thesis by (cases "st = MSG_FAILED") auto
qed

text \<open>One callback moves the status to the higher rank of the two.\<close>

lemma callback_rank_max:
  assumes "callback w u s = Inr s'" "get_by_meta_id w s = Some m"
  shows "\<exists>m'. get_by_meta_id w s' = Some m' \<and> ms_id m' = ms_id m
    \<and> delivery_rank (ms_delivery_status m') = max (delivery_rank (ms_delivery_status m)) (callback_rank u)"
proof (cases "status_map (lower (case st_status u of None \<Rightarrow> [] | Some t \<Rightarrow> t))")
  case None
  then show ?thesis using assms delivery_rank_bounds(1) [of "ms_delivery_status m"]
    by (simp add: callback_def callback_rank_def apply_status_update_def)
next
  case (Some st)
  show ?thesis
  proof (cases "delivery_rank st \<le> delivery_rank (ms_delivery_status m)")
    case True
    then show ?thesis using assms Some by (simp add: callback_def callback_rank_def apply_status_update_def)
  next
    case False
    let ?e = "if st = MSG_FAILED then st_error_text u else None"
    let ?c = "if st = MSG_FAILED then st_error_code u else None"
    obtain s1 where p: "propagate_to_campaign_recipient w st ?c ?e (update_delivery_status (ms_id m) st ?e ?c None s) = Inr s1"
      and s': "messages s' = messages s1"
      using callback_advances [OF assms(1) [unfolded callback_def] assms(2) Some False] by auto
    have "get_by_meta_id w s' = Some (m\<lparr>ms_delivery_status := st, ms_last_error := ?e, ms_error_code := ?c\<rparr>)"
      using get_by_meta_id_update [OF assms(2), of st ?e ?c] propagate_frame [OF p] s'
      unfolding pipeline_frame_def by (metis get_by_meta_id_cong)
    then show ?thesis using Some False by (auto simp: callback_rank_def)
  qed
qed

lemma callbacks_rank_max:
  assumes "foldE (callback w) us s = Inr s'" "get_by_meta_id w s = Some m"
  shows "\<exists>m'. get_by_meta_id w s' = Some m'
    \<and> delivery_rank (ms_delivery_status m') = Max (insert (delivery_rank (ms_delivery_status m)) (callback_rank ` set us))"
  using assms
proof (induction us arbitrary: s m)
  case (Cons u us)
  obtain s1 where one: "callback w u s = Inr s1" "foldE (callback w) us s1 = Inr s'"
    using Cons.prems(1) by (auto simp: ok_simps)
  obtain m1 where m1: "get_by_meta_id w s1 = Some m1"
    "delivery_rank (ms_delivery_status m1) = max (delivery_rank (ms_delivery_status m)) (callback_rank u)"
    using callback_rank_max [OF one(1) Cons.prems(2)] by blast
  obtain m' where "get_by_meta_id w s' = Some m'"
    "delivery_rank (ms_delivery_status m') = Max (insert (delivery_rank (ms_delivery_status m1)) (callback_rank ` set us))"
    using Cons.IH [OF one(2) m1(1)] by blast
  moreover have "Max (insert (max a b) A) = Max (insert a (insert b A))" if "finite A" for a b :: int and A
    using that by (cases "A = {}") (simp_all add: max.assoc)
  ultimately show ?case by (simp add: m1(2))
qed simp

text \<open>C20: The order of Meta's delivery callbacks does not matter: after any sequence of them the status of the
  message is the one of highest rank among its own and the reported ones, so two deliveries of the same callbacks in
  different orders leave the same status, and no callback ever moves a message back.\<close>

theorem callbacks_commute:
  assumes "get_by_meta_id w s = Some m" "foldE (callback w) us s = Inr s1" "foldE (callback w) vs s = Inr s2"
    and "set vs = set us"
  shows "\<exists>m1 m2. get_by_meta_id w s1 = Some m1 \<and> get_by_meta_id w s2 = Some m2
    \<and> ms_delivery_status m1 = ms_delivery_status m2
    \<and> delivery_rank (ms_delivery_status m1) = Max (insert (delivery_rank (ms_delivery_status m)) (callback_rank ` set us))"
proof -
  obtain m1 where m1: "get_by_meta_id w s1 = Some m1" "delivery_rank (ms_delivery_status m1)
      = Max (insert (delivery_rank (ms_delivery_status m)) (callback_rank ` set us))"
    using callbacks_rank_max [OF assms(2,1)] by blast
  obtain m2 where m2: "get_by_meta_id w s2 = Some m2" "delivery_rank (ms_delivery_status m2)
      = Max (insert (delivery_rank (ms_delivery_status m)) (callback_rank ` set vs))"
    using callbacks_rank_max [OF assms(3,1)] by blast
  have "ms_delivery_status m1 = ms_delivery_status m2" using m1(2) m2(2) assms(4) delivery_rank_inj by simp
  then show ?thesis using m1 m2 by blast
qed

text \<open>A small inbox: a conversation with a queued and a sent message.\<close>

definition demo_out :: message where
  "demo_out = (new_message 20 OUTBOUND SENDER_AGENT ''hello'' MSG_QUEUED 900000000)\<lparr>ms_id := 30\<rparr>"

definition demo_chat :: crm where
  "demo_chat = \<lparr>next_id = 100, today = 0, contacts = [], sequences = (\<lambda>_. None), audit_log = [],
     clock = 1000000000000, users = [\<lparr>us_id = 1, us_role = ''agent'', us_is_active = True\<rparr>],
     crm_contacts = [new_contact 10 ''971501234567''],
     conversations = [\<lparr>cv_id = 20, cv_contact_id = 10, cv_state = CS_HUMAN_ASSIGNED, cv_outreach_state = None,
       cv_ai_enabled = False, cv_locked_by = None, cv_lock_expires_at = None, cv_last_message_at = None,
       cv_last_read_at = None, cv_created_at = 0, cv_updated_at = 0\<rparr>],
     messages = [demo_out, (new_message 20 OUTBOUND SENDER_AGENT ''hi'' MSG_SENT 800000000)
       \<lparr>ms_id := 31, ms_meta_message_id := Some ''wamid.1''\<rparr>],
     media_assets = [], tags = [], contact_tags = [], templates = [], campaigns = [], campaign_recipients = [],
     bool_settings = (\<lambda>_. None), redis_keys = [], redis_counters = (\<lambda>_. 0), published = [], task_queue = [],
     row_choice = (\<lambda>_. 0)\<rparr>"

definition demo_files :: crm where
  "demo_files = demo_chat\<lparr>messages := [(new_message 20 OUTBOUND SENDER_AGENT [] MSG_SENT 800000000)
       \<lparr>ms_id := 32, ms_msg_type := ''image''\<rparr>],
     media_assets := [\<lparr>ma_id = 40, ma_message_id = Some 32, ma_media_type = ''image''\<rparr>]\<rparr>"

definition demo_status :: "string \<Rightarrow> wa_status" where
  "demo_status st = \<lparr>st_id = Some ''wamid.1'', st_status = Some st, st_error_text = None, st_error_code = None\<rparr>"

definition demo_failure :: wa_status where
  "demo_failure = \<lparr>st_id = Some ''wamid.1'', st_status = Some ''failed'', st_error_text = Some ''timeout'',
     st_error_code = Some 130472\<rparr>"

definition demo_inbound :: "string \<Rightarrow> string \<Rightarrow> wa_message" where
  "demo_inbound t w = \<lparr>wa_id = Some ''wamid.9'', wa_from = Some ''971501234567'', wa_timestamp = Some 1000,
     wa_type = Some t, wa_text_body = Some w, wa_captions = (\<lambda>_. None), wa_media_ids = (\<lambda>_. None), wa_cards = [],
     wa_button_text = None, wa_button_reply = None, wa_list_reply = None, wa_context_id = None,
     wa_reaction_emoji = None, wa_reaction_message_id = None\<rparr>"

definition demo_value :: "wa_message list \<Rightarrow> wa_value" where
  "demo_value ms = \<lparr>wv_display_phone = Some ''97140000000'', wv_messages = ms, wv_statuses = []\<rparr>"

lemmas demo_chat_evals = demo_out_def demo_chat_def demo_status_def demo_failure_def demo_inbound_def demo_value_def

declare demo_chat_evals [evals]

lemma demo_callbacks:
  "\<not> isl (foldE (callback ''wamid.1'') [demo_status ''read'', demo_status ''delivered''] demo_chat)"
  "\<not> isl (foldE (callback ''wamid.1'') [demo_status ''delivered'', demo_status ''read''] demo_chat)"
  by (simp_all add: evals callback_def Let_def lower_def lower_char_def cong: ebind_weak_cong)

theorem callbacks_commute_witness:
  "map ms_delivery_status (messages (projr (foldE (callback ''wamid.1'') [demo_status ''read''] demo_chat)))
     = [MSG_QUEUED, MSG_READ]
   \<and> (\<exists>m1 m2. get_by_meta_id ''wamid.1''
        (projr (foldE (callback ''wamid.1'') [demo_status ''read'', demo_status ''delivered''] demo_chat)) = Some m1
      \<and> get_by_meta_id ''wamid.1''
        (projr (foldE (callback ''wamid.1'') [demo_status ''delivered'', demo_status ''read''] demo_chat)) = Some m2
      \<and> ms_delivery_status m1 = ms_delivery_status m2)"
proof
  show "map ms_delivery_status (messages (projr (foldE (callback ''wamid.1'') [demo_status ''read''] demo_chat)))
     = [MSG_QUEUED, MSG_READ]"
    by (simp add: evals callback_def Let_def lower_def lower_char_def cong: ebind_weak_cong)
next
  have "get_by_meta_id ''wamid.1'' demo_chat = Some ((new_message 20 OUTBOUND SENDER_AGENT ''hi'' MSG_SENT 800000000)
       \<lparr>ms_id := 31, ms_meta_message_id := Some ''wamid.1''\<rparr>)" by (simp add: evals)
  from callbacks_commute [OF this not_isl_Inr [OF demo_callbacks(1)] not_isl_Inr [OF demo_callbacks(2)]]
  show "\<exists>m1 m2. get_by_meta_id ''wamid.1''
        (projr (foldE (callback ''wamid.1'') [demo_status ''read'', demo_status ''delivered''] demo_chat)) = Some m1
      \<and> get_by_meta_id ''wamid.1''
        (projr (foldE (callback ''wamid.1'') [demo_status ''delivered'', demo_status ''read''] demo_chat)) = Some m2
      \<and> ms_delivery_status m1 = ms_delivery_status m2" by auto
qed

section \<open>A webhook counts once\<close>

lemma upd_contact_frame [simp]:
  "messages (upd_contact i f s) = messages s" "conversations (upd_contact i f s) = conversations s"
  "task_queue (upd_contact i f s) = task_queue s" "redis_keys (upd_contact i f s) = redis_keys s"
  "tags (upd_contact i f s) = tags s" "contact_tags (upd_contact i f s) = contact_tags s"
  "clock (upd_contact i f s) = clock s"
  by (simp_all add: upd_contact_def)

lemma upsert_phone_frame:
  assumes "upsert_by_phone p n info s = Inr (c, s')"
  shows "redis_keys s' = redis_keys s \<and> task_queue s' = task_queue s \<and> messages s' = messages s
    \<and> conversations s' = conversations s"
  using assms
  by (auto simp: upsert_by_phone_def contact_insert_def fresh_id_def Let_def ok_simps split: option.splits if_splits)

lemma touch_frame [simp]:
  "redis_keys (touch_last_inbound i s) = redis_keys s" "task_queue (touch_last_inbound i s) = task_queue s"
  "conversations (touch_last_inbound i s) = conversations s" "messages (touch_last_inbound i s) = messages s"
  "redis_keys (touch_last_message i t s) = redis_keys s" "task_queue (touch_last_message i t s) = task_queue s"
  "crm_contacts (touch_last_message i t s) = crm_contacts s" "messages (touch_last_message i t s) = messages s"
  by (simp_all add: touch_last_inbound_def touch_last_message_def)

lemma inbound_conversation_frame:
  assumes "inbound_conversation c s = Inr (i, s')"
  shows "redis_keys s' = redis_keys s \<and> task_queue s' = task_queue s \<and> crm_contacts s' = crm_contacts s"
  using assms
  by (auto simp: inbound_conversation_def conv_create_for_contact_def fresh_id_def Let_def ok_simps
      split: option.splits if_splits)

lemma update_state_frame:
  "redis_keys (snd (update_state i a b s)) = redis_keys s" "task_queue (snd (update_state i a b s)) = task_queue s"
  "crm_contacts (snd (update_state i a b s)) = crm_contacts s"
  by (auto simp: update_state_def split: option.splits)

lemma inbound_transition_cases:
  assumes "inbound_transition i s = Inr (x, s')"
  shows "s' = s \<or> (\<exists>a b. s' = snd (update_state i a b s))"
proof -
  obtain conv where "get_conv i s = Some conv" and rest:
    "(if cv_state conv = CS_NEW \<and> cv_ai_enabled conv then
       (let (rowcount, s1) = update_state i CS_NEW CS_AI_ACTIVE s in
        ebind (ensure (rowcount \<noteq> 0) ConcurrentModificationError) (\<lambda>_. Inr ((True, True), s1)))
     else if cv_state conv = CS_AI_ACTIVE \<and> cv_ai_enabled conv then Inr ((True, False), s)
     else if cv_state conv = CS_NEW \<and> \<not> cv_ai_enabled conv then
       (let (rowcount, s1) = update_state i CS_NEW CS_HUMAN_ASSIGNED s in
        ebind (ensure (rowcount \<noteq> 0) ConcurrentModificationError) (\<lambda>_. Inr ((False, False), s1)))
     else Inr ((False, False), s)) = Inr (x, s')"
    using assms unfolding inbound_transition_def by (auto simp: ok_simps)
  obtain n1 t1 where u1: "update_state i CS_NEW CS_AI_ACTIVE s = (n1, t1)" by fastforce
  obtain n2 t2 where u2: "update_state i CS_NEW CS_HUMAN_ASSIGNED s = (n2, t2)" by fastforce
  have "s' = s \<or> s' = t1 \<or> s' = t2"
    using rest unfolding u1 u2 Let_def prod.case by (auto simp: ok_simps split: if_splits)
  then show ?thesis by (metis snd_conv u1 u2)
qed

lemma inbound_transition_frame:
  assumes "inbound_transition i s = Inr (x, s')"
  shows "redis_keys s' = redis_keys s \<and> task_queue s' = task_queue s \<and> crm_contacts s' = crm_contacts s"
  using inbound_transition_cases [OF assms] update_state_frame by metis

lemma create_message_frame:
  assumes "create_message m s = Inr (i, s')"
  shows "redis_keys s' = redis_keys s \<and> task_queue s' = task_queue s \<and> crm_contacts s' = crm_contacts s
    \<and> conversations s' = conversations s \<and> i = next_id s \<and> messages s' = messages s @ [m\<lparr>ms_id := next_id s\<rparr>]"
  using assms by (auto simp: create_message_def fresh_id_def Let_def ok_simps)

lemma store_media_frame [simp]:
  "redis_keys (store_media f m t i s) = redis_keys s" "task_queue (store_media f m t i s) = task_queue s"
  "crm_contacts (store_media f m t i s) = crm_contacts s" "conversations (store_media f m t i s) = conversations s"
  by (simp_all add: store_media_def fresh_id_def Let_def)

lemma fold_counters_frame [simp]:
  "redis_keys (fold (\<lambda>c. increment_counters c d) cs s) = redis_keys s"
  "task_queue (fold (\<lambda>c. increment_counters c d) cs s) = task_queue s"
  "crm_contacts (fold (\<lambda>c. increment_counters c d) cs s) = crm_contacts s"
  "conversations (fold (\<lambda>c. increment_counters c d) cs s) = conversations s"
  by (induction cs arbitrary: s) simp_all

lemma attribute_frame [simp]:
  "redis_keys (attribute_inbound_to_campaigns c w s) = redis_keys s"
  "task_queue (attribute_inbound_to_campaigns c w s) = task_queue s"
  "crm_contacts (attribute_inbound_to_campaigns c w s) = crm_contacts s"
  "conversations (attribute_inbound_to_campaigns c w s) = conversations s"
  by (simp_all add: attribute_inbound_to_campaigns_def mark_responded_for_contact_def Let_def)

text \<open>The first transaction, step by step.\<close>

lemma store_inbound_steps:
  assumes "store_inbound fetched p msg s = Inr ((ci, conv, ai, act), s')"
  obtains c s1 s3 s5 mi s6 t where "upsert_by_phone p None None s = Inr (c, s1)" "ci = ct_id c"
    "inbound_conversation c (touch_last_inbound (ct_id c) s1) = Inr (conv, s3)"
    "inbound_transition conv s3 = Inr ((ai, act), s5)
     \<or> inbound_transition conv (auto_tag (ct_id c) ''Inbound Contact'' s3) = Inr ((ai, act), s5)"
    "create_message (inbound_row msg conv t s5) s5 = Inr (mi, s6)"
    "s' = touch_last_message conv t (attribute_inbound_to_campaigns (ct_id c) t s6)
     \<or> (\<exists>m. s' = touch_last_message conv t (attribute_inbound_to_campaigns (ct_id c) t
           (store_media fetched m (classify_msg_type msg) mi s6)))"
proof -
  define t where "t = (case wa_timestamp msg of None \<Rightarrow> clock s | Some t \<Rightarrow> microseconds t)"
  obtain c s1 where ups: "upsert_by_phone p None None s = Inr (c, s1)"
    using assms unfolding store_inbound_def Let_def by (auto simp: ebind_Inr_iff)
  define s2 where "s2 = touch_last_inbound (ct_id c) s1"
  define first where "first = (\<forall>k\<in>set (conversations s2). cv_contact_id k \<noteq> ct_id c)"
  have main: "ebind (inbound_conversation c s2) (\<lambda>(v, s3).
      ebind (inbound_transition v (if first then auto_tag (ct_id c) ''Inbound Contact'' s3 else s3)) (\<lambda>((ai', act'), s5).
      ebind (create_message (inbound_row msg v t s5) s5) (\<lambda>(i, s6).
      Inr ((ct_id c, v, ai', act'), touch_last_message v t (attribute_inbound_to_campaigns (ct_id c) t
        (case first_media_id msg of None \<Rightarrow> s6
         | Some m \<Rightarrow> if classify_msg_type msg \<noteq> ''text'' then store_media fetched m (classify_msg_type msg) i s6 else s6))))))
      = (Inr ((ci, conv, ai, act), s') :: err + _)"
    using assms ups unfolding store_inbound_def Let_def s2_def first_def t_def by (simp only: ebind_simps prod.case)
  obtain v s3 where conv: "inbound_conversation c s2 = Inr (v, s3)"
    using main by (auto simp: ebind_Inr_iff)
  define s4 where "s4 = (if first then auto_tag (ct_id c) ''Inbound Contact'' s3 else s3)"
  obtain x s5 where trans: "inbound_transition v s4 = Inr (x, s5)"
    using main unfolding conv ebind_simps prod.case s4_def by (auto simp: ebind_Inr_iff)
  have rest: "(case x of (ai', act') \<Rightarrow> ebind (create_message (inbound_row msg v t s5) s5) (\<lambda>(i, s6).
      Inr ((ct_id c, v, ai', act'), touch_last_message v t (attribute_inbound_to_campaigns (ct_id c) t
        (case first_media_id msg of None \<Rightarrow> s6
         | Some m \<Rightarrow> if classify_msg_type msg \<noteq> ''text'' then store_media fetched m (classify_msg_type msg) i s6 else s6)))))
      = (Inr ((ci, conv, ai, act), s') :: err + _)"
    using main unfolding conv ebind_simps prod.case trans [unfolded s4_def] by (cases x) (simp only: prod.case)
  obtain mi s6 where msg: "create_message (inbound_row msg v t s5) s5 = Inr (mi, s6)"
    and eqs: "ct_id c = ci" "v = conv" "x = (ai, act)"
    and s': "s' = touch_last_message v t (attribute_inbound_to_campaigns (ct_id c) t
        (case first_media_id msg of None \<Rightarrow> s6
         | Some m \<Rightarrow> if classify_msg_type msg \<noteq> ''text'' then store_media fetched m (classify_msg_type msg) mi s6 else s6))"
    using rest by (cases x) (auto simp: ebind_Inr_iff)
  show ?thesis
  proof (rule that [of c s1 s3 s5 t mi s6])
    show "inbound_transition conv s3 = Inr ((ai, act), s5)
     \<or> inbound_transition conv (auto_tag (ct_id c) ''Inbound Contact'' s3) = Inr ((ai, act), s5)"
      using trans eqs by (auto simp: s4_def split: if_splits)
    show "s' = touch_last_message conv t (attribute_inbound_to_campaigns (ct_id c) t s6)
     \<or> (\<exists>m. s' = touch_last_message conv t (attribute_inbound_to_campaigns (ct_id c) t
           (store_media fetched m (classify_msg_type msg) mi s6)))"
      using s' eqs by (auto split: option.splits if_splits)
  qed (use ups conv msg eqs in \<open>auto simp: s2_def\<close>)
qed

lemma store_inbound_frame:
  assumes "store_inbound fetched p msg s = Inr (x, s')"
  shows "redis_keys s' = redis_keys s \<and> task_queue s' = task_queue s"
proof -
  obtain ci conv ai act where x: "x = (ci, conv, ai, act)" by (cases x)
  from assms [unfolded x] show ?thesis
  proof (cases rule: store_inbound_steps)
    case (1 c s1 s3 s5 mi s6 t)
    have "redis_keys s3 = redis_keys s \<and> task_queue s3 = task_queue s"
      using upsert_phone_frame [OF 1(1)] inbound_conversation_frame [OF 1(3)] by simp
    moreover have "redis_keys s5 = redis_keys s3 \<and> task_queue s5 = task_queue s3"
      using 1(4) inbound_transition_frame by (metis auto_tag_frame(6,7))
    ultimately show ?thesis using create_message_frame [OF 1(5)] 1(6) by auto
  qed
qed

text \<open>
  The contract of a deduplicated handler: once it went through, its keys are set; keys are never lost; and
  an item whose keys are set is skipped. A loop over such items has the contract again.
\<close>

locale dedup =
  fixes handle :: "'x \<Rightarrow> 'a crm_scheme \<Rightarrow> bool \<times> 'a crm_scheme"
    and keys :: "'x \<Rightarrow> string set"
  assumes marks: "handle x s = (True, s') \<Longrightarrow> keys x \<subseteq> set (redis_keys s')"
    and grows: "handle x s = (ok, s') \<Longrightarrow> set (redis_keys s) \<subseteq> set (redis_keys s')"
    and skips: "keys x \<subseteq> set (redis_keys s) \<Longrightarrow> handle x s = (True, s)"
begin

lemma loop_grows: "while_ok handle xs s = (ok, s') \<Longrightarrow> set (redis_keys s) \<subseteq> set (redis_keys s')"
proof (induction xs arbitrary: s)
  case (Cons x xs)
  obtain b s1 where one: "handle x s = (b, s1)" by fastforce
  show ?case
  proof (cases b)
    case True
    then have "while_ok handle xs s1 = (ok, s')" using Cons.prems one by simp
    from Cons.IH [OF this] grows [OF one] show ?thesis by blast
  next
    case False
    then show ?thesis using Cons.prems one grows [OF one] by simp
  qed
qed simp

lemma loop_marks: "while_ok handle xs s = (True, s') \<Longrightarrow> (\<Union>x\<in>set xs. keys x) \<subseteq> set (redis_keys s')"
proof (induction xs arbitrary: s)
  case (Cons x xs)
  obtain b s1 where one: "handle x s = (b, s1)" by fastforce
  have b: "b" and rest: "while_ok handle xs s1 = (True, s')" using Cons.prems one by (auto split: if_splits)
  have "keys x \<subseteq> set (redis_keys s1)" using marks one b by simp
  then show ?case using Cons.IH [OF rest] loop_grows [OF rest] by auto
qed simp

lemma loop_skips: "(\<Union>x\<in>set xs. keys x) \<subseteq> set (redis_keys s) \<Longrightarrow> while_ok handle xs s = (True, s)"
  by (induction xs) (auto simp: skips)

end

definition message_keys :: "wa_message \<Rightarrow> string set" where
  "message_keys m = (if some_text (wa_id m) then {inbound_key (the (wa_id m))} else {})"

definition status_keys :: "wa_status \<Rightarrow> string set" where
  "status_keys u = (if some_text (st_id u) \<and> some_text (st_status u)
     then {status_key (the (st_id u)) (the (st_status u))} else {})"

definition value_keys :: "wa_value \<Rightarrow> string set" where
  "value_keys v = (\<Union>m\<in>set (wv_messages v). message_keys m) \<union> (\<Union>u\<in>set (wv_statuses v). status_keys u)"

lemma cancel_outreach_frame [simp]:
  "redis_keys (cancel_pending_outreach_on_reply i s) = redis_keys s"
  "task_queue (cancel_pending_outreach_on_reply i s) = task_queue s"
  "crm_contacts (cancel_pending_outreach_on_reply i s) = crm_contacts s"
  "tags (cancel_pending_outreach_on_reply i s) = tags s"
  "contact_tags (cancel_pending_outreach_on_reply i s) = contact_tags s"
  by (simp_all add: cancel_pending_outreach_on_reply_def Let_def split: option.splits)

lemma publish_frame [simp]:
  "redis_keys (publish e i s) = redis_keys s" "task_queue (publish e i s) = task_queue s"
  "crm_contacts (publish e i s) = crm_contacts s" "tags (publish e i s) = tags s"
  "contact_tags (publish e i s) = contact_tags s" "conversations (publish e i s) = conversations s"
  "messages (publish e i s) = messages s"
  by (simp_all add: publish_def)

lemma suppress_frame [simp]:
  "redis_keys (suppress_contact c i s) = redis_keys s" "task_queue (suppress_contact c i s) = task_queue s"
  by (simp_all add: suppress_contact_def set_do_not_contact_def)

lemma after_inbound_keys: "redis_keys (after_inbound msg x s) = redis_keys s"
  by (simp add: after_inbound_def enqueue_def Let_def split: prod.splits)

lemma persist_inbound_keys: "persist_inbound fetched d msg s = Inr s' \<Longrightarrow> redis_keys s' = redis_keys s"
  using store_inbound_frame by (fastforce simp: persist_inbound_def ebind_Inr_iff after_inbound_keys split: if_splits)

lemma update_delivery_frame [simp]:
  "redis_keys (update_delivery_status i st e c w s) = redis_keys s"
  "task_queue (update_delivery_status i st e c w s) = task_queue s"
  "bool_settings (update_delivery_status i st e c w s) = bool_settings s"
  by (simp_all add: update_delivery_status_def upd_message_def)

lemma apply_status_keys:
  assumes "apply_status_update w t u s = Inr s'"
  shows "redis_keys s' = redis_keys s"
proof (cases "status_map (lower t)")
  case None
  then show ?thesis using assms by (simp add: apply_status_update_def)
next
  case (Some st)
  note st = this
  show ?thesis
  proof (cases "get_by_meta_id w s")
    case None
    then show ?thesis using assms st by (simp add: apply_status_update_def)
  next
    case (Some m)
    show ?thesis
    proof (cases "delivery_rank st \<le> delivery_rank (ms_delivery_status m)")
      case True
      then show ?thesis using assms st Some by (simp add: apply_status_update_def)
    next
      case False
      from callback_advances [OF assms Some st False] obtain s1 where
        "propagate_to_campaign_recipient w st (if st = MSG_FAILED then st_error_code u else None)
          (if st = MSG_FAILED then st_error_text u else None)
          (update_delivery_status (ms_id m) st (if st = MSG_FAILED then st_error_text u else None)
            (if st = MSG_FAILED then st_error_code u else None) None s) = Inr s1" "redis_keys s' = redis_keys s1"
        by auto
      then show ?thesis using propagate_frame unfolding pipeline_frame_def by fastforce
    qed
  qed
qed

lemma set_redis_key_keys [simp]: "redis_keys (set_redis_key k s) = redis_keys s @ [k]"
  by (simp add: set_redis_key_def)

interpretation inbound_messages: dedup "process_message fetched d" message_keys for fetched d
  by unfold_locales
    (auto simp: process_message_def message_keys_def Let_def split: if_splits sum.splits dest: persist_inbound_keys)

interpretation callbacks: dedup process_status status_keys
  by unfold_locales
    (auto simp: process_status_def status_keys_def Let_def split: if_splits sum.splits dest: apply_status_keys)

interpretation webhook_values: dedup "process_value fetched" value_keys for fetched
proof unfold_locales
  fix v s s'
  assume run: "process_value fetched v s = (True, s')"
  obtain ok s1 where one: "while_ok (process_message fetched (wv_display_phone v)) (wv_messages v) s = (ok, s1)" by fastforce
  then have ok: "ok" and two: "while_ok process_status (wv_statuses v) s1 = (True, s')"
    using run by (auto simp: process_value_def split: if_splits)
  show "value_keys v \<subseteq> set (redis_keys s')"
    using inbound_messages.loop_marks [OF one [unfolded eqTrueI [OF ok]]] callbacks.loop_marks [OF two]
      callbacks.loop_grows [OF two] by (auto simp: value_keys_def)
next
  fix v s ok s'
  assume run: "process_value fetched v s = (ok, s')"
  obtain ok1 s1 where one: "while_ok (process_message fetched (wv_display_phone v)) (wv_messages v) s = (ok1, s1)" by fastforce
  have "set (redis_keys s) \<subseteq> set (redis_keys s1)" by (rule inbound_messages.loop_grows [OF one])
  moreover have "set (redis_keys s1) \<subseteq> set (redis_keys s')"
  proof (cases ok1)
    case True
    then have "while_ok process_status (wv_statuses v) s1 = (ok, s')" using run one by (simp add: process_value_def)
    then show ?thesis by (rule callbacks.loop_grows)
  next
    case False
    then show ?thesis using run one by (simp add: process_value_def)
  qed
  ultimately show "set (redis_keys s) \<subseteq> set (redis_keys s')" by blast
next
  fix v s
  assume "value_keys v \<subseteq> set (redis_keys s)"
  then have "(\<Union>m\<in>set (wv_messages v). message_keys m) \<subseteq> set (redis_keys s)"
    "(\<Union>u\<in>set (wv_statuses v). status_keys u) \<subseteq> set (redis_keys s)" by (auto simp: value_keys_def)
  then show "process_value fetched v s = (True, s)"
    by (simp add: process_value_def inbound_messages.loop_skips callbacks.loop_skips)
qed

text \<open>C21: A webhook payload counts once: when the worker went through it, a second delivery of the same payload
  (Meta redelivers, and Celery may run an unacknowledged task again) is done and changes nothing, as long as the
  deduplication keys live.\<close>

theorem webhook_idempotent:
  assumes "process_inbound_webhook fetched payload s = (TaskDone, s')"
  shows "process_inbound_webhook fetched' payload s' = (TaskDone, s')"
proof -
  have "while_ok (process_value fetched) payload s = (True, s')"
    using assms by (auto simp: process_inbound_webhook_def split: prod.splits if_splits)
  from webhook_values.loop_marks [OF this] have "while_ok (process_value fetched') payload s' = (True, s')"
    by (rule webhook_values.loop_skips)
  then show ?thesis by (simp add: process_inbound_webhook_def)
qed

lemma demo_hello: "\<not> detect_opt_out_keywords (Some ''hello'')"
  by code_simp

theorem webhook_idempotent_witness:
  "process_inbound_webhook (\<lambda>_. True) [demo_value [demo_inbound ''text'' ''hello'']]
     (snd (process_inbound_webhook (\<lambda>_. True) [demo_value [demo_inbound ''text'' ''hello'']] demo_chat))
   = (TaskDone, snd (process_inbound_webhook (\<lambda>_. True) [demo_value [demo_inbound ''text'' ''hello'']] demo_chat))"
proof -
  have "fst (process_inbound_webhook (\<lambda>_. True) [demo_value [demo_inbound ''text'' ''hello'']] demo_chat) = TaskDone"
    by code_simp
  then have "process_inbound_webhook (\<lambda>_. True) [demo_value [demo_inbound ''text'' ''hello'']] demo_chat
      = (TaskDone, snd (process_inbound_webhook (\<lambda>_. True) [demo_value [demo_inbound ''text'' ''hello'']] demo_chat))"
    by (intro prod_eqI) simp_all
  then show ?thesis by (rule webhook_idempotent)
qed

section \<open>Documents\<close>

lemma document_row:
  assumes "wa_type msg = Some ''document''"
  shows "\<exists>e. create_message (inbound_row msg conv t s5) s5 = Inl e"
proof -
  have "ms_msg_type (inbound_row msg conv t s5) = ''document''"
    using assms by (simp add: inbound_row_def classify_msg_type_def media_kinds_def)
  then show ?thesis by (simp add: create_message_def message_types_def)
qed

lemma store_document:
  assumes "wa_type msg = Some ''document''"
  shows "\<exists>e. store_inbound fetched p msg s = Inl e"
proof (cases "store_inbound fetched p msg s")
  case (Inr r)
  obtain ci conv ai act s' where "r = ((ci, conv, ai, act), s')" by (cases r; cases "fst r") auto
  with Inr have "store_inbound fetched p msg s = Inr ((ci, conv, ai, act), s')" by simp
  then show ?thesis
  proof (cases rule: store_inbound_steps)
    case (1 c s1 s3 s5 mi s6 t)
    then show ?thesis using document_row [OF assms, of conv t s5] by simp
  qed
qed simp

text \<open>Documents cannot pass: an inbound document is never stored, whatever the state, and stops the task with
  nothing after it in the payload processed, on every retry; and an agent's message with a document file is refused by the
  database, although both directions have code for documents. The type of the message is not among those the table admits.\<close>

theorem documents_never_stored:
  assumes "wa_type msg = Some ''document''" "inbound_phone (wv_display_phone v) msg \<noteq> []" "some_text (wa_id msg)"
    and "inbound_key (the (wa_id msg)) \<notin> set (redis_keys s)" "wv_messages v = msg # later"
  shows "process_inbound_webhook fetched (v # others) s = (TaskRetry 10 3, s)
    \<and> (get_media a s = Some file \<and> ma_media_type file = ''document'' \<longrightarrow> isl (send_message conv txt actor (Some a) ctx None s))"
proof
  have "process_message fetched (wv_display_phone v) msg s = (False, s)"
    using assms(2-4) store_document [OF assms(1), of fetched "inbound_phone (wv_display_phone v) msg" s]
    by (auto simp: process_message_def persist_inbound_def Let_def)
  then show "process_inbound_webhook fetched (v # others) s = (TaskRetry 10 3, s)"
    by (simp add: process_inbound_webhook_def process_value_def assms(5))
next
  show "get_media a s = Some file \<and> ma_media_type file = ''document'' \<longrightarrow> isl (send_message conv txt actor (Some a) ctx None s)"
  proof
    assume "get_media a s = Some file \<and> ma_media_type file = ''document''"
    then have "\<exists>e. create_message ((new_message conv OUTBOUND SENDER_AGENT txt MSG_QUEUED (clock s))
        \<lparr>ms_msg_type := resolve_msg_type None (Some a) s, ms_context_message_id := ctx\<rparr>) s = Inl e"
      by (simp add: resolve_msg_type_def create_message_def message_types_def)
    then show "isl (send_message conv txt actor (Some a) ctx None s)"
      unfolding send_message_def by (auto simp: ebind_def from_opt_def ensure_def split: option.splits)
  qed
qed

theorem documents_never_stored_witness:
  "process_inbound_webhook (\<lambda>_. True) [demo_value [demo_inbound ''document'' [], demo_inbound ''text'' ''hello'']] demo_chat
     = (TaskRetry 10 3, demo_chat)"
proof -
  have hyps: "wa_type (demo_inbound ''document'' []) = Some ''document''"
    "inbound_phone (wv_display_phone (demo_value [demo_inbound ''document'' [], demo_inbound ''text'' ''hello'']))
       (demo_inbound ''document'' []) \<noteq> []"
    "some_text (wa_id (demo_inbound ''document'' []))"
    "inbound_key (the (wa_id (demo_inbound ''document'' []))) \<notin> set (redis_keys demo_chat)"
    "wv_messages (demo_value [demo_inbound ''document'' [], demo_inbound ''text'' ''hello''])
       = demo_inbound ''document'' [] # [demo_inbound ''text'' ''hello'']"
    by (simp_all add: evals)
  show ?thesis by (rule conjunct1 [OF documents_never_stored [OF hyps]])
qed

section \<open>Opting out\<close>

definition has_contact :: "uuid \<Rightarrow> string \<Rightarrow> 'a crm_scheme \<Rightarrow> bool" where
  "has_contact i p s = (\<exists>c\<in>set (crm_contacts s). ct_id c = i \<and> ct_phone c = p)"

definition has_conv :: "uuid \<Rightarrow> uuid \<Rightarrow> 'a crm_scheme \<Rightarrow> bool" where
  "has_conv v i s = (\<exists>c\<in>set (conversations s). cv_id c = v \<and> cv_contact_id c = i)"

lemma has_conv_upd:
  assumes "\<And>c. cv_id (f c) = cv_id c \<and> cv_contact_id (f c) = cv_contact_id c" "has_conv v i s"
  shows "has_conv v i (upd_conv j f s)"
proof -
  let ?g = "\<lambda>c. if cv_id c = j then (f c)\<lparr>cv_updated_at := clock s\<rparr> else c"
  obtain c where c: "c \<in> set (conversations s)" "cv_id c = v" "cv_contact_id c = i" using assms(2) by (auto simp: has_conv_def)
  have "?g c \<in> set (conversations (upd_conv j f s))" unfolding upd_conv_def upd_by_def using c(1) by simp
  moreover have "cv_id (?g c) = v" "cv_contact_id (?g c) = i" using assms(1) c by simp_all
  ultimately show ?thesis unfolding has_conv_def by blast
qed

lemma has_contact_upd:
  assumes "\<And>c. ct_id (f c) = ct_id c \<and> ct_phone (f c) = ct_phone c" "has_contact i p s"
  shows "has_contact i p (upd_contact j f s)"
proof -
  let ?g = "\<lambda>c. if ct_id c = j then f c else c"
  obtain c where c: "c \<in> set (crm_contacts s)" "ct_id c = i" "ct_phone c = p" using assms(2) by (auto simp: has_contact_def)
  have "?g c \<in> set (crm_contacts (upd_contact j f s))" unfolding upd_contact_def upd_by_def using c(1) by simp
  moreover have "ct_id (?g c) = i" "ct_phone (?g c) = p" using assms(1) c by simp_all
  ultimately show ?thesis unfolding has_contact_def by blast
qed

lemma upsert_has_contact:
  assumes "upsert_by_phone p None None s = Inr (c, s')"
  shows "has_contact (ct_id c) p s'"
proof (cases "get_by_phone p s")
  case None
  then show ?thesis using assms
    by (auto simp: upsert_by_phone_def has_contact_def contact_insert_def fresh_id_def new_contact_def Let_def ok_simps)
next
  case (Some e)
  then show ?thesis using assms get_by_Some [OF Some [unfolded get_by_phone_def]]
    by (auto simp: upsert_by_phone_def has_contact_def blank_def)
qed

lemma inbound_has_conv:
  assumes "inbound_conversation c s = Inr (v, s')"
  shows "has_conv v (ct_id c) s'"
proof (cases "get_open_for_contact (ct_id c) s")
  case None
  obtain s1 where s1: "conv_create_for_contact (ct_id c) s = Inr (v, s1)" and s': "s' = s1 \<or> (\<exists>b. s' = upd_conv v (\<lambda>k. k\<lparr>cv_ai_enabled := b\<rparr>) s1)"
    using assms None by (auto simp: inbound_conversation_def ebind_Inr_iff split: if_splits)
  have "has_conv v (ct_id c) s1"
    using s1 by (auto simp: conv_create_for_contact_def has_conv_def fresh_id_def Let_def ok_simps)
  moreover have "has_conv v (ct_id c) (upd_conv v (\<lambda>k. k\<lparr>cv_ai_enabled := b\<rparr>) s1)" for b
    by (rule has_conv_upd) (use calculation in simp_all)
  ultimately show ?thesis using s' by auto
next
  case (Some k)
  then show ?thesis using assms latest_by_Some(1) [OF Some [unfolded get_open_for_contact_def]]
    by (auto simp: inbound_conversation_def has_conv_def)
qed

lemma transition_has_conv:
  assumes "inbound_transition j s = Inr (x, s')" "has_conv v i s"
  shows "has_conv v i s'"
  using inbound_transition_cases [OF assms(1)]
proof
  assume "\<exists>a b. s' = snd (update_state j a b s)"
  then obtain a b where s': "s' = snd (update_state j a b s)" by blast
  have "has_conv v i (upd_conv j (\<lambda>c. c\<lparr>cv_state := b\<rparr>) s)" by (rule has_conv_upd) (use assms(2) in simp_all)
  then show ?thesis using assms(2) by (simp add: s' update_state_def split: option.splits)
qed (use assms(2) in simp)

lemma store_inbound_found:
  assumes "store_inbound fetched p msg s = Inr ((ci, conv, ai, act), s')"
  shows "has_contact ci p s' \<and> has_conv conv ci s'"
  using assms
proof (cases rule: store_inbound_steps)
  case (1 c s1 s3 s5 mi s6 t)
  have "has_contact ci p (touch_last_inbound (ct_id c) s1)"
    using upsert_has_contact [OF 1(1)] 1(2) by (simp add: touch_last_inbound_def has_contact_upd)
  then have c3: "has_contact ci p s3" using inbound_conversation_frame [OF 1(3)] by (simp add: has_contact_def)
  have v3: "has_conv conv ci s3" using inbound_has_conv [OF 1(3)] 1(2) by simp
  have "has_contact ci p s5 \<and> has_conv conv ci s5"
    using 1(4)
  proof
    assume t: "inbound_transition conv s3 = Inr ((ai, act), s5)"
    show ?thesis using transition_has_conv [OF t v3] c3 inbound_transition_frame [OF t] by (simp add: has_contact_def)
  next
    assume t: "inbound_transition conv (auto_tag (ct_id c) ''Inbound Contact'' s3) = Inr ((ai, act), s5)"
    have "has_conv conv ci (auto_tag (ct_id c) ''Inbound Contact'' s3)" using v3 by (simp add: has_conv_def)
    then show ?thesis using transition_has_conv [OF t] c3 inbound_transition_frame [OF t] by (simp add: has_contact_def)
  qed
  then have "has_contact ci p s6 \<and> has_conv conv ci s6"
    using create_message_frame [OF 1(5)] by (simp add: has_contact_def has_conv_def)
  then have "has_contact ci p r \<and> has_conv conv ci r"
    if "crm_contacts r = crm_contacts s6" "conversations r = conversations s6" for r :: "'a crm_scheme"
    using that by (simp add: has_contact_def has_conv_def)
  then have "has_contact ci p (touch_last_message conv t r) \<and> has_conv conv ci (touch_last_message conv t r)"
    if "crm_contacts r = crm_contacts s6" "conversations r = conversations s6" for r :: "'a crm_scheme"
    using that by (simp add: touch_last_message_def has_conv_upd has_contact_def)
  then show ?thesis using 1(6) by auto
qed

lemma get_conv_has: "has_conv v i s \<Longrightarrow> get_conv v s \<noteq> None"
  by (auto simp: has_conv_def get_conv_def get_by_None_iff)

lemma tagged_with_cong:
  "tags s' = tags s \<Longrightarrow> contact_tags s' = contact_tags s \<Longrightarrow> tagged_with c n s' = tagged_with c n s"
  unfolding tagged_with_def tag_by_name_def has_tag_def by (simp split: option.split)

lemma suppress_effect:
  assumes "has_contact ci p s" "has_conv conv ci s"
  shows "\<exists>c\<in>set (crm_contacts (suppress_contact ci conv s)). ct_id c = ci \<and> ct_phone c = p \<and> ct_do_not_contact c"
    "tagged_with ci ''DO_NOT_CONTACT'' (suppress_contact ci conv s)"
    "\<exists>v\<in>set (conversations (suppress_contact ci conv s)). cv_id v = conv \<and> cv_contact_id v = ci"
    "\<forall>v\<in>set (conversations (suppress_contact ci conv s)). cv_id v = conv \<longrightarrow> cv_outreach_state v = Some OS_SUPPRESSED"
proof -
  define s1 where "s1 = auto_tag ci ''DO_NOT_CONTACT'' (set_do_not_contact ci True s)"
  have sup: "suppress_contact ci conv s = snd (update_outreach_state conv OS_SUPPRESSED None s1)"
    by (simp add: suppress_contact_def s1_def)
  have "\<exists>c\<in>set (crm_contacts s1). ct_id c = ci \<and> ct_phone c = p \<and> ct_do_not_contact c"
  proof -
    obtain c where c: "c \<in> set (crm_contacts s)" "ct_id c = ci" "ct_phone c = p" using assms(1) by (auto simp: has_contact_def)
    then have "c\<lparr>ct_do_not_contact := True\<rparr> \<in> set (crm_contacts s1)"
      by (auto simp: s1_def set_do_not_contact_def upd_contact_def upd_by_def image_iff)
    then show ?thesis using c by (intro bexI [of _ "c\<lparr>ct_do_not_contact := True\<rparr>"]) simp_all
  qed
  then show "\<exists>c\<in>set (crm_contacts (suppress_contact ci conv s)). ct_id c = ci \<and> ct_phone c = p \<and> ct_do_not_contact c"
    by (simp add: sup)
  have "tagged_with ci ''DO_NOT_CONTACT'' s1" unfolding s1_def by (rule auto_tag_tagged)
  then show "tagged_with ci ''DO_NOT_CONTACT'' (suppress_contact ci conv s)"
    by (subst tagged_with_cong [of _ s1]) (simp_all add: sup)
  have v1: "has_conv conv ci s1" using assms(2) by (simp add: s1_def has_conv_def set_do_not_contact_def)
  then obtain k where "get_conv conv s1 = Some k" using get_conv_has by blast
  then have upd: "suppress_contact ci conv s = upd_conv conv (\<lambda>c. c\<lparr>cv_outreach_state := Some OS_SUPPRESSED\<rparr>) s1"
    by (simp add: sup update_outreach_state_def)
  show "\<exists>v\<in>set (conversations (suppress_contact ci conv s)). cv_id v = conv \<and> cv_contact_id v = ci"
  proof -
    have "has_conv conv ci (suppress_contact ci conv s)" unfolding upd by (rule has_conv_upd [OF _ v1]) simp
    then show ?thesis unfolding has_conv_def .
  qed
  show "\<forall>v\<in>set (conversations (suppress_contact ci conv s)). cv_id v = conv \<longrightarrow> cv_outreach_state v = Some OS_SUPPRESSED"
  proof
    fix v assume "v \<in> set (conversations (suppress_contact ci conv s))"
    then have "v \<in> (\<lambda>c. if cv_id c = conv then (c\<lparr>cv_outreach_state := Some OS_SUPPRESSED\<rparr>)\<lparr>cv_updated_at := clock s1\<rparr> else c)
        ` set (conversations s1)" unfolding upd upd_conv_def upd_by_def by simp
    then obtain c where "v = (if cv_id c = conv then (c\<lparr>cv_outreach_state := Some OS_SUPPRESSED\<rparr>)\<lparr>cv_updated_at := clock s1\<rparr> else c)"
      by (rule imageE)
    then show "cv_id v = conv \<longrightarrow> cv_outreach_state v = Some OS_SUPPRESSED" by (simp split: if_splits)
  qed
qed

lemma cancel_suppressed:
  assumes "\<forall>v\<in>set (conversations s). cv_id v = conv \<longrightarrow> cv_outreach_state v = Some OS_SUPPRESSED"
  shows "conversations (cancel_pending_outreach_on_reply conv s) = conversations s"
proof (cases "get_conv conv s")
  case (Some k)
  then have "cv_outreach_state k = Some OS_SUPPRESSED" using assms get_by_Some [OF Some [unfolded get_conv_def]] by blast
  then show ?thesis using Some
    by (simp add: cancel_pending_outreach_on_reply_def outreach_open_def outreach_terminal_states_def)
qed (simp add: cancel_pending_outreach_on_reply_def)

text \<open>C22: An inbound text with an opt-out keyword suppresses its sender: the contact under the phone of the sender is
  marked do-not-contact and tagged, its conversation is SUPPRESSED (the reply does not convert it), and no AI reply is
  asked for.\<close>

theorem opt_out_suppresses:
  assumes "persist_inbound fetched display msg s = Inr s'" "inbound_phone display msg \<noteq> []"
    and "detect_opt_out_keywords (extract_text_content msg)"
  shows "task_queue s' = task_queue s \<and> (\<exists>c\<in>set (crm_contacts s'). ct_phone c = inbound_phone display msg
    \<and> ct_do_not_contact c \<and> tagged_with (ct_id c) ''DO_NOT_CONTACT'' s'
    \<and> (\<exists>v\<in>set (conversations s'). cv_contact_id v = ct_id c \<and> cv_outreach_state v = Some OS_SUPPRESSED))"
proof -
  let ?p = "inbound_phone display msg"
  obtain ci conv ai act s1 where store: "store_inbound fetched ?p msg s = Inr ((ci, conv, ai, act), s1)"
    and s': "s' = after_inbound msg (ci, conv, ai, act) s1"
    using assms(1,2) by (auto simp: persist_inbound_def ebind_Inr_iff)
  have out: "some_text (extract_text_content msg)"
    using assms(3) by (auto simp: detect_opt_out_keywords_def some_text_def split: option.splits)
  define s2 where "s2 = publish ''message.received'' conv (suppress_contact ci conv s1)"
  have s'_eq: "s' = cancel_pending_outreach_on_reply conv s2"
    using out assms(3) unfolding s' after_inbound_def s2_def by (simp add: Let_def)
  have found: "has_contact ci ?p s1" "has_conv conv ci s1" using store_inbound_found [OF store] by auto
  note effect = suppress_effect [OF found]
  have convs: "conversations s' = conversations (suppress_contact ci conv s1)"
    unfolding s'_eq using effect(4) by (subst cancel_suppressed) (simp_all add: s2_def)
  have frame: "crm_contacts s' = crm_contacts (suppress_contact ci conv s1)" "tags s' = tags (suppress_contact ci conv s1)"
    "contact_tags s' = contact_tags (suppress_contact ci conv s1)" "task_queue s' = task_queue s1"
    by (simp_all add: s'_eq s2_def)
  obtain c where "c \<in> set (crm_contacts s')" "ct_id c = ci" "ct_phone c = ?p" "ct_do_not_contact c"
    using effect(1) frame(1) by auto
  moreover have "tagged_with ci ''DO_NOT_CONTACT'' s'" using effect(2) tagged_with_cong [OF frame(2,3)] by simp
  moreover obtain v where "v \<in> set (conversations s')" "cv_contact_id v = ci" "cv_outreach_state v = Some OS_SUPPRESSED"
    using effect(3,4) convs by auto
  ultimately show ?thesis using frame(4) store_inbound_frame [OF store] by auto
qed

lemma demo_stop: "detect_opt_out_keywords (Some ''Please STOP'')"
  by code_simp

lemma demo_stop_stored: "\<not> isl (persist_inbound (\<lambda>_. True) None (demo_inbound ''text'' ''Please STOP'') demo_chat)"
  by code_simp

theorem opt_out_suppresses_witness:
  "\<exists>c\<in>set (crm_contacts (projr (persist_inbound (\<lambda>_. True) None (demo_inbound ''text'' ''Please STOP'') demo_chat))).
     ct_phone c = ''971501234567'' \<and> ct_do_not_contact c"
proof -
  have hyps: "inbound_phone None (demo_inbound ''text'' ''Please STOP'') = ''971501234567''"
    "detect_opt_out_keywords (extract_text_content (demo_inbound ''text'' ''Please STOP''))"
    by (simp_all add: evals demo_stop)
  show ?thesis using opt_out_suppresses [OF not_isl_Inr [OF demo_stop_stored]] hyps by fastforce
qed

end
