(* ===== verification/SendingProps.thy ===== *)
theory SendingProps
  imports MessagingProps
begin

text \<open>
  The sending of messages: that a task always ends, how often Meta is tried, how often a failed delivery
  is, and what deleting and forwarding do.
\<close>

section \<open>A task and its retries\<close>

text \<open>
  A worker runs a task again while the queue admits it: \<open>rerun n limit\<close> tells whether a task run for the
  \<open>n\<close>-th time (from 0) that asks for a retry with the given limit is run once more. The result is how it
  ended, the number of the last run and the state.
\<close>

fun retry_limit :: "task_end \<Rightarrow> nat option" where
  "retry_limit (TaskRetry countdown limit) = Some limit"
| "retry_limit e = None"

partial_function (option) run_task ::
  "(nat \<Rightarrow> nat \<Rightarrow> bool) \<Rightarrow> (nat \<Rightarrow> 's \<Rightarrow> task_end \<times> 's) \<Rightarrow> nat \<Rightarrow> 's \<Rightarrow> (task_end \<times> nat \<times> 's) option" where
  "run_task rerun task n s =
     (case retry_limit (fst (task n s)) of
        None \<Rightarrow> Some (fst (task n s), n, snd (task n s))
      | Some limit \<Rightarrow>
          if rerun n limit then run_task rerun task (Suc n) (snd (task n s))
          else Some (TaskFailed, n, snd (task n s)))"

declare run_task.simps [code]

lemma retry_limit_None: "retry_limit e = None \<Longrightarrow> e = TaskDone \<or> e = TaskFailed"
  by (cases e) auto

lemma run_task_ends:
  assumes rerun: "\<And>r m. rerun r m \<Longrightarrow> r < m"
    and limit: "\<And>k s m. retry_limit (fst (task k s)) = Some m \<Longrightarrow> m \<le> B"
  shows "n \<le> B \<Longrightarrow> \<exists>e n' s'. run_task rerun task n s = Some (e, n', s') \<and> n' \<le> B \<and> (e = TaskDone \<or> e = TaskFailed)"
proof (induction "B - n" arbitrary: n s rule: less_induct)
  case less
  show ?case
  proof (cases "retry_limit (fst (task n s))")
    case None
    then show ?thesis using less.prems retry_limit_None by (subst run_task.simps) simp
  next
    case (Some m)
    show ?thesis
    proof (cases "rerun n m")
      case True
      then have n: "n < B" using rerun limit [OF Some] by fastforce
      have "\<exists>e n' s'. run_task rerun task (Suc n) (snd (task n s)) = Some (e, n', s') \<and> n' \<le> B \<and> (e = TaskDone \<or> e = TaskFailed)"
        by (rule less.hyps) (use n in simp_all)
      then show ?thesis using Some True by (subst run_task.simps) simp
    next
      case False
      then show ?thesis using Some less.prems by (subst run_task.simps) simp
    qed
  qed
qed

text \<open>The sending of message \<open>i\<close>: the surroundings at every run, and what the rest of the system does before it.\<close>

record 's surroundings =
  redis_up :: bool
  file_there :: "media_asset \<Rightarrow> bool"
  meta_answer :: "meta_call \<Rightarrow> string \<Rightarrow> meta_outcome"
  meanwhile :: "'s \<Rightarrow> 's"

definition send_attempt ::
  "uuid \<Rightarrow> (nat \<Rightarrow> ('a crm_scheme) surroundings) \<Rightarrow> nat \<Rightarrow> 'a crm_scheme \<Rightarrow> task_end \<times> 'a crm_scheme" where
  "send_attempt i around n s =
     send_outbound_message (redis_up (around n)) (file_there (around n)) (meta_answer (around n)) n i
       (meanwhile (around n) s)"

lemma handle_failure_limit: "retry_limit (fst (handle_send_failure i n r c t s)) = Some m \<Longrightarrow> m = 4"
  by (auto simp: handle_send_failure_def max_retries_def Let_def split: if_splits)

lemma record_sent_limit: "retry_limit (fst (record_sent m v c w s)) = None"
  by (simp add: record_sent_def Let_def)

lemma send_limit_up:
  assumes "retry_limit (fst (send_outbound_message True fr meta n i s)) = Some m"
  shows "m = 4"
proof (cases "get_message i s")
  case None
  then show ?thesis using assms by (simp add: send_outbound_message_def)
next
  case (Some msg)
  note msg = this
  show ?thesis
  proof (cases "ms_delivery_status msg = MSG_QUEUED")
    case True
    show ?thesis
    proof (cases "get_conv (ms_conversation_id msg) s")
      case (Some v)
      note v = this
      show ?thesis
      proof (cases "get_crm_contact (cv_contact_id v) s")
        case (Some c)
        then have "send_outbound_message True fr meta n i s = (case call_meta fr meta msg (ct_phone c) s of
            MetaSent w \<Rightarrow> record_sent msg v c w s
          | MetaError r code t \<Rightarrow> handle_send_failure i n r code t s | OtherError \<Rightarrow> (TaskFailed, s))"
          using msg True v by (simp add: send_outbound_message_def)
        then show ?thesis using assms record_sent_limit [of msg v c _ s] handle_failure_limit [of i n _ _ _ s]
          by (cases "call_meta fr meta msg (ct_phone c) s") simp_all
      qed (use assms msg True v in \<open>simp add: send_outbound_message_def\<close>)
    qed (use assms msg True in \<open>simp add: send_outbound_message_def\<close>)
  qed (use assms msg in \<open>simp add: send_outbound_message_def\<close>)
qed

lemma send_limit:
  assumes "retry_limit (fst (send_outbound_message up fr meta n i s)) = Some m"
  shows "m \<le> 30 \<and> (up \<longrightarrow> m \<le> 4)"
proof (cases up)
  case True
  then show ?thesis using assms send_limit_up by fastforce
next
  case False
  then show ?thesis using assms by (simp add: send_outbound_message_def redis_down_max_retries_def)
qed

lemma attempt_limit:
  "retry_limit (fst (send_attempt i around n s)) = Some m \<Longrightarrow> m \<le> 30 \<and> (redis_up (around n) \<longrightarrow> m \<le> 4)"
  unfolding send_attempt_def by (rule send_limit)

text \<open>C23: Sending a message always ends, whatever Redis, Meta and the rest of the system do between the runs, provided the
  queue runs a task again only while its retries are below the limit it was given (the documented behaviour of Celery):
  after at most 31 runs, and after at most 5 while Redis is up.\<close>

theorem sending_ends:
  assumes "\<And>r m. rerun r m \<Longrightarrow> r < m"
  shows "\<exists>e n s'. run_task rerun (send_attempt i around) 0 s = Some (e, n, s') \<and> n \<le> 30
    \<and> (e = TaskDone \<or> e = TaskFailed) \<and> ((\<forall>k. redis_up (around k)) \<longrightarrow> n \<le> 4)"
proof (cases "\<forall>k. redis_up (around k)")
  case True
  have "retry_limit (fst (send_attempt i around k s)) = Some m \<Longrightarrow> m \<le> 4" for k s m
    using True attempt_limit by blast
  then have "\<exists>e n s'. run_task rerun (send_attempt i around) 0 s = Some (e, n, s') \<and> n \<le> 4 \<and> (e = TaskDone \<or> e = TaskFailed)"
    by (intro run_task_ends [OF assms]) simp_all
  then show ?thesis by fastforce
next
  case False
  have "retry_limit (fst (send_attempt i around k s)) = Some m \<Longrightarrow> m \<le> 30" for k s m
    using attempt_limit by blast
  then have "\<exists>e n s'. run_task rerun (send_attempt i around) 0 s = Some (e, n, s') \<and> n \<le> 30 \<and> (e = TaskDone \<or> e = TaskFailed)"
    by (intro run_task_ends [OF assms]) simp_all
  then show ?thesis using False by blast
qed

definition surroundings_ok :: "(meta_call \<Rightarrow> string \<Rightarrow> meta_outcome) \<Rightarrow> ('a crm_scheme) surroundings" where
  "surroundings_ok answer = \<lparr>redis_up = True, file_there = (\<lambda>_. True), meta_answer = answer, meanwhile = id\<rparr>"

theorem sending_ends_witness:
  "\<exists>e n s'. run_task (<) (send_attempt 1 (\<lambda>_. surroundings_ok (\<lambda>_ _. MetaError True None []))) 0
      (undefined :: crm) = Some (e, n, s') \<and> n \<le> 4"
  using sending_ends [of "(<)" 1 "\<lambda>_. surroundings_ok (\<lambda>_ _. MetaError True None [])"]
  by (fastforce simp: surroundings_ok_def)

section \<open>How often Meta is tried\<close>

text \<open>A queued message with its conversation and contact.\<close>

definition sendable :: "message \<Rightarrow> 'a crm_scheme \<Rightarrow> bool" where
  "sendable m s = (get_message (ms_id m) s = Some m \<and> ms_delivery_status m = MSG_QUEUED
     \<and> (\<exists>v c. get_conv (ms_conversation_id m) s = Some v \<and> get_crm_contact (cv_contact_id v) s = Some c))"

definition refuses :: "int option \<Rightarrow> string \<Rightarrow> (meta_call \<Rightarrow> string \<Rightarrow> meta_outcome)" where
  "refuses code why = (\<lambda>_ _. MetaError True code why)"

lemma refused_attempt:
  assumes "sendable m s"
  shows "send_outbound_message True (\<lambda>_. True) (refuses code why) n (ms_id m) s = handle_send_failure (ms_id m) n True code why s"
  using assms by (auto simp: sendable_def send_outbound_message_def call_meta_def refuses_def split: option.splits)

lemma get_message_upd:
  "(\<And>m. ms_id (f m) = ms_id m) \<Longrightarrow> get_message j (upd_message i f s)
    = (if j = i then map_option f (get_message j s) else get_message j s)"
  by (simp add: get_message_def upd_message_def get_by_upd_by)

lemma sendable_increment: "sendable m s \<Longrightarrow> sendable (m\<lparr>ms_retry_count := ms_retry_count m + 1\<rparr>) (increment_retry (ms_id m) s)"
  unfolding sendable_def increment_retry_def by (auto simp: get_message_upd) (auto simp: upd_message_def get_conv_def get_crm_contact_def)

lemma failed_message:
  assumes "sendable m s"
  shows "\<exists>m'. get_message (ms_id m) (update_delivery_status (ms_id m) MSG_FAILED e c None (increment_retry (ms_id m) s)) = Some m'
    \<and> ms_delivery_status m' = MSG_FAILED \<and> ms_retry_count m' = ms_retry_count m + 1"
  using assms by (simp add: sendable_def update_delivery_status_def increment_retry_def get_message_upd)

text \<open>Run \<open>n\<close> to the last under a Meta that always refuses.\<close>

lemma refused_runs:
  assumes "sendable m s" "n \<le> 4" "\<And>r k. rerun r k \<longleftrightarrow> r < k"
  shows "\<exists>s' m'. run_task rerun (send_attempt (ms_id m) (\<lambda>_. surroundings_ok (refuses code why))) n s = Some (TaskDone, 4, s')
    \<and> get_message (ms_id m) s' = Some m' \<and> ms_delivery_status m' = MSG_FAILED
    \<and> ms_retry_count m' = ms_retry_count m + (5 - n)"
  using assms(1,2)
proof (induction "4 - n" arbitrary: n s m)
  case 0
  then have n: "n = 4" by simp
  obtain m' where "get_message (ms_id m) (update_delivery_status (ms_id m) MSG_FAILED (Some why) code None
      (increment_retry (ms_id m) s)) = Some m'" "ms_delivery_status m' = MSG_FAILED" "ms_retry_count m' = ms_retry_count m + 1"
    using failed_message [OF 0(2)] by blast
  then show ?case using 0
    by (subst run_task.simps) (simp add: send_attempt_def surroundings_ok_def refused_attempt handle_send_failure_def
        max_retries_def n)
next
  case (Suc k)
  let ?m = "m\<lparr>ms_retry_count := ms_retry_count m + 1\<rparr>" and ?s = "increment_retry (ms_id m) s"
  have n: "n < 4" using Suc.hyps(2) by simp
  have "handle_send_failure (ms_id m) n True code why s = (TaskRetry (if Suc n < 4 then retry_delays ! Suc n else 600) 4, ?s)"
    using n by (simp add: handle_send_failure_def max_retries_def retry_delays_def)
  then have step: "run_task rerun (send_attempt (ms_id m) (\<lambda>_. surroundings_ok (refuses code why))) n s
      = run_task rerun (send_attempt (ms_id m) (\<lambda>_. surroundings_ok (refuses code why))) (Suc n) ?s"
    using n Suc.prems(1) assms(3)
    by (subst run_task.simps) (simp add: send_attempt_def surroundings_ok_def refused_attempt)
  have "k = 4 - Suc n" "Suc n \<le> 4" using Suc.hyps(2) n by auto
  from Suc.hyps(1) [OF this(1) sendable_increment [OF Suc.prems(1)] this(2)]
  obtain s' m' where "run_task rerun (send_attempt (ms_id ?m) (\<lambda>_. surroundings_ok (refuses code why))) (Suc n) ?s
      = Some (TaskDone, 4, s')" "get_message (ms_id ?m) s' = Some m'" "ms_delivery_status m' = MSG_FAILED"
      "ms_retry_count m' = ms_retry_count ?m + (5 - Suc n)" by blast
  then show ?case using step n by (intro exI [of _ s'] exI [of _ m']) simp
qed

text \<open>The attempts are not the documented ones. A message that Meta refuses with retryable errors is tried five times,
  one more than MAX_SEND_ATTEMPTS, before it is FAILED; and the runs spent waiting for Redis count against the same limit, so
  after four of them the first refusal is final, although the comment promises a separate budget.\<close>

theorem send_budget:
  assumes "sendable m s" "\<And>r k. rerun r k \<longleftrightarrow> r < k"
  shows "(\<exists>s' m'. run_task rerun (send_attempt (ms_id m) (\<lambda>_. surroundings_ok (refuses code why))) 0 s = Some (TaskDone, 4, s')
      \<and> get_message (ms_id m) s' = Some m' \<and> ms_delivery_status m' = MSG_FAILED
      \<and> ms_retry_count m' = ms_retry_count m + (max_send_attempts + 1))
    \<and> (\<exists>s' m'. run_task rerun (send_attempt (ms_id m)
        (\<lambda>k. surroundings_ok (refuses code why)\<lparr>redis_up := 4 \<le> k\<rparr>)) 0 s = Some (TaskDone, 4, s')
      \<and> get_message (ms_id m) s' = Some m' \<and> ms_delivery_status m' = MSG_FAILED
      \<and> ms_retry_count m' = ms_retry_count m + 1)"
proof
  show "\<exists>s' m'. run_task rerun (send_attempt (ms_id m) (\<lambda>_. surroundings_ok (refuses code why))) 0 s = Some (TaskDone, 4, s')
      \<and> get_message (ms_id m) s' = Some m' \<and> ms_delivery_status m' = MSG_FAILED
      \<and> ms_retry_count m' = ms_retry_count m + (max_send_attempts + 1)"
    using refused_runs [OF assms(1) le0 assms(2), where code = code and why = why]
    by (simp add: max_send_attempts_def retry_delay_seconds_def numeral_eq_Suc)
next
  let ?around = "\<lambda>k. surroundings_ok (refuses code why)\<lparr>redis_up := 4 \<le> k\<rparr>"
  have down: "run_task rerun (send_attempt (ms_id m) ?around) k s = run_task rerun (send_attempt (ms_id m) ?around) (Suc k) s"
    if "k < 4" for k
    using that assms(2)
    by (subst run_task.simps) (simp add: send_attempt_def surroundings_ok_def send_outbound_message_def redis_down_max_retries_def)
  have "run_task rerun (send_attempt (ms_id m) ?around) 0 s = run_task rerun (send_attempt (ms_id m) ?around) 4 s"
    using down [of 0] down [of 1] down [of 2] down [of 3] by (simp add: numeral_eq_Suc)
  also have "\<dots> = Some (TaskDone, 4, update_delivery_status (ms_id m) MSG_FAILED (Some why) code None (increment_retry (ms_id m) s))"
    using assms(1) by (subst run_task.simps)
      (simp add: send_attempt_def surroundings_ok_def refused_attempt handle_send_failure_def max_retries_def)
  finally show "\<exists>s' m'. run_task rerun (send_attempt (ms_id m) ?around) 0 s = Some (TaskDone, 4, s')
      \<and> get_message (ms_id m) s' = Some m' \<and> ms_delivery_status m' = MSG_FAILED
      \<and> ms_retry_count m' = ms_retry_count m + 1"
    using failed_message [OF assms(1)] by fastforce
qed

lemma demo_sendable: "sendable demo_out demo_chat"
  by (simp add: sendable_def demo_chat_def demo_out_def get_message_def get_conv_def get_crm_contact_def new_message_def
      new_contact_def)

theorem send_budget_witness:
  "\<exists>s' m'. run_task (<) (send_attempt 30 (\<lambda>_. surroundings_ok (refuses None ''rate limit''))) 0 demo_chat = Some (TaskDone, 4, s')
     \<and> get_message 30 s' = Some m' \<and> ms_retry_count m' = 5"
proof -
  have "ms_id demo_out = 30" "ms_retry_count demo_out = 0" by (simp_all add: demo_out_def new_message_def)
  then show ?thesis using conjunct1 [OF send_budget [OF demo_sendable, of "(<)" None "''rate limit''"]]
    by (simp add: max_send_attempts_def retry_delay_seconds_def numeral_eq_Suc) blast
qed

section \<open>Failed deliveries\<close>

text \<open>The retries of a failed delivery that are waiting in the queue.\<close>

fun retry_of :: "uuid \<Rightarrow> celery_task \<Rightarrow> bool" where
  "retry_of i (ResetAndRetry j n countdown) = (j = i)"
| "retry_of i _ = False"

definition waiting :: "uuid \<Rightarrow> 'a crm_scheme \<Rightarrow> nat" where
  "waiting i s = length (filter (retry_of i) (task_queue s))"

text \<open>
  The steps that concern deliveries: a callback, a waiting retry that is taken from the queue and run, a
  run of the sending task, and anything else that keeps the messages and the waiting retries or only adds
  messages that were never retried.
\<close>

inductive delivery_step :: "'a crm_scheme \<Rightarrow> 'a crm_scheme \<Rightarrow> bool" where
  callback_step: "apply_status_update w t u s = Inr s' \<Longrightarrow> delivery_step s s'"
| retry_step: "task_queue s = before @ ResetAndRetry i n countdown # after
    \<Longrightarrow> delivery_step s (reset_and_retry_message i (s\<lparr>task_queue := before @ after\<rparr>))"
| send_step: "delivery_step s (snd (send_outbound_message up fr meta n i s))"
| other_step: "messages s' = messages s @ new \<Longrightarrow> \<forall>m\<in>set new. ms_delivery_retry_count m = 0
    \<Longrightarrow> distinct (map ms_id (messages s')) \<Longrightarrow> \<forall>i. waiting i s' = waiting i s
    \<Longrightarrow> \<forall>i. waiting i s \<noteq> 0 \<longrightarrow> i \<notin> ms_id ` set new \<Longrightarrow> delivery_step s s'"

definition settled :: "delivery_status \<Rightarrow> bool" where
  "settled st = (st \<in> {MSG_FAILED, MSG_DELIVERED, MSG_READ})"

definition retry_ok :: "'a crm_scheme \<Rightarrow> message \<Rightarrow> bool" where
  "retry_ok s m = (waiting (ms_id m) s \<le> 1 \<and> ms_delivery_retry_count m + waiting (ms_id m) s \<le> max_delivery_retries
     \<and> (waiting (ms_id m) s = 1 \<longrightarrow> settled (ms_delivery_status m)))"

definition retry_inv :: "'a crm_scheme \<Rightarrow> bool" where
  "retry_inv s = (distinct (map ms_id (messages s)) \<and> (\<forall>m\<in>set (messages s). retry_ok s m))"

lemma waiting_cong: "task_queue s' = task_queue s \<Longrightarrow> waiting i s' = waiting i s"
  by (simp add: waiting_def)

lemma waiting_enqueue: "waiting i (enqueue t s) = waiting i s + (if retry_of i t then 1 else 0)"
  by (simp add: waiting_def enqueue_def)

lemma messages_enqueue [simp]: "messages (enqueue t s) = messages s"
  by (simp add: enqueue_def)

text \<open>An update of one message keeps the invariant when it keeps the row of that message right.\<close>

lemma retry_inv_upd:
  assumes "retry_inv s" "messages s' = upd_by ms_id i f (messages s)" "\<And>m. ms_id (f m) = ms_id m"
    and other: "\<And>j. j \<noteq> i \<Longrightarrow> waiting j s' = waiting j s"
    and own: "\<And>m. m \<in> set (messages s) \<Longrightarrow> ms_id m = i \<Longrightarrow> retry_ok s m \<Longrightarrow> retry_ok s' (f m)"
  shows "retry_inv s'"
proof -
  have "distinct (map ms_id (messages s'))" using assms(1) by (simp add: assms(2,3) retry_inv_def map_upd_by)
  moreover have "retry_ok s' m" if m: "m \<in> set (messages s')" for m
  proof -
    obtain r where r: "r \<in> set (messages s)" "m = (if ms_id r = i then f r else r)"
      using m by (auto simp: assms(2) set_upd_by)
    have ok: "retry_ok s r" using assms(1) r(1) by (simp add: retry_inv_def)
    show ?thesis
    proof (cases "ms_id r = i")
      case True
      then show ?thesis using own [OF r(1) True ok] r(2) by simp
    next
      case False
      then show ?thesis using ok r(2) other [OF False] by (simp add: retry_ok_def)
    qed
  qed
  ultimately show ?thesis by (simp add: retry_inv_def)
qed

lemma retry_inv_same:
  "retry_inv s \<Longrightarrow> messages s' = messages s \<Longrightarrow> (\<And>j. waiting j s' \<le> waiting j s) \<Longrightarrow> retry_inv s'"
proof -
  assume inv: "retry_inv s" and msgs: "messages s' = messages s" and le: "\<And>j. waiting j s' \<le> waiting j s"
  have "retry_ok s' m" if "retry_ok s m" for m
    using that le [of "ms_id m"] unfolding retry_ok_def by (cases "waiting (ms_id m) s'") auto
  then show "retry_inv s'" using inv by (simp add: retry_inv_def msgs)
qed

lemma distinct_same: "distinct (map ms_id xs) \<Longrightarrow> x \<in> set xs \<Longrightarrow> y \<in> set xs \<Longrightarrow> ms_id x = ms_id y \<Longrightarrow> x = y"
  by (auto simp: distinct_map inj_on_def)

lemma callback_retry_inv:
  assumes "apply_status_update w t u s = Inr s'" "retry_inv s"
  shows "retry_inv s'"
proof (cases "status_map (lower t)")
  case None
  then show ?thesis using assms by (simp add: apply_status_update_def)
next
  case (Some st)
  note st = this
  show ?thesis
  proof (cases "get_by_meta_id w s")
    case None
    then show ?thesis using assms st by (simp add: apply_status_update_def)
  next
    case (Some m)
    have m: "m \<in> set (messages s)" using Some unfolding get_by_meta_id_def by (auto simp: find_Some_iff)
    show ?thesis
    proof (cases "delivery_rank st \<le> delivery_rank (ms_delivery_status m)")
      case True
      then show ?thesis using assms st Some by (simp add: apply_status_update_def)
    next
      case False
      let ?c = "if st = MSG_FAILED then st_error_code u else None" and ?e = "if st = MSG_FAILED then st_error_text u else None"
      let ?f = "\<lambda>r. r\<lparr>ms_delivery_status := st, ms_last_error := ?e, ms_error_code := ?c\<rparr>"
      obtain s1 where p: "propagate_to_campaign_recipient w st ?c ?e (update_delivery_status (ms_id m) st ?e ?c None s) = Inr s1"
        and s': "s' = (if st = MSG_FAILED \<and> \<not> is_permanent_failure (st_error_code u)
          then maybe_schedule_delivery_retry (ms_id m) (ms_delivery_retry_count m) (classify_delivery m st ?c s1)
          else classify_delivery m st ?c s1)"
        using callback_advances [OF assms(1) Some st False] by blast
      have frame: "messages s1 = upd_by ms_id (ms_id m) ?f (messages s)" "task_queue s1 = task_queue s"
        using propagate_frame [OF p] by (simp_all add: pipeline_frame_def update_delivery_status_def upd_message_def)
      have msgs: "messages s' = upd_by ms_id (ms_id m) ?f (messages s)" using frame(1) by (simp add: s')
      have queue: "waiting j s' = waiting j s \<or> (j = ms_id m \<and> st = MSG_FAILED
          \<and> ms_delivery_retry_count m < max_delivery_retries \<and> waiting j s' = waiting j s + 1)" for j
        using frame(2) by (auto simp: s' maybe_schedule_delivery_retry_def enqueue_def waiting_def)
      have st_known: "st \<noteq> MSG_FAILED \<Longrightarrow> waiting (ms_id m) s = 1 \<Longrightarrow> settled st"
        using False assms(2) m by (auto simp: retry_inv_def retry_ok_def settled_def; cases st; force)
      have failed: "st = MSG_FAILED \<Longrightarrow> waiting (ms_id m) s = 0"
        using False assms(2) m unfolding retry_inv_def retry_ok_def settled_def
        by (cases "waiting (ms_id m) s = 1") (auto simp: less_Suc_eq le_Suc_eq)
      show ?thesis
      proof (rule retry_inv_upd [OF assms(2) msgs])
        show "waiting j s' = waiting j s" if "j \<noteq> ms_id m" for j using queue [of j] that by auto
      next
        fix r assume r: "r \<in> set (messages s)" "ms_id r = ms_id m" "retry_ok s r"
        have "r = m" using distinct_same [OF _ r(1) m r(2)] assms(2) by (simp add: retry_inv_def)
        then show "retry_ok s' (?f r)"
          using r(3) queue [of "ms_id m"] failed st_known
          by (cases "st = MSG_FAILED") (auto simp: retry_ok_def settled_def max_delivery_retries_def)
      qed simp
    qed
  qed
qed

lemma reset_retry_inv:
  assumes "task_queue s = before @ ResetAndRetry i n countdown # after" "retry_inv s"
  shows "retry_inv (reset_and_retry_message i (s\<lparr>task_queue := before @ after\<rparr>))"
proof -
  let ?s = "s\<lparr>task_queue := before @ after\<rparr>"
  have w: "waiting j ?s + (if j = i then 1 else 0) = waiting j s" for j by (simp add: waiting_def assms(1))
  have "waiting j ?s \<le> waiting j s" for j using w [of j] by simp
  then have s1: "retry_inv ?s" by (intro retry_inv_same [OF assms(2)]) simp_all
  show ?thesis
  proof (cases "\<exists>m. get_bool_setting ''ops.delivery_failure_retry'' True ?s \<and> get_message i ?s = Some m
      \<and> ms_delivery_status m = MSG_FAILED")
    case False
    then have "reset_and_retry_message i ?s = ?s"
      by (auto simp: reset_and_retry_message_def split: option.splits)
    then show ?thesis using s1 by simp
  next
    case True
    let ?f = "\<lambda>m. m\<lparr>ms_delivery_retry_count := ms_delivery_retry_count m + 1, ms_delivery_status := MSG_QUEUED,
      ms_last_error := None, ms_error_code := None\<rparr>"
    let ?t = "reset_and_retry_message i ?s"
    have t: "?t = enqueue (SendOutbound i) (update_delivery_status i MSG_QUEUED None None None (increment_delivery_retry i ?s))"
      using True by (auto simp: reset_and_retry_message_def)
    have msgs: "messages ?t = upd_by ms_id i ?f (messages s)"
      unfolding t update_delivery_status_def increment_delivery_retry_def upd_message_def upd_by_def
      by (simp add: comp_def)
    have wt: "waiting j ?t = waiting j ?s" for j
      by (simp add: t waiting_enqueue) (simp add: waiting_def increment_delivery_retry_def upd_message_def)
    show ?thesis
    proof (rule retry_inv_upd [OF assms(2) msgs])
      show "waiting j ?t = waiting j s" if "j \<noteq> i" for j using w [of j] wt [of j] that by simp
    next
      fix m assume "ms_id m = i" "retry_ok s m"
      then show "retry_ok ?t (?f m)" using w [of i] wt [of i] by (auto simp: retry_ok_def)
    qed simp
  qed
qed

text \<open>A run of the sending task touches at most its own queued message.\<close>

definition touches_queued :: "uuid \<Rightarrow> 'a crm_scheme \<Rightarrow> 'a crm_scheme \<Rightarrow> bool" where
  "touches_queued i s s' = (task_queue s' = task_queue s \<and> (messages s' = messages s
     \<or> (\<exists>m f. get_message i s = Some m \<and> ms_delivery_status m = MSG_QUEUED \<and> messages s' = upd_by ms_id i f (messages s)
          \<and> (\<forall>r. ms_id (f r) = ms_id r \<and> ms_delivery_retry_count (f r) = ms_delivery_retry_count r))))"

lemma touches_queuedI:
  assumes "get_message i s = Some m" "ms_delivery_status m = MSG_QUEUED" "task_queue s' = task_queue s"
    and "messages s' = upd_by ms_id i f (messages s)"
    and "\<And>r. ms_id (f r) = ms_id r \<and> ms_delivery_retry_count (f r) = ms_delivery_retry_count r"
  shows "touches_queued i s s'"
  using assms unfolding touches_queued_def by blast

lemma backfill_frame [simp]:
  "messages (backfill_meta_id i w s) = messages s" "task_queue (backfill_meta_id i w s) = task_queue s"
  by (simp_all add: backfill_meta_id_def)

lemma contact_touch_frame [simp]:
  "messages (transition_status i st s) = messages s" "task_queue (transition_status i st s) = task_queue s"
  "messages (touch_last_contacted i s) = messages s" "task_queue (touch_last_contacted i s) = task_queue s"
  by (simp_all add: transition_status_def touch_last_contacted_def)

lemma record_sent_touches:
  assumes "get_message i s = Some m" "ms_delivery_status m = MSG_QUEUED"
  shows "touches_queued i s (snd (record_sent m v c w s))"
proof -
  let ?f = "\<lambda>r. r\<lparr>ms_delivery_status := MSG_SENT, ms_last_error := None, ms_error_code := None,
       ms_meta_message_id := (if w = None then ms_meta_message_id r else w)\<rparr>"
  have i: "ms_id m = i" using get_by_Some [OF assms(1) [unfolded get_message_def]] by simp
  have "snd (record_sent m v c w s) = s \<or> (task_queue (snd (record_sent m v c w s)) = task_queue s
      \<and> messages (snd (record_sent m v c w s)) = upd_by ms_id i ?f (messages s))"
    by (simp add: record_sent_def Let_def update_delivery_status_def upd_message_def i)
  then show ?thesis
  proof
    assume "snd (record_sent m v c w s) = s"
    then show ?thesis by (simp add: touches_queued_def)
  next
    assume "task_queue (snd (record_sent m v c w s)) = task_queue s
      \<and> messages (snd (record_sent m v c w s)) = upd_by ms_id i ?f (messages s)"
    then show ?thesis by (intro touches_queuedI [OF assms, where f = ?f]) simp_all
  qed
qed

lemma send_failure_touches:
  assumes "get_message i s = Some m" "ms_delivery_status m = MSG_QUEUED"
  shows "touches_queued i s (snd (handle_send_failure i n r c t s))"
proof -
  let ?inc = "\<lambda>m. if r then m\<lparr>ms_retry_count := ms_retry_count m + 1\<rparr> else m"
  let ?fail = "\<lambda>m. (?inc m)\<lparr>ms_delivery_status := MSG_FAILED, ms_last_error := Some t, ms_error_code := c,
     ms_meta_message_id := ms_meta_message_id (?inc m)\<rparr>"
  have "messages (snd (handle_send_failure i n r c t s)) = upd_by ms_id i ?fail (messages s)
    \<or> messages (snd (handle_send_failure i n r c t s)) = upd_by ms_id i ?inc (messages s)"
    unfolding handle_send_failure_def Let_def update_delivery_status_def increment_retry_def upd_message_def upd_by_def
    by (auto simp: comp_def)
  moreover have "task_queue (snd (handle_send_failure i n r c t s)) = task_queue s"
    by (simp add: handle_send_failure_def Let_def update_delivery_status_def increment_retry_def upd_message_def)
  ultimately show ?thesis
    using touches_queuedI [OF assms, where f = ?fail] touches_queuedI [OF assms, where f = ?inc] by auto
qed

lemma send_touches: "touches_queued i s (snd (send_outbound_message up fr meta n i s))"
proof (cases "up \<and> (\<exists>m v c. get_message i s = Some m \<and> ms_delivery_status m = MSG_QUEUED
    \<and> get_conv (ms_conversation_id m) s = Some v \<and> get_crm_contact (cv_contact_id v) s = Some c)")
  case True
  then obtain m v c where m: "up" "get_message i s = Some m" "ms_delivery_status m = MSG_QUEUED"
    "get_conv (ms_conversation_id m) s = Some v" "get_crm_contact (cv_contact_id v) s = Some c" by blast
  then have "send_outbound_message up fr meta n i s = (case call_meta fr meta m (ct_phone c) s of
      MetaSent w \<Rightarrow> record_sent m v c w s
    | MetaError r code t \<Rightarrow> handle_send_failure i n r code t s | OtherError \<Rightarrow> (TaskFailed, s))"
    by (simp add: send_outbound_message_def)
  then show ?thesis using record_sent_touches [OF m(2,3)] send_failure_touches [OF m(2,3)]
    by (cases "call_meta fr meta m (ct_phone c) s") (simp_all add: touches_queued_def)
next
  case False
  have "snd (send_outbound_message up fr meta n i s) = s"
  proof (cases "get_message i s")
    case (Some m)
    note m = this
    show ?thesis
    proof (cases "get_conv (ms_conversation_id m) s")
      case (Some v)
      then show ?thesis using False m by (cases "get_crm_contact (cv_contact_id v) s") (auto simp: send_outbound_message_def)
    qed (use m in \<open>simp add: send_outbound_message_def\<close>)
  qed (simp add: send_outbound_message_def)
  then show ?thesis by (simp add: touches_queued_def)
qed

lemma touches_retry_inv:
  assumes "touches_queued i s s'" "retry_inv s"
  shows "retry_inv s'"
proof (cases "messages s' = messages s")
  case True
  then show ?thesis using assms by (intro retry_inv_same [OF assms(2)]) (simp_all add: touches_queued_def waiting_def)
next
  case False
  then obtain m f where f: "get_message i s = Some m" "ms_delivery_status m = MSG_QUEUED"
    "messages s' = upd_by ms_id i f (messages s)"
    "\<forall>r. ms_id (f r) = ms_id r \<and> ms_delivery_retry_count (f r) = ms_delivery_retry_count r"
    using assms(1) unfolding touches_queued_def by blast
  have w: "waiting j s' = waiting j s" for j using assms(1) by (simp add: touches_queued_def waiting_def)
  have m: "m \<in> set (messages s)" "ms_id m = i" using get_by_Some [OF f(1) [unfolded get_message_def]] by auto
  have none: "waiting i s = 0"
    using assms(2) m f(2) unfolding retry_inv_def retry_ok_def settled_def
    by (cases "waiting i s = 1") (auto simp: le_Suc_eq)
  show ?thesis
    by (rule retry_inv_upd [OF assms(2) f(3)]) (use f(4) w none in \<open>auto simp: retry_ok_def\<close>)
qed

lemma delivery_step_inv: "delivery_step s s' \<Longrightarrow> retry_inv s \<Longrightarrow> retry_inv s'"
proof (induction rule: delivery_step.induct)
  case (callback_step w t u s s')
  then show ?case by (rule callback_retry_inv)
next
  case (retry_step s before i n countdown after)
  then show ?case by (rule reset_retry_inv)
next
  case (send_step s up fr meta n i)
  then show ?case by (rule touches_retry_inv [OF send_touches])
next
  case (other_step s' s new)
  have "retry_ok s' m" if m: "m \<in> set new" for m
  proof -
    have "waiting (ms_id m) s = 0" using other_step.hyps(5) m by blast
    then show ?thesis using m other_step.hyps(2,4) by (simp add: retry_ok_def)
  qed
  moreover have "retry_ok s' m" if "retry_ok s m" for m
    using that other_step.hyps(4) by (simp add: retry_ok_def)
  ultimately show ?case using other_step.prems other_step.hyps(1,3) by (auto simp: retry_inv_def)
qed

lemma delivery_steps_inv: "delivery_step\<^sup>*\<^sup>* s s' \<Longrightarrow> retry_inv s \<Longrightarrow> retry_inv s'"
  by (induction rule: rtranclp_induct) (auto intro: delivery_step_inv)

text \<open>C24: A failed delivery is retried at most three times. Over any sequence of callbacks, retries and runs of the sending
  task, the retries a message had and those waiting for it never exceed MAX_DELIVERY_RETRIES, at most one waits at a
  time, and one waits only for a message that is FAILED or has been delivered since.\<close>

theorem delivery_retries_bounded:
  assumes "delivery_step\<^sup>*\<^sup>* s s'" "retry_inv s" "get_message i s' = Some m"
  shows "ms_delivery_retry_count m + waiting i s' \<le> max_delivery_retries \<and> waiting i s' \<le> 1
    \<and> (waiting i s' = 1 \<longrightarrow> ms_delivery_status m \<in> {MSG_FAILED, MSG_DELIVERED, MSG_READ})"
proof -
  have "retry_ok s' m" using delivery_steps_inv [OF assms(1,2)] get_by_Some [OF assms(3) [unfolded get_message_def]]
    by (simp add: retry_inv_def)
  then show ?thesis using get_by_Some [OF assms(3) [unfolded get_message_def]] by (simp add: retry_ok_def settled_def)
qed

lemma demo_retry_inv: "retry_inv demo_chat"
  by (simp add: retry_inv_def retry_ok_def demo_chat_def demo_out_def new_message_def waiting_def max_delivery_retries_def
      delivery_failure_retry_delays_def)

lemma demo_failed: "\<not> isl (apply_status_update ''wamid.1'' ''failed'' demo_failure demo_chat)"
  by (simp add: evals demo_failure_def Let_def lower_def lower_char_def cong: ebind_weak_cong)

theorem delivery_retries_bounded_witness:
  "waiting 31 (projr (apply_status_update ''wamid.1'' ''failed'' demo_failure demo_chat)) \<le> 1"
proof -
  have "get_message 31 (projr (apply_status_update ''wamid.1'' ''failed'' demo_failure demo_chat)) \<noteq> None"
    by (simp add: evals demo_failure_def Let_def lower_def lower_char_def cong: ebind_weak_cong)
  then obtain m where "get_message 31 (projr (apply_status_update ''wamid.1'' ''failed'' demo_failure demo_chat)) = Some m" by blast
  then show ?thesis
    using delivery_retries_bounded [OF r_into_rtranclp [of delivery_step, OF callback_step [OF not_isl_Inr [OF demo_failed]]]
        demo_retry_inv] by blast
qed

section \<open>Deleting and forwarding\<close>

fun is_time :: "deleted_mark \<Rightarrow> bool" where
  "is_time (IsoTime t) = True"
| "is_time (UuidText u) = False"

definition mark_ok :: "message \<Rightarrow> bool" where
  "mark_ok m = (case ms_deleted_by m of None \<Rightarrow> True | Some d \<Rightarrow> \<forall>v\<in>snd ` set d. is_time v)"

definition marks_ok :: "'a crm_scheme \<Rightarrow> bool" where
  "marks_ok s = (\<forall>m\<in>set (messages s). mark_ok m)"

lemma mark_ok_visible:
  assumes "mark_ok m"
  shows "visible_to actor m"
proof (cases "ms_deleted_by m")
  case (Some d)
  have "map_of d ''agent_id'' \<noteq> Some (UuidText a)" for a
  proof
    assume "map_of d ''agent_id'' = Some (UuidText a)"
    then have "UuidText a \<in> snd ` set d" by (force dest: map_of_SomeD)
    then have "is_time (UuidText a)" using assms Some by (simp only: mark_ok_def option.case)
    then show False by simp
  qed
  then show ?thesis using Some by (simp add: visible_to_def split: option.split)
qed (simp add: visible_to_def split: option.split)

lemma marks_visible: "marks_ok s \<Longrightarrow> m \<in> set (messages s) \<Longrightarrow> visible_to actor m"
  by (simp add: marks_ok_def mark_ok_visible)

lemma list_messages_all:
  assumes "marks_ok s"
  shows "list_messages c l o' actor s = list_messages c l o' None s"
proof -
  have "filter (\<lambda>m. ms_conversation_id m = c \<and> visible_to actor m) (messages s)
      = filter (\<lambda>m. ms_conversation_id m = c \<and> visible_to None m) (messages s)"
    by (rule filter_cong [OF refl]) (simp add: marks_visible [OF assms])
  then show ?thesis by (simp add: list_messages_def)
qed

lemma mark_ok_deleted: "mark_ok m \<Longrightarrow> mark_ok (mark_deleted sc t m)"
  by (cases "ms_deleted_by m"; cases "the (ms_deleted_by m)") (simp_all add: mark_ok_def mark_deleted_def Let_def)

lemma mark_deleted_ok: "marks_ok s \<Longrightarrow> marks_ok (upd_message i (mark_deleted sc t) s)"
  by (auto simp: marks_ok_def upd_message_def set_upd_by mark_ok_deleted)

lemma bulk_delete_marks:
  assumes "marks_ok s"
  shows "marks_ok (snd (bulk_delete ids sc a s))"
proof -
  let ?f = "\<lambda>mid (count, failed, s). if get_message mid s = None then (count, failed @ [mid], s)
    else (count + 1, failed, upd_message mid (mark_deleted sc (clock s)) s)"
  have "marks_ok (snd (snd (fold ?f ids (n, fs, t))))" if "marks_ok t" for n :: nat and fs and t :: "'a crm_scheme"
    using that
  proof (induction ids arbitrary: n fs t)
    case (Cons i ids)
    then show ?case by (cases "get_message i t = None") (simp_all add: mark_deleted_ok)
  qed simp
  from this [OF assms, of 0 "[]"] show ?thesis
    by (simp add: bulk_delete_def msg_audit_def audit_append_def marks_ok_def split: prod.split)
qed

lemma insort_key_map: "insort_key f (g x) (map g xs) = map g (insort_key (\<lambda>y. f (g y)) x xs)"
  by (induction xs) simp_all

lemma sort_key_map: "sort_key f (map g xs) = map g (sort_key (\<lambda>y. f (g y)) xs)"
  by (induction xs) (simp_all add: insort_key_map)

definition keeps_place :: "(message \<Rightarrow> message) \<Rightarrow> bool" where
  "keeps_place g = (\<forall>m. ms_id (g m) = ms_id m \<and> ms_conversation_id (g m) = ms_conversation_id m
     \<and> ms_created_at (g m) = ms_created_at m)"

lemma mark_deleted_place: "keeps_place (\<lambda>r. if ms_id r = i then mark_deleted sc t r else r)"
  by (simp add: keeps_place_def mark_deleted_def Let_def split: option.split list.split)

lemma bulk_delete_messages: "\<exists>g. keeps_place g \<and> messages (snd (bulk_delete ids sc a s)) = map g (messages s)"
proof -
  let ?f = "\<lambda>mid (count, failed, s). if get_message mid s = None then (count, failed @ [mid], s)
    else (count + 1, failed, upd_message mid (mark_deleted sc (clock s)) s)"
  have "\<exists>g. keeps_place g \<and> messages (snd (snd (fold ?f ids (n, fs, t)))) = map g (messages t)"
    for n :: nat and fs and t :: "'a crm_scheme"
  proof (induction ids arbitrary: n fs t)
    case Nil
    show ?case by (rule exI [of _ "\<lambda>m. m"]) (simp add: keeps_place_def)
  next
    case (Cons i ids)
    show ?case
    proof (cases "get_message i t")
      case None
      then show ?thesis using Cons.IH [of n "fs @ [i]" t] by simp
    next
      case (Some found)
      let ?t = "upd_message i (mark_deleted sc (clock t)) t" and ?h = "\<lambda>r. if ms_id r = i then mark_deleted sc (clock t) r else r"
      obtain g where g: "keeps_place g" "messages (snd (snd (fold ?f ids (n + 1, fs, ?t)))) = map g (messages ?t)"
        using Cons.IH [of "n + 1" fs ?t] by blast
      have "keeps_place (\<lambda>r. g (?h r))"
        using g(1) mark_deleted_place [of i sc "clock t"] by (simp add: keeps_place_def)
      moreover have "messages ?t = map ?h (messages t)" by (simp add: upd_message_def upd_by_def)
      ultimately show ?thesis using g(2) Some by (intro exI [of _ "\<lambda>r. g (?h r)"]) (simp add: comp_def)
    qed
  qed
  from this [of 0 "[]" s] obtain g where "keeps_place g"
    "messages (snd (snd (fold ?f ids (0 :: nat, [], s)))) = map g (messages s)" by metis
  moreover have "messages (snd (bulk_delete ids sc a s)) = messages (snd (snd (fold ?f ids (0 :: nat, [], s))))"
    by (simp add: bulk_delete_def msg_audit_def audit_append_def split_beta Let_def)
  ultimately show ?thesis by auto
qed

lemma list_messages_place:
  assumes "keeps_place g" "messages s' = map g (messages s)"
  shows "map ms_id (fst (list_messages c l o' None s')) = map ms_id (fst (list_messages c l o' None s))
    \<and> snd (list_messages c l o' None s') = snd (list_messages c l o' None s)"
proof -
  have g: "ms_id (g m) = ms_id m" "ms_conversation_id (g m) = ms_conversation_id m" "ms_created_at (g m) = ms_created_at m" for m
    using assms(1) by (simp_all add: keeps_place_def)
  have "filter (\<lambda>m. ms_conversation_id m = c \<and> visible_to None m) (messages s')
      = map g (filter (\<lambda>m. ms_conversation_id m = c \<and> visible_to None m) (messages s))"
    by (simp add: assms(2) filter_map comp_def g visible_to_def)
  then show ?thesis
    by (simp add: list_messages_def sort_key_map g rev_map take_map drop_map comp_def Let_def)
qed

text \<open>Deleting a message "for me" hides it from nobody: the marks hold a time under the key that \<open>list_messages\<close>
  compares with the agent, so every list shows every agent the same messages before and after any deletion.\<close>

theorem delete_for_me_hides_nothing:
  assumes "marks_ok s"
  shows "map ms_id (fst (list_messages c l o' (Some reader) (snd (bulk_delete ids ''for_me'' actor s))))
      = map ms_id (fst (list_messages c l o' (Some reader) s))
    \<and> snd (list_messages c l o' (Some reader) (snd (bulk_delete ids ''for_me'' actor s))) = snd (list_messages c l o' None s)
    \<and> marks_ok (snd (bulk_delete ids ''for_me'' actor s))"
proof -
  obtain g where g: "keeps_place g" "messages (snd (bulk_delete ids ''for_me'' actor s)) = map g (messages s)"
    using bulk_delete_messages by blast
  have ok: "marks_ok (snd (bulk_delete ids ''for_me'' actor s))" by (rule bulk_delete_marks [OF assms])
  show ?thesis
    unfolding list_messages_all [OF ok, of c l o' "Some reader"] list_messages_all [OF assms, of c l o' "Some reader"]
    using list_messages_place [OF g] ok by blast
qed


theorem delete_for_me_hides_nothing_witness:
  "map ms_id (fst (list_messages 20 10 0 (Some 1) (snd (bulk_delete [30] ''for_me'' 1 demo_chat)))) = [31, 30]"
proof -
  have ok: "marks_ok demo_chat" by (simp add: marks_ok_def mark_ok_def demo_chat_def demo_out_def new_message_def)
  have "map ms_id (fst (list_messages 20 10 0 (Some 1) demo_chat)) = [31, 30]"
    by (simp add: list_messages_def demo_chat_def demo_out_def new_message_def visible_to_def)
  then show ?thesis using delete_for_me_hides_nothing [OF ok, of 20 10 0 1 "[30]" 1] by simp
qed

text \<open>Forwarding moves the file: after a message with a single file is forwarded, the copy has the file and the source has
  none, although the code means to copy the reference.\<close>

theorem forward_moves_file:
  assumes "forward_message i target actor s = Inr (j, s')" "get_message i s = Some m" "ms_msg_type m \<noteq> ''text''"
    and "assets_of i s = [a]" "j \<noteq> i"
  shows "assets_of i s' = [] \<and> a\<lparr>ma_message_id := Some j\<rparr> \<in> set (assets_of j s')"
proof -
  have i: "ms_id m = i" using get_by_Some [OF assms(2) [unfolded get_message_def]] by simp
  obtain s1 where c: "create_message ((new_message target OUTBOUND SENDER_AGENT (ms_content m) MSG_QUEUED (clock s))
      \<lparr>ms_msg_type := ms_msg_type m, ms_context_message_id := Some i\<rparr>) s = Inr (j, s1)"
    and s': "media_assets s' = media_assets (case first_asset i s1 of None \<Rightarrow> s1 | Some a \<Rightarrow> link_media (ma_id a) j s1)"
    using assms(1-3) i by (auto simp: forward_message_def ebind_Inr_iff msg_audit_def audit_append_def Let_def)
  have s1: "media_assets s1 = media_assets s" "j = next_id s" "i \<in> ms_id ` set (messages s)"
    using c get_by_Some [OF assms(2) [unfolded get_message_def]]
    by (auto simp: create_message_def fresh_id_def Let_def ok_simps)
  have "assets_of i s1 = [a]" using assms(4) by (simp add: assets_of_def s1(1))
  then have first: "first_asset i s1 = Some a" by (simp add: first_asset_def)
  have media: "media_assets s' = upd_by ma_id (ma_id a) (\<lambda>x. x\<lparr>ma_message_id := Some j\<rparr>) (media_assets s)"
    by (simp add: s' first link_media_def s1(1))
  have a: "a \<in> set (media_assets s)" "ma_message_id a = Some i" using assms(4) by (auto simp: assets_of_def filter_eq_Cons_iff)
  have only: "x = a" if "x \<in> set (media_assets s)" "ma_message_id x = Some i" for x
  proof -
    have "x \<in> set (assets_of i s)" using that by (simp add: assets_of_def)
    then show ?thesis using assms(4) by simp
  qed
  have "ma_message_id x \<noteq> Some i" if "x \<in> set (media_assets s')" for x
    using that only assms(5) by (auto simp: media set_upd_by)
  then show ?thesis using a by (auto simp: assets_of_def media filter_empty_conv set_upd_by)
qed

lemma demo_forwards: "\<not> isl (forward_message 32 20 1 demo_files)"
  by (simp add: evals demo_files_def Let_def cong: ebind_weak_cong)

theorem forward_moves_file_witness:
  "assets_of 32 (snd (projr (forward_message 32 20 1 demo_files))) = []"
proof -
  have run: "forward_message 32 20 1 demo_files
      = Inr (fst (projr (forward_message 32 20 1 demo_files)), snd (projr (forward_message 32 20 1 demo_files)))"
    using not_isl_Inr [OF demo_forwards] by simp
  have msg: "get_message 32 demo_files \<noteq> None" "\<forall>m. get_message 32 demo_files = Some m \<longrightarrow> ms_msg_type m = ''image''"
    "assets_of 32 demo_files = [\<lparr>ma_id = 40, ma_message_id = Some 32, ma_media_type = ''image''\<rparr>]"
    by (simp_all add: evals demo_files_def)
  have id: "fst (projr (forward_message 32 20 1 demo_files)) \<noteq> 32"
    by (simp add: evals demo_files_def Let_def cong: ebind_weak_cong)
  from msg obtain m where m: "get_message 32 demo_files = Some m" "ms_msg_type m \<noteq> ''text''" by auto
  show ?thesis using forward_moves_file [OF run m msg(3) id] by blast
qed

end
