(* ===== verification/ConversationProps.thy ===== *)
theory ConversationProps
  imports Conversations
begin

text \<open>
  Conversations as a transition system: \<open>conv_step\<close> is every operation on them, the passing of time,
  and new messages. The invariant \<open>conv_inv\<close> and the relation \<open>conv_moves\<close> hold along every run.
\<close>

section \<open>Steps\<close>

inductive conv_step :: "'a crm_scheme \<Rightarrow> 'a crm_scheme \<Rightarrow> bool" where
  first_contact: "handle_inbound_message k s = Inr (i, s') \<Longrightarrow> conv_step s s'"
| read: "conv_step s (mark_read i s)"
| pause: "pause_ai i a r s = Inr s' \<Longrightarrow> conv_step s s'"
| resume: "resume_ai i a s = Inr s' \<Longrightarrow> conv_step s s'"
| assign: "conv_assign ttl i b a r s = Inr s' \<Longrightarrow> conv_step s s'"
| approval: "request_approval i s = Inr s' \<Longrightarrow> conv_step s s'"
| approve: "approve i a r s = Inr (m, s') \<Longrightarrow> conv_step s s'"
| reject: "reject i a r s = Inr s' \<Longrightarrow> conv_step s s'"
| close: "conv_close i a r s = Inr s' \<Longrightarrow> conv_step s s'"
| force: "force_transition i st a s = Inr s' \<Longrightarrow> conv_step s s'"
| bulk: "conv_bulk_update ids p a r s = Inr (x, s') \<Longrightarrow> conv_step s s'"
| lock: "acquire_lock i b a' s = Inr s' \<Longrightarrow> conv_step s s'"
| renew: "renew_lock i b s = Inr s' \<Longrightarrow> conv_step s s'"
| unlock: "release_lock i b a' adm s = Inr s' \<Longrightarrow> conv_step s s'"
| auto: "auto_assign ttl i a' s = Inr (u, s') \<Longrightarrow> conv_step s s'"
| reap: "expire_stale_locks s = (x, s') \<Longrightarrow> conv_step s s'"
| inbound: "inbound_conversation ct s = Inr (i, s') \<Longrightarrow> conv_step s s'"
| inbound_state: "inbound_transition i s = Inr (b, s') \<Longrightarrow> conv_step s s'"
| human: "assign_human i s = Inr s' \<Longrightarrow> conv_step s s'"
| ai: "ai_transition_from c st s = Inr s' \<Longrightarrow> conv_step s s'"
| touched: "conv_step s (touch_last_message i t s)"
| message: "conv_step s (s\<lparr>messages := ms\<rparr>)"
| time: "clock s \<le> t \<Longrightarrow> conv_step s (s\<lparr>clock := t\<rparr>)"
| choice: "conv_step s (s\<lparr>row_choice := f\<rparr>)"

inductive_cases conv_stepE: "conv_step s s'"

section \<open>The repository\<close>

lemma conv_keyed: "keyed_table get_conv (\<lambda>c s. s\<lparr>conversations := conversations s @ [c]\<rparr>)
    (\<lambda>i f s. s\<lparr>conversations := upd_by cv_id i f (conversations s)\<rparr>) cv_id"
  by unfold_locales
    (auto simp: get_conv_def get_by_append get_by_upd_by split: option.splits dest: get_by_Some)

interpretation conv: keyed_table get_conv "\<lambda>c s. s\<lparr>conversations := conversations s @ [c]\<rparr>"
  "\<lambda>i f s. s\<lparr>conversations := upd_by cv_id i f (conversations s)\<rparr>" cv_id
  by (rule conv_keyed)

lemma get_conv_id: "get_conv i s = Some c \<Longrightarrow> cv_id c = i"
  by (rule conv.lookup_key)

lemma get_upd_conv:
  assumes "\<And>c. cv_id (f c) = cv_id c"
  shows "get_conv j (upd_conv i f s) =
    (if j = i then map_option (\<lambda>c. (f c)\<lparr>cv_updated_at := clock s\<rparr>) (get_conv j s) else get_conv j s)"
  unfolding upd_conv_def by (subst conv.lookup_update) (simp_all add: assms)

lemma get_conv_frame [simp]:
  "get_conv i (publish e j s) = get_conv i s" "get_conv i (conv_audit t a n k s) = get_conv i s"
  "get_conv i (upd_message m g s) = get_conv i s"
  "get_conv i (attach_tag x y z s) = get_conv i s" "get_conv i (detach_tag x y s) = get_conv i s"
  by (simp_all add: get_conv_def publish_def conv_audit_def audit_append_def upd_message_def
      attach_tag_def detach_tag_def)

section \<open>The life of a conversation, abstractly\<close>

text \<open>
  The specification forgets locks, messages, tags, users and time: a map from the conversations to
  their contact and state, where a conversation is opened in NEW under an unused key or moves along
  one arc of the table.
\<close>

type_synonym life = "uuid \<Rightarrow> (uuid \<times> conv_state) option"

inductive life_step :: "life \<Rightarrow> life \<Rightarrow> bool" where
  opened: "m i = None \<Longrightarrow> life_step m (m(i \<mapsto> (k, CS_NEW)))"
| moved: "m i = Some (k, a) \<Longrightarrow> can_transition a b \<Longrightarrow> life_step m (m(i \<mapsto> (k, b)))"

inductive_cases life_stepE: "life_step m m'"

definition life_view :: "'a crm_scheme \<Rightarrow> life" where
  "life_view s = (\<lambda>i. map_option (\<lambda>c. (cv_contact_id c, cv_state c)) (get_conv i s))"

definition arcs :: "(conv_state \<times> conv_state) set" where
  "arcs = {(a, b). can_transition a b}"

lemma life_moves:
  "(a, b) \<in> arcs\<^sup>* \<Longrightarrow> m i = Some (k, a) \<Longrightarrow> life_step\<^sup>*\<^sup>* m (m(i \<mapsto> (k, b)))"
proof (induction rule: rtrancl_induct)
  case base
  then show ?case by (simp add: fun_upd_idem)
next
  case (step y z)
  then have "life_step (m(i \<mapsto> (k, y))) ((m(i \<mapsto> (k, y)))(i \<mapsto> (k, z)))"
    by (intro life_step.moved) (auto simp: arcs_def)
  with step.IH [OF step.prems] show ?case unfolding fun_upd_upd by (meson rtranclp.rtrancl_into_rtrancl)
qed

text \<open>On the abstract machine: the contact never changes and the state follows the arcs.\<close>

lemma life_steps_follow:
  "life_step\<^sup>*\<^sup>* m m' \<Longrightarrow> m i = Some (k, a) \<Longrightarrow> \<exists>b. m' i = Some (k, b) \<and> (a, b) \<in> arcs\<^sup>*"
proof (induction rule: rtranclp_induct)
  case (step y z)
  then obtain b where b: "y i = Some (k, b)" "(a, b) \<in> arcs\<^sup>*" by auto
  from step.hyps(2) show ?case
    by (cases rule: life_step.cases)
      (use b in \<open>auto simp: arcs_def intro: rtrancl_into_rtrancl\<close>)
qed simp

lemma closed_is_final: "(CS_CLOSED, b) \<in> arcs\<^sup>* \<Longrightarrow> b = CS_CLOSED"
  by (induction rule: rtrancl_induct) (auto simp: arcs_def can_transition_def)

lemma not_back_to_new: "(a, b) \<in> arcs\<^sup>* \<Longrightarrow> b = CS_NEW \<Longrightarrow> a = CS_NEW"
proof (induction rule: rtrancl_induct)
  case (step y z)
  then have "CS_NEW \<in> set (allowed_transitions y)" by (simp add: arcs_def can_transition_def)
  then show ?case by (cases y) simp_all
qed simp

lemma clock_frame [simp]:
  "clock (publish e j s) = clock s" "clock (conv_audit t a n k s) = clock s" "clock (upd_conv i f s) = clock s"
  by (simp_all add: publish_def conv_audit_def audit_append_def upd_conv_def)

section \<open>What every operation keeps\<close>

definition conv_inv :: "'a crm_scheme \<Rightarrow> bool" where
  "conv_inv s = (distinct (map cv_id (conversations s)) \<and> (\<forall>c\<in>set (conversations s). cv_id c < next_id s
     \<and> (cv_locked_by c = None) = (cv_lock_expires_at c = None)))"

definition conv_good :: "'a crm_scheme \<Rightarrow> 'b crm_scheme \<Rightarrow> bool" where
  "conv_good s s' = (next_id s \<le> next_id s' \<and>
     (conv_inv s \<longrightarrow> conv_inv s' \<and> life_step\<^sup>*\<^sup>* (life_view s) (life_view s')))"

lemma conv_good_refl [simp]: "conv_good s s"
  by (simp add: conv_good_def)

lemma conv_good_trans: "conv_good s t \<Longrightarrow> conv_good t u \<Longrightarrow> conv_good s u"
  unfolding conv_good_def by (meson le_trans rtranclp_trans)

lemma conv_good_same:
  assumes "conversations s' = conversations s" "next_id s' = next_id s"
  shows "conv_good s s'"
proof -
  have "life_view s' = life_view s" by (simp add: life_view_def get_conv_def assms)
  then show ?thesis using assms by (simp add: conv_good_def conv_inv_def)
qed

lemma conv_good_frame [simp]:
  "conv_good s (publish e j s)" "conv_good s (conv_audit t a n k s)" "conv_good s (upd_message m g s)"
  "conv_good s (attach_tag x y z s)" "conv_good s (detach_tag x y s)" "conv_good s (enqueue tk s)"
  by (rule conv_good_same; simp add: publish_def conv_audit_def audit_append_def upd_message_def
      attach_tag_def detach_tag_def enqueue_def)+

lemma conv_good_upd:
  assumes f: "\<And>c. cv_id (f c) = cv_id c \<and> cv_contact_id (f c) = cv_contact_id c"
    and st: "\<And>c. get_conv i s = Some c \<Longrightarrow> (cv_state c, cv_state (f c)) \<in> arcs\<^sup>*"
    and lk: "\<And>c. (cv_locked_by c = None) = (cv_lock_expires_at c = None)
       \<Longrightarrow> (cv_locked_by (f c) = None) = (cv_lock_expires_at (f c) = None)"
  shows "conv_good s (upd_conv i f s)"
proof -
  have "life_step\<^sup>*\<^sup>* (life_view s) (life_view (upd_conv i f s))"
  proof (cases "get_conv i s")
    case None
    then have "life_view (upd_conv i f s) = life_view s"
      using f by (auto simp: life_view_def get_upd_conv)
    then show ?thesis by simp
  next
    case (Some c)
    then have "life_view (upd_conv i f s) = (life_view s)(i \<mapsto> (cv_contact_id c, cv_state (f c)))"
      using f by (auto simp: life_view_def get_upd_conv fun_eq_iff)
    moreover have "life_view s i = Some (cv_contact_id c, cv_state c)" by (simp add: life_view_def Some)
    ultimately show ?thesis using life_moves [OF st [OF Some]] by simp
  qed
  moreover have "conv_inv s \<longrightarrow> conv_inv (upd_conv i f s)"
    using f lk by (auto simp: conv_inv_def upd_conv_def map_upd_by set_upd_by)
  ultimately show ?thesis by (simp add: conv_good_def upd_conv_def)
qed

lemma conv_good_added:
  assumes c: "cv_id c = next_id s" "cv_state c = CS_NEW" "cv_locked_by c = None" "cv_lock_expires_at c = None"
  shows "conv_good s (s\<lparr>next_id := Suc (next_id s), conversations := conversations s @ [c]\<rparr>)" (is "conv_good s ?t")
proof -
  have "life_step (life_view s) (life_view ?t)" if "conv_inv s"
  proof -
    from that have "get_conv (next_id s) s = None"
      by (auto simp: conv_inv_def get_conv_def get_by_None_iff)
    moreover from this have "life_view ?t = (life_view s)(next_id s \<mapsto> (cv_contact_id c, CS_NEW))"
      by (auto simp: life_view_def get_conv_def get_by_append c fun_eq_iff split: option.splits)
    ultimately show ?thesis using life_step.opened [of "life_view s" "next_id s" "cv_contact_id c"]
      by (simp add: life_view_def)
  qed
  moreover have "conv_inv s \<longrightarrow> conv_inv ?t" using c by (fastforce simp: conv_inv_def)
  ultimately show ?thesis by (auto simp: conv_good_def)
qed

lemma update_state_good:
  assumes "update_state i a b s = (n, s')" "(a, b) \<in> arcs\<^sup>*"
  shows "conv_good s s'"
  using assms by (auto simp: update_state_def split: option.splits if_splits intro!: conv_good_upd)

lemma conv_transition_Inr:
  assumes "conv_transition i a b t x s = Inr s'"
  obtains c e m where "get_conv i s = Some c" "cv_state c = a"
    "s' = publish e i (conv_audit t x m (Some i) (upd_conv i (\<lambda>c. c\<lparr>cv_state := b\<rparr>) s))"
  using assms
  by (auto simp: conv_transition_def update_state_def ok_simps Let_def split: option.splits if_splits)

lemma conv_transition_good:
  assumes "conv_transition i a b t x s = Inr s'" "(a, b) \<in> arcs\<^sup>*"
  shows "conv_good s s'"
proof -
  from assms(1) obtain c e m where c: "get_conv i s = Some c" "cv_state c = a"
    and s': "s' = publish e i (conv_audit t x m (Some i) (upd_conv i (\<lambda>c. c\<lparr>cv_state := b\<rparr>) s))"
    by (rule conv_transition_Inr)
  have "conv_good s (upd_conv i (\<lambda>c. c\<lparr>cv_state := b\<rparr>) s)"
    using c assms(2) by (intro conv_good_upd) auto
  then show ?thesis unfolding s' by (meson conv_good_trans conv_good_frame(1,2))
qed

lemma release_good: "conv_good s (snd (conv_release_lock i a s))"
  by (auto simp: conv_release_lock_def split: option.splits intro!: conv_good_upd)

lemma acquire_good: "conv_acquire_lock i a t s = Inr (b, s') \<Longrightarrow> conv_good s s'"
  by (auto simp: conv_acquire_lock_def ok_simps split: option.splits if_splits intro!: conv_good_upd)

lemma touch_good: "conv_good s (touch_last_read i t s)" "conv_good s (touch_last_message i t s)"
  by (auto simp: touch_last_read_def touch_last_message_def intro!: conv_good_upd)

lemma create_good: "conv_create_for_contact k s = Inr (i, s') \<Longrightarrow> conv_good s s'"
  using conv_good_added [of _ s]
  by (auto simp: conv_create_for_contact_def ok_simps fresh_id_def Let_def)

lemma arcI: "can_transition a b \<Longrightarrow> (a, b) \<in> arcs\<^sup>*"
  by (auto simp: arcs_def)

lemma asserted_arc: "assert_transition a b = Inr u \<Longrightarrow> (a, b) \<in> arcs\<^sup>*"
  by (auto simp: assert_transition_def ok_simps intro: arcI)

lemma close_arc: "(a, CS_CLOSED) \<in> arcs\<^sup>*"
  by (cases a) (auto intro: arcI simp: can_transition_def)

lemma fixed_arcs:
  "(CS_NEW, CS_AI_ACTIVE) \<in> arcs\<^sup>*" "(CS_NEW, CS_HUMAN_ASSIGNED) \<in> arcs\<^sup>*"
  "(CS_AI_ACTIVE, CS_AI_PAUSED) \<in> arcs\<^sup>*" "(CS_AI_PAUSED, CS_AI_ACTIVE) \<in> arcs\<^sup>*"
  "(CS_AI_ACTIVE, CS_AWAITING_APPROVAL) \<in> arcs\<^sup>*" "(CS_AWAITING_APPROVAL, CS_AI_ACTIVE) \<in> arcs\<^sup>*"
  "(CS_AWAITING_APPROVAL, CS_HUMAN_ASSIGNED) \<in> arcs\<^sup>*"
  by (auto intro!: arcI simp: can_transition_def)

lemmas moving = conv_transition_good fixed_arcs asserted_arc close_arc

section \<open>Every operation\<close>

lemma handle_inbound_good: "handle_inbound_message k s = Inr (i, s') \<Longrightarrow> conv_good s s'"
  by (auto simp: handle_inbound_message_def ok_simps
      intro: conv_good_trans [OF create_good conv_good_trans [OF conv_transition_good [OF _ fixed_arcs(1)]]])

lemma pause_good: "pause_ai i a r s = Inr s' \<Longrightarrow> conv_good s s'"
  by (auto simp: pause_ai_def ok_simps intro: moving)

lemma resume_good: "resume_ai i a s = Inr s' \<Longrightarrow> conv_good s s'"
  by (auto simp: resume_ai_def ok_simps split: if_splits
      intro: conv_good_trans [OF conv_transition_good [OF _ fixed_arcs(4)]] release_good)

lemma assign_good: "conv_assign ttl i b a r s = Inr s' \<Longrightarrow> conv_good s s'"
  by (auto simp: conv_assign_def ok_simps
      intro: conv_good_trans [OF acquire_good conv_transition_good [OF _ asserted_arc]])

lemma request_approval_good: "request_approval i s = Inr s' \<Longrightarrow> conv_good s s'"
  by (auto simp: request_approval_def ok_simps intro: moving)

lemma delivery_good [simp]: "conv_good s (update_delivery_status m st e k w s)"
  by (simp add: update_delivery_status_def)

lemma approve_good: "approve i a r s = Inr (m, s') \<Longrightarrow> conv_good s s'"
  by (auto simp: approve_def ok_simps split: option.splits
      intro: moving conv_good_trans [OF conv_transition_good [OF _ fixed_arcs(6)] delivery_good])

lemma reject_good: "reject i a r s = Inr s' \<Longrightarrow> conv_good s s'"
  by (auto simp: reject_def ok_simps intro: moving)

lemma close_good: "conv_close i a r s = Inr s' \<Longrightarrow> conv_good s s'"
  by (auto simp: conv_close_def ok_simps split: if_splits
      intro: moving conv_good_trans [OF release_good conv_transition_good [OF _ close_arc]])

lemma enable_good [simp]: "conv_good s (upd_conv i (\<lambda>c. c\<lparr>cv_ai_enabled := b\<rparr>) s)"
  by (rule conv_good_upd) auto

lemma force_good:
  assumes "force_transition i st a s = Inr s'"
  shows "conv_good s s'"
proof -
  from assms obtain c :: conversation and u s2 where c: "assert_transition (cv_state c) st = Inr u"
    and s2: "conv_transition i (cv_state c) st ''admin'' (Some a)
       (if cv_state c = CS_HUMAN_ASSIGNED \<and> st \<in> set lock_releasing_states
        then snd (conv_release_lock i None s) else s) = Inr s2" (is "conv_transition _ _ _ _ _ ?s1 = _")
    and s': "(if cv_state c = CS_HUMAN_ASSIGNED \<and> st = CS_AI_ACTIVE
       then enqueue (UpdateMemoryOnResume i) (upd_conv i (\<lambda>c. c\<lparr>cv_ai_enabled := True\<rparr>) s2) else s2) = s'"
    unfolding force_transition_def Let_def ok_simps from_opt_Inr_iff sum.inject
    by blast
  have "conv_good s ?s1" by (simp add: release_good)
  moreover have "conv_good ?s1 s2" by (rule conv_transition_good [OF s2 asserted_arc [OF c]])
  moreover have "conv_good s2 s'"
    using s' conv_good_trans [OF enable_good conv_good_frame(6)] by (auto split: if_splits)
  ultimately show ?thesis by (blast intro: conv_good_trans)
qed

lemma bulk_set_state_good: "bulk_set_state st c a r s = Inr s' \<Longrightarrow> conv_good s s'"
  by (auto simp: bulk_set_state_def ok_simps split: sum.splits prod.splits if_splits
      intro: conv_good_trans [OF update_state_good [OF _ asserted_arc] release_good]
        update_state_good [OF _ asserted_arc])

lemma fold_good:
  assumes "\<And>x s. conv_good s (f x s)"
  shows "conv_good s (fold f xs s)"
  by (induction xs arbitrary: s) (auto intro: conv_good_trans [OF assms])

lemma tags_good:
  "conv_good s (fold (\<lambda>t. detach_tag x t) ts (fold (\<lambda>t. attach_tag x t y) us s))"
  by (rule conv_good_trans [OF fold_good fold_good]) simp_all

lemma bulk_one_good:
  assumes "bulk_one p a r cid (fs, n, s) = (fs', n', s')"
  shows "conv_good s s'"
proof -
  consider "s' = s"
    | c s1 ts us where "s1 = s \<or> (\<exists>st. bulk_set_state st c a r s = Inr s1)"
      "s' = fold (\<lambda>t. detach_tag (cv_contact_id c) t) ts
         (fold (\<lambda>t. attach_tag (cv_contact_id c) t (Some a)) us s1)"
    using assms by (auto simp: bulk_one_def Let_def split: option.splits sum.splits) (metis fold_simps(1))+
  then show ?thesis
  proof cases
    case (2 c s1 ts us)
    then have "conv_good s s1" using bulk_set_state_good by auto
    then show ?thesis unfolding 2(2) by (rule conv_good_trans) (rule tags_good)
  qed simp
qed

lemma bulk_fold_good:
  "fold (bulk_one p a r) ids (fs, n, s) = (fs', n', s') \<Longrightarrow> conv_good s s'"
proof (induction ids arbitrary: fs n s)
  case (Cons cid ids)
  obtain fs1 n1 s1 where one: "bulk_one p a r cid (fs, n, s) = (fs1, n1, s1)"
    by (cases "bulk_one p a r cid (fs, n, s)") auto
  with Cons.prems have "fold (bulk_one p a r) ids (fs1, n1, s1) = (fs', n', s')" by simp
  from Cons.IH [OF this] bulk_one_good [OF one] show ?case by (rule conv_good_trans [rotated])
qed simp

lemma bulk_good: "conv_bulk_update ids p a r s = Inr (x, s') \<Longrightarrow> conv_good s s'"
  by (auto simp: conv_bulk_update_def ok_simps Let_def split: prod.splits
      intro: conv_good_trans [OF bulk_fold_good conv_good_frame(2)])

lemma lock_good: "acquire_lock i b a s = Inr s' \<Longrightarrow> conv_good s s'"
  by (auto simp: acquire_lock_def ok_simps intro: conv_good_trans [OF acquire_good conv_good_frame(2)])

lemma renew_good: "renew_lock i b s = Inr s' \<Longrightarrow> conv_good s s'"
  by (auto simp: renew_lock_def ok_simps intro: acquire_good)

lemma unlock_good:
  assumes "release_lock i b a adm s = Inr s'"
  shows "conv_good s s'"
proof -
  from assms consider "s' = s" | h where "s' = snd (conv_release_lock i (Some h) s)"
    | h t x m where "s' = conv_audit t x m (Some i) (snd (conv_release_lock i (Some h) s))"
    by (auto simp: release_lock_def ok_simps Let_def case_prod_unfold split: option.splits if_splits)
  then show ?thesis
    by cases (auto intro: release_good conv_good_trans [OF release_good conv_good_frame(2)])
qed

lemma auto_good: "auto_assign ttl i a s = Inr (u, s') \<Longrightarrow> conv_good s s'"
  by (auto simp: auto_assign_def ok_simps intro: assign_good)

lemma expire_lock_good: "expire_lock c (n, s) = (n', s') \<Longrightarrow> conv_good s s'"
  using release_good [of s "cv_id c" "cv_locked_by c"]
  by (auto simp: expire_lock_def Let_def split: prod.splits if_splits
      intro: conv_good_trans [OF conv_good_trans [OF _ conv_good_frame(2)] conv_good_frame(1)])

lemma reap_fold_good: "fold expire_lock rows (n, s) = (n', s') \<Longrightarrow> conv_good s s'"
proof (induction rows arbitrary: n s)
  case (Cons c rows)
  obtain n1 s1 where one: "expire_lock c (n, s) = (n1, s1)" by (cases "expire_lock c (n, s)") auto
  with Cons.prems have "fold expire_lock rows (n1, s1) = (n', s')" by simp
  from Cons.IH [OF this] expire_lock_good [OF one] show ?case by (rule conv_good_trans [rotated])
qed simp

lemma reap_good: "expire_stale_locks s = (x, s') \<Longrightarrow> conv_good s s'"
  by (auto simp: expire_stale_locks_def Let_def split: prod.splits intro: reap_fold_good)

lemma inbound_good: "inbound_conversation ct s = Inr (i, s') \<Longrightarrow> conv_good s s'"
  by (auto simp: inbound_conversation_def ok_simps split: option.splits if_splits
      intro: create_good conv_good_trans [OF create_good enable_good])

lemma inbound_state_good: "inbound_transition i s = Inr (b, s') \<Longrightarrow> conv_good s s'"
  by (auto simp: inbound_transition_def ok_simps Let_def split: if_splits prod.splits
      intro: update_state_good fixed_arcs)

lemma human_good: "assign_human i s = Inr s' \<Longrightarrow> conv_good s s'"
  by (auto simp: assign_human_def ok_simps Let_def split: option.splits if_splits prod.splits
      dest!: not_isl_Inr
      intro: conv_good_trans [OF conv_good_trans [OF update_state_good [OF _ asserted_arc] enable_good]
          conv_good_frame(1)])

lemma ai_good: "ai_transition_from c st s = Inr s' \<Longrightarrow> conv_good s s'"
  by (auto simp: ai_transition_from_def ok_simps Let_def split: if_splits prod.splits
      intro: conv_good_trans [OF update_state_good [OF _ asserted_arc] conv_good_frame(1)])

lemma conv_step_good: "conv_step s s' \<Longrightarrow> conv_good s s'"
  by (erule conv_stepE)
    (auto simp: mark_read_def touch_good conv_good_same handle_inbound_good pause_good resume_good
      assign_good request_approval_good approve_good reject_good close_good force_good bulk_good lock_good
      renew_good unlock_good auto_good reap_good inbound_good inbound_state_good human_good ai_good)

lemma conv_steps_good: "conv_step\<^sup>*\<^sup>* s s' \<Longrightarrow> conv_good s s'"
  by (induction rule: rtranclp_induct) (auto intro: conv_good_trans conv_step_good)

section \<open>Refinement and life cycle\<close>

text \<open>A small database: two agents, an admin, one contact with an open conversation held by agent 1.\<close>

definition demo_crm :: crm where
  "demo_crm = \<lparr>next_id = 100, today = 0, contacts = [], sequences = (\<lambda>_. None), audit_log = [],
     clock = 1000000000, users = [\<lparr>us_id = 1, us_role = ''agent'', us_is_active = True\<rparr>,
       \<lparr>us_id = 2, us_role = ''agent'', us_is_active = True\<rparr>, \<lparr>us_id = 3, us_role = ''admin'', us_is_active = True\<rparr>],
     crm_contacts = [\<lparr>ct_id = 10, ct_phone = ''971501234567'', ct_name = None, ct_company = None, ct_information = None,
       ct_status = CT_ACTIVE, ct_assigned_agent_id = None, ct_ai_assigned = True, ct_do_not_contact = False,
       ct_marketing_opt_out = False, ct_last_interaction_at = None, ct_last_contacted_at = None,
       ct_last_inbound_at = None\<rparr>],
     conversations = [\<lparr>cv_id = 20, cv_contact_id = 10, cv_state = CS_AI_PAUSED, cv_outreach_state = None,
       cv_ai_enabled = True, cv_locked_by = Some 1, cv_lock_expires_at = Some 1060000000,
       cv_last_message_at = None, cv_last_read_at = None, cv_created_at = 0, cv_updated_at = 0\<rparr>],
     messages = [], media_assets = [], tags = [], contact_tags = [], templates = [], campaigns = [],
     campaign_recipients = [], bool_settings = (\<lambda>_. None), redis_keys = [], redis_counters = (\<lambda>_. 0), published = [], task_queue = [],
     row_choice = (\<lambda>_. 0)\<rparr>"

declare demo_crm_def [evals]

lemma demo_crm_inv: "conv_inv demo_crm"
  by (simp add: conv_inv_def demo_crm_def)

lemma demo_resumes: "\<not> isl (resume_ai 20 2 demo_crm)"
  by (simp add: evals Let_def cong: ebind_weak_cong)

lemma demo_resumed: "conv_step\<^sup>*\<^sup>* demo_crm (projr (resume_ai 20 2 demo_crm))"
  using conv_step.resume [OF not_isl_Inr [OF demo_resumes]] by (rule r_into_rtranclp)



text \<open>C15: Over every run a conversation is never deleted, keeps its contact, reaches only states the
  table connects to its present one, stays closed once closed, and is never NEW again.\<close>

theorem conv_life_cycle:
  assumes "conv_step\<^sup>*\<^sup>* s s'" "conv_inv s" "get_conv i s = Some c"
  shows "\<exists>c'. get_conv i s' = Some c' \<and> cv_contact_id c' = cv_contact_id c \<and> (cv_state c, cv_state c') \<in> arcs\<^sup>*
     \<and> (cv_state c = CS_CLOSED \<longrightarrow> cv_state c' = CS_CLOSED) \<and> (cv_state c' = CS_NEW \<longrightarrow> cv_state c = CS_NEW)"
proof -
  have "life_step\<^sup>*\<^sup>* (life_view s) (life_view s')"
    using conv_steps_good [OF assms(1)] assms(2) by (simp add: conv_good_def)
  moreover have "life_view s i = Some (cv_contact_id c, cv_state c)" by (simp add: life_view_def assms(3))
  ultimately obtain b where b: "life_view s' i = Some (cv_contact_id c, b)" "(cv_state c, b) \<in> arcs\<^sup>*"
    using life_steps_follow by blast
  then obtain c' where "get_conv i s' = Some c'" "cv_contact_id c' = cv_contact_id c" "cv_state c' = b"
    by (auto simp: life_view_def)
  then show ?thesis using b(2) closed_is_final not_back_to_new by metis
qed

theorem conv_life_cycle_witness:
  "\<exists>c'. get_conv 20 (projr (resume_ai 20 2 demo_crm)) = Some c' \<and> cv_state c' \<noteq> CS_NEW"
proof -
  have "get_conv 20 demo_crm = Some (the (get_conv 20 demo_crm))" "cv_state (the (get_conv 20 demo_crm)) = CS_AI_PAUSED"
    by (simp_all add: get_conv_def demo_crm_def)
  from conv_life_cycle [OF demo_resumed demo_crm_inv this(1)] this(2) show ?thesis by auto
qed

section \<open>The transition table\<close>

text \<open>The guard of the state machine passes exactly on the arcs that have an event name, so every
  guarded transition is logged under a name of the table; a closed conversation is a conflict,
  whatever the target; and CLOSED is the only state without a way out.\<close>

theorem transition_table:
  "(assert_transition a b = Inr ()) = (transition_events (a, b) \<noteq> None)
   \<and> (assert_transition a b = Inl ConflictError) = (a = CS_CLOSED)
   \<and> (assert_transition a b = Inl (ValidationError ''invalid_transition'')) = (\<not> (a = CS_CLOSED \<or> can_transition a b))
   \<and> (allowed_transitions a = []) = (a \<in> set terminal_states)"
proof (intro conjI)
  show "(assert_transition a b = Inr ()) = (transition_events (a, b) \<noteq> None)"
    by (cases a; cases b)
      (simp_all add: assert_transition_def terminal_states_def can_transition_def transition_events_def)
  show "(assert_transition a b = Inl ConflictError) = (a = CS_CLOSED)"
    by (cases a; cases b) (simp_all add: assert_transition_def terminal_states_def can_transition_def)
  show "(assert_transition a b = Inl (ValidationError ''invalid_transition'')) = (\<not> (a = CS_CLOSED \<or> can_transition a b))"
    by (cases a; cases b) (simp_all add: assert_transition_def terminal_states_def can_transition_def)
  show "(allowed_transitions a = []) = (a \<in> set terminal_states)"
    by (cases a) (simp_all add: terminal_states_def)
qed

section \<open>Locks\<close>

lemma lock_blocks:
  assumes "lock_active c s" "cv_locked_by c = Some h" "a \<noteq> h" "r \<noteq> Some ''admin''"
  shows "assert_actor_holds_lock c a r s = Inl PermissionDenied"
  using assms by (simp add: assert_actor_holds_lock_def)

lemma lock_unavailable:
  assumes "get_conv i s = Some c" "lock_active c s" "cv_locked_by c = Some h" "a \<noteq> h"
  shows "conv_acquire_lock i a t s = Inr (False, s)"
  using assms by (auto simp: conv_acquire_lock_def lock_active_def split: option.splits)

text \<open>C16: While an agent holds an active lock, nobody else but an admin can pause, close or reassign the
  conversation or set its state in a bulk update, and nobody else at all can take the lock, renew it
  or release it without the admin override.\<close>

theorem lock_excludes:
  assumes "get_conv i s = Some c" "lock_active c s" "cv_locked_by c = Some h" "a \<noteq> h" "r \<noteq> Some ''admin''"
  shows "pause_ai i a r s = Inl PermissionDenied \<and> conv_close i a r s = Inl PermissionDenied
    \<and> conv_assign ttl i b a r s = Inl (if isl (assert_transition (cv_state c) CS_HUMAN_ASSIGNED)
           then projl (assert_transition (cv_state c) CS_HUMAN_ASSIGNED) else PermissionDenied)
    \<and> bulk_set_state st c a r s = Inl (BULK_EXC (if isl (assert_transition (cv_state c) st)
           then projl (assert_transition (cv_state c) st) else PermissionDenied))
    \<and> acquire_lock i a x s = Inl ConversationLockError \<and> renew_lock i a s = Inl ConversationLockError
    \<and> release_lock i a x False s = Inl ConversationLockError"
  using assms lock_blocks [OF assms(2-5)] lock_unavailable [OF assms(1-4)]
  by (auto simp: pause_ai_def conv_close_def conv_assign_def bulk_set_state_def acquire_lock_def renew_lock_def
      release_lock_def ebind_def split: sum.splits)

theorem lock_excludes_witness:
  "conv_close 20 2 (Some ''agent'') demo_crm = Inl PermissionDenied"
  using lock_excludes [of 20 demo_crm "the (get_conv 20 demo_crm)" 1 2 "Some ''agent''"]
  by (simp add: get_conv_def lock_active_def demo_crm_def)

text \<open>Reassigning a locked conversation to another agent does not hand over the lock: \<open>assign\<close> drops
  the result of \<open>acquire_lock\<close>, so when the holder or an admin assigns the conversation to somebody
  else it becomes HUMAN_ASSIGNED while the previous agent keeps the lock, and the new one is refused
  by every operation that checks it.\<close>

theorem assign_keeps_old_lock:
  assumes "get_conv i s = Some c" "lock_active c s" "cv_locked_by c = Some h" "b \<noteq> h"
    and "a = h \<or> r = Some ''admin''" "assert_transition (cv_state c) CS_HUMAN_ASSIGNED = Inr ()"
    and "b \<in> us_id ` set (users s)"
  shows "\<exists>s' c'. conv_assign ttl i b a r s = Inr s' \<and> get_conv i s' = Some c' \<and> cv_state c' = CS_HUMAN_ASSIGNED
    \<and> cv_locked_by c' = Some h \<and> cv_lock_expires_at c' = cv_lock_expires_at c
    \<and> conv_close i b (Some ''agent'') s' = Inl PermissionDenied"
proof -
  have holds: "assert_actor_holds_lock c a r s = Inr ()"
    using assms(2,3,5) by (auto simp: assert_actor_holds_lock_def)
  obtain u where u: "get_by us_id b (users s) = Some u"
    using assms(7) by (metis get_by_None_iff not_None_eq)
  let ?c' = "c\<lparr>cv_state := CS_HUMAN_ASSIGNED, cv_updated_at := clock s\<rparr>"
  obtain e x m where tr: "conv_transition i (cv_state c) CS_HUMAN_ASSIGNED ''agent'' (Some a) s =
      Inr (publish e i (conv_audit x (Some a) m (Some i) (upd_conv i (\<lambda>c. c\<lparr>cv_state := CS_HUMAN_ASSIGNED\<rparr>) s)))"
    using assms(1) by (auto simp: conv_transition_def update_state_def Let_def)
  define s' where "s' = publish e i (conv_audit x (Some a) m (Some i)
    (upd_conv i (\<lambda>c. c\<lparr>cv_state := CS_HUMAN_ASSIGNED\<rparr>) s))"
  have run: "conv_assign ttl i b a r s = Inr s'"
    using assms(1,6) holds u tr lock_unavailable [OF assms(1-4)] by (simp add: conv_assign_def s'_def)
  have c': "get_conv i s' = Some ?c'" by (simp add: s'_def get_upd_conv assms(1))
  have "clock s' = clock s" by (simp add: s'_def)
  then have "lock_active ?c' s'" using assms(2) by (simp add: lock_active_def split: option.splits)
  then have "conv_close i b (Some ''agent'') s' = Inl PermissionDenied"
    using c' lock_blocks [of ?c' s' h b "Some ''agent''"] assms(3,4) by (simp add: conv_close_def)
  then show ?thesis using run c' assms(3) by auto
qed

theorem assign_keeps_old_lock_witness:
  "\<exists>s' c'. conv_assign 120 20 2 1 (Some ''agent'') demo_crm = Inr s' \<and> get_conv 20 s' = Some c'
     \<and> cv_locked_by c' = Some 1"
  using assign_keeps_old_lock [of 20 demo_crm "the (get_conv 20 demo_crm)" 1 2 1 "Some ''agent''" 120]
  by (fastforce simp: get_conv_def lock_active_def demo_crm_def assert_transition_def terminal_states_def
      can_transition_def)

section \<open>The lock reaper and the round robin\<close>

definition lock_expired :: "conversation \<Rightarrow> 'a crm_scheme \<Rightarrow> bool" where
  "lock_expired c s = (cv_locked_by c \<noteq> None
     \<and> (case cv_lock_expires_at c of None \<Rightarrow> False | Some t \<Rightarrow> t < clock s))"

definition unlocked :: "int \<Rightarrow> conversation \<Rightarrow> conversation" where
  "unlocked t c = c\<lparr>cv_locked_by := None, cv_lock_expires_at := None, cv_updated_at := t\<rparr>"

lemma expire_lock_one:
  assumes "get_conv (cv_id c) s = Some c"
  shows "\<exists>s'. expire_lock c (n, s) = (Suc n, s') \<and> clock s' = clock s \<and>
    get_conv j s' = (if j = cv_id c then Some (unlocked (clock s) c) else get_conv j s)"
  using assms
  by (auto simp: expire_lock_def conv_release_lock_def get_upd_conv unlocked_def)

lemma expire_fold:
  assumes "distinct (map cv_id rows)" "\<forall>c\<in>set rows. get_conv (cv_id c) s = Some c"
  shows "\<exists>s'. fold expire_lock rows (n, s) = (n + length rows, s') \<and> clock s' = clock s \<and>
    (\<forall>j. get_conv j s' = (if j \<in> cv_id ` set rows then map_option (unlocked (clock s)) (get_conv j s)
       else get_conv j s))"
  using assms
proof (induction rows arbitrary: n s)
  case (Cons c rows)
  from Cons.prems have c: "get_conv (cv_id c) s = Some c" by simp
  obtain s1 where s1: "expire_lock c (n, s) = (Suc n, s1)" using expire_lock_one [OF c] by blast
  then have g: "get_conv j s1 = (if j = cv_id c then Some (unlocked (clock s) c) else get_conv j s)"
    and t: "clock s1 = clock s" for j using expire_lock_one [OF c, of n j] by auto
  have old: "\<forall>d\<in>set rows. get_conv (cv_id d) s1 = Some d"
  proof
    fix d assume d: "d \<in> set rows"
    then have "cv_id d \<noteq> cv_id c" using Cons.prems(1) by (auto simp: image_iff)
    then show "get_conv (cv_id d) s1 = Some d" using g [of "cv_id d"] Cons.prems(2) d by simp
  qed
  have "distinct (map cv_id rows)" using Cons.prems(1) by simp
  from Cons.IH [OF this old, of "Suc n"] obtain s'
    where s': "fold expire_lock rows (Suc n, s1) = (Suc n + length rows, s')" "clock s' = clock s1"
    "\<forall>j. get_conv j s' = (if j \<in> cv_id ` set rows then map_option (unlocked (clock s1)) (get_conv j s1)
       else get_conv j s1)"
    by blast
  have "get_conv j s' = (if j \<in> cv_id ` set (c # rows) then map_option (unlocked (clock s)) (get_conv j s)
      else get_conv j s)" for j
    using s'(3) [rule_format, of j] g [of j] t c Cons.prems(1) by (cases "j = cv_id c") auto
  then show ?case using s1 s'(1,2) t by auto
qed simp

text \<open>A run of the lock reaper releases exactly the first 200 expired locks in order of their expiry
  and reports how many it saw and released; every other conversation, and the state of every
  conversation, stays as it is.\<close>

theorem reaper_releases_expired:
  assumes "conv_inv s" "expire_stale_locks s = ((checked, released), s')"
  shows "checked = min 200 (length (filter (\<lambda>c. lock_expired c s) (conversations s))) \<and> released = checked
    \<and> get_conv i s' = (if i \<in> cv_id ` set (take 200 (expired_locks s))
           then map_option (unlocked (clock s)) (get_conv i s) else get_conv i s)
    \<and> set (expired_locks s) = {c \<in> set (conversations s). lock_expired c s}"
proof -
  let ?rows = "take 200 (expired_locks s)"
  have members: "set (expired_locks s) = {c \<in> set (conversations s). lock_expired c s}"
    by (auto simp: expired_locks_def lock_expired_def)
  have dist: "distinct (map cv_id (expired_locks s))"
  proof -
    have "inj_on cv_id (set (conversations s))" "distinct (conversations s)"
      using assms(1) by (auto simp: conv_inv_def distinct_map)
    then have "distinct (expired_locks s)" "inj_on cv_id (set (expired_locks s))"
      unfolding members by (auto simp: expired_locks_def inj_on_def)
    then show ?thesis by (simp add: distinct_map)
  qed
  have "distinct (map cv_id ?rows)" using dist by (simp add: take_map [symmetric])
  moreover have "\<forall>c\<in>set ?rows. get_conv (cv_id c) s = Some c"
    using members assms(1) by (auto dest!: in_set_takeD simp: conv_inv_def get_conv_def intro: get_by_mem)
  ultimately obtain t where t: "fold expire_lock ?rows (0, s) = (length ?rows, t)"
    "\<forall>j. get_conv j t = (if j \<in> cv_id ` set ?rows then map_option (unlocked (clock s)) (get_conv j s)
       else get_conv j s)"
    using expire_fold [of ?rows s 0] by auto
  then have r: "checked = length ?rows" "released = length ?rows" "s' = t"
    using assms(2) by (auto simp: expire_stale_locks_def Let_def)
  have "checked = min 200 (length (filter (\<lambda>c. lock_expired c s) (conversations s)))"
    using r by (simp add: expired_locks_def lock_expired_def min.commute)
  moreover have "get_conv i s' = (if i \<in> cv_id ` set ?rows then map_option (unlocked (clock s)) (get_conv i s)
       else get_conv i s)" using t(2) r(3) by blast
  ultimately show ?thesis using members r by simp
qed

lemma demo_crm_expiry: "expire_stale_locks (demo_crm\<lparr>clock := 1060000001\<rparr>)
    = ((1, 1), snd (expire_stale_locks (demo_crm\<lparr>clock := 1060000001\<rparr>)))"
  by (simp add: evals Let_def)

theorem reaper_releases_expired_witness:
  "(1::nat) = 1 \<and> set (expired_locks (demo_crm\<lparr>clock := 1060000001\<rparr>)) =
     {c \<in> set (conversations demo_crm). lock_expired c (demo_crm\<lparr>clock := 1060000001\<rparr>)}"
proof -
  have "conv_inv (demo_crm\<lparr>clock := 1060000001\<rparr>)" using demo_crm_inv by (simp add: conv_inv_def)
  from reaper_releases_expired [OF this demo_crm_expiry] show ?thesis by simp
qed

lemma hd_sort_key: "sort_key f xs = u # us \<Longrightarrow> u \<in> set xs \<and> (\<forall>v\<in>set xs. f u \<le> f v)"
proof -
  assume eq: "sort_key f xs = u # us"
  have "set xs = insert u (set us)" using eq by (metis list.simps(15) set_sort)
  moreover have "sorted (map f (u # us))" using eq by (metis sorted_sort_key)
  ultimately show ?thesis by auto
qed

text \<open>The order of the round robin: never locked first, then the oldest, ties by the key.\<close>

definition before_in_turn :: "'a crm_scheme \<Rightarrow> user \<Rightarrow> user \<Rightarrow> bool" where
  "before_in_turn s u v =
     (case (last_locked_at s u, last_locked_at s v) of
        (None, None) \<Rightarrow> us_id u \<le> us_id v
      | (None, Some _) \<Rightarrow> True
      | (Some _, None) \<Rightarrow> False
      | (Some a, Some b) \<Rightarrow> a < b \<or> a = b \<and> us_id u \<le> us_id v)"

lemma sort_key_tie:
  assumes "sort_key f xs = u # us" "sorted (map g xs)" "v \<in> set xs" "f v = f u"
  shows "g u \<le> (g v :: 'k :: linorder)"
proof -
  have "filter (\<lambda>x. f x = f u) (sort_key f xs) = filter (\<lambda>x. f x = f u) xs"
    by (simp add: sort_key_stable)
  then have "filter (\<lambda>x. f x = f u) xs = u # filter (\<lambda>x. f x = f u) us" using assms(1) by simp
  moreover have "sorted (map g (filter (\<lambda>x. f x = f u) xs))" by (rule sorted_filter [OF assms(2)])
  moreover have "v \<in> set (filter (\<lambda>x. f x = f u) xs)" using assms(3,4) by simp
  ultimately show ?thesis by auto
qed

text \<open>C17: The round robin picks an eligible user (active, agent or admin) who comes before every other
  eligible user in turn: those without a lock first, then the one whose latest lock is oldest, ties by
  key; and it finds nobody only when nobody is eligible.\<close>

theorem round_robin_in_turn:
  "(next_round_robin_agent s = None) = (\<not> (\<exists>u\<in>set (users s). eligible_agent u))
   \<and> (next_round_robin_agent s = Some u \<longrightarrow> u \<in> set (users s) \<and> eligible_agent u
     \<and> (\<forall>v\<in>set (users s). eligible_agent v \<longrightarrow> before_in_turn s u v))"
proof (intro conjI [of "_ = _"] impI)
  let ?agents = "list_active_agents s"
  let ?never = "filter (\<lambda>u. last_locked_at s u = None) ?agents"
  let ?locked = "filter (\<lambda>u. last_locked_at s u \<noteq> None) ?agents"
  let ?f = "\<lambda>u. the (last_locked_at s u)"
  have set_agents: "set ?agents = {u \<in> set (users s). eligible_agent u}"
    by (auto simp: list_active_agents_def)
  have by_key: "sorted (map us_id ?agents)" by (simp add: list_active_agents_def)
  have pick: "next_round_robin_agent s = (case ?never @ sort_key ?f ?locked of [] \<Rightarrow> None | u # _ \<Rightarrow> Some u)"
    by (simp add: next_round_robin_agent_def Let_def)
  have "set (?never @ sort_key ?f ?locked) = set ?agents" by auto
  moreover have "(next_round_robin_agent s = None) = (?never @ sort_key ?f ?locked = [])"
    unfolding pick by (cases "?never @ sort_key ?f ?locked") simp_all
  ultimately show "(next_round_robin_agent s = None) = (\<not> (\<exists>u\<in>set (users s). eligible_agent u))"
    using set_agents by (metis (no_types, lifting) empty_Collect_eq set_empty)
  assume u: "next_round_robin_agent s = Some u"
  have "u \<in> set ?agents \<and> (\<forall>v\<in>set ?agents. before_in_turn s u v)"
  proof (cases ?never)
    case (Cons w ws)
    then have w: "w = u" using u pick by simp
    have "sorted (map us_id ?never)" by (rule sorted_filter [OF by_key])
    then have "\<forall>v\<in>set ?never. us_id u \<le> us_id v" using Cons w by auto
    moreover have "u \<in> set ?never" using Cons w by simp
    ultimately show ?thesis by (auto simp: before_in_turn_def split: option.splits)
  next
    case Nil
    then obtain us where us: "sort_key ?f ?locked = u # us"
      using u pick by (cases "sort_key ?f ?locked") auto
    have locked: "\<forall>v\<in>set ?agents. last_locked_at s v \<noteq> None" using Nil by (simp add: filter_empty_conv)
    then have all: "?locked = ?agents" by simp
    have least: "u \<in> set ?agents" "\<forall>v\<in>set ?agents. ?f u \<le> ?f v" using hd_sort_key [OF us] unfolding all by blast+
    have "before_in_turn s u v" if v: "v \<in> set ?agents" for v
    proof -
      obtain a b where "last_locked_at s u = Some a" "last_locked_at s v = Some b"
        using locked least(1) v by blast
      moreover have "?f v = ?f u \<Longrightarrow> us_id u \<le> us_id v"
        using sort_key_tie [OF us, of us_id v] by_key v unfolding all by blast
      ultimately show ?thesis using least(2) v by (fastforce simp: before_in_turn_def)
    qed
    then show ?thesis using least(1) by blast
  qed
  then show "u \<in> set (users s) \<and> eligible_agent u
     \<and> (\<forall>v\<in>set (users s). eligible_agent v \<longrightarrow> before_in_turn s u v)" using set_agents by blast
qed

lemma demo_turn: "next_round_robin_agent demo_crm = Some \<lparr>us_id = 2, us_role = ''agent'', us_is_active = True\<rparr>"
  by (simp add: evals Let_def)

theorem round_robin_in_turn_witness:
  "before_in_turn demo_crm \<lparr>us_id = 2, us_role = ''agent'', us_is_active = True\<rparr>
     \<lparr>us_id = 1, us_role = ''agent'', us_is_active = True\<rparr>"
  using round_robin_in_turn [of demo_crm "\<lparr>us_id = 2, us_role = ''agent'', us_is_active = True\<rparr>"] demo_turn
  by (simp add: demo_crm_def eligible_agent_def)

section \<open>Operations that skip a guard\<close>

lemma conv_transition_runs:
  assumes "get_conv i s = Some c" "cv_state c = a"
  shows "conv_transition i a b t x s =
    Inr (publish (case transition_events (a, b) of Some e \<Rightarrow> e | None \<Rightarrow> ''conversation.transitioned'') i
      (conv_audit t x (case transition_events (a, b) of Some e \<Rightarrow> e
          | None \<Rightarrow> ''conversation.'' @ conv_state_value a @ ''_to_'' @ conv_state_value b) (Some i)
        (upd_conv i (\<lambda>c. c\<lparr>cv_state := b\<rparr>) s)))"
  using assms by (auto simp: conv_transition_def update_state_def Let_def)

text \<open>Two operations skip a guard the others have. Resuming the AI checks no lock: any agent resumes
  a paused conversation and takes away the lock another agent actively holds. Closing checks no
  transition: an unlocked closed conversation is closed again and logged as a move outside the
  transition table.\<close>

theorem resume_and_close_unguarded:
  assumes "get_conv i s = Some c"
  shows "(cv_state c = CS_AI_PAUSED \<longrightarrow> (\<exists>s' c'. resume_ai i a s = Inr s' \<and> get_conv i s' = Some c' \<and> cv_state c' = CS_AI_ACTIVE \<and> cv_locked_by c' = None))
   \<and> (cv_state c = CS_CLOSED \<and> cv_locked_by c = None \<longrightarrow>
     (\<exists>s'. conv_close i a r s = Inr s'
       \<and> au_action (last (audit_log s')) = ''conversation.CLOSED_to_CLOSED''))"
proof (intro conjI impI)
  assume "cv_state c = CS_AI_PAUSED"
  with assms have c: "get_conv i s = Some c" "cv_state c = CS_AI_PAUSED" by simp_all
  from conv_transition_runs [OF this] obtain s1 e m
    where s1: "conv_transition i CS_AI_PAUSED CS_AI_ACTIVE ''agent'' (Some a) s = Inr s1"
      "s1 = publish e i (conv_audit ''agent'' (Some a) m (Some i) (upd_conv i (\<lambda>c. c\<lparr>cv_state := CS_AI_ACTIVE\<rparr>) s))"
    by blast
  have "get_conv i s1 = Some (c\<lparr>cv_state := CS_AI_ACTIVE, cv_updated_at := clock s\<rparr>)"
    using c by (simp add: s1(2) get_upd_conv)
  then show "\<exists>s' c'. resume_ai i a s = Inr s' \<and> get_conv i s' = Some c' \<and> cv_state c' = CS_AI_ACTIVE \<and> cv_locked_by c' = None"
    using c s1(1) by (auto simp: resume_ai_def conv_release_lock_def get_upd_conv)
next
  assume "cv_state c = CS_CLOSED \<and> cv_locked_by c = None"
  with assms have c: "get_conv i s = Some c" "cv_state c = CS_CLOSED" "cv_locked_by c = None" by simp_all
  from conv_transition_runs [OF c(1,2), of CS_CLOSED "''agent''" "Some a"] obtain e
    where "conv_transition i CS_CLOSED CS_CLOSED ''agent'' (Some a) s = Inr (publish e i (conv_audit ''agent'' (Some a)
       ''conversation.CLOSED_to_CLOSED'' (Some i) (upd_conv i (\<lambda>c. c\<lparr>cv_state := CS_CLOSED\<rparr>) s)))"
    by (auto simp: transition_events_def)
  moreover have "assert_actor_holds_lock c a r s = Inr ()" using c(3) by (simp add: assert_actor_holds_lock_def lock_active_def)
  ultimately show "\<exists>s'. conv_close i a r s = Inr s'
       \<and> au_action (last (audit_log s')) = ''conversation.CLOSED_to_CLOSED''"
    using c by (auto simp: conv_close_def publish_def conv_audit_def audit_append_def)
qed

theorem resume_and_close_unguarded_witness:
  "\<exists>s' c'. resume_ai 20 2 demo_crm = Inr s' \<and> get_conv 20 s' = Some c' \<and> cv_locked_by c' = None"
  using resume_and_close_unguarded [of 20 demo_crm "the (get_conv 20 demo_crm)" 2]
  by (auto simp: get_conv_def demo_crm_def)

end
