(* ===== verification/EngagementProps.thy ===== *)
theory EngagementProps
  imports Engagement SendingProps ConversationProps
begin

text \<open>
  The follow-up policy as a transition system: the sweep, the follow-ups it schedules, the replies, callbacks and
  sendings that change the outreach state, and the rest of the program. How many follow-ups a conversation gets and
  which, what the sweep decides for each conversation, and when a follow-up is sent.
\<close>

section \<open>Steps\<close>

text \<open>A scheduled follow-up of a conversation, and the ones in the queue.\<close>

fun followup_for :: "uuid \<Rightarrow> celery_task \<Rightarrow> bool" where
  "followup_for i (ScheduledFollowup j st ctx is_cold countdown) = (i = j \<and> \<not> is_cold)"
| "followup_for i _ = False"

definition followups :: "uuid \<Rightarrow> 'a crm_scheme \<Rightarrow> nat" where
  "followups i s = length (filter (followup_for i) (task_queue s))"

definition second_stage :: "outreach_state option \<Rightarrow> bool" where
  "second_stage x = (x = Some OS_REENGAGE_2 \<or> x = Some OS_RESCUE_2)"

definition same_or_new :: "'a crm_scheme \<Rightarrow> 'b crm_scheme \<Rightarrow> conversation \<Rightarrow> bool" where
  "same_or_new s s' c' =
     ((\<exists>c\<in>set (conversations s). cv_id c = cv_id c' \<and> (cv_outreach_state c' = None \<longrightarrow> cv_outreach_state c = None)
         \<and> (second_stage (cv_outreach_state c') \<longrightarrow> second_stage (cv_outreach_state c)))
      \<or> (next_id s \<le> cv_id c' \<and> cv_id c' < next_id s' \<and> \<not> second_stage (cv_outreach_state c')))"

text \<open>
  What every part of the program but the sweep keeps: no follow-up is scheduled, no row of the audit log
  counts as one, an outreach state that is set stays set and is not made a second stage, and no recipient is
  put into the state the cold track starts from.
\<close>

definition outreach_kept :: "'a crm_scheme \<Rightarrow> 'b crm_scheme \<Rightarrow> bool" where
  "outreach_kept s s' =
     (next_id s \<le> next_id s' \<and> (\<forall>i. followups i s' = followups i s)
      \<and> (\<forall>r\<in>set (audit_log s'). r \<in> set (audit_log s) \<or> \<not> like_followup (au_action r))
      \<and> (\<forall>c'\<in>set (conversations s'). same_or_new s s' c')
      \<and> (\<forall>r'\<in>set (campaign_recipients s'). cr_outreach_state r' = Some OS_OUTREACH_SENT
           \<longrightarrow> (\<exists>r\<in>set (campaign_recipients s). cr_outreach_state r = Some OS_OUTREACH_SENT)))"

inductive engage_step :: "'a crm_scheme \<Rightarrow> 'a crm_scheme \<Rightarrow> bool" where
  sweep: "engage_step s (snd (engagement_sweep s))"
| followup: "engage_step s (snd (process_scheduled_followup env i st ctx cold s))"
| webhook: "engage_step s (snd (process_inbound_webhook fetched payload s))"
| sending: "engage_step s (snd (send_outbound_message up fr meta n i s))"
| cancelled: "engage_step s (snd (cancel_pending_followups i s))"
| replied: "engage_step s (on_first_reply i s)"
| enrolled: "engage_step s (snd (bulk_insert i ks s))"
| marked: "engage_step s (mark_sent r m w s)"
| elsewhere: "outreach_kept s s' \<Longrightarrow> engage_step s s'"

inductive_cases engage_stepE: "engage_step s s'"

lemma second_stage_simps [simp]:
  "\<not> second_stage None" "second_stage (Some st) = (st = OS_REENGAGE_2 \<or> st = OS_RESCUE_2)"
  by (simp_all add: second_stage_def)

lemma same_or_newI [intro]:
  "c \<in> set (conversations s) \<Longrightarrow> cv_id c = cv_id c' \<Longrightarrow> (cv_outreach_state c' = None \<Longrightarrow> cv_outreach_state c = None)
   \<Longrightarrow> (second_stage (cv_outreach_state c') \<Longrightarrow> second_stage (cv_outreach_state c)) \<Longrightarrow> same_or_new s s' c'"
  by (auto simp: same_or_new_def)

lemma kept_refl [simp]: "outreach_kept s s"
  by (auto simp: outreach_kept_def)

lemma kept_trans [trans]:
  assumes "outreach_kept s t" "outreach_kept t u"
  shows "outreach_kept s u"
proof -
  have le: "next_id s \<le> next_id t" "next_id t \<le> next_id u" using assms by (simp_all add: outreach_kept_def)
  have "same_or_new s u c" if "c \<in> set (conversations u)" for c
  proof -
    have "same_or_new t u c" using assms(2) that by (simp add: outreach_kept_def)
    then consider d where "d \<in> set (conversations t)" "cv_id d = cv_id c"
        "cv_outreach_state c = None \<longrightarrow> cv_outreach_state d = None"
        "second_stage (cv_outreach_state c) \<longrightarrow> second_stage (cv_outreach_state d)"
      | "next_id t \<le> cv_id c" "cv_id c < next_id u" "\<not> second_stage (cv_outreach_state c)"
      by (auto simp: same_or_new_def)
    then show ?thesis
    proof cases
      case (1 d)
      then have "same_or_new s t d" using assms(1) by (simp add: outreach_kept_def)
      then show ?thesis using 1 le by (auto simp: same_or_new_def)
    qed (use le in \<open>simp add: same_or_new_def\<close>)
  qed
  moreover have "\<forall>r\<in>set (audit_log u). r \<in> set (audit_log s) \<or> \<not> like_followup (au_action r)"
    using assms unfolding outreach_kept_def by blast
  moreover have "\<forall>r'\<in>set (campaign_recipients u). cr_outreach_state r' = Some OS_OUTREACH_SENT
      \<longrightarrow> (\<exists>r\<in>set (campaign_recipients s). cr_outreach_state r = Some OS_OUTREACH_SENT)"
    using assms unfolding outreach_kept_def by blast
  ultimately show ?thesis using assms by (simp add: outreach_kept_def)
qed

text \<open>The parts of a state the relation looks at.\<close>

lemma kept_same:
  "conversations s' = conversations s \<Longrightarrow> next_id s \<le> next_id s' \<Longrightarrow> task_queue s' = task_queue s
   \<Longrightarrow> audit_log s' = audit_log s \<Longrightarrow> campaign_recipients s' = campaign_recipients s \<Longrightarrow> outreach_kept s s'"
  by (auto simp: outreach_kept_def followups_def)

lemma kept_upd_conv:
  assumes "\<And>c. cv_id (f c) = cv_id c" "\<And>c. cv_outreach_state (f c) = None \<Longrightarrow> cv_outreach_state c = None"
    "\<And>c. second_stage (cv_outreach_state (f c)) \<Longrightarrow> second_stage (cv_outreach_state c)"
  shows "outreach_kept s (upd_conv i f s)"
proof -
  have "same_or_new s (upd_conv i f s) c'" if "c' \<in> set (conversations (upd_conv i f s))" for c'
  proof -
    from that obtain c where "c \<in> set (conversations s)" "c' = c \<or> c' = (f c)\<lparr>cv_updated_at := clock s\<rparr>"
      by (auto simp: upd_conv_def upd_by_def split: if_splits)
    then show ?thesis using assms by (intro same_or_newI [of c]) auto
  qed
  then show ?thesis by (auto simp: outreach_kept_def followups_def) (auto simp: upd_conv_def)
qed

lemma kept_recipients:
  assumes "\<And>r. P r \<Longrightarrow> cr_outreach_state (f r) = Some OS_OUTREACH_SENT \<Longrightarrow> cr_outreach_state r = Some OS_OUTREACH_SENT"
  shows "outreach_kept s (upd_recipients P f s)"
  using assms by (auto simp: outreach_kept_def followups_def upd_recipients_def)

lemma kept_enqueue: "(\<And>i. \<not> followup_for i t) \<Longrightarrow> outreach_kept s (enqueue t s)"
  by (auto simp: outreach_kept_def followups_def enqueue_def)

lemma kept_set_outreach: "st \<noteq> OS_REENGAGE_2 \<Longrightarrow> st \<noteq> OS_RESCUE_2 \<Longrightarrow> outreach_kept s (snd (update_outreach_state i st e s))"
  unfolding update_outreach_state_def by (auto split: option.splits intro!: kept_upd_conv)

lemma kept_publish [simp]: "outreach_kept s (publish e i s)"
  by (rule kept_same) (simp_all add: publish_def)

lemma kept_auto_tag [simp]: "outreach_kept s (auto_tag k n s)"
  by (rule kept_same) (auto simp: auto_tag_def ensure_tag_def fresh_id_def Let_def split: option.splits)

lemma kept_tag_conversation [simp]: "outreach_kept s (tag_conversation_contact i n s)"
  by (auto simp: tag_conversation_contact_def split: option.splits)

lemma kept_contacts [simp]: "outreach_kept s (upd_contact i f s)"
  by (rule kept_same) (simp_all add: upd_contact_def)

lemma kept_messages [simp]: "outreach_kept s (upd_message i f s)"
  by (rule kept_same) (simp_all add: upd_message_def)

lemma kept_counters [simp]: "outreach_kept s (increment_counters i d s)"
  by (rule kept_same) (simp_all add: increment_counters_def upd_campaign_def)

lemma kept_fold_counters [simp]: "outreach_kept s (fold (\<lambda>c. increment_counters c d) cs s)"
proof (induction cs arbitrary: s)
  case (Cons c cs)
  have "outreach_kept s (increment_counters c d s)" by simp
  also have "outreach_kept (increment_counters c d s) (fold (\<lambda>c. increment_counters c d) cs (increment_counters c d s))"
    by (rule Cons.IH)
  finally show ?case by simp
qed simp

section \<open>The webhook\<close>

lemma kept_upsert: "upsert_by_phone p n info s = Inr (c, s') \<Longrightarrow> outreach_kept s s'"
  by (rule kept_same)
    (auto simp: upsert_by_phone_def contact_insert_def fresh_id_def Let_def ok_simps upd_contact_def split: option.splits if_splits)

lemma kept_create_conv: "conv_create_for_contact k s = Inr (i, s') \<Longrightarrow> outreach_kept s s'"
proof -
  assume "conv_create_for_contact k s = Inr (i, s')"
  then obtain c where "s' = s\<lparr>next_id := Suc (next_id s), conversations := conversations s @ [c]\<rparr>"
    "cv_id c = next_id s" "cv_outreach_state c = None"
    by (auto simp: conv_create_for_contact_def ok_simps fresh_id_def Let_def)
  then show ?thesis by (auto simp: outreach_kept_def followups_def same_or_new_def)
qed

lemma kept_enabled [simp]: "outreach_kept s (upd_conv i (\<lambda>c. c\<lparr>cv_ai_enabled := b\<rparr>) s)"
  by (rule kept_upd_conv) simp_all

lemma kept_inbound_conversation: "inbound_conversation c s = Inr (i, s') \<Longrightarrow> outreach_kept s s'"
  by (auto simp: inbound_conversation_def ok_simps split: option.splits if_splits
      intro: kept_create_conv kept_trans [OF kept_create_conv kept_enabled])

lemma kept_inbound_transition: "inbound_transition i s = Inr (x, s') \<Longrightarrow> outreach_kept s s'"
  by (drule inbound_transition_cases)
    (auto simp: update_state_def split: option.splits intro!: kept_upd_conv)

lemma kept_create_message: "create_message m s = Inr (i, s') \<Longrightarrow> outreach_kept s s'"
  by (rule kept_same) (auto simp: create_message_def fresh_id_def Let_def ok_simps)

lemma kept_store_media [simp]: "outreach_kept s (store_media f m t i s)"
  by (rule kept_same) (simp_all add: store_media_def fresh_id_def Let_def)

lemma kept_attribute [simp]: "outreach_kept s (attribute_inbound_to_campaigns k t s)"
proof -
  have "outreach_kept s (snd (mark_responded_for_contact k w s))" for w
    unfolding mark_responded_for_contact_def Let_def snd_conv by (rule kept_recipients) simp
  then show ?thesis
    unfolding attribute_inbound_to_campaigns_def Let_def by (auto intro: kept_trans [OF _ kept_fold_counters])
qed

lemma kept_touch [simp]: "outreach_kept s (touch_last_message i t s)" "outreach_kept s (touch_last_inbound i s)"
  "outreach_kept s (touch_last_contacted i s)" "outreach_kept s (transition_status i st s)"
  by (auto simp: touch_last_message_def touch_last_inbound_def touch_last_contacted_def transition_status_def intro!: kept_upd_conv)

lemma kept_store_inbound:
  assumes "store_inbound fetched p msg s = Inr ((k, i, ai, act), s')"
  shows "outreach_kept s s'"
  using assms
proof (cases rule: store_inbound_steps)
  case (1 c s1 s3 s5 mi s6 t)
  have "outreach_kept s s1" using 1(1) by (rule kept_upsert)
  also have "outreach_kept s1 (touch_last_inbound (ct_id c) s1)" by simp
  also have "outreach_kept \<dots> s3" using 1(3) by (rule kept_inbound_conversation)
  also have "outreach_kept s3 s5" using 1(4) kept_inbound_transition kept_trans [OF kept_auto_tag] by blast
  also have "outreach_kept s5 s6" using 1(5) by (rule kept_create_message)
  also have "outreach_kept s6 s'"
    using 1(6) kept_attribute kept_store_media kept_touch(1) kept_trans by metis
  finally show ?thesis .
qed

lemma kept_suppress [simp]: "outreach_kept s (suppress_contact k i s)"
  unfolding suppress_contact_def set_do_not_contact_def
  by (rule kept_trans [OF kept_trans [OF kept_contacts kept_auto_tag]]) (rule kept_set_outreach; simp)

lemma kept_cancel_outreach [simp]: "outreach_kept s (cancel_pending_outreach_on_reply i s)"
proof (cases "get_conv i s")
  case (Some c)
  have "outreach_kept s (if outreach_open (cv_outreach_state c)
      then upd_conv i (\<lambda>c. c\<lparr>cv_outreach_state := Some OS_CONVERTED\<rparr>) s else s)" (is "outreach_kept s ?t")
    by (auto intro!: kept_upd_conv)
  also have "outreach_kept ?t (cancel_pending_outreach_on_reply i s)"
    unfolding cancel_pending_outreach_on_reply_def Some option.case Let_def by (rule kept_recipients) simp
  finally show ?thesis .
qed (simp add: cancel_pending_outreach_on_reply_def)

lemma kept_after_inbound [simp]: "outreach_kept s (after_inbound msg x s)"
proof -
  obtain k i ai act where x: "x = (k, i, ai, act)" by (cases x)
  have step: "outreach_kept s t \<Longrightarrow> outreach_kept s (publish e j t)"
    "outreach_kept s t \<Longrightarrow> outreach_kept s (cancel_pending_outreach_on_reply j t)"
    "outreach_kept s t \<Longrightarrow> outreach_kept s (enqueue (RequestAiReply j w) t)" for t e j w
    by (auto intro: kept_trans intro!: kept_enqueue)
  show ?thesis unfolding x after_inbound_def Let_def prod.case by (auto intro!: step)
qed

lemma kept_persist: "persist_inbound fetched d msg s = Inr s' \<Longrightarrow> outreach_kept s s'"
  by (auto simp: persist_inbound_def ebind_Inr_iff split: if_splits
      intro: kept_trans [OF kept_store_inbound kept_after_inbound])

lemma kept_recipient_status:
  assumes "recipient_delivery_status w st c t s = Inr (r, s')"
  shows "outreach_kept s s'"
proof -
  define f :: "campaign_recipient \<Rightarrow> campaign_recipient" where "f = (\<lambda>r. let r1 = r\<lparr>cr_status := st\<rparr> in
           if st = CR_DELIVERED
           then r1\<lparr>cr_delivered_at := Some (clock s), cr_error_code := None, cr_error_message := None\<rparr>
           else if st = CR_FAILED
           then r1\<lparr>cr_failed_at := Some (clock s),
                 cr_error_code := (if c = None then cr_error_code r else c),
                 cr_error_message := (case t of None \<Rightarrow> cr_error_message r | Some m \<Rightarrow> Some (take 500 m))\<rparr>
           else r1)"
  have "cr_outreach_state (f q) = cr_outreach_state q" for q :: campaign_recipient by (simp add: f_def Let_def)
  then have upd: "outreach_kept s (upd_recipients P f s)" for P by (intro kept_recipients) simp
  obtain found where rest: "(case found of None \<Rightarrow> Inr (None, s) | Some q \<Rightarrow> Inr (Some q, upd_recipients (\<lambda>r. cr_id r = cr_id q) f s))
      = (Inr (r, s') :: err + campaign_recipient option \<times> 'a crm_scheme)"
    using assms unfolding recipient_delivery_status_def f_def by (simp only: ebind_Inr_iff) blast
  show ?thesis
  proof (cases found)
    case (Some q)
    then have "s' = upd_recipients (\<lambda>r. cr_id r = cr_id q) f s" using rest by (simp only: option.case sum.inject prod.inject)
    then show ?thesis by (simp only: upd)
  qed (use rest in simp)
qed

lemma kept_propagate:
  assumes "propagate_to_campaign_recipient w st c t s = Inr s'"
  shows "outreach_kept s s'"
proof (cases "st = MSG_DELIVERED \<or> st = MSG_FAILED")
  case True
  let ?d = "if st = MSG_DELIVERED then no_deltas\<lparr>delivered_delta := 1\<rparr> else no_deltas\<lparr>failed_delta := 1\<rparr>"
  obtain found s1 where one: "recipient_delivery_status w (if st = MSG_DELIVERED then CR_DELIVERED else CR_FAILED) c t s
      = Inr (found, s1)"
    and rest: "(case found of None \<Rightarrow> Inr s1 | Some r \<Rightarrow> Inr (increment_counters (cr_campaign_id r) ?d s1)) = (Inr s' :: err + _)"
    using assms True unfolding propagate_to_campaign_recipient_def if_P [OF True]
    by (simp only: ebind_Inr_iff split_paired_Ex prod.case) blast
  have "outreach_kept s s1" by (rule kept_recipient_status [OF one])
  also have "outreach_kept s1 s'" using rest by (cases found) auto
  finally show ?thesis .
qed (use assms in \<open>simp add: propagate_to_campaign_recipient_def\<close>)

lemma kept_classify [simp]: "outreach_kept s (classify_delivery m st c s)"
  unfolding classify_delivery_def
  by (simp add: kept_trans [OF kept_tag_conversation kept_set_outreach])

lemma kept_maybe_retry [simp]: "outreach_kept s (maybe_schedule_delivery_retry i n s)"
  unfolding maybe_schedule_delivery_retry_def by (auto intro!: kept_enqueue)

lemma kept_delivery [simp]: "outreach_kept s (update_delivery_status i st e c w s)"
  by (simp add: update_delivery_status_def)

lemma kept_apply_status:
  assumes "apply_status_update w t u s = Inr s'"
  shows "outreach_kept s s'"
proof (cases "status_map (lower t)")
  case (Some st)
  note st = this
  show ?thesis
  proof (cases "get_by_meta_id w s")
    case (Some m)
    show ?thesis
    proof (cases "delivery_rank st \<le> delivery_rank (ms_delivery_status m)")
      case False
      let ?c = "if st = MSG_FAILED then st_error_code u else None" and ?e = "if st = MSG_FAILED then st_error_text u else None"
      obtain s1 where p: "propagate_to_campaign_recipient w st ?c ?e (update_delivery_status (ms_id m) st ?e ?c None s) = Inr s1"
        and s': "s' = (if st = MSG_FAILED \<and> \<not> is_permanent_failure (st_error_code u)
          then maybe_schedule_delivery_retry (ms_id m) (ms_delivery_retry_count m) (classify_delivery m st ?c s1)
          else classify_delivery m st ?c s1)"
        using callback_advances [OF assms Some st False] by blast
      have "outreach_kept s (update_delivery_status (ms_id m) st ?e ?c None s)" by simp
      also have "outreach_kept \<dots> s1" by (rule kept_propagate [OF p])
      also have "outreach_kept s1 s'" unfolding s' by (auto intro: kept_trans [OF kept_classify kept_maybe_retry])
      finally show ?thesis .
    qed (use assms st Some in \<open>simp add: apply_status_update_def\<close>)
  qed (use assms st in \<open>simp add: apply_status_update_def\<close>)
qed (use assms in \<open>simp add: apply_status_update_def\<close>)

lemma kept_key [simp]: "outreach_kept s (set_redis_key k s)"
  by (rule kept_same) (simp_all add: set_redis_key_def)

lemma kept_loop:
  assumes "\<And>x s. outreach_kept s (snd (f x s))"
  shows "outreach_kept s (snd (while_ok f xs s))"
proof (induction xs arbitrary: s)
  case (Cons x xs)
  obtain ok t where f: "f x s = (ok, t)" by fastforce
  then have "outreach_kept s t" using assms [of s x] by simp
  then show ?case using Cons.IH [of t] f by (auto intro: kept_trans)
qed simp

lemma kept_process_message: "outreach_kept s (snd (process_message fetched d m s))"
  unfolding process_message_def Let_def
  by (auto split: sum.splits dest!: kept_persist intro: kept_trans [OF _ kept_key])

lemma kept_process_status: "outreach_kept s (snd (process_status u s))"
  unfolding process_status_def Let_def
  by (auto split: sum.splits dest!: kept_apply_status intro: kept_trans [OF _ kept_key])

lemma kept_process_value: "outreach_kept s (snd (process_value fetched v s))"
proof -
  obtain ok t where one: "while_ok (process_message fetched (wv_display_phone v)) (wv_messages v) s = (ok, t)" by fastforce
  then have "outreach_kept s t"
    using kept_loop [of "process_message fetched (wv_display_phone v)" s "wv_messages v", OF kept_process_message] by simp
  then show ?thesis using kept_loop [of process_status t "wv_statuses v", OF kept_process_status] one
    by (auto simp: process_value_def intro: kept_trans)
qed

lemma kept_webhook: "outreach_kept s (snd (process_inbound_webhook fetched payload s))"
  using kept_loop [of "process_value fetched" s payload, OF kept_process_value]
  by (auto simp: process_inbound_webhook_def split: prod.splits)

section \<open>Sending, replies and campaigns\<close>

lemma kept_send_failure: "outreach_kept s (snd (handle_send_failure i n r c t s))"
proof -
  have "outreach_kept s (increment_retry i s)" by (simp add: increment_retry_def)
  then show ?thesis
    by (auto simp: handle_send_failure_def Let_def intro: kept_trans [OF _ kept_delivery])
qed

lemma kept_backfill [simp]: "outreach_kept s (backfill_meta_id i w s)"
  by (auto simp: backfill_meta_id_def intro!: kept_recipients)

lemma kept_record_sent: "outreach_kept s (snd (record_sent m v c w s))"
proof -
  have steps: "outreach_kept s t \<Longrightarrow> outreach_kept s (update_delivery_status i st e code x t)"
    "outreach_kept s t \<Longrightarrow> outreach_kept s (backfill_meta_id i x t)"
    "outreach_kept s t \<Longrightarrow> outreach_kept s (transition_status i ct t)"
    "outreach_kept s t \<Longrightarrow> outreach_kept s (touch_last_contacted i t)"
    "outreach_kept s t \<Longrightarrow> outreach_kept s (touch_last_message i now t)"
    "outreach_kept s t \<Longrightarrow> outreach_kept s (publish ev i t)" for t i st e code x ct now ev
    by (auto intro: kept_trans)
  show ?thesis unfolding record_sent_def Let_def by (auto intro!: steps)
qed

lemma kept_sending: "outreach_kept s (snd (send_outbound_message up fr meta n i s))"
  unfolding send_outbound_message_def
  by (auto split: option.splits meta_outcome.splits simp: kept_record_sent kept_send_failure)

lemma kept_insert_recipient: "outreach_kept s (snd (insert_recipient i k (n, s)))"
  by (auto simp: insert_recipient_def fresh_id_def Let_def new_recipient_def outreach_kept_def followups_def same_or_new_def)

lemma kept_bulk_insert: "outreach_kept s (snd (bulk_insert i ks s))"
proof -
  have "outreach_kept (snd p) (snd (fold (insert_recipient i) ks p))" for p :: "nat \<times> 'a crm_scheme"
  proof (induction ks arbitrary: p)
    case (Cons k ks)
    show ?case using kept_insert_recipient [of "snd p" i k "fst p"] Cons.IH [of "insert_recipient i k p"]
      by (auto intro: kept_trans)
  qed simp
  then show ?thesis unfolding bulk_insert_def by (metis snd_conv)
qed

lemma kept_mark_sent: "outreach_kept s (mark_sent r m w s)"
  unfolding mark_sent_def by (rule kept_recipients) simp

lemma kept_cancelled: "outreach_kept s (snd (cancel_pending_followups i s))" "outreach_kept s (on_first_reply i s)"
  by (auto simp: cancel_pending_followups_def on_first_reply_def split: option.splits intro!: kept_set_outreach)

lemma kept_followup: "outreach_kept s (snd (process_scheduled_followup env i st ctx cold s))"
proof -
  have "outreach_kept s (snd (process_cold_followup env i s))"
    by (auto simp: process_cold_followup_def split: option.splits intro!: kept_enqueue)
  moreover have "outreach_kept s (enqueue (SendOutbound m) (snd (fresh_id s)\<lparr>messages := ms\<rparr>))" for m ms
  proof -
    have "outreach_kept s (snd (fresh_id s)\<lparr>messages := ms\<rparr>)" by (rule kept_same) (simp_all add: fresh_id_def)
    also have "outreach_kept \<dots> (enqueue (SendOutbound m) (snd (fresh_id s)\<lparr>messages := ms\<rparr>))" by (rule kept_enqueue) simp
    finally show ?thesis .
  qed
  ultimately show ?thesis
    by (auto simp: process_scheduled_followup_def Let_def fresh_id_def kept_cancelled split: option.splits)
qed

text \<open>Every step but the sweep.\<close>

lemma engage_step_cases:
  assumes "engage_step s s'"
  shows "s' = snd (engagement_sweep s) \<or> outreach_kept s s'"
  using assms
  by (cases rule: engage_stepE)
    (auto simp: kept_followup kept_webhook kept_sending kept_cancelled kept_bulk_insert kept_mark_sent)

section \<open>One follow-up\<close>

definition once_inv :: "'a crm_scheme \<Rightarrow> bool" where
  "once_inv s =
     ((\<forall>i. followups i s \<le> 1 \<and> (0 < followups i s \<longrightarrow> i < next_id s))
      \<and> (\<forall>c\<in>set (conversations s). cv_id c < next_id s \<and> (cv_outreach_state c = None \<longrightarrow> followups (cv_id c) s = 0)))"

text \<open>The first stages only, and a cold track without a start.\<close>

definition stage_inv :: "'a crm_scheme \<Rightarrow> bool" where
  "stage_inv s =
     ((\<forall>r\<in>set (audit_log s). \<not> like_followup (au_action r))
      \<and> (\<forall>c\<in>set (conversations s). \<not> second_stage (cv_outreach_state c))
      \<and> (\<forall>r\<in>set (campaign_recipients s). cr_outreach_state r \<noteq> Some OS_OUTREACH_SENT))"

lemma kept_once: "outreach_kept s s' \<Longrightarrow> once_inv s \<Longrightarrow> once_inv s'"
proof -
  assume kept: "outreach_kept s s'" and inv: "once_inv s"
  have same: "followups i s' = followups i s" and le: "next_id s \<le> next_id s'" for i
    using kept by (simp_all add: outreach_kept_def)
  have "cv_id c < next_id s' \<and> (cv_outreach_state c = None \<longrightarrow> followups (cv_id c) s' = 0)"
    if "c \<in> set (conversations s')" for c
  proof -
    have "same_or_new s s' c" using kept that by (simp add: outreach_kept_def)
    then show ?thesis
      unfolding same_or_new_def
    proof
      assume "\<exists>d\<in>set (conversations s). cv_id d = cv_id c \<and> (cv_outreach_state c = None \<longrightarrow> cv_outreach_state d = None)
         \<and> (second_stage (cv_outreach_state c) \<longrightarrow> second_stage (cv_outreach_state d))"
      then obtain d where "d \<in> set (conversations s)" "cv_id d = cv_id c"
        "cv_outreach_state c = None \<longrightarrow> cv_outreach_state d = None" by (elim bexE conjE) (rule that)
      note d = this
      have "cv_id d < next_id s \<and> (cv_outreach_state d = None \<longrightarrow> followups (cv_id d) s = 0)"
        using inv d(1) by (simp add: once_inv_def)
      then show ?thesis using le d(2,3) unfolding same by auto
    next
      assume new: "next_id s \<le> cv_id c \<and> cv_id c < next_id s' \<and> \<not> second_stage (cv_outreach_state c)"
      then have "\<not> 0 < followups (cv_id c) s" using inv by (auto simp: once_inv_def)
      then show ?thesis using new same by simp
    qed
  qed
  moreover have "followups i s' \<le> 1 \<and> (0 < followups i s' \<longrightarrow> i < next_id s')" for i
    using inv le unfolding same once_inv_def by (meson less_le_trans)
  ultimately show ?thesis by (simp add: once_inv_def)
qed

lemma kept_stage: "outreach_kept s s' \<Longrightarrow> stage_inv s \<Longrightarrow> stage_inv s'"
  unfolding outreach_kept_def stage_inv_def same_or_new_def by blast

text \<open>The state with the tasks of the sweep in the queue.\<close>

definition flush :: "sweep_result \<times> 'a crm_scheme \<Rightarrow> 'a crm_scheme" where
  "flush p = (snd p)\<lparr>task_queue := task_queue (snd p) @ sw_dispatches (fst p)\<rparr>"

lemma fold_enqueue: "fold enqueue ts s = s\<lparr>task_queue := task_queue s @ ts\<rparr>"
  by (induction ts arbitrary: s) (simp_all add: enqueue_def)

lemma sweep_flush:
  "snd (engagement_sweep s) = flush (fold sweep_cold
     (filter (cold_candidate (clock s)) (campaign_recipients (snd (fold sweep_conversation (sweep_candidates s) (no_followups, s)))))
     (fold sweep_conversation (sweep_candidates s) (no_followups, s)))"
  by (simp add: engagement_sweep_def Let_def flush_def fold_enqueue split: prod.split)

lemma flush_start [simp]: "flush (no_followups, s) = s"
  by (simp add: flush_def no_followups_def)

lemma followups_flush: "followups i (flush (res, s)) = followups i s + length (filter (followup_for i) (sw_dispatches res))"
  by (simp add: followups_def flush_def)

lemma flush_frame [simp]:
  "conversations (flush (res, s)) = conversations s" "next_id (flush (res, s)) = next_id s"
  "audit_log (flush (res, s)) = audit_log s" "campaign_recipients (flush (res, s)) = campaign_recipients s"
  by (simp_all add: flush_def)

lemma kept_flush: "outreach_kept s t \<Longrightarrow> outreach_kept (flush (res, s)) (flush (res, t))"
  by (simp add: outreach_kept_def followups_flush same_or_new_def)

text \<open>The two ends of scheduling: nothing, or a task for a conversation that had no state and now has one.\<close>

lemma schedule_selected_run:
  assumes "\<And>r. sw_dispatches (count r) = sw_dispatches r"
  obtains "schedule_selected count i (res, s) = (res, s)"
  | conv st ctx cd where "get_conv i s = Some conv" "cv_outreach_state conv = None" "map_option fst (select_regime i s) = Some st"
      "snd (schedule_selected count i (res, s)) = upd_conv i (\<lambda>c. c\<lparr>cv_outreach_state := Some st\<rparr>) s"
      "sw_dispatches (fst (schedule_selected count i (res, s))) = sw_dispatches res @ [ScheduledFollowup i st ctx False cd]"
proof (cases "select_regime i s")
  case (Some x)
  obtain st t ctx where x: "x = (st, t, ctx)" by (cases x)
  obtain conv where conv: "get_conv i s = Some conv" "cv_outreach_state conv = None"
    using Some by (auto simp: select_regime_def split: option.splits if_splits)
  then show ?thesis using Some x assms
    by (intro that(2) [of conv st ctx "max 0 (t - clock s)"])
      (auto simp: schedule_selected_def schedule_followup_def update_outreach_state_def)
qed (auto simp: schedule_selected_def intro: that(1))

lemma upd_conv_outreach:
  assumes "c' \<in> set (conversations (upd_conv i (\<lambda>c. c\<lparr>cv_outreach_state := Some st\<rparr>) s))"
  obtains "c' \<in> set (conversations s)" "cv_id c' \<noteq> i"
    | "cv_id c' = i" "cv_outreach_state c' = Some st" "i \<in> cv_id ` set (conversations s)"
  using assms by (auto simp: upd_conv_def upd_by_def split: if_splits)

lemma schedule_once:
  assumes dispatches: "\<And>r. sw_dispatches (count r) = sw_dispatches r" and inv: "once_inv (flush (res, s))"
  shows "once_inv (flush (schedule_selected count i (res, s)))"
proof (rule schedule_selected_run [OF dispatches, of i res s])
  assume "schedule_selected count i (res, s) = (res, s)"
  then show ?thesis using inv by simp
next
  fix conv st ctx cd
  assume conv: "get_conv i s = Some conv" "cv_outreach_state conv = None"
    and state: "snd (schedule_selected count i (res, s)) = upd_conv i (\<lambda>c. c\<lparr>cv_outreach_state := Some st\<rparr>) s"
    and tasks: "sw_dispatches (fst (schedule_selected count i (res, s))) = sw_dispatches res @ [ScheduledFollowup i st ctx False cd]"
  obtain res' s' where run: "schedule_selected count i (res, s) = (res', s')" by fastforce
  note out = state [unfolded run snd_conv] tasks [unfolded run fst_conv]
  have mem: "conv \<in> set (conversations s)" "cv_id conv = i" using get_by_Some conv(1) by (fastforce simp: get_conv_def)+
  then have none: "followups i (flush (res, s)) = 0" and bound: "i < next_id s"
    using inv conv(2) by (auto simp: once_inv_def)
  have next_id: "next_id s' = next_id s" unfolding out by (simp add: upd_conv_def)
  have count: "followups j (flush (res', s')) = followups j (flush (res, s)) + (if j = i then 1 else 0)" for j
    unfolding followups_flush out by (simp add: followups_def)
  have "cv_id c < next_id s \<and> (cv_outreach_state c = None \<longrightarrow> followups (cv_id c) (flush (res', s')) = 0)"
    if c: "c \<in> set (conversations s')" for c
  proof (rule upd_conv_outreach [OF c [unfolded out]])
    assume "c \<in> set (conversations s)" "cv_id c \<noteq> i"
    then show ?thesis using inv unfolding count by (simp add: once_inv_def)
  qed (use bound in simp)
  moreover have "followups j (flush (res', s')) \<le> 1 \<and> (0 < followups j (flush (res', s')) \<longrightarrow> j < next_id s)" for j
    using inv none bound unfolding count by (auto simp: once_inv_def)
  ultimately show ?thesis unfolding run by (simp add: once_inv_def next_id)
qed

lemma no_followup_rows: "stage_inv s \<Longrightarrow> followup_rows i s = []"
  by (auto simp: stage_inv_def followup_rows_def filter_empty_conv)

lemma select_first_stage:
  assumes "followup_rows i s = []" "map_option fst (select_regime i s) = Some st"
  shows "st = OS_REENGAGE_1 \<or> st = OS_RESCUE_1"
proof -
  have stage: "resolve_followup_stage i s = Some 1" using assms(1) by (simp add: resolve_followup_stage_def)
  obtain conv where conv: "get_conv i s = Some conv" using assms(2) by (auto simp: select_regime_def split: option.splits)
  then have "cv_id conv = i" using get_by_Some by (fastforce simp: get_conv_def)
  then show ?thesis using assms(2) stage conv
    by (auto simp: select_regime_def reengage_regime_def rescue_regime_def Let_def split: if_splits)
qed

lemma schedule_stage:
  assumes dispatches: "\<And>r. sw_dispatches (count r) = sw_dispatches r" and inv: "stage_inv (flush (res, s))"
  shows "stage_inv (flush (schedule_selected count i (res, s)))"
proof (rule schedule_selected_run [OF dispatches, of i res s])
  assume "schedule_selected count i (res, s) = (res, s)"
  then show ?thesis using inv by simp
next
  fix conv st ctx cd
  assume st: "map_option fst (select_regime i s) = Some st"
    and state: "snd (schedule_selected count i (res, s)) = upd_conv i (\<lambda>c. c\<lparr>cv_outreach_state := Some st\<rparr>) s"
  obtain res' s' where run: "schedule_selected count i (res, s) = (res', s')" by fastforce
  note out = state [unfolded run snd_conv]
  have clean: "stage_inv s" using inv by (simp add: stage_inv_def)
  have first: "st = OS_REENGAGE_1 \<or> st = OS_RESCUE_1" by (rule select_first_stage [OF no_followup_rows [OF clean] st])
  have "\<not> second_stage (cv_outreach_state c)" if "c \<in> set (conversations s')" for c
    by (rule upd_conv_outreach [OF that [unfolded out]]) (use clean first in \<open>auto simp: stage_inv_def\<close>)
  moreover have "audit_log s' = audit_log s" "campaign_recipients s' = campaign_recipients s"
    unfolding out by (simp_all add: upd_conv_def)
  ultimately show ?thesis using clean unfolding run by (simp add: stage_inv_def)
qed

lemma kept_unresponsive:
  "outreach_kept (flush (res, s)) (flush (res, tag_conversation_contact i ''UNRESPONSIVE''
     (snd (update_outreach_state i OS_UNRESPONSIVE None s))))"
  by (rule kept_flush, rule kept_trans [OF _ kept_tag_conversation], rule kept_set_outreach) simp_all

lemma sweep_conversation_invs:
  assumes "once_inv (flush (res, s))" "stage_inv (flush (res, s))"
  shows "once_inv (flush (sweep_conversation row (res, s)))" "stage_inv (flush (sweep_conversation row (res, s)))"
proof -
  obtain i state n latest where row: "row = (i, state, n, latest)" by (cases row)
  let ?t = "tag_conversation_contact i ''UNRESPONSIVE'' (snd (update_outreach_state i OS_UNRESPONSIVE None s))"
  have u: "once_inv (flush (res, ?t))" "stage_inv (flush (res, ?t))"
    using kept_once [OF kept_unresponsive] kept_stage [OF kept_unresponsive] assms by blast+
  show "once_inv (flush (sweep_conversation row (res, s)))"
    unfolding row sweep_conversation_def prod.case Let_def
    by (auto simp: assms u intro!: schedule_once split: option.split)
  show "stage_inv (flush (sweep_conversation row (res, s)))"
    unfolding row sweep_conversation_def prod.case Let_def
    by (auto simp: assms u intro!: schedule_stage split: option.split)
qed

lemma sweep_in_window_invs:
  assumes "once_inv (flush p)" "stage_inv (flush p)"
  shows "once_inv (flush (fold sweep_conversation rows p))" "stage_inv (flush (fold sweep_conversation rows p))"
  using assms
proof (induction rows arbitrary: p)
  case (Cons row rows)
  { case 1
    have p: "once_inv (flush (fst p, snd p))" "stage_inv (flush (fst p, snd p))" using 1 by simp_all
    show ?case using Cons.IH(1) sweep_conversation_invs [OF p, of row] by simp }
  { case 2
    have p: "once_inv (flush (fst p, snd p))" "stage_inv (flush (fst p, snd p))" using 2 by simp_all
    show ?case using Cons.IH(2) sweep_conversation_invs [OF p, of row] by simp }
qed simp_all

lemma sweep_conversation_cold: "sw_cold (fst (sweep_conversation row p)) = sw_cold (fst p)"
  by (auto simp: sweep_conversation_def schedule_selected_def schedule_followup_def Let_def split: prod.splits option.splits)

lemma sweep_in_window_cold: "sw_cold (fst (fold sweep_conversation rows p)) = sw_cold (fst p)"
  by (induction rows arbitrary: p) (simp_all add: sweep_conversation_cold)

lemma sweep_invs:
  assumes "once_inv s" "stage_inv s"
  shows "once_inv (snd (engagement_sweep s))" "stage_inv (snd (engagement_sweep s))" "sw_cold (fst (engagement_sweep s)) = 0"
proof -
  let ?p = "fold sweep_conversation (sweep_candidates s) (no_followups, s)"
  have p: "once_inv (flush ?p)" "stage_inv (flush ?p)" using assms by (intro sweep_in_window_invs; simp)+
  have "stage_inv (flush (fst ?p, snd ?p))" using p(2) by simp
  then have "\<forall>r\<in>set (campaign_recipients (snd ?p)). cr_outreach_state r \<noteq> Some OS_OUTREACH_SENT"
    unfolding stage_inv_def flush_frame by blast
  then have none: "filter (cold_candidate (clock s)) (campaign_recipients (snd ?p)) = []"
    by (auto simp: filter_empty_conv cold_candidate_def)
  show "once_inv (snd (engagement_sweep s))" "stage_inv (snd (engagement_sweep s))"
    unfolding sweep_flush none fold.simps id_apply by (rule p)+
  have "sw_cold (fst ?p) = sw_cold no_followups" unfolding sweep_in_window_cold by simp
  then show "sw_cold (fst (engagement_sweep s)) = 0"
    unfolding engagement_sweep_def Let_def none by (simp add: no_followups_def case_prod_unfold)
qed

lemma engage_step_invs: "engage_step s s' \<Longrightarrow> once_inv s \<Longrightarrow> stage_inv s \<Longrightarrow> once_inv s' \<and> stage_inv s'"
  by (drule engage_step_cases) (auto intro: sweep_invs(1,2) kept_once kept_stage)

lemma engage_steps_invs: "engage_step\<^sup>*\<^sup>* s s' \<Longrightarrow> once_inv s \<Longrightarrow> stage_inv s \<Longrightarrow> once_inv s' \<and> stage_inv s'"
  by (induction rule: rtranclp_induct) (auto dest: engage_step_invs)

section \<open>What the sweep decides\<close>

text \<open>The decision for one conversation, and the task that follows from it.\<close>

definition followup_due :: "conversation \<Rightarrow> 'a crm_scheme \<Rightarrow> outreach_state option" where
  "followup_due c s =
     (if cv_outreach_state c \<noteq> None \<or> \<not> cv_ai_enabled c then None
      else case last_inbound (cv_id c) s of
        None \<Rightarrow> None
      | Some t \<Rightarrow>
          let age = clock s - t in
          if length (thread (cv_id c) s) = 1
          then if hours 24 < age then Some OS_UNRESPONSIVE
               else if hours 3 \<le> age \<and> age < hours 24 then Some OS_REENGAGE_1 else None
          else if cv_state c = CS_AI_ACTIVE \<and> age < hours 24
          then if length (inbound_of (cv_id c) s) = 1
               then (if hours 3 \<le> age then Some OS_REENGAGE_1 else None)
               else if hours 1 \<le> age then Some OS_RESCUE_1 else None
          else None)"

definition followup_tasks :: "conversation \<Rightarrow> 'a crm_scheme \<Rightarrow> celery_task list" where
  "followup_tasks c s =
     (let t = the (last_inbound (cv_id c) s) in
      if followup_due c s = Some OS_REENGAGE_1
      then [ScheduledFollowup (cv_id c) OS_REENGAGE_1 (InboundCount 1) False (max 0 (t + midway 3 6 - clock s))]
      else if followup_due c s = Some OS_RESCUE_1
      then [ScheduledFollowup (cv_id c) OS_RESCUE_1 (load_thread_context (cv_id c) s) False
              (max 0 (t + midway 1 2 - clock s))]
      else [])"

text \<open>What the decisions read.\<close>

definition same_threads :: "'a crm_scheme \<Rightarrow> 'a crm_scheme \<Rightarrow> bool" where
  "same_threads s t = (messages t = messages s \<and> clock t = clock s \<and> audit_log t = audit_log s)"

lemma same_threads_cong:
  assumes "same_threads s t"
  shows "thread i t = thread i s" "inbound_of i t = inbound_of i s" "last_inbound i t = last_inbound i s"
    "clock t = clock s" "followup_rows i t = followup_rows i s" "load_thread_context i t = load_thread_context i s"
  using assms by (simp_all add: same_threads_def thread_def inbound_of_def last_inbound_def followup_rows_def load_thread_context_def)

lemma last_time_None: "(last_time ms = None) = (ms = [])"
  by (cases ms) (simp_all add: last_time_def)

lemma tag_conversation_conv:
  "conversations (tag_conversation_contact i n s) = conversations s" "clock (tag_conversation_contact i n s) = clock s"
  "audit_log (tag_conversation_contact i n s) = audit_log s"
  by (simp_all add: tag_conversation_contact_def auto_tag_def ensure_tag_def fresh_id_def Let_def split: option.splits)

lemma update_outreach_same:
  "clock (snd (update_outreach_state i st e s)) = clock s" "audit_log (snd (update_outreach_state i st e s)) = audit_log s"
  by (simp_all add: update_outreach_state_def upd_conv_def split: option.splits)

lemma get_conv_outreach:
  "get_conv j (upd_conv i (\<lambda>c. c\<lparr>cv_outreach_state := Some st\<rparr>) s) =
     (if j = i then map_option (\<lambda>c. c\<lparr>cv_outreach_state := Some st, cv_updated_at := clock s\<rparr>) (get_conv j s) else get_conv j s)"
  using get_upd_conv [of "\<lambda>c. c\<lparr>cv_outreach_state := Some st\<rparr>" j i s] by simp

lemma schedule_selected_frame:
  assumes "\<And>r. sw_dispatches (count r) = sw_dispatches r"
  shows "same_threads s (snd (schedule_selected count i (res, s)))"
    and "j \<noteq> i \<Longrightarrow> get_conv j (snd (schedule_selected count i (res, s))) = get_conv j s"
    and "j \<noteq> i \<Longrightarrow> filter (followup_for j) (sw_dispatches (fst (schedule_selected count i (res, s)))) = filter (followup_for j) (sw_dispatches res)"
proof -
  have "same_threads s (snd (schedule_selected count i (res, s)))
    \<and> (j \<noteq> i \<longrightarrow> get_conv j (snd (schedule_selected count i (res, s))) = get_conv j s
       \<and> filter (followup_for j) (sw_dispatches (fst (schedule_selected count i (res, s)))) = filter (followup_for j) (sw_dispatches res))"
    by (rule schedule_selected_run [OF assms, of i res s]) (simp_all add: get_conv_outreach, simp_all add: same_threads_def upd_conv_def)
  then show "same_threads s (snd (schedule_selected count i (res, s)))"
    and "j \<noteq> i \<Longrightarrow> get_conv j (snd (schedule_selected count i (res, s))) = get_conv j s"
    and "j \<noteq> i \<Longrightarrow> filter (followup_for j) (sw_dispatches (fst (schedule_selected count i (res, s)))) = filter (followup_for j) (sw_dispatches res)"
    by blast+
qed

lemma get_conv_tag [simp]: "get_conv j (tag_conversation_contact i n s) = get_conv j s"
  by (simp add: get_conv_def tag_conversation_conv)

lemma get_conv_update_outreach:
  "get_conv j (snd (update_outreach_state i st None s)) =
     (if j = i then map_option (\<lambda>c. c\<lparr>cv_outreach_state := Some st, cv_updated_at := clock s\<rparr>) (get_conv j s) else get_conv j s)"
  by (auto simp: update_outreach_state_def get_conv_outreach split: option.split)

lemma sweep_conversation_frame:
  "same_threads s (snd (sweep_conversation row (res, s)))"
  "j \<noteq> fst row \<Longrightarrow> get_conv j (snd (sweep_conversation row (res, s))) = get_conv j s"
  "j \<noteq> fst row \<Longrightarrow> filter (followup_for j) (sw_dispatches (fst (sweep_conversation row (res, s)))) = filter (followup_for j) (sw_dispatches res)"
proof -
  obtain i state n latest where row: "row = (i, state, n, latest)" by (cases row)
  have refl: "same_threads s s" by (simp add: same_threads_def)
  have u: "same_threads s (tag_conversation_contact i ''UNRESPONSIVE'' (snd (update_outreach_state i OS_UNRESPONSIVE None s)))"
    by (simp add: same_threads_def tag_conversation_conv update_outreach_same)
  show "same_threads s (snd (sweep_conversation row (res, s)))"
    unfolding row sweep_conversation_def prod.case Let_def
    by (simp add: refl u schedule_selected_frame(1) split: option.split)
  show "j \<noteq> fst row \<Longrightarrow> get_conv j (snd (sweep_conversation row (res, s))) = get_conv j s"
    unfolding row sweep_conversation_def prod.case Let_def
    by (simp add: get_conv_update_outreach schedule_selected_frame(2) split: option.split)
  show "j \<noteq> fst row \<Longrightarrow> filter (followup_for j) (sw_dispatches (fst (sweep_conversation row (res, s)))) = filter (followup_for j) (sw_dispatches res)"
    unfolding row sweep_conversation_def prod.case Let_def
    by (simp add: schedule_selected_frame(3) split: option.split)
qed

lemma inbound_some: "last_inbound i s = Some t \<Longrightarrow> inbound_of i s \<noteq> []"
  using last_time_None [of "inbound_of i s"] by (auto simp: last_inbound_def)

lemma inbound_length: "length (inbound_of i s) \<le> length (thread i s)"
  by (simp add: inbound_of_def)

lemma select_regime_first:
  assumes conv: "get_conv i s = Some c" "cv_outreach_state c = None" and rows: "followup_rows i s = []"
    and t: "last_inbound i s = Some t"
  shows "select_regime i s =
    (if hours 24 \<le> clock s - t then None
     else if length (inbound_of i s) = 1
     then if clock s - t < hours 3 then None else Some (OS_REENGAGE_1, t + midway 3 6, InboundCount 1)
     else if cv_state c = CS_AI_ACTIVE \<and> hours 1 \<le> clock s - t then Some (OS_RESCUE_1, t + midway 1 2, load_thread_context i s)
     else None)"
proof -
  have "cv_id c = i" using get_conv_id [OF conv(1)] .
  moreover have "resolve_followup_stage i s = Some 1" using rows by (simp add: resolve_followup_stage_def)
  moreover have "length (inbound_of i s) = 1 \<or> (length (inbound_of i s) \<noteq> 1 \<and> 2 \<le> length (inbound_of i s))"
    using inbound_some [OF t] by (cases "inbound_of i s") (auto simp: Suc_le_eq)
  ultimately show ?thesis using conv
    by (elim disjE) (auto simp: select_regime_def Let_def t window_open_def free_window_hours_def reengage_regime_def rescue_regime_def
        reengage_1_min_hours_def reengage_1_max_hours_def rescue_1_min_hours_def rescue_1_max_hours_def)
qed

definition due_set :: "uuid \<Rightarrow> outreach_state option \<Rightarrow> 'a crm_scheme \<Rightarrow> bool" where
  "due_set i due s = (map_option cv_outreach_state (get_conv i s) = Some due)"

lemma schedule_selected_due:
  assumes conv: "get_conv i s = Some c" "cv_outreach_state c = None" and sel: "select_regime i s = Some (st, t, ctx)"
    and dispatches: "\<And>r. sw_dispatches (count r) = sw_dispatches r"
  shows "due_set i (Some st) (snd (schedule_selected count i (res, s)))"
    "sw_dispatches (fst (schedule_selected count i (res, s)))
       = sw_dispatches res @ [ScheduledFollowup i st ctx False (max 0 (t - clock s))]"
  using assms by (simp_all add: due_set_def schedule_selected_def schedule_followup_def get_conv_update_outreach)

lemma schedule_selected_none:
  "select_regime i s = None \<Longrightarrow> schedule_selected count i (res, s) = (res, s)"
  by (simp add: schedule_selected_def)

lemma row_result:
  assumes "thread i s \<noteq> []" "same_threads s t"
  shows "sweep_conversation (i, st, length (thread i s), Some u) (res, t) =
     (let age = clock s - u in
      if length (thread i s) = 1
      then if age < hours 3 then (res, t)
           else if hours 24 < age
           then (res, tag_conversation_contact i ''UNRESPONSIVE'' (snd (update_outreach_state i OS_UNRESPONSIVE None t)))
           else schedule_selected (\<lambda>r. r\<lparr>sw_reengage := sw_reengage r + 1\<rparr>) i (res, t)
      else if st = CS_AI_ACTIVE
      then if age < hours 1 \<or> hours 24 < age then (res, t)
           else schedule_selected (\<lambda>r. r\<lparr>sw_rescue := sw_rescue r + 1\<rparr>) i (res, t)
      else (res, t))"
proof -
  have "length (thread i s) \<noteq> 1 \<Longrightarrow> 2 \<le> length (thread i s)" using assms(1) by (cases "thread i s") (auto simp: Suc_le_eq)
  then show ?thesis
    by (auto simp: sweep_conversation_def same_threads_cong(4) [OF assms(2)] Let_def free_window_hours_def
        reengage_1_min_hours_def rescue_1_min_hours_def)
qed

lemma row_decides:
  fixes res :: sweep_result and s t :: "'a crm_scheme"
  assumes same: "same_threads s t" and conv: "get_conv i t = Some c" "cv_outreach_state c = None" "cv_ai_enabled c"
    and rows: "followup_rows i s = []" and thread: "thread i s \<noteq> []"
  defines "r \<equiv> sweep_conversation (i, cv_state c, length (thread i s), last_inbound i s) (res, t)"
  shows "due_set i (followup_due c s) (snd r) \<and> filter (followup_for i) (sw_dispatches (fst r))
      = filter (followup_for i) (sw_dispatches res) @ followup_tasks c s"
proof (cases "last_inbound i s")
  case None
  have "cv_id c = i" by (rule get_conv_id [OF conv(1)])
  then show ?thesis using None conv
    by (simp add: r_def sweep_conversation_def due_set_def followup_due_def followup_tasks_def)
next
  case (Some u)
  have i: "cv_id c = i" by (rule get_conv_id [OF conv(1)])
  note cong = same_threads_cong [OF same]
  define age where "age = clock s - u"
  note sel = select_regime_first [OF conv(1,2) rows [folded cong(5) [of i]] Some [folded cong(3) [of i]], unfolded cong age_def [symmetric]]
  note r = r_def [unfolded Some row_result [OF thread same] Let_def age_def [symmetric]]
  have hrs: "hours 1 < hours 3" "hours 3 < hours 24" by (simp_all add: hours_def microseconds_def)
  have one: "length (thread i s) = 1 \<Longrightarrow> length (inbound_of i s) = 1"
    using inbound_some [OF Some] inbound_length [of i s] by (cases "inbound_of i s") auto
  have none: ?thesis if "r = (res, t)" "followup_due c s = None"
    using that conv i by (simp add: due_set_def followup_tasks_def)
  have due: "followup_due c s = (if length (thread i s) = 1
         then if hours 24 < age then Some OS_UNRESPONSIVE
              else if hours 3 \<le> age \<and> age < hours 24 then Some OS_REENGAGE_1 else None
         else if cv_state c = CS_AI_ACTIVE \<and> age < hours 24
         then if length (inbound_of i s) = 1 then (if hours 3 \<le> age then Some OS_REENGAGE_1 else None)
              else if hours 1 \<le> age then Some OS_RESCUE_1 else None
         else None)"
    using conv by (simp add: followup_due_def i Some age_def Let_def)
  have sched: ?thesis if "r = schedule_selected count i (res, t)" "\<And>r. sw_dispatches (count r) = sw_dispatches r"
      "followup_due c s = map_option fst (select_regime i t)" for count
  proof (cases "select_regime i t")
    case None
    then show ?thesis using none that by (simp add: schedule_selected_none)
  next
    case sel_some: (Some x)
    obtain st v ctx where x: "x = (st, v, ctx)" by (cases x)
    note run = schedule_selected_due [OF conv(1,2) sel_some [unfolded x] that(2), of res]
    have "followup_tasks c s = [ScheduledFollowup i st ctx False (max 0 (v - clock t))]"
      using that(3) sel_some x unfolding sel by (auto simp: followup_tasks_def i Some cong split: if_splits)
    then show ?thesis using run that(1,3) sel_some x by simp
  qed
  show ?thesis
  proof (cases "length (thread i s) = 1 \<and> hours 24 < age")
    case True
    then have "r = (res, tag_conversation_contact i ''UNRESPONSIVE'' (snd (update_outreach_state i OS_UNRESPONSIVE None t)))"
      "followup_due c s = Some OS_UNRESPONSIVE" using hrs by (simp_all add: r due)
    then show ?thesis using conv by (simp add: due_set_def get_conv_update_outreach followup_tasks_def)
  next
    case False
    show ?thesis
    proof (cases "length (thread i s) = 1")
      case True
      note here = True one [OF True]
      show ?thesis
      proof (cases "age < hours 3")
        case True
        then show ?thesis using here hrs by (intro none) (simp_all add: r due)
      next
        case waited: False
        show ?thesis
          by (rule sched [where count = "\<lambda>r. r\<lparr>sw_reengage := sw_reengage r + 1\<rparr>"])
            (use here waited False in \<open>simp_all add: r due sel\<close>)
      qed
    next
      case more: False
      show ?thesis
      proof (cases "cv_state c = CS_AI_ACTIVE \<and> \<not> (age < hours 1 \<or> hours 24 < age)")
        case True
        show ?thesis
          by (rule sched [where count = "\<lambda>r. r\<lparr>sw_rescue := sw_rescue r + 1\<rparr>"])
            (use more True in \<open>simp_all add: r due sel\<close>)
      next
        case False
        then show ?thesis using more hrs by (intro none) (auto simp: r due)
      qed
    qed
  qed
qed

text \<open>The rows of other conversations do not matter.\<close>

lemma sweep_rows_frame:
  assumes "j \<notin> fst ` set rows"
  shows "same_threads s (snd (fold sweep_conversation rows (res, s)))"
    "get_conv j (snd (fold sweep_conversation rows (res, s))) = get_conv j s"
    "filter (followup_for j) (sw_dispatches (fst (fold sweep_conversation rows (res, s)))) = filter (followup_for j) (sw_dispatches res)"
proof -
  have "same_threads s (snd (fold sweep_conversation rows (res, s)))
    \<and> get_conv j (snd (fold sweep_conversation rows (res, s))) = get_conv j s
    \<and> filter (followup_for j) (sw_dispatches (fst (fold sweep_conversation rows (res, s)))) = filter (followup_for j) (sw_dispatches res)"
    using assms
  proof (induction rows arbitrary: res s)
    case (Cons row rows)
    obtain res1 s1 where one: "sweep_conversation row (res, s) = (res1, s1)" by fastforce
    have j: "j \<noteq> fst row" "j \<notin> fst ` set rows" using Cons.prems by auto
    show ?case
      using Cons.IH [OF j(2), of s1 res1] sweep_conversation_frame(1) [of s row res]
        sweep_conversation_frame(2,3) [OF j(1), of res s]
      by (simp add: one same_threads_def)
  qed (simp add: same_threads_def)
  then show "same_threads s (snd (fold sweep_conversation rows (res, s)))"
    "get_conv j (snd (fold sweep_conversation rows (res, s))) = get_conv j s"
    "filter (followup_for j) (sw_dispatches (fst (fold sweep_conversation rows (res, s)))) = filter (followup_for j) (sw_dispatches res)"
    by blast+
qed

lemma due_set_cong: "get_conv i t = get_conv i s \<Longrightarrow> due_set i x t = due_set i x s"
  by (simp add: due_set_def)

lemma sweep_in_window_decides:
  assumes ids: "distinct (map cv_id (conversations s))" and c: "c \<in> set (conversations s)"
    and rows: "followup_rows (cv_id c) s = []"
  defines "p \<equiv> fold sweep_conversation (sweep_candidates s) (no_followups, s)"
  shows "due_set (cv_id c) (case followup_due c s of None \<Rightarrow> cv_outreach_state c | Some st \<Rightarrow> Some st) (snd p)
    \<and> filter (followup_for (cv_id c)) (sw_dispatches (fst p)) = followup_tasks c s"
proof -
  let ?i = "cv_id c" and ?row = "(cv_id c, cv_state c, length (thread (cv_id c) s), last_inbound (cv_id c) s)"
  have conv: "get_conv ?i s = Some c" using get_by_mem [OF ids c] by (simp add: get_conv_def)
  have fst_rows: "map fst (sweep_candidates s) = map cv_id (filter (\<lambda>c. cv_outreach_state c = None \<and> cv_ai_enabled c
      \<and> thread (cv_id c) s \<noteq> []) (conversations s))" by (simp add: sweep_candidates_def comp_def)
  show ?thesis
  proof (cases "cv_outreach_state c = None \<and> cv_ai_enabled c \<and> thread ?i s \<noteq> []")
    case True
    then have "?row \<in> set (sweep_candidates s)" using c by (auto simp: sweep_candidates_def)
    then obtain xs ys where split: "sweep_candidates s = xs @ ?row # ys" by (meson split_list)
    have "distinct (map fst (sweep_candidates s))" unfolding fst_rows using ids by (rule distinct_map_filter)
    then have others: "?i \<notin> fst ` set xs" "?i \<notin> fst ` set ys" unfolding split by auto
    obtain res1 t where before: "fold sweep_conversation xs (no_followups, s) = (res1, t)" by fastforce
    note a = sweep_rows_frame [OF others(1), where s = s and res = no_followups, unfolded before fst_conv snd_conv]
    obtain res2 u where here: "sweep_conversation ?row (res1, t) = (res2, u)" by fastforce
    have "get_conv ?i t = Some c" using a(2) conv by simp
    from row_decides [OF a(1) this _ _ rows, of res1] True here
    have b: "due_set ?i (followup_due c s) u"
      "filter (followup_for ?i) (sw_dispatches res2) = filter (followup_for ?i) (sw_dispatches res1) @ followup_tasks c s" by simp_all
    note d = sweep_rows_frame [OF others(2), where s = u and res = res2]
    have p: "p = fold sweep_conversation ys (res2, u)" by (simp add: p_def split before here)
    have "filter (followup_for ?i) (sw_dispatches res1) = []" using a(3) by (simp add: no_followups_def)
    then have "filter (followup_for ?i) (sw_dispatches (fst p)) = followup_tasks c s" unfolding p d(3) b(2) by simp
    moreover have "due_set ?i (followup_due c s) (snd p)" unfolding p using due_set_cong [OF d(2)] b(1) by simp
    ultimately show ?thesis using True by (auto split: option.split)
  next
    case False
    then have none: "followup_due c s = None"
      using last_time_None [of "inbound_of ?i s"] by (auto simp: followup_due_def last_inbound_def inbound_of_def)
    have "?i \<notin> fst ` set (sweep_candidates s)"
    proof
      assume "?i \<in> fst ` set (sweep_candidates s)"
      then have "?i \<in> set (map fst (sweep_candidates s))" by simp
      then obtain d where d: "d \<in> set (conversations s)" "cv_id d = ?i" "cv_outreach_state d = None \<and> cv_ai_enabled d
          \<and> thread (cv_id d) s \<noteq> []" unfolding fst_rows by auto
      then have "d = c" using ids c by (metis (no_types, lifting) distinct_map inj_onD)
      then show False using d False by simp
    qed
    note a = sweep_rows_frame [OF this, where s = s and res = no_followups, folded p_def]
    show ?thesis using a conv none by (simp add: due_set_def followup_tasks_def no_followups_def)
  qed
qed

lemma sweep_cold_frame:
  "conversations (snd (fold sweep_cold rs p)) = conversations (snd p)
   \<and> filter (followup_for i) (sw_dispatches (fst (fold sweep_cold rs p))) = filter (followup_for i) (sw_dispatches (fst p))"
proof (induction rs arbitrary: p)
  case (Cons r rs)
  show ?case using Cons.IH [of "sweep_cold r p"]
    by (auto simp: sweep_cold_def set_recipient_outreach_def split: prod.splits)
qed simp

section \<open>Properties\<close>

text \<open>A conversation in the hands of the AI whose one message came in four hours ago, and the surroundings.\<close>

definition demo_silent :: crm where
  "demo_silent = demo_chat\<lparr>
     conversations := [\<lparr>cv_id = 20, cv_contact_id = 10, cv_state = CS_AI_ACTIVE, cv_outreach_state = None,
       cv_ai_enabled = True, cv_locked_by = None, cv_lock_expires_at = None, cv_last_message_at = None,
       cv_last_read_at = None, cv_created_at = 0, cv_updated_at = 0\<rparr>],
     messages := [(new_message 20 INBOUND SENDER_CONTACT ''hello'' MSG_DELIVERED (1000000000000 - 14400000000))\<lparr>ms_id := 30\<rparr>]\<rparr>"

definition demo_engagement :: engagement_env where
  "demo_engagement = \<lparr>ee_zone_hour = (\<lambda>z t. None), ee_timezone = None, ee_propose = (\<lambda>p. Some ''still interested?'')\<rparr>"

lemmas engagement_demo_evals = demo_silent_def demo_engagement_def demo_chat_def new_message_def

text \<open>A database the policy has not touched yet.\<close>

definition untouched :: "'a crm_scheme \<Rightarrow> bool" where
  "untouched s = ((\<forall>c\<in>set (conversations s). cv_id c < next_id s) \<and> (\<forall>i. followups i s = 0) \<and> stage_inv s)"

lemma untouched_inv: "untouched s \<Longrightarrow> once_inv s \<and> stage_inv s"
  by (simp add: untouched_def once_inv_def)

lemma demo_untouched: "untouched demo_silent"
  by (simp add: untouched_def stage_inv_def followups_def engagement_demo_evals)

text \<open>C33: A conversation gets at most one follow-up in its life: in any run of sweeps, follow-ups, webhooks, sendings and
  anything else that leaves the outreach state to them, never more than one follow-up is scheduled for it. The
  policy documents two follow-ups for each regime.\<close>

theorem one_followup_ever:
  assumes "engage_step\<^sup>*\<^sup>* s s'" "untouched s"
  shows "length (filter (followup_for i) (task_queue s')) \<le> 1"
  using engage_steps_invs [OF assms(1)] untouched_inv [OF assms(2)] by (simp add: once_inv_def followups_def)

theorem one_followup_ever_witness:
  "length (filter (followup_for 20) (task_queue (snd (engagement_sweep demo_silent)))) \<le> 1
   \<and> filter (followup_for 20) (task_queue (snd (engagement_sweep demo_silent)))
     = [ScheduledFollowup 20 OS_REENGAGE_1 (InboundCount 1) False 1800000000]"
proof
  have "engage_step\<^sup>*\<^sup>* demo_silent (snd (engagement_sweep demo_silent))" by (rule r_into_rtranclp, rule engage_step.sweep)
  then show "length (filter (followup_for 20) (task_queue (snd (engagement_sweep demo_silent)))) \<le> 1"
    by (rule one_followup_ever [OF _ demo_untouched])
  show "filter (followup_for 20) (task_queue (snd (engagement_sweep demo_silent)))
     = [ScheduledFollowup 20 OS_REENGAGE_1 (InboundCount 1) False 1800000000]"
    by code_simp
qed

text \<open>C34: The second stage and the cold track are dead: from a database the policy has not touched, no run brings a
  conversation to REENGAGE_2 or RESCUE_2, and no sweep follows up a campaign recipient. The stage is counted in
  audit rows that no code writes, and OUTREACH_SENT is set nowhere.\<close>

theorem later_stages_dead:
  assumes "engage_step\<^sup>*\<^sup>* s s'" "untouched s"
  shows "sw_cold (fst (engagement_sweep s')) = 0
    \<and> (\<forall>c\<in>set (conversations s'). cv_outreach_state c \<notin> {Some OS_REENGAGE_2, Some OS_RESCUE_2})
    \<and> (\<forall>c\<in>set (conversations (snd (engagement_sweep s'))). cv_outreach_state c \<notin> {Some OS_REENGAGE_2, Some OS_RESCUE_2})"
proof -
  have inv: "once_inv s'" "stage_inv s'"
    using engage_steps_invs [OF assms(1)] untouched_inv [OF assms(2)] by blast+
  have "stage_inv (snd (engagement_sweep s'))" by (rule sweep_invs(2) [OF inv])
  then show ?thesis using inv(2) sweep_invs(3) [OF inv] by (auto simp: stage_inv_def second_stage_def)
qed

theorem later_stages_dead_witness:
  "sw_cold (fst (engagement_sweep (snd (engagement_sweep demo_silent)))) = 0
   \<and> map cv_outreach_state (conversations (snd (engagement_sweep demo_silent))) = [Some OS_REENGAGE_1]"
proof
  have "engage_step\<^sup>*\<^sup>* demo_silent (snd (engagement_sweep demo_silent))" by (rule r_into_rtranclp, rule engage_step.sweep)
  from later_stages_dead [OF this demo_untouched]
  show "sw_cold (fst (engagement_sweep (snd (engagement_sweep demo_silent)))) = 0" by simp
  show "map cv_outreach_state (conversations (snd (engagement_sweep demo_silent))) = [Some OS_REENGAGE_1]" by code_simp
qed

text \<open>C35: What a sweep does to each conversation, whatever the others are: one silent message older than 24 hours makes
  it UNRESPONSIVE; within the 24 hours, a single inbound message at least three hours old (with no other message, or in the hands of the
  AI) leads to REENGAGE_1 with the task four and a half hours after that message; two or more, at least an hour old and in the
  hands of the AI, to RESCUE_1 one and a half hours after the last; otherwise its state stays and no task is made.\<close>

theorem sweep_decides:
  assumes "distinct (map cv_id (conversations s))" "c \<in> set (conversations s)" "followup_rows (cv_id c) s = []"
  shows "map_option cv_outreach_state (get_conv (cv_id c) (snd (engagement_sweep s)))
      = Some (case followup_due c s of None \<Rightarrow> cv_outreach_state c | Some st \<Rightarrow> Some st)
    \<and> filter (followup_for (cv_id c)) (sw_dispatches (fst (engagement_sweep s))) = followup_tasks c s"
proof -
  let ?p = "fold sweep_conversation (sweep_candidates s) (no_followups, s)"
  let ?q = "fold sweep_cold (filter (cold_candidate (clock s)) (campaign_recipients (snd ?p))) ?p"
  note cold = sweep_cold_frame [of "filter (cold_candidate (clock s)) (campaign_recipients (snd ?p))" ?p "cv_id c"]
  have convs: "conversations (snd (engagement_sweep s)) = conversations (snd ?p)"
    unfolding sweep_flush flush_def using cold by simp
  have tasks: "sw_dispatches (fst (engagement_sweep s)) = sw_dispatches (fst ?q)"
    by (simp add: engagement_sweep_def Let_def case_prod_unfold)
  show ?thesis
    using sweep_in_window_decides [OF assms] cold
    by (simp add: due_set_def get_conv_def convs tasks)
qed

theorem sweep_decides_witness:
  "map_option cv_outreach_state (get_conv 20 (snd (engagement_sweep demo_silent))) = Some (Some OS_REENGAGE_1)
   \<and> followup_due (hd (conversations demo_silent)) demo_silent = Some OS_REENGAGE_1"
proof -
  have due: "followup_due (hd (conversations demo_silent)) demo_silent = Some OS_REENGAGE_1" by code_simp
  have demo: "distinct (map cv_id (conversations demo_silent))" "hd (conversations demo_silent) \<in> set (conversations demo_silent)"
    "followup_rows (cv_id (hd (conversations demo_silent))) demo_silent = []" "cv_id (hd (conversations demo_silent)) = 20"
    by (simp_all add: engagement_demo_evals followup_rows_def)
  from sweep_decides [OF demo(1-3)] show ?thesis using due demo(4) by simp
qed



end
