(* ===== verification/Operational.thy ===== *)
theory Operational
  imports Strings
begin

text \<open>
  The operational settings (backend/app/modules/settings/operational.py and the validators of schemas.py): business
  hours, the daily cap and the waits computed from them. The wall clock of the configured zone is an integer of
  microseconds whose days start at the multiples of a day; the conversion from UTC belongs to \<open>zoneinfo\<close>.
\<close>

section \<open>Times of day\<close>

text \<open>\<open>int(text)\<close> of Python: spaces around, a sign, and digits with single underscores between them.\<close>

definition digit_value :: "char \<Rightarrow> int" where
  "digit_value c = int (of_char c) - 48"

definition digits_value :: "string \<Rightarrow> int" where
  "digits_value ds = foldl (\<lambda>n c. 10 * n + digit_value c) 0 ds"

definition py_int :: "string \<Rightarrow> int option" where
  "py_int raw =
     (let w = strip raw;
          (sign, body) = (case w of [] \<Rightarrow> (1, []) | c # cs \<Rightarrow>
             if c = CHR ''-'' then (-1, cs) else if c = CHR ''+'' then (1, cs) else (1, w));
          groups = split_on (CHR ''_'') body
      in if list_all (\<lambda>g. g \<noteq> [] \<and> list_all ascii_digit g) groups
         then Some (sign * digits_value (concat groups)) else None)"

text \<open>\<open>_parse_hhmm\<close>, in minutes of the day: a text that is no time gives the fallback.\<close>

definition parse_hhmm :: "string \<Rightarrow> int \<Rightarrow> int" where
  "parse_hhmm raw fallback =
     (case split_on (CHR '':'') raw of
        [h, m] \<Rightarrow> (case (py_int h, py_int m) of
           (Some a, Some b) \<Rightarrow> if 0 \<le> a \<and> a \<le> 23 \<and> 0 \<le> b \<and> b \<le> 59 then 60 * a + b else fallback
         | _ \<Rightarrow> fallback)
      | _ \<Rightarrow> fallback)"

text \<open>The pattern \<open>^([01]\d|2[0-3]):[0-5]\d$\<close> on ASCII texts; \<open>$\<close> also matches before a final newline.\<close>

fun hhmm_shape :: "string \<Rightarrow> bool" where
  "hhmm_shape [a, b, c, d, e] = (((a \<in> {CHR ''0'', CHR ''1''} \<and> ascii_digit b) \<or> (a = CHR ''2'' \<and> b \<in> {CHR ''0'', CHR ''1'', CHR ''2'', CHR ''3''}))
     \<and> c = CHR '':'' \<and> d \<in> {CHR ''0'', CHR ''1'', CHR ''2'', CHR ''3'', CHR ''4'', CHR ''5''} \<and> ascii_digit e)"
| "hhmm_shape [a, b, c, d, e, f] = (hhmm_shape [a, b, c, d, e] \<and> f = CHR 0x0A)"
| "hhmm_shape _ = False"

record business_hours =
  bh_enabled :: bool
  bh_start :: string
  bh_end :: string

text \<open>\<open>BusinessHoursModel\<close>: both texts are times and the end comes after the start, as texts.\<close>

definition valid_business_hours :: "business_hours \<Rightarrow> bool" where
  "valid_business_hours b = (hhmm_shape (bh_start b) \<and> hhmm_shape (bh_end b) \<and> \<not> bh_end b \<le> bh_start b)"

section \<open>The configuration\<close>

record operational_config =
  oc_hours_enabled :: bool
  oc_start :: int
  oc_end :: int
  oc_cap_enabled :: bool
  oc_cap_limit :: int

text \<open>
  \<open>read_operational_config_sync\<close>: a stored row by the fields it has, \<open>None\<close> where a field is missing. Values of
  a wrong type are not modelled.
\<close>

definition read_operational_config ::
  "(bool option \<times> string option \<times> string option) option \<Rightarrow> (bool option \<times> int option) option \<Rightarrow> operational_config" where
  "read_operational_config hours cap =
     (let (e, st, en) = (case hours of None \<Rightarrow> (None, None, None) | Some r \<Rightarrow> r);
          (ce, cl) = (case cap of None \<Rightarrow> (None, None) | Some r \<Rightarrow> r)
      in \<lparr>oc_hours_enabled = (case e of None \<Rightarrow> False | Some b \<Rightarrow> b),
          oc_start = parse_hhmm (case st of None \<Rightarrow> ''09:00'' | Some w \<Rightarrow> w) 540,
          oc_end = parse_hhmm (case en of None \<Rightarrow> ''18:00'' | Some w \<Rightarrow> w) 1080,
          oc_cap_enabled = (case ce of None \<Rightarrow> True | Some b \<Rightarrow> b),
          oc_cap_limit = (case cl of None \<Rightarrow> 800 | Some n \<Rightarrow> n)\<rparr>)"

section \<open>The clock\<close>

definition second_us :: int where
  "second_us = 1000000"

definition day_us :: int where
  "day_us = 86400 * second_us"

definition minutes_us :: "int \<Rightarrow> int" where
  "minutes_us m = m * 60 * second_us"

definition is_within_business_hours :: "operational_config \<Rightarrow> int \<Rightarrow> bool" where
  "is_within_business_hours cfg local =
     (\<not> oc_hours_enabled cfg
      \<or> (minutes_us (oc_start cfg) \<le> local mod day_us \<and> local mod day_us < minutes_us (oc_end cfg)))"

definition seconds_until_window_open :: "operational_config \<Rightarrow> int \<Rightarrow> int" where
  "seconds_until_window_open cfg local =
     (let open_today = local - local mod day_us + minutes_us (oc_start cfg);
          target = (if local < open_today then open_today else open_today + day_us)
      in max 1 ((target - local) div second_us))"

definition seconds_until_local_midnight :: "int \<Rightarrow> int" where
  "seconds_until_local_midnight local =
     (let next_midnight = local + day_us - (local + day_us) mod day_us
      in max 1 ((next_midnight - local) div second_us))"

text \<open>The day of \<open>daily_counter_key\<close>.\<close>

definition daily_counter_key :: "int \<Rightarrow> int" where
  "daily_counter_key local = local div day_us"

lemmas operational_evals = digit_value_def digits_value_def py_int_def parse_hhmm_def valid_business_hours_def
  read_operational_config_def second_us_def day_us_def minutes_us_def is_within_business_hours_def
  seconds_until_window_open_def seconds_until_local_midnight_def daily_counter_key_def

declare operational_evals [evals]

section \<open>Waiting for the window\<close>

definition hours_ok :: "operational_config \<Rightarrow> bool" where
  "hours_ok cfg = (0 \<le> oc_start cfg \<and> oc_start cfg < oc_end cfg \<and> oc_end cfg < 24 * 60)"

text \<open>The time until the clock, now \<open>t\<close> into its day, shows \<open>a\<close>.\<close>

definition until_open :: "int \<Rightarrow> int \<Rightarrow> int" where
  "until_open a t = (if t < a then a - t else a - t + day_us)"

lemma clock_sizes: "0 < second_us" "60 * second_us < day_us" "0 < day_us" "day_us = 86400 * second_us"
  by (simp_all add: second_us_def day_us_def)

lemma until_open_later: "(local + until_open a (local mod day_us) + k) mod day_us = (a + k) mod day_us"
proof -
  have "local + until_open a (local mod day_us) + k = (a + k) + day_us * (local div day_us) \<or>
    local + until_open a (local mod day_us) + k = (a + k) + day_us * (local div day_us + 1)"
    using div_mult_mod_eq [of local day_us] by (auto simp: until_open_def algebra_simps)
  then show ?thesis by (metis mod_mult_self2)
qed

lemma until_open_bounds:
  "0 \<le> a \<Longrightarrow> a < day_us \<Longrightarrow> 0 < until_open a (local mod day_us) \<and> until_open a (local mod day_us) \<le> day_us"
  using pos_mod_bound [OF clock_sizes(3), of local] pos_mod_sign [OF clock_sizes(3), of local]
  by (cases "local mod day_us < a") (simp_all only: until_open_def if_True if_False, linarith+)

text \<open>Shortly before the opening, the time until it is what is left.\<close>

lemma until_open_short:
  assumes "0 \<le> a" "a < day_us" "0 < r" "r < day_us"
  shows "until_open a ((local + until_open a (local mod day_us) - r) mod day_us) = r"
proof -
  have "(local + until_open a (local mod day_us) - r) mod day_us = (a - r) mod day_us"
    using until_open_later [of local a "- r"] by simp
  also have "\<dots> = (if r \<le> a then a - r else a - r + day_us)"
  proof (cases "r \<le> a")
    case False
    have "(a - r) mod day_us = (a - r + day_us) mod day_us" by simp
    also have "\<dots> = a - r + day_us" by (rule mod_pos_pos_trivial) (use False assms in simp_all)
    finally show ?thesis using False by simp
  qed (use assms in \<open>simp add: mod_pos_pos_trivial\<close>)
  finally show ?thesis using assms by (simp add: until_open_def)
qed

lemma seconds_until_open:
  "seconds_until_window_open cfg local = max 1 (until_open (minutes_us (oc_start cfg)) (local mod day_us) div second_us)"
  by (simp add: seconds_until_window_open_def until_open_def Let_def algebra_simps)

lemma open_minute:
  assumes "hours_ok cfg" "0 \<le> k" "k < 60 * second_us"
  shows "is_within_business_hours cfg (local + until_open (minutes_us (oc_start cfg)) (local mod day_us) + k)"
proof -
  have "0 \<le> minutes_us (oc_start cfg)" "minutes_us (oc_start cfg) + 60 * second_us \<le> minutes_us (oc_end cfg)"
    "minutes_us (oc_end cfg) < day_us"
    using assms(1) by (simp_all add: hours_ok_def minutes_us_def day_us_def second_us_def)
  then show ?thesis using assms(2,3)
    by (simp add: is_within_business_hours_def until_open_later mod_pos_pos_trivial)
qed

text \<open>C32: The wait computed outside business hours leads to them: it is between one second and a day, and after it the
  window is open, or, because the fraction of a second is cut off, a second wait of one second opens it. So a campaign
  is deferred at most twice for one closed window, when the clock of the zone runs on without a jump.\<close>

theorem window_reached:
  assumes "hours_ok cfg" "\<not> is_within_business_hours cfg local"
  shows "1 \<le> seconds_until_window_open cfg local \<and> seconds_until_window_open cfg local \<le> 86400
    \<and> (let later = local + seconds_until_window_open cfg local * second_us
       in is_within_business_hours cfg later
          \<or> (seconds_until_window_open cfg later = 1 \<and> is_within_business_hours cfg (later + second_us)))"
proof -
  define a where "a = minutes_us (oc_start cfg)"
  define d where "d = until_open a (local mod day_us)"
  define c where "c = seconds_until_window_open cfg local"
  have a: "0 \<le> a" "a < day_us"
    using assms(1) by (simp_all add: a_def hours_ok_def minutes_us_def day_us_def second_us_def)
  have d: "0 < d" "d \<le> day_us" using until_open_bounds [OF a] by (simp_all add: d_def)
  have c: "c = max 1 (d div second_us)" by (simp add: c_def d_def a_def seconds_until_open)
  note within = open_minute [OF assms(1), of _ local, folded a_def, folded d_def]
  have qr: "d = d div second_us * second_us + d mod second_us" "0 \<le> d mod second_us" "d mod second_us < second_us" "0 \<le> d div second_us"
    using clock_sizes(1) d(1) by (simp_all add: pos_imp_zdiv_nonneg_iff)
  have "d div second_us \<le> day_us div second_us" using d(2) clock_sizes(1) by (intro zdiv_mono1)
  then have bounds: "1 \<le> c \<and> c \<le> 86400" by (simp add: c clock_sizes(4) clock_sizes(1) [THEN less_imp_neq, symmetric])
  have "is_within_business_hours cfg (local + c * second_us)
      \<or> (seconds_until_window_open cfg (local + c * second_us) = 1
         \<and> is_within_business_hours cfg (local + c * second_us + second_us))"
  proof (cases "d div second_us = 0 \<or> d mod second_us = 0")
    case True
    then have "0 \<le> c * second_us - d \<and> c * second_us - d \<le> second_us"
    proof
      assume "d div second_us = 0"
      then have "d = d mod second_us" "c * second_us = second_us" using qr(1) by (simp_all add: c)
      then show ?thesis using qr(3) d(1) by simp
    next
      assume r: "d mod second_us = 0"
      then have exact: "d = d div second_us * second_us" using qr(1) by simp
      then have "1 \<le> d div second_us" using d(1) qr(4) by (cases "d div second_us = 0") simp_all
      then have "c * second_us = d" using exact by (simp add: c)
      then show ?thesis using clock_sizes(1) by simp
    qed
    then show ?thesis using within [of "c * second_us - d"] clock_sizes(1) by simp
  next
    case False
    then have r: "0 < d mod second_us" and "c = d div second_us" using qr(2,4) by (simp_all add: c)
    then have x: "c * second_us = d - d mod second_us" by (simp add: minus_mod_eq_div_mult)
    then have now: "local + c * second_us + second_us = local + d + (second_us - d mod second_us)"
      "local + c * second_us = local + d - d mod second_us" by simp_all
    have "is_within_business_hours cfg (local + c * second_us + second_us)"
      unfolding now(1) by (rule within) (insert qr(2,3) clock_sizes(1), linarith+)
    moreover have "until_open a ((local + c * second_us) mod day_us) = d mod second_us"
      unfolding now(2) d_def by (rule until_open_short [OF a r [unfolded d_def]]) (insert qr(3) clock_sizes(1,2), unfold d_def, linarith)
    ultimately show ?thesis using qr(2,3) by (simp add: seconds_until_open a_def div_pos_pos_trivial)
  qed
  then show ?thesis using bounds by (simp only: c_def [symmetric] Let_def)
qed

theorem window_reached_witness:
  "seconds_until_window_open (read_operational_config (Some (Some True, None, None)) None) (20 * 3600 * second_us + 5) = 46799"
  using window_reached [of "read_operational_config (Some (Some True, None, None)) None" "20 * 3600 * second_us + 5"]
  by code_simp

section \<open>Times as texts\<close>

text \<open>The validator compares texts; on the texts it admits that is the order of the times.\<close>

lemma digit_bounds: "ascii_digit c \<Longrightarrow> 0 \<le> digit_value c \<and> digit_value c \<le> 9"
  by (auto simp: ascii_digit_def digit_value_def)

lemma digit_order: "ascii_digit c \<Longrightarrow> ascii_digit d \<Longrightarrow> (c < d) = (digit_value c < digit_value d)"
  by (auto simp: ascii_digit_def digit_value_def less_char_def)

lemma digit_inj: "ascii_digit c \<Longrightarrow> ascii_digit d \<Longrightarrow> (c = d) = (digit_value c = digit_value d)"
  by (auto simp: ascii_digit_def digit_value_def)

lemma digit_no_space: "ascii_digit c \<Longrightarrow> \<not> py_space c \<and> c \<noteq> CHR ''-'' \<and> c \<noteq> CHR ''+'' \<and> c \<noteq> CHR ''_'' \<and> c \<noteq> CHR '':''"
  by (auto simp: ascii_digit_def py_space_def)

lemma py_int_two: "ascii_digit a \<Longrightarrow> ascii_digit b \<Longrightarrow> py_int [a, b] = Some (10 * digit_value a + digit_value b)"
  using digit_no_space [of a] digit_no_space [of b]
  by (simp add: py_int_def strip_def digits_value_def Let_def)

lemma hhmm_digits:
  assumes "hhmm_shape [a, b, c, d, e]"
  shows "ascii_digit a \<and> ascii_digit b \<and> c = CHR '':'' \<and> ascii_digit d \<and> ascii_digit e
    \<and> 10 * digit_value a + digit_value b \<le> 23 \<and> digit_value d \<le> 5"
  using assms digit_bounds [of b] by (auto simp: ascii_digit_def digit_value_def)

lemma parse_hhmm_shape:
  assumes "hhmm_shape [a, b, c, d, e]"
  shows "parse_hhmm [a, b, c, d, e] f = 60 * (10 * digit_value a + digit_value b) + (10 * digit_value d + digit_value e)"
proof -
  note h = hhmm_digits [OF assms]
  have "split_on (CHR '':'') [a, b, c, d, e] = [[a, b], [d, e]]"
    using h digit_no_space by simp
  then show ?thesis using h digit_bounds [of a] digit_bounds [of b] digit_bounds [of d] digit_bounds [of e]
    by (simp add: parse_hhmm_def py_int_two)
qed

lemma length_five: "length w = 5 \<Longrightarrow> \<exists>a b c d e. w = [a, b, c, d, e]"
  by (auto simp: length_Suc_conv eval_nat_numeral)

text \<open>Business hours the settings form admits give a window: on texts of five characters the order of the texts, which the
  validator checks, is the order of the times the worker reads from them.\<close>

theorem admitted_hours_open:
  assumes "valid_business_hours b" "length (bh_start b) = 5" "length (bh_end b) = 5"
  shows "hours_ok (read_operational_config (Some (Some True, Some (bh_start b), Some (bh_end b))) cap)"
proof -
  obtain a1 b1 c1 d1 e1 where s: "bh_start b = [a1, b1, c1, d1, e1]" using length_five [OF assms(2)] by blast
  obtain a2 b2 c2 d2 e2 where e: "bh_end b = [a2, b2, c2, d2, e2]" using length_five [OF assms(3)] by blast
  have shape: "hhmm_shape [a1, b1, c1, d1, e1]" "hhmm_shape [a2, b2, c2, d2, e2]"
    using assms(1) by (simp_all add: valid_business_hours_def s e)
  have "\<not> bh_end b \<le> bh_start b" using assms(1) by (simp add: valid_business_hours_def)
  then have less: "[a1, b1, c1, d1, e1] < [a2, b2, c2, d2, e2]" unfolding s e by (rule not_le_imp_less)
  note h1 = hhmm_digits [OF shape(1)] and h2 = hhmm_digits [OF shape(2)]
  have "60 * (10 * digit_value a1 + digit_value b1) + (10 * digit_value d1 + digit_value e1)
      < 60 * (10 * digit_value a2 + digit_value b2) + (10 * digit_value d2 + digit_value e2)"
    using less h1 h2 digit_bounds [of b1] digit_bounds [of b2] digit_bounds [of d1] digit_bounds [of d2] digit_bounds [of e1] digit_bounds [of e2]
    by (simp add: digit_order digit_inj) linarith
  then have lt: "parse_hhmm (bh_start b) f < parse_hhmm (bh_end b) g" for f g
    by (simp only: s e parse_hhmm_shape [OF shape(1)] parse_hhmm_shape [OF shape(2)])
  have "0 \<le> parse_hhmm (bh_start b) f" for f
    unfolding s parse_hhmm_shape [OF shape(1)]
    using h1 digit_bounds [of a1] digit_bounds [of b1] digit_bounds [of d1] digit_bounds [of e1] by simp
  moreover have "parse_hhmm (bh_end b) g < 24 * 60" for g
    unfolding e parse_hhmm_shape [OF shape(2)]
    using h2 digit_bounds [of e2] by simp
  ultimately show ?thesis
    using lt by (simp add: hours_ok_def read_operational_config_def Let_def split_beta)
qed

theorem admitted_hours_open_witness:
  "hours_ok (read_operational_config (Some (Some True, Some ''08:30'', Some ''21:00'')) None)"
proof -
  have "valid_business_hours \<lparr>bh_enabled = True, bh_start = ''08:30'', bh_end = ''21:00''\<rparr>" by code_simp
  from admitted_hours_open [OF this, of None] show ?thesis by simp
qed

end
