(* ===== verification/Campaigns.thy ===== *)
theory Campaigns
  imports Messaging Operational
begin

text \<open>
  Campaigns (backend/app/modules/campaigns: constants.py, service.py, the endpoints of router.py): the life of
  a campaign from its draft to its launch, its report and the categories. The workers are in \<open>CampaignTasks\<close>. Names, titles
  and descriptions are left out where no decision reads them.
\<close>

section \<open>Constants\<close>

fun campaign_transitions :: "campaign_status \<Rightarrow> campaign_status list" where
  "campaign_transitions CP_DRAFT = [CP_VALIDATING, CP_CANCELLED]"
| "campaign_transitions CP_VALIDATING = [CP_SCHEDULED, CP_FAILED, CP_DRAFT]"
| "campaign_transitions CP_SCHEDULED = [CP_QUEUED, CP_CANCELLED, CP_SCHEDULED]"
| "campaign_transitions CP_QUEUED = [CP_DISPATCHING, CP_CANCELLED]"
| "campaign_transitions CP_DISPATCHING = [CP_COMPLETED, CP_SCHEDULED, CP_CANCELLED, CP_FAILED]"
| "campaign_transitions CP_COMPLETED = []"
| "campaign_transitions CP_FAILED = []"
| "campaign_transitions CP_CANCELLED = []"

definition campaign_batch_size :: nat where
  "campaign_batch_size = 100"

definition campaign_default_rate_per_sec :: int where
  "campaign_default_rate_per_sec = 10"

definition campaign_completion_poll_seconds :: int where
  "campaign_completion_poll_seconds = 30"

section \<open>State\<close>

text \<open>
  The table of categories extends the CRM. What the code reads from elsewhere is a record: the
  operational settings, the wall clock of their zone at a time in UTC (\<open>zoneinfo\<close>), the global rate of
  the settings, \<open>croniter\<close>'s validity and next run, the text of an exception and the text of an identifier.
\<close>

record campaign_category =
  cc_id :: uuid
  cc_name :: string
  cc_description :: "string option"
  cc_color :: "string option"

record campaign_crm = crm +
  campaign_categories :: "campaign_category list"

record campaign_env =
  ce_config :: operational_config
  ce_local :: "int \<Rightarrow> int"
  ce_global_rate :: "int option"
  ce_cron_valid :: "string \<Rightarrow> bool"
  ce_cron_next :: "string \<Rightarrow> int \<Rightarrow> int"
  ce_error_text :: "err \<Rightarrow> string"
  ce_uuid_text :: "uuid \<Rightarrow> string"

section \<open>CampaignService\<close>

definition campaign_assert_transition :: "campaign_status \<Rightarrow> campaign_status \<Rightarrow> err + unit" where
  "campaign_assert_transition current target =
     ensure (target \<in> set (campaign_transitions current)) StateTransitionError"

definition campaign_or_404 :: "uuid \<Rightarrow> 'a crm_scheme \<Rightarrow> err + campaign" where
  "campaign_or_404 i s = from_opt NotFoundError (get_campaign i s)"

definition campaign_audit :: "string \<Rightarrow> uuid \<Rightarrow> uuid option \<Rightarrow> 'a crm_scheme \<Rightarrow> 'a crm_scheme" where
  "campaign_audit action campaign_id actor_id s = audit_append
     \<lparr>au_actor_type = (if actor_id = None then ''system'' else ''user''), au_actor_id = actor_id, au_action = action,
      au_entity_type = ''campaign'', au_entity_id = Some campaign_id\<rparr> s"

record campaign_request =
  rq_template_id :: uuid
  rq_type :: campaign_type
  rq_scheduled_at :: "int option"
  rq_cron_expression :: "string option"
  rq_audience_filter :: audience_filter
  rq_rate_limit_per_second :: "nat option"
  rq_category_id :: "uuid option"

text \<open>The validators of \<open>CampaignCreateRequest\<close>, at the time of the request.\<close>

definition valid_campaign_request :: "campaign_env \<Rightarrow> int \<Rightarrow> campaign_request \<Rightarrow> bool" where
  "valid_campaign_request env now rq =
     ((case rq_rate_limit_per_second rq of None \<Rightarrow> True | Some n \<Rightarrow> 1 \<le> n \<and> n \<le> 1000)
      \<and> (rq_type rq = CT_SCHEDULED \<longrightarrow> (case rq_scheduled_at rq of None \<Rightarrow> False | Some t \<Rightarrow> now \<le> t))
      \<and> (rq_type rq = CT_RECURRING \<longrightarrow>
           (case rq_cron_expression rq of None \<Rightarrow> False | Some w \<Rightarrow> w \<noteq> [] \<and> ce_cron_valid env w)))"

definition get_category_row :: "uuid \<Rightarrow> 'a campaign_crm_scheme \<Rightarrow> campaign_category option" where
  "get_category_row i s = get_by cc_id i (campaign_categories s)"

definition check_category :: "uuid option \<Rightarrow> 'a campaign_crm_scheme \<Rightarrow> err + unit" where
  "check_category c s = ensure (case c of None \<Rightarrow> True | Some i \<Rightarrow> get_category_row i s \<noteq> None) NotFoundError"

definition new_campaign :: "uuid \<Rightarrow> campaign_request \<Rightarrow> campaign" where
  "new_campaign i rq = \<lparr>cp_id = i, cp_template_id = rq_template_id rq, cp_status = CP_DRAFT, cp_type = rq_type rq,
     cp_scheduled_at = rq_scheduled_at rq, cp_cron_expression = rq_cron_expression rq, cp_next_run_at = None,
     cp_last_run_at = None, cp_audience_filter = rq_audience_filter rq,
     cp_rate_limit_per_second = rq_rate_limit_per_second rq, cp_validation_errors = [], cp_started_at = None,
     cp_completed_at = None, cp_audience_count = 0, cp_sent_count = 0, cp_delivered_count = 0,
     cp_failed_count = 0, cp_response_count = 0, cp_category_id = rq_category_id rq\<rparr>"

definition create_campaign ::
  "campaign_request \<Rightarrow> uuid option \<Rightarrow> 'a campaign_crm_scheme \<Rightarrow> err + uuid \<times> 'a campaign_crm_scheme" where
  "create_campaign rq actor_id s =
     ebind (check_category (rq_category_id rq) s) (\<lambda>_.
     ebind (ensure (get_by tp_id (rq_template_id rq) (templates s) \<noteq> None)
              (IntegrityError ''campaigns_template_id_fkey'')) (\<lambda>_.
     let (i, s1) = fresh_id s
     in Inr (i, campaign_audit ''campaign.created'' i actor_id
          (s1\<lparr>campaigns := campaigns s1 @ [new_campaign i rq]\<rparr>))))"

text \<open>A field that is \<open>None\<close> is not changed; \<open>ur_name\<close> tells whether a name is given.\<close>

record campaign_update =
  ur_name :: bool
  ur_scheduled_at :: "int option"
  ur_cron_expression :: "string option"
  ur_audience_filter :: "audience_filter option"
  ur_rate_limit_per_second :: "nat option"
  ur_category_id :: "uuid option"

definition or_else :: "'v option \<Rightarrow> 'v option \<Rightarrow> 'v option" where
  "or_else new old = (if new = None then old else new)"

definition update_campaign ::
  "uuid \<Rightarrow> campaign_update \<Rightarrow> uuid option \<Rightarrow> 'a campaign_crm_scheme \<Rightarrow> err + 'a campaign_crm_scheme" where
  "update_campaign campaign_id u actor_id s =
     ebind (campaign_or_404 campaign_id s) (\<lambda>campaign.
     ebind (ensure (cp_status campaign = CP_DRAFT) StateTransitionError) (\<lambda>_.
     ebind (check_category (ur_category_id u) s) (\<lambda>_.
     if \<not> ur_name u \<and> ur_scheduled_at u = None \<and> ur_cron_expression u = None \<and> ur_audience_filter u = None
        \<and> ur_rate_limit_per_second u = None \<and> ur_category_id u = None
     then Inr s
     else Inr (campaign_audit ''campaign.updated'' campaign_id actor_id (upd_campaign campaign_id (\<lambda>c.
       c\<lparr>cp_scheduled_at := or_else (ur_scheduled_at u) (cp_scheduled_at c),
         cp_cron_expression := or_else (ur_cron_expression u) (cp_cron_expression c),
         cp_audience_filter := (case ur_audience_filter u of None \<Rightarrow> cp_audience_filter c | Some f \<Rightarrow> f),
         cp_rate_limit_per_second := or_else (ur_rate_limit_per_second u) (cp_rate_limit_per_second c),
         cp_category_id := or_else (ur_category_id u) (cp_category_id c)\<rparr>) s)))))"

subsection \<open>Validation\<close>

definition template_errors :: "campaign \<Rightarrow> 'a crm_scheme \<Rightarrow> compliance_code list" where
  "template_errors campaign s =
     (case get_by tp_id (cp_template_id campaign) (templates s) of
        None \<Rightarrow> [TEMPLATE_NOT_APPROVED]
      | Some template \<Rightarrow> if tp_status template \<noteq> TS_APPROVED then [TEMPLATE_NOT_APPROVED] else [])"

definition schedule_errors :: "campaign_env \<Rightarrow> campaign \<Rightarrow> int \<Rightarrow> compliance_code list" where
  "schedule_errors env campaign now =
     (if cp_type campaign = CT_SCHEDULED
      then (case cp_scheduled_at campaign of
              None \<Rightarrow> [SCHEDULED_AT_IN_PAST]
            | Some ts \<Rightarrow> if ts < now then [SCHEDULED_AT_IN_PAST] else [])
      else if cp_type campaign = CT_RECURRING
      then (case cp_cron_expression campaign of
              None \<Rightarrow> [INVALID_CRON]
            | Some w \<Rightarrow> if w = [] \<or> \<not> ce_cron_valid env w then [INVALID_CRON] else [])
      else [])"

definition compliance_errors :: "campaign_env \<Rightarrow> campaign \<Rightarrow> uuid list \<Rightarrow> 'a crm_scheme \<Rightarrow> compliance_code list" where
  "compliance_errors env campaign contact_ids s =
     template_errors campaign s @ schedule_errors env campaign (clock s)
       @ (if contact_ids = [] then [NO_RECIPIENTS] else [])"

text \<open>The contacts of the audience become recipients, those who are recipients already are kept.\<close>

definition materialise_audience :: "campaign \<Rightarrow> uuid list \<Rightarrow> 'a crm_scheme \<Rightarrow> 'a crm_scheme" where
  "materialise_audience campaign contact_ids s =
     (if contact_ids = [] then s
      else upd_campaign (cp_id campaign) (\<lambda>c. c\<lparr>cp_audience_count := length contact_ids\<rparr>)
             (snd (bulk_insert (cp_id campaign) contact_ids s)))"

definition first_run_at :: "campaign_env \<Rightarrow> campaign \<Rightarrow> compliance_code list \<Rightarrow> int \<Rightarrow> int option" where
  "first_run_at env campaign errors now =
     (if errors = [] \<and> cp_type campaign = CT_SCHEDULED then cp_scheduled_at campaign
      else if errors = [] \<and> cp_type campaign = CT_RECURRING
      then Some (ce_cron_next env (the (cp_cron_expression campaign)) now) else None)"

text \<open>The answer: the errors and the number of contacts of the audience; it is \<open>ok\<close> when there is no error.\<close>

definition validate_campaign ::
  "campaign_env \<Rightarrow> uuid \<Rightarrow> uuid option \<Rightarrow> 'a crm_scheme \<Rightarrow> err + (compliance_code list \<times> nat) \<times> 'a crm_scheme" where
  "validate_campaign env campaign_id actor_id s =
     ebind (campaign_or_404 campaign_id s) (\<lambda>campaign.
     ebind (ensure (cp_status campaign \<in> {CP_DRAFT, CP_VALIDATING}) StateTransitionError) (\<lambda>_.
     ebind (campaign_assert_transition (cp_status campaign) CP_VALIDATING) (\<lambda>_.
     let s1 = upd_campaign campaign_id (\<lambda>c. c\<lparr>cp_status := CP_VALIDATING\<rparr>) s;
         contact_ids = select_audience_contact_ids (cp_audience_filter campaign) s1;
         errors = compliance_errors env campaign contact_ids s1;
         s2 = materialise_audience campaign contact_ids s1;
         next_status = (if errors = [] then CP_SCHEDULED else CP_DRAFT)
     in ebind (campaign_assert_transition CP_VALIDATING next_status) (\<lambda>_.
        Inr ((errors, length contact_ids),
          campaign_audit (if errors = [] then ''campaign.validated'' else ''campaign.validation_failed'')
            campaign_id actor_id
            (upd_campaign campaign_id (\<lambda>c. c\<lparr>cp_status := next_status, cp_validation_errors := errors,
               cp_next_run_at := first_run_at env campaign errors (clock s2)\<rparr>) s2))))))"

subsection \<open>Launch, cancellation, report\<close>

definition launch_campaign :: "uuid \<Rightarrow> uuid option \<Rightarrow> 'a crm_scheme \<Rightarrow> err + 'a crm_scheme" where
  "launch_campaign campaign_id actor_id s =
     ebind (campaign_or_404 campaign_id s) (\<lambda>campaign.
     ebind (ensure (cp_status campaign = CP_SCHEDULED) StateTransitionError) (\<lambda>_.
     if cp_type campaign = CT_IMMEDIATE
     then ebind (campaign_assert_transition (cp_status campaign) CP_QUEUED) (\<lambda>_.
          Inr (campaign_audit ''campaign.launched'' campaign_id actor_id
            (upd_campaign campaign_id (\<lambda>c. c\<lparr>cp_status := CP_QUEUED\<rparr>) s)))
     else Inr (campaign_audit ''campaign.launched'' campaign_id actor_id s)))"

text \<open>The endpoint: after the commit, an immediate campaign that is queued is dispatched.\<close>

definition post_launch :: "uuid \<Rightarrow> uuid option \<Rightarrow> 'a crm_scheme \<Rightarrow> err + 'a crm_scheme" where
  "post_launch campaign_id actor_id s =
     ebind (launch_campaign campaign_id actor_id s) (\<lambda>s1.
     ebind (campaign_or_404 campaign_id s1) (\<lambda>campaign.
     Inr (if cp_type campaign = CT_IMMEDIATE \<and> cp_status campaign = CP_QUEUED
          then enqueue (DispatchCampaign campaign_id) s1 else s1)))"

definition cancel_campaign :: "uuid \<Rightarrow> uuid option \<Rightarrow> 'a crm_scheme \<Rightarrow> err + 'a crm_scheme" where
  "cancel_campaign campaign_id actor_id s =
     ebind (campaign_or_404 campaign_id s) (\<lambda>campaign.
     ebind (campaign_assert_transition (cp_status campaign) CP_CANCELLED) (\<lambda>_.
     let (cancelled, s1) = cancel_pending campaign_id s
     in Inr (campaign_audit ''campaign.cancelled'' campaign_id actor_id
          (upd_campaign campaign_id (\<lambda>c. c\<lparr>cp_status := CP_CANCELLED,
             cp_failed_count := cp_failed_count campaign + cancelled, cp_completed_at := Some (clock s1)\<rparr>) s1))))"

text \<open>The report without its three quotients, which are floats.\<close>

record campaign_report =
  rp_status :: campaign_status
  rp_audience_count :: nat
  rp_sent_count :: nat
  rp_delivered_count :: nat
  rp_failed_count :: nat
  rp_response_count :: nat
  rp_pending_count :: nat
  rp_duration :: "int option"
  rp_error_breakdown :: "((string \<times> int option) \<times> nat) list"

definition get_report :: "uuid \<Rightarrow> 'a crm_scheme \<Rightarrow> err + campaign_report" where
  "get_report campaign_id s =
     ebind (campaign_or_404 campaign_id s) (\<lambda>campaign.
     Inr \<lparr>rp_status = cp_status campaign, rp_audience_count = cp_audience_count campaign,
       rp_sent_count = cp_sent_count campaign, rp_delivered_count = cp_delivered_count campaign,
       rp_failed_count = cp_failed_count campaign, rp_response_count = cp_response_count campaign,
       rp_pending_count = count_status campaign_id CR_PENDING s,
       rp_duration = (case (cp_started_at campaign, cp_completed_at campaign) of
           (Some a, Some b) \<Rightarrow> Some (b - a) | _ \<Rightarrow> None),
       rp_error_breakdown = error_breakdown campaign_id s\<rparr>)"

section \<open>CampaignCategoryService\<close>

definition category_audit :: "string \<Rightarrow> uuid \<Rightarrow> uuid \<Rightarrow> 'a crm_scheme \<Rightarrow> 'a crm_scheme" where
  "category_audit action category_id actor_id s = audit_append
     \<lparr>au_actor_type = ''user'', au_actor_id = Some actor_id, au_action = action,
      au_entity_type = ''campaign_category'', au_entity_id = Some category_id\<rparr> s"

definition create_campaign_category ::
  "string \<Rightarrow> string option \<Rightarrow> string option \<Rightarrow> uuid \<Rightarrow> 'a campaign_crm_scheme \<Rightarrow> err + uuid \<times> 'a campaign_crm_scheme" where
  "create_campaign_category name description color actor_id s =
     ebind (ensure (get_by cc_name name (campaign_categories s) = None) ConflictError) (\<lambda>_.
     let (i, s1) = fresh_id s
     in Inr (i, category_audit ''create'' i actor_id (s1\<lparr>campaign_categories := campaign_categories s1 @
          [\<lparr>cc_id = i, cc_name = name, cc_description = description, cc_color = color\<rparr>]\<rparr>)))"

text \<open>
  The fields set in the request: \<open>None\<close> where the field is absent, \<open>Some None\<close> for null. A name that is null passes
  the schema and violates the column's constraint.
\<close>

record category_update =
  cu_name :: "string option option"
  cu_description :: "string option option"
  cu_color :: "string option option"

definition differs :: "'v option \<Rightarrow> 'v \<Rightarrow> bool" where
  "differs new old = (case new of None \<Rightarrow> False | Some v \<Rightarrow> v \<noteq> old)"

definition apply_category_update :: "category_update \<Rightarrow> campaign_category \<Rightarrow> campaign_category" where
  "apply_category_update u c = c\<lparr>
     cc_name := (case cu_name u of Some (Some n) \<Rightarrow> n | _ \<Rightarrow> cc_name c),
     cc_description := (case cu_description u of None \<Rightarrow> cc_description c | Some d \<Rightarrow> d),
     cc_color := (case cu_color u of None \<Rightarrow> cc_color c | Some k \<Rightarrow> k)\<rparr>"

definition update_campaign_category ::
  "uuid \<Rightarrow> category_update \<Rightarrow> uuid \<Rightarrow> 'a campaign_crm_scheme \<Rightarrow> err + 'a campaign_crm_scheme" where
  "update_campaign_category category_id u actor_id s =
     ebind (from_opt NotFoundError (get_category_row category_id s)) (\<lambda>category.
     ebind (ensure (differs (cu_name u) (Some (cc_name category)) \<or> differs (cu_description u) (cc_description category)
              \<or> differs (cu_color u) (cc_color category)) ConflictError) (\<lambda>_.
     ebind (ensure (case cu_name u of
                Some (Some n) \<Rightarrow> n = cc_name category \<or>
                  (case get_by cc_name n (campaign_categories s) of None \<Rightarrow> True | Some taken \<Rightarrow> cc_id taken = cc_id category)
              | _ \<Rightarrow> True) ConflictError) (\<lambda>_.
     ebind (ensure (cu_name u \<noteq> Some None) (IntegrityError ''campaign_categories_name_not_null'')) (\<lambda>_.
     Inr (category_audit ''update'' category_id actor_id
       (s\<lparr>campaign_categories := upd_by cc_id category_id (apply_category_update u) (campaign_categories s)\<rparr>))))))"

definition delete_campaign_category :: "uuid \<Rightarrow> uuid \<Rightarrow> 'a campaign_crm_scheme \<Rightarrow> err + 'a campaign_crm_scheme" where
  "delete_campaign_category category_id actor_id s =
     ebind (from_opt NotFoundError (get_category_row category_id s)) (\<lambda>category.
     ebind (ensure (length (filter (\<lambda>c. cp_category_id c = Some category_id) (campaigns s)) = 0) ConflictError) (\<lambda>_.
     Inr (category_audit ''delete'' category_id actor_id
       (s\<lparr>campaign_categories := filter (\<lambda>c. cc_id c \<noteq> category_id) (campaign_categories s)\<rparr>))))"

lemmas campaign_service_evals = campaign_batch_size_def campaign_default_rate_per_sec_def
  campaign_completion_poll_seconds_def campaign_assert_transition_def campaign_or_404_def campaign_audit_def
  valid_campaign_request_def get_category_row_def check_category_def new_campaign_def create_campaign_def or_else_def update_campaign_def
  template_errors_def schedule_errors_def compliance_errors_def
  materialise_audience_def first_run_at_def validate_campaign_def launch_campaign_def post_launch_def
  cancel_campaign_def get_report_def category_audit_def create_campaign_category_def differs_def
  apply_category_update_def update_campaign_category_def delete_campaign_category_def

declare campaign_service_evals [evals]

end
