(* ===== verification/CampaignTasks.thy ===== *)
theory CampaignTasks
  imports Campaigns
begin

text \<open>
  The workers of backend/app/modules/campaigns/tasks.py: the fan-out of a queued campaign into batches, the sending of a
  batch under the rate limit, the completion poll and the scheduler's tick. That a task can be
  enqueued at all (the broker is up) is assumed.
\<close>

section \<open>Rate, gate and throttle\<close>

definition resolve_rate_per_second :: "campaign_env \<Rightarrow> campaign \<Rightarrow> int" where
  "resolve_rate_per_second env campaign =
     (case cp_rate_limit_per_second campaign of
        Some (Suc n) \<Rightarrow> int (Suc n)
      | _ \<Rightarrow> (case ce_global_rate env of Some r \<Rightarrow> r | None \<Rightarrow> campaign_default_rate_per_sec))"

text \<open>\<open>None\<close> lets the task run; otherwise the seconds to wait.\<close>

definition campaign_ops_gate :: "campaign_env \<Rightarrow> 'a crm_scheme \<Rightarrow> int option" where
  "campaign_ops_gate env s =
     (let cfg = ce_config env; local = ce_local env (clock s) in
      if \<not> is_within_business_hours cfg local then Some (seconds_until_window_open cfg local)
      else if oc_cap_enabled cfg \<and> oc_cap_limit cfg \<le> int (redis_counters s (DailyCapKey (daily_counter_key local)))
      then Some (seconds_until_local_midnight local)
      else None)"

definition redis_incr :: "redis_counter \<Rightarrow> 'a crm_scheme \<Rightarrow> 'a crm_scheme" where
  "redis_incr k s = s\<lparr>redis_counters := (redis_counters s)(k := redis_counters s k + 1)\<rparr>"

definition increment_daily_cap :: "campaign_env \<Rightarrow> 'a crm_scheme \<Rightarrow> 'a crm_scheme" where
  "increment_daily_cap env s =
     (if \<not> oc_cap_enabled (ce_config env) then s
      else redis_incr (DailyCapKey (daily_counter_key (ce_local env (clock s)))) s)"

definition epoch_second :: "'a crm_scheme \<Rightarrow> int" where
  "epoch_second s = clock s div second_us"

definition claim_throttle_slot :: "uuid \<Rightarrow> int \<Rightarrow> 'a crm_scheme \<Rightarrow> bool \<times> 'a crm_scheme" where
  "claim_throttle_slot campaign_id rate s =
     (let key = ThrottleKey campaign_id (epoch_second s); s1 = redis_incr key s
      in (int (redis_counters s1 key) \<le> rate, s1))"

definition resolve_or_create_conversation :: "uuid \<Rightarrow> 'a crm_scheme \<Rightarrow> err + uuid \<times> 'a crm_scheme" where
  "resolve_or_create_conversation contact_id s =
     (case get_open_for_contact contact_id s of
        Some c \<Rightarrow> Inr (cv_id c, s) | None \<Rightarrow> conv_create_for_contact contact_id s)"

text \<open>\<open>str.replace\<close> of a text that is not empty.\<close>

function replace_text :: "string \<Rightarrow> string \<Rightarrow> string \<Rightarrow> string" where
  "replace_text old new w =
     (case w of [] \<Rightarrow> []
      | c # cs \<Rightarrow> if old \<noteq> [] \<and> prefix old w then new @ replace_text old new (drop (length old) w)
                else c # replace_text old new cs)"
  by pat_completeness auto

termination by (relation "measure (\<lambda>(old, new, w). length w)") auto

definition fill_in :: "string \<Rightarrow> string option \<Rightarrow> string \<Rightarrow> string" where
  "fill_in mark value body =
     (case value of None \<Rightarrow> body
      | Some v \<Rightarrow> if contains mark body \<and> v \<noteq> [] then replace_text mark v body else body)"

definition render_template :: "template \<Rightarrow> crm_contact \<Rightarrow> string" where
  "render_template template contact =
     (let body = (case tp_body template of None \<Rightarrow> tp_name template | Some b \<Rightarrow> if b = [] then tp_name template else b)
      in fill_in ''{{company}}'' (ct_company contact) (fill_in ''{{name}}'' (ct_name contact) body))"

section \<open>Dispatch\<close>

definition campaign_lock_key :: "campaign_env \<Rightarrow> uuid \<Rightarrow> string" where
  "campaign_lock_key env campaign_id = ''campaign:lock:'' @ ce_uuid_text env campaign_id"

text \<open>
  The loop over the pages of pending recipients. \<open>other n\<close> is what the other workers commit between the query at
  offset \<open>n\<close> and the next one; the loop ends only with an empty page.
\<close>

partial_function (option) fan_out ::
  "(nat \<Rightarrow> 'a crm_scheme \<Rightarrow> 'a crm_scheme) \<Rightarrow> uuid \<Rightarrow> nat \<Rightarrow> 'a crm_scheme \<Rightarrow> 'a crm_scheme option" where
  "fan_out other campaign_id offset s =
     (let ids = list_pending_ids campaign_id campaign_batch_size offset s
      in if ids = [] then Some s
         else fan_out other campaign_id (offset + campaign_batch_size)
                (other offset (enqueue (ProcessCampaignBatch campaign_id ids) s)))"

declare fan_out.simps [code]

text \<open>\<open>max_retries=None\<close> of \<open>retry\<close> stands for the limit of the task, 3.\<close>

definition dispatch_campaign ::
  "campaign_env \<Rightarrow> (nat \<Rightarrow> 'a crm_scheme \<Rightarrow> 'a crm_scheme) \<Rightarrow> uuid \<Rightarrow> 'a crm_scheme
   \<Rightarrow> (task_end \<times> 'a crm_scheme) option" where
  "dispatch_campaign env other campaign_id s =
     (case campaign_ops_gate env s of
        Some countdown \<Rightarrow> Some (TaskRetry countdown 3, s)
      | None \<Rightarrow>
        (let key = campaign_lock_key env campaign_id;
             unlock = (\<lambda>t. t\<lparr>redis_keys := filter (\<lambda>k. k \<noteq> key) (redis_keys t)\<rparr>);
             s1 = s\<lparr>redis_keys := redis_keys s @ [key]\<rparr> in
         if key \<in> set (redis_keys s) then Some (TaskDone, s)
         else case get_campaign campaign_id s1 of
             None \<Rightarrow> Some (TaskDone, unlock s1)
           | Some campaign \<Rightarrow>
               if cp_status campaign \<noteq> CP_QUEUED \<and> cp_status campaign \<noteq> CP_DISPATCHING then Some (TaskDone, unlock s1)
               else let s2 = (if cp_status campaign = CP_QUEUED
                              then snd (update_status campaign_id CP_DISPATCHING
                                     (\<lambda>c. c\<lparr>cp_started_at := Some (clock s1)\<rparr>) s1) else s1)
                    in map_option (\<lambda>s3. (TaskDone, unlock (enqueue (CompleteCampaign campaign_id campaign_completion_poll_seconds) s3)))
                         (fan_out other campaign_id 0 s2)))"

section \<open>A batch\<close>

text \<open>The transaction of one recipient; returns the message.\<close>

definition send_to_recipient ::
  "uuid \<Rightarrow> template \<Rightarrow> uuid \<Rightarrow> crm_contact \<Rightarrow> 'a crm_scheme \<Rightarrow> err + uuid \<times> 'a crm_scheme" where
  "send_to_recipient campaign_id template rid contact s =
     ebind (resolve_or_create_conversation (ct_id contact) s) (\<lambda>(conv, s1).
     ebind (create_message ((new_message conv OUTBOUND SENDER_SYSTEM (render_template template contact) MSG_QUEUED (clock s1))
              \<lparr>ms_template_name := Some (tp_name template), ms_template_language := Some (tp_language template)\<rparr>) s1) (\<lambda>(i, s2).
     Inr (i, increment_counters campaign_id (no_deltas\<lparr>sent_delta := 1\<rparr>) (mark_sent rid i None s2))))"

definition process_recipient :: "campaign_env \<Rightarrow> uuid \<Rightarrow> template \<Rightarrow> uuid \<Rightarrow> 'a crm_scheme \<Rightarrow> 'a crm_scheme" where
  "process_recipient env campaign_id template rid s =
     (case get_with_contact rid s of
        None \<Rightarrow> s
      | Some (recipient, contact) \<Rightarrow>
          if cr_status recipient \<noteq> CR_PENDING then s
          else case send_to_recipient campaign_id template rid contact s of
                 Inr (i, s1) \<Rightarrow> increment_daily_cap env (enqueue (SendOutbound i) s1)
               | Inl e \<Rightarrow> increment_counters campaign_id (no_deltas\<lparr>failed_delta := 1\<rparr>)
                            (mark_failed rid (ce_error_text env e) None s))"

text \<open>
  The loop; \<open>tick n\<close> is the time the clock shows when \<open>n\<close> recipients are left. Returns the ones carried forward when
  the throttle is exhausted: from the first occurrence of the recipient on.
\<close>

fun batch_loop ::
  "campaign_env \<Rightarrow> (nat \<Rightarrow> int) \<Rightarrow> uuid \<Rightarrow> int \<Rightarrow> template \<Rightarrow> uuid list \<Rightarrow> uuid list \<Rightarrow> 'a crm_scheme
   \<Rightarrow> uuid list \<times> 'a crm_scheme" where
  "batch_loop env tick campaign_id rate template all [] s = ([], s)"
| "batch_loop env tick campaign_id rate template all (rid # rids) s =
     (let (slot, s1) = claim_throttle_slot campaign_id rate (s\<lparr>clock := tick (length rids)\<rparr>) in
      if \<not> slot then (dropWhile (\<lambda>r. r \<noteq> rid) all, s1)
      else batch_loop env tick campaign_id rate template all rids (process_recipient env campaign_id template rid s1))"

datatype batch_end = BatchDone | BatchFailed | BatchRetry int "uuid list"

text \<open>How one run of the batch task ended: with the arguments of the next run where it asks for one, at most 10 times.\<close>

definition process_campaign_batch ::
  "bool \<Rightarrow> campaign_env \<Rightarrow> (nat \<Rightarrow> int) \<Rightarrow> uuid \<Rightarrow> uuid list \<Rightarrow> 'a crm_scheme \<Rightarrow> batch_end \<times> 'a crm_scheme" where
  "process_campaign_batch redis_ok env tick campaign_id recipient_ids s =
     (if \<not> redis_ok then (BatchRetry 60 recipient_ids, s)
      else case campaign_ops_gate env s of
        Some countdown \<Rightarrow> (BatchRetry countdown recipient_ids, s)
      | None \<Rightarrow>
        (case get_campaign campaign_id s of
           None \<Rightarrow> (BatchDone, s)
         | Some campaign \<Rightarrow>
           if cp_status campaign \<noteq> CP_DISPATCHING \<and> cp_status campaign \<noteq> CP_QUEUED then (BatchDone, s)
           else case get_by tp_id (cp_template_id campaign) (templates s) of
             None \<Rightarrow> (BatchFailed, s)
           | Some template \<Rightarrow>
             if tp_meta_template_id template = None
             then (BatchDone, increment_counters campaign_id (no_deltas\<lparr>failed_delta := length recipient_ids\<rparr>)
                    (fold (\<lambda>rid. mark_failed rid ''Template not submitted to Meta'' None) recipient_ids s))
             else let (remaining, s1) = batch_loop env tick campaign_id (resolve_rate_per_second env campaign) template
                                          recipient_ids recipient_ids s
                  in (if remaining = [] then BatchDone else BatchRetry 1 remaining, s1)))"

definition batch_max_retries :: nat where
  "batch_max_retries = 10"

section \<open>Completion and scheduling\<close>

definition completion_max_retries :: nat where
  "completion_max_retries = 120"

definition complete_campaign :: "campaign_env \<Rightarrow> uuid \<Rightarrow> 'a crm_scheme \<Rightarrow> task_end \<times> 'a crm_scheme" where
  "complete_campaign env campaign_id s =
     (case get_campaign campaign_id s of
        None \<Rightarrow> (TaskDone, s)
      | Some campaign \<Rightarrow>
          if cp_status campaign \<noteq> CP_DISPATCHING then (TaskDone, s)
          else if 0 < count_status campaign_id CR_PENDING s
          then (TaskRetry campaign_completion_poll_seconds completion_max_retries, s)
          else if 0 < count_status campaign_id CR_FAILED s
          then (TaskDone, campaign_audit ''campaign.failed'' campaign_id None
                  (snd (update_status campaign_id CP_FAILED (\<lambda>c. c\<lparr>cp_completed_at := Some (clock s)\<rparr>) s)))
          else case (cp_type campaign, cp_cron_expression campaign) of
              (CT_RECURRING, Some (x # xs)) \<Rightarrow>
                (TaskDone, snd (update_status campaign_id CP_SCHEDULED (\<lambda>c. c\<lparr>cp_completed_at := Some (clock s),
                   cp_last_run_at := Some (clock s), cp_next_run_at := Some (ce_cron_next env (x # xs) (clock s))\<rparr>) s))
            | _ \<Rightarrow> (TaskDone, snd (update_status campaign_id CP_COMPLETED (\<lambda>c. c\<lparr>cp_completed_at := Some (clock s)\<rparr>) s)))"

definition tick_one :: "campaign \<Rightarrow> 'a crm_scheme \<Rightarrow> 'a crm_scheme" where
  "tick_one campaign s =
     (let (rowcount, s1) = update_status (cp_id campaign) CP_QUEUED
            (\<lambda>c. if cp_type campaign = CT_RECURRING then c\<lparr>cp_last_run_at := Some (clock s)\<rparr> else c) s
      in if 0 < rowcount then enqueue (DispatchCampaign (cp_id campaign)) s1 else s)"

text \<open>\<open>other n\<close> is what the rest of the system commits before the \<open>n\<close>-th campaign of the page is handled.\<close>

fun tick_loop :: "(nat \<Rightarrow> 'a crm_scheme \<Rightarrow> 'a crm_scheme) \<Rightarrow> nat \<Rightarrow> campaign list \<Rightarrow> 'a crm_scheme \<Rightarrow> 'a crm_scheme" where
  "tick_loop other n [] s = s"
| "tick_loop other n (c # cs) s = tick_loop other (Suc n) cs (tick_one c (other n s))"

definition scheduler_tick :: "(nat \<Rightarrow> 'a crm_scheme \<Rightarrow> 'a crm_scheme) \<Rightarrow> 'a crm_scheme \<Rightarrow> 'a crm_scheme" where
  "scheduler_tick other s = tick_loop other 0 (find_due_for_scheduler 200 s) s"

lemmas campaign_task_evals = resolve_rate_per_second_def campaign_ops_gate_def redis_incr_def increment_daily_cap_def
  epoch_second_def claim_throttle_slot_def resolve_or_create_conversation_def fill_in_def render_template_def
  campaign_lock_key_def dispatch_campaign_def send_to_recipient_def process_recipient_def process_campaign_batch_def
  batch_max_retries_def completion_max_retries_def complete_campaign_def tick_one_def scheduler_tick_def

declare campaign_task_evals [evals]

declare replace_text.simps [simp del] fan_out.simps [simp del]

end
