(* ===== verification/CampaignProps.thy ===== *)
theory CampaignProps
  imports CampaignTasks MessagingProps
begin

text \<open>
  Campaigns as a transition system: \<open>campaign_step\<close> is every operation on the campaigns and their recipients, with
  anything else that leaves both tables alone. The invariant \<open>campaign_inv\<close> and the arcs of the status table hold
  along every run.
\<close>

section \<open>Steps\<close>

inductive campaign_step :: "'a campaign_crm_scheme \<Rightarrow> 'a campaign_crm_scheme \<Rightarrow> bool" where
  create: "create_campaign rq a s = Inr (i, s') \<Longrightarrow> campaign_step s s'"
| update: "update_campaign i u a s = Inr s' \<Longrightarrow> campaign_step s s'"
| validate: "validate_campaign env i a s = Inr (x, s') \<Longrightarrow> campaign_step s s'"
| launch: "post_launch i a s = Inr s' \<Longrightarrow> campaign_step s s'"
| cancel: "cancel_campaign i a s = Inr s' \<Longrightarrow> campaign_step s s'"
| dispatch: "dispatch_campaign env other i s = Some (x, s') \<Longrightarrow> (\<And>n t. campaign_step\<^sup>*\<^sup>* t (other n t)) \<Longrightarrow> campaign_step s s'"
| batch: "process_campaign_batch up env tick i rids s = (e, s') \<Longrightarrow>
    (\<forall>r\<in>set (campaign_recipients s). cr_id r \<in> set rids \<longrightarrow> cr_campaign_id r = i) \<Longrightarrow> campaign_step s s'"
| complete: "complete_campaign env i s = (x, s') \<Longrightarrow> campaign_step s s'"
| tick: "scheduler_tick (\<lambda>_ t. t) s = s' \<Longrightarrow> campaign_step s s'"
| callback: "propagate_to_campaign_recipient w st code text s = Inr s' \<Longrightarrow> campaign_step s s'"
| reply: "campaign_step s (attribute_inbound_to_campaigns k t s)"
| stopped: "campaign_step s (cancel_pending_outreach_on_reply v s)"
| accepted: "campaign_step s (backfill_meta_id m w s)"
| elsewhere: "campaigns s' = campaigns s \<Longrightarrow> campaign_recipients s' = campaign_recipients s \<Longrightarrow> next_id s \<le> next_id s'
    \<Longrightarrow> campaign_step s s'"

section \<open>The invariant\<close>

text \<open>The recipients of a campaign that were sent a message.\<close>

definition sent_recipients :: "uuid \<Rightarrow> 'a crm_scheme \<Rightarrow> campaign_recipient list" where
  "sent_recipients i s = filter (\<lambda>r. cr_sent_at r \<noteq> None) (recipients_of i s)"

definition campaign_inv :: "'a crm_scheme \<Rightarrow> bool" where
  "campaign_inv s =
     (distinct (map cp_id (campaigns s)) \<and> (\<forall>c\<in>set (campaigns s). cp_id c < next_id s)
      \<and> distinct (map cr_id (campaign_recipients s))
      \<and> distinct (map (\<lambda>r. (cr_campaign_id r, cr_contact_id r)) (campaign_recipients s))
      \<and> (\<forall>r\<in>set (campaign_recipients s). cr_id r < next_id s \<and> cr_campaign_id r < next_id s
            \<and> (cr_status r = CR_PENDING \<longrightarrow> cr_sent_at r = None))
      \<and> (\<forall>c\<in>set (campaigns s). cp_sent_count c = length (sent_recipients (cp_id c) s)))"

definition campaign_arcs :: "(campaign_status \<times> campaign_status) set" where
  "campaign_arcs = {(a, b). b \<in> set (campaign_transitions a)}"

definition campaign_moves :: "'a crm_scheme \<Rightarrow> 'b crm_scheme \<Rightarrow> bool" where
  "campaign_moves s s' = (\<forall>i c. get_campaign i s = Some c \<longrightarrow>
     (\<exists>c'. get_campaign i s' = Some c' \<and> (cp_status c, cp_status c') \<in> campaign_arcs\<^sup>*))"

definition campaign_good :: "'a crm_scheme \<Rightarrow> 'b crm_scheme \<Rightarrow> bool" where
  "campaign_good s s' = (next_id s \<le> next_id s' \<and> (campaign_inv s \<longrightarrow> campaign_inv s' \<and> campaign_moves s s'))"

lemma campaign_moves_refl [simp]: "campaign_moves s s"
  by (simp add: campaign_moves_def)

lemma campaign_moves_trans: "campaign_moves s t \<Longrightarrow> campaign_moves t u \<Longrightarrow> campaign_moves s u"
  unfolding campaign_moves_def by (meson rtrancl_trans)

lemma campaign_good_refl [simp]: "campaign_good s s"
  by (simp add: campaign_good_def)

lemma campaign_good_trans [trans]: "campaign_good s t \<Longrightarrow> campaign_good t u \<Longrightarrow> campaign_good s u"
  unfolding campaign_good_def using campaign_moves_trans by (meson order_trans)

lemma campaign_good_same:
  "campaigns s' = campaigns s \<Longrightarrow> campaign_recipients s' = campaign_recipients s \<Longrightarrow> next_id s \<le> next_id s' \<Longrightarrow> campaign_good s s'"
  by (fastforce simp: campaign_good_def campaign_inv_def campaign_moves_def get_campaign_def sent_recipients_def recipients_of_def)

lemma get_campaign_upd:
  assumes "\<And>c. cp_id (f c) = cp_id c"
  shows "get_campaign j (upd_campaign i f s) = (if j = i then map_option f (get_campaign j s) else get_campaign j s)"
  using get_by_upd_by [of cp_id f j i "campaigns s"] assms by (simp add: get_campaign_def upd_campaign_def)

lemma get_campaign_id: "get_campaign i s = Some c \<Longrightarrow> cp_id c = i \<and> c \<in> set (campaigns s)"
  using get_by_Some by (fastforce simp: get_campaign_def)

lemma campaign_frame [simp]:
  "campaign_recipients (upd_campaign i f s) = campaign_recipients s" "next_id (upd_campaign i f s) = next_id s"
  "campaigns (upd_recipients P g s) = campaigns s" "next_id (upd_recipients P g s) = next_id s"
  "clock (upd_campaign i f s) = clock s" "clock (upd_recipients P g s) = clock s"
  by (simp_all add: upd_campaign_def upd_recipients_def)

text \<open>An update of one campaign that follows the arcs and keeps the number of messages sent.\<close>

lemma campaign_good_upd:
  assumes id: "\<And>c. cp_id (f c) = cp_id c" and sent: "\<And>c. cp_sent_count (f c) = cp_sent_count c"
    and arc: "\<And>c. get_campaign i s = Some c \<Longrightarrow> (cp_status c, cp_status (f c)) \<in> campaign_arcs\<^sup>*"
  shows "campaign_good s (upd_campaign i f s)"
proof -
  have "campaign_moves s (upd_campaign i f s)"
    unfolding campaign_moves_def using arc by (auto simp: get_campaign_upd id)
  moreover have "campaign_inv (upd_campaign i f s)" if inv: "campaign_inv s"
  proof -
    have "map cp_id (campaigns (upd_campaign i f s)) = map cp_id (campaigns s)"
      by (simp add: upd_campaign_def upd_by_def id)
    moreover have "sent_recipients j (upd_campaign i f s) = sent_recipients j s" for j
      by (simp add: sent_recipients_def recipients_of_def)
    moreover have "\<forall>c\<in>set (campaigns (upd_campaign i f s)). \<exists>c0\<in>set (campaigns s). cp_id c = cp_id c0 \<and> cp_sent_count c = cp_sent_count c0"
      by (auto simp: upd_campaign_def set_upd_by id sent)
    ultimately show ?thesis using inv by (fastforce simp: campaign_inv_def)
  qed
  ultimately show ?thesis by (simp add: campaign_good_def)
qed

text \<open>An update of recipients that keeps their keys and sendings and makes none of them pending.\<close>

lemma campaign_good_recipients:
  assumes "\<And>r. cr_id (g r) = cr_id r" "\<And>r. cr_campaign_id (g r) = cr_campaign_id r"
    "\<And>r. cr_contact_id (g r) = cr_contact_id r" "\<And>r. cr_sent_at (g r) = cr_sent_at r"
    "\<And>r. cr_status (g r) = CR_PENDING \<Longrightarrow> cr_status r = CR_PENDING"
  shows "campaign_good s (upd_recipients P g s)"
proof -
  let ?h = "\<lambda>r. if P r then g r else r"
  have keys: "map cr_id (campaign_recipients (upd_recipients P g s)) = map cr_id (campaign_recipients s)"
    "map (\<lambda>r. (cr_campaign_id r, cr_contact_id r)) (campaign_recipients (upd_recipients P g s))
       = map (\<lambda>r. (cr_campaign_id r, cr_contact_id r)) (campaign_recipients s)"
    by (simp_all add: upd_recipients_def assms)
  have sent: "length (sent_recipients j (upd_recipients P g s)) = length (sent_recipients j s)" for j
    by (simp add: sent_recipients_def recipients_of_def upd_recipients_def filter_map comp_def assms if_distrib cong: if_cong)
  have rows: "\<forall>r\<in>set (campaign_recipients (upd_recipients P g s)). \<exists>r0\<in>set (campaign_recipients s).
     cr_id r = cr_id r0 \<and> cr_campaign_id r = cr_campaign_id r0 \<and> cr_sent_at r = cr_sent_at r0
     \<and> (cr_status r = CR_PENDING \<longrightarrow> cr_status r0 = CR_PENDING)"
    by (auto simp: upd_recipients_def assms)
  have "campaign_inv s \<Longrightarrow> campaign_inv (upd_recipients P g s)"
    using rows unfolding campaign_inv_def keys sent by fastforce
  moreover have "campaign_moves s (upd_recipients P g s)"
    by (simp add: campaign_moves_def get_campaign_def)
  ultimately show ?thesis by (simp add: campaign_good_def)
qed

lemma arc1: "b \<in> set (campaign_transitions a) \<Longrightarrow> (a, b) \<in> campaign_arcs\<^sup>*"
  by (rule r_into_rtrancl) (simp add: campaign_arcs_def)


section \<open>What every operation keeps\<close>

lemma campaign_audit_good [simp]: "campaign_good s (campaign_audit a i k s)"
  by (rule campaign_good_same) (simp_all add: campaign_audit_def audit_append_def)

lemma audited: "campaign_good s t \<Longrightarrow> campaign_good s (campaign_audit a i k t)"
  by (rule campaign_good_trans [OF _ campaign_audit_good])

lemma create_campaign_good:
  assumes "create_campaign rq a s = Inr (i, s')"
  shows "campaign_good s s'"
proof -
  define row where "row = new_campaign (next_id s) rq"
  have row: "cp_id row = next_id s" "cp_sent_count row = 0" by (simp_all add: row_def new_campaign_def)
  have s': "s' = campaign_audit ''campaign.created'' i a (s\<lparr>next_id := Suc (next_id s), campaigns := campaigns s @ [row]\<rparr>)"
    using assms by (auto simp: create_campaign_def fresh_id_def Let_def ebind_Inr_iff row_def)
  let ?t = "s\<lparr>next_id := Suc (next_id s), campaigns := campaigns s @ [row]\<rparr>"
  have "campaign_inv ?t" if inv: "campaign_inv s"
  proof -
    have "sent_recipients (next_id s) s = []"
      using inv by (fastforce simp: sent_recipients_def recipients_of_def campaign_inv_def filter_empty_conv)
    then have new: "sent_recipients (next_id s) ?t = []" and old: "sent_recipients j ?t = sent_recipients j s" for j
      by (simp_all add: sent_recipients_def recipients_of_def)
    have keys: "distinct (map cp_id (campaigns ?t))" using inv row by (fastforce simp: campaign_inv_def)
    have ids: "\<forall>c\<in>set (campaigns ?t). cp_id c < next_id ?t" using inv row by (auto simp: campaign_inv_def)
    have "\<forall>r\<in>set (campaign_recipients ?t). cr_id r < next_id ?t \<and> cr_campaign_id r < next_id ?t
        \<and> (cr_status r = CR_PENDING \<longrightarrow> cr_sent_at r = None)"
      using inv by (auto simp: campaign_inv_def)
    moreover have "\<forall>c\<in>set (campaigns ?t). cp_sent_count c = length (sent_recipients (cp_id c) ?t)"
      using inv row new by (auto simp: old campaign_inv_def)
    ultimately show ?thesis using keys ids inv unfolding campaign_inv_def by simp
  qed
  moreover have "campaign_moves s ?t" by (auto simp: campaign_moves_def get_campaign_def get_by_append)
  ultimately have "campaign_good s ?t" by (simp add: campaign_good_def)
  then show ?thesis unfolding s' by (rule audited)
qed

lemma update_campaign_good: "update_campaign i u a s = Inr s' \<Longrightarrow> campaign_good s s'"
  unfolding update_campaign_def ebind_Inr_iff
  by (auto split: if_splits intro!: audited campaign_good_upd)

lemma insert_recipient_good: "insert_recipient i k (n, s) = (m, s') \<Longrightarrow> i < next_id s \<Longrightarrow> campaign_good s s'"
proof (cases "list_ex (\<lambda>r. cr_campaign_id r = i \<and> cr_contact_id r = k) (campaign_recipients s)")
  case False
  assume ins: "insert_recipient i k (n, s) = (m, s')" and i: "i < next_id s"
  let ?new = "new_recipient (next_id s) i k (clock s)"
  let ?t = "s\<lparr>next_id := Suc (next_id s), campaign_recipients := campaign_recipients s @ [?new]\<rparr>"
  have t: "s' = ?t" using ins False by (simp add: insert_recipient_def fresh_id_def Let_def)
  have new: "cr_id ?new = next_id s" "cr_campaign_id ?new = i" "cr_contact_id ?new = k" "cr_status ?new = CR_PENDING"
    and none: "cr_sent_at (new_recipient x y z u) = None" for x y z u
    by (simp_all add: new_recipient_def)
  have sent: "sent_recipients j ?t = sent_recipients j s" for j
    by (simp add: sent_recipients_def recipients_of_def none)
  have "campaign_inv ?t" if inv: "campaign_inv s"
  proof -
    have a: "distinct (map cr_id (campaign_recipients ?t))"
      using inv by (fastforce simp: campaign_inv_def new)
    have b: "distinct (map (\<lambda>r. (cr_campaign_id r, cr_contact_id r)) (campaign_recipients ?t))"
      using inv False by (auto simp: campaign_inv_def new list_ex_iff)
    have c: "\<forall>r\<in>set (campaign_recipients ?t). cr_id r < next_id ?t \<and> cr_campaign_id r < next_id ?t
        \<and> (cr_status r = CR_PENDING \<longrightarrow> cr_sent_at r = None)"
      using inv i by (auto simp: campaign_inv_def new none less_Suc_eq)
    show ?thesis using inv a b c unfolding campaign_inv_def sent by (auto simp: less_Suc_eq)
  qed
  then show ?thesis unfolding t by (auto simp: campaign_good_def campaign_moves_def get_campaign_def)
qed (auto simp: insert_recipient_def)

lemma bulk_insert_good: "i < next_id s \<Longrightarrow> campaign_good s (snd (bulk_insert i ks s))"
proof -
  have "i < next_id s \<Longrightarrow> campaign_good s (snd (fold (insert_recipient i) ks (n, s)))" for n
  proof (induction ks arbitrary: n s)
    case (Cons k ks)
    obtain m t where t: "insert_recipient i k (n, s) = (m, t)" by fastforce
    have g: "campaign_good s t" using insert_recipient_good [OF t Cons.prems] .
    then have "i < next_id t" using Cons.prems by (simp add: campaign_good_def)
    from campaign_good_trans [OF g Cons.IH [OF this, of m]] show ?case by (simp add: t)
  qed simp
  then show "i < next_id s \<Longrightarrow> campaign_good s (snd (bulk_insert i ks s))" by (simp add: bulk_insert_def)
qed

lemma bulk_insert_frame:
  "campaigns (snd (bulk_insert i ks s)) = campaigns s \<and> clock (snd (bulk_insert i ks s)) = clock s"
proof -
  have "campaigns (snd (fold (insert_recipient i) ks (n, s))) = campaigns s \<and> clock (snd (fold (insert_recipient i) ks (n, s))) = clock s" for n
    by (induction ks arbitrary: n s) (simp_all add: insert_recipient_def fresh_id_def Let_def)
  then show ?thesis by (simp add: bulk_insert_def)
qed

lemma bulk_insert_ids: "next_id s \<le> next_id (snd (bulk_insert i ks s))"
proof -
  have "next_id s \<le> next_id (snd (fold (insert_recipient i) ks (n, s)))" for n
  proof (induction ks arbitrary: n s)
    case (Cons k ks)
    have "next_id s \<le> next_id (snd (insert_recipient i k (n, s)))"
      by (simp add: insert_recipient_def fresh_id_def Let_def)
    also have "\<dots> \<le> next_id (snd (fold (insert_recipient i) ks (insert_recipient i k (n, s))))"
      using Cons.IH [of "snd (insert_recipient i k (n, s))" "fst (insert_recipient i k (n, s))"] by simp
    finally show ?case by simp
  qed simp
  then show ?thesis by (simp add: bulk_insert_def)
qed

lemma campaign_good_if: "(campaign_inv s \<Longrightarrow> campaign_good s t) \<Longrightarrow> next_id s \<le> next_id t \<Longrightarrow> campaign_good s t"
  by (auto simp: campaign_good_def)

lemma campaign_id_bound: "campaign_inv s \<Longrightarrow> get_campaign i s = Some c \<Longrightarrow> i < next_id s"
  using get_campaign_id by (fastforce simp: campaign_inv_def)

lemma materialise_good:
  assumes "cp_id c < next_id s"
  shows "campaign_good s (materialise_audience c ks s)"
proof (cases "ks = []")
  case False
  have "campaign_good (snd (bulk_insert (cp_id c) ks s)) (materialise_audience c ks s)"
    unfolding materialise_audience_def if_not_P [OF False] by (rule campaign_good_upd) simp_all
  then show ?thesis by (rule campaign_good_trans [OF bulk_insert_good [OF assms]])
qed (simp add: materialise_audience_def)

text \<open>A validation that ran: the campaign was a draft, its audience was drawn, and only its own row changed otherwise.\<close>

lemma validate_campaign_run:
  assumes "validate_campaign env i a s = Inr ((errors, n), s')"
  obtains c ks s1 s2 act st t where "get_campaign i s = Some c" "cp_status c = CP_DRAFT"
    "ks = select_audience_contact_ids (cp_audience_filter c) s" "n = length ks"
    "s1 = upd_campaign i (\<lambda>c. c\<lparr>cp_status := CP_VALIDATING\<rparr>) s" "s2 = materialise_audience c ks s1"
    "s' = campaign_audit act i a (upd_campaign i (\<lambda>c. c\<lparr>cp_status := st, cp_validation_errors := errors, cp_next_run_at := t\<rparr>) s2)"
    "st \<in> set (campaign_transitions CP_VALIDATING)"
proof -
  from assms obtain c where c: "get_campaign i s = Some c"
    and arc: "CP_VALIDATING \<in> set (campaign_transitions (cp_status c))"
    by (auto simp: validate_campaign_def ebind_Inr_iff campaign_or_404_def campaign_assert_transition_def)
  define s1 where "s1 = upd_campaign i (\<lambda>c. c\<lparr>cp_status := CP_VALIDATING\<rparr>) s"
  define ks where "ks = select_audience_contact_ids (cp_audience_filter c) s1"
  define s2 where "s2 = materialise_audience c ks s1"
  define es where "es = compliance_errors env c ks s1"
  define st where "st = (if es = [] then CP_SCHEDULED else CP_DRAFT)"
  have draft: "cp_status c = CP_DRAFT" using arc by (cases "cp_status c") simp_all
  have st: "st \<in> set (campaign_transitions CP_VALIDATING)" by (simp add: st_def)
  have run: "validate_campaign env i a s = Inr ((es, length ks),
      campaign_audit (if es = [] then ''campaign.validated'' else ''campaign.validation_failed'') i a
        (upd_campaign i (\<lambda>d. d\<lparr>cp_status := st, cp_validation_errors := es, cp_next_run_at := first_run_at env c es (clock s2)\<rparr>) s2))"
    using st unfolding validate_campaign_def campaign_or_404_def c Let_def s1_def [symmetric] from_opt_simps ebind_simps
      ks_def [symmetric] es_def [symmetric] s2_def [symmetric] st_def [symmetric]
    by (simp add: draft campaign_assert_transition_def)
  have "in_audience (cp_audience_filter c) s1 = in_audience (cp_audience_filter c) s"
    by (rule ext) (simp add: s1_def in_audience_def upd_campaign_def)
  then have ks: "ks = select_audience_contact_ids (cp_audience_filter c) s"
    by (simp add: ks_def s1_def select_audience_contact_ids_def upd_campaign_def)
  show ?thesis using run assms by (intro that [OF c draft ks _ s1_def s2_def _ st]) auto
qed

lemma validate_campaign_good:
  assumes "validate_campaign env i a s = Inr (x, s')"
  shows "campaign_good s s'"
proof -
  obtain errors n where x: "x = (errors, n)" by fastforce
  from assms obtain c ks s1 s2 act st t where c: "get_campaign i s = Some c" "cp_status c = CP_DRAFT"
    and s1: "s1 = upd_campaign i (\<lambda>c. c\<lparr>cp_status := CP_VALIDATING\<rparr>) s" and s2: "s2 = materialise_audience c ks s1"
    and s': "s' = campaign_audit act i a (upd_campaign i (\<lambda>c. c\<lparr>cp_status := st, cp_validation_errors := errors, cp_next_run_at := t\<rparr>) s2)"
    and st: "st \<in> set (campaign_transitions CP_VALIDATING)"
    unfolding x by (rule validate_campaign_run)
  have i: "cp_id c = i" using get_campaign_id [OF c(1)] by simp
  have g1: "campaign_good s s1"
    unfolding s1 by (rule campaign_good_upd) (use c arc1 in auto)
  have g2: "campaign_good s1 s2"
  proof (rule campaign_good_if)
    assume "campaign_inv s1"
    moreover have "get_campaign i s1 = Some (c\<lparr>cp_status := CP_VALIDATING\<rparr>)" by (simp add: s1 get_campaign_upd c)
    ultimately have "i < next_id s1" by (rule campaign_id_bound)
    then show "campaign_good s1 s2" unfolding s2 by (intro materialise_good) (simp add: i)
  qed (use bulk_insert_ids [of s1 i ks] in \<open>simp add: s2 materialise_audience_def i\<close>)
  have now: "cp_status d = CP_VALIDATING" if "get_campaign i s2 = Some d" for d
  proof (cases "ks = []")
    case False
    have "get_campaign i (snd (bulk_insert i ks s1)) = get_campaign i s1"
      using bulk_insert_frame [of i ks s1] by (simp add: get_campaign_def)
    then show ?thesis using False that by (auto simp: s2 materialise_audience_def i get_campaign_upd s1 c)
  qed (use that in \<open>auto simp: s2 materialise_audience_def s1 get_campaign_upd c\<close>)
  have "campaign_good s2 s'"
    unfolding s' by (rule audited, rule campaign_good_upd) (use now st arc1 in simp_all)
  with g1 g2 show ?thesis by (blast intro: campaign_good_trans)
qed

lemma enqueue_good [simp]: "campaign_good s (enqueue t s)"
  by (rule campaign_good_same) (simp_all add: enqueue_def)

lemma launch_campaign_good: "launch_campaign i a s = Inr s' \<Longrightarrow> campaign_good s s'"
  unfolding launch_campaign_def ebind_Inr_iff campaign_or_404_def campaign_assert_transition_def
  by (auto split: if_splits intro!: audited campaign_good_upd arc1)

lemma post_launch_good: "post_launch i a s = Inr s' \<Longrightarrow> campaign_good s s'"
  unfolding post_launch_def ebind_Inr_iff
  by (auto split: if_splits dest!: launch_campaign_good intro: campaign_good_trans [OF _ enqueue_good])

lemma cancel_campaign_good:
  assumes "cancel_campaign i a s = Inr s'"
  shows "campaign_good s s'"
proof -
  define s1 where "s1 = snd (cancel_pending i s)"
  from assms obtain c where c: "get_campaign i s = Some c" and arc: "CP_CANCELLED \<in> set (campaign_transitions (cp_status c))"
    and s': "\<exists>n t. s' = campaign_audit ''campaign.cancelled'' i a (upd_campaign i (\<lambda>d. d\<lparr>cp_status := CP_CANCELLED,
         cp_failed_count := n, cp_completed_at := t\<rparr>) s1)"
    by (auto simp: cancel_campaign_def ebind_Inr_iff campaign_or_404_def campaign_assert_transition_def s1_def split_beta Let_def)
  have "campaign_good s s1" unfolding s1_def cancel_pending_def snd_conv by (rule campaign_good_recipients) simp_all
  moreover have "get_campaign i s1 = Some c" using c by (simp add: s1_def cancel_pending_def get_campaign_def)
  then have "campaign_good s1 s'" using s' arc by (auto intro!: audited campaign_good_upd arc1)
  ultimately show ?thesis by (rule campaign_good_trans)
qed

subsection \<open>The workers\<close>

lemma update_status_good:
  "(\<And>c. get_campaign i s = Some c \<Longrightarrow> (cp_status c, st) \<in> campaign_arcs\<^sup>*)
   \<Longrightarrow> (\<And>c. cp_id (x c) = cp_id c \<and> cp_sent_count (x c) = cp_sent_count c \<and> cp_status (x c) = cp_status c)
   \<Longrightarrow> campaign_good s (snd (update_status i st x s))"
  unfolding update_status_def by (auto intro!: campaign_good_upd)

lemma counters_good: "sent_delta d = 0 \<Longrightarrow> campaign_good s (increment_counters i d s)"
  unfolding increment_counters_def by (rule campaign_good_upd) simp_all

lemma fan_out_good:
  assumes "fan_out other i offset s = Some s'" "\<And>n t. campaign_good t (other n t)"
  shows "campaign_good s s'"
proof -
  let ?P = "\<lambda>other i offset s s'. (\<forall>n t. campaign_good t (other n t)) \<longrightarrow> campaign_good s s'"
  have "?P other i offset s s'"
  proof (rule fan_out.raw_induct [where P = ?P, OF _ assms(1)])
    fix rec :: "(nat \<Rightarrow> 'a crm_scheme \<Rightarrow> 'a crm_scheme) \<Rightarrow> uuid \<Rightarrow> nat \<Rightarrow> 'a crm_scheme \<Rightarrow> 'a crm_scheme option"
    fix other :: "nat \<Rightarrow> 'a crm_scheme \<Rightarrow> 'a crm_scheme" and i offset and s s' :: "'a crm_scheme"
    assume IH: "\<And>other i offset s s'. rec other i offset s = Some s' \<Longrightarrow> ?P other i offset s s'"
    assume run: "(let ids = list_pending_ids i campaign_batch_size offset s in if ids = [] then Some s
        else rec other i (offset + campaign_batch_size) (other offset (enqueue (ProcessCampaignBatch i ids) s))) = Some s'"
    show "?P other i offset s s'"
    proof (cases "list_pending_ids i campaign_batch_size offset s = []")
      case False
      let ?t = "enqueue (ProcessCampaignBatch i (list_pending_ids i campaign_batch_size offset s)) s"
      have "rec other i (offset + campaign_batch_size) (other offset ?t) = Some s'" using run False by (simp add: Let_def)
      then have rest: "?P other i (offset + campaign_batch_size) (other offset ?t) s'" by (rule IH)
      show ?thesis
      proof
        assume *: "\<forall>n t. campaign_good t (other n t)"
        have "campaign_good s ?t" by (rule enqueue_good)
        also have "campaign_good ?t (other offset ?t)" using * by blast
        also have "campaign_good (other offset ?t) s'" using rest * by blast
        finally show "campaign_good s s'" .
      qed
    qed (use run in simp)
  qed
  then show ?thesis using assms(2) by blast
qed

lemma mark_sent_good:
  assumes r: "get_recipient rid s = Some r" and pending: "cr_status r = CR_PENDING"
  shows "campaign_good s (increment_counters (cr_campaign_id r) (no_deltas\<lparr>sent_delta := 1\<rparr>) (mark_sent rid mid w s))"
    (is "campaign_good s ?t")
proof -
  define f :: "campaign_recipient \<Rightarrow> campaign_recipient" where "f = (\<lambda>r. r\<lparr>cr_status := CR_SENT, cr_sent_at := Some (clock s), cr_message_id := Some mid,
        cr_meta_message_id := w, cr_attempt_count := cr_attempt_count r + 1, cr_error_message := None, cr_error_code := None\<rparr>)"
  have rid: "cr_id r = rid" "r \<in> set (campaign_recipients s)" using r get_by_Some by (fastforce simp: get_recipient_def)+
  have f: "cr_id (f x) = cr_id x" "cr_campaign_id (f x) = cr_campaign_id x" "cr_contact_id (f x) = cr_contact_id x"
    "cr_sent_at (f x) \<noteq> None" "cr_status (f x) = CR_SENT" for x by (simp_all add: f_def)
  have rows: "campaign_recipients ?t = map (\<lambda>x. if cr_id x = cr_id r then f x else x) (campaign_recipients s)"
    by (simp add: mark_sent_def upd_recipients_def f_def rid(1))
  have "campaign_inv ?t" if inv: "campaign_inv s"
  proof -
    have "distinct (map cr_id (campaign_recipients s))" using inv by (simp add: campaign_inv_def)
    from map_one [OF this rid(2), of f] obtain ys zs where old: "campaign_recipients s = ys @ r # zs"
      and new: "campaign_recipients ?t = ys @ f r # zs" unfolding rows by metis
    have unsent: "cr_sent_at r = None" using inv pending rid(2) by (simp add: campaign_inv_def)
    have count: "length (sent_recipients j ?t) = length (sent_recipients j s) + (if j = cr_campaign_id r then 1 else 0)" for j
      unfolding sent_recipients_def recipients_of_def old new using unsent f by simp
    have camps: "campaigns ?t = upd_by cp_id (cr_campaign_id r) (\<lambda>c. c\<lparr>cp_sent_count := cp_sent_count c + 1\<rparr>) (campaigns s)"
      by (simp add: increment_counters_def upd_campaign_def no_deltas_def mark_sent_def upd_recipients_def)
    have "map cp_id (campaigns ?t) = map cp_id (campaigns s)" unfolding camps by (simp add: upd_by_def)
    moreover have "next_id ?t = next_id s" by (simp add: increment_counters_def mark_sent_def)
    moreover have "\<forall>c\<in>set (campaigns ?t). cp_sent_count c = length (sent_recipients (cp_id c) ?t)"
      using inv unfolding count camps by (auto simp: set_upd_by campaign_inv_def)
    moreover have "\<forall>c\<in>set (campaigns ?t). cp_id c < next_id s"
      using inv unfolding camps by (auto simp: set_upd_by campaign_inv_def)
    ultimately show ?thesis using inv f unfolding campaign_inv_def old new by auto
  qed
  moreover have "campaign_moves s ?t"
  proof -
    have "get_campaign i (mark_sent rid mid w s) = get_campaign i s" for i by (simp add: mark_sent_def get_campaign_def)
    then show ?thesis unfolding campaign_moves_def increment_counters_def by (auto simp: get_campaign_upd)
  qed
  moreover have "next_id ?t = next_id s" by (simp add: increment_counters_def mark_sent_def)
  ultimately show ?thesis by (simp add: campaign_good_def)
qed

lemma dispatch_campaign_good:
  assumes run: "dispatch_campaign env other i s = Some (x, s')" and other: "\<And>n t. campaign_good t (other n t)"
  shows "campaign_good s s'"
proof (cases "campaign_ops_gate env s")
  case None
  let ?s1 = "s\<lparr>redis_keys := redis_keys s @ [campaign_lock_key env i]\<rparr>"
  have lock: "campaign_good s ?s1" by (rule campaign_good_same) simp_all
  have unlock: "campaign_good t (t\<lparr>redis_keys := ks\<rparr>)" for t :: "'a crm_scheme" and ks
    by (rule campaign_good_same) simp_all
  show ?thesis
  proof (cases "get_campaign i ?s1")
    case (Some c)
    let ?s2 = "if cp_status c = CP_QUEUED
      then snd (update_status i CP_DISPATCHING (\<lambda>c. c\<lparr>cp_started_at := Some (clock ?s1)\<rparr>) ?s1) else ?s1"
    have started: "campaign_good ?s1 ?s2" using Some by (auto intro!: update_status_good arc1)
    show ?thesis
    proof (cases "campaign_lock_key env i \<in> set (redis_keys s) \<or> (cp_status c \<noteq> CP_QUEUED \<and> cp_status c \<noteq> CP_DISPATCHING)")
      case True
      then show ?thesis using run None Some campaign_good_trans [OF lock unlock]
        by (auto simp: dispatch_campaign_def Let_def split: if_splits)
    next
      case False
      with run None Some obtain s3 where s3: "fan_out other i 0 ?s2 = Some s3"
        and s': "s' = (let t = enqueue (CompleteCampaign i campaign_completion_poll_seconds) s3
                     in t\<lparr>redis_keys := filter (\<lambda>k. k \<noteq> campaign_lock_key env i) (redis_keys t)\<rparr>)"
        by (auto simp: dispatch_campaign_def Let_def)
      have "campaign_good s ?s1" by (rule lock)
      also have "campaign_good ?s1 ?s2" by (rule started)
      also have "campaign_good ?s2 s3" using s3 other by (rule fan_out_good)
      also have "campaign_good s3 (enqueue (CompleteCampaign i campaign_completion_poll_seconds) s3)" by simp
      also have "campaign_good (enqueue (CompleteCampaign i campaign_completion_poll_seconds) s3) s'"
        unfolding s' Let_def by (rule unlock)
      finally show ?thesis .
    qed
  qed (use run None campaign_good_trans [OF lock unlock] in \<open>auto simp: dispatch_campaign_def Let_def split: if_splits\<close>)
qed (use run in \<open>simp add: dispatch_campaign_def\<close>)

lemma resolve_frame:
  assumes "resolve_or_create_conversation k s = Inr (v, s1)"
  shows "campaigns s1 = campaigns s \<and> campaign_recipients s1 = campaign_recipients s \<and> next_id s \<le> next_id s1
    \<and> clock s1 = clock s \<and> redis_counters s1 = redis_counters s \<and> messages s1 = messages s \<and> task_queue s1 = task_queue s"
  using assms by (auto simp: resolve_or_create_conversation_def conv_create_for_contact_def ebind_Inr_iff fresh_id_def Let_def
      split: option.splits)

lemma create_frame:
  assumes "create_message m s = Inr (i, s1)"
  shows "campaigns s1 = campaigns s \<and> campaign_recipients s1 = campaign_recipients s \<and> next_id s \<le> next_id s1
    \<and> clock s1 = clock s \<and> redis_counters s1 = redis_counters s \<and> messages s1 = messages s @ [m\<lparr>ms_id := i\<rparr>]
    \<and> task_queue s1 = task_queue s"
  using assms by (auto simp: create_message_def ebind_Inr_iff fresh_id_def Let_def)

text \<open>The transaction of a recipient: a new message, and the marks on the recipient and the campaign.\<close>

lemma send_to_recipient_Inr:
  assumes "send_to_recipient i template rid contact s = Inr (mid, s')"
  obtains s2 where "s' = increment_counters i (no_deltas\<lparr>sent_delta := 1\<rparr>) (mark_sent rid mid None s2)"
    "campaigns s2 = campaigns s" "campaign_recipients s2 = campaign_recipients s" "next_id s \<le> next_id s2"
    "clock s2 = clock s" "redis_counters s2 = redis_counters s" "length (messages s2) = Suc (length (messages s))"
    "task_queue s2 = task_queue s"
proof -
  from assms obtain v s1 m s2 where r: "resolve_or_create_conversation (ct_id contact) s = Inr (v, s1)"
    and m: "create_message m s1 = Inr (mid, s2)"
    and s': "s' = increment_counters i (no_deltas\<lparr>sent_delta := 1\<rparr>) (mark_sent rid mid None s2)"
    by (fastforce simp: send_to_recipient_def ebind_Inr_iff)
  show ?thesis by (rule that [OF s']) (use resolve_frame [OF r] create_frame [OF m] in auto)
qed

lemma get_recipient_cong: "campaign_recipients t = campaign_recipients s \<Longrightarrow> get_recipient i t = get_recipient i s"
  by (simp add: get_recipient_def)

lemma with_contact: "get_with_contact rid s = Some (r, c) \<Longrightarrow> get_recipient rid s = Some r \<and> get_crm_contact (cr_contact_id r) s = Some c"
  by (auto simp: get_with_contact_def split: option.splits)

lemma daily_cap_good [simp]: "campaign_good s (increment_daily_cap env s)"
  by (rule campaign_good_same) (simp_all add: increment_daily_cap_def redis_incr_def)

lemma process_recipient_good:
  assumes "\<And>r. get_recipient rid s = Some r \<Longrightarrow> cr_campaign_id r = i"
  shows "campaign_good s (process_recipient env i template rid s)"
proof (cases "get_with_contact rid s")
  case (Some p)
  obtain r c where p: "p = (r, c)" by fastforce
  note found = with_contact [OF Some [unfolded p]]
  show ?thesis
  proof (cases "cr_status r = CR_PENDING")
    case True
    show ?thesis
    proof (cases "send_to_recipient i template rid c s")
      case (Inl e)
      have "campaign_good s (mark_failed rid (ce_error_text env e) None s)"
        unfolding mark_failed_def by (rule campaign_good_recipients) simp_all
      also have "campaign_good (mark_failed rid (ce_error_text env e) None s)
          (increment_counters i (no_deltas\<lparr>failed_delta := 1\<rparr>) (mark_failed rid (ce_error_text env e) None s))"
        by (rule counters_good) (simp add: no_deltas_def)
      finally show ?thesis by (simp add: process_recipient_def Some p True Inl)
    next
      case (Inr q)
      obtain mid s1 where q: "q = (mid, s1)" by fastforce
      from send_to_recipient_Inr [OF Inr [unfolded q]] obtain s2
        where s1: "s1 = increment_counters i (no_deltas\<lparr>sent_delta := 1\<rparr>) (mark_sent rid mid None s2)"
        and s2: "campaigns s2 = campaigns s" "campaign_recipients s2 = campaign_recipients s" "next_id s \<le> next_id s2"
        by metis
      have r: "get_recipient rid s2 = Some r" using found s2(2) get_recipient_cong by metis
      have i: "i = cr_campaign_id r" using assms found by blast
      have "campaign_good s s2" using s2 by (rule campaign_good_same)
      also have "campaign_good s2 s1" unfolding s1 i using r True by (rule mark_sent_good)
      also have "campaign_good s1 (enqueue (SendOutbound mid) s1)" by simp
      also have "campaign_good (enqueue (SendOutbound mid) s1) (increment_daily_cap env (enqueue (SendOutbound mid) s1))" by simp
      finally show ?thesis by (simp add: process_recipient_def Some p True Inr q)
    qed
  qed (simp add: process_recipient_def Some p)
qed (simp add: process_recipient_def)

text \<open>What a batch keeps: which campaign a recipient belongs to.\<close>

lemma process_recipient_owner:
  "map (\<lambda>r. (cr_id r, cr_campaign_id r)) (campaign_recipients (process_recipient env i template rid s))
     = map (\<lambda>r. (cr_id r, cr_campaign_id r)) (campaign_recipients s)"
proof (cases "get_with_contact rid s")
  case (Some p)
  obtain r c where p: "p = (r, c)" by fastforce
  show ?thesis
  proof (cases "cr_status r = CR_PENDING")
    case True
    show ?thesis
    proof (cases "send_to_recipient i template rid c s")
      case (Inl e)
      then show ?thesis
        by (simp add: process_recipient_def Some p True mark_failed_def upd_recipients_def comp_def if_distrib cong: if_cong)
    next
      case (Inr q)
      obtain mid s1 where q: "q = (mid, s1)" by fastforce
      from send_to_recipient_Inr [OF Inr [unfolded q]] obtain s2
        where s1: "s1 = increment_counters i (no_deltas\<lparr>sent_delta := 1\<rparr>) (mark_sent rid mid None s2)"
        and s2: "campaign_recipients s2 = campaign_recipients s" by metis
      show ?thesis
        by (simp add: process_recipient_def Some p True Inr q s1 mark_sent_def upd_recipients_def s2 comp_def if_distrib
            enqueue_def increment_daily_cap_def redis_incr_def cong: if_cong)
    qed
  qed (simp add: process_recipient_def Some p)
qed (simp add: process_recipient_def)

definition owned :: "uuid \<Rightarrow> uuid list \<Rightarrow> 'a crm_scheme \<Rightarrow> bool" where
  "owned i rids s = (\<forall>r\<in>set (campaign_recipients s). cr_id r \<in> set rids \<longrightarrow> cr_campaign_id r = i)"

lemma owned_alt: "owned i rids s = (\<forall>p\<in>set (map (\<lambda>r. (cr_id r, cr_campaign_id r)) (campaign_recipients s)). fst p \<in> set rids \<longrightarrow> snd p = i)"
  by (simp add: owned_def)

lemma claim_frame:
  "claim_throttle_slot i rate s = (b, t) \<Longrightarrow> t = redis_incr (ThrottleKey i (epoch_second s)) s"
  by (simp add: claim_throttle_slot_def Let_def)

lemma batch_loop_good:
  "batch_loop env tick i rate template all rids s = (rest, s') \<Longrightarrow> owned i rids s \<Longrightarrow> campaign_good s s'"
proof (induction rids arbitrary: s)
  case (Cons rid rids)
  let ?s = "s\<lparr>clock := tick (length rids)\<rparr>"
  obtain slot s1 where claim: "claim_throttle_slot i rate ?s = (slot, s1)" by fastforce
  have s1: "campaigns s1 = campaigns s" "campaign_recipients s1 = campaign_recipients s" "next_id s1 = next_id s"
    using claim_frame [OF claim] by (simp_all add: redis_incr_def)
  then have g1: "campaign_good s s1" by (simp add: campaign_good_same)
  show ?case
  proof (cases slot)
    case True
    let ?t = "process_recipient env i template rid s1"
    have "owned i (rid # rids) s1" using Cons.prems(2) by (simp add: owned_def s1)
    then have "cr_campaign_id r = i" if "get_recipient rid s1 = Some r" for r
      using get_by_Some [OF that [unfolded get_recipient_def]] by (simp add: owned_def)
    then have step: "campaign_good s1 ?t" by (rule process_recipient_good)
    have own: "owned i rids ?t"
      using \<open>owned i (rid # rids) s1\<close> unfolding owned_alt process_recipient_owner by simp
    have "campaign_good ?t s'" by (rule Cons.IH) (use Cons.prems(1) True claim own in simp_all)
    then show ?thesis using g1 step campaign_good_trans by blast
  qed (use Cons.prems(1) claim g1 in simp)
qed simp

lemma mark_all_failed_good: "campaign_good s (fold (\<lambda>rid. mark_failed rid e None) rids s)"
proof (induction rids arbitrary: s)
  case (Cons rid rids)
  have "campaign_good s (mark_failed rid e None s)"
    unfolding mark_failed_def by (rule campaign_good_recipients) simp_all
  also have "campaign_good (mark_failed rid e None s) (fold (\<lambda>rid. mark_failed rid e None) rids (mark_failed rid e None s))"
    by (rule Cons.IH)
  finally show ?case by simp
qed simp

text \<open>A run of the batch that changes anything found the gate open, the campaign and its template.\<close>

lemma process_batch_cases:
  assumes "process_campaign_batch up env tick i rids s = (e, s')" "s' \<noteq> s"
  obtains c template where "up" "campaign_ops_gate env s = None" "get_campaign i s = Some c"
      "get_by tp_id (cp_template_id c) (templates s) = Some template"
      "s' = (if tp_meta_template_id template = None
      then increment_counters i (no_deltas\<lparr>failed_delta := length rids\<rparr>)
             (fold (\<lambda>rid. mark_failed rid ''Template not submitted to Meta'' None) rids s)
      else snd (batch_loop env tick i (resolve_rate_per_second env c) template rids rids s))"
  using assms by (auto simp: process_campaign_batch_def split: if_splits option.splits prod.splits)

lemma process_batch_good:
  assumes run: "process_campaign_batch up env tick i rids s = (e, s')" and own: "owned i rids s"
  shows "campaign_good s s'"
proof (cases "s' = s")
  case False
  from process_batch_cases [OF run False] obtain template c
    where s': "s' = (if tp_meta_template_id template = None
      then increment_counters i (no_deltas\<lparr>failed_delta := length rids\<rparr>)
             (fold (\<lambda>rid. mark_failed rid ''Template not submitted to Meta'' None) rids s)
      else snd (batch_loop env tick i (resolve_rate_per_second env c) template rids rids s))" by blast
  show ?thesis
  proof (cases "tp_meta_template_id template = None")
    case True
    have "campaign_good s (fold (\<lambda>rid. mark_failed rid ''Template not submitted to Meta'' None) rids s)"
      by (rule mark_all_failed_good)
    also have "campaign_good \<dots> s'" using True unfolding s' by (simp add: counters_good no_deltas_def)
    finally show ?thesis .
  next
    case False
    then show ?thesis using batch_loop_good [OF surjective_pairing own] unfolding s' if_not_P [OF False] by blast
  qed
qed simp

lemma complete_campaign_cases:
  assumes "complete_campaign env i s = (x, s')"
  obtains "s' = s"
  | c where "get_campaign i s = Some c" "cp_status c = CP_DISPATCHING" "s' = campaign_audit ''campaign.failed'' i None
      (snd (update_status i CP_FAILED (\<lambda>c. c\<lparr>cp_completed_at := Some (clock s)\<rparr>) s))"
  | c w where "get_campaign i s = Some c" "cp_status c = CP_DISPATCHING" "s' = snd (update_status i CP_SCHEDULED
      (\<lambda>c. c\<lparr>cp_completed_at := Some (clock s), cp_last_run_at := Some (clock s),
         cp_next_run_at := Some (ce_cron_next env w (clock s))\<rparr>) s)"
  | c where "get_campaign i s = Some c" "cp_status c = CP_DISPATCHING"
      "s' = snd (update_status i CP_COMPLETED (\<lambda>c. c\<lparr>cp_completed_at := Some (clock s)\<rparr>) s)"
proof (cases "get_campaign i s")
  case (Some c)
  show ?thesis
  proof (cases "cp_status c \<noteq> CP_DISPATCHING \<or> 0 < count_status i CR_PENDING s")
    case False
    note live = Some False
    show ?thesis
    proof (cases "0 < count_status i CR_FAILED s")
      case True
      then show ?thesis using assms live that(2) by (simp add: complete_campaign_def)
    next
      case False
      show ?thesis
      proof (cases "\<exists>v vs. cp_type c = CT_RECURRING \<and> cp_cron_expression c = Some (v # vs)")
        case True
        then show ?thesis using assms live False that(3) by (auto simp: complete_campaign_def)
      next
        case once: False
        have "s' = snd (update_status i CP_COMPLETED (\<lambda>c. c\<lparr>cp_completed_at := Some (clock s)\<rparr>) s)"
          using assms live False once
          by (cases "cp_type c"; cases "cp_cron_expression c") (auto simp: complete_campaign_def split: list.splits)
        then show ?thesis using live that(4) by blast
      qed
    qed
  qed (use assms Some that(1) in \<open>auto simp: complete_campaign_def split: if_splits\<close>)
qed (use assms that(1) in \<open>simp add: complete_campaign_def\<close>)

lemma complete_campaign_good: "complete_campaign env i s = (x, s') \<Longrightarrow> campaign_good s s'"
  by (erule complete_campaign_cases) (auto intro!: audited update_status_good arc1)

lemma upd_campaign_status: "update_status i st f s = (n, s') \<Longrightarrow> get_campaign j s' =
    (if j = i then map_option (\<lambda>c. f (c\<lparr>cp_status := st\<rparr>)) (get_campaign j s) else get_campaign j s)"
  if "\<And>c. cp_id (f c) = cp_id c" for f
  using that by (auto simp: update_status_def get_campaign_upd split: if_splits)

lemma tick_one_good:
  assumes c: "get_campaign (cp_id c) s = Some c'" "cp_status c' = CP_SCHEDULED"
  shows "campaign_good s (tick_one c s)" "j \<noteq> cp_id c \<Longrightarrow> get_campaign j (tick_one c s) = get_campaign j s"
proof -
  let ?f = "\<lambda>d. if cp_type c = CT_RECURRING then d\<lparr>cp_last_run_at := Some (clock s)\<rparr> else d"
  have "campaign_good s (snd (update_status (cp_id c) CP_QUEUED ?f s))"
    by (rule update_status_good) (use c arc1 in auto)
  then show "campaign_good s (tick_one c s)"
    unfolding tick_one_def Let_def by (auto split: prod.split intro: campaign_good_trans [OF _ enqueue_good])
  assume d: "j \<noteq> cp_id c"
  obtain n t where u: "update_status (cp_id c) CP_QUEUED ?f s = (n, t)" by fastforce
  have "get_campaign j t = get_campaign j s"
    using upd_campaign_status [OF _ u] d by simp
  then show "get_campaign j (tick_one c s) = get_campaign j s"
    by (simp add: tick_one_def u enqueue_def get_campaign_def)
qed

lemma tick_loop_good:
  "distinct (map cp_id cs) \<Longrightarrow> (\<And>c. c \<in> set cs \<Longrightarrow> \<exists>c'. get_campaign (cp_id c) s = Some c' \<and> cp_status c' = CP_SCHEDULED)
   \<Longrightarrow> campaign_good s (tick_loop (\<lambda>_ t. t) n cs s)"
proof (induction cs arbitrary: n s)
  case (Cons c cs)
  then obtain c' where c': "get_campaign (cp_id c) s = Some c'" "cp_status c' = CP_SCHEDULED" by fastforce
  note one = tick_one_good [OF c']
  have "campaign_good (tick_one c s) (tick_loop (\<lambda>_ t. t) (Suc n) cs (tick_one c s))"
  proof (rule Cons.IH)
    fix d assume d: "d \<in> set cs"
    then have "cp_id d \<noteq> cp_id c" using Cons.prems(1) by auto (metis imageI)
    then show "\<exists>d'. get_campaign (cp_id d) (tick_one c s) = Some d' \<and> cp_status d' = CP_SCHEDULED"
      using one(2) Cons.prems(2) [of d] d by auto
  qed (use Cons.prems in simp)
  then show ?case using campaign_good_trans [OF one(1)] by simp
qed simp

lemma due_campaigns:
  assumes "campaign_inv s"
  shows "distinct (map cp_id (find_due_for_scheduler n s))"
    "c \<in> set (find_due_for_scheduler n s) \<Longrightarrow> get_campaign (cp_id c) s = Some c \<and> cp_status c = CP_SCHEDULED"
proof -
  have sub: "set (find_due_for_scheduler n s) \<subseteq> {c \<in> set (campaigns s). cp_status c = CP_SCHEDULED}"
    by (auto simp: find_due_for_scheduler_def due_for_scheduler_def Let_def dest!: in_set_takeD)
  have ids: "distinct (map cp_id (campaigns s))" using assms by (simp add: campaign_inv_def)
  have "distinct (find_due_for_scheduler n s)"
    using ids by (simp add: find_due_for_scheduler_def Let_def distinct_map)
  moreover have "inj_on cp_id (set (find_due_for_scheduler n s))"
  proof (rule inj_on_subset)
    show "inj_on cp_id (set (campaigns s))" using ids by (simp add: distinct_map)
  qed (use sub in blast)
  ultimately show "distinct (map cp_id (find_due_for_scheduler n s))" by (simp add: distinct_map)
  assume "c \<in> set (find_due_for_scheduler n s)"
  then have "c \<in> set (campaigns s)" "cp_status c = CP_SCHEDULED" using sub by auto
  then show "get_campaign (cp_id c) s = Some c \<and> cp_status c = CP_SCHEDULED"
    using get_by_mem [OF ids] by (simp add: get_campaign_def)
qed

lemma tick_loop_ids: "next_id (tick_loop (\<lambda>_ t. t) n cs s) = next_id s"
proof (induction cs arbitrary: n s)
  case (Cons c cs)
  have "next_id (tick_one c s) = next_id s"
    by (simp add: tick_one_def update_status_def enqueue_def Let_def split_beta)
  with Cons.IH show ?case by simp
qed simp

lemma scheduler_tick_good: "campaign_good s (scheduler_tick (\<lambda>_ t. t) s)"
proof (rule campaign_good_if)
  assume inv: "campaign_inv s"
  show "campaign_good s (scheduler_tick (\<lambda>_ t. t) s)"
    unfolding scheduler_tick_def by (rule tick_loop_good) (use due_campaigns [OF inv] in blast)+
qed (simp add: scheduler_tick_def tick_loop_ids)

subsection \<open>Callbacks and replies\<close>

lemma recipient_delivery_good:
  assumes "recipient_delivery_status w st code e s = Inr (x, s')" "st \<noteq> CR_PENDING"
  shows "campaign_good s s'"
  using assms unfolding recipient_delivery_status_def ebind_Inr_iff
  by (auto simp: Let_def split: option.splits if_splits intro!: campaign_good_recipients)

lemma propagate_good:
  assumes "propagate_to_campaign_recipient w st code e s = Inr s'"
  shows "campaign_good s s'"
proof (cases "st = MSG_DELIVERED \<or> st = MSG_FAILED")
  case True
  then obtain x s1 where r: "recipient_delivery_status w (if st = MSG_DELIVERED then CR_DELIVERED else CR_FAILED) code e s = Inr (x, s1)"
    and s': "s' = (case x of None \<Rightarrow> s1 | Some r \<Rightarrow> increment_counters (cr_campaign_id r)
               (if st = MSG_DELIVERED then no_deltas\<lparr>delivered_delta := 1\<rparr> else no_deltas\<lparr>failed_delta := 1\<rparr>) s1)"
    using assms by (fastforce simp: propagate_to_campaign_recipient_def ebind_Inr_iff split: option.splits)
  have "campaign_good s s1" by (rule recipient_delivery_good [OF r]) simp
  also have "campaign_good s1 s'" unfolding s' by (auto split: option.split intro!: counters_good simp: no_deltas_def)
  finally show ?thesis .
qed (use assms in \<open>simp add: propagate_to_campaign_recipient_def\<close>)

lemma attribute_good: "campaign_good s (attribute_inbound_to_campaigns k t s)"
proof -
  let ?w = "t - microseconds (30 * 86400)"
  have first: "campaign_good s (snd (mark_responded_for_contact k ?w s))"
    unfolding mark_responded_for_contact_def snd_conv by (rule campaign_good_recipients) simp_all
  have more: "campaign_good u (fold (\<lambda>cid. increment_counters cid (no_deltas\<lparr>response_delta := 1\<rparr>)) cs u)"
    for u :: "'a crm_scheme" and cs
  proof (induction cs arbitrary: u)
    case (Cons c cs)
    have "campaign_good u (increment_counters c (no_deltas\<lparr>response_delta := 1\<rparr>) u)"
      by (rule counters_good) (simp add: no_deltas_def)
    from campaign_good_trans [OF this Cons.IH] show ?case by simp
  qed simp
  show ?thesis unfolding attribute_inbound_to_campaigns_def Let_def
    by (cases "map cr_campaign_id (filter (recent_unanswered k ?w) (campaign_recipients s)) = []")
      (simp_all only: if_True if_False simp_thms campaign_good_refl campaign_good_trans [OF first more])
qed

lemma stopped_good: "campaign_good s (cancel_pending_outreach_on_reply v s)"
proof (cases "get_conv v s")
  case (Some c)
  let ?t = "if outreach_open (cv_outreach_state c) then upd_conv v (\<lambda>c. c\<lparr>cv_outreach_state := Some OS_CONVERTED\<rparr>) s else s"
  have "campaign_good s ?t" by (auto intro!: campaign_good_same simp: upd_conv_def)
  also have "campaign_good ?t (cancel_pending_outreach_on_reply v s)"
    by (simp add: cancel_pending_outreach_on_reply_def Some Let_def) (intro conjI impI campaign_good_recipients; simp)
  finally show ?thesis .
qed (simp add: cancel_pending_outreach_on_reply_def)

lemma accepted_good: "campaign_good s (backfill_meta_id m w s)"
  unfolding backfill_meta_id_def by (auto intro!: campaign_good_recipients)

lemma campaign_step_good: "campaign_step s s' \<Longrightarrow> campaign_good s s'"
proof (induction rule: campaign_step.induct)
  case (dispatch env other i s x s')
  have "campaign_good t u" if "(\<lambda>a b. campaign_step a b \<and> campaign_good a b)\<^sup>*\<^sup>* t u" for t u
    using that by (induction rule: rtranclp_induct) (auto intro: campaign_good_trans)
  then show ?case by (intro dispatch_campaign_good [OF dispatch(1)]) (use dispatch(2) in blast)
next
  case (batch up env tick i rids s e s')
  then show ?case by (intro process_batch_good) (simp_all add: owned_def)
next
  case (tick s s')
  then show ?case using scheduler_tick_good by metis
qed (auto intro: create_campaign_good update_campaign_good validate_campaign_good post_launch_good cancel_campaign_good
    complete_campaign_good propagate_good attribute_good stopped_good accepted_good campaign_good_same)

lemma campaign_steps_good: "campaign_step\<^sup>*\<^sup>* s s' \<Longrightarrow> campaign_good s s'"
  by (induction rule: rtranclp_induct) (auto intro: campaign_good_trans campaign_step_good)

section \<open>The life of a campaign\<close>

definition demo_template :: template where
  "demo_template = \<lparr>tp_id = 50, tp_name = ''offer'', tp_language = ''en'', tp_status = TS_APPROVED,
     tp_meta_template_id = Some ''meta.1'', tp_body = Some ''Hello''\<rparr>"

definition everyone :: audience_filter where
  "everyone = \<lparr>af_tags = [], af_status = [], af_assigned_agent_id = None, af_last_interaction_after = None,
     af_last_interaction_before = None, af_contact_ids = []\<rparr>"

definition demo_request :: campaign_request where
  "demo_request = \<lparr>rq_template_id = 50, rq_type = CT_IMMEDIATE, rq_scheduled_at = None, rq_cron_expression = None,
     rq_audience_filter = everyone, rq_rate_limit_per_second = Some 1, rq_category_id = None\<rparr>"

definition demo_env :: campaign_env where
  "demo_env = \<lparr>ce_config = read_operational_config None None, ce_local = (\<lambda>t. t), ce_global_rate = None,
     ce_cron_valid = (\<lambda>_. True), ce_cron_next = (\<lambda>_ t. t + second_us), ce_error_text = (\<lambda>_. ''error''),
     ce_uuid_text = (\<lambda>_. ''id'')\<rparr>"

definition demo_campaigns :: campaign_crm where
  "demo_campaigns = \<lparr>next_id = 100, today = 0, contacts = [], sequences = (\<lambda>_. None), audit_log = [],
     clock = 1000000000000, users = [], crm_contacts = [new_contact 10 ''971501234567'', new_contact 11 ''971507654321''],
     conversations = [], messages = [], media_assets = [], tags = [], contact_tags = [], templates = [demo_template],
     campaigns = [new_campaign 60 demo_request], campaign_recipients = [],
     bool_settings = (\<lambda>_. None), redis_keys = [], redis_counters = (\<lambda>_. 0), published = [], task_queue = [],
     row_choice = (\<lambda>_. 0), campaign_categories = []\<rparr>"

lemmas demo_campaign_evals = demo_template_def everyone_def demo_request_def demo_env_def demo_campaigns_def

declare demo_campaign_evals [evals]

lemma demo_campaigns_inv: "campaign_inv demo_campaigns"
  by (simp add: campaign_inv_def sent_recipients_def recipients_of_def demo_campaigns_def new_campaign_def)

lemma demo_validates: "\<not> isl (validate_campaign demo_env 60 None demo_campaigns)"
  by (simp add: evals Let_def cong: ebind_weak_cong)

lemma demo_validated: "campaign_step\<^sup>*\<^sup>* demo_campaigns (snd (projr (validate_campaign demo_env 60 None demo_campaigns)))"
  by (rule r_into_rtranclp, rule campaign_step.validate [of demo_env 60 None demo_campaigns
        "fst (projr (validate_campaign demo_env 60 None demo_campaigns))"])
    (simp add: not_isl_Inr [OF demo_validates, symmetric])

lemma final_statuses: "(a, b) \<in> campaign_arcs\<^sup>* \<Longrightarrow> a \<in> {CP_COMPLETED, CP_FAILED, CP_CANCELLED} \<Longrightarrow> b = a"
  by (induction rule: rtrancl_induct) (auto simp: campaign_arcs_def)



text \<open>C26: In every reachable state a contact is at most once a recipient of a campaign, a recipient who is still pending was sent
  nothing, and the campaign's counter of messages sent is exactly the number of its recipients that were sent one; so no
  recipient is sent two.\<close>

theorem sent_count_exact:
  assumes "campaign_step\<^sup>*\<^sup>* s s'" "campaign_inv s"
  shows "distinct (map (\<lambda>r. (cr_campaign_id r, cr_contact_id r)) (campaign_recipients s'))
    \<and> (\<forall>r\<in>set (campaign_recipients s'). cr_status r = CR_PENDING \<longrightarrow> cr_sent_at r = None)
    \<and> (\<forall>c\<in>set (campaigns s'). cp_sent_count c = length (sent_recipients (cp_id c) s'))"
  using campaign_steps_good [OF assms(1)] assms(2) by (simp add: campaign_good_def campaign_inv_def)

theorem sent_count_exact_witness:
  "map cr_contact_id (campaign_recipients (snd (projr (validate_campaign demo_env 60 None demo_campaigns)))) = [10, 11]
   \<and> distinct (map (\<lambda>r. (cr_campaign_id r, cr_contact_id r))
       (campaign_recipients (snd (projr (validate_campaign demo_env 60 None demo_campaigns)))))"
proof
  show "map cr_contact_id (campaign_recipients (snd (projr (validate_campaign demo_env 60 None demo_campaigns)))) = [10, 11]"
    by (simp add: evals Let_def cong: ebind_weak_cong)
qed (use sent_count_exact [OF demo_validated demo_campaigns_inv] in blast)

end
