(* ===== verification/CampaignFlow.thy ===== *)
theory CampaignFlow
  imports CampaignProps SendingProps
begin

text \<open>
  How a campaign reaches its recipients: what a dispatch covers, how fast a batch may send, when a batch gives up, and
  where recipients are missed, kept although excluded, or messaged although they opted out.
\<close>

section \<open>The throttle\<close>

definition sends_in :: "uuid \<Rightarrow> int \<Rightarrow> 'a crm_scheme \<Rightarrow> nat" where
  "sends_in i e s = length (filter (\<lambda>r. cr_campaign_id r = i \<and> (case cr_sent_at r of None \<Rightarrow> False | Some t \<Rightarrow> t div second_us = e))
     (campaign_recipients s))"

definition throttled :: "uuid \<Rightarrow> int \<Rightarrow> 'a crm_scheme \<Rightarrow> bool" where
  "throttled i rate s = (distinct (map cr_id (campaign_recipients s))
     \<and> (\<forall>e. sends_in i e s \<le> redis_counters s (ThrottleKey i e) \<and> int (sends_in i e s) \<le> rate))"

lemma sends_in_mark_sent:
  assumes "distinct (map cr_id (campaign_recipients s))"
  shows "sends_in i e (mark_sent rid m w s) \<le> sends_in i e s + (if e = epoch_second s then 1 else 0)"
proof (cases "get_recipient rid s")
  case None
  then have "campaign_recipients (mark_sent rid m w s) = campaign_recipients s"
    by (auto simp: get_recipient_def get_by_None_iff mark_sent_def upd_recipients_def intro!: map_idI)
  then show ?thesis by (simp add: sends_in_def)
next
  case (Some r)
  then have r: "cr_id r = rid" "r \<in> set (campaign_recipients s)" using get_by_Some by (fastforce simp: get_recipient_def)+
  define f :: "campaign_recipient \<Rightarrow> campaign_recipient" where "f = (\<lambda>r. r\<lparr>cr_status := CR_SENT, cr_sent_at := Some (clock s),
     cr_message_id := Some m, cr_meta_message_id := w, cr_attempt_count := cr_attempt_count r + 1, cr_error_message := None,
     cr_error_code := None\<rparr>)"
  have rows: "campaign_recipients (mark_sent rid m w s) = map (\<lambda>x. if cr_id x = cr_id r then f x else x) (campaign_recipients s)"
    by (simp add: mark_sent_def upd_recipients_def f_def r(1))
  obtain ys zs where old: "campaign_recipients s = ys @ r # zs"
    and "map (\<lambda>x. if cr_id x = cr_id r then f x else x) (campaign_recipients s) = ys @ f r # zs"
    by (rule map_one [OF assms r(2), of f])
  then have new: "campaign_recipients (mark_sent rid m w s) = ys @ f r # zs" by (simp only: rows)
  have f: "cr_campaign_id (f r) = cr_campaign_id r" "cr_sent_at (f r) = Some (clock s)" by (simp_all add: f_def)
  show ?thesis unfolding sends_in_def old new epoch_second_def by (simp add: f)
qed

lemma sends_in_cong: "campaign_recipients t = campaign_recipients s \<Longrightarrow> sends_in i e t = sends_in i e s"
  by (simp add: sends_in_def)

lemma sends_in_failed [simp]: "sends_in i e (mark_failed rid w c s) = sends_in i e s"
  by (simp add: sends_in_def mark_failed_def upd_recipients_def filter_map comp_def if_distrib cong: if_cong)

lemma recipient_ids_kept:
  "map cr_id (campaign_recipients (process_recipient env i template rid s)) = map cr_id (campaign_recipients s)"
  using arg_cong [OF process_recipient_owner [of env i template rid s], of "map fst"] by (simp add: comp_def)

text \<open>A recipient adds at most one message, at the current second, and leaves the throttle's counters alone.\<close>

lemma process_recipient_sends:
  assumes "distinct (map cr_id (campaign_recipients s))"
  shows "sends_in i e (process_recipient env j template rid s) \<le> sends_in i e s + (if e = epoch_second s then 1 else 0)
    \<and> redis_counters (process_recipient env j template rid s) (ThrottleKey k e) = redis_counters s (ThrottleKey k e)
    \<and> length (messages (process_recipient env j template rid s)) \<le> Suc (length (messages s))"
proof (cases "get_with_contact rid s")
  case (Some p)
  obtain r c where p: "p = (r, c)" by fastforce
  show ?thesis
  proof (cases "cr_status r = CR_PENDING")
    case True
    show ?thesis
    proof (cases "send_to_recipient j template rid c s")
      case (Inl x)
      have "sends_in i e (increment_counters j (no_deltas\<lparr>failed_delta := 1\<rparr>) (mark_failed rid (ce_error_text env x) None s)) = sends_in i e s"
        by (subst sends_in_cong [OF increment_counters_frame(9)]) simp
      then show ?thesis
        by (simp add: process_recipient_def Some p True Inl increment_counters_def upd_campaign_def mark_failed_def upd_recipients_def)
    next
      case (Inr q)
      obtain mid s1 where q: "q = (mid, s1)" by fastforce
      from send_to_recipient_Inr [OF Inr [unfolded q]] obtain s2
        where s1: "s1 = increment_counters j (no_deltas\<lparr>sent_delta := 1\<rparr>) (mark_sent rid mid None s2)"
        and s2: "campaign_recipients s2 = campaign_recipients s" "clock s2 = clock s" "redis_counters s2 = redis_counters s"
          "length (messages s2) = Suc (length (messages s))"
        by metis
      have "sends_in i e (mark_sent rid mid None s2) \<le> sends_in i e s + (if e = epoch_second s then 1 else 0)"
        using sends_in_mark_sent [of s2 i e rid mid None] assms sends_in_cong [OF s2(1), of i e]
        by (simp add: s2 epoch_second_def)
      moreover have "sends_in i e (increment_daily_cap env (enqueue (SendOutbound mid) s1)) = sends_in i e (mark_sent rid mid None s2)"
        by (rule sends_in_cong) (simp add: s1 enqueue_def increment_daily_cap_def redis_incr_def)
      moreover have "redis_counters (increment_daily_cap env (enqueue (SendOutbound mid) s1)) (ThrottleKey k e) = redis_counters s (ThrottleKey k e)"
        by (simp add: s1 enqueue_def increment_daily_cap_def redis_incr_def increment_counters_def upd_campaign_def mark_sent_def
            upd_recipients_def s2(3))
      moreover have "length (messages (increment_daily_cap env (enqueue (SendOutbound mid) s1))) = Suc (length (messages s))"
        by (simp add: s1 enqueue_def increment_daily_cap_def redis_incr_def mark_sent_def s2(4))
      ultimately show ?thesis by (simp add: process_recipient_def Some p True Inr q)
    qed
  qed (simp add: process_recipient_def Some p)
qed (simp add: process_recipient_def)

lemma throttled_step:
  assumes th: "throttled i rate s" and claim: "claim_throttle_slot i rate (s\<lparr>clock := t\<rparr>) = (slot, s1)"
  shows "throttled i rate s1" "slot \<Longrightarrow> throttled i rate (process_recipient env i template rid s1)"
proof -
  let ?k = "\<lambda>e. ThrottleKey i e"
  have s1: "s1 = redis_incr (?k (t div second_us)) (s\<lparr>clock := t\<rparr>)"
    using claim by (auto simp: claim_throttle_slot_def Let_def epoch_second_def)
  have rows: "campaign_recipients s1 = campaign_recipients s" by (simp add: s1 redis_incr_def)
  have cnt: "redis_counters s1 (?k e) = redis_counters s (?k e) + (if e = t div second_us then 1 else 0)" for e
    by (simp add: s1 redis_incr_def)
  have now: "epoch_second s1 = t div second_us" by (simp add: s1 redis_incr_def epoch_second_def)
  show th1: "throttled i rate s1" using th by (auto simp: throttled_def rows cnt sends_in_cong [OF rows] le_SucI)
  assume slot
  then have bound: "int (redis_counters s1 (?k (t div second_us))) \<le> rate"
    using claim by (auto simp: claim_throttle_slot_def Let_def epoch_second_def s1)
  have dist: "distinct (map cr_id (campaign_recipients s1))" using th by (simp add: throttled_def rows)
  show "throttled i rate (process_recipient env i template rid s1)"
    unfolding throttled_def
  proof (intro conjI allI)
    fix e
    note step = process_recipient_sends [OF dist, of i e env i template rid i, unfolded now]
    have "sends_in i e s \<le> redis_counters s (?k e)" using th by (simp add: throttled_def)
    then show "sends_in i e (process_recipient env i template rid s1) \<le> redis_counters (process_recipient env i template rid s1) (?k e)"
      using step cnt [of e] by (simp add: sends_in_cong [OF rows] split: if_splits)
    show "int (sends_in i e (process_recipient env i template rid s1)) \<le> rate"
    proof (cases "e = t div second_us")
      case True
      then have "sends_in i e (process_recipient env i template rid s1) \<le> redis_counters s1 (?k e)"
        using step cnt [of e] \<open>sends_in i e s \<le> _\<close> by (simp add: sends_in_cong [OF rows])
      then show ?thesis using bound True by simp
    next
      case False
      then have "sends_in i e (process_recipient env i template rid s1) \<le> sends_in i e s1" using step by simp
      moreover have "int (sends_in i e s1) \<le> rate" using th1 by (simp add: throttled_def)
      ultimately show ?thesis by linarith
    qed
  qed (simp add: recipient_ids_kept dist)
qed

lemma batch_loop_throttled:
  "batch_loop env tick i rate template all rids s = (rest, s') \<Longrightarrow> throttled i rate s \<Longrightarrow> throttled i rate s'"
proof (induction rids arbitrary: s)
  case (Cons rid rids)
  obtain slot s1 where claim: "claim_throttle_slot i rate (s\<lparr>clock := tick (length rids)\<rparr>) = (slot, s1)" by fastforce
  note step = throttled_step [OF Cons.prems(2) claim]
  show ?case
  proof (cases slot)
    case True
    then show ?thesis using Cons.IH [OF _ step(2) [OF True]] Cons.prems(1) claim by simp
  qed (use Cons.prems(1) claim step(1) in simp)
qed simp

lemma throttled_cong:
  "campaign_recipients t = campaign_recipients s \<Longrightarrow> redis_counters t = redis_counters s \<Longrightarrow> throttled i rate t = throttled i rate s"
  by (simp add: throttled_def sends_in_def)

lemma mark_all_failed_throttled: "throttled i rate s \<Longrightarrow> throttled i rate (fold (\<lambda>rid. mark_failed rid w None) rids s)"
proof (induction rids arbitrary: s)
  case (Cons rid rids)
  have "redis_counters (mark_failed rid w None s) = redis_counters s"
    "map cr_id (campaign_recipients (mark_failed rid w None s)) = map cr_id (campaign_recipients s)"
    by (simp_all add: mark_failed_def upd_recipients_def)
  then have "throttled i rate (mark_failed rid w None s)" using Cons.prems by (simp add: throttled_def)
  then show ?case using Cons.IH by simp
qed simp


definition demo_one :: campaign_crm where
  "demo_one = demo_campaigns\<lparr>campaigns := [(new_campaign 60 demo_request)\<lparr>cp_status := CP_DISPATCHING\<rparr>],
     campaign_recipients := [new_recipient 70 60 10 0]\<rparr>"


end
