(* ===== verification/CampaignReach.thy ===== *)
theory CampaignReach
  imports CampaignFlow
begin

text \<open>
  Which recipients a campaign reaches: what a dispatch covers and what it misses, when a batch and the completion poll
  give up, and who is messaged although excluded.
\<close>

section \<open>What a dispatch covers\<close>

text \<open>The pending recipients of a campaign, in the order of the query.\<close>

definition pending_ids :: "uuid \<Rightarrow> 'a crm_scheme \<Rightarrow> uuid list" where
  "pending_ids i s = map cr_id (sort_key cr_created_at (filter (\<lambda>r. cr_status r = CR_PENDING) (recipients_of i s)))"

lemma list_pending_page: "list_pending_ids i limit offset s = take limit (drop offset (pending_ids i s))"
  by (simp add: list_pending_ids_def pending_ids_def take_map drop_map)

lemma pending_cong: "campaign_recipients t = campaign_recipients s \<Longrightarrow> pending_ids i t = pending_ids i s"
  by (simp add: pending_ids_def recipients_of_def)

lemma enqueue_frame [simp]:
  "campaign_recipients (enqueue t s) = campaign_recipients s" "campaigns (enqueue t s) = campaigns s"
  "redis_keys (enqueue t s) = redis_keys s" "task_queue (enqueue t s) = task_queue s @ [t]" "clock (enqueue t s) = clock s"
  by (simp_all add: enqueue_def)

lemma pending_enqueue [simp]: "pending_ids i (enqueue t s) = pending_ids i s"
  by (rule pending_cong) simp

lemma pending_queue [simp]: "pending_ids i (s\<lparr>task_queue := q\<rparr>) = pending_ids i s"
  by (rule pending_cong) simp

fun pages :: "nat \<Rightarrow> 'x list \<Rightarrow> 'x list list" where
  "pages n xs = (if xs = [] \<or> n = 0 then [] else take n xs # pages n (drop n xs))"

declare pages.simps [simp del]

lemma pages_Nil [simp]: "pages n [] = []"
  by (subst pages.simps) simp

lemma pages_cover: "0 < n \<Longrightarrow> concat (pages n xs) = xs \<and> (\<forall>p\<in>set (pages n xs). p \<noteq> [] \<and> length p \<le> n)"
  by (induction n xs rule: pages.induct) (subst (1 2) pages.simps, auto)

lemma fan_out_pages:
  "fan_out (\<lambda>_ t. t) i offset s =
     Some (s\<lparr>task_queue := task_queue s @ map (ProcessCampaignBatch i) (pages campaign_batch_size (drop offset (pending_ids i s)))\<rparr>)"
proof (induction "length (pending_ids i s) - offset" arbitrary: offset s rule: less_induct)
  case less
  let ?rest = "drop offset (pending_ids i s)"
  show ?case
  proof (cases "?rest = []")
    case True
    then show ?thesis by (subst fan_out.simps) (simp add: list_pending_page Let_def)
  next
    case False
    let ?t = "enqueue (ProcessCampaignBatch i (take campaign_batch_size ?rest)) s"
    have "fan_out (\<lambda>_ t. t) i (offset + campaign_batch_size) ?t = Some (?t\<lparr>task_queue := task_queue ?t
        @ map (ProcessCampaignBatch i) (pages campaign_batch_size (drop (offset + campaign_batch_size) (pending_ids i ?t)))\<rparr>)"
      by (rule less.hyps) (use False in \<open>simp add: campaign_batch_size_def\<close>)
    moreover have "pages campaign_batch_size ?rest = take campaign_batch_size ?rest # pages campaign_batch_size (drop campaign_batch_size ?rest)"
      using False by (subst pages.simps) (simp add: campaign_batch_size_def)
    ultimately show ?thesis using False
      by (subst fan_out.simps) (simp add: list_pending_page Let_def campaign_batch_size_def enqueue_def add.commute)
  qed
qed

lemma dispatch_keeps:
  assumes "campaign_ops_gate env s = None" "campaign_lock_key env i \<notin> set (redis_keys s)"
    "get_campaign i s = Some c" "cp_status c = CP_QUEUED"
  shows "\<exists>s' c' batches. dispatch_campaign env (\<lambda>_ t. t) i s = Some (TaskDone, s')
    \<and> task_queue s' = task_queue s @ map (ProcessCampaignBatch i) batches @ [CompleteCampaign i 30]
    \<and> concat batches = pending_ids i s \<and> (\<forall>b\<in>set batches. b \<noteq> [] \<and> length b \<le> 100)
    \<and> get_campaign i s' = Some c' \<and> cp_status c' = CP_DISPATCHING
    \<and> redis_keys s' = redis_keys s \<and> campaign_recipients s' = campaign_recipients s
    \<and> cp_type c' = cp_type c \<and> cp_cron_expression c' = cp_cron_expression c"
proof -
  let ?s1 = "s\<lparr>redis_keys := redis_keys s @ [campaign_lock_key env i]\<rparr>"
  let ?f = "\<lambda>c. (c\<lparr>cp_status := CP_DISPATCHING\<rparr>)\<lparr>cp_started_at := Some (clock s)\<rparr>"
  define s2 where "s2 = upd_campaign i ?f ?s1"
  let ?batches = "pages campaign_batch_size (pending_ids i s2)"
  have c: "get_campaign i ?s1 = Some c" using assms(3) by (simp add: get_campaign_def)
  have unlocked: "filter (\<lambda>k. k \<noteq> campaign_lock_key env i) (redis_keys s @ [campaign_lock_key env i]) = redis_keys s"
    using assms(2) by (simp add: filter_id_conv) (metis)
  have pend: "pending_ids i s2 = pending_ids i s" by (rule pending_cong) (simp add: s2_def upd_campaign_def)
  have cover: "concat ?batches = pending_ids i s \<and> (\<forall>b\<in>set ?batches. b \<noteq> [] \<and> length b \<le> 100)"
    using pages_cover [of campaign_batch_size "pending_ids i s2"] by (simp add: campaign_batch_size_def pend)
  define s3 where "s3 = s2\<lparr>task_queue := task_queue s2 @ map (ProcessCampaignBatch i) ?batches\<rparr>"
  define s' where "s' = (enqueue (CompleteCampaign i campaign_completion_poll_seconds) s3)\<lparr>redis_keys := redis_keys s\<rparr>"
  have fan: "fan_out (\<lambda>_ t. t) i 0 s2 = Some s3" using fan_out_pages [of i 0 s2] by (simp add: s3_def)
  have upd: "snd (update_status i CP_DISPATCHING (\<lambda>c. c\<lparr>cp_started_at := Some (clock ?s1)\<rparr>) ?s1) = s2"
    using c by (simp add: update_status_def s2_def)
  have keys: "redis_keys (enqueue (CompleteCampaign i campaign_completion_poll_seconds) s3) = redis_keys s @ [campaign_lock_key env i]"
    by (simp add: s3_def s2_def upd_campaign_def)
  have "dispatch_campaign env (\<lambda>_ t. t) i s = map_option (\<lambda>s3. (TaskDone,
      (enqueue (CompleteCampaign i campaign_completion_poll_seconds) s3)\<lparr>redis_keys := filter (\<lambda>k. k \<noteq> campaign_lock_key env i)
         (redis_keys (enqueue (CompleteCampaign i campaign_completion_poll_seconds) s3))\<rparr>)) (fan_out (\<lambda>_ t. t) i 0 s2)"
    unfolding dispatch_campaign_def Let_def assms(1) option.case if_not_P [OF assms(2)] c
    by (simp only: assms(4) upd simp_thms if_True if_False)
  then have run: "dispatch_campaign env (\<lambda>_ t. t) i s = Some (TaskDone, s')"
    by (simp only: fan option.map keys unlocked s'_def)
  have "task_queue s' = task_queue s @ map (ProcessCampaignBatch i) ?batches @ [CompleteCampaign i 30]"
    by (simp add: s'_def s3_def s2_def upd_campaign_def campaign_completion_poll_seconds_def)
  moreover have "get_campaign i s' = Some (?f c)"
    using get_campaign_upd [of ?f i i ?s1] c by (simp add: s'_def s3_def s2_def get_campaign_def)
  moreover have "redis_keys s' = redis_keys s" "campaign_recipients s' = campaign_recipients s"
    by (simp_all add: s'_def s3_def s2_def upd_campaign_def)
  ultimately show ?thesis using run cover by (intro exI [of _ s'] exI [of _ "?f c"] exI [of _ ?batches]) simp
qed


definition demo_queued :: campaign_crm where
  "demo_queued = demo_campaigns\<lparr>campaigns := [(new_campaign 60 demo_request)\<lparr>cp_status := CP_QUEUED\<rparr>],
     campaign_recipients := [new_recipient 70 60 10 0, new_recipient 71 60 11 0]\<rparr>"

declare demo_queued_def [evals]


text \<open>C29: A page is lost when a batch is faster than the fan-out: the pages are cut by offset from the recipients that are
  pending when the page is read, so if the first batch of 100 has been sent before the second query, the next 100
  recipients are skipped. With 101 to 200 recipients the dispatch then ends after one batch and leaves the others pending.\<close>

theorem fan_out_misses:
  assumes "100 < length (pending_ids i s)" "length (pending_ids i s) \<le> 200"
    "t = other 0 (enqueue (ProcessCampaignBatch i (take 100 (pending_ids i s))) s)"
    "pending_ids i t = drop 100 (pending_ids i s)"
  shows "fan_out other i 0 s = Some t \<and> pending_ids i t \<noteq> []"
proof -
  have first: "list_pending_ids i campaign_batch_size 0 s = take 100 (pending_ids i s)"
    by (simp add: list_pending_page campaign_batch_size_def)
  moreover have "take 100 (pending_ids i s) \<noteq> []" using assms(1) by auto
  ultimately have "fan_out other i 0 s = fan_out other i 100 t"
    by (subst fan_out.simps) (simp add: Let_def assms(3) campaign_batch_size_def)
  also have "\<dots> = Some t"
    using assms(2,4) by (subst fan_out.simps) (simp add: Let_def list_pending_page campaign_batch_size_def)
  finally show ?thesis using assms(1,4) by auto
qed

definition demo_crowd :: campaign_crm where
  "demo_crowd = demo_queued\<lparr>campaign_recipients := map (\<lambda>n. new_recipient n 60 n 0) [0..<101]\<rparr>"

definition first_hundred_sent :: "nat \<Rightarrow> campaign_crm \<Rightarrow> campaign_crm" where
  "first_hundred_sent n s = upd_recipients (\<lambda>r. cr_id r < 100) (\<lambda>r. r\<lparr>cr_status := CR_SENT\<rparr>) s"

theorem fan_out_misses_witness:
  "length (pending_ids 60 demo_crowd) = 101
   \<and> (\<exists>t. fan_out first_hundred_sent 60 0 demo_crowd = Some t \<and> pending_ids 60 t = [100])"
proof
  let ?t = "first_hundred_sent 0 (enqueue (ProcessCampaignBatch 60 (take 100 (pending_ids 60 demo_crowd))) demo_crowd)"
  have rows: "campaign_recipients ?t = map (\<lambda>n. if n < 100 then (new_recipient n 60 n 0)\<lparr>cr_status := CR_SENT\<rparr> else new_recipient n 60 n 0) [0..<101]"
    by (simp add: first_hundred_sent_def upd_recipients_def demo_crowd_def new_recipient_def)
  have sorted: "sort_key cr_created_at xs = xs" if "\<forall>r\<in>set xs. cr_created_at r = 0" for xs :: "campaign_recipient list"
    by (rule sort_key_id_if_sorted) (use that in \<open>simp add: sorted_map sorted_wrt_iff_nth_less\<close>)
  have all: "pending_ids 60 demo_crowd = [0..<101]"
    by (simp add: pending_ids_def recipients_of_def demo_crowd_def new_recipient_def sorted comp_def)
  then show "length (pending_ids 60 demo_crowd) = 101" by simp
  have "filter (\<lambda>r. cr_status r = CR_PENDING) (recipients_of 60 ?t)
      = map (\<lambda>n. new_recipient n 60 n 0) (filter (\<lambda>n. \<not> n < 100) [0..<101])"
    unfolding recipients_of_def rows by (simp add: filter_map comp_def new_recipient_def cong: if_cong)
  also have "[0..<101::nat] = [0..<100] @ [100]" using upt_Suc_append [of 0 100] by simp
  also have "filter (\<lambda>n. \<not> n < 100) ([0..<100] @ [100]) = [100::nat]" by (simp add: filter_empty_conv)
  finally have "filter (\<lambda>r. cr_status r = CR_PENDING) (recipients_of 60 ?t) = [new_recipient 100 60 100 0]" by simp
  then have last: "pending_ids 60 ?t = [100]" by (simp add: pending_ids_def new_recipient_def)
  have "drop 100 [0..<101::nat] = [100]" using upt_Suc_append [of 0 100] by simp
  then have rest: "drop 100 (pending_ids 60 demo_crowd) = [100]" by (simp only: all)
  have "length (pending_ids 60 demo_crowd) = 101" by (simp only: all length_upt)
  then have "fan_out first_hundred_sent 60 0 demo_crowd = Some ?t \<and> pending_ids 60 ?t \<noteq> []"
    by (intro fan_out_misses [where other = first_hundred_sent and i = 60 and s = demo_crowd, OF _ _ refl trans [OF last rest [symmetric]]]) simp_all
  with last show "\<exists>t. fan_out first_hundred_sent 60 0 demo_crowd = Some t \<and> pending_ids 60 t = [100]" by blast
qed

section \<open>Later runs\<close>

lemma pending_count: "(pending_ids i s = []) = (count_status i CR_PENDING s = 0)"
  by (simp add: pending_ids_def count_status_def) (metis length_0_conv length_sort)

lemma count_cong: "campaign_recipients t = campaign_recipients s \<Longrightarrow> count_status i st t = count_status i st s"
  by (simp add: count_status_def recipients_of_def)


definition demo_again :: campaign_crm where
  "demo_again = demo_campaigns\<lparr>campaigns := [(new_campaign 60 demo_request)\<lparr>cp_status := CP_QUEUED, cp_type := CT_RECURRING,
       cp_cron_expression := Some ''0 9 * * 1''\<rparr>],
     campaign_recipients := [(new_recipient 70 60 10 0)\<lparr>cr_status := CR_DELIVERED\<rparr>]\<rparr>"

declare demo_again_def [evals]


section \<open>Giving up\<close>

text \<open>The completion poll gives up: while a recipient stays pending it is retried 120 times (an hour at 30 seconds) and
  then fails, leaving the campaign in DISPATCHING; nothing enqueues another poll. A campaign whose batches are deferred to
  the next morning, or whose recipients were skipped, is never finished.\<close>

theorem poll_gives_up:
  assumes "get_campaign i s = Some c" "cp_status c = CP_DISPATCHING" "0 < count_status i CR_PENDING s"
  shows "run_task (<) (\<lambda>_. complete_campaign env i) 0 s = Some (TaskFailed, 120, s)"
proof -
  have poll: "complete_campaign env i s = (TaskRetry 30 120, s)"
    using assms by (simp add: complete_campaign_def campaign_completion_poll_seconds_def completion_max_retries_def)
  have "n \<le> 120 \<Longrightarrow> run_task (<) (\<lambda>_. complete_campaign env i) n s = Some (TaskFailed, 120, s)" for n
  proof (induction "120 - n" arbitrary: n)
    case 0
    then show ?case by (subst run_task.simps) (simp add: poll)
  next
    case (Suc k)
    then have "run_task (<) (\<lambda>_. complete_campaign env i) (Suc n) s = Some (TaskFailed, 120, s)" by simp
    moreover have "n < 120" using Suc.hyps(2) by simp
    ultimately show ?case by (subst run_task.simps) (simp add: poll)
  qed
  then show ?thesis by simp
qed

theorem poll_gives_up_witness:
  "run_task (<) (\<lambda>_. complete_campaign demo_env 60) 0
     (demo_queued\<lparr>campaigns := [(new_campaign 60 demo_request)\<lparr>cp_status := CP_DISPATCHING\<rparr>]\<rparr>)
   = Some (TaskFailed, 120, demo_queued\<lparr>campaigns := [(new_campaign 60 demo_request)\<lparr>cp_status := CP_DISPATCHING\<rparr>]\<rparr>)"
  by (rule poll_gives_up [where c = "(new_campaign 60 demo_request)\<lparr>cp_status := CP_DISPATCHING\<rparr>"]) (simp_all add: evals)

section \<open>Who stays a recipient\<close>

lemma insert_keeps: "set (campaign_recipients s) \<subseteq> set (campaign_recipients (snd (insert_recipient i k (n, s))))"
  by (auto simp: insert_recipient_def fresh_id_def Let_def)

lemma bulk_insert_keeps: "set (campaign_recipients s) \<subseteq> set (campaign_recipients (snd (bulk_insert i ks s)))"
proof -
  have "set (campaign_recipients s) \<subseteq> set (campaign_recipients (snd (fold (insert_recipient i) ks (n, s))))" for n
  proof (induction ks arbitrary: n s)
    case (Cons k ks)
    obtain m t where t: "insert_recipient i k (n, s) = (m, t)" by fastforce
    have "set (campaign_recipients s) \<subseteq> set (campaign_recipients t)" using insert_keeps [of s i k n] by (simp add: t)
    also have "\<dots> \<subseteq> set (campaign_recipients (snd (fold (insert_recipient i) ks (m, t))))" by (rule Cons.IH)
    finally show ?case by (simp add: t)
  qed simp
  then show ?thesis by (simp add: bulk_insert_def)
qed

text \<open>A validation only adds recipients: those drawn by an earlier validation that failed (a template not yet approved) stay, and
  stay pending, when the audience of the draft is narrowed before it is validated again. The campaign then messages
  contacts its audience excludes, and its audience count leaves them out.\<close>

theorem stale_recipients_kept:
  assumes "validate_campaign env i a s = Inr ((errors, n), s')" "campaign_inv s"
  shows "set (recipients_of i s) \<subseteq> set (recipients_of i s')
    \<and> (\<exists>c c'. get_campaign i s = Some c \<and> get_campaign i s' = Some c' \<and> cp_audience_filter c' = cp_audience_filter c
         \<and> n = length (select_audience_contact_ids (cp_audience_filter c) s)
         \<and> (n \<noteq> 0 \<longrightarrow> cp_audience_count c' = n))"
proof -
  obtain c ks s1 s2 act st t where c: "get_campaign i s = Some c"
    and ks: "ks = select_audience_contact_ids (cp_audience_filter c) s" "n = length ks"
    and s1: "s1 = upd_campaign i (\<lambda>c. c\<lparr>cp_status := CP_VALIDATING\<rparr>) s" and s2: "s2 = materialise_audience c ks s1"
    and s': "s' = campaign_audit act i a (upd_campaign i (\<lambda>c. c\<lparr>cp_status := st, cp_validation_errors := errors, cp_next_run_at := t\<rparr>) s2)"
    using assms(1) by (rule validate_campaign_run)
  define f :: "campaign \<Rightarrow> campaign" where "f = (\<lambda>c. c\<lparr>cp_status := st, cp_validation_errors := errors, cp_next_run_at := t\<rparr>)"
  have f: "cp_id (f d) = cp_id d" "cp_audience_filter (f d) = cp_audience_filter d" "cp_audience_count (f d) = cp_audience_count d" for d
    by (simp_all add: f_def)
  have i: "cp_id c = i" using get_campaign_id [OF c] by simp
  have rows: "campaign_recipients s' = campaign_recipients s2" "campaign_recipients s1 = campaign_recipients s"
    by (simp_all add: s' s1 campaign_audit_def audit_append_def)
  have "set (campaign_recipients s1) \<subseteq> set (campaign_recipients s2)"
    using bulk_insert_keeps [of s1 i ks] by (simp add: s2 materialise_audience_def i)
  then have keep: "set (recipients_of i s) \<subseteq> set (recipients_of i s')" by (auto simp: recipients_of_def rows)
  have now: "get_campaign i s1 = Some (c\<lparr>cp_status := CP_VALIDATING\<rparr>)" by (simp add: s1 c get_campaign_upd)
  have "\<exists>d. get_campaign i s2 = Some d \<and> cp_audience_filter d = cp_audience_filter c \<and> (n \<noteq> 0 \<longrightarrow> cp_audience_count d = n)"
  proof (cases "ks = []")
    case False
    have "get_campaign i (snd (bulk_insert i ks s1)) = get_campaign i s1"
      using bulk_insert_frame [of i ks s1] by (simp add: get_campaign_def)
    then show ?thesis using False now by (simp add: ks(2) s2 materialise_audience_def i get_campaign_upd)
  qed (simp add: ks(2) s2 materialise_audience_def now)
  then obtain d where "get_campaign i s2 = Some d" "cp_audience_filter d = cp_audience_filter c" "n \<noteq> 0 \<longrightarrow> cp_audience_count d = n"
    by blast
  moreover from this(1) have "get_campaign i s' = Some (f d)"
    using get_campaign_upd [of f i i s2] f(1) unfolding s' f_def [symmetric]
    by (simp add: campaign_audit_def audit_append_def get_campaign_def)
  ultimately show ?thesis using keep c ks f by (intro conjI exI [of _ c] exI [of _ "f d"]) simp_all
qed

definition demo_narrowed :: campaign_crm where
  "demo_narrowed = demo_campaigns\<lparr>campaigns := [(new_campaign 60 demo_request)\<lparr>cp_audience_filter := everyone\<lparr>af_contact_ids := [11]\<rparr>\<rparr>],
     campaign_recipients := [new_recipient 70 60 10 0]\<rparr>"

declare demo_narrowed_def [evals]

lemma demo_narrowed_validates:
  "validate_campaign demo_env 60 None demo_narrowed = Inr (([], 1), snd (projr (validate_campaign demo_env 60 None demo_narrowed)))"
  by (simp add: evals Let_def cong: ebind_weak_cong)

theorem stale_recipients_kept_witness:
  "select_audience_contact_ids (everyone\<lparr>af_contact_ids := [11]\<rparr>) demo_narrowed = [11]
   \<and> new_recipient 70 60 10 0 \<in> set (recipients_of 60 (snd (projr (validate_campaign demo_env 60 None demo_narrowed))))"
proof
  have "campaign_inv demo_narrowed"
    by (simp add: campaign_inv_def sent_recipients_def recipients_of_def demo_narrowed_def demo_campaigns_def new_campaign_def
        new_recipient_def)
  from stale_recipients_kept [OF demo_narrowed_validates this]
  show "new_recipient 70 60 10 0 \<in> set (recipients_of 60 (snd (projr (validate_campaign demo_env 60 None demo_narrowed))))"
    by (auto simp: recipients_of_def demo_narrowed_def new_recipient_def)
qed (simp add: evals)

section \<open>Who is messaged\<close>

text \<open>The transaction of a recipient goes through, whatever the flags of the contact.\<close>

lemma send_goes_through:
  assumes "get_crm_contact k s = Some contact"
  obtains mid s1 m v where "send_to_recipient i template rid contact s = Inr (mid, s1)" "m \<in> set (messages s1)" "ms_id m = mid"
    "ms_content m = render_template template contact" "ms_delivery_status m = MSG_QUEUED"
    "v \<in> set (conversations s1)" "cv_id v = ms_conversation_id m" "cv_contact_id v = ct_id contact"
proof -
  have k: "ct_id contact \<in> ct_id ` set (crm_contacts s)" using assms get_by_Some by (fastforce simp: get_crm_contact_def)
  obtain v s0 where v: "resolve_or_create_conversation (ct_id contact) s = Inr (cv_id v, s0)" "v \<in> set (conversations s0)"
    "cv_contact_id v = ct_id contact"
  proof (cases "get_open_for_contact (ct_id contact) s")
    case None
    then show ?thesis using k by (intro that) (auto simp: resolve_or_create_conversation_def conv_create_for_contact_def fresh_id_def Let_def)
  next
    case (Some v)
    then have "v \<in> set (conversations s)" "cv_contact_id v = ct_id contact"
      using latest_by_Some(1) by (fastforce simp: get_open_for_contact_def)+
    then show ?thesis using that [of v s] Some by (simp add: resolve_or_create_conversation_def)
  qed
  define row where "row = (new_message (cv_id v) OUTBOUND SENDER_SYSTEM (render_template template contact) MSG_QUEUED (clock s0))
    \<lparr>ms_template_name := Some (tp_name template), ms_template_language := Some (tp_language template)\<rparr>"
  have row: "ms_msg_type row = ''text''" "ms_conversation_id row = cv_id v" "ms_context_message_id row = None"
    "ms_meta_message_id row = None" "ms_content row = render_template template contact" "ms_delivery_status row = MSG_QUEUED"
    by (simp_all add: row_def new_message_def)
  obtain mid s1 where create: "create_message row s0 = Inr (mid, s1)"
    using v(2) by (simp add: create_message_def row message_types_def fresh_id_def Let_def)
  have made: "row\<lparr>ms_id := mid\<rparr> \<in> set (messages s1)" "conversations s1 = conversations s0"
    using create by (auto simp: create_message_def ebind_Inr_iff fresh_id_def Let_def)
  let ?last = "increment_counters i (no_deltas\<lparr>sent_delta := 1\<rparr>) (mark_sent rid mid None s1)"
  have "send_to_recipient i template rid contact s = Inr (mid, ?last)"
    using v(1) create by (simp add: send_to_recipient_def row_def)
  moreover have "row\<lparr>ms_id := mid\<rparr> \<in> set (messages ?last)" "v \<in> set (conversations ?last)"
    using made v(2) by (simp_all add: mark_sent_def)
  ultimately show ?thesis using that [of mid ?last "row\<lparr>ms_id := mid\<rparr>" v] row v(3) by simp
qed

text \<open>C31: Opting out does not stop a campaign that has drawn its recipients: a batch messages a pending recipient who has since
  been marked do-not-contact, opted out of marketing and blocked (the audience is checked once, when the draft is
  validated, and does not look at do-not-contact at all).\<close>

theorem opted_out_messaged:
  assumes "campaign_ops_gate env s = None" "get_campaign i s = Some c" "cp_status c = CP_DISPATCHING"
    "get_by tp_id (cp_template_id c) (templates s) = Some template" "tp_meta_template_id template \<noteq> None"
    "get_recipient rid s = Some r" "cr_status r = CR_PENDING" "get_crm_contact (cr_contact_id r) s = Some contact"
    "ct_do_not_contact contact \<and> ct_marketing_opt_out contact \<and> ct_status contact = CT_BLOCKED"
    "int (redis_counters s (ThrottleKey i (tick 0 div second_us))) < resolve_rate_per_second env c"
  shows "\<exists>s' m v. process_campaign_batch True env tick i [rid] s = (BatchDone, s') \<and> m \<in> set (messages s')
    \<and> ms_content m = render_template template contact \<and> SendOutbound (ms_id m) \<in> set (task_queue s')
    \<and> v \<in> set (conversations s') \<and> cv_id v = ms_conversation_id m \<and> cv_contact_id v = ct_id contact"
proof -
  let ?s = "redis_incr (ThrottleKey i (tick 0 div second_us)) (s\<lparr>clock := tick 0\<rparr>)"
  obtain w where w: "tp_meta_template_id template = Some w" using assms(5) by blast
  have found: "get_with_contact rid ?s = Some (r, contact)"
    using assms(6,8) by (simp add: get_with_contact_def get_recipient_def get_crm_contact_def redis_incr_def)
  have "get_crm_contact (cr_contact_id r) ?s = Some contact" using assms(8) by (simp add: get_crm_contact_def redis_incr_def)
  then obtain mid s1 m v where send: "send_to_recipient i template rid contact ?s = Inr (mid, s1)" "m \<in> set (messages s1)" "ms_id m = mid"
    "ms_content m = render_template template contact"
    "v \<in> set (conversations s1)" "cv_id v = ms_conversation_id m" "cv_contact_id v = ct_id contact"
    by (rule send_goes_through)
  let ?last = "increment_daily_cap env (enqueue (SendOutbound mid) s1)"
  have one: "process_recipient env i template rid ?s = ?last"
    by (simp add: process_recipient_def found assms(7) send(1))
  have "claim_throttle_slot i (resolve_rate_per_second env c) (s\<lparr>clock := tick 0\<rparr>) = (True, ?s)"
    using assms(10) by (simp add: claim_throttle_slot_def Let_def epoch_second_def redis_incr_def)
  then have "batch_loop env tick i (resolve_rate_per_second env c) template [rid] [rid] s = ([], ?last)" by (simp add: one)
  then have "process_campaign_batch True env tick i [rid] s = (BatchDone, ?last)"
    using assms(1-4) w by (simp add: process_campaign_batch_def del: batch_loop.simps)
  moreover have "messages ?last = messages s1" "conversations ?last = conversations s1" "SendOutbound mid \<in> set (task_queue ?last)"
    by (simp_all add: increment_daily_cap_def redis_incr_def enqueue_def)
  ultimately show ?thesis using send by (intro exI [of _ ?last] exI [of _ m] exI [of _ v]) simp
qed

definition demo_stopped :: crm_contact where
  "demo_stopped = (new_contact 10 ''971501234567'')\<lparr>ct_do_not_contact := True, ct_marketing_opt_out := True, ct_status := CT_BLOCKED\<rparr>"

definition demo_against :: campaign_crm where
  "demo_against = demo_queued\<lparr>campaigns := [(new_campaign 60 demo_request)\<lparr>cp_status := CP_DISPATCHING\<rparr>], crm_contacts := [demo_stopped]\<rparr>"

declare demo_stopped_def [evals] demo_against_def [evals]

theorem opted_out_messaged_witness:
  "\<exists>s' m. process_campaign_batch True demo_env (\<lambda>_. 0) 60 [70] demo_against = (BatchDone, s') \<and> m \<in> set (messages s')
     \<and> SendOutbound (ms_id m) \<in> set (task_queue s')"
proof -
  let ?c = "(new_campaign 60 demo_request)\<lparr>cp_status := CP_DISPATCHING\<rparr>"
  have gate: "campaign_ops_gate demo_env demo_against = None"
    and c: "get_campaign 60 demo_against = Some ?c" "cp_status ?c = CP_DISPATCHING"
    and t: "get_by tp_id (cp_template_id ?c) (templates demo_against) = Some demo_template"
    and r: "get_recipient 70 demo_against = Some (new_recipient 70 60 10 0)"
    and k: "get_crm_contact (cr_contact_id (new_recipient 70 60 10 0)) demo_against = Some demo_stopped"
    and slot: "int (redis_counters demo_against (ThrottleKey 60 (0 div second_us))) < resolve_rate_per_second demo_env ?c"
    by (simp_all add: evals)
  have rest: "tp_meta_template_id demo_template \<noteq> None" "cr_status (new_recipient 70 60 10 0) = CR_PENDING"
    "ct_do_not_contact demo_stopped \<and> ct_marketing_opt_out demo_stopped \<and> ct_status demo_stopped = CT_BLOCKED"
    by (simp_all add: demo_template_def new_recipient_def demo_stopped_def)
  from opted_out_messaged [where tick = "\<lambda>_. 0", OF gate c t rest(1) r rest(2) k rest(3) slot] show ?thesis by blast
qed

section \<open>How far a batch gets\<close>

text \<open>
  The batch task with its retries; \<open>around n\<close> is the state of Redis, the settings and the clock of the \<open>n\<close>-th run. Celery runs it
  again while its retries are below the limit.
\<close>

record batch_run =
  br_redis_up :: bool
  br_env :: campaign_env
  br_tick :: "nat \<Rightarrow> int"

function run_batch :: "(nat \<Rightarrow> batch_run) \<Rightarrow> uuid \<Rightarrow> nat \<Rightarrow> uuid list \<Rightarrow> 'a crm_scheme \<Rightarrow> batch_end \<times> 'a crm_scheme" where
  "run_batch around i n rids s =
     (case process_campaign_batch (br_redis_up (around n)) (br_env (around n)) (br_tick (around n)) i rids s of
        (BatchRetry countdown rest, s1) \<Rightarrow> if n < batch_max_retries then run_batch around i (Suc n) rest s1 else (BatchFailed, s1)
      | (e, s1) \<Rightarrow> (e, s1))"
  by pat_completeness auto

termination by (relation "measure (\<lambda>(around, i, n, rids, s). batch_max_retries - n)") auto

declare run_batch.simps [simp del]

text \<open>The rate set on the campaign, which the workers do not change.\<close>

definition rate_of :: "uuid \<Rightarrow> 'a crm_scheme \<Rightarrow> nat option option" where
  "rate_of i s = map_option cp_rate_limit_per_second (get_campaign i s)"

lemma rate_of_same: "campaigns t = campaigns s \<Longrightarrow> rate_of i t = rate_of i s"
  by (simp add: rate_of_def get_campaign_def)

lemma rate_of_counters [simp]: "rate_of i (increment_counters j d s) = rate_of i s"
  by (simp add: rate_of_def increment_counters_def get_campaign_upd option.map_comp comp_def)

lemma process_recipient_rate [simp]: "rate_of j (process_recipient env i template rid s) = rate_of j s"
proof (cases "get_with_contact rid s")
  case (Some p)
  obtain r c where p: "p = (r, c)" by fastforce
  show ?thesis
  proof (cases "cr_status r = CR_PENDING")
    case True
    show ?thesis
    proof (cases "send_to_recipient i template rid c s")
      case (Inl e)
      have "rate_of j (mark_failed rid (ce_error_text env e) None s) = rate_of j s"
        by (rule rate_of_same) (simp add: mark_failed_def)
      then show ?thesis by (simp add: process_recipient_def Some p True Inl)
    next
      case (Inr q)
      obtain mid s1 where q: "q = (mid, s1)" by fastforce
      from send_to_recipient_Inr [OF Inr [unfolded q]] obtain s2
        where s1: "s1 = increment_counters i (no_deltas\<lparr>sent_delta := 1\<rparr>) (mark_sent rid mid None s2)"
        and s2: "campaigns s2 = campaigns s" by metis
      have "rate_of j (mark_sent rid mid None s2) = rate_of j s" by (rule rate_of_same) (simp add: mark_sent_def s2)
      then have "rate_of j s1 = rate_of j s" by (simp add: s1)
      moreover have "rate_of j (increment_daily_cap env (enqueue (SendOutbound mid) s1)) = rate_of j s1"
        by (rule rate_of_same) (simp add: increment_daily_cap_def redis_incr_def enqueue_def)
      ultimately show ?thesis by (simp add: process_recipient_def Some p True Inr q)
    qed
  qed (simp add: process_recipient_def Some p)
qed (simp add: process_recipient_def)

definition budget :: "uuid \<Rightarrow> int \<Rightarrow> int \<Rightarrow> 'a crm_scheme \<Rightarrow> int" where
  "budget i rate e s = max 0 (rate - int (redis_counters s (ThrottleKey i e)))"

lemma batch_loop_messages:
  assumes "\<And>n. tick n div second_us = e"
  shows "batch_loop env tick i rate template all rids s = (rest, s') \<Longrightarrow> distinct (map cr_id (campaign_recipients s))
    \<Longrightarrow> int (length (messages s')) \<le> int (length (messages s)) + budget i rate e s \<and> rate_of i s' = rate_of i s
      \<and> distinct (map cr_id (campaign_recipients s'))"
proof (induction rids arbitrary: s)
  case Nil
  then show ?case by (simp add: budget_def)
next
  case (Cons rid rids)
  let ?s = "s\<lparr>clock := tick (length rids)\<rparr>"
  obtain slot s1 where claim: "claim_throttle_slot i rate ?s = (slot, s1)" by fastforce
  have s1: "s1 = redis_incr (ThrottleKey i e) ?s" using claim_frame [OF claim] assms by (simp add: epoch_second_def)
  have facts: "messages s1 = messages s" "campaign_recipients s1 = campaign_recipients s" "rate_of i s1 = rate_of i s"
    "redis_counters s1 (ThrottleKey i e) = redis_counters s (ThrottleKey i e) + 1"
    by (simp_all add: s1 redis_incr_def rate_of_def get_campaign_def)
  show ?case
  proof (cases slot)
    case False
    then show ?thesis using Cons.prems claim facts by (auto simp: budget_def)
  next
    case True
    let ?t = "process_recipient env i template rid s1"
    have room: "int (redis_counters s (ThrottleKey i e)) + 1 \<le> rate"
      using claim True facts(4) by (auto simp: claim_throttle_slot_def Let_def epoch_second_def assms)
    have dist: "distinct (map cr_id (campaign_recipients s1))" using Cons.prems(2) by (simp add: facts)
    note one = process_recipient_sends [OF dist, of i e env i template rid i]
    have "int (length (messages s')) \<le> int (length (messages ?t)) + budget i rate e ?t \<and> rate_of i s' = rate_of i ?t
      \<and> distinct (map cr_id (campaign_recipients s'))"
      by (rule Cons.IH) (use Cons.prems(1) claim True dist in \<open>simp_all add: recipient_ids_kept\<close>)
    moreover have "budget i rate e ?t = budget i rate e s - 1" using one room facts(4) by (simp add: budget_def)
    ultimately show ?thesis using one facts by simp
  qed
qed

lemma batch_run_messages:
  assumes run: "process_campaign_batch up env tick i rids s = (e, s')" and rate: "rate_of i s = Some (Some (Suc k))"
    and tick: "\<And>n. tick n div second_us = sec" and dist: "distinct (map cr_id (campaign_recipients s))"
  shows "length (messages s') \<le> length (messages s) + Suc k \<and> rate_of i s' = rate_of i s \<and> distinct (map cr_id (campaign_recipients s'))"
proof (cases "s' = s")
  case False
  from process_batch_cases [OF run this] obtain c template where c: "get_campaign i s = Some c"
    and s': "s' = (if tp_meta_template_id template = None
      then increment_counters i (no_deltas\<lparr>failed_delta := length rids\<rparr>)
             (fold (\<lambda>rid. mark_failed rid ''Template not submitted to Meta'' None) rids s)
      else snd (batch_loop env tick i (resolve_rate_per_second env c) template rids rids s))" by blast
  show ?thesis
  proof (cases "tp_meta_template_id template = None")
    case True
    have "messages t = messages s \<and> campaigns t = campaigns s \<and> map cr_id (campaign_recipients t) = map cr_id (campaign_recipients s)"
      if "t = fold (\<lambda>rid. mark_failed rid w None) rids s" for t w and s :: "'a crm_scheme"
      using that
    proof (induction rids arbitrary: s)
      case (Cons rid rids)
      have "messages (mark_failed rid w None s) = messages s" "campaigns (mark_failed rid w None s) = campaigns s"
        "map cr_id (campaign_recipients (mark_failed rid w None s)) = map cr_id (campaign_recipients s)"
        by (simp_all add: mark_failed_def upd_recipients_def)
      then show ?case using Cons.IH [of "mark_failed rid w None s"] Cons.prems by simp
    qed simp
    from this [OF refl, where w = "''Template not submitted to Meta''"] rate_of_same dist show ?thesis
      unfolding s' if_P [OF True] by fastforce
  next
    case False
    have r: "resolve_rate_per_second env c = int (Suc k)" using rate c by (simp add: rate_of_def resolve_rate_per_second_def)
    have b: "budget i (int (Suc k)) sec s \<le> int (Suc k)" by (simp add: budget_def)
    note loop = batch_loop_messages [where tick = tick, OF tick surjective_pairing dist, where env = env and i = i
          and rate = "int (Suc k)" and template = template and all = rids and rids = rids]
    have "int (length (messages (snd (batch_loop env tick i (int (Suc k)) template rids rids s)))) \<le> int (length (messages s)) + int (Suc k)"
      using conjunct1 [OF loop] b by linarith
    then show ?thesis using loop unfolding s' if_not_P [OF False] r by simp
  qed
qed (use dist in simp)

text \<open>A batch gives up: with a rate of \<open>R\<close> a second on the campaign, a batch task sends at most \<open>11 R\<close> messages in its eleven
  runs when each run falls within one second, as a run that exhausts the throttle does. A batch holds up to 100 recipients, so with a rate of 9 or less the
  last of a full batch are never sent: the task fails and they stay pending.\<close>

theorem batch_gives_up:
  assumes "get_campaign i s = Some c" "cp_rate_limit_per_second c = Some (Suc k)"
    "\<And>n m. br_tick (around n) m div second_us = seconds n" "distinct (map cr_id (campaign_recipients s))"
  shows "length (messages (snd (run_batch around i 0 rids s))) \<le> length (messages s) + 11 * Suc k"
proof -
  have "length (messages (snd (run_batch around i n rids s))) \<le> length (messages s) + (Suc batch_max_retries - n) * Suc k"
    if "rate_of i s = Some (Some (Suc k))" "distinct (map cr_id (campaign_recipients s))" "n \<le> batch_max_retries" for n rids s
    using that
  proof (induction "batch_max_retries - n" arbitrary: n rids s)
    case (0 n rids s)
    obtain e s1 where run: "process_campaign_batch (br_redis_up (around n)) (br_env (around n)) (br_tick (around n)) i rids s = (e, s1)"
      by fastforce
    have last: "\<not> n < batch_max_retries" using 0(1) by simp
    have "length (messages s1) \<le> length (messages s) + Suc k" using batch_run_messages [OF run 0(2) assms(3) 0(3)] by simp
    moreover have "snd (run_batch around i n rids s) = s1"
      using last by (subst run_batch.simps) (simp add: run split: batch_end.split)
    ultimately show ?case using 0 by simp
  next
    case (Suc d n rids s)
    obtain e s1 where run: "process_campaign_batch (br_redis_up (around n)) (br_env (around n)) (br_tick (around n)) i rids s = (e, s1)"
      by fastforce
    note one = batch_run_messages [OF run Suc.prems(1) assms(3) Suc.prems(2)]
    have n: "n < batch_max_retries" "d = batch_max_retries - Suc n" using Suc.hyps(2) by simp_all
    then have runs: "(Suc batch_max_retries - n) * Suc k = Suc k + (Suc batch_max_retries - Suc n) * Suc k"
      by (simp add: Suc_diff_le)
    show ?case
    proof (cases "\<exists>countdown rest. e = BatchRetry countdown rest")
      case True
      then obtain countdown rest where e: "e = BatchRetry countdown rest" by blast
      have "length (messages (snd (run_batch around i (Suc n) rest s1))) \<le> length (messages s1) + (Suc batch_max_retries - Suc n) * Suc k"
        using Suc.hyps(1) [OF n(2), where rids = rest and s = s1] one Suc.prems n(1) by simp
      moreover have "run_batch around i n rids s = run_batch around i (Suc n) rest s1"
        using n(1) by (subst run_batch.simps) (simp add: run e)
      ultimately show ?thesis using one unfolding runs by simp
    next
      case False
      then have "snd (run_batch around i n rids s) = s1" by (subst run_batch.simps) (simp add: run split: batch_end.split)
      then show ?thesis using one unfolding runs by simp
    qed
  qed
  from this [of s 0 rids] assms show ?thesis by (simp add: rate_of_def batch_max_retries_def)
qed

theorem batch_gives_up_witness:
  "(int 3 * second_us) div second_us = 3
   \<and> length (messages (snd (run_batch (\<lambda>n. \<lparr>br_redis_up = True, br_env = demo_env, br_tick = (\<lambda>_. int n * second_us)\<rparr>) 60 0
        [70, 71] demo_queued))) \<le> 11"
proof
  have c: "get_campaign 60 demo_queued = Some ((new_campaign 60 demo_request)\<lparr>cp_status := CP_QUEUED\<rparr>)"
    "cp_rate_limit_per_second ((new_campaign 60 demo_request)\<lparr>cp_status := CP_QUEUED\<rparr>) = Some (Suc 0)"
    "distinct (map cr_id (campaign_recipients demo_queued))" "messages demo_queued = []"
    by (simp_all add: evals)
  have "br_tick \<lparr>br_redis_up = True, br_env = demo_env, br_tick = (\<lambda>_. int n * second_us)\<rparr> m div second_us = int n" for n m
    by (simp add: second_us_def)
  from batch_gives_up [where around = "\<lambda>n. \<lparr>br_redis_up = True, br_env = demo_env, br_tick = (\<lambda>_. int n * second_us)\<rparr>",
      OF c(1,2) this c(3)] c(4)
  show "length (messages (snd (run_batch (\<lambda>n. \<lparr>br_redis_up = True, br_env = demo_env, br_tick = (\<lambda>_. int n * second_us)\<rparr>) 60 0
        [70, 71] demo_queued))) \<le> 11" by simp
qed (simp add: second_us_def)

end
