(* ===== verification/Ledger.thy ===== *)
theory Ledger
  imports Money Session "HOL-Library.Multiset"
begin

text \<open>
  The general ledger's data and its read side (backend/app/modules/ledger: constants.py,
  models.py, repository.py, service.py): the chart of accounts, fiscal periods with their
  open/closed life cycle, journal entries and lines, and the trial balance. Free-text columns
  (descriptions, remarks, cheque data) and the surrogate keys nothing looks up are left out.
  Posting.thy holds the one operation that writes journals.
\<close>

lemma sum_list_mset_cong:
  "mset xs = mset ys \<Longrightarrow> sum_list xs = (sum_list ys :: 'a :: comm_monoid_add)"
  by (metis sum_mset_sum_list)

section \<open>Constants\<close>

datatype account_type = ASSET | LIABILITY | EQUITY | REVENUE | COGS | OPEX

datatype normal_side = DEBIT | CREDIT

datatype journal_status = JE_DRAFT | JE_POSTED | JE_REVERSED

datatype period_status = PER_OPEN | PER_CLOSED | PER_LOCKED

fun normal_side_map :: "account_type \<Rightarrow> normal_side" where
  "normal_side_map ASSET = DEBIT"
| "normal_side_map LIABILITY = CREDIT"
| "normal_side_map EQUITY = CREDIT"
| "normal_side_map REVENUE = CREDIT"
| "normal_side_map COGS = DEBIT"
| "normal_side_map OPEX = DEBIT"

definition account_type_of :: "string \<Rightarrow> account_type option" where
  "account_type_of v = map_of
     [(''asset'', ASSET), (''liability'', LIABILITY), (''equity'', EQUITY),
      (''revenue'', REVENUE), (''cogs'', COGS), (''opex'', OPEX)] v"

definition normal_side_of :: "string \<Rightarrow> normal_side option" where
  "normal_side_of v = map_of [(''debit'', DEBIT), (''credit'', CREDIT)] v"

definition journal_voucher_types :: "string list" where
  "journal_voucher_types =
     [''journal_entry'', ''bank_entry'', ''cash_entry'', ''contra_entry'', ''credit_note'',
      ''debit_note'', ''write_off'', ''opening_entry'', ''exchange_gain_loss'']"

definition control_account_types :: "string list" where
  "control_account_types = [''1100'', ''2100'', ''1200'', ''2200'']"

definition starter_coa :: "(string \<times> string \<times> account_type \<times> bool) list" where
  "starter_coa =
     [(''1010'', ''Petty Cash'', ASSET, False),
      (''1020'', ''Bank Account'', ASSET, False),
      (''1100'', ''Accounts Receivable'', ASSET, True),
      (''1200'', ''Inventory'', ASSET, True),
      (''1300'', ''Prepaid Expenses'', ASSET, False),
      (''2100'', ''Accounts Payable'', LIABILITY, True),
      (''2200'', ''GRN Accrual'', LIABILITY, True),
      (''2300'', ''Accrued Expenses'', LIABILITY, False),
      (''3100'', ''Share Capital'', EQUITY, False),
      (''3200'', ''Retained Earnings'', EQUITY, False),
      (''3300'', ''Current Year Earnings'', EQUITY, False),
      (''4100'', ''Sales Revenue'', REVENUE, False),
      (''4200'', ''Other Revenue'', REVENUE, False),
      (''4300'', ''Realised FX Gain'', REVENUE, False),
      (''5100'', ''Cost of Goods Sold'', COGS, False),
      (''5200'', ''Stock Write-Off'', COGS, False),
      (''6100'', ''Shipping & Freight'', OPEX, False),
      (''6200'', ''Bank Charges'', OPEX, False),
      (''6300'', ''Realised FX Loss'', OPEX, False),
      (''6400'', ''Rounding Difference'', OPEX, False),
      (''6500'', ''General Expenses'', OPEX, False)]"

section \<open>Tables\<close>

record account =
  acc_id :: uuid
  acc_code :: string
  acc_name :: string
  acc_type :: account_type
  acc_normal_side :: normal_side
  acc_parent_id :: "uuid option"
  acc_is_control :: bool
  acc_is_postable :: bool
  acc_is_active :: bool

record fiscal_period =
  per_id :: uuid
  per_fiscal_year :: nat
  per_month :: nat
  per_start_date :: date
  per_end_date :: date
  per_status :: period_status

record journal_entry =
  je_id :: uuid
  je_entry_no :: string
  je_posting_date :: date
  je_period_id :: uuid
  je_voucher_type :: string
  je_source_type :: "string option"
  je_source_id :: "uuid option"
  je_status :: journal_status
  je_reversed_by_id :: "uuid option"
  je_is_opening :: bool
  je_is_system_generated :: bool

record journal_line =
  jl_entry_id :: uuid
  jl_account_id :: uuid
  jl_dr :: rat
  jl_cr :: rat
  jl_currency_code :: "string option"
  jl_fx_rate :: "rat option"
  jl_dr_base :: rat
  jl_cr_base :: rat
  jl_party_type :: "string option"
  jl_party_id :: "uuid option"

text \<open>
  \<open>fy_start_month\<close> is the month of the setting \<open>erp.fiscal_year_start_month\<close>; \<open>None\<close> when
  the setting is missing.
\<close>

record ledger = session +
  accounts :: "account list"
  periods :: "fiscal_period list"
  entries :: "journal_entry list"
  journal_lines :: "journal_line list"
  fy_start_month :: "nat option"

section \<open>Repositories\<close>

definition get_account :: "uuid \<Rightarrow> 'a ledger_scheme \<Rightarrow> account option" where
  "get_account i s = get_by acc_id i (accounts s)"

definition get_account_by_code :: "string \<Rightarrow> 'a ledger_scheme \<Rightarrow> account option" where
  "get_account_by_code code s = get_by acc_code code (accounts s)"

definition list_active_accounts :: "'a ledger_scheme \<Rightarrow> account list" where
  "list_active_accounts s = sort_key acc_code (filter acc_is_active (accounts s))"

definition get_open_period :: "date \<Rightarrow> 'a ledger_scheme \<Rightarrow> err + fiscal_period option" where
  "get_open_period posting_date s =
     scalar_one_or_none
       (filter (\<lambda>p. per_start_date p \<le> posting_date \<and> per_end_date p \<ge> posting_date
                    \<and> per_status p = PER_OPEN) (periods s))"

definition get_by_year_month :: "nat \<Rightarrow> nat \<Rightarrow> 'a ledger_scheme \<Rightarrow> fiscal_period option" where
  "get_by_year_month fy m s =
     find (\<lambda>p. per_fiscal_year p = fy \<and> per_month p = m) (periods s)"

definition get_entry :: "uuid \<Rightarrow> 'a ledger_scheme \<Rightarrow> journal_entry option" where
  "get_entry i s = get_by je_id i (entries s)"

definition entry_lines :: "uuid \<Rightarrow> 'a ledger_scheme \<Rightarrow> journal_line list" where
  "entry_lines i s = filter (\<lambda>l. jl_entry_id l = i) (journal_lines s)"

definition get_with_lines :: "uuid \<Rightarrow> 'a ledger_scheme \<Rightarrow> (journal_entry \<times> journal_line list) option" where
  "get_with_lines i s = map_option (\<lambda>e. (e, entry_lines i s)) (get_entry i s)"

definition list_posted ::
  "uuid option \<Rightarrow> nat \<Rightarrow> nat \<Rightarrow> 'a ledger_scheme \<Rightarrow> journal_entry list" where
  "list_posted account_id limit offset s =
     take limit (drop offset
       (sort_key (\<lambda>e. - int (je_posting_date e))
         (rev (filter (\<lambda>e. je_status e = JE_POSTED
            \<and> (case account_id of None \<Rightarrow> True
               | Some a \<Rightarrow> \<exists>l\<in>set (entry_lines (je_id e) s). jl_account_id l = a)) (entries s)))))"

definition entry_in_range :: "date option \<Rightarrow> date option \<Rightarrow> journal_entry \<Rightarrow> bool" where
  "entry_in_range from_date to_date e =
     (je_status e = JE_POSTED
      \<and> (case from_date of None \<Rightarrow> True | Some d \<Rightarrow> d \<le> je_posting_date e)
      \<and> (case to_date of None \<Rightarrow> True | Some d \<Rightarrow> je_posting_date e \<le> d))"

definition line_in_range ::
  "date option \<Rightarrow> date option \<Rightarrow> 'a ledger_scheme \<Rightarrow> journal_line \<Rightarrow> bool" where
  "line_in_range from_date to_date s l =
     (case get_entry (jl_entry_id l) s of
        None \<Rightarrow> False | Some e \<Rightarrow> entry_in_range from_date to_date e)"

definition sum_by_account ::
  "uuid \<Rightarrow> date option \<Rightarrow> date option \<Rightarrow> 'a ledger_scheme \<Rightarrow> rat \<times> rat" where
  "sum_by_account account_id from_date to_date s =
     (let ls = filter (\<lambda>l. jl_account_id l = account_id \<and> line_in_range from_date to_date s l)
                 (journal_lines s)
      in (sum_list (map jl_dr_base ls), sum_list (map jl_cr_base ls)))"

section \<open>Chart of accounts\<close>

record account_create_request =
  acr_code :: string
  acr_name :: string
  acr_type :: string
  acr_normal_side :: string
  acr_parent_id :: "uuid option"
  acr_is_control :: bool
  acr_is_postable :: bool

definition account_create ::
  "account_create_request \<Rightarrow> 'a ledger_scheme \<Rightarrow> err + account \<times> 'a ledger_scheme" where
  "account_create req s =
     ebind (ensure (get_account_by_code (acr_code req) s = None)
              (ValidationError ''duplicate_account_code'')) (\<lambda>_.
     ebind (from_opt (IntegrityError ''ck_accounts_type'') (account_type_of (acr_type req))) (\<lambda>t.
     ebind (from_opt (IntegrityError ''ck_accounts_normal_side'')
              (normal_side_of (acr_normal_side req))) (\<lambda>n.
     ebind (ensure (case acr_parent_id req of None \<Rightarrow> True | Some p \<Rightarrow> get_account p s \<noteq> None)
              (IntegrityError ''accounts_parent_id_fkey'')) (\<lambda>_.
     let (i, s1) = fresh_id s;
         a = \<lparr>acc_id = i, acc_code = acr_code req, acc_name = acr_name req, acc_type = t,
              acc_normal_side = n, acc_parent_id = acr_parent_id req,
              acc_is_control = acr_is_control req, acc_is_postable = acr_is_postable req,
              acc_is_active = True\<rparr>
     in Inr (a, s1\<lparr>accounts := accounts s1 @ [a]\<rparr>)))))"

definition account_get :: "uuid \<Rightarrow> 'a ledger_scheme \<Rightarrow> err + account" where
  "account_get i s = from_opt NotFoundError (get_account i s)"

section \<open>Fiscal periods\<close>

definition set_period_status :: "uuid \<Rightarrow> period_status \<Rightarrow> 'a ledger_scheme \<Rightarrow> 'a ledger_scheme" where
  "set_period_status i st s = s\<lparr>periods := upd_by per_id i (per_status_update (\<lambda>_. st)) (periods s)\<rparr>"

definition close_period :: "uuid \<Rightarrow> 'a ledger_scheme \<Rightarrow> err + 'a ledger_scheme" where
  "close_period i s =
     ebind (from_opt NotFoundError (get_by per_id i (periods s))) (\<lambda>p.
     ebind (ensure (per_status p \<noteq> PER_CLOSED) (ValidationError ''period_already_closed'')) (\<lambda>_.
     ebind (ensure (per_status p \<noteq> PER_LOCKED) (ValidationError ''period_locked'')) (\<lambda>_.
     Inr (set_period_status i PER_CLOSED s))))"

definition reopen_period :: "uuid \<Rightarrow> 'a ledger_scheme \<Rightarrow> err + 'a ledger_scheme" where
  "reopen_period i s =
     ebind (from_opt NotFoundError (get_by per_id i (periods s))) (\<lambda>p.
     ebind (ensure (per_status p = PER_CLOSED) (ValidationError ''period_not_closed'')) (\<lambda>_.
     Inr (set_period_status i PER_OPEN s)))"

section \<open>Trial balance\<close>

record tb_row =
  tb_account :: uuid
  tb_opening_dr :: rat
  tb_opening_cr :: rat
  tb_period_dr :: rat
  tb_period_cr :: rat
  tb_closing_dr :: rat
  tb_closing_cr :: rat

record trial_balance =
  tb_rows :: "tb_row list"
  tb_total_dr :: rat
  tb_total_cr :: rat
  tb_difference :: rat

definition fiscal_year_start :: "date \<Rightarrow> nat \<Rightarrow> date" where
  "fiscal_year_start as_of_date m =
     (let fy = year_of as_of_date; fy_start = ymd2ord fy m 1
      in if as_of_date < fy_start then ymd2ord (fy - 1) m 1 else fy_start)"

definition tb_build_row :: "date \<Rightarrow> date \<Rightarrow> 'a ledger_scheme \<Rightarrow> account \<Rightarrow> tb_row" where
  "tb_build_row fy_start as_of_date s a =
     (let (opening_dr, opening_cr) = sum_by_account (acc_id a) None (Some (fy_start - 1)) s;
          (period_dr, period_cr) = sum_by_account (acc_id a) (Some fy_start) (Some as_of_date) s;
          closing_dr = money (opening_dr + period_dr);
          closing_cr = money (opening_cr + period_cr);
          (display_dr, display_cr) =
            (if normal_side_map (acc_type a) = DEBIT
             then let net = money (closing_dr - closing_cr)
                  in if net \<ge> 0 then (net, money_zero) else (money_zero, money (- net))
             else let net = money (closing_cr - closing_dr)
                  in if net \<ge> 0 then (money_zero, net) else (money (- net), money_zero))
      in \<lparr>tb_account = acc_id a, tb_opening_dr = opening_dr, tb_opening_cr = opening_cr,
          tb_period_dr = period_dr, tb_period_cr = period_cr,
          tb_closing_dr = display_dr, tb_closing_cr = display_cr\<rparr>)"

definition trial_balance_build :: "date \<Rightarrow> 'a ledger_scheme \<Rightarrow> err + trial_balance" where
  "trial_balance_build as_of_date s =
     (let m = (case fy_start_month s of None \<Rightarrow> 1 | Some m \<Rightarrow> m)
      in ebind (ensure (1 \<le> m \<and> m \<le> 12) ValueError) (\<lambda>_.
         let fy_start = fiscal_year_start as_of_date m;
             rows = map (tb_build_row fy_start as_of_date s) (list_active_accounts s);
             total_dr = foldl (\<lambda>t r. t + tb_closing_dr r) money_zero rows;
             total_cr = foldl (\<lambda>t r. t + tb_closing_cr r) money_zero rows
         in Inr \<lparr>tb_rows = rows, tb_total_dr = money total_dr, tb_total_cr = money total_cr,
                 tb_difference = money (total_dr - total_cr)\<rparr>))"

declare get_account_def [evals] get_account_by_code_def [evals] list_active_accounts_def [evals]
  get_open_period_def [evals] get_entry_def [evals] entry_lines_def [evals] get_with_lines_def [evals]
  entry_in_range_def [evals] line_in_range_def [evals] sum_by_account_def [evals]
  fiscal_year_start_def [evals] tb_build_row_def [evals] trial_balance_build_def [evals]
  set_period_status_def [evals] close_period_def [evals] reopen_period_def [evals]
  journal_voucher_types_def [evals]

section \<open>Well-formed ledgers\<close>

text \<open>
  What the keys and foreign keys of the tables guarantee, what \<open>post\<close> guarantees of the
  amounts (NUMERIC(19,4) values, every entry in balance), and what the chart of accounts
  guarantees: no operation of the program deactivates an account.
\<close>

definition ledger_wf :: "'a ledger_scheme \<Rightarrow> bool" where
  "ledger_wf s =
     (distinct (map je_id (entries s)) \<and> distinct (map je_entry_no (entries s))
      \<and> (\<forall>e\<in>set (entries s). je_id e < next_id s)
      \<and> distinct (map acc_id (accounts s)) \<and> distinct (map acc_code (accounts s))
      \<and> (\<forall>a\<in>set (accounts s). acc_id a < next_id s)
      \<and> (\<forall>l\<in>set (journal_lines s). jl_entry_id l \<in> je_id ` set (entries s)
            \<and> jl_account_id l \<in> acc_id ` set (accounts s)))"

definition entry_dr :: "uuid \<Rightarrow> 'a ledger_scheme \<Rightarrow> rat" where
  "entry_dr i s = sum_list (map jl_dr_base (entry_lines i s))"

definition entry_cr :: "uuid \<Rightarrow> 'a ledger_scheme \<Rightarrow> rat" where
  "entry_cr i s = sum_list (map jl_cr_base (entry_lines i s))"

definition entries_balanced :: "'a ledger_scheme \<Rightarrow> bool" where
  "entries_balanced s = (\<forall>e\<in>set (entries s). entry_dr (je_id e) s = entry_cr (je_id e) s)"

definition lines_quantized :: "'a ledger_scheme \<Rightarrow> bool" where
  "lines_quantized s = (\<forall>l\<in>set (journal_lines s).
     is_money (jl_dr l) \<and> is_money (jl_cr l) \<and> is_money (jl_dr_base l) \<and> is_money (jl_cr_base l))"

definition accounts_active :: "'a ledger_scheme \<Rightarrow> bool" where
  "accounts_active s = (\<forall>a\<in>set (accounts s). acc_is_active a)"

definition ledger_inv :: "'a ledger_scheme \<Rightarrow> bool" where
  "ledger_inv s = (ledger_wf s \<and> entries_balanced s \<and> lines_quantized s \<and> accounts_active s)"

lemmas ledger_defs = ledger_inv_def ledger_wf_def entries_balanced_def entry_dr_def entry_cr_def
  lines_quantized_def accounts_active_def

section \<open>The trial balance adds up\<close>

lemma get_entry_mem: "ledger_wf s \<Longrightarrow> e \<in> set (entries s) \<Longrightarrow> get_entry (je_id e) s = Some e"
  by (simp add: get_entry_def ledger_wf_def get_by_mem)

lemma sum_over_accounts:
  fixes f :: "journal_line \<Rightarrow> rat"
  assumes "ledger_wf s"
  shows "sum_list (map (\<lambda>a. sum_list (map f (filter (\<lambda>l. jl_account_id l = acc_id a \<and> P l)
        (journal_lines s)))) (accounts s)) = sum_list (map f (filter P (journal_lines s)))"
proof -
  have "sum_list (map (\<lambda>a. sum_list (map f (filter (\<lambda>l. jl_account_id l = acc_id a)
      (filter P (journal_lines s))))) (accounts s)) = sum_list (map f (filter P (journal_lines s)))"
    by (rule sum_join) (use assms in \<open>auto simp: ledger_wf_def\<close>)
  then show ?thesis by (simp add: filter_filter conj_commute)
qed

lemma lines_of_entry_in_range:
  assumes "ledger_wf s" "e \<in> set (entries s)" "entry_in_range fd td e"
  shows "filter (\<lambda>l. jl_entry_id l = je_id e) (filter (line_in_range fd td s) (journal_lines s))
    = entry_lines (je_id e) s"
  using assms unfolding entry_lines_def filter_filter
  by (intro filter_cong) (auto simp: line_in_range_def get_entry_mem)

lemma sum_over_entries:
  fixes f :: "journal_line \<Rightarrow> rat"
  assumes "ledger_wf s"
  shows "sum_list (map f (filter (line_in_range fd td s) (journal_lines s)))
    = sum_list (map (\<lambda>e. sum_list (map f (entry_lines (je_id e) s)))
        (filter (entry_in_range fd td) (entries s)))"
proof -
  let ?es = "filter (entry_in_range fd td) (entries s)"
  let ?ls = "filter (line_in_range fd td s) (journal_lines s)"
  have "distinct (map je_id ?es)"
    using assms by (simp add: ledger_wf_def distinct_map_filter)
  moreover have "jl_entry_id l \<in> je_id ` set ?es" if "l \<in> set ?ls" for l
    using that by (force simp: line_in_range_def get_entry_def dest: get_by_Some
        split: option.splits)
  ultimately have "sum_list (map (\<lambda>e. sum_list (map f (filter (\<lambda>l. jl_entry_id l = je_id e) ?ls))) ?es)
      = sum_list (map f ?ls)"
    by (rule sum_join)
  moreover have "map (\<lambda>e. sum_list (map f (filter (\<lambda>l. jl_entry_id l = je_id e) ?ls))) ?es
      = map (\<lambda>e. sum_list (map f (entry_lines (je_id e) s))) ?es"
    using assms by (intro map_cong) (auto simp: lines_of_entry_in_range simp del: filter_filter)
  ultimately show ?thesis by metis
qed

lemma ledger_in_balance:
  assumes "ledger_wf s" "entries_balanced s"
  shows "sum_list (map (\<lambda>a. fst (sum_by_account (acc_id a) fd td s)) (accounts s))
    = sum_list (map (\<lambda>a. snd (sum_by_account (acc_id a) fd td s)) (accounts s))"
proof -
  have "map (\<lambda>e. entry_dr (je_id e) s) (filter (entry_in_range fd td) (entries s))
      = map (\<lambda>e. entry_cr (je_id e) s) (filter (entry_in_range fd td) (entries s))"
    using assms(2) by (auto simp: entries_balanced_def)
  then have "sum_list (map (\<lambda>e. entry_dr (je_id e) s) (filter (entry_in_range fd td) (entries s)))
      = sum_list (map (\<lambda>e. entry_cr (je_id e) s) (filter (entry_in_range fd td) (entries s)))"
    by (rule arg_cong)
  then show ?thesis
    by (simp add: sum_by_account_def Let_def sum_over_accounts [OF assms(1)]
        sum_over_entries [OF assms(1)] entry_dr_def entry_cr_def)
qed

lemma sum_by_account_quantized:
  assumes "lines_quantized s"
  shows "is_money (fst (sum_by_account a fd td s))" "is_money (snd (sum_by_account a fd td s))"
  using assms by (auto simp: sum_by_account_def Let_def lines_quantized_def intro!: quantized_sum_list)

text \<open>A row shows its account's net movement on one side.\<close>

lemma tb_build_row_net:
  assumes "lines_quantized s"
  shows "tb_closing_dr (tb_build_row fs d s a) - tb_closing_cr (tb_build_row fs d s a)
    = (fst (sum_by_account (acc_id a) None (Some (fs - 1)) s)
        - snd (sum_by_account (acc_id a) None (Some (fs - 1)) s))
      + (fst (sum_by_account (acc_id a) (Some fs) (Some d) s)
        - snd (sum_by_account (acc_id a) (Some fs) (Some d) s))"
proof -
  obtain od oc where o: "sum_by_account (acc_id a) None (Some (fs - Suc 0)) s = (od, oc)"
    by fastforce
  obtain pd pc where p: "sum_by_account (acc_id a) (Some fs) (Some d) s = (pd, pc)"
    by fastforce
  have "is_money od" "is_money oc" "is_money pd" "is_money pc"
    using sum_by_account_quantized [OF assms] o p by (metis fst_conv snd_conv)+
  then have "money (od + pd) = od + pd" "money (oc + pc) = oc + pc"
    "money (od + pd - (oc + pc)) = od + pd - (oc + pc)"
    "money (oc + pc - (od + pd)) = oc + pc - (od + pd)"
    by (simp_all add: money_is_money quantized_add quantized_diff)
  then show ?thesis
    using money_minus [of "od + pd - (oc + pc)"] money_minus [of "oc + pc - (od + pd)"]
    by (simp add: tb_build_row_def o p Let_def)
qed

lemma tb_build_row_sides:
  "0 \<le> tb_closing_dr (tb_build_row fs d s a) \<and> 0 \<le> tb_closing_cr (tb_build_row fs d s a)
   \<and> (tb_closing_dr (tb_build_row fs d s a) = 0 \<or> tb_closing_cr (tb_build_row fs d s a) = 0)"
  by (auto simp: tb_build_row_def Let_def money_minus money_nonneg split: prod.splits)
     (use money_mono [of _ 0] in \<open>force simp: not_le\<close>)+

lemma foldl_add_map: "foldl (\<lambda>t r. t + f r) (z :: rat) rs = z + sum_list (map f rs)"
  by (induction rs arbitrary: z) (auto simp: add.assoc)

lemma sum_list_active:
  assumes "accounts_active s"
  shows "sum_list (map f (list_active_accounts s)) = (sum_list (map f (accounts s)) :: rat)"
proof -
  have "filter acc_is_active (accounts s) = accounts s"
    using assms by (simp add: accounts_active_def filter_id_conv)
  then have "mset (map f (list_active_accounts s)) = mset (map f (accounts s))"
    by (simp add: list_active_accounts_def)
  then show ?thesis
    by (metis sum_mset_sum_list)
qed

lemma closing_totals_agree:
  assumes "ledger_inv s"
  shows "sum_list (map (\<lambda>a. tb_closing_dr (tb_build_row fs d s a)
      - tb_closing_cr (tb_build_row fs d s a)) (list_active_accounts s)) = 0"
proof -
  from assms have wf: "ledger_wf s" "entries_balanced s" "lines_quantized s" "accounts_active s"
    by (simp_all add: ledger_inv_def)
  show ?thesis
    using ledger_in_balance [OF wf(1,2), of None "Some (fs - 1)"]
      ledger_in_balance [OF wf(1,2), of "Some fs" "Some d"]
    by (simp add: sum_list_active [OF wf(4)] tb_build_row_net [OF wf(3)]
        sum_list_addf sum_list_subtractf)
qed

end
