(* ===== verification/Posting.thy ===== *)
theory Posting
  imports Ledger
begin

text \<open>
  \<open>PostingService\<close> (backend/app/modules/ledger/posting.py) and \<open>JournalService\<close> of
  ledger/service.py: the only operations that write journal entries. \<open>post\<close> runs its five
  gates in the code's order, then allocates the entry number, creates the entry, its lines and
  the audit row; \<open>reverse_entry\<close> posts the mirror image of a posted entry and marks the
  original reversed. Values stored in NUMERIC(19,4) columns are rounded as the database does
  (\<open>money\<close>); the gates compare the values of the request.
\<close>

section \<open>Requests\<close>

record journal_line_request =
  jlr_account_id :: uuid
  jlr_dr :: rat
  jlr_cr :: rat
  jlr_currency_code :: "string option"
  jlr_fx_rate :: "rat option"
  jlr_dr_base :: rat
  jlr_cr_base :: rat
  jlr_party_type :: "string option"
  jlr_party_id :: "uuid option"

record journal_entry_request =
  jer_posting_date :: date
  jer_voucher_type :: string
  jer_lines :: "journal_line_request list"
  jer_is_opening :: bool

text \<open>The schema's \<open>min_length=2\<close> on the lines; a shorter list is refused before any service runs.\<close>

definition valid_entry_request :: "journal_entry_request \<Rightarrow> bool" where
  "valid_entry_request req = (length (jer_lines req) \<ge> 2)"

section \<open>The gates\<close>

definition gate_account :: "bool \<Rightarrow> 'a ledger_scheme \<Rightarrow> journal_line_request \<Rightarrow> err + unit" where
  "gate_account is_system_generated s line =
     ebind (from_opt (PostingError ''account_not_found'') (get_account (jlr_account_id line) s)) (\<lambda>a.
     ebind (ensure (acc_is_active a) (PostingError ''account_inactive'')) (\<lambda>_.
     ebind (ensure (acc_is_postable a) (PostingError ''account_not_postable'')) (\<lambda>_.
     ensure (\<not> (acc_is_control a \<and> \<not> is_system_generated))
       (PostingError ''control_account_violation''))))"

definition gate_amounts :: "journal_line_request \<Rightarrow> err + unit" where
  "gate_amounts line =
     ebind (ensure (\<not> (jlr_dr line = 0 \<and> jlr_cr line = 0)) (PostingError ''zero_amount_line'')) (\<lambda>_.
     ensure (\<not> (jlr_dr line \<noteq> 0 \<and> jlr_cr line \<noteq> 0)) (PostingError ''both_dr_and_cr''))"

section \<open>Entry numbers\<close>

definition entry_prefix :: "string \<Rightarrow> string" where
  "entry_prefix voucher_type =
     (case map_of
        [(''journal_entry'', ''JV''), (''bank_entry'', ''BP''), (''cash_entry'', ''CP''),
         (''contra_entry'', ''CNT''), (''credit_note'', ''CRN''), (''debit_note'', ''DBN''),
         (''write_off'', ''WO''), (''opening_entry'', ''OP''), (''exchange_gain_loss'', ''FX'')]
        voucher_type of
      None \<Rightarrow> ''JV'' | Some p \<Rightarrow> p)"

definition next_entry_no ::
  "string \<Rightarrow> date \<Rightarrow> 'a session_scheme \<Rightarrow> string \<times> 'a session_scheme" where
  "next_entry_no voucher_type posting_date s =
     (let fiscal_year = year_of posting_date;
          (next_val, s1) = alloc_number voucher_type fiscal_year s
      in (doc_no (entry_prefix voucher_type) fiscal_year next_val, s1))"

section \<open>Writing\<close>

definition line_of_request :: "uuid \<Rightarrow> journal_line_request \<Rightarrow> journal_line" where
  "line_of_request entry_id r =
     \<lparr>jl_entry_id = entry_id, jl_account_id = jlr_account_id r,
      jl_dr = money (jlr_dr r), jl_cr = money (jlr_cr r),
      jl_currency_code = jlr_currency_code r, jl_fx_rate = map_option fx_rate (jlr_fx_rate r),
      jl_dr_base = money (jlr_dr_base r), jl_cr_base = money (jlr_cr_base r),
      jl_party_type = jlr_party_type r, jl_party_id = jlr_party_id r\<rparr>"

text \<open>
  \<open>JournalEntryRepository.create\<close> with the table's constraints: the voucher type is one of the
  enumeration's values and the entry number is unique.
\<close>

definition entry_create :: "journal_entry \<Rightarrow> 'a ledger_scheme \<Rightarrow> err + 'a ledger_scheme" where
  "entry_create e s =
     ebind (ensure (je_voucher_type e \<in> set journal_voucher_types)
              (IntegrityError ''ck_journal_entries_voucher_type'')) (\<lambda>_.
     ebind (ensure (je_entry_no e \<notin> je_entry_no ` set (entries s))
              (IntegrityError ''journal_entries_entry_no'')) (\<lambda>_.
     Inr (s\<lparr>entries := entries s @ [e]\<rparr>)))"

definition post ::
  "journal_entry_request \<Rightarrow> uuid option \<Rightarrow> string option \<Rightarrow> uuid option \<Rightarrow> bool
     \<Rightarrow> 'a ledger_scheme \<Rightarrow> err + journal_entry \<times> 'a ledger_scheme" where
  "post req actor_id source_type source_id is_system_generated s =
     ebind (get_open_period (jer_posting_date req) s) (\<lambda>found.
     ebind (from_opt (PostingError ''period_not_open'') found) (\<lambda>period.
     ebind (check_all (gate_account is_system_generated s) (jer_lines req)) (\<lambda>_.
     ebind (check_all gate_amounts (jer_lines req)) (\<lambda>_.
     let total_dr = money_sum (map jlr_dr_base (jer_lines req));
         total_cr = money_sum (map jlr_cr_base (jer_lines req))
     in ebind (ensure (total_dr = total_cr) (PostingError ''unbalanced'')) (\<lambda>_.
     let (entry_no, s1) = next_entry_no (jer_voucher_type req) (jer_posting_date req) s;
         (i, s2) = fresh_id s1;
         entry = \<lparr>je_id = i, je_entry_no = entry_no, je_posting_date = jer_posting_date req,
                  je_period_id = per_id period, je_voucher_type = jer_voucher_type req,
                  je_source_type = source_type, je_source_id = source_id,
                  je_status = JE_POSTED, je_reversed_by_id = None,
                  je_is_opening = jer_is_opening req,
                  je_is_system_generated = is_system_generated\<rparr>
     in ebind (entry_create entry s2) (\<lambda>s3.
     let s4 = s3\<lparr>journal_lines := journal_lines s3 @ map (line_of_request i) (jer_lines req)\<rparr>;
         s5 = audit_append
                \<lparr>au_actor_type = (if actor_id \<noteq> None then ''agent'' else ''system''),
                 au_actor_id = actor_id, au_action = ''ledger.entry_posted'',
                 au_entity_type = ''journal_entry'', au_entity_id = Some i\<rparr> s4
     in Inr (entry, s5)))))))"

section \<open>Reversal\<close>

definition mirror_line :: "journal_line \<Rightarrow> journal_line_request" where
  "mirror_line l =
     \<lparr>jlr_account_id = jl_account_id l, jlr_dr = jl_cr l, jlr_cr = jl_dr l,
      jlr_currency_code = jl_currency_code l, jlr_fx_rate = jl_fx_rate l,
      jlr_dr_base = jl_cr_base l, jlr_cr_base = jl_dr_base l,
      jlr_party_type = jl_party_type l, jlr_party_id = jl_party_id l\<rparr>"

definition mark_reversed :: "uuid \<Rightarrow> uuid \<Rightarrow> 'a ledger_scheme \<Rightarrow> 'a ledger_scheme" where
  "mark_reversed i reversal_id s =
     s\<lparr>entries := upd_by je_id i
         (\<lambda>e. e\<lparr>je_status := JE_REVERSED, je_reversed_by_id := Some reversal_id\<rparr>) (entries s)\<rparr>"

definition reverse_entry ::
  "uuid \<Rightarrow> uuid \<Rightarrow> date option \<Rightarrow> 'a ledger_scheme \<Rightarrow> err + journal_entry \<times> 'a ledger_scheme" where
  "reverse_entry entry_id actor_id reversal_date s =
     ebind (from_opt (PostingError ''entry_not_found'') (get_with_lines entry_id s)) (\<lambda>(entry, lines).
     ebind (ensure (je_status entry = JE_POSTED) (PostingError ''cannot_reverse_unposted'')) (\<lambda>_.
     ebind (ensure (je_reversed_by_id entry = None) (PostingError ''already_reversed'')) (\<lambda>_.
     let pd = (case reversal_date of None \<Rightarrow> je_posting_date entry | Some d \<Rightarrow> d);
         reversal_req = \<lparr>jer_posting_date = pd, jer_voucher_type = je_voucher_type entry,
                         jer_lines = map mirror_line lines, jer_is_opening = False\<rparr>
     in ebind (ensure (valid_entry_request reversal_req) ValueError) (\<lambda>_.
     ebind (post reversal_req (Some actor_id) (Some ''journal_entry'') (Some entry_id) False s)
       (\<lambda>(reversal, s1).
     Inr (reversal, mark_reversed entry_id (je_id reversal) s1))))))"

section \<open>JournalService\<close>

definition post_entry ::
  "journal_entry_request \<Rightarrow> uuid \<Rightarrow> 'a ledger_scheme \<Rightarrow> err + journal_entry \<times> 'a ledger_scheme" where
  "post_entry req actor_id s =
     ebind (ensure (valid_entry_request req) ValueError) (\<lambda>_. post req (Some actor_id) None None False s)"

definition journal_reverse_entry ::
  "uuid \<Rightarrow> uuid \<Rightarrow> 'a ledger_scheme \<Rightarrow> err + journal_entry \<times> 'a ledger_scheme" where
  "journal_reverse_entry entry_id actor_id s = reverse_entry entry_id actor_id None s"

definition journal_get_entry ::
  "uuid \<Rightarrow> 'a ledger_scheme \<Rightarrow> err + journal_entry \<times> journal_line list" where
  "journal_get_entry entry_id s = from_opt NotFoundError (get_with_lines entry_id s)"

declare valid_entry_request_def [evals] gate_account_def [evals] gate_amounts_def [evals]
  entry_prefix_def [evals] next_entry_no_def [evals] line_of_request_def [evals]
  entry_create_def [evals] post_def [evals] mirror_line_def [evals] mark_reversed_def [evals]
  reverse_entry_def [evals] post_entry_def [evals]

lemma let_record_eval [evals]:
  "(let x = \<lparr>je_id = a, je_entry_no = b, je_posting_date = c, je_period_id = d, je_voucher_type = e,
      je_source_type = f, je_source_id = g, je_status = h, je_reversed_by_id = i, je_is_opening = j,
      je_is_system_generated = k\<rparr> in F x)
   = F \<lparr>je_id = a, je_entry_no = b, je_posting_date = c, je_period_id = d, je_voucher_type = e,
      je_source_type = f, je_source_id = g, je_status = h, je_reversed_by_id = i, je_is_opening = j,
      je_is_system_generated = k\<rparr>"
  "(let x = \<lparr>jer_posting_date = m, jer_voucher_type = n, jer_lines = p, jer_is_opening = q\<rparr> in G x)
   = G \<lparr>jer_posting_date = m, jer_voucher_type = n, jer_lines = p, jer_is_opening = q\<rparr>"
  by (simp_all add: Let_def)

section \<open>What a posting does\<close>

text \<open>
  \<open>posted_entry\<close> and \<open>posted_state\<close> are the row and the state a successful posting leaves;
  \<open>postable\<close> is the conjunction of everything that must hold for it.
\<close>

definition posting_no :: "journal_entry_request \<Rightarrow> 'a ledger_scheme \<Rightarrow> string" where
  "posting_no req s = doc_no (entry_prefix (jer_voucher_type req)) (year_of (jer_posting_date req))
     (next_value (jer_voucher_type req) (year_of (jer_posting_date req)) s)"

definition posted_entry ::
  "journal_entry_request \<Rightarrow> string option \<Rightarrow> uuid option \<Rightarrow> bool \<Rightarrow> fiscal_period
     \<Rightarrow> 'a ledger_scheme \<Rightarrow> journal_entry" where
  "posted_entry req source_type source_id is_sys p s =
     \<lparr>je_id = next_id s, je_entry_no = posting_no req s, je_posting_date = jer_posting_date req,
      je_period_id = per_id p, je_voucher_type = jer_voucher_type req,
      je_source_type = source_type, je_source_id = source_id, je_status = JE_POSTED,
      je_reversed_by_id = None, je_is_opening = jer_is_opening req,
      je_is_system_generated = is_sys\<rparr>"

definition posted_state ::
  "journal_entry_request \<Rightarrow> uuid option \<Rightarrow> journal_entry \<Rightarrow> 'a ledger_scheme \<Rightarrow> 'a ledger_scheme" where
  "posted_state req actor_id e s = s\<lparr>next_id := Suc (next_id s),
     sequences := (sequences s)((jer_voucher_type req, year_of (jer_posting_date req)) \<mapsto>
        Suc (next_value (jer_voucher_type req) (year_of (jer_posting_date req)) s)),
     audit_log := audit_log s @ [\<lparr>au_actor_type = (if actor_id \<noteq> None then ''agent'' else ''system''),
        au_actor_id = actor_id, au_action = ''ledger.entry_posted'',
        au_entity_type = ''journal_entry'', au_entity_id = Some (je_id e)\<rparr>],
     entries := entries s @ [e],
     journal_lines := journal_lines s @ map (line_of_request (je_id e)) (jer_lines req)\<rparr>"

definition postable ::
  "journal_entry_request \<Rightarrow> bool \<Rightarrow> fiscal_period \<Rightarrow> 'a ledger_scheme \<Rightarrow> bool" where
  "postable req is_sys p s =
     (get_open_period (jer_posting_date req) s = Inr (Some p)
      \<and> (\<forall>l\<in>set (jer_lines req). gate_account is_sys s l = Inr () \<and> gate_amounts l = Inr ())
      \<and> money_sum (map jlr_dr_base (jer_lines req)) = money_sum (map jlr_cr_base (jer_lines req))
      \<and> jer_voucher_type req \<in> set journal_voucher_types
      \<and> posting_no req s \<notin> je_entry_no ` set (entries s))"

lemma post_Inr_iff:
  "(post req actor_id st si is_sys s = Inr (e, s')) =
     (\<exists>p. postable req is_sys p s \<and> e = posted_entry req st si is_sys p s
          \<and> s' = posted_state req actor_id e s)"
proof -
  have eq: "posted_entry req st si is_sys p s = \<lparr>je_id = next_id s,
      je_entry_no = doc_no (entry_prefix (jer_voucher_type req)) (year_of (jer_posting_date req))
        (next_value (jer_voucher_type req) (year_of (jer_posting_date req)) s),
      je_posting_date = jer_posting_date req, je_period_id = per_id p,
      je_voucher_type = jer_voucher_type req, je_source_type = st, je_source_id = si,
      je_status = JE_POSTED, je_reversed_by_id = None, je_is_opening = jer_is_opening req,
      je_is_system_generated = is_sys\<rparr>" for p
    by (simp add: posted_entry_def posting_no_def)
  show ?thesis
    unfolding post_def Let_def next_entry_no_def alloc_number_eq fresh_id_def entry_create_def
      audit_append_def ebind_Inr_iff postable_def posted_state_def eq
    by (auto simp: ok_simps posting_no_def)
qed

lemma post_Inr:
  assumes "post req actor_id st si is_sys s = Inr (e, s')"
  obtains p where "postable req is_sys p s" "e = posted_entry req st si is_sys p s"
    "s' = posted_state req actor_id e s"
  using assms by (auto simp: post_Inr_iff)

lemma posted_entry_simps [simp]:
  "je_id (posted_entry req st si is_sys p s) = next_id s"
  "je_entry_no (posted_entry req st si is_sys p s) = posting_no req s"
  "je_posting_date (posted_entry req st si is_sys p s) = jer_posting_date req"
  "je_period_id (posted_entry req st si is_sys p s) = per_id p"
  "je_voucher_type (posted_entry req st si is_sys p s) = jer_voucher_type req"
  "je_status (posted_entry req st si is_sys p s) = JE_POSTED"
  "je_reversed_by_id (posted_entry req st si is_sys p s) = None"
  "je_source_type (posted_entry req st si is_sys p s) = st"
  "je_source_id (posted_entry req st si is_sys p s) = si"
  "je_is_system_generated (posted_entry req st si is_sys p s) = is_sys"
  by (simp_all add: posted_entry_def)

lemma posted_state_simps [simp]:
  "entries (posted_state req a e s) = entries s @ [e]"
  "journal_lines (posted_state req a e s)
     = journal_lines s @ map (line_of_request (je_id e)) (jer_lines req)"
  "accounts (posted_state req a e s) = accounts s"
  "periods (posted_state req a e s) = periods s"
  "contacts (posted_state req a e s) = contacts s"
  "today (posted_state req a e s) = today s"
  "fy_start_month (posted_state req a e s) = fy_start_month s"
  "next_id (posted_state req a e s) = Suc (next_id s)"
  "ledger.more (posted_state req a e s) = ledger.more s"
  by (simp_all add: posted_state_def)

lemma line_of_request_simps [simp]:
  "jl_entry_id (line_of_request i r) = i"
  "jl_account_id (line_of_request i r) = jlr_account_id r"
  "jl_dr (line_of_request i r) = money (jlr_dr r)"
  "jl_cr (line_of_request i r) = money (jlr_cr r)"
  "jl_dr_base (line_of_request i r) = money (jlr_dr_base r)"
  "jl_cr_base (line_of_request i r) = money (jlr_cr_base r)"
  by (simp_all add: line_of_request_def)

lemma next_value_posted:
  "next_value t y (posted_state req a e s) =
     (if (t, y) = (jer_voucher_type req, year_of (jer_posting_date req))
      then Suc (next_value t y s) else next_value t y s)"
  by (auto simp: posted_state_def next_value_def)

lemma gate_account_Inr:
  "gate_account is_sys s l = Inr () \<Longrightarrow>
     \<exists>a. get_account (jlr_account_id l) s = Some a \<and> acc_is_active a \<and> acc_is_postable a
       \<and> (acc_is_control a \<longrightarrow> is_sys)"
  by (auto simp: gate_account_def ok_simps)

lemma gate_amounts_Inr [simp]:
  "(gate_amounts l = Inr ()) = ((jlr_dr l = 0) \<noteq> (jlr_cr l = 0))"
  by (auto simp: gate_amounts_def ok_simps)

lemma open_period_spec:
  "get_open_period d s = Inr (Some p) \<Longrightarrow>
     p \<in> set (periods s) \<and> per_start_date p \<le> d \<and> d \<le> per_end_date p \<and> per_status p = PER_OPEN"
  by (auto simp: get_open_period_def scalar_one_or_none_def filter_eq_Cons_iff split: list.splits)

section \<open>Invariants of the ledger\<close>

text \<open>A request whose base amounts have at most four decimals.\<close>

definition exact_request :: "journal_entry_request \<Rightarrow> bool" where
  "exact_request req = (\<forall>l\<in>set (jer_lines req). is_money (jlr_dr_base l) \<and> is_money (jlr_cr_base l))"

lemma entry_lines_posted:
  "entry_lines i (posted_state req a e s) =
     entry_lines i s @ (if i = je_id e then map (line_of_request i) (jer_lines req) else [])"
  by (auto simp: entry_lines_def filter_map o_def)

lemma entry_lines_fresh: "ledger_wf s \<Longrightarrow> entry_lines (next_id s) s = []"
  by (fastforce simp: entry_lines_def filter_empty_conv ledger_wf_def)

lemma ledger_wf_post:
  assumes wf: "ledger_wf s" and p: "post req a st si sys s = Inr (e, s')"
  shows "ledger_wf s'"
proof -
  from p obtain q where q: "postable req sys q s" "e = posted_entry req st si sys q s"
    "s' = posted_state req a e s" by (rule post_Inr)
  have "jlr_account_id l \<in> acc_id ` set (accounts s)" if "l \<in> set (jer_lines req)" for l
    using q(1) that gate_account_Inr [of sys s l]
    by (auto simp: postable_def get_account_def dest!: get_by_Some intro: rev_image_eqI)
  then show ?thesis
    using wf q by (auto simp: ledger_wf_def postable_def less_Suc_eq)
qed

lemma sum_money_lines:
  assumes "\<And>r. r \<in> set rs \<Longrightarrow> is_money (f r)"
  shows "sum_list (map (\<lambda>r. money (f r)) rs) = money_sum (map f rs)"
proof -
  have "map (\<lambda>r. money (f r)) rs = map f rs"
    using assms by (auto simp: money_is_money)
  then have "sum_list (map (\<lambda>r. money (f r)) rs) = sum_list (map f rs)"
    by (rule arg_cong)
  then show ?thesis
    using assms by (subst money_sum_is_money) auto
qed

lemma ledger_inv_post:
  assumes inv: "ledger_inv s" and ex: "exact_request req"
    and p: "post req a st si sys s = Inr (e, s')"
  shows "ledger_inv s'"
proof -
  from inv have s: "ledger_wf s" "entries_balanced s" "lines_quantized s" "accounts_active s"
    by (simp_all add: ledger_inv_def)
  from p obtain q where q: "postable req sys q s" "e = posted_entry req st si sys q s"
    "s' = posted_state req a e s" by (rule post_Inr)
  have new: "entry_dr (next_id s) s' = entry_cr (next_id s) s'"
    using ex q s(1)
    by (simp add: entry_dr_def entry_cr_def entry_lines_posted entry_lines_fresh postable_def
        exact_request_def sum_money_lines o_def)
  have "je_id x \<noteq> next_id s" if "x \<in> set (entries s)" for x
    using s(1) that by (auto simp: ledger_wf_def)
  then have "entries_balanced s'"
    using s(2) q new
    by (auto simp: entries_balanced_def entry_dr_def entry_cr_def entry_lines_posted)
  moreover have "lines_quantized s'" "accounts_active s'"
    using s q by (auto simp: lines_quantized_def accounts_active_def)
  ultimately show ?thesis
    using ledger_wf_post [OF s(1) p] by (simp add: ledger_inv_def)
qed

subsection \<open>Control accounts\<close>

text \<open>No line of an entry that the system did not generate is on a control account.\<close>

definition control_ok :: "'a ledger_scheme \<Rightarrow> bool" where
  "control_ok s = (\<forall>e\<in>set (entries s). \<not> je_is_system_generated e \<longrightarrow>
     (\<forall>l\<in>set (entry_lines (je_id e) s). \<forall>a\<in>set (accounts s).
        acc_id a = jl_account_id l \<longrightarrow> \<not> acc_is_control a))"

lemma control_ok_post:
  assumes wf: "ledger_wf s" and c: "control_ok s" and p: "post req a st si sys s = Inr (e, s')"
  shows "control_ok s'"
proof -
  from p obtain q where q: "postable req sys q s" "e = posted_entry req st si sys q s"
    "s' = posted_state req a e s" by (rule post_Inr)
  have new: "\<not> acc_is_control x"
    if "\<not> sys" "l \<in> set (jer_lines req)" "x \<in> set (accounts s)" "acc_id x = jlr_account_id l" for l x
  proof -
    have "get_account (jlr_account_id l) s = Some x"
      using wf that(3,4) get_by_mem [of acc_id "accounts s" x]
      by (simp add: get_account_def ledger_wf_def)
    then show ?thesis
      using q(1) that gate_account_Inr [of sys s l] by (auto simp: postable_def)
  qed
  have old: "je_id x \<noteq> next_id s" if "x \<in> set (entries s)" for x
    using wf that by (auto simp: ledger_wf_def)
  show ?thesis
    unfolding control_ok_def
  proof (intro ballI impI)
    fix x l z
    assume x: "x \<in> set (entries s')" "\<not> je_is_system_generated x"
      "l \<in> set (entry_lines (je_id x) s')" "z \<in> set (accounts s')" "acc_id z = jl_account_id l"
    show "\<not> acc_is_control z"
    proof (cases "x \<in> set (entries s)")
      case True
      with x c q old [OF True] show ?thesis
        by (auto simp: control_ok_def entry_lines_posted)
    next
      case False
      with x q new show ?thesis
        by (auto simp: entry_lines_posted entry_lines_fresh [OF wf])
    qed
  qed
qed

subsection \<open>Entry numbers\<close>

text \<open>
  The entries of one voucher type and year carry the numbers 1, 2, 3, ... in the order they
  were posted, and the sequence row holds the next one.
\<close>

definition voucher_numbers :: "string \<Rightarrow> nat \<Rightarrow> 'a ledger_scheme \<Rightarrow> string list" where
  "voucher_numbers t y s = map je_entry_no
     (filter (\<lambda>e. je_voucher_type e = t \<and> year_of (je_posting_date e) = y) (entries s))"

definition gapless :: "string \<Rightarrow> nat \<Rightarrow> 'a ledger_scheme \<Rightarrow> bool" where
  "gapless t y s =
     (voucher_numbers t y s = map (doc_no (entry_prefix t) y) [1..<next_value t y s])"

lemma next_value_pos_posted:
  "1 \<le> next_value t y s \<Longrightarrow> 1 \<le> next_value t y (posted_state req a e s)"
  by (simp add: next_value_posted)

lemma gapless_post:
  assumes g: "gapless t y s" and n: "1 \<le> next_value t y s"
    and p: "post req a st si sys s = Inr (e, s')"
  shows "gapless t y s' \<and> 1 \<le> next_value t y s'"
proof -
  from p obtain q where q: "postable req sys q s" "e = posted_entry req st si sys q s"
    "s' = posted_state req a e s" by (rule post_Inr)
  show ?thesis
  proof (cases "jer_voucher_type req = t \<and> year_of (jer_posting_date req) = y")
    case True
    with g n q show ?thesis
      by (simp add: gapless_def voucher_numbers_def next_value_posted posting_no_def)
  next
    case False
    with g n q show ?thesis
      by (auto simp: gapless_def voucher_numbers_def next_value_posted)
  qed
qed

lemma entry_prefix_inject:
  "t \<in> set journal_voucher_types \<Longrightarrow> u \<in> set journal_voucher_types \<Longrightarrow>
     (entry_prefix t = entry_prefix u) = (t = u)"
  by (auto simp: journal_voucher_types_def entry_prefix_def)

lemma entry_prefix_no_dash: "t \<in> set journal_voucher_types \<Longrightarrow> CHR ''-'' \<notin> set (entry_prefix t)"
  by (auto simp: journal_voucher_types_def entry_prefix_def)

definition numbers_bounded :: "'a ledger_scheme \<Rightarrow> bool" where
  "numbers_bounded s = (\<forall>e\<in>set (entries s). je_voucher_type e \<in> set journal_voucher_types \<and>
     (\<exists>n < next_value (je_voucher_type e) (year_of (je_posting_date e)) s.
        je_entry_no e = doc_no (entry_prefix (je_voucher_type e)) (year_of (je_posting_date e)) n))"

lemma numbers_bounded_fresh:
  assumes "numbers_bounded s" and "jer_voucher_type req \<in> set journal_voucher_types"
  shows "posting_no req s \<notin> je_entry_no ` set (entries s)"
proof
  assume "posting_no req s \<in> je_entry_no ` set (entries s)"
  then obtain e where e: "e \<in> set (entries s)" "je_entry_no e = posting_no req s"
    by (metis imageE)
  with assms(1) obtain n where t: "je_voucher_type e \<in> set journal_voucher_types"
    and n: "n < next_value (je_voucher_type e) (year_of (je_posting_date e)) s"
      "je_entry_no e = doc_no (entry_prefix (je_voucher_type e)) (year_of (je_posting_date e)) n"
    unfolding numbers_bounded_def by blast
  have "entry_prefix (je_voucher_type e) = entry_prefix (jer_voucher_type req)
      \<and> year_of (je_posting_date e) = year_of (jer_posting_date req)
      \<and> n = next_value (jer_voucher_type req) (year_of (jer_posting_date req)) s"
    using n(2) e(2) unfolding posting_no_def
    by (metis doc_no_inject entry_prefix_no_dash t assms(2))
  then show False
    using n(1) entry_prefix_inject [OF t assms(2)] by simp
qed

lemma numbers_bounded_post:
  assumes b: "numbers_bounded s" and p: "post req a st si sys s = Inr (e, s')"
  shows "numbers_bounded s'"
proof -
  from p obtain q where q: "postable req sys q s" "e = posted_entry req st si sys q s"
    "s' = posted_state req a e s" by (rule post_Inr)
  have mono: "next_value t y s \<le> next_value t y s'" for t y
    using q(3) by (simp add: next_value_posted)
  show ?thesis
    unfolding numbers_bounded_def
  proof
    fix x assume "x \<in> set (entries s')"
    then consider "x \<in> set (entries s)" | "x = e" using q(3) by auto
    then show "je_voucher_type x \<in> set journal_voucher_types \<and>
      (\<exists>n < next_value (je_voucher_type x) (year_of (je_posting_date x)) s'.
        je_entry_no x = doc_no (entry_prefix (je_voucher_type x)) (year_of (je_posting_date x)) n)"
    proof cases
      case 1
      with b mono show ?thesis unfolding numbers_bounded_def by (meson less_le_trans)
    next
      case 2
      with q show ?thesis by (auto simp: postable_def posting_no_def next_value_posted)
    qed
  qed
qed

end
