(* ===== verification/Reversal.thy ===== *)
theory Reversal
  imports Posting
begin

text \<open>
  Reversal of a posted entry (\<open>PostingService.reverse\<close>): what it writes, what it keeps, and what
  it does to the balances of the accounts; and the contract \<open>posting_invariant\<close> under which
  the sub-ledgers use \<open>PostingService\<close>, interpreted on the ledger's invariants.
\<close>

section \<open>What a reversal does\<close>

definition reversal_request :: "journal_entry \<Rightarrow> date option \<Rightarrow> 'a ledger_scheme \<Rightarrow> journal_entry_request" where
  "reversal_request e d s =
     \<lparr>jer_posting_date = (case d of None \<Rightarrow> je_posting_date e | Some x \<Rightarrow> x),
      jer_voucher_type = je_voucher_type e,
      jer_lines = map mirror_line (entry_lines (je_id e) s), jer_is_opening = False\<rparr>"

lemma reverse_entry_Inr_iff:
  "(reverse_entry i actor d s = Inr (r, s')) =
     (\<exists>e t. get_entry i s = Some e \<and> je_status e = JE_POSTED \<and> je_reversed_by_id e = None
        \<and> 2 \<le> length (entry_lines i s)
        \<and> post (reversal_request e d s) (Some actor) (Some ''journal_entry'') (Some i) False s = Inr (r, t)
        \<and> s' = mark_reversed i (je_id r) t)"
proof -
  have i: "je_id e = i" if "get_entry i s = Some e" for e
    using that by (auto simp: get_entry_def dest: get_by_Some)
  show ?thesis
    unfolding reverse_entry_def Let_def get_with_lines_def ebind_Inr_iff
    by (auto simp: ok_simps valid_entry_request_def reversal_request_def dest: i)
qed

lemma mark_reversed_simps [simp]:
  "journal_lines (mark_reversed i r s) = journal_lines s"
  "accounts (mark_reversed i r s) = accounts s"
  "periods (mark_reversed i r s) = periods s"
  "next_id (mark_reversed i r s) = next_id s"
  "sequences (mark_reversed i r s) = sequences s"
  "entry_lines j (mark_reversed i r s) = entry_lines j s"
  "entry_dr j (mark_reversed i r s) = entry_dr j s"
  "entry_cr j (mark_reversed i r s) = entry_cr j s"
  "next_value t y (mark_reversed i r s) = next_value t y s"
  by (simp_all add: mark_reversed_def entry_lines_def entry_dr_def entry_cr_def next_value_def)

text \<open>Marking changes two columns of one entry; every other column of every entry is as it was.\<close>

lemma map_entries_marked:
  assumes "\<And>e st r. g (e\<lparr>je_status := st, je_reversed_by_id := r\<rparr>) = g e"
  shows "map g (entries (mark_reversed i r s)) = map g (entries s)"
  by (simp add: mark_reversed_def map_upd_by assms)

lemma filter_entries_marked:
  assumes "\<And>e st r. g (e\<lparr>je_status := st, je_reversed_by_id := r\<rparr>) = g e"
    and "\<And>e st r. P (e\<lparr>je_status := st, je_reversed_by_id := r\<rparr>) = P e"
  shows "map g (filter P (entries (mark_reversed i r s))) = map g (filter P (entries s))"
proof -
  have "map g (filter P (upd_by je_id i (\<lambda>e. e\<lparr>je_status := JE_REVERSED, je_reversed_by_id := Some r\<rparr>) es))
      = map g (filter P es)" for es
    by (induction es) (auto simp: assms)
  then show ?thesis by (simp add: mark_reversed_def)
qed

lemma in_entries_marked:
  "e \<in> set (entries (mark_reversed i r s)) \<Longrightarrow> \<exists>x\<in>set (entries s).
     je_id e = je_id x \<and> je_entry_no e = je_entry_no x \<and> je_voucher_type e = je_voucher_type x
     \<and> je_posting_date e = je_posting_date x \<and> je_is_system_generated e = je_is_system_generated x"
  by (auto simp: mark_reversed_def set_upd_by)

lemma ledger_wf_marked [simp]: "ledger_wf (mark_reversed i r s) = ledger_wf s"
proof -
  have "je_id ` set (entries (mark_reversed i r s)) = je_id ` set (entries s)"
    by (simp flip: set_map add: map_entries_marked)
  moreover have "(\<forall>e\<in>set (entries (mark_reversed i r s)). je_id e < n)
      = (\<forall>e\<in>set (entries s). je_id e < n)" for n
      unfolding mark_reversed_def by (simp add: ball_upd_by)
  ultimately show ?thesis
    by (simp add: ledger_wf_def map_entries_marked)
qed

lemma ledger_inv_marked: "ledger_inv s \<Longrightarrow> ledger_inv (mark_reversed i r s)"
  by (auto simp: ledger_inv_def entries_balanced_def lines_quantized_def accounts_active_def
      dest: in_entries_marked)

lemma control_ok_marked: "control_ok s \<Longrightarrow> control_ok (mark_reversed i r s)"
  by (fastforce simp: control_ok_def dest: in_entries_marked)

lemma numbers_bounded_marked: "numbers_bounded s \<Longrightarrow> numbers_bounded (mark_reversed i r s)"
  by (fastforce simp: numbers_bounded_def dest: in_entries_marked)

lemma gapless_marked: "gapless t y (mark_reversed i r s) = gapless t y s"
  by (simp add: gapless_def voucher_numbers_def filter_entries_marked)

text \<open>The mirror of stored lines is exact.\<close>

lemma reversal_exact: "ledger_inv s \<Longrightarrow> exact_request (reversal_request e d s)"
  by (auto simp: ledger_inv_def exact_request_def reversal_request_def lines_quantized_def entry_lines_def
      mirror_line_def)

section \<open>The contract of the posting service\<close>

text \<open>
  A property of the ledger that an admissible posting keeps. A sub-ledger that writes
  journals through \<open>post\<close> only keeps it too, whatever it does to its own tables.
\<close>

locale posting_invariant =
  fixes I :: "'a ledger_scheme \<Rightarrow> bool"
    and admissible :: "journal_entry_request \<Rightarrow> bool"
  assumes post_keeps:
      "I s \<Longrightarrow> admissible req \<Longrightarrow> post req a st si sys s = Inr (e, s') \<Longrightarrow> I s'"
    and mark_keeps: "I s \<Longrightarrow> I (mark_reversed i r s)"
    and mirror_admissible: "I s \<Longrightarrow> admissible (reversal_request e d s)"
    and exact_admissible: "exact_request req \<Longrightarrow> admissible req"
begin

lemma post_entry_keeps:
  "I s \<Longrightarrow> admissible req \<Longrightarrow> post_entry req a s = Inr (e, s') \<Longrightarrow> I s'"
  by (auto simp: post_entry_def ok_simps intro: post_keeps)

lemma reverse_keeps: "I s \<Longrightarrow> reverse_entry i a d s = Inr (r, s') \<Longrightarrow> I s'"
  by (auto simp: reverse_entry_Inr_iff intro!: mark_keeps intro: post_keeps mirror_admissible)

end

interpretation books: posting_invariant ledger_inv exact_request
  by unfold_locales
    (auto intro: ledger_inv_post ledger_inv_marked reversal_exact)

interpretation controls: posting_invariant "\<lambda>s. ledger_wf s \<and> control_ok s" "\<lambda>req. True"
  by unfold_locales (auto intro: control_ok_post ledger_wf_post control_ok_marked)

interpretation numbers: posting_invariant numbers_bounded "\<lambda>req. True"
  by unfold_locales (auto intro: numbers_bounded_post numbers_bounded_marked)

interpretation sequence: posting_invariant "\<lambda>s. gapless t y s \<and> 1 \<le> next_value t y s" "\<lambda>req. True"
  for t y
  by unfold_locales (auto dest: gapless_post simp: gapless_marked)

section \<open>Reversal and account balances\<close>

text \<open>
  \<open>account_net\<close> is the balance the trial balance shows, debit minus credit over all dates;
  \<open>entry_net\<close> is what one entry contributes to an account.
\<close>

definition account_net :: "uuid \<Rightarrow> 'a ledger_scheme \<Rightarrow> rat" where
  "account_net a s = fst (sum_by_account a None None s) - snd (sum_by_account a None None s)"

definition entry_net :: "uuid \<Rightarrow> uuid \<Rightarrow> 'a ledger_scheme \<Rightarrow> rat" where
  "entry_net a i s = sum_list (map (\<lambda>l. jl_dr_base l - jl_cr_base l)
     (filter (\<lambda>l. jl_account_id l = a) (entry_lines i s)))"

definition line_posted :: "'a ledger_scheme \<Rightarrow> journal_line \<Rightarrow> bool" where
  "line_posted s l = line_in_range None None s l"

lemma account_net_lines:
  "account_net a s = sum_list (map (\<lambda>l. jl_dr_base l - jl_cr_base l)
     (filter (\<lambda>l. jl_account_id l = a \<and> line_posted s l) (journal_lines s)))"
  by (simp add: account_net_def sum_by_account_def Let_def line_posted_def sum_list_subtractf)

lemma line_posted_iff:
  "line_posted s l = (\<exists>e. get_entry (jl_entry_id l) s = Some e \<and> je_status e = JE_POSTED)"
  by (auto simp: line_posted_def line_in_range_def entry_in_range_def split: option.splits)

lemma sum_list_filter_split:
  "sum_list (map f (filter P xs)) = sum_list (map f (filter (\<lambda>x. P x \<and> Q x) xs))
     + (sum_list (map f (filter (\<lambda>x. P x \<and> \<not> Q x) xs)) :: rat)"
  by (induction xs) auto

lemma get_entry_marked:
  "get_entry j (mark_reversed i r s) = (if j = i
     then map_option (\<lambda>e. e\<lparr>je_status := JE_REVERSED, je_reversed_by_id := Some r\<rparr>) (get_entry j s)
     else get_entry j s)"
  by (simp add: get_entry_def mark_reversed_def get_by_upd_by)

lemma get_entry_posted:
  "ledger_wf s \<Longrightarrow> get_entry j (posted_state req a (posted_entry req st si sys p s) s) =
     (if j = next_id s then Some (posted_entry req st si sys p s) else get_entry j s)"
  by (cases "get_by je_id j (entries s)")
    (auto simp: get_entry_def get_by_append ledger_wf_def dest!: get_by_Some)

lemma old_line: "ledger_wf s \<Longrightarrow> l \<in> set (journal_lines s) \<Longrightarrow> jl_entry_id l < next_id s"
  by (auto simp: ledger_wf_def)

text \<open>The lines of the reversal are the entry's lines with the sides exchanged.\<close>

lemma mirror_net:
  assumes "\<And>l. l \<in> set ls \<Longrightarrow> is_money (jl_dr_base l) \<and> is_money (jl_cr_base l)"
  shows "sum_list (map (\<lambda>l. jl_dr_base l - jl_cr_base l)
      (filter (\<lambda>l. jl_account_id l = a) (map (line_of_request i) (map mirror_line ls))))
    = - sum_list (map (\<lambda>l. jl_dr_base l - jl_cr_base l) (filter (\<lambda>l. jl_account_id l = a) ls))"
  using assms by (induction ls) (auto simp: mirror_line_def money_is_money)

lemma reversal_account_net:
  assumes inv: "ledger_inv s" and r: "reverse_entry i actor d s = Inr (r, s')"
  shows "account_net a s' = account_net a s - 2 * entry_net a i s"
proof -
  let ?f = "\<lambda>l. jl_dr_base l - jl_cr_base l"
  from inv have wf: "ledger_wf s" and qu: "lines_quantized s" by (simp_all add: ledger_inv_def)
  from r obtain e t where e: "get_entry i s = Some e" "je_status e = JE_POSTED"
    and p: "post (reversal_request e d s) (Some actor) (Some ''journal_entry'') (Some i) False s = Inr (r, t)"
    and s': "s' = mark_reversed i (je_id r) t"
    by (auto simp: reverse_entry_Inr_iff)
  from e(1) have i: "je_id e = i" "i < next_id s"
    using wf by (auto simp: get_entry_def ledger_wf_def dest!: get_by_Some)
  from p obtain q where q: "r = posted_entry (reversal_request e d s) (Some ''journal_entry'') (Some i) False q s"
    "t = posted_state (reversal_request e d s) (Some actor) r s" by (rule post_Inr)
  have get: "get_entry j s' = (if j = next_id s then Some r else if j = i
      then Some (e\<lparr>je_status := JE_REVERSED, je_reversed_by_id := Some (next_id s)\<rparr>) else get_entry j s)" for j
    using i e(1) q s' by (simp add: get_entry_marked get_entry_posted [OF wf])
  have old: "filter (\<lambda>l. jl_account_id l = a \<and> line_posted s' l) (journal_lines s)
      = filter (\<lambda>l. (jl_account_id l = a \<and> line_posted s l) \<and> jl_entry_id l \<noteq> i) (journal_lines s)"
    by (intro filter_cong) (auto simp: line_posted_iff get dest: old_line [OF wf])
  have this_entry: "filter (\<lambda>l. (jl_account_id l = a \<and> line_posted s l) \<and> \<not> jl_entry_id l \<noteq> i) (journal_lines s)
      = filter (\<lambda>l. jl_account_id l = a) (entry_lines i s)"
    unfolding entry_lines_def filter_filter
    by (intro filter_cong) (use e in \<open>auto simp: line_posted_iff\<close>)
  have new: "filter (\<lambda>l. jl_account_id l = a \<and> line_posted s' l)
        (map (line_of_request (next_id s)) (map mirror_line (entry_lines i s)))
      = filter (\<lambda>l. jl_account_id l = a) (map (line_of_request (next_id s)) (map mirror_line (entry_lines i s)))"
    by (intro filter_cong) (auto simp: line_posted_iff get q(1))
  have lines: "journal_lines s' = journal_lines s
      @ map (line_of_request (next_id s)) (map mirror_line (entry_lines i s))"
    using q s' i by (simp add: reversal_request_def)
  have "account_net a s' = sum_list (map ?f (filter (\<lambda>l. (jl_account_id l = a \<and> line_posted s l)
      \<and> jl_entry_id l \<noteq> i) (journal_lines s))) - entry_net a i s"
    unfolding account_net_lines lines filter_append map_append sum_list_append old new
    by (subst mirror_net) (use qu in \<open>auto simp: entry_net_def lines_quantized_def entry_lines_def\<close>)
  also have "\<dots> = account_net a s - 2 * entry_net a i s"
    unfolding account_net_lines [of a s]
    by (subst (2) sum_list_filter_split [where Q = "\<lambda>l. jl_entry_id l \<noteq> i"])
      (use this_entry in \<open>simp add: entry_net_def del: filter_filter\<close>)
  finally show ?thesis .
qed

text \<open>A posting moves the balance of each account by what its lines say.\<close>

lemma account_net_post:
  assumes wf: "ledger_wf s" and p: "post req actor st si sys s = Inr (e, s')"
  shows "account_net a s' = account_net a s + sum_list (map (\<lambda>l. money (jlr_dr_base l) - money (jlr_cr_base l))
    (filter (\<lambda>l. jlr_account_id l = a) (jer_lines req)))"
proof -
  let ?f = "\<lambda>l. jl_dr_base l - jl_cr_base l"
  from p obtain q where q: "e = posted_entry req st si sys q s" "s' = posted_state req actor e s"
    by (rule post_Inr)
  have get: "get_entry j s' = (if j = next_id s then Some e else get_entry j s)" for j
    using q by (simp add: get_entry_posted [OF wf])
  have old: "filter (\<lambda>l. jl_account_id l = a \<and> line_posted s' l) (journal_lines s)
      = filter (\<lambda>l. jl_account_id l = a \<and> line_posted s l) (journal_lines s)"
    by (intro filter_cong) (auto simp: line_posted_iff get dest: old_line [OF wf])
  have new: "filter (\<lambda>l. jl_account_id l = a \<and> line_posted s' l) (map (line_of_request (je_id e)) (jer_lines req))
      = map (line_of_request (je_id e)) (filter (\<lambda>l. jlr_account_id l = a) (jer_lines req))"
  proof -
    have "je_id e = next_id s" "je_status e = JE_POSTED" using q by simp_all
    then show ?thesis by (simp add: filter_map o_def line_posted_iff get)
  qed
  have "journal_lines s' = journal_lines s @ map (line_of_request (je_id e)) (jer_lines req)"
    using q by simp
  then show ?thesis
    unfolding account_net_lines by (simp add: old new o_def)
qed

end
