(* ===== verification/Books.thy ===== *)
theory Books
  imports Reversal
begin

text \<open>
  The properties of the general ledger (Ledger.thy, Posting.thy, Reversal.thy), and the sample
  books the witnesses of the ERP theories are evaluated on: the accounts of the starter chart
  that the program posts to, one open fiscal period and two contacts.
\<close>

section \<open>Sample books\<close>

definition sample_account :: "uuid \<Rightarrow> string \<Rightarrow> account_type \<Rightarrow> bool \<Rightarrow> account" where
  "sample_account i code t c = \<lparr>acc_id = i, acc_code = code, acc_name = code, acc_type = t,
     acc_normal_side = normal_side_map t, acc_parent_id = None, acc_is_control = c,
     acc_is_postable = True, acc_is_active = True\<rparr>"

definition sample_period :: fiscal_period where
  "sample_period = \<lparr>per_id = 50, per_fiscal_year = 2024, per_month = 1,
     per_start_date = 738886, per_end_date = 739251, per_status = PER_OPEN\<rparr>"

definition sample_books :: ledger where
  "sample_books = \<lparr>next_id = 100, today = 739052,
     contacts = [\<lparr>c_id = 60, c_name = Some ''Customer'', c_credit_limit = Some 50\<rparr>, \<lparr>c_id = 61, c_name = Some ''Supplier'', c_credit_limit = None\<rparr>],
     sequences = Map.empty, audit_log = [],
     accounts = [sample_account 2 ''1020'' ASSET False, sample_account 3 ''1100'' ASSET True,
       sample_account 4 ''1200'' ASSET True, sample_account 6 ''2100'' LIABILITY True,
       sample_account 7 ''2200'' LIABILITY True, sample_account 12 ''4100'' REVENUE False,
       sample_account 13 ''4200'' REVENUE False, sample_account 15 ''5100'' COGS False,
       sample_account 16 ''5200'' COGS False, sample_account 21 ''6500'' OPEX False],
     periods = [sample_period], entries = [], journal_lines = [], fy_start_month = Some 1\<rparr>"

definition one_sided :: "uuid \<Rightarrow> rat \<Rightarrow> rat \<Rightarrow> journal_line_request" where
  "one_sided a d c = \<lparr>jlr_account_id = a, jlr_dr = d, jlr_cr = c, jlr_currency_code = None,
     jlr_fx_rate = None, jlr_dr_base = d, jlr_cr_base = c, jlr_party_type = None,
     jlr_party_id = None\<rparr>"

text \<open>Expenses of 150.25 paid from the bank account, in two parts.\<close>

definition sample_request :: journal_entry_request where
  "sample_request = \<lparr>jer_posting_date = 738955, jer_voucher_type = ''journal_entry'',
     jer_lines = [one_sided 21 (15025 / 100) 0, one_sided 2 0 100, one_sided 2 0 (5025 / 100)],
     jer_is_opening = False\<rparr>"

definition result_state :: "'e + 'x \<times> 's \<Rightarrow> 's \<Rightarrow> 's" where
  "result_state r s = (case r of Inl e \<Rightarrow> s | Inr (x, t) \<Rightarrow> t)"

definition sample_entry :: "bool \<Rightarrow> journal_entry" where
  "sample_entry is_sys = \<lparr>je_id = 100, je_entry_no = ''JV-2024-00001'', je_posting_date = 738955,
     je_period_id = 50, je_voucher_type = ''journal_entry'', je_source_type = None,
     je_source_id = None, je_status = JE_POSTED, je_reversed_by_id = None, je_is_opening = False,
     je_is_system_generated = is_sys\<rparr>"

definition sample_after :: "bool \<Rightarrow> uuid option \<Rightarrow> journal_line_request list \<Rightarrow> ledger" where
  "sample_after is_sys actor ls = sample_books\<lparr>next_id := 101,
     sequences := [(''journal_entry'', 2024) \<mapsto> 2],
     audit_log := [\<lparr>au_actor_type = (if actor \<noteq> None then ''agent'' else ''system''),
        au_actor_id = actor, au_action = ''ledger.entry_posted'',
        au_entity_type = ''journal_entry'', au_entity_id = Some 100\<rparr>],
     entries := [sample_entry is_sys], journal_lines := map (line_of_request 100) ls\<rparr>"

definition sample_posted :: ledger where
  "sample_posted = sample_after False (Some 7) (jer_lines sample_request)"

definition sample_system :: ledger where
  "sample_system = sample_after True None [one_sided 3 40 0, one_sided 12 0 40]"

declare sample_account_def [evals] sample_period_def [evals] sample_books_def [evals]
  one_sided_def [evals] sample_request_def [evals] sample_entry_def [evals] sample_after_def [evals]
  sample_posted_def [evals] sample_system_def [evals]

lemma sample_books_inv: "ledger_inv sample_books"
  by (simp add: ledger_defs evals)

lemma sample_posts:
  "post sample_request (Some 7) None None False sample_books = Inr (sample_entry False, sample_posted)"
  by (simp add: evals cong: ebind_weak_cong)

lemma sample_posted_eval:
  "post_entry sample_request 7 sample_books = Inr (sample_entry False, sample_posted)"
  using sample_posts by (simp add: post_entry_def valid_entry_request_def sample_request_def)

lemma sample_system_eval:
  "post (sample_request\<lparr>jer_lines := [one_sided 3 40 0, one_sided 12 0 40]\<rparr>) None None None True
     sample_books = Inr (sample_entry True, sample_system)"
  by (simp add: evals cong: ebind_weak_cong)

lemma sample_exact: "exact_request sample_request"
  by (simp add: exact_request_def evals)

lemma sample_posted_inv: "ledger_inv sample_posted"
  by (rule books.post_entry_keeps [OF sample_books_inv sample_exact sample_posted_eval])

section \<open>Properties\<close>

text \<open>C13: Rounding to the money scale: the result has four decimals and is at most half a unit of the
  fourth decimal away, a value that has four decimals is unchanged, a tie goes away from
  zero, negation commutes with rounding, and rounding is monotone.\<close>

theorem money_rounds_half_up:
  "is_money (money x) \<and> \<bar>money x - x\<bar> \<le> 1 / 20000 \<and> money (money x) = money x
   \<and> money (- x) = - money x \<and> money (of_nat k / 10000 + 1 / 20000) = (of_nat k + 1) / 10000
   \<and> money x \<le> money (x + \<bar>y\<bar>)"
proof -
  have "(of_nat k / 10000 + 1 / 20000) * (10 :: rat) ^ 4 = of_int (int k) + 1 / 2"
    by (simp add: field_simps)
  then have "money (of_nat k / 10000 + 1 / 20000) = (of_nat k + 1) / 10000"
    unfolding money_def quantize_def using round_half_up_tie [of "int k"] by simp
  then show ?thesis
    using money_error [of x] by (simp add: money_is_money money_minus money_mono del: abs_le_iff)
qed

text \<open>A successful posting: the posting date lies in an open period, every line's account exists,
  is active and postable, and is a control account only for a system posting, every line has
  exactly one side, and debits equal credits in base currency; and what is written is one
  posted entry with the lines of the request, all other entries and lines staying as they were.\<close>

theorem post_succeeds:
  assumes "ledger_wf s" and "post req a st si sys s = Inr (e, s')"
  shows "(\<exists>p\<in>set (periods s). per_id p = je_period_id e \<and> per_status p = PER_OPEN
            \<and> per_start_date p \<le> jer_posting_date req \<and> jer_posting_date req \<le> per_end_date p)
    \<and> (\<forall>l\<in>set (jer_lines req). \<exists>x. get_account (jlr_account_id l) s = Some x \<and> acc_is_active x
            \<and> acc_is_postable x \<and> (acc_is_control x \<longrightarrow> sys) \<and> ((jlr_dr l = 0) \<noteq> (jlr_cr l = 0)))
    \<and> money_sum (map jlr_dr_base (jer_lines req)) = money_sum (map jlr_cr_base (jer_lines req))
    \<and> get_entry (je_id e) s = None \<and> get_entry (je_id e) s' = Some e \<and> je_status e = JE_POSTED
    \<and> entry_lines (je_id e) s' = map (line_of_request (je_id e)) (jer_lines req)
    \<and> (\<forall>i. i \<noteq> je_id e \<longrightarrow> get_entry i s' = get_entry i s \<and> entry_lines i s' = entry_lines i s)"
proof -
  from assms(2) obtain p where p: "postable req sys p s" "e = posted_entry req st si sys p s"
    "s' = posted_state req a e s" by (rule post_Inr)
  have fresh: "get_entry (next_id s) s = None"
    using assms(1) by (auto simp: get_entry_def get_by_None_iff ledger_wf_def)
  show ?thesis
    using p fresh open_period_spec [of "jer_posting_date req" s p] gate_account_Inr [of sys s]
    by (auto simp: postable_def get_entry_posted [OF assms(1)] entry_lines_posted
        entry_lines_fresh [OF assms(1)])
qed

theorem post_succeeds_witness:
  "get_entry 100 sample_posted \<noteq> None \<and> length (entry_lines 100 sample_posted) = 3"
proof -
  have "je_id (sample_entry False) = 100" by (simp add: sample_entry_def)
  with post_succeeds [OF _ sample_posts] show ?thesis
    using sample_books_inv by (simp add: ledger_inv_def sample_request_def)
qed

text \<open>The refusals of a posting and their order: with no open period over the date the code is
  \<open>period_not_open\<close> whatever else is wrong; the account gates come before the amount gates, and
  these before the balance gate, which refuses exactly the requests whose base-currency totals
  differ.\<close>

theorem post_refuses:
  "(get_open_period (jer_posting_date req) s = Inr None \<longrightarrow>
      post req a st si sys s = Inl (PostingError ''period_not_open''))
   \<and> (\<forall>p e. get_open_period (jer_posting_date req) s = Inr (Some p) \<longrightarrow>
        check_all (gate_account sys s) (jer_lines req) = Inl e \<longrightarrow> post req a st si sys s = Inl e)
   \<and> (\<forall>p e. get_open_period (jer_posting_date req) s = Inr (Some p) \<longrightarrow>
        (\<forall>l\<in>set (jer_lines req). gate_account sys s l = Inr ()) \<longrightarrow>
        check_all gate_amounts (jer_lines req) = Inl e \<longrightarrow> post req a st si sys s = Inl e)
   \<and> (\<forall>p. get_open_period (jer_posting_date req) s = Inr (Some p) \<longrightarrow>
        (\<forall>l\<in>set (jer_lines req). gate_account sys s l = Inr () \<and> gate_amounts l = Inr ()) \<longrightarrow>
        (post req a st si sys s = Inl (PostingError ''unbalanced''))
          = (money_sum (map jlr_dr_base (jer_lines req)) \<noteq> money_sum (map jlr_cr_base (jer_lines req))))"
proof -
  have ok: "check_all f xs = Inr ()" if "\<forall>x\<in>set xs. f x = Inr ()" for f :: "_ \<Rightarrow> err + unit" and xs
    using that by simp
  have "post req a st si sys s \<noteq> Inl (PostingError ''unbalanced'')"
    if "get_open_period (jer_posting_date req) s = Inr (Some p)"
      "\<forall>l\<in>set (jer_lines req). gate_account sys s l = Inr () \<and> gate_amounts l = Inr ()"
      "money_sum (map jlr_dr_base (jer_lines req)) = money_sum (map jlr_cr_base (jer_lines req))" for p
    using that by (auto simp: post_def ok next_entry_no_def Let_def entry_create_def ebind_Inl_iff
        alloc_number_eq fresh_id_def)
  then show ?thesis
    by (auto simp: post_def ok)
qed

theorem post_refuses_witness:
  "post sample_request None None None False (sample_books\<lparr>periods := []\<rparr>)
     = Inl (PostingError ''period_not_open'')"
  by (rule post_refuses [THEN conjunct1, rule_format]) (simp add: evals cong: ebind_weak_cong)

text \<open>C7: Double entry is kept: a posting whose amounts have at most four decimals leaves every entry
  of the ledger balanced, every stored amount at the money scale and every key unique.\<close>

theorem post_keeps_books:
  assumes "ledger_inv s" and "exact_request req" and "post req a st si sys s = Inr (e, s')"
  shows "ledger_inv s'"
  using assms by (rule books.post_keeps)

theorem post_keeps_books_witness: "ledger_inv sample_posted"
  by (rule post_keeps_books [OF sample_books_inv sample_exact sample_posts])

text \<open>The request schema does not round the amounts of a manual line, the balance gate compares the
  rounded totals and the columns round line by line: a request the gates accept can leave an
  entry whose stored debits and credits differ. Two debits of 0.00005 against a credit of 0.0001
  are stored as 0.0002 against 0.0001.\<close>

theorem post_rounding_gap:
  "\<exists>req e s'. valid_entry_request req \<and> ledger_inv sample_books
     \<and> post req (Some 7) None None False sample_books = Inr (e, s')
     \<and> entry_dr (je_id e) s' = 2 / 10000 \<and> entry_cr (je_id e) s' = 1 / 10000"
proof -
  let ?req = "sample_request\<lparr>jer_lines := [one_sided 21 (1 / 20000) 0, one_sided 21 (1 / 20000) 0,
    one_sided 2 0 (1 / 10000)]\<rparr>"
  let ?r = "post ?req (Some 7) None None False sample_books"
  have "\<not> isl ?r" by (simp add: evals cong: ebind_weak_cong)
  then obtain e s' where r: "?r = Inr (e, s')" by (cases ?r) auto
  then have "e = fst (projr ?r)" "s' = snd (projr ?r)" by simp_all
  then have "entry_dr (je_id e) s' = 2 / 10000 \<and> entry_cr (je_id e) s' = 1 / 10000"
    by (simp add: evals entry_dr_def entry_cr_def)
  moreover have "valid_entry_request ?req" by (simp add: evals cong: ebind_weak_cong)
  ultimately show ?thesis using r sample_books_inv by blast
qed

text \<open>The trial balance of any books that satisfy the invariant.\<close>

lemma trial_balance_ok:
  assumes "ledger_inv s" and "trial_balance_build d s = Inr tb"
  shows "tb_difference tb = 0 \<and> tb_total_dr tb = tb_total_cr tb
    \<and> map tb_account (tb_rows tb) = map acc_id (list_active_accounts s)
    \<and> (\<forall>r\<in>set (tb_rows tb). 0 \<le> tb_closing_dr r \<and> 0 \<le> tb_closing_cr r
          \<and> (tb_closing_dr r = 0 \<or> tb_closing_cr r = 0))"
proof -
  from assms(2) obtain fs where tb: "tb = \<lparr>tb_rows = map (tb_build_row fs d s) (list_active_accounts s),
      tb_total_dr = money (sum_list (map (\<lambda>a. tb_closing_dr (tb_build_row fs d s a)) (list_active_accounts s))),
      tb_total_cr = money (sum_list (map (\<lambda>a. tb_closing_cr (tb_build_row fs d s a)) (list_active_accounts s))),
      tb_difference = money (sum_list (map (\<lambda>a. tb_closing_dr (tb_build_row fs d s a)) (list_active_accounts s))
        - sum_list (map (\<lambda>a. tb_closing_cr (tb_build_row fs d s a)) (list_active_accounts s)))\<rparr>"
    by (auto simp: trial_balance_build_def Let_def ok_simps foldl_add_map o_def)
  have "tb_account (tb_build_row fs d s a) = acc_id a" for a
    by (simp add: tb_build_row_def Let_def split: prod.splits)
  then show ?thesis
    using closing_totals_agree [OF assms(1), of fs d] tb_build_row_sides [of fs d s]
    by (auto simp: tb sum_list_subtractf o_def)
qed



text \<open>C8: Entry numbers are gapless: for every voucher type and calendar year, after any posting,
  manual entry or reversal the entries of that type and year carry the numbers 1, 2, 3, ...
  in the order they were written and the sequence row holds the next one.\<close>

theorem entry_numbers_gapless:
  assumes "gapless t y s" and "1 \<le> next_value t y s"
  shows "(post req a st si sys s = Inr (e, s') \<longrightarrow> gapless t y s' \<and> 1 \<le> next_value t y s')
    \<and> (reverse_entry i c d s = Inr (r, s') \<longrightarrow> gapless t y s' \<and> 1 \<le> next_value t y s')"
  using assms sequence.post_keeps [of t y s req] sequence.reverse_keeps [of t y s] by blast

theorem entry_numbers_gapless_witness:
  "voucher_numbers ''journal_entry'' 2024 sample_posted
     = map (doc_no ''JV'' 2024) [1..<next_value ''journal_entry'' 2024 sample_posted]
   \<and> next_value ''journal_entry'' 2024 sample_posted = 2"
proof -
  note sample_posts
  moreover have "gapless ''journal_entry'' 2024 sample_books"
    "1 \<le> next_value ''journal_entry'' 2024 sample_books"
    by (simp_all add: gapless_def voucher_numbers_def next_value_def sample_books_def)
  ultimately have "gapless ''journal_entry'' 2024 sample_posted"
    using entry_numbers_gapless [of "''journal_entry''" 2024 sample_books] by blast
  moreover have "next_value ''journal_entry'' 2024 sample_posted = 2"
    by (simp add: evals cong: ebind_weak_cong)
  ultimately show ?thesis by (simp add: gapless_def entry_prefix_def)
qed

text \<open>The number of a new entry is never taken: while the numbers written so far are below the
  sequence values, the unique constraint on \<open>entry_no\<close> cannot fail, so a posting that passes
  its gates with a voucher type of the enumeration succeeds.\<close>

theorem entry_number_free:
  assumes "numbers_bounded s" and "jer_voucher_type req \<in> set journal_voucher_types"
    and "get_open_period (jer_posting_date req) s = Inr (Some p)"
    and "\<forall>l\<in>set (jer_lines req). gate_account sys s l = Inr () \<and> gate_amounts l = Inr ()"
    and "money_sum (map jlr_dr_base (jer_lines req)) = money_sum (map jlr_cr_base (jer_lines req))"
  shows "post req a st si sys s = Inr (posted_entry req st si sys p s,
      posted_state req a (posted_entry req st si sys p s) s)
    \<and> numbers_bounded (posted_state req a (posted_entry req st si sys p s) s)"
proof -
  have "postable req sys p s"
    using assms numbers_bounded_fresh by (simp add: postable_def)
  then have "post req a st si sys s = Inr (posted_entry req st si sys p s,
      posted_state req a (posted_entry req st si sys p s) s)"
    by (auto simp: post_Inr_iff)
  with numbers.post_keeps [OF assms(1) TrueI this] show ?thesis by simp
qed

theorem entry_number_free_witness:
  "\<not> isl (post sample_request None None None False sample_books)"
proof -
  have "numbers_bounded sample_books" by (simp add: numbers_bounded_def sample_books_def)
  moreover have "jer_voucher_type sample_request \<in> set journal_voucher_types"
    "get_open_period (jer_posting_date sample_request) sample_books = Inr (Some sample_period)"
    "\<forall>l\<in>set (jer_lines sample_request). gate_account False sample_books l = Inr () \<and> gate_amounts l = Inr ()"
    "money_sum (map jlr_dr_base (jer_lines sample_request))
       = money_sum (map jlr_cr_base (jer_lines sample_request))"
    by (simp_all add: evals)
  ultimately show ?thesis
    using entry_number_free [of sample_books sample_request sample_period False None None None]
    by simp
qed

text \<open>A reversal removes an entry twice. The original is marked reversed, so it no longer counts in
  any balance, and its mirror image is posted and does count: the balance of every account moves
  by minus twice what the entry had put on it, where undoing the entry would move it by minus
  that amount once.\<close>

theorem reversal_counts_twice:
  assumes "ledger_inv s" and "reverse_entry i actor d s = Inr (r, s')"
  shows "account_net a s' = account_net a s - 2 * entry_net a i s"
  using assms by (rule reversal_account_net)

theorem reversal_counts_twice_witness:
  "account_net 21 sample_posted = 601 / 4 \<and> (\<exists>r s'. reverse_entry 100 7 None sample_posted = Inr (r, s')
     \<and> account_net 21 s' = - 601 / 4)"
proof -
  have "\<not> isl (reverse_entry 100 7 None sample_posted)"
    by (simp add: evals cong: ebind_weak_cong)
  then obtain r s' where r: "reverse_entry 100 7 None sample_posted = Inr (r, s')"
    by (cases "reverse_entry 100 7 None sample_posted") auto
  have "account_net 21 sample_posted = 601 / 4" "entry_net 21 100 sample_posted = 601 / 4"
    by (simp_all add: evals account_net_def entry_net_def)
  with reversal_counts_twice [OF sample_posted_inv r, of 21] r show ?thesis by simp
qed

text \<open>An entry is reversed at most once: the reversal records itself on the original, is a new
  posted entry with the sides of the original's lines exchanged, and every later attempt to
  reverse the original is refused.\<close>

theorem reversal_once:
  assumes inv: "ledger_inv s" and r: "reverse_entry i actor d s = Inr (r, s')"
  shows "(\<exists>e. get_entry i s = Some e \<and> je_status e = JE_POSTED
      \<and> get_entry i s' = Some (e\<lparr>je_status := JE_REVERSED, je_reversed_by_id := Some (je_id r)\<rparr>))
    \<and> get_entry (je_id r) s = None \<and> get_entry (je_id r) s' = Some r \<and> je_status r = JE_POSTED
    \<and> map (\<lambda>l. (jl_account_id l, jl_dr_base l, jl_cr_base l)) (entry_lines (je_id r) s')
        = map (\<lambda>l. (jl_account_id l, jl_cr_base l, jl_dr_base l)) (entry_lines i s)
    \<and> reverse_entry i actor' d' s' = Inl (PostingError ''cannot_reverse_unposted'')"
proof -
  from inv have wf: "ledger_wf s" and qu: "lines_quantized s" by (simp_all add: ledger_inv_def)
  from r obtain e t where e: "get_entry i s = Some e" "je_status e = JE_POSTED"
    and p: "post (reversal_request e d s) (Some actor) (Some ''journal_entry'') (Some i) False s = Inr (r, t)"
    and s': "s' = mark_reversed i (je_id r) t"
    by (auto simp: reverse_entry_Inr_iff)
  have i: "je_id e = i" "i < next_id s"
    using wf e(1) by (auto simp: get_entry_def ledger_wf_def dest!: get_by_Some)
  from p obtain q where q: "r = posted_entry (reversal_request e d s) (Some ''journal_entry'') (Some i) False q s"
    "t = posted_state (reversal_request e d s) (Some actor) r s" by (rule post_Inr)
  have rid: "je_id r = next_id s" using q by simp
  have fresh: "get_entry (next_id s) s = None"
    using wf by (auto simp: get_entry_def get_by_None_iff ledger_wf_def)
  have gi: "get_entry i s' = Some (e\<lparr>je_status := JE_REVERSED, je_reversed_by_id := Some (je_id r)\<rparr>)"
    using s' q i e by (simp add: get_entry_marked get_entry_posted [OF wf])
  have gr: "get_entry (je_id r) s' = Some r"
    using s' q i by (simp add: get_entry_marked get_entry_posted [OF wf])
  have "entry_lines (je_id r) s' = map (line_of_request (next_id s)) (map mirror_line (entry_lines i s))"
    using s' q i by (simp add: entry_lines_posted entry_lines_fresh [OF wf] reversal_request_def)
  then have lines: "map (\<lambda>l. (jl_account_id l, jl_dr_base l, jl_cr_base l)) (entry_lines (je_id r) s')
      = map (\<lambda>l. (jl_account_id l, jl_cr_base l, jl_dr_base l)) (entry_lines i s)"
    using qu by (auto simp: mirror_line_def lines_quantized_def entry_lines_def money_is_money)
  have "reverse_entry i actor' d' s' = Inl (PostingError ''cannot_reverse_unposted'')"
    by (simp add: reverse_entry_def get_with_lines_def gi)
  then show ?thesis
    using e gi gr lines fresh rid q(1) by auto
qed

theorem reversal_once_witness:
  "\<exists>r s'. reverse_entry 100 7 None sample_posted = Inr (r, s')
     \<and> reverse_entry 100 8 (Some 739000) s' = Inl (PostingError ''cannot_reverse_unposted'')"
proof -
  have "\<not> isl (reverse_entry 100 7 None sample_posted)"
    by (simp add: evals cong: ebind_weak_cong)
  then obtain r s' where r: "reverse_entry 100 7 None sample_posted = Inr (r, s')"
    by (cases "reverse_entry 100 7 None sample_posted") auto
  from reversal_once [OF sample_posted_inv r] r show ?thesis by blast
qed

text \<open>An entry with a line on a control account cannot be reversed: \<open>reverse\<close> posts its mirror
  image as a manual entry, which the control-account gate refuses. So no entry of the bridge or
  of a sub-ledger that touches receivables, payables, inventory or the accrual is reversible.\<close>

theorem control_entry_irreversible:
  assumes "l \<in> set (entry_lines i s)" and "get_account (jl_account_id l) s = Some x"
    and "acc_is_control x"
  shows "\<exists>err. reverse_entry i actor d s = Inl err"
proof (cases "reverse_entry i actor d s")
  case (Inr y)
  then obtain r s' where "reverse_entry i actor d s = Inr (r, s')" by (cases y) auto
  then obtain e t where "get_entry i s = Some e"
    and "post (reversal_request e d s) (Some actor) (Some ''journal_entry'') (Some i) False s = Inr (r, t)"
    by (auto simp: reverse_entry_Inr_iff)
  moreover from this(1) have "je_id e = i" by (auto simp: get_entry_def dest: get_by_Some)
  ultimately have "gate_account False s (mirror_line l) = Inr ()"
    using assms(1) by (auto simp: post_Inr_iff postable_def reversal_request_def)
  then show ?thesis
    using assms(2,3) by (auto simp: gate_account_def mirror_line_def ok_simps)
qed auto

theorem control_entry_irreversible_witness:
  "get_entry 100 sample_system \<noteq> None \<and> (\<exists>err. reverse_entry 100 7 None sample_system = Inl err)"
proof -
  let ?l = "line_of_request 100 (one_sided 3 40 0)"
  have l: "?l \<in> set (entry_lines 100 sample_system)" and e: "get_entry 100 sample_system \<noteq> None"
    by (simp_all add: evals cong: ebind_weak_cong)
  have a: "get_account (jl_account_id ?l) sample_system = Some (sample_account 3 ''1100'' ASSET True)"
    by (simp add: evals cong: ebind_weak_cong)
  have "acc_is_control (sample_account 3 ''1100'' ASSET True)"
    by (simp add: sample_account_def)
  from control_entry_irreversible [OF l a this] e show ?thesis by blast
qed

text \<open>The life cycle of a fiscal period: only an open period closes and only a closed one reopens, a
  locked period does neither; after closing, nothing can be posted on a date that no other
  open period covers, and reopening restores exactly the state before.\<close>

theorem period_life_cycle:
  assumes d: "distinct (map per_id (periods s))" and p: "p \<in> set (periods s)"
  shows "isl (close_period (per_id p) s) = (per_status p \<noteq> PER_OPEN)
    \<and> isl (reopen_period (per_id p) s) = (per_status p \<noteq> PER_CLOSED)
    \<and> (per_status p = PER_OPEN \<longrightarrow> (\<exists>s'. close_period (per_id p) s = Inr s'
         \<and> reopen_period (per_id p) s' = Inr s
         \<and> (\<forall>req. (\<forall>q\<in>set (periods s). q \<noteq> p \<longrightarrow> per_status q = PER_OPEN \<longrightarrow>
               \<not> (per_start_date q \<le> jer_posting_date req \<and> jer_posting_date req \<le> per_end_date q)) \<longrightarrow>
              post req a st si sys s' = Inl (PostingError ''period_not_open''))))"
proof -
  have g: "get_by per_id (per_id p) (periods s) = Some p"
    using d p by (rule get_by_mem)
  have uniq: "q = p" if "q \<in> set (periods s)" "per_id q = per_id p" for q
    using get_by_mem [OF d that(1)] g that(2) by (metis option.inject)
  let ?t = "set_period_status (per_id p) PER_CLOSED s"
  have g': "get_by per_id (per_id p) (periods ?t) = Some (p\<lparr>per_status := PER_CLOSED\<rparr>)"
    using g by (simp add: set_period_status_def get_by_upd_by)
  have restored: "set_period_status (per_id p) PER_OPEN ?t = s" if "per_status p = PER_OPEN"
  proof -
    have self: "p\<lparr>per_status := PER_OPEN\<rparr> = p" using that by (cases p) simp
    have "upd_by per_id (per_id p) (per_status_update (\<lambda>_. PER_OPEN))
        (upd_by per_id (per_id p) (per_status_update (\<lambda>_. PER_CLOSED)) (periods s)) = periods s"
      unfolding upd_by_def map_map using self by (intro map_idI) (auto dest: uniq)
    then show ?thesis by (simp add: set_period_status_def)
  qed
  have none: "get_open_period dt ?t = Inr None"
    if "\<forall>q\<in>set (periods s). q \<noteq> p \<longrightarrow> per_status q = PER_OPEN \<longrightarrow>
      \<not> (per_start_date q \<le> dt \<and> dt \<le> per_end_date q)" for dt
  proof -
    have "filter (\<lambda>q. per_start_date q \<le> dt \<and> dt \<le> per_end_date q \<and> per_status q = PER_OPEN)
        (periods ?t) = []"
      using that by (auto simp: filter_empty_conv set_period_status_def set_upd_by split: if_splits)
    then show ?thesis by (simp add: get_open_period_def scalar_one_or_none_def)
  qed
  have "close_period (per_id p) s = Inr ?t \<and> reopen_period (per_id p) ?t = Inr s"
    if "per_status p = PER_OPEN"
    using that g g' restored by (simp add: close_period_def reopen_period_def)
  moreover have "isl (close_period (per_id p) s) = (per_status p \<noteq> PER_OPEN)"
    "isl (reopen_period (per_id p) s) = (per_status p \<noteq> PER_CLOSED)"
    using g by (cases "per_status p"; simp add: close_period_def reopen_period_def)+
  ultimately show ?thesis
    using none by (auto simp: post_def)
qed

theorem period_life_cycle_witness:
  "\<exists>s'. close_period 50 sample_books = Inr s' \<and> reopen_period 50 s' = Inr sample_books
     \<and> post sample_request None None None True s' = Inl (PostingError ''period_not_open'')"
proof -
  have "distinct (map per_id (periods sample_books))" "sample_period \<in> set (periods sample_books)"
    and id: "per_id sample_period = 50" and op: "per_status sample_period = PER_OPEN"
    and all: "\<forall>q\<in>set (periods sample_books). q = sample_period"
    by (simp_all add: sample_books_def sample_period_def)
  from period_life_cycle [OF this(1,2), of None None None True] show ?thesis
    unfolding id using op all by blast
qed

end
