(* ===== verification/Bridge.thy ===== *)
theory Bridge
  imports Books
begin

text \<open>
  The finance bridge (backend/app/modules/ledger/bridge.py) on the in-process event bus
  (\<open>emit_event_async\<close> of backend/app/core/events.py): the sub-ledgers emit an event inside their
  own transaction and the subscribed handler posts a journal. An event is a constructor with
  the payload the handlers read; the session is the state itself. A handler that raises is
  logged and skipped, so its posting is missing and the emitter goes on; only an error that the
  database raised inside a flush makes the emitter's next statement fail.
\<close>

section \<open>Events\<close>

datatype event =
    GrnConfirmed (ev_id: uuid) (ev_amount: rat) (ev_date: date) (ev_actor: "uuid option")
  | UnitDispatched (ev_id: uuid) (ev_amount: rat) (ev_date: date) (ev_actor: "uuid option")
  | InvoiceCreated (ev_id: uuid) (ev_amount: rat) (ev_date: date) (ev_actor: "uuid option")
      (ev_customer: uuid)
  | AdjustmentConfirmed (ev_id: uuid) (ev_amount: rat) (ev_date: date) (ev_actor: "uuid option")
  | BillMatched (ev_id: uuid) (ev_amount: rat) (ev_date: date)
  | InvoiceVoided (ev_id: uuid) (ev_je: uuid) (ev_amount: rat) (ev_actor: "uuid option")
  | PaymentReconciled (ev_id: uuid) (ev_amount: rat) (ev_date: date) (ev_actor: "uuid option")
  | CreditNoteIssued (ev_id: uuid) (ev_amount: rat) (ev_date: date) (ev_actor: "uuid option")

section \<open>Handlers\<close>

definition resolve_account_id :: "string \<Rightarrow> 'a ledger_scheme \<Rightarrow> err + uuid" where
  "resolve_account_id code s =
     ebind (from_opt (PostingError ''account_not_found'') (get_account_by_code code s))
       (\<lambda>account. Inr (acc_id account))"

definition linereq ::
  "uuid \<Rightarrow> rat option \<Rightarrow> rat option \<Rightarrow> string option \<Rightarrow> uuid option \<Rightarrow> journal_line_request" where
  "linereq account_id dr cr party_type party_id =
     \<lparr>jlr_account_id = account_id,
      jlr_dr = (case dr of Some x \<Rightarrow> x | None \<Rightarrow> money_zero),
      jlr_cr = (case cr of Some x \<Rightarrow> x | None \<Rightarrow> money_zero),
      jlr_currency_code = None, jlr_fx_rate = None,
      jlr_dr_base = (case dr of Some x \<Rightarrow> x | None \<Rightarrow> money_zero),
      jlr_cr_base = (case cr of Some x \<Rightarrow> x | None \<Rightarrow> money_zero),
      jlr_party_type = party_type, jlr_party_id = party_id\<rparr>"

definition bridge_post ::
  "date \<Rightarrow> journal_line_request list \<Rightarrow> uuid option \<Rightarrow> string \<Rightarrow> uuid \<Rightarrow> 'a ledger_scheme
     \<Rightarrow> err + 'a ledger_scheme" where
  "bridge_post posting_date lines actor_id source_type source_id s =
     ebind (post \<lparr>jer_posting_date = posting_date, jer_voucher_type = ''journal_entry'',
                  jer_lines = lines, jer_is_opening = False\<rparr>
              actor_id (Some source_type) (Some source_id) True s)
       (\<lambda>(entry, s1). Inr s1)"

definition on_grn_confirmed ::
  "uuid \<Rightarrow> rat \<Rightarrow> date \<Rightarrow> uuid option \<Rightarrow> 'a ledger_scheme \<Rightarrow> err + 'a ledger_scheme" where
  "on_grn_confirmed grn_id total_value posting_date actor_id s =
     (let amt = money total_value in
      ebind (resolve_account_id ''1200'' s) (\<lambda>inv_acct.
      ebind (resolve_account_id ''2200'' s) (\<lambda>grn_acct.
      bridge_post posting_date
        [linereq inv_acct (Some amt) None None None, linereq grn_acct None (Some amt) None None]
        actor_id ''grn'' grn_id s)))"

definition on_unit_dispatched ::
  "uuid \<Rightarrow> rat \<Rightarrow> date \<Rightarrow> uuid option \<Rightarrow> 'a ledger_scheme \<Rightarrow> err + 'a ledger_scheme" where
  "on_unit_dispatched dispatch_id cogs_total posting_date actor_id s =
     (let amt = money cogs_total in
      ebind (resolve_account_id ''5100'' s) (\<lambda>cogs.
      ebind (resolve_account_id ''1200'' s) (\<lambda>inv.
      bridge_post posting_date
        [linereq cogs (Some amt) None None None, linereq inv None (Some amt) None None]
        actor_id ''dispatch'' dispatch_id s)))"

definition on_invoice_created ::
  "uuid \<Rightarrow> rat \<Rightarrow> date \<Rightarrow> uuid option \<Rightarrow> uuid \<Rightarrow> 'a ledger_scheme \<Rightarrow> err + 'a ledger_scheme" where
  "on_invoice_created invoice_id total_amount posting_date actor_id customer_id s =
     (let amt = money total_amount in
      ebind (resolve_account_id ''1100'' s) (\<lambda>ar.
      ebind (resolve_account_id ''4100'' s) (\<lambda>rev.
      bridge_post posting_date
        [linereq ar (Some amt) None (Some ''customer'') (Some customer_id),
         linereq rev None (Some amt) None None]
        actor_id ''sales_invoice'' invoice_id s)))"

definition on_adjustment_confirmed ::
  "uuid \<Rightarrow> rat \<Rightarrow> date \<Rightarrow> uuid option \<Rightarrow> 'a ledger_scheme \<Rightarrow> err + 'a ledger_scheme" where
  "on_adjustment_confirmed adj_id amount posting_date actor_id s =
     (let amt = money amount in
      ebind (resolve_account_id ''1200'' s) (\<lambda>inv.
      ebind (if amt < 0
             then ebind (resolve_account_id ''4200'' s) (\<lambda>income.
               Inr [linereq inv (Some \<bar>amt\<bar>) None None None, linereq income None (Some \<bar>amt\<bar>) None None])
             else ebind (resolve_account_id ''5200'' s) (\<lambda>wo.
               Inr [linereq wo (Some amt) None None None, linereq inv None (Some amt) None None]))
        (\<lambda>lines. bridge_post posting_date lines actor_id ''stock_adjustment'' adj_id s)))"

section \<open>The bus\<close>

text \<open>\<open>register_bridge_handlers\<close>: four of the events have a subscriber.\<close>

definition async_subscribers ::
  "event \<Rightarrow> ('a ledger_scheme \<Rightarrow> err + 'a ledger_scheme) list" where
  "async_subscribers ev =
     (case ev of
        GrnConfirmed i amt d a \<Rightarrow> [on_grn_confirmed i amt d a]
      | UnitDispatched i amt d a \<Rightarrow> [on_unit_dispatched i amt d a]
      | InvoiceCreated i amt d a c \<Rightarrow> [on_invoice_created i amt d a c]
      | AdjustmentConfirmed i amt d a \<Rightarrow> [on_adjustment_confirmed i amt d a]
      | _ \<Rightarrow> [])"

definition run_handler ::
  "('s \<Rightarrow> err + 's) \<Rightarrow> 's \<Rightarrow> err + 's" where
  "run_handler handler s =
     (case handler s of
        Inr s' \<Rightarrow> Inr s'
      | Inl e \<Rightarrow> if poisons_session e then Inl e else Inr s)"

definition emit_event_async :: "event \<Rightarrow> 'a ledger_scheme \<Rightarrow> err + 'a ledger_scheme" where
  "emit_event_async ev s = foldE run_handler (async_subscribers ev) s"

declare resolve_account_id_def [evals] linereq_def [evals] bridge_post_def [evals]
  on_grn_confirmed_def [evals] on_unit_dispatched_def [evals] on_invoice_created_def [evals]
  on_adjustment_confirmed_def [evals] async_subscribers_def [evals] run_handler_def [evals]
  emit_event_async_def [evals]

section \<open>What the bridge keeps\<close>

lemmas handler_defs = on_grn_confirmed_def on_unit_dispatched_def on_invoice_created_def
  on_adjustment_confirmed_def

lemma linereq_simps [simp]:
  "jlr_account_id (linereq a d c pt p) = a"
  "jlr_dr (linereq a (Some x) c pt p) = x" "jlr_dr (linereq a None c pt p) = 0"
  "jlr_cr (linereq a d (Some x) pt p) = x" "jlr_cr (linereq a d None pt p) = 0"
  "jlr_dr_base (linereq a (Some x) c pt p) = x" "jlr_dr_base (linereq a None c pt p) = 0"
  "jlr_cr_base (linereq a d (Some x) pt p) = x" "jlr_cr_base (linereq a d None pt p) = 0"
  by (simp_all add: linereq_def)

text \<open>Whatever a handler posts, it is one balanced pair of lines at the money scale.\<close>

lemma handler_posts:
  assumes "h \<in> set (async_subscribers ev)" and "h s = Inr s'"
  obtains lines st where
    "bridge_post (ev_date ev) lines (ev_actor ev) st (ev_id ev) s = Inr s'"
    "\<forall>l\<in>set lines. is_money (jlr_dr_base l) \<and> is_money (jlr_cr_base l)"
proof -
  have "is_money \<bar>money x\<bar>" for x
    by (simp add: abs_if)
  then show ?thesis
    using assms that
    by (cases ev) (fastforce simp: async_subscribers_def handler_defs Let_def ok_simps split: if_splits)+
qed

text \<open>The accounts a handler posts to are looked up by these codes.\<close>

definition bridge_codes :: "string list" where
  "bridge_codes = [''1100'', ''1200'', ''2200'', ''4100'', ''4200'', ''5100'', ''5200'']"

lemma handler_codes:
  assumes "h \<in> set (async_subscribers ev)" and "h s = Inr s'"
  obtains lines st where
    "bridge_post (ev_date ev) lines (ev_actor ev) st (ev_id ev) s = Inr s'"
    "\<forall>l\<in>set lines. \<exists>c\<in>set bridge_codes. \<exists>b. get_account_by_code c s = Some b \<and> jlr_account_id l = acc_id b"
  using assms that
  by (cases ev) (fastforce simp: async_subscribers_def handler_defs Let_def ok_simps bridge_codes_def
      resolve_account_id_def split: if_splits)+

lemma emit_Inr:
  assumes "emit_event_async ev s = Inr s'"
  shows "s' = s \<or> (\<exists>h\<in>set (async_subscribers ev). h s = Inr s')"
proof -
  consider "(async_subscribers ev :: ('a ledger_scheme \<Rightarrow> _) list) = []"
    | h :: "'a ledger_scheme \<Rightarrow> _" where "async_subscribers ev = [h]"
    by (cases ev) (simp_all add: async_subscribers_def)
  then show ?thesis
  proof cases
    case 1
    with assms show ?thesis by (simp add: emit_event_async_def)
  next
    case 2
    with assms show ?thesis
      by (auto simp: emit_event_async_def run_handler_def ok_simps split: sum.splits if_splits)
  qed
qed

text \<open>A posting and an event touch the journal, the sequences, the audit log and the identifiers.\<close>

lemma post_frame:
  assumes "post req a st si sys s = Inr (e, s')"
  shows "ledger.more s' = ledger.more s \<and> contacts s' = contacts s \<and> today s' = today s
    \<and> accounts s' = accounts s \<and> periods s' = periods s \<and> next_id s \<le> next_id s'"
  using assms by (auto elim!: post_Inr)

lemma emit_frame:
  assumes "emit_event_async ev s = Inr s'"
  shows "ledger.more s' = ledger.more s \<and> contacts s' = contacts s \<and> today s' = today s
    \<and> accounts s' = accounts s \<and> periods s' = periods s \<and> next_id s \<le> next_id s'"
proof -
  have "ledger.more t' = ledger.more t \<and> contacts t' = contacts t \<and> today t' = today t
    \<and> accounts t' = accounts t \<and> periods t' = periods t \<and> next_id t \<le> next_id t'"
    if "bridge_post d ls a st i t = Inr t'" for d ls a st i and t t' :: "'a ledger_scheme"
    using that post_frame [of _ a "Some st" "Some i" True t] by (auto simp: bridge_post_def ok_simps)
  with emit_Inr [OF assms] handler_posts show ?thesis by (metis order_refl)
qed

text \<open>The events without a subscriber change nothing.\<close>

lemma emit_unsubscribed [simp]:
  "emit_event_async (BillMatched i x d) s = Inr s"
  "emit_event_async (InvoiceVoided i j x a) s = Inr s"
  "emit_event_async (PaymentReconciled i x d a) s = Inr s"
  "emit_event_async (CreditNoteIssued i x d a) s = Inr s"
  by (simp_all add: emit_event_async_def async_subscribers_def)

lemma ledger_inv_frame:
  assumes "ledger_inv s" "entries s' = entries s" "journal_lines s' = journal_lines s"
    "accounts s' = accounts s" "next_id s \<le> next_id s'"
  shows "ledger_inv s'"
  using assms(1,5) unfolding ledger_defs entry_lines_def assms(2,3,4) by (meson less_le_trans)

lemma ledger_wf_frame:
  assumes "ledger_wf s" "entries s' = entries s" "journal_lines s' = journal_lines s"
    "accounts s' = accounts s" "next_id s \<le> next_id s'"
  shows "ledger_wf s'"
  using assms(1,5) unfolding ledger_wf_def assms(2,3,4) by (meson less_le_trans)

lemma numbers_bounded_frame:
  "numbers_bounded s \<Longrightarrow> entries s' = entries s \<Longrightarrow> sequences s' = sequences s \<Longrightarrow> numbers_bounded s'"
  using next_value_update_cong [of s' s] by (simp add: numbers_bounded_def)

lemma account_net_frame:
  assumes "entries s' = entries s" "journal_lines s' = journal_lines s"
  shows "account_net a s' = account_net a s"
proof -
  have "line_posted s' = line_posted s"
    by (intro ext) (simp add: line_posted_iff get_entry_def assms(1))
  then show ?thesis
    unfolding account_net_lines assms(2) by simp
qed

context posting_invariant
begin

lemma bridge_post_keeps:
  assumes "I s" and "bridge_post d lines a st i s = Inr s'"
    and "\<forall>l\<in>set lines. is_money (jlr_dr_base l) \<and> is_money (jlr_cr_base l)"
  shows "I s'"
proof -
  let ?req = "\<lparr>jer_posting_date = d, jer_voucher_type = ''journal_entry'', jer_lines = lines,
    jer_is_opening = False\<rparr>"
  from assms(2) obtain e where e: "post ?req a (Some st) (Some i) True s = Inr (e, s')"
    by (auto simp: bridge_post_def ok_simps)
  have "admissible ?req"
    using assms(3) by (intro exact_admissible) (simp add: exact_request_def)
  from post_keeps [OF assms(1) this e] show ?thesis .
qed

lemma emit_keeps: "I s \<Longrightarrow> emit_event_async ev s = Inr s' \<Longrightarrow> I s'"
  using emit_Inr [of ev s s'] handler_posts bridge_post_keeps by metis

end

section \<open>What the bridge posts\<close>

definition account_ready :: "string \<Rightarrow> 'a ledger_scheme \<Rightarrow> account \<Rightarrow> bool" where
  "account_ready code s a =
     (get_account_by_code code s = Some a \<and> acc_is_active a \<and> acc_is_postable a)"

lemma account_ready_get:
  assumes "ledger_wf s" and "account_ready code s a"
  shows "get_account (acc_id a) s = Some a" "acc_code a = code" "a \<in> set (accounts s)"
  using assms get_by_mem [of acc_id "accounts s" a]
  by (auto simp: account_ready_def get_account_def get_account_by_code_def ledger_wf_def
      dest!: get_by_Some)

lemma ready_distinct:
  assumes "ledger_wf s" "account_ready c s a" "account_ready d s b" "c \<noteq> d"
  shows "acc_id a \<noteq> acc_id b"
  using account_ready_get [OF assms(1,2)] account_ready_get [OF assms(1,3)] assms(4)
  by (metis option.inject)

lemma resolve_ready: "account_ready c s a \<Longrightarrow> resolve_account_id c s = Inr (acc_id a)"
  by (simp add: account_ready_def resolve_account_id_def)

text \<open>A pair of lines between two usable accounts on an open date is posted.\<close>

lemma system_pair_posts:
  assumes wf: "ledger_wf s" and nb: "numbers_bounded s" and p: "get_open_period d s = Inr (Some q)"
    and a: "account_ready c1 s a" and b: "account_ready c2 s b" and x: "x \<noteq> 0"
    and v: "v \<in> set journal_voucher_types"
    and l: "jlr_account_id l = acc_id a" "jlr_dr l = x" "jlr_cr l = 0" "jlr_dr_base l = x" "jlr_cr_base l = 0"
    and m: "jlr_account_id m = acc_id b" "jlr_dr m = 0" "jlr_cr m = x" "jlr_dr_base m = 0" "jlr_cr_base m = x"
  shows "\<exists>s'. post \<lparr>jer_posting_date = d, jer_voucher_type = v, jer_lines = [l, m],
      jer_is_opening = False\<rparr> actor st i True s
    = Inr (posted_entry \<lparr>jer_posting_date = d, jer_voucher_type = v, jer_lines = [l, m],
      jer_is_opening = False\<rparr> st i True q s, s')"
proof -
  let ?req = "\<lparr>jer_posting_date = d, jer_voucher_type = v, jer_lines = [l, m], jer_is_opening = False\<rparr>"
  have "postable ?req True q s"
    using account_ready_get [OF wf a] account_ready_get [OF wf b] a b p x v l m
      numbers_bounded_fresh [OF nb, of ?req]
    by (simp add: postable_def gate_account_def account_ready_def money_sum_def)
  then show ?thesis by (auto simp: post_Inr_iff)
qed

lemma system_pair_net:
  assumes wf: "ledger_wf s" and p: "post req actor st i sys s = Inr (e, s')"
    and req: "jer_lines req = [l, m]" and ab: "a \<noteq> b"
    and l: "jlr_account_id l = a" "jlr_dr_base l = x" "jlr_cr_base l = 0"
    and m: "jlr_account_id m = b" "jlr_dr_base m = 0" "jlr_cr_base m = x"
  shows "account_net c s' = account_net c s + (if c = a then money x else 0) - (if c = b then money x else 0)"
  using account_net_post [OF wf p, of c] ab by (simp add: req l m)

text \<open>The accounts an event debits and credits.\<close>

fun bridge_accounts :: "event \<Rightarrow> (string \<times> string) option" where
  "bridge_accounts (GrnConfirmed i amt d a) = Some (''1200'', ''2200'')"
| "bridge_accounts (UnitDispatched i amt d a) = Some (''5100'', ''1200'')"
| "bridge_accounts (InvoiceCreated i amt d a c) = Some (''1100'', ''4100'')"
| "bridge_accounts (AdjustmentConfirmed i amt d a) =
     Some (if money amt < 0 then (''1200'', ''4200'') else (''5200'', ''1200''))"
| "bridge_accounts ev = None"

fun bridge_amount :: "event \<Rightarrow> rat" where
  "bridge_amount (AdjustmentConfirmed i amt d a) = \<bar>money amt\<bar>"
| "bridge_amount ev = money (ev_amount ev)"

lemma handler_pair:
  assumes "bridge_accounts ev = Some (dc, cc)"
    and "account_ready dc s a" and "account_ready cc s b"
  shows "dc \<noteq> cc \<and> (\<exists>h pt pid st. async_subscribers ev = [h] \<and> h s = bridge_post (ev_date ev)
      [linereq (acc_id a) (Some (bridge_amount ev)) None pt pid,
       linereq (acc_id b) None (Some (bridge_amount ev)) None None] (ev_actor ev) st (ev_id ev) s)"
  using assms(1) resolve_ready [OF assms(2)] resolve_ready [OF assms(3)]
  by (cases ev) (fastforce simp: async_subscribers_def handler_defs Let_def split: if_splits)+

lemma bridge_amount_money: "money (bridge_amount ev) = bridge_amount ev"
  by (cases ev) (simp_all add: abs_if money_is_money)

lemma refused_handlers:
  "(\<And>h. h \<in> set hs \<Longrightarrow> \<exists>e. h s = Inl (PostingError e)) \<Longrightarrow> foldE run_handler hs s = Inr s"
  by (induction hs) (fastforce simp: run_handler_def)+

lemma emit_posts:
  assumes wf: "ledger_wf s" and nb: "numbers_bounded s"
    and acc: "bridge_accounts ev = Some (dc, cc)" "account_ready dc s a" "account_ready cc s b"
    and p: "get_open_period (ev_date ev) s = Inr (Some q)" and x: "bridge_amount ev \<noteq> 0"
  shows "\<exists>s'. emit_event_async ev s = Inr s'
    \<and> account_net (acc_id a) s' = account_net (acc_id a) s + bridge_amount ev
    \<and> account_net (acc_id b) s' = account_net (acc_id b) s - bridge_amount ev
    \<and> (\<forall>c. c \<noteq> acc_id a \<longrightarrow> c \<noteq> acc_id b \<longrightarrow> account_net c s' = account_net c s)
    \<and> (\<exists>e. entries s' = entries s @ [e] \<and> je_is_system_generated e \<and> je_source_id e = Some (ev_id ev)
          \<and> je_posting_date e = ev_date ev)"
proof -
  from handler_pair [OF acc] obtain h pt pid st where ne: "dc \<noteq> cc" and h: "async_subscribers ev = [h]"
    and hs: "h s = bridge_post (ev_date ev) [linereq (acc_id a) (Some (bridge_amount ev)) None pt pid,
       linereq (acc_id b) None (Some (bridge_amount ev)) None None] (ev_actor ev) st (ev_id ev) s"
    by blast
  let ?l = "linereq (acc_id a) (Some (bridge_amount ev)) None pt pid"
  let ?m = "linereq (acc_id b) None (Some (bridge_amount ev)) None None"
  let ?req = "\<lparr>jer_posting_date = ev_date ev, jer_voucher_type = ''journal_entry'',
    jer_lines = [?l, ?m], jer_is_opening = False\<rparr>"
  have v: "''journal_entry'' \<in> set journal_voucher_types" by (simp add: journal_voucher_types_def)
  let ?e = "posted_entry ?req (Some st) (Some (ev_id ev)) True q s"
  have "\<exists>s'. post ?req (ev_actor ev) (Some st) (Some (ev_id ev)) True s = Inr (?e, s')"
    by (rule system_pair_posts [OF wf nb p acc(2,3) x v]) simp_all
  then obtain e s' where e: "post ?req (ev_actor ev) (Some st) (Some (ev_id ev)) True s = Inr (e, s')"
    "e = ?e" by blast
  have "h s = Inr s'" using e(1) by (simp add: hs bridge_post_def)
  then have emit: "emit_event_async ev s = Inr s'"
    by (simp add: emit_event_async_def h run_handler_def)
  have ab: "acc_id a \<noteq> acc_id b" by (rule ready_distinct [OF wf acc(2,3) ne])
  have net: "account_net c s' = account_net c s + (if c = acc_id a then bridge_amount ev else 0)
      - (if c = acc_id b then bridge_amount ev else 0)" for c
    using system_pair_net [OF wf e(1) _ ab, of ?l ?m "bridge_amount ev" c]
    by (simp add: bridge_amount_money)
  have "entries s' = entries s @ [e]" using e(1) by (auto elim!: post_Inr)
  with emit net ab e(2) show ?thesis by auto
qed

section \<open>Properties\<close>

text \<open>The bridge posts what the events say. When the two accounts of an event exist and accept
  postings, its date lies in an open period and its amount is not zero, emitting it writes one
  system entry that names the emitting document, debits the first account and credits the second by the
  amount (rounded to the money scale), and changes no other balance. A goods receipt debits
  1200 and credits 2200, a dispatch 5100 and 1200, an invoice 1100 and 4100, an adjustment
  5200 and 1200 or, for a negative amount, 1200 and 4200.\<close>

theorem bridge_posts:
  assumes wf: "ledger_wf s" and nb: "numbers_bounded s"
    and acc: "bridge_accounts ev = Some (dc, cc)" "account_ready dc s a" "account_ready cc s b"
    and p: "get_open_period (ev_date ev) s = Inr (Some q)" and x: "bridge_amount ev \<noteq> 0"
  shows "\<exists>s'. emit_event_async ev s = Inr s'
    \<and> account_net (acc_id a) s' = account_net (acc_id a) s + bridge_amount ev
    \<and> account_net (acc_id b) s' = account_net (acc_id b) s - bridge_amount ev
    \<and> (\<forall>c. c \<noteq> acc_id a \<longrightarrow> c \<noteq> acc_id b \<longrightarrow> account_net c s' = account_net c s)
    \<and> (\<exists>e. entries s' = entries s @ [e] \<and> je_is_system_generated e \<and> je_source_id e = Some (ev_id ev)
          \<and> je_posting_date e = ev_date ev)"
  using assms by (rule emit_posts)

theorem bridge_posts_witness:
  "\<exists>s'. emit_event_async (InvoiceCreated 90 (1250 / 10) 738955 (Some 7) 60) sample_books = Inr s'
     \<and> account_net 3 s' = 125 \<and> account_net 12 s' = - 125"
proof -
  let ?ev = "InvoiceCreated 90 (1250 / 10) 738955 (Some 7) 60"
  have wf: "ledger_wf sample_books" using sample_books_inv by (simp add: ledger_inv_def)
  have nb: "numbers_bounded sample_books" by (simp add: numbers_bounded_def sample_books_def)
  have r: "account_ready ''1100'' sample_books (sample_account 3 ''1100'' ASSET True)"
    "account_ready ''4100'' sample_books (sample_account 12 ''4100'' REVENUE False)"
    by (simp_all add: account_ready_def evals)
  have p: "get_open_period (ev_date ?ev) sample_books = Inr (Some sample_period)"
    by (simp add: evals)
  have n: "account_net c sample_books = 0" for c
    by (simp add: account_net_lines sample_books_def)
  have x: "money 125 = 125" by (simp add: money_is_money)
  from bridge_posts [OF wf nb _ r p] show ?thesis
    by (simp add: x n) (auto simp: sample_account_def)
qed

text \<open>A refused bridge posting is lost without a trace: when no fiscal period is open on the date of
  the event, or an account of the pair is missing, emitting it succeeds and changes nothing, so the
  document that emitted it is committed without its journal.\<close>

theorem bridge_swallows_refusals:
  assumes "get_open_period (ev_date ev) s = Inr None
    \<or> (\<exists>dc cc. bridge_accounts ev = Some (dc, cc)
        \<and> (get_account_by_code dc s = None \<or> get_account_by_code cc s = None))"
  shows "emit_event_async ev s = Inr s"
proof -
  have refuse: "bridge_post d ls ac st i s = Inl (PostingError ''period_not_open'')"
    if "get_open_period d s = Inr None" for d ls ac st i
    using that by (simp add: bridge_post_def post_def)
  have "\<exists>e. h s = Inl (PostingError e)" if "h \<in> set (async_subscribers ev)" for h
    using assms that
    by (cases ev) (auto simp: async_subscribers_def handler_defs Let_def resolve_account_id_def
        from_opt_def ebind_def refuse split: option.splits if_splits)
  then show ?thesis
    unfolding emit_event_async_def by (intro refused_handlers) blast
qed

theorem bridge_swallows_refusals_witness:
  "emit_event_async (GrnConfirmed 90 10 738955 None) (sample_books\<lparr>periods := []\<rparr>)
     = Inr (sample_books\<lparr>periods := []\<rparr>)"
  by (rule bridge_swallows_refusals) (simp add: evals)

end
