(* ===== verification/Subledger.thy ===== *)
theory Subledger
  imports Bridge
begin

text \<open>
  What a sub-ledger may rely on about the balance of its control account: manual postings and
  reversals cannot move it, the bridge moves only the accounts it looks up, and the entries a
  document points to stay. The locale \<open>private_account\<close> is the contract of a control account that
  the bridge does not post to.
\<close>

lemma code_ids:
  assumes "ledger_wf s" "get_account_by_code c s = Some a" "get_account_by_code d s = Some b" "c \<noteq> d"
  shows "acc_id a \<noteq> acc_id b"
proof -
  have a: "a \<in> set (accounts s)" "acc_code a = c" and b: "b \<in> set (accounts s)" "acc_code b = d"
    using assms(2,3) by (auto simp: get_account_by_code_def dest!: get_by_Some)
  have "inj_on acc_id (set (accounts s))" using assms(1) by (simp add: ledger_wf_def distinct_map)
  with a b assms(4) show ?thesis by (auto dest: inj_onD)
qed

lemma by_code_get:
  assumes "ledger_wf s" "get_account_by_code c s = Some a"
  shows "get_account (acc_id a) s = Some a" "a \<in> set (accounts s)"
  using assms get_by_mem [of acc_id "accounts s" a]
  by (auto simp: get_account_def get_account_by_code_def ledger_wf_def dest!: get_by_Some)

section \<open>Manual postings and reversals\<close>

lemma manual_lines_not_control:
  assumes "ledger_wf s" "get_account_by_code c s = Some a" "acc_is_control a"
    and "post req actor st si False s = Inr (e, s')" "l \<in> set (jer_lines req)"
  shows "jlr_account_id l \<noteq> acc_id a"
proof
  assume eq: "jlr_account_id l = acc_id a"
  from assms(4) obtain q where q: "postable req False q s" by (rule post_Inr)
  then have "gate_account False s l = Inr ()" using assms(5) by (simp add: postable_def)
  from gate_account_Inr [OF this] show False
    using by_code_get(1) [OF assms(1,2)] assms(3) eq by auto
qed

lemma manual_post_net:
  assumes "ledger_wf s" "get_account_by_code c s = Some a" "acc_is_control a"
    and "post req actor st si False s = Inr (e, s')"
  shows "account_net (acc_id a) s' = account_net (acc_id a) s"
proof -
  have "filter (\<lambda>l. jlr_account_id l = acc_id a) (jer_lines req) = []"
    using manual_lines_not_control [OF assms] by (auto simp: filter_empty_conv)
  with account_net_post [OF assms(1,4), of "acc_id a"] show ?thesis by simp
qed

lemma post_entry_net:
  assumes "ledger_wf s" "get_account_by_code c s = Some a" "acc_is_control a"
    and "post_entry req actor s = Inr (e, s')"
  shows "account_net (acc_id a) s' = account_net (acc_id a) s"
  using assms manual_post_net by (auto simp: post_entry_def ok_simps)

lemma reverse_net:
  assumes "ledger_inv s" "get_account_by_code c s = Some a" "acc_is_control a"
    and "reverse_entry i actor d s = Inr (r, s')"
  shows "account_net (acc_id a) s' = account_net (acc_id a) s"
proof -
  have wf: "ledger_wf s" using assms(1) by (simp add: ledger_inv_def)
  from assms(4) obtain e t where e: "get_entry i s = Some e"
    and p: "post (reversal_request e d s) (Some actor) (Some ''journal_entry'') (Some i) False s = Inr (r, t)"
    by (auto simp: reverse_entry_Inr_iff)
  have "je_id e = i" using e by (auto simp: get_entry_def dest!: get_by_Some)
  then have "jl_account_id l \<noteq> acc_id a" if "l \<in> set (entry_lines i s)" for l
    using manual_lines_not_control [OF wf assms(2,3) p, of "mirror_line l"] that
    by (simp add: reversal_request_def mirror_line_def)
  then have "filter (\<lambda>l. jl_account_id l = acc_id a) (entry_lines i s) = []"
    by (auto simp: filter_empty_conv)
  then have "entry_net (acc_id a) i s = 0" by (simp add: entry_net_def)
  with reversal_account_net [OF assms(1,4)] show ?thesis by simp
qed

section \<open>Entries stay\<close>

definition entries_kept :: "'a ledger_scheme \<Rightarrow> 'b ledger_scheme \<Rightarrow> bool" where
  "entries_kept s s' = (\<forall>e\<in>set (entries s). \<exists>e'\<in>set (entries s'). je_id e' = je_id e
     \<and> je_source_type e' = je_source_type e \<and> je_source_id e' = je_source_id e)"

lemma entries_kept_refl: "entries s' = entries s \<Longrightarrow> entries_kept s s'"
  by (auto simp: entries_kept_def)

lemma entries_kept_trans: "entries_kept s t \<Longrightarrow> entries_kept t u \<Longrightarrow> entries_kept s u"
  unfolding entries_kept_def by metis

lemma entries_kept_post: "post req a st si sys s = Inr (e, s') \<Longrightarrow> entries_kept s s'"
  by (auto simp: entries_kept_def elim!: post_Inr)

lemma entries_kept_marked: "entries_kept s (mark_reversed i r s)"
  unfolding entries_kept_def
proof
  fix e assume "e \<in> set (entries s)"
  then show "\<exists>e'\<in>set (entries (mark_reversed i r s)). je_id e' = je_id e
      \<and> je_source_type e' = je_source_type e \<and> je_source_id e' = je_source_id e"
    by (intro bexI [of _ "if je_id e = i then e\<lparr>je_status := JE_REVERSED, je_reversed_by_id := Some r\<rparr> else e"])
      (auto simp: mark_reversed_def upd_by_def)
qed

lemma entries_kept_reverse: "reverse_entry i a d s = Inr (r, s') \<Longrightarrow> entries_kept s s'"
  by (auto simp: reverse_entry_Inr_iff intro: entries_kept_trans [OF entries_kept_post entries_kept_marked])

lemma entries_kept_emit:
  assumes "emit_event_async ev s = Inr s'"
  shows "entries_kept s s'"
proof -
  have "entries_kept t t'" if "bridge_post d ls a st i t = Inr t'"
    for d ls a st i and t t' :: "'a ledger_scheme"
    using that by (auto simp: bridge_post_def ok_simps dest: entries_kept_post)
  with emit_Inr [OF assms] show ?thesis
    by (metis handler_posts entries_kept_refl)
qed

section \<open>Accounts the bridge leaves alone\<close>

locale private_account =
  fixes code :: string
  assumes not_bridged: "code \<notin> set bridge_codes"
begin

lemma emit_net:
  assumes wf: "ledger_wf s" and a: "get_account_by_code code s = Some a"
    and e: "emit_event_async ev s = Inr s'"
  shows "account_net (acc_id a) s' = account_net (acc_id a) s"
proof -
  have "account_net (acc_id a) s' = account_net (acc_id a) s"
    if h: "h \<in> set (async_subscribers ev)" "h s = Inr s'" for h
  proof -
    from h obtain lines st where b: "bridge_post (ev_date ev) lines (ev_actor ev) st (ev_id ev) s = Inr s'"
      and l: "\<forall>l\<in>set lines. \<exists>c\<in>set bridge_codes. \<exists>b. get_account_by_code c s = Some b
        \<and> jlr_account_id l = acc_id b" by (rule handler_codes)
    have "jlr_account_id l \<noteq> acc_id a" if "l \<in> set lines" for l
      using l that code_ids [OF wf a] not_bridged by metis
    then have f: "filter (\<lambda>l. jlr_account_id l = acc_id a) lines = []"
      by (auto simp: filter_empty_conv)
    from b obtain e where "post \<lparr>jer_posting_date = ev_date ev, jer_voucher_type = ''journal_entry'',
        jer_lines = lines, jer_is_opening = False\<rparr> (ev_actor ev) (Some st) (Some (ev_id ev)) True s = Inr (e, s')"
      by (auto simp: bridge_post_def ok_simps)
    from account_net_post [OF wf this, of "acc_id a"] f show ?thesis by simp
  qed
  with emit_Inr [OF e] show ?thesis by blast
qed

end

interpretation payables_account: private_account "''2100''"
  by unfold_locales (simp add: bridge_codes_def)

section \<open>Operations that reach the ledger through the bridge only\<close>

text \<open>
  A run of writes to other tables and of events. What it keeps is what the sub-ledgers that
  use the bridge keep of the ledger.
\<close>

definition ledger_same :: "'a ledger_scheme \<Rightarrow> 'a ledger_scheme \<Rightarrow> bool" where
  "ledger_same s s' = (entries s' = entries s \<and> journal_lines s' = journal_lines s
     \<and> accounts s' = accounts s \<and> periods s' = periods s \<and> next_id s \<le> next_id s')"

inductive bridge_run :: "'a ledger_scheme \<Rightarrow> 'a ledger_scheme \<Rightarrow> bool" where
  tables: "ledger_same s t \<Longrightarrow> bridge_run s t"
| event: "bridge_run s t \<Longrightarrow> emit_event_async ev t = Inr u \<Longrightarrow> bridge_run s u"
| more: "bridge_run s t \<Longrightarrow> ledger_same t u \<Longrightarrow> bridge_run s u"

lemma ledger_same_refl [simp]: "ledger_same s s"
  by (simp add: ledger_same_def)

lemma bridge_run_refl [simp]: "bridge_run s s"
  by (rule bridge_run.tables) simp

lemma bridge_run_emit: "emit_event_async ev s = Inr s' \<Longrightarrow> bridge_run s s'"
  by (rule bridge_run.event [OF bridge_run_refl])

lemma bridge_run_trans:
  assumes "bridge_run s t" "bridge_run t u"
  shows "bridge_run s u"
  using assms(2,1)
  by (induction rule: bridge_run.induct) (auto intro: bridge_run.intros)

lemma bridge_run_foldE:
  assumes "foldE f xs s = Inr s'" and "\<And>x t t'. x \<in> set xs \<Longrightarrow> f x t = Inr t' \<Longrightarrow> bridge_run t t'"
  shows "bridge_run s s'"
  by (rule foldE_inv [OF assms(1), where P = "bridge_run s"])
    (auto intro: bridge_run_trans assms(2))

lemma bridge_run_keeps:
  assumes "bridge_run s s'" "ledger_inv s" "control_ok s"
  shows "ledger_inv s'" "control_ok s'" "accounts s' = accounts s" "periods s' = periods s"
    "next_id s \<le> next_id s'" "entries_kept s s'"
proof -
  have "ledger_inv s' \<and> control_ok s' \<and> accounts s' = accounts s \<and> periods s' = periods s
      \<and> next_id s \<le> next_id s' \<and> entries_kept s s'"
    using assms
  proof (induction rule: bridge_run.induct)
    case (tables s t)
    then show ?case
      using ledger_inv_frame [of s t] entries_kept_refl [of t s]
      by (simp add: ledger_same_def control_ok_def entry_lines_def)
  next
    case (event s t ev u)
    then have t: "ledger_inv t" "ledger_wf t \<and> control_ok t" by (simp_all add: ledger_inv_def)
    from books.emit_keeps [OF t(1) event.hyps(2)] controls.emit_keeps [OF t(2) event.hyps(2)]
      emit_frame [OF event.hyps(2)] entries_kept_emit [OF event.hyps(2)] event show ?case
      by (auto intro: entries_kept_trans order_trans)
  next
    case (more s t u)
    then show ?case
      using ledger_inv_frame [of t u] entries_kept_refl [of u t]
      by (auto simp: ledger_same_def control_ok_def entry_lines_def intro: entries_kept_trans)
  qed
  then show "ledger_inv s'" "control_ok s'" "accounts s' = accounts s" "periods s' = periods s"
    "next_id s \<le> next_id s'" "entries_kept s s'" by simp_all
qed

context private_account
begin

lemma bridge_run_net:
  assumes "bridge_run s s'" "ledger_inv s" "control_ok s" "get_account_by_code code s = Some a"
  shows "account_net (acc_id a) s' = account_net (acc_id a) s"
  using assms
proof (induction rule: bridge_run.induct)
  case (tables s t)
  then show ?case by (intro account_net_frame) (simp_all add: ledger_same_def)
next
  case (event s t ev u)
  have "ledger_wf t" "get_account_by_code code t = Some a"
    using bridge_run_keeps [OF event.hyps(1) event.prems(1,2)] event.prems(3)
    by (simp_all add: ledger_inv_def get_account_by_code_def)
  from emit_net [OF this event.hyps(2)] event show ?case by simp
next
  case (more s t u)
  have "account_net (acc_id a) u = account_net (acc_id a) t"
    using more.hyps(2) by (intro account_net_frame) (simp_all add: ledger_same_def)
  with more show ?case by simp
qed

end

section \<open>The operations of the ledger itself\<close>

text \<open>
  A manual entry at the money scale (a finer one can be stored out of balance), a reversal, the
  life cycle of a period, a new account.
\<close>

inductive ledger_step :: "'a ledger_scheme \<Rightarrow> 'a ledger_scheme \<Rightarrow> bool" where
  post: "post_entry req actor s = Inr (e, s') \<Longrightarrow> exact_request req \<Longrightarrow> ledger_step s s'"
| reverse: "journal_reverse_entry i actor s = Inr (e, s') \<Longrightarrow> ledger_step s s'"
| close: "close_period i s = Inr s' \<Longrightarrow> ledger_step s s'"
| reopen: "reopen_period i s = Inr s' \<Longrightarrow> ledger_step s s'"
| account: "account_create areq s = Inr (a, s') \<Longrightarrow> ledger_step s s'"

lemma get_by_append_Some: "get_by key k xs = Some r \<Longrightarrow> get_by key k (xs @ ys) = Some r"
  by (simp add: get_by_append)

lemma account_create_Inr:
  assumes "account_create areq s = Inr (a, s')"
  shows "acc_id a = next_id s \<and> acc_is_active a \<and> acc_code a \<notin> acc_code ` set (accounts s)
    \<and> s' = s\<lparr>next_id := Suc (next_id s), accounts := accounts s @ [a]\<rparr>"
  using assms
  by (auto simp: account_create_def ok_simps fresh_id_def Let_def get_account_by_code_def get_by_None_iff)

lemma ledger_step_keeps:
  assumes "ledger_step s s'" and inv: "ledger_inv s" and c: "control_ok s"
  shows "ledger_inv s' \<and> control_ok s' \<and> entries_kept s s' \<and> next_id s \<le> next_id s'
    \<and> ledger.more s' = ledger.more s
    \<and> (\<forall>code a. get_account_by_code code s = Some a \<longrightarrow> get_account_by_code code s' = Some a
          \<and> (acc_is_control a \<longrightarrow> account_net (acc_id a) s' = account_net (acc_id a) s))"
proof -
  have wf: "ledger_wf s" using inv by (simp add: ledger_inv_def)
  from assms(1) show ?thesis
  proof cases
    case (post req actor e)
    then obtain t where p: "post req (Some actor) None None False s = Inr (e, s')"
      by (auto simp: post_entry_def ok_simps)
    from books.post_entry_keeps [OF inv post(2,1)] controls.post_entry_keeps [of s, OF _ _ post(1)] wf c
      entries_kept_post [OF p] post_frame [OF p] post_entry_net [OF wf _ _ post(1)]
    show ?thesis by (simp add: get_account_by_code_def)
  next
    case (reverse i actor e)
    then have r: "reverse_entry i actor None s = Inr (e, s')" by (simp add: journal_reverse_entry_def)
    then obtain x t where p: "post (reversal_request x None s) (Some actor) (Some ''journal_entry'') (Some i) False s
        = Inr (e, t)" "s' = mark_reversed i (je_id e) t"
      by (auto simp: reverse_entry_Inr_iff)
    have m: "ledger.more (mark_reversed i (je_id e) t) = ledger.more t" by (simp add: mark_reversed_def)
    from books.reverse_keeps [OF inv r] controls.reverse_keeps [of s, OF _ r] wf c entries_kept_reverse [OF r]
      post_frame [OF p(1)] p(2) m reverse_net [OF inv _ _ r]
    show ?thesis by (simp add: get_account_by_code_def)
  next
    case (close i)
    then have s': "s' = set_period_status i PER_CLOSED s" by (auto simp: close_period_def ok_simps)
    have n: "account_net x s' = account_net x s" for x
      by (rule account_net_frame) (simp_all add: s' set_period_status_def)
    show ?thesis
      using ledger_inv_frame [OF inv, of s'] c entries_kept_refl [of s' s] n
      by (simp add: s' set_period_status_def control_ok_def entry_lines_def get_account_by_code_def)
  next
    case (reopen i)
    then have s': "s' = set_period_status i PER_OPEN s" by (auto simp: reopen_period_def ok_simps)
    have n: "account_net x s' = account_net x s" for x
      by (rule account_net_frame) (simp_all add: s' set_period_status_def)
    show ?thesis
      using ledger_inv_frame [OF inv, of s'] c entries_kept_refl [of s' s] n
      by (simp add: s' set_period_status_def control_ok_def entry_lines_def get_account_by_code_def)
  next
    case (account areq a)
    from account_create_Inr [OF account(1)] have a: "acc_id a = next_id s" "acc_is_active a"
      "acc_code a \<notin> acc_code ` set (accounts s)"
      and s': "s' = s\<lparr>next_id := Suc (next_id s), accounts := accounts s @ [a]\<rparr>" by simp_all
    have n: "account_net x s' = account_net x s" for x
      by (rule account_net_frame) (simp_all add: s')
    have fresh: "acc_id x \<noteq> next_id s" if "x \<in> set (accounts s)" for x
      using wf that by (auto simp: ledger_wf_def)
    have line: "jl_account_id l \<noteq> next_id s" if "l \<in> set (journal_lines s)" for l
      using wf that fresh by (auto simp: ledger_wf_def)
    have "ledger_wf s'"
      using wf a fresh by (auto simp: s' ledger_wf_def less_Suc_eq)
    then have "ledger_inv s'"
      using inv a by (auto simp: ledger_inv_def s' entries_balanced_def entry_dr_def entry_cr_def
          entry_lines_def lines_quantized_def accounts_active_def)
    moreover have "control_ok s'"
      using c a(1) line unfolding control_ok_def s' entry_lines_def by (auto dest: sym)
    ultimately show ?thesis
      using n entries_kept_refl [of s' s] by (simp add: s' get_account_by_code_def get_by_append_Some)
  qed
qed

end
