(* ===== verification/Receivables.thy ===== *)
theory Receivables
  imports Subledger
begin

text \<open>
  Accounts receivable (backend/app/modules/receivables: constants, models, schemas, repository,
  service, tasks): sales invoices with their lines, customer payments and their allocation to
  invoices, credit notes, the ageing report, the credit check and the sidebar summary.

  Requests are the validated ones: the schemas' coercions and bounds are \<open>parse_\<dots>\<close>. An operation
  that returns the row it changed returns the new state here; the row is the one the state
  holds under the identifier. The tax code, remarks and reference columns are left out, and
  the exchange rate, which is always 1. \<open>created_year\<close> is the year of \<open>created_at\<close>.
\<close>

section \<open>Constants and tables\<close>

datatype invoice_status = INV_DRAFT | INV_ISSUED | INV_PAID | INV_OVERDUE | INV_VOID

datatype payment_status = PMT_CLEARED | PMT_UNCLEARED | PMT_VOID

datatype credit_note_status = CN_DRAFT | CN_ISSUED | CN_VOID

definition payment_methods :: "string list" where
  "payment_methods = [''bank_transfer'', ''cash'', ''cheque'', ''credit_card'']"

definition credit_note_reasons :: "string list" where
  "credit_note_reasons = [''goods_returned'', ''price_adjustment'', ''damaged_goods'', ''other'']"

definition ageing_buckets :: "(string \<times> int \<times> int option) list" where
  "ageing_buckets =
     [(''current'', 0, Some 0), (''1_30'', 1, Some 30), (''31_60'', 31, Some 60),
      (''61_90'', 61, Some 90), (''over_90'', 91, None)]"

record sales_invoice =
  inv_id :: uuid
  inv_no :: string
  inv_customer_id :: uuid
  inv_posting_date :: date
  inv_due_date :: date
  inv_currency_code :: string
  inv_subtotal :: rat
  inv_tax_total :: rat
  inv_total :: rat
  inv_status :: invoice_status
  inv_je_id :: "uuid option"
  inv_created_year :: nat

record sales_invoice_line =
  il_invoice_id :: uuid
  il_item_id :: "uuid option"
  il_qty :: rat
  il_unit_price :: rat
  il_line_total :: rat
  il_tax_rate :: rat
  il_tax_amount :: rat

record customer_payment =
  cp_id :: uuid
  cp_no :: string
  cp_customer_id :: uuid
  cp_payment_date :: date
  cp_amount :: rat
  cp_currency_code :: string
  cp_method :: string
  cp_je_id :: "uuid option"
  cp_status :: payment_status
  cp_created_year :: nat

record payment_allocation =
  al_payment_id :: uuid
  al_invoice_id :: uuid
  al_amount :: rat

record credit_note =
  cn_id :: uuid
  cn_no :: string
  cn_customer_id :: uuid
  cn_invoice_id :: "uuid option"
  cn_date :: date
  cn_amount :: rat
  cn_reason :: string
  cn_currency_code :: string
  cn_je_id :: "uuid option"
  cn_status :: credit_note_status
  cn_created_year :: nat

record receivables = ledger +
  invoices :: "sales_invoice list"
  invoice_lines :: "sales_invoice_line list"
  customer_payments :: "customer_payment list"
  allocations :: "payment_allocation list"
  credit_notes :: "credit_note list"

section \<open>Repositories\<close>

definition get_invoice :: "uuid \<Rightarrow> 'a receivables_scheme \<Rightarrow> sales_invoice option" where
  "get_invoice i s = get_by inv_id i (invoices s)"

definition upd_invoice ::
  "uuid \<Rightarrow> (sales_invoice \<Rightarrow> sales_invoice) \<Rightarrow> 'a receivables_scheme \<Rightarrow> 'a receivables_scheme" where
  "upd_invoice i f s = s\<lparr>invoices := upd_by inv_id i f (invoices s)\<rparr>"

definition add_invoice :: "sales_invoice \<Rightarrow> 'a receivables_scheme \<Rightarrow> 'a receivables_scheme" where
  "add_invoice r s = s\<lparr>invoices := invoices s @ [r]\<rparr>"

definition get_payment :: "uuid \<Rightarrow> 'a receivables_scheme \<Rightarrow> customer_payment option" where
  "get_payment i s = get_by cp_id i (customer_payments s)"

definition upd_payment ::
  "uuid \<Rightarrow> (customer_payment \<Rightarrow> customer_payment) \<Rightarrow> 'a receivables_scheme \<Rightarrow> 'a receivables_scheme" where
  "upd_payment i f s = s\<lparr>customer_payments := upd_by cp_id i f (customer_payments s)\<rparr>"

definition add_payment :: "customer_payment \<Rightarrow> 'a receivables_scheme \<Rightarrow> 'a receivables_scheme" where
  "add_payment r s = s\<lparr>customer_payments := customer_payments s @ [r]\<rparr>"

definition get_credit_note :: "uuid \<Rightarrow> 'a receivables_scheme \<Rightarrow> credit_note option" where
  "get_credit_note i s = get_by cn_id i (credit_notes s)"

definition upd_credit_note ::
  "uuid \<Rightarrow> (credit_note \<Rightarrow> credit_note) \<Rightarrow> 'a receivables_scheme \<Rightarrow> 'a receivables_scheme" where
  "upd_credit_note i f s = s\<lparr>credit_notes := upd_by cn_id i f (credit_notes s)\<rparr>"

definition add_credit_note :: "credit_note \<Rightarrow> 'a receivables_scheme \<Rightarrow> 'a receivables_scheme" where
  "add_credit_note r s = s\<lparr>credit_notes := credit_notes s @ [r]\<rparr>"

definition lines_of_invoice :: "uuid \<Rightarrow> 'a receivables_scheme \<Rightarrow> sales_invoice_line list" where
  "lines_of_invoice i s = filter (\<lambda>l. il_invoice_id l = i) (invoice_lines s)"

definition is_outstanding :: "uuid option \<Rightarrow> sales_invoice \<Rightarrow> bool" where
  "is_outstanding customer_id i =
     ((inv_status i = INV_ISSUED \<or> inv_status i = INV_OVERDUE)
      \<and> (case customer_id of None \<Rightarrow> True | Some c \<Rightarrow> inv_customer_id i = c))"

definition list_outstanding :: "uuid option \<Rightarrow> 'a receivables_scheme \<Rightarrow> sales_invoice list" where
  "list_outstanding customer_id s =
     take 100 (sort_key inv_due_date (filter (is_outstanding customer_id) (invoices s)))"

definition sum_outstanding :: "uuid option \<Rightarrow> 'a receivables_scheme \<Rightarrow> rat" where
  "sum_outstanding customer_id s =
     sum_list (map inv_total (filter (is_outstanding customer_id) (invoices s)))"

definition list_by_customer :: "uuid \<Rightarrow> nat \<Rightarrow> nat \<Rightarrow> 'a receivables_scheme \<Rightarrow> sales_invoice list" where
  "list_by_customer customer_id limit offset s =
     take limit (drop offset (sort_key (\<lambda>inv. - int (inv_posting_date inv))
       (filter (\<lambda>inv. inv_customer_id inv = customer_id) (invoices s))))"

definition sum_allocated :: "uuid \<Rightarrow> 'a receivables_scheme \<Rightarrow> rat" where
  "sum_allocated invoice_id s =
     sum_list (map al_amount (filter (\<lambda>a. al_invoice_id a = invoice_id) (allocations s)))"

definition sum_allocated_for_payment :: "uuid \<Rightarrow> 'a receivables_scheme \<Rightarrow> rat" where
  "sum_allocated_for_payment payment_id s =
     sum_list (map al_amount (filter (\<lambda>a. al_payment_id a = payment_id) (allocations s)))"

definition generate_invoice_no :: "'a receivables_scheme \<Rightarrow> string" where
  "generate_invoice_no s = generate_no ''INV'' inv_created_year (invoices s) (year_of (today s))"

definition generate_payment_no :: "'a receivables_scheme \<Rightarrow> string" where
  "generate_payment_no s = generate_no ''PMT'' cp_created_year (customer_payments s) (year_of (today s))"

definition generate_credit_note_no :: "'a receivables_scheme \<Rightarrow> string" where
  "generate_credit_note_no s = generate_no ''CN'' cn_created_year (credit_notes s) (year_of (today s))"

section \<open>Requests\<close>

record invoice_line_request =
  ilr_item_id :: "uuid option"
  ilr_qty :: rat
  ilr_unit_price :: rat
  ilr_tax_rate :: rat

record invoice_create_request =
  icr_customer_id :: uuid
  icr_posting_date :: date
  icr_due_date :: date
  icr_currency_code :: string
  icr_lines :: "invoice_line_request list"

record payment_create_request =
  pcr_customer_id :: uuid
  pcr_payment_date :: date
  pcr_amount :: rat
  pcr_currency_code :: string
  pcr_method :: string

record allocation_request =
  alr_invoice_id :: uuid
  alr_amount :: rat

record credit_note_create_request =
  cncr_customer_id :: uuid
  cncr_invoice_id :: "uuid option"
  cncr_date :: date
  cncr_amount :: rat
  cncr_reason :: string
  cncr_currency_code :: string

definition parse_invoice_line :: "invoice_line_request \<Rightarrow> err + invoice_line_request" where
  "parse_invoice_line r =
     (let r' = \<lparr>ilr_item_id = ilr_item_id r, ilr_qty = qty (ilr_qty r),
                ilr_unit_price = money (ilr_unit_price r), ilr_tax_rate = money (ilr_tax_rate r)\<rparr>
      in ebind (ensure (ilr_qty r' \<ge> 0 \<and> ilr_unit_price r' \<ge> 0 \<and> ilr_tax_rate r' \<ge> 0) ValueError)
           (\<lambda>_. Inr r'))"

primrec parse_all :: "('a \<Rightarrow> err + 'b) \<Rightarrow> 'a list \<Rightarrow> err + 'b list" where
  "parse_all f [] = Inr []"
| "parse_all f (x # xs) = ebind (f x) (\<lambda>y. ebind (parse_all f xs) (\<lambda>ys. Inr (y # ys)))"

definition parse_invoice_request :: "invoice_create_request \<Rightarrow> err + invoice_create_request" where
  "parse_invoice_request r =
     ebind (ensure (length (icr_lines r) \<ge> 1 \<and> length (icr_currency_code r) = 3) ValueError) (\<lambda>_.
     ebind (ensure (\<not> icr_due_date r < icr_posting_date r) ValueError) (\<lambda>_.
     ebind (parse_all parse_invoice_line (icr_lines r)) (\<lambda>ls.
     Inr (r\<lparr>icr_lines := ls\<rparr>))))"

definition parse_payment_request :: "payment_create_request \<Rightarrow> err + payment_create_request" where
  "parse_payment_request r =
     (let amount = money (pcr_amount r)
      in ebind (ensure (amount > 0 \<and> length (pcr_currency_code r) = 3
                        \<and> pcr_method r \<in> set payment_methods) ValueError)
           (\<lambda>_. Inr (r\<lparr>pcr_amount := amount\<rparr>)))"

definition parse_allocation :: "allocation_request \<Rightarrow> err + allocation_request" where
  "parse_allocation r =
     (let amount = money (alr_amount r)
      in ebind (ensure (amount > 0) ValueError) (\<lambda>_. Inr (r\<lparr>alr_amount := amount\<rparr>)))"

definition parse_credit_note_request ::
  "credit_note_create_request \<Rightarrow> err + credit_note_create_request" where
  "parse_credit_note_request r =
     (let amount = money (cncr_amount r)
      in ebind (ensure (amount > 0 \<and> length (cncr_currency_code r) = 3
                        \<and> cncr_reason r \<in> set credit_note_reasons) ValueError)
           (\<lambda>_. Inr (r\<lparr>cncr_amount := amount\<rparr>)))"

section \<open>InvoiceService\<close>

definition compute_line :: "invoice_line_request \<Rightarrow> rat \<times> rat \<times> rat" where
  "compute_line line =
     (let line_total = money (ilr_qty line * ilr_unit_price line);
          tax_amount = money (line_total * ilr_tax_rate line)
      in (line_total, tax_amount, money (line_total + tax_amount)))"

definition create_invoice_line ::
  "uuid \<Rightarrow> invoice_line_request \<Rightarrow> rat \<Rightarrow> rat \<Rightarrow> 'a receivables_scheme \<Rightarrow> 'a receivables_scheme" where
  "create_invoice_line invoice_id line line_total tax_amount s =
     s\<lparr>invoice_lines := invoice_lines s @
         [\<lparr>il_invoice_id = invoice_id, il_item_id = ilr_item_id line, il_qty = qty (ilr_qty line),
           il_unit_price = money (ilr_unit_price line), il_line_total = money line_total,
           il_tax_rate = money (ilr_tax_rate line), il_tax_amount = money tax_amount\<rparr>]\<rparr>"

primrec invoice_create_lines ::
  "uuid \<Rightarrow> invoice_line_request list \<Rightarrow> rat \<times> rat \<times> rat \<times> 'a receivables_scheme
     \<Rightarrow> rat \<times> rat \<times> rat \<times> 'a receivables_scheme" where
  "invoice_create_lines invoice_id [] acc = acc"
| "invoice_create_lines invoice_id (line # ls) acc =
     (let (subtotal, tax_total, gross_total, s) = acc;
          (line_total, tax_amount, line_gross) = compute_line line
      in invoice_create_lines invoice_id ls
           (subtotal + line_total, tax_total + tax_amount, gross_total + line_gross,
            create_invoice_line invoice_id line line_total tax_amount s))"

definition invoice_create ::
  "invoice_create_request \<Rightarrow> 'a receivables_scheme \<Rightarrow> err + uuid \<times> 'a receivables_scheme" where
  "invoice_create request s =
     ebind (from_opt NotFoundError (get_contact (icr_customer_id request) s)) (\<lambda>customer.
     let invoice_no = generate_invoice_no s;
         (i, s1) = fresh_id s
     in ebind (ensure (invoice_no \<notin> inv_no ` set (invoices s1))
                (IntegrityError ''uq_sales_invoices_invoice_no'')) (\<lambda>_.
     let s2 = add_invoice
           \<lparr>inv_id = i, inv_no = invoice_no, inv_customer_id = icr_customer_id request,
            inv_posting_date = icr_posting_date request, inv_due_date = icr_due_date request,
            inv_currency_code = icr_currency_code request, inv_subtotal = money_zero,
            inv_tax_total = money_zero, inv_total = money_zero, inv_status = INV_DRAFT,
            inv_je_id = None, inv_created_year = year_of (today s1)\<rparr> s1;
         (subtotal, tax_total, gross_total, s3) =
           invoice_create_lines i (icr_lines request) (money_zero, money_zero, money_zero, s2)
     in Inr (i, upd_invoice i (\<lambda>r. r\<lparr>inv_subtotal := money subtotal,
                   inv_tax_total := money tax_total, inv_total := money gross_total\<rparr>) s3)))"

definition invoice_issue ::
  "uuid \<Rightarrow> uuid \<Rightarrow> 'a receivables_scheme \<Rightarrow> err + 'a receivables_scheme" where
  "invoice_issue invoice_id actor_id s =
     ebind (from_opt NotFoundError (get_invoice invoice_id s)) (\<lambda>invoice.
     ebind (ensure (inv_status invoice = INV_DRAFT) ConflictError) (\<lambda>_.
     emit_event_async
       (InvoiceCreated (inv_id invoice) (inv_total invoice) (inv_posting_date invoice)
          (Some actor_id) (inv_customer_id invoice))
       (upd_invoice invoice_id (\<lambda>r. r\<lparr>inv_status := INV_ISSUED\<rparr>) s)))"

definition invoice_void ::
  "uuid \<Rightarrow> uuid \<Rightarrow> 'a receivables_scheme \<Rightarrow> err + 'a receivables_scheme" where
  "invoice_void invoice_id actor_id s =
     ebind (from_opt NotFoundError (get_invoice invoice_id s)) (\<lambda>invoice.
     ebind (ensure (inv_status invoice = INV_DRAFT \<or> inv_status invoice = INV_ISSUED) ConflictError) (\<lambda>_.
     let s1 = upd_invoice invoice_id (\<lambda>r. r\<lparr>inv_status := INV_VOID\<rparr>) s
     in case inv_je_id invoice of
          None \<Rightarrow> Inr s1
        | Some je \<Rightarrow> emit_event_async
            (InvoiceVoided (inv_id invoice) je (inv_total invoice) (Some actor_id)) s1))"

definition days_overdue :: "date \<Rightarrow> date \<Rightarrow> int" where
  "days_overdue on due_date = int on - int due_date"

definition in_bucket :: "int \<Rightarrow> int option \<Rightarrow> int \<Rightarrow> bool" where
  "in_bucket min_days max_days d =
     (case max_days of None \<Rightarrow> d \<ge> min_days | Some m \<Rightarrow> min_days \<le> d \<and> d \<le> m)"

definition get_ageing ::
  "uuid option \<Rightarrow> 'a receivables_scheme \<Rightarrow> (string \<times> nat \<times> rat) list \<times> rat" where
  "get_ageing customer_id s =
     (let outstanding = list_outstanding customer_id s;
          buckets = map (\<lambda>(label, min_days, max_days).
            let bucket_invoices =
                  filter (\<lambda>inv. in_bucket min_days max_days (days_overdue (today s) (inv_due_date inv)))
                    outstanding
            in (label, length bucket_invoices, money_sum (map inv_total bucket_invoices))) ageing_buckets
      in (buckets, money (sum_outstanding customer_id s)))"

section \<open>PaymentService\<close>

definition payment_create ::
  "payment_create_request \<Rightarrow> 'a receivables_scheme \<Rightarrow> err + uuid \<times> 'a receivables_scheme" where
  "payment_create request s =
     ebind (from_opt NotFoundError (get_contact (pcr_customer_id request) s)) (\<lambda>customer.
     ebind (ensure (pcr_method request \<in> set payment_methods) ValueError) (\<lambda>_.
     let payment_no = generate_payment_no s;
         (i, s1) = fresh_id s
     in ebind (ensure (payment_no \<notin> cp_no ` set (customer_payments s1))
                (IntegrityError ''uq_customer_payments_payment_no'')) (\<lambda>_.
     Inr (i, add_payment
       \<lparr>cp_id = i, cp_no = payment_no, cp_customer_id = pcr_customer_id request,
        cp_payment_date = pcr_payment_date request, cp_amount = money (pcr_amount request),
        cp_currency_code = pcr_currency_code request, cp_method = pcr_method request,
        cp_je_id = None, cp_status = PMT_UNCLEARED, cp_created_year = year_of (today s1)\<rparr> s1))))"

definition create_allocation ::
  "uuid \<Rightarrow> uuid \<Rightarrow> rat \<Rightarrow> 'a receivables_scheme \<Rightarrow> err + 'a receivables_scheme" where
  "create_allocation payment_id invoice_id amount s =
     ebind (ensure (\<forall>a\<in>set (allocations s). \<not> (al_payment_id a = payment_id \<and> al_invoice_id a = invoice_id))
              (IntegrityError ''uq_payment_allocations'')) (\<lambda>_.
     Inr (s\<lparr>allocations := allocations s @
       [\<lparr>al_payment_id = payment_id, al_invoice_id = invoice_id, al_amount = money amount\<rparr>]\<rparr>))"

text \<open>One turn of the loop of \<open>allocate\<close>, with its running total.\<close>

definition alloc_step ::
  "uuid \<Rightarrow> rat \<Rightarrow> allocation_request \<Rightarrow> rat \<times> 'a receivables_scheme
     \<Rightarrow> err + rat \<times> 'a receivables_scheme" where
  "alloc_step payment_id payment_amount req acc =
     (let (total_allocated, s) = acc;
          new_total = total_allocated + alr_amount req
      in ebind (ensure (\<not> new_total > payment_amount) ConflictError) (\<lambda>_.
         ebind (from_opt NotFoundError (get_invoice (alr_invoice_id req) s)) (\<lambda>invoice.
         ebind (ensure (inv_status invoice = INV_ISSUED \<or> inv_status invoice = INV_OVERDUE
                        \<or> inv_status invoice = INV_PAID) ConflictError) (\<lambda>_.
         ebind (create_allocation payment_id (alr_invoice_id req) (alr_amount req) s) (\<lambda>s1.
         Inr (total_allocated + alr_amount req,
              if sum_allocated (alr_invoice_id req) s1 \<ge> inv_total invoice
              then upd_invoice (alr_invoice_id req) (\<lambda>r. r\<lparr>inv_status := INV_PAID\<rparr>) s1
              else s1))))))"

definition allocate ::
  "uuid \<Rightarrow> allocation_request list \<Rightarrow> 'a receivables_scheme \<Rightarrow> err + 'a receivables_scheme" where
  "allocate payment_id requests s =
     ebind (from_opt NotFoundError (get_payment payment_id s)) (\<lambda>payment.
     ebind (ensure (cp_status payment \<noteq> PMT_VOID) ConflictError) (\<lambda>_.
     ebind (foldE (alloc_step payment_id (cp_amount payment)) requests
              (sum_allocated_for_payment payment_id s, s)) (\<lambda>(total_allocated, s1).
     Inr (if sum_allocated_for_payment payment_id s1 \<ge> cp_amount payment
          then upd_payment payment_id (\<lambda>r. r\<lparr>cp_status := PMT_CLEARED\<rparr>) s1
          else s1))))"

definition payment_reconcile ::
  "uuid \<Rightarrow> uuid \<Rightarrow> 'a receivables_scheme \<Rightarrow> err + 'a receivables_scheme" where
  "payment_reconcile payment_id actor_id s =
     ebind (from_opt NotFoundError (get_payment payment_id s)) (\<lambda>payment.
     ebind (ensure (cp_status payment = PMT_UNCLEARED) ConflictError) (\<lambda>_.
     ebind (emit_event_async (PaymentReconciled (cp_id payment) (cp_amount payment)
              (cp_payment_date payment) (Some actor_id)) s) (\<lambda>s1.
     Inr (upd_payment payment_id (\<lambda>r. r\<lparr>cp_status := PMT_CLEARED\<rparr>) s1))))"

section \<open>CreditNoteService\<close>

definition credit_note_create ::
  "credit_note_create_request \<Rightarrow> 'a receivables_scheme \<Rightarrow> err + uuid \<times> 'a receivables_scheme" where
  "credit_note_create request s =
     ebind (from_opt NotFoundError (get_contact (cncr_customer_id request) s)) (\<lambda>customer.
     ebind (case cncr_invoice_id request of
              None \<Rightarrow> Inr ()
            | Some invoice_id \<Rightarrow>
                ebind (from_opt NotFoundError (get_invoice invoice_id s)) (\<lambda>invoice.
                ensure (inv_customer_id invoice = cncr_customer_id request) ConflictError)) (\<lambda>_.
     let credit_note_no = generate_credit_note_no s;
         (i, s1) = fresh_id s
     in ebind (ensure (credit_note_no \<notin> cn_no ` set (credit_notes s1))
                (IntegrityError ''uq_credit_notes_credit_note_no'')) (\<lambda>_.
     Inr (i, add_credit_note
       \<lparr>cn_id = i, cn_no = credit_note_no, cn_customer_id = cncr_customer_id request,
        cn_invoice_id = cncr_invoice_id request, cn_date = cncr_date request,
        cn_amount = money (cncr_amount request), cn_reason = cncr_reason request,
        cn_currency_code = cncr_currency_code request, cn_je_id = None, cn_status = CN_DRAFT,
        cn_created_year = year_of (today s1)\<rparr> s1))))"

definition credit_note_issue ::
  "uuid \<Rightarrow> uuid \<Rightarrow> 'a receivables_scheme \<Rightarrow> err + 'a receivables_scheme" where
  "credit_note_issue note_id actor_id s =
     ebind (from_opt NotFoundError (get_credit_note note_id s)) (\<lambda>note.
     ebind (ensure (cn_status note = CN_DRAFT) ConflictError) (\<lambda>_.
     ebind (emit_event_async (CreditNoteIssued (cn_id note) (cn_amount note) (cn_date note)
              (Some actor_id)) s) (\<lambda>s1.
     Inr (upd_credit_note note_id (\<lambda>r. r\<lparr>cn_status := CN_ISSUED\<rparr>) s1))))"

section \<open>Credit control, summary, sweep\<close>

text \<open>
  \<open>getattr(contact, "credit_limit", None)\<close> on the ORM object: the class \<open>Contact\<close> maps no such
  column, so the default is what it returns, whatever the table holds.
\<close>

definition orm_credit_limit :: "contact \<Rightarrow> rat option" where
  "orm_credit_limit c = None"

definition check_credit_limit :: "uuid \<Rightarrow> rat \<Rightarrow> 'a receivables_scheme \<Rightarrow> err + bool" where
  "check_credit_limit customer_id amount s =
     ebind (from_opt NotFoundError (get_contact customer_id s)) (\<lambda>contact.
     case orm_credit_limit contact of
       None \<Rightarrow> Inr True
     | Some credit_limit \<Rightarrow>
         if credit_limit \<le> 0 then Inr True
         else let outstanding = sum_outstanding (Some customer_id) s;
                  credit_notes_total = sum_list (map cn_amount
                    (filter (\<lambda>n. cn_customer_id n = customer_id \<and> cn_status n = CN_ISSUED)
                      (credit_notes s)));
                  net_ar = outstanding - credit_notes_total;
                  available = credit_limit - net_ar
              in Inr (available \<ge> amount))"

definition get_contact_erp_summary ::
  "uuid \<Rightarrow> 'a receivables_scheme \<Rightarrow> rat \<times> rat \<times> sales_invoice list" where
  "get_contact_erp_summary contact_id s =
     (let outstanding = sum_outstanding (Some contact_id) s;
          last_invoices = list_by_customer contact_id 5 0 s;
          total_revenue = sum_list (map inv_total (filter (\<lambda>inv. inv_customer_id inv = contact_id
            \<and> (inv_status inv = INV_ISSUED \<or> inv_status inv = INV_PAID \<or> inv_status inv = INV_OVERDUE))
            (invoices s)))
      in (money outstanding, money total_revenue, last_invoices))"

definition recompute_ageing :: "'a receivables_scheme \<Rightarrow> nat \<times> 'a receivables_scheme" where
  "recompute_ageing s =
     (let overdue = (\<lambda>inv. inv_status inv = INV_ISSUED \<and> inv_due_date inv < today s)
      in (length (filter overdue (invoices s)),
          s\<lparr>invoices := map (\<lambda>inv. if overdue inv then inv\<lparr>inv_status := INV_OVERDUE\<rparr> else inv)
             (invoices s)\<rparr>))"

lemmas receivables_evals = get_invoice_def upd_invoice_def add_invoice_def get_payment_def
  upd_payment_def add_payment_def get_credit_note_def upd_credit_note_def add_credit_note_def
  is_outstanding_def list_outstanding_def sum_outstanding_def list_by_customer_def sum_allocated_def
  sum_allocated_for_payment_def generate_invoice_no_def generate_payment_no_def
  generate_credit_note_no_def compute_line_def create_invoice_line_def invoice_create_def
  invoice_issue_def invoice_void_def days_overdue_def in_bucket_def get_ageing_def payment_create_def
  create_allocation_def alloc_step_def allocate_def payment_reconcile_def credit_note_create_def
  credit_note_issue_def check_credit_limit_def recompute_ageing_def payment_methods_def
  ageing_buckets_def

declare receivables_evals [evals]

end
