(* ===== verification/ReceivablesProps.thy ===== *)
theory ReceivablesProps
  imports Receivables
begin

text \<open>
  The properties of accounts receivable: the repositories as keyed tables, issuing as draft gates,
  allocation as bookings against the payment's amount, the life cycle of an invoice, and what
  each operation does and does not write to the ledger.
\<close>

section \<open>The interfaces\<close>

interpretation invoice_table: keyed_table get_invoice add_invoice upd_invoice inv_id
  by unfold_locales
    (auto simp: get_invoice_def add_invoice_def upd_invoice_def get_by_append get_by_upd_by
      dest: get_by_Some split: option.splits)

interpretation payment_table: keyed_table get_payment add_payment upd_payment cp_id
  by unfold_locales
    (auto simp: get_payment_def add_payment_def upd_payment_def get_by_append get_by_upd_by
      dest: get_by_Some split: option.splits)

interpretation credit_note_table: keyed_table get_credit_note add_credit_note upd_credit_note cn_id
  by unfold_locales
    (auto simp: get_credit_note_def add_credit_note_def upd_credit_note_def get_by_append get_by_upd_by
      dest: get_by_Some split: option.splits)

lemma ledger_more_receivables:
  assumes "ledger.more s' = ledger.more s"
  shows "invoices s' = invoices s \<and> invoice_lines s' = invoice_lines s
    \<and> customer_payments s' = customer_payments s \<and> allocations s' = allocations s
    \<and> credit_notes s' = credit_notes s \<and> receivables.more s' = receivables.more s"
  using assms by (cases s; cases s') simp

lemma emit_receivables:
  assumes "emit_event_async ev s = Inr s'"
  shows "invoices s' = invoices s" "invoice_lines s' = invoice_lines s"
    "customer_payments s' = customer_payments s" "allocations s' = allocations s"
    "credit_notes s' = credit_notes s" "receivables.more s' = receivables.more s"
  using ledger_more_receivables [of s' s] emit_frame [OF assms] by simp_all

lemma upd_frames [simp]:
  "entries (upd_invoice i f s) = entries s" "journal_lines (upd_invoice i f s) = journal_lines s"
  "accounts (upd_invoice i f s) = accounts s" "next_id (upd_invoice i f s) = next_id s"
  "periods (upd_invoice i f s) = periods s" "sequences (upd_invoice i f s) = sequences s"
  "allocations (upd_invoice i f s) = allocations s"
  "customer_payments (upd_invoice i f s) = customer_payments s"
  "credit_notes (upd_invoice i f s) = credit_notes s" "today (upd_invoice i f s) = today s"
  "entries (upd_payment i g s) = entries s" "journal_lines (upd_payment i g s) = journal_lines s"
  "accounts (upd_payment i g s) = accounts s" "next_id (upd_payment i g s) = next_id s"
  "allocations (upd_payment i g s) = allocations s" "invoices (upd_payment i g s) = invoices s"
  "entries (upd_credit_note i h s) = entries s" "journal_lines (upd_credit_note i h s) = journal_lines s"
  "accounts (upd_credit_note i h s) = accounts s" "next_id (upd_credit_note i h s) = next_id s"
  "invoices (upd_credit_note i h s) = invoices s"
  by (simp_all add: upd_invoice_def upd_payment_def upd_credit_note_def)

definition invoice_status_of :: "uuid \<Rightarrow> 'a receivables_scheme \<Rightarrow> invoice_status option" where
  "invoice_status_of i s = map_option inv_status (get_invoice i s)"

definition credit_note_status_of :: "uuid \<Rightarrow> 'a receivables_scheme \<Rightarrow> credit_note_status option" where
  "credit_note_status_of i s = map_option cn_status (get_credit_note i s)"

lemma get_invoice_cong: "invoices s' = invoices s \<Longrightarrow> get_invoice i s' = get_invoice i s"
  by (simp add: get_invoice_def)

lemma invoice_issue_Inr:
  assumes "invoice_issue i a s = Inr s'"
  obtains r where "get_invoice i s = Some r" "inv_status r = INV_DRAFT" "inv_id r = i"
    "emit_event_async (InvoiceCreated i (inv_total r) (inv_posting_date r) (Some a) (inv_customer_id r))
       (upd_invoice i (\<lambda>r. r\<lparr>inv_status := INV_ISSUED\<rparr>) s) = Inr s'"
  using assms by (auto simp: invoice_issue_def ok_simps dest: invoice_table.lookup_key)

lemma invoice_issue_invoices:
  assumes "invoice_issue i a s = Inr s'"
  shows "get_invoice j s' = (if j = i then map_option (\<lambda>r. r\<lparr>inv_status := INV_ISSUED\<rparr>) (get_invoice j s)
      else get_invoice j s)"
proof -
  from assms obtain r where "get_invoice i s = Some r" "inv_status r = INV_DRAFT" "inv_id r = i"
    and e: "emit_event_async (InvoiceCreated i (inv_total r) (inv_posting_date r) (Some a)
      (inv_customer_id r)) (upd_invoice i (\<lambda>r. r\<lparr>inv_status := INV_ISSUED\<rparr>) s) = Inr s'"
    by (rule invoice_issue_Inr)
  from emit_receivables(1) [OF e] show ?thesis
    using get_invoice_cong [of s' "upd_invoice i (\<lambda>r. r\<lparr>inv_status := INV_ISSUED\<rparr>) s"]
    by (simp add: invoice_table.lookup_update)
qed

interpretation invoice_gate: draft_gate "invoice_issue i a" "invoice_status_of i" INV_DRAFT for i a
proof
  fix s s'
  assume r: "invoice_issue i a s = Inr s'"
  show "invoice_status_of i s = Some INV_DRAFT"
    using r by (auto simp: invoice_status_of_def elim: invoice_issue_Inr)
  show "invoice_status_of i s' \<noteq> Some INV_DRAFT"
    by (auto simp: invoice_status_of_def invoice_issue_invoices [OF r])
qed

lemma credit_note_issue_Inr:
  assumes "credit_note_issue i a s = Inr s'"
  shows "\<exists>n. get_credit_note i s = Some n \<and> cn_status n = CN_DRAFT
    \<and> s' = upd_credit_note i (\<lambda>r. r\<lparr>cn_status := CN_ISSUED\<rparr>) s"
  using assms by (auto simp: credit_note_issue_def ok_simps)

interpretation credit_note_gate: draft_gate "credit_note_issue i a" "credit_note_status_of i" CN_DRAFT
  for i a
  by unfold_locales
    (auto simp: credit_note_status_of_def credit_note_table.lookup_update dest!: credit_note_issue_Inr)

text \<open>The loop of \<open>allocate\<close> books the requested amounts against the amount of the payment.\<close>

interpretation payment_book: allocation_book "alloc_step i amt" fst "\<lambda>_. amt" alr_amount for i amt
  by unfold_locales (auto simp: alloc_step_def ok_simps split: prod.splits)

section \<open>Creating an invoice\<close>

lemma invoice_create_lines_eq:
  "invoice_create_lines i ls (a, b, c, s) =
     (a + sum_list (map (\<lambda>l. fst (compute_line l)) ls),
      b + sum_list (map (\<lambda>l. fst (snd (compute_line l))) ls),
      c + sum_list (map (\<lambda>l. snd (snd (compute_line l))) ls),
      s\<lparr>invoice_lines := invoice_lines s @ map (\<lambda>l. \<lparr>il_invoice_id = i, il_item_id = ilr_item_id l,
        il_qty = qty (ilr_qty l), il_unit_price = money (ilr_unit_price l),
        il_line_total = money (fst (compute_line l)), il_tax_rate = money (ilr_tax_rate l),
        il_tax_amount = money (fst (snd (compute_line l)))\<rparr>) ls\<rparr>)"
proof (induction ls arbitrary: a b c s)
  case (Cons l ls)
  then show ?case
    by (simp add: create_invoice_line_def add.assoc split: prod.splits)
qed simp

lemma compute_line_parts:
  "money (fst (compute_line l)) = fst (compute_line l)"
  "money (fst (snd (compute_line l))) = fst (snd (compute_line l))"
  "snd (snd (compute_line l)) = fst (compute_line l) + fst (snd (compute_line l))"
  by (simp_all add: compute_line_def Let_def money_is_money quantized_add)

lemma quantized_compute_line [simp]:
  "is_money (fst (compute_line l))" "is_money (fst (snd (compute_line l)))"
  by (simp_all add: compute_line_def Let_def)

text \<open>A new invoice is a draft without a journal whose lines are those of the request, each with
  quantity times price rounded to the money scale; its subtotal is the sum of its line totals,
  its tax the sum of the line taxes, and its total exactly their sum. Nothing is posted.\<close>

theorem invoice_create_totals:
  assumes "invoice_create req s = Inr (i, s')"
    and "get_invoice (next_id s) s = None" and "lines_of_invoice (next_id s) s = []"
  shows "\<exists>r. get_invoice i s' = Some r \<and> inv_status r = INV_DRAFT \<and> inv_je_id r = None
    \<and> inv_customer_id r = icr_customer_id req
    \<and> map il_line_total (lines_of_invoice i s')
        = map (\<lambda>l. money (ilr_qty l * ilr_unit_price l)) (icr_lines req)
    \<and> inv_subtotal r = sum_list (map il_line_total (lines_of_invoice i s'))
    \<and> inv_tax_total r = sum_list (map il_tax_amount (lines_of_invoice i s'))
    \<and> inv_total r = inv_subtotal r + inv_tax_total r \<and> is_money (inv_total r)
    \<and> entries s' = entries s \<and> journal_lines s' = journal_lines s"
proof -
  let ?ls = "icr_lines req"
  let ?A = "sum_list (map (\<lambda>l. fst (compute_line l)) ?ls)"
  let ?B = "sum_list (map (\<lambda>l. fst (snd (compute_line l))) ?ls)"
  have q: "is_money ?A" "is_money ?B" "is_money (?A + ?B)"
    by (auto intro!: quantized_sum_list quantized_add)
  have sums: "money ?A = ?A" "money ?B = ?B" "money (?A + ?B) = ?A + ?B"
    using q by (simp_all add: money_is_money)
  have none: "get_by inv_id (next_id s) (invoices s) = None"
    using assms(2) by (simp add: get_invoice_def)
  show ?thesis
    using assms(1,3) none
    by (auto simp: invoice_create_def ok_simps fresh_id_def Let_def invoice_create_lines_eq add_invoice_def
        upd_invoice_def get_invoice_def get_by_append get_by_upd_by lines_of_invoice_def filter_map o_def
        compute_line_parts sum_list_addf sums q)
      (simp_all add: compute_line_def Let_def)
qed

section \<open>Sample state\<close>

definition sample_invoice :: "uuid \<Rightarrow> invoice_status \<Rightarrow> rat \<Rightarrow> date \<Rightarrow> sales_invoice" where
  "sample_invoice i st x due = \<lparr>inv_id = i, inv_no = doc_no ''INV'' 2024 (i - 100), inv_customer_id = 60,
     inv_posting_date = 738955, inv_due_date = due, inv_currency_code = ''AED'', inv_subtotal = x,
     inv_tax_total = 0, inv_total = x, inv_status = st, inv_je_id = None, inv_created_year = 2024\<rparr>"

definition sample_payment :: "uuid \<Rightarrow> rat \<Rightarrow> customer_payment" where
  "sample_payment i x = \<lparr>cp_id = i, cp_no = doc_no ''PMT'' 2024 (i - 110), cp_customer_id = 60,
     cp_payment_date = 738980, cp_amount = x, cp_currency_code = ''AED'', cp_method = ''cash'',
     cp_je_id = None, cp_status = PMT_UNCLEARED, cp_created_year = 2024\<rparr>"

definition ar_state :: "sales_invoice list \<Rightarrow> customer_payment list \<Rightarrow> receivables" where
  "ar_state is ps = \<lparr>next_id = 200, today = today sample_books, contacts = contacts sample_books,
     sequences = Map.empty, audit_log = [], accounts = accounts sample_books,
     periods = periods sample_books, entries = [], journal_lines = [], fy_start_month = Some 1,
     invoices = is, invoice_lines = [], customer_payments = ps, allocations = [],
     credit_notes = [\<lparr>cn_id = 120, cn_no = ''CN-2024-00001'', cn_customer_id = 60, cn_invoice_id = None,
       cn_date = 738990, cn_amount = 25, cn_reason = ''other'', cn_currency_code = ''AED'',
       cn_je_id = None, cn_status = CN_DRAFT, cn_created_year = 2024\<rparr>]\<rparr>"

definition sample_ar :: receivables where
  "sample_ar = ar_state
     [sample_invoice 101 INV_DRAFT 100 738985, sample_invoice 102 INV_ISSUED 100 738985,
      sample_invoice 103 INV_ISSUED 40 739100] [sample_payment 111 100, sample_payment 112 100]"

declare sample_invoice_def [evals] sample_payment_def [evals] ar_state_def [evals] sample_ar_def [evals]

theorem invoice_create_totals_witness:
  "\<exists>i s' r. invoice_create \<lparr>icr_customer_id = 60, icr_posting_date = 738955, icr_due_date = 738985,
      icr_currency_code = ''AED'',
      icr_lines = [\<lparr>ilr_item_id = None, ilr_qty = 3, ilr_unit_price = 10, ilr_tax_rate = 1 / 20\<rparr>]\<rparr>
      (ar_state [] []) = Inr (i, s') \<and> get_invoice i s' = Some r
    \<and> inv_total r = inv_subtotal r + inv_tax_total r"
  (is "\<exists>i s' r. invoice_create ?req ?s = _ \<and> _")
proof -
  have "\<not> isl (invoice_create ?req ?s)" by (simp add: evals cong: ebind_weak_cong)
  then obtain i s' where "invoice_create ?req ?s = Inr (i, s')"
    by (cases "invoice_create ?req ?s") auto
  moreover have "get_invoice (next_id ?s) ?s = None" "lines_of_invoice (next_id ?s) ?s = []"
    by (simp_all add: ar_state_def get_invoice_def lines_of_invoice_def)
  ultimately show ?thesis using invoice_create_totals by blast
qed

section \<open>The life cycle of an invoice\<close>

inductive invoice_next :: "invoice_status \<Rightarrow> invoice_status \<Rightarrow> bool" where
  issue: "invoice_next INV_DRAFT INV_ISSUED"
| void_draft: "invoice_next INV_DRAFT INV_VOID"
| void_issued: "invoice_next INV_ISSUED INV_VOID"
| overdue: "invoice_next INV_ISSUED INV_OVERDUE"
| paid: "invoice_next INV_ISSUED INV_PAID"
| paid_late: "invoice_next INV_OVERDUE INV_PAID"
| paid_again: "invoice_next INV_PAID INV_PAID"

lemma next_to_void:
  "invoice_next\<^sup>*\<^sup>* INV_DRAFT INV_VOID" "invoice_next\<^sup>*\<^sup>* INV_ISSUED INV_VOID"
  by (rule r_into_rtranclp, rule invoice_next.intros)+

inductive_cases invoice_next_from_void: "invoice_next INV_VOID b"
inductive_cases invoice_next_from_paid: "invoice_next INV_PAID b"
inductive_cases invoice_next_to_draft: "invoice_next a INV_DRAFT"

text \<open>The operations of accounts receivable that can run on a committed state.\<close>

inductive receivables_step :: "'a receivables_scheme \<Rightarrow> 'a receivables_scheme \<Rightarrow> bool" where
  create: "invoice_create req s = Inr (i, s') \<Longrightarrow> receivables_step s s'"
| issue: "invoice_issue i a s = Inr s' \<Longrightarrow> receivables_step s s'"
| void: "invoice_void i a s = Inr s' \<Longrightarrow> receivables_step s s'"
| payment: "payment_create preq s = Inr (i, s') \<Longrightarrow> receivables_step s s'"
| allocate: "allocate i reqs s = Inr s' \<Longrightarrow> receivables_step s s'"
| reconcile: "payment_reconcile i a s = Inr s' \<Longrightarrow> receivables_step s s'"
| credit: "credit_note_create creq s = Inr (i, s') \<Longrightarrow> receivables_step s s'"
| credit_issue: "credit_note_issue i a s = Inr s' \<Longrightarrow> receivables_step s s'"
| sweep: "recompute_ageing s = (n, s') \<Longrightarrow> receivables_step s s'"

abbreviation invoice_moves :: "uuid \<Rightarrow> 'a receivables_scheme \<Rightarrow> 'a receivables_scheme \<Rightarrow> bool" where
  "invoice_moves j s s' \<equiv> (\<forall>a. invoice_status_of j s = Some a \<longrightarrow>
     (\<exists>b. invoice_status_of j s' = Some b \<and> invoice_next\<^sup>*\<^sup>* a b))"

lemma invoice_moves_trans: "invoice_moves j s t \<Longrightarrow> invoice_moves j t u \<Longrightarrow> invoice_moves j s u"
  by (meson rtranclp_trans)

lemma invoice_moves_same: "invoices s' = invoices s \<Longrightarrow> invoice_moves j s s'"
  by (auto simp: invoice_status_of_def get_invoice_def)

lemma invoice_moves_upd:
  assumes "get_invoice i s = Some r" "invoice_next\<^sup>*\<^sup>* (inv_status r) st"
    and "\<And>r. inv_id (f r) = inv_id r" "\<And>r. inv_status (f r) = st"
  shows "invoice_moves j s (upd_invoice i f s)"
  using assms by (auto simp: invoice_status_of_def invoice_table.lookup_update)

lemma invoice_void_invoices:
  assumes "invoice_void i a s = Inr s'"
  obtains r where "get_invoice i s = Some r" "inv_status r = INV_DRAFT \<or> inv_status r = INV_ISSUED"
    "s' = upd_invoice i (\<lambda>r. r\<lparr>inv_status := INV_VOID\<rparr>) s"
  using assms by (auto simp: invoice_void_def ok_simps Let_def split: option.splits)

lemma alloc_step_Inr:
  assumes "alloc_step i amt req (tot, s) = Inr (tot', s')"
  obtains r s1 where "get_invoice (alr_invoice_id req) s = Some r" "tot + alr_amount req \<le> amt"
    "inv_status r \<in> {INV_ISSUED, INV_OVERDUE, INV_PAID}" "tot' = tot + alr_amount req"
    "s1 = s\<lparr>allocations := allocations s @ [\<lparr>al_payment_id = i, al_invoice_id = alr_invoice_id req,
        al_amount = money (alr_amount req)\<rparr>]\<rparr>"
    "\<forall>a\<in>set (allocations s). \<not> (al_payment_id a = i \<and> al_invoice_id a = alr_invoice_id req)"
    "s' = (if sum_allocated (alr_invoice_id req) s1 \<ge> inv_total r
       then upd_invoice (alr_invoice_id req) (\<lambda>r. r\<lparr>inv_status := INV_PAID\<rparr>) s1 else s1)"
  using assms by (auto simp: alloc_step_def create_allocation_def ok_simps)

lemma get_invoice_allocations [simp]: "get_invoice j (s\<lparr>allocations := x\<rparr>) = get_invoice j s"
  by (simp add: get_invoice_def)

lemma alloc_step_moves:
  assumes "alloc_step i amt req (tot, s) = Inr (tot', s')"
  shows "invoice_moves j s s'"
proof -
  from assms obtain r s1 where g: "get_invoice (alr_invoice_id req) s = Some r"
    and st: "inv_status r \<in> {INV_ISSUED, INV_OVERDUE, INV_PAID}"
    and s1: "s1 = s\<lparr>allocations := allocations s @ [\<lparr>al_payment_id = i, al_invoice_id = alr_invoice_id req,
        al_amount = money (alr_amount req)\<rparr>]\<rparr>"
    and s': "s' = (if sum_allocated (alr_invoice_id req) s1 \<ge> inv_total r
       then upd_invoice (alr_invoice_id req) (\<lambda>r. r\<lparr>inv_status := INV_PAID\<rparr>) s1 else s1)"
    by (rule alloc_step_Inr) auto
  have "invoice_next (inv_status r) INV_PAID" using st by (auto intro: invoice_next.intros)
  then have "invoice_moves j s1 (upd_invoice (alr_invoice_id req) (\<lambda>r. r\<lparr>inv_status := INV_PAID\<rparr>) s1)"
    using g s1 by (intro invoice_moves_upd [where r = r]) auto
  moreover have "invoice_moves j s s1" using s1 by (intro invoice_moves_same) simp
  ultimately show ?thesis
    using s' by (cases "sum_allocated (alr_invoice_id req) s1 \<ge> inv_total r")
      (simp_all only: if_True if_False, meson rtranclp_trans)
qed

lemma foldE_alloc_moves:
  "foldE (alloc_step i amt) rs (tot, s) = Inr (tot', s') \<Longrightarrow> invoice_moves j s s'"
  by (rule foldE_inv [where P = "\<lambda>(t, u). invoice_moves j s u", of "alloc_step i amt" rs "(tot, s)" "(tot', s')", simplified])
    (auto dest!: alloc_step_moves [where j = j], meson rtranclp_trans)

lemma recompute_ageing_invoices:
  "invoices (snd (recompute_ageing s)) = map (\<lambda>i. if inv_status i = INV_ISSUED \<and> inv_due_date i < today s
     then i\<lparr>inv_status := INV_OVERDUE\<rparr> else i) (invoices s)"
  by (simp add: recompute_ageing_def Let_def)

lemma get_by_map: "(\<And>r. key (f r) = key r) \<Longrightarrow> get_by key k (map f rs) = map_option f (get_by key k rs)"
  by (induction rs) auto

lemma invoice_create_moves:
  assumes "invoice_create req s = Inr (i, s')"
  shows "invoice_moves j s s'"
  using assms
  by (auto simp: invoice_create_def ok_simps fresh_id_def Let_def invoice_create_lines_eq add_invoice_def
      upd_invoice_def get_invoice_def get_by_append get_by_upd_by invoice_status_of_def)

lemma allocate_Inr:
  assumes "allocate i reqs s = Inr s'"
  obtains p tot t where "get_payment i s = Some p" "cp_status p \<noteq> PMT_VOID"
    "foldE (alloc_step i (cp_amount p)) reqs (sum_allocated_for_payment i s, s) = Inr (tot, t)"
    "s' = (if sum_allocated_for_payment i t \<ge> cp_amount p
       then upd_payment i (\<lambda>r. r\<lparr>cp_status := PMT_CLEARED\<rparr>) t else t)"
  using assms by (auto simp: allocate_def ok_simps)

lemma receivables_step_moves: "receivables_step s s' \<Longrightarrow> invoice_moves j s s'"
proof (induction rule: receivables_step.induct)
  case (create req s i s')
  then show ?case by (rule invoice_create_moves)
next
  case (issue i a s s')
  have "invoice_next\<^sup>*\<^sup>* INV_DRAFT INV_ISSUED"
    by (rule r_into_rtranclp) (rule invoice_next.intros)
  with invoice_issue_invoices [OF issue] invoice_gate.run_needs_draft [OF issue] show ?case
    by (auto simp: invoice_status_of_def)
next
  case (void i a s s')
  then obtain r where "get_invoice i s = Some r" "inv_status r = INV_DRAFT \<or> inv_status r = INV_ISSUED"
    and s': "s' = upd_invoice i (\<lambda>r. r\<lparr>inv_status := INV_VOID\<rparr>) s"
    by (rule invoice_void_invoices)
  then show ?case
    unfolding s' by (intro invoice_moves_upd) (auto intro: next_to_void)
next
  case (payment preq s i s')
  then show ?case
    by (intro invoice_moves_same) (auto simp: payment_create_def ok_simps fresh_id_def Let_def add_payment_def)
next
  case (allocate i reqs s s')
  then obtain p tot t where "get_payment i s = Some p" "cp_status p \<noteq> PMT_VOID"
    and f: "foldE (alloc_step i (cp_amount p)) reqs (sum_allocated_for_payment i s, s) = Inr (tot, t)"
    and s': "s' = (if sum_allocated_for_payment i t \<ge> cp_amount p
       then upd_payment i (\<lambda>r. r\<lparr>cp_status := PMT_CLEARED\<rparr>) t else t)" by (rule allocate_Inr)
  from s' have s': "invoices s' = invoices t" by simp
  from foldE_alloc_moves [OF f] invoice_moves_same [OF s'] show ?case
    by (meson rtranclp_trans)
next
  case (reconcile i a s s')
  then show ?case
    by (intro invoice_moves_same) (auto simp: payment_reconcile_def ok_simps)
next
  case (credit creq s i s')
  then show ?case
    by (intro invoice_moves_same)
      (auto simp: credit_note_create_def ok_simps fresh_id_def Let_def add_credit_note_def)
next
  case (credit_issue i a s s')
  then show ?case
    by (intro invoice_moves_same) (auto dest!: credit_note_issue_Inr)
next
  case (sweep s n s')
  then have "get_invoice j s' = map_option (\<lambda>i. if inv_status i = INV_ISSUED \<and> inv_due_date i < today s
      then i\<lparr>inv_status := INV_OVERDUE\<rparr> else i) (get_invoice j s)"
    using recompute_ageing_invoices [of s] by (simp add: get_invoice_def get_by_map)
  moreover have "invoice_next\<^sup>*\<^sup>* INV_ISSUED INV_OVERDUE"
    by (rule r_into_rtranclp) (rule invoice_next.intros)
  ultimately show ?case
    by (cases "get_invoice j s") (simp_all add: invoice_status_of_def)
qed

lemma invoice_next_rtrancl:
  assumes "invoice_next\<^sup>*\<^sup>* a b"
  shows "(a = INV_VOID \<longrightarrow> b = INV_VOID) \<and> (a = INV_PAID \<longrightarrow> b = INV_PAID) \<and> (b = INV_DRAFT \<longrightarrow> a = INV_DRAFT)
    \<and> (b = INV_ISSUED \<longrightarrow> a \<in> {INV_DRAFT, INV_ISSUED})
    \<and> (b = INV_VOID \<longrightarrow> a \<in> {INV_DRAFT, INV_ISSUED, INV_VOID})"
  using assms
proof (induction rule: rtranclp_induct)
  case (step b c)
  from step.hyps(2) step.IH show ?case by (cases rule: invoice_next.cases) auto
qed simp



section \<open>Receivables and the ledger\<close>

text \<open>Issuing an invoice posts it: from a draft, with accounts 1100 and 4100 usable, a period open on
  the posting date and a total other than zero, issuing succeeds, the invoice is issued, and
  receivables (1100) grow and revenue (4100) is credited by exactly the total; no other
  balance changes.\<close>

theorem invoice_issue_posts:
  assumes wf: "ledger_wf s" and nb: "numbers_bounded s"
    and r: "get_invoice i s = Some r" "inv_status r = INV_DRAFT"
    and acc: "account_ready ''1100'' s a" "account_ready ''4100'' s b"
    and p: "get_open_period (inv_posting_date r) s = Inr (Some q)"
    and x: "is_money (inv_total r)" "inv_total r \<noteq> 0"
  shows "\<exists>s'. invoice_issue i actor s = Inr s' \<and> invoice_status_of i s' = Some INV_ISSUED
    \<and> account_net (acc_id a) s' = account_net (acc_id a) s + inv_total r
    \<and> account_net (acc_id b) s' = account_net (acc_id b) s - inv_total r
    \<and> (\<forall>c. c \<noteq> acc_id a \<longrightarrow> c \<noteq> acc_id b \<longrightarrow> account_net c s' = account_net c s)"
proof -
  let ?t = "upd_invoice i (\<lambda>r. r\<lparr>inv_status := INV_ISSUED\<rparr>) s"
  let ?ev = "InvoiceCreated i (inv_total r) (inv_posting_date r) (Some actor) (inv_customer_id r)"
  have id: "inv_id r = i" using r(1) by (rule invoice_table.lookup_key)
  have frame: "ledger_wf ?t" "numbers_bounded ?t" "account_ready ''1100'' ?t a" "account_ready ''4100'' ?t b"
    "get_open_period (ev_date ?ev) ?t = Inr (Some q)"
    using ledger_wf_frame [OF wf, of ?t] numbers_bounded_frame [OF nb, of ?t] acc p
    by (simp_all add: account_ready_def get_account_by_code_def get_open_period_def)
  have net: "account_net c ?t = account_net c s" for c by (rule account_net_frame) simp_all
  have amt: "bridge_amount ?ev = inv_total r" using x(1) by (simp add: money_is_money)
  have ne: "acc_id a \<noteq> acc_id b" using ready_distinct [OF wf acc] by simp
  from emit_posts [OF frame(1,2) _ frame(3,4,5)] x(2) amt
  obtain s' where e: "emit_event_async ?ev ?t = Inr s'"
    and n: "account_net (acc_id a) s' = account_net (acc_id a) ?t + inv_total r"
      "account_net (acc_id b) s' = account_net (acc_id b) ?t - inv_total r"
      "\<forall>c. c \<noteq> acc_id a \<longrightarrow> c \<noteq> acc_id b \<longrightarrow> account_net c s' = account_net c ?t"
    by auto
  then have s': "invoice_issue i actor s = Inr s'"
    using r id by (simp add: invoice_issue_def)
  moreover have "invoice_status_of i s' = Some INV_ISSUED"
    using invoice_issue_invoices [OF s'] r(1) by (simp add: invoice_status_of_def)
  ultimately show ?thesis using s' n net by auto
qed

theorem invoice_issue_posts_witness:
  "\<exists>s'. invoice_issue 101 7 sample_ar = Inr s' \<and> account_net 3 s' = 100 \<and> account_net 12 s' = - 100"
proof -
  have "ledger_wf sample_ar" "numbers_bounded sample_ar"
    "get_invoice 101 sample_ar = Some (sample_invoice 101 INV_DRAFT 100 738985)"
    "account_ready ''1100'' sample_ar (sample_account 3 ''1100'' ASSET True)"
    "account_ready ''4100'' sample_ar (sample_account 12 ''4100'' REVENUE False)"
    "get_open_period 738955 sample_ar = Inr (Some sample_period)"
    by (simp_all add: ledger_wf_def numbers_bounded_def account_ready_def evals)
  moreover have "account_net c sample_ar = 0" for c
    by (simp add: account_net_lines sample_ar_def ar_state_def)
  ultimately show ?thesis
    using invoice_issue_posts [of sample_ar 101 "sample_invoice 101 INV_DRAFT 100 738985"
        "sample_account 3 ''1100'' ASSET True" "sample_account 12 ''4100'' REVENUE False" sample_period 7]
    by (auto simp: sample_invoice_def sample_account_def)
qed

text \<open>
  Issuing does not wait for its journal: on a date with no open period a draft is issued all
  the same, and nothing is posted.\<close>

theorem invoice_issued_without_journal:
  assumes "get_invoice i s = Some r" and "inv_status r = INV_DRAFT"
    and "get_open_period (inv_posting_date r) s = Inr None"
  shows "\<exists>s'. invoice_issue i actor s = Inr s' \<and> invoice_status_of i s' = Some INV_ISSUED
    \<and> entries s' = entries s \<and> journal_lines s' = journal_lines s"
proof -
  let ?t = "upd_invoice i (\<lambda>r. r\<lparr>inv_status := INV_ISSUED\<rparr>) s"
  have "get_open_period (inv_posting_date r) ?t = Inr None"
    using assms(3) by (simp add: get_open_period_def)
  then have "bridge_post (inv_posting_date r) ls a st j ?t = Inl (PostingError ''period_not_open'')" for ls a st j
    by (simp add: bridge_post_def post_def)
  then have "emit_event_async (InvoiceCreated (inv_id r) (inv_total r) (inv_posting_date r) (Some actor)
      (inv_customer_id r)) ?t = Inr ?t"
    unfolding emit_event_async_def async_subscribers_def
    by (intro refused_handlers)
      (auto simp: on_invoice_created_def resolve_account_id_def from_opt_def ebind_def Let_def split: option.splits)
  then have "invoice_issue i actor s = Inr ?t"
    using assms by (simp add: invoice_issue_def)
  then show ?thesis
    using assms by (simp add: invoice_status_of_def invoice_table.lookup_update)
qed

theorem invoice_issued_without_journal_witness:
  "\<exists>s'. invoice_issue 101 7 (sample_ar\<lparr>periods := []\<rparr>) = Inr s' \<and> entries s' = []"
proof -
  have "get_invoice 101 (sample_ar\<lparr>periods := []\<rparr>) = Some (sample_invoice 101 INV_DRAFT 100 738985)"
    "get_open_period 738955 (sample_ar\<lparr>periods := []\<rparr>) = Inr None" "entries sample_ar = []"
    by (simp_all add: evals)
  with invoice_issued_without_journal [of 101 "sample_ar\<lparr>periods := []\<rparr>"
      "sample_invoice 101 INV_DRAFT 100 738985" 7]
  show ?thesis by (auto simp: sample_invoice_def)
qed

text \<open>
  Voiding an invoice, reconciling or allocating a customer payment and issuing a credit note
  never write to the ledger: whatever the document's state and amount, the entries and
  lines after a successful call are those before it. (The docstrings promise a reversal, the
  payment's journal and the credit note's journal; no handler is subscribed to their events.)\<close>

theorem receivables_post_nothing:
  "(invoice_void i a s = Inr s' \<or> payment_reconcile i a s = Inr s' \<or> credit_note_issue i a s = Inr s'
      \<or> allocate i reqs s = Inr s')
   \<longrightarrow> entries s' = entries s \<and> journal_lines s' = journal_lines s"
proof -
  have step: "entries (snd y) = entries (snd x) \<and> journal_lines (snd y) = journal_lines (snd x)"
    if "alloc_step i amt r x = Inr y" for i amt r and x y :: "rat \<times> 'a receivables_scheme"
    using that by (cases x; cases y) (auto elim!: alloc_step_Inr)
  have "entries (snd y) = entries (snd x) \<and> journal_lines (snd y) = journal_lines (snd x)"
    if "foldE (alloc_step i amt) rs x = Inr y" for i amt rs and x y :: "rat \<times> 'a receivables_scheme"
    by (rule foldE_inv [OF that, where P = "\<lambda>z. entries (snd z) = entries (snd x)
        \<and> journal_lines (snd z) = journal_lines (snd x)"]) (auto dest!: step)
  then have "allocate i reqs s = Inr s' \<Longrightarrow> entries s' = entries s \<and> journal_lines s' = journal_lines s"
    by (elim allocate_Inr) fastforce
  then show ?thesis
    by (auto simp: payment_reconcile_def ok_simps dest!: credit_note_issue_Inr elim!: invoice_void_invoices)
qed

theorem receivables_post_nothing_witness:
  "\<exists>s'. payment_reconcile 111 7 sample_ar = Inr s' \<and> entries s' = []"
proof -
  have "\<not> isl (payment_reconcile 111 7 sample_ar)" by (simp add: evals cong: ebind_weak_cong)
  then obtain s' where s': "payment_reconcile 111 7 sample_ar = Inr s'"
    by (cases "payment_reconcile 111 7 sample_ar") auto
  then have "entries s' = entries sample_ar" using receivables_post_nothing by blast
  with s' show ?thesis by (simp add: sample_ar_def ar_state_def)
qed

section \<open>Allocation\<close>

lemma sum_allocated_step:
  assumes "alloc_step i amt req (tot, s) = Inr (tot', s')"
  shows "sum_allocated_for_payment j s' = sum_allocated_for_payment j s
      + (if j = i then money (alr_amount req) else 0)
    \<and> sum_allocated k s' = sum_allocated k s + (if k = alr_invoice_id req then money (alr_amount req) else 0)
    \<and> customer_payments s' = customer_payments s"
proof -
  from assms obtain r s1 where "get_invoice (alr_invoice_id req) s = Some r" "tot + alr_amount req \<le> amt"
    "inv_status r \<in> {INV_ISSUED, INV_OVERDUE, INV_PAID}" "tot' = tot + alr_amount req"
    and s1: "s1 = s\<lparr>allocations := allocations s @ [\<lparr>al_payment_id = i, al_invoice_id = alr_invoice_id req,
        al_amount = money (alr_amount req)\<rparr>]\<rparr>"
    and "\<forall>a\<in>set (allocations s). \<not> (al_payment_id a = i \<and> al_invoice_id a = alr_invoice_id req)"
    and s': "s' = (if sum_allocated (alr_invoice_id req) s1 \<ge> inv_total r
       then upd_invoice (alr_invoice_id req) (\<lambda>r. r\<lparr>inv_status := INV_PAID\<rparr>) s1 else s1)"
    by (rule alloc_step_Inr)
  have "allocations s' = allocations s1" "customer_payments s' = customer_payments s1"
    using s' by simp_all
  then show ?thesis
    by (simp add: sum_allocated_for_payment_def sum_allocated_def s1)
qed

lemma foldE_allocated:
  assumes "foldE (alloc_step i amt) rs (tot, s) = Inr (tot', s')"
    and "\<forall>r\<in>set rs. is_money (alr_amount r)"
  shows "sum_allocated_for_payment i s' = sum_allocated_for_payment i s + sum_list (map alr_amount rs)
    \<and> tot' = tot + sum_list (map alr_amount rs) \<and> customer_payments s' = customer_payments s
    \<and> (\<forall>k. sum_allocated k s' = sum_allocated k s
          + sum_list (map alr_amount (filter (\<lambda>r. alr_invoice_id r = k) rs)))"
  using assms
proof (induction rs arbitrary: tot s)
  case (Cons r rs)
  then obtain t where t: "alloc_step i amt r (tot, s) = Inr t" "foldE (alloc_step i amt) rs t = Inr (tot', s')"
    by (auto simp: ok_simps)
  obtain tot1 s1 where t1: "t = (tot1, s1)" by (cases t)
  have "tot1 = tot + alr_amount r"
    using payment_book.step_books [OF t(1)] t1 by simp
  with sum_allocated_step [OF t(1) [unfolded t1]] Cons.IH [OF t(2) [unfolded t1]] Cons.prems(2)
  show ?case by (auto simp: money_is_money)
qed simp

text \<open>C10: A payment is never allocated beyond its amount: a successful allocation adds exactly the
  requested amounts, their new sum is within the payment's amount, the allocations to each invoice grow
  by what was requested for it, and the payment is cleared when its amount is used up. A request
  that would exceed the amount is refused as a whole.\<close>

theorem allocation_within_payment:
  assumes "get_payment i s = Some p" and "is_money (cp_amount p)"
    and "\<forall>r\<in>set reqs. is_money (alr_amount r)" and "reqs \<noteq> []"
  shows "(\<forall>s'. allocate i reqs s = Inr s' \<longrightarrow>
      sum_allocated_for_payment i s' = sum_allocated_for_payment i s + sum_list (map alr_amount reqs)
      \<and> sum_allocated_for_payment i s' \<le> cp_amount p
      \<and> (\<forall>k. sum_allocated k s' = sum_allocated k s
            + sum_list (map alr_amount (filter (\<lambda>r. alr_invoice_id r = k) reqs)))
      \<and> (sum_allocated_for_payment i s' = cp_amount p \<longrightarrow>
            map_option cp_status (get_payment i s') = Some PMT_CLEARED))
    \<and> (sum_allocated_for_payment i s + sum_list (map alr_amount reqs) > cp_amount p
        \<longrightarrow> (\<exists>e. allocate i reqs s = Inl e))"
proof -
  have main: "sum_allocated_for_payment i s' = sum_allocated_for_payment i s + sum_list (map alr_amount reqs)
      \<and> sum_allocated_for_payment i s' \<le> cp_amount p
      \<and> (\<forall>k. sum_allocated k s' = sum_allocated k s
            + sum_list (map alr_amount (filter (\<lambda>r. alr_invoice_id r = k) reqs)))
      \<and> (sum_allocated_for_payment i s' = cp_amount p \<longrightarrow>
            map_option cp_status (get_payment i s') = Some PMT_CLEARED)"
    if run: "allocate i reqs s = Inr s'" for s'
  proof -
    from run obtain p' tot t where "get_payment i s = Some p'" "cp_status p' \<noteq> PMT_VOID"
      and f': "foldE (alloc_step i (cp_amount p')) reqs (sum_allocated_for_payment i s, s) = Inr (tot, t)"
      and s': "s' = (if sum_allocated_for_payment i t \<ge> cp_amount p'
         then upd_payment i (\<lambda>r. r\<lparr>cp_status := PMT_CLEARED\<rparr>) t else t)"
      by (rule allocate_Inr)
    then have pp: "p' = p" and f: "foldE (alloc_step i (cp_amount p)) reqs
        (sum_allocated_for_payment i s, s) = Inr (tot, t)" using assms(1) by simp_all
    note a = foldE_allocated [OF f assms(3)]
    obtain us u where reqs: "reqs = us @ [u]"
      using assms(4) by (metis rev_exhaust)
    from f obtain v where "foldE (alloc_step i (cp_amount p)) [u] v = Inr (tot, t)"
      by (auto simp: reqs foldE_append ok_simps)
    then have "alloc_step i (cp_amount p) u v = Inr (tot, t)"
      by (auto simp: ok_simps)
    then have "tot \<le> cp_amount p"
      using payment_book.step_within [of i "cp_amount p" u v "(tot, t)"] by simp
    moreover have "get_payment i t = Some p"
      using a assms(1) by (simp add: get_payment_def)
    moreover have "allocations s' = allocations t" using s' by simp
    then have "sum_allocated_for_payment i s' = sum_allocated_for_payment i t"
      "sum_allocated k s' = sum_allocated k t" for k
      by (simp_all add: sum_allocated_for_payment_def sum_allocated_def)
    ultimately show ?thesis
      using a s' pp by (auto simp: payment_table.lookup_update)
  qed
  then show ?thesis
    by (cases "allocate i reqs s") force+
qed

theorem allocation_within_payment_witness:
  "\<exists>s'. allocate 111 [\<lparr>alr_invoice_id = 102, alr_amount = 60\<rparr>, \<lparr>alr_invoice_id = 103, alr_amount = 40\<rparr>] sample_ar
      = Inr s' \<and> sum_allocated_for_payment 111 s' = 100 \<and> sum_allocated 102 s' = 60"
proof -
  let ?reqs = "[\<lparr>alr_invoice_id = 102, alr_amount = 60\<rparr>, \<lparr>alr_invoice_id = 103, alr_amount = 40\<rparr>]"
  have "\<not> isl (allocate 111 ?reqs sample_ar)" by (simp add: evals cong: ebind_weak_cong)
  then obtain s' where s': "allocate 111 ?reqs sample_ar = Inr s'"
    by (cases "allocate 111 ?reqs sample_ar") auto
  have "get_payment 111 sample_ar = Some (sample_payment 111 100)"
    "sum_allocated_for_payment 111 sample_ar = 0" "sum_allocated 102 sample_ar = 0"
    by (simp_all add: evals)
  with allocation_within_payment [of 111 sample_ar "sample_payment 111 100" ?reqs] s'
  show ?thesis by (simp add: sample_payment_def)
qed

text \<open>Nothing caps what an invoice receives: an invoice that is already paid accepts the next
  payment, and more money than its total is allocated to it. Two payments of 100, both
  allocated in full to an invoice over 100, leave 200 allocated and both payments cleared.\<close>

theorem invoice_over_allocated:
  "\<exists>s1 s2. allocate 111 [\<lparr>alr_invoice_id = 102, alr_amount = 100\<rparr>] sample_ar = Inr s1
     \<and> invoice_status_of 102 s1 = Some INV_PAID
     \<and> allocate 112 [\<lparr>alr_invoice_id = 102, alr_amount = 100\<rparr>] s1 = Inr s2
     \<and> sum_allocated 102 s2 = 200 \<and> map_option inv_total (get_invoice 102 s2) = Some 100
     \<and> map_option cp_status (get_payment 112 s2) = Some PMT_CLEARED"
proof -
  let ?r = "allocate 111 [\<lparr>alr_invoice_id = 102, alr_amount = 100\<rparr>] sample_ar"
  let ?q = "allocate 112 [\<lparr>alr_invoice_id = 102, alr_amount = 100\<rparr>] (projr ?r)"
  have r: "\<not> isl ?r" "invoice_status_of 102 (projr ?r) = Some INV_PAID"
    by (simp_all add: evals invoice_status_of_def cong: ebind_weak_cong)
  have q: "\<not> isl ?q" "sum_allocated 102 (projr ?q) = 200"
    "map_option inv_total (get_invoice 102 (projr ?q)) = Some 100"
    "map_option cp_status (get_payment 112 (projr ?q)) = Some PMT_CLEARED"
    by (simp_all add: evals cong: ebind_weak_cong)
  have "?r = Inr (projr ?r)" "?q = Inr (projr ?q)"
    by (rule not_isl_Inr, fact r(1)) (rule not_isl_Inr, fact q(1))
  with r q show ?thesis by blast
qed

section \<open>Reports\<close>

lemma buckets_cover:
  "length (filter (\<lambda>b. in_bucket (fst (snd b)) (snd (snd b)) d) ageing_buckets) = (if 0 \<le> d then 1 else 0)"
  by (auto simp: ageing_buckets_def in_bucket_def)

lemma sum_filter_buckets:
  fixes f :: "'x \<Rightarrow> rat"
  assumes "\<And>x. x \<in> set xs \<Longrightarrow> length (filter (\<lambda>b. P b x) bs) = (if Q x then 1 else 0)"
  shows "sum_list (map (\<lambda>b. sum_list (map f (filter (P b) xs))) bs) = sum_list (map f (filter Q xs))"
  using assms
proof (induction xs)
  case (Cons x xs)
  have one: "sum_list (map (\<lambda>b. if P b x then f x else 0) bs) = of_nat (length (filter (\<lambda>b. P b x) bs)) * f x" for bs
    by (induction bs) (auto simp: algebra_simps)
  have "(\<lambda>b. sum_list (map f (filter (P b) (x # xs))))
      = (\<lambda>b. (if P b x then f x else 0) + sum_list (map f (filter (P b) xs)))"
    by auto
  then have "sum_list (map (\<lambda>b. sum_list (map f (filter (P b) (x # xs)))) bs)
      = sum_list (map (\<lambda>b. (if P b x then f x else 0) + sum_list (map f (filter (P b) xs))) bs)"
    by (rule arg_cong)
  also have "\<dots> = (if Q x then f x else 0) + sum_list (map f (filter Q xs))"
    using Cons by (simp add: sum_list_addf one)
  finally show ?case by simp
qed (simp add: sum_list_triv)

text \<open>The ageing report and what it leaves out: with at most 100 outstanding invoices, the bucket
  totals add up to the totals of the outstanding invoices that are due today or before; an
  outstanding invoice that is not yet due is in no bucket (the bucket \<open>current\<close> is day 0 only), so the buckets
  fall short of the reported total outstanding by exactly those invoices.\<close>

theorem ageing_buckets_miss_future:
  assumes "\<forall>r\<in>set (invoices s). is_money (inv_total r)"
    and "length (filter (is_outstanding c) (invoices s)) \<le> 100"
    and "get_ageing c s = (bs, tot)"
  shows "map fst bs = map fst ageing_buckets
    \<and> tot = sum_list (map inv_total (filter (is_outstanding c) (invoices s)))
    \<and> sum_list (map (\<lambda>b. snd (snd b)) bs)
        = sum_list (map inv_total (filter (\<lambda>r. is_outstanding c r \<and> inv_due_date r \<le> today s) (invoices s)))
    \<and> tot = sum_list (map (\<lambda>b. snd (snd b)) bs)
        + sum_list (map inv_total (filter (\<lambda>r. is_outstanding c r \<and> today s < inv_due_date r) (invoices s)))"
proof -
  let ?out = "filter (is_outstanding c) (invoices s)"
  let ?l = "list_outstanding c s"
  let ?due = "\<lambda>r. inv_due_date r \<le> today s"
  let ?P = "\<lambda>b r. in_bucket (fst (snd b)) (snd (snd b)) (days_overdue (today s) (inv_due_date r))"
  have l: "mset ?l = mset ?out"
    using assms(2) by (simp add: list_outstanding_def)
  have lset: "set ?l = set ?out" using l by (metis set_mset_mset)
  have qm: "\<And>Q. money_sum (map inv_total (filter Q ?l)) = sum_list (map inv_total (filter Q ?l))"
    by (rule money_sum_is_money) (use assms(1) lset in auto)
  have tot: "tot = sum_list (map inv_total ?out)"
  proof -
    have "is_money (sum_list (map inv_total ?out))"
      by (rule quantized_sum_list) (use assms(1) in auto)
    with assms(3) show ?thesis
      by (auto simp: get_ageing_def Let_def sum_outstanding_def money_is_money)
  qed
  have bs: "bs = map (\<lambda>b. (fst b, length (filter (?P b) ?l), sum_list (map inv_total (filter (?P b) ?l)))) ageing_buckets"
  proof -
    have "bs = map (\<lambda>(label, lo, hi). (label,
        length (filter (\<lambda>r. in_bucket lo hi (days_overdue (today s) (inv_due_date r))) ?l),
        money_sum (map inv_total (filter (\<lambda>r. in_bucket lo hi (days_overdue (today s) (inv_due_date r))) ?l))))
        ageing_buckets"
      using assms(3) unfolding get_ageing_def Let_def by (simp only: prod.inject)
    then have "bs = map (\<lambda>b. (fst b, length (filter (?P b) ?l), money_sum (map inv_total (filter (?P b) ?l))))
        ageing_buckets"
      by (simp only: case_prod_unfold)
    then show ?thesis
      by (simp only: qm)
  qed
  have "sum_list (map (\<lambda>b. sum_list (map inv_total (filter (?P b) ?l))) ageing_buckets)
      = sum_list (map inv_total (filter ?due ?l))"
    by (rule sum_filter_buckets) (simp add: buckets_cover days_overdue_def)
  also have "\<dots> = sum_list (map inv_total (filter ?due ?out))"
    by (rule sum_list_mset_cong) (simp only: mset_map mset_filter l)
  finally have sum: "sum_list (map (\<lambda>b. snd (snd b)) bs) = sum_list (map inv_total (filter ?due ?out))"
    by (simp add: bs o_def)
  have "tot = sum_list (map inv_total (filter ?due ?out))
      + sum_list (map inv_total (filter (\<lambda>r. today s < inv_due_date r) ?out))"
    unfolding tot using sum_filter_split [of inv_total "is_outstanding c" "invoices s" ?due]
    by (simp only: not_le)
  with tot sum show ?thesis
    by (simp add: bs o_def conj_commute)
qed

theorem ageing_buckets_miss_future_witness:
  "snd (get_ageing None sample_ar) = 140
   \<and> sum_list (map (\<lambda>b. snd (snd b)) (fst (get_ageing None sample_ar))) = 100"
proof -
  have "\<forall>r\<in>set (invoices sample_ar). is_money (inv_total r)"
    "length (filter (is_outstanding None) (invoices sample_ar)) \<le> 100"
    "sum_list (map inv_total (filter (is_outstanding None) (invoices sample_ar))) = 140"
    "sum_list (map inv_total (filter (\<lambda>r. is_outstanding None r \<and> inv_due_date r \<le> today sample_ar) (invoices sample_ar))) = 100"
    by (simp_all add: evals)
  with ageing_buckets_miss_future [of sample_ar None "fst (get_ageing None sample_ar)"
      "snd (get_ageing None sample_ar)"]
  show ?thesis by simp
qed

text \<open>The nightly sweep marks exactly the issued invoices whose due date has passed, changes
  nothing else of any invoice, counts what it changed, and a second run on the same day finds nothing.\<close>

theorem sweep_marks_overdue:
  assumes "recompute_ageing s = (n, s')"
  shows "map (\<lambda>r. r\<lparr>inv_status := INV_VOID\<rparr>) (invoices s') = map (\<lambda>r. r\<lparr>inv_status := INV_VOID\<rparr>) (invoices s)
    \<and> map inv_status (invoices s') = map (\<lambda>r. if inv_status r = INV_ISSUED \<and> inv_due_date r < today s
          then INV_OVERDUE else inv_status r) (invoices s)
    \<and> n = length (filter (\<lambda>r. inv_status r = INV_ISSUED \<and> inv_due_date r < today s) (invoices s))
    \<and> recompute_ageing s' = (0, s')"
proof -
  let ?f = "\<lambda>i. if inv_status i = INV_ISSUED \<and> inv_due_date i < today s
     then i\<lparr>inv_status := INV_OVERDUE\<rparr> else i"
  have s': "s' = s\<lparr>invoices := map ?f (invoices s)\<rparr>"
    and n: "n = length (filter (\<lambda>r. inv_status r = INV_ISSUED \<and> inv_due_date r < today s) (invoices s))"
    using assms by (simp_all add: recompute_ageing_def Let_def)
  have "filter (\<lambda>r. inv_status r = INV_ISSUED \<and> inv_due_date r < today s) (map ?f (invoices s)) = []"
    by (auto simp: filter_empty_conv)
  moreover have "map ?f (map ?f (invoices s)) = map ?f (invoices s)"
    by simp
  ultimately have "recompute_ageing s' = (0, s')"
    unfolding s' by (simp add: recompute_ageing_def Let_def)
  with s' n show ?thesis by simp
qed

theorem sweep_marks_overdue_witness:
  "fst (recompute_ageing sample_ar) = 1
   \<and> recompute_ageing (snd (recompute_ageing sample_ar)) = (0, snd (recompute_ageing sample_ar))"
proof -
  have "length (filter (\<lambda>r. inv_status r = INV_ISSUED \<and> inv_due_date r < today sample_ar) (invoices sample_ar)) = 1"
    by (simp add: evals)
  with sweep_marks_overdue [of sample_ar "fst (recompute_ageing sample_ar)" "snd (recompute_ageing sample_ar)"]
  show ?thesis by simp
qed

text \<open>
  The credit check never refuses: the ORM class \<open>Contact\<close> does not map the column \<open>credit_limit\<close>, so
  for every contact that exists, whatever limit its row holds and however much it owes, every
  amount is approved.\<close>

theorem credit_check_always_passes:
  "check_credit_limit c amount s = (if get_contact c s = None then Inl NotFoundError else Inr True)"
  by (auto simp: check_credit_limit_def orm_credit_limit_def from_opt_def split: option.splits)

end
