(* ===== verification/Payables.thy ===== *)
theory Payables
  imports ReceivablesProps "HOL-Library.AList"
begin

text \<open>
  Accounts payable (backend/app/modules/payables: constants, models, schemas, repository,
  service, tasks): supplier bills with their lines, supplier payments and their allocation to
  bills, debit notes, the ageing report and the overdue sweep. Unlike receivables, this module
  calls \<open>PostingService.post\<close> itself, so a refused posting fails the whole operation, and it
  numbers its documents from the ledger's sequence table.

  The schemas bound amounts from below and round nothing: a request holds the value the client
  sent, a row the value its NUMERIC column keeps. Supplier names, remarks and references are
  left out, and the exchange rate, which is always 1, and the tax columns, which are always 0.
\<close>

section \<open>Constants and tables\<close>

datatype bill_status = BILL_DRAFT | BILL_ISSUED | BILL_PAID | BILL_OVERDUE | BILL_VOID

datatype supplier_payment_status = SPM_CLEARED | SPM_UNCLEARED | SPM_VOID

datatype debit_note_status = DN_DRAFT | DN_ISSUED | DN_VOID

definition supplier_payment_methods :: "string list" where
  "supplier_payment_methods = [''bank_transfer'', ''cash'', ''cheque'']"

definition debit_note_reasons :: "string list" where
  "debit_note_reasons = [''goods_returned'', ''price_adjustment'', ''damaged_goods'', ''other'']"

definition ap_ageing_buckets :: "(string \<times> int \<times> int option) list" where
  "ap_ageing_buckets =
     [(''current'', 0, Some 0), (''1_30'', 1, Some 30), (''31_60'', 31, Some 60),
      (''61_90'', 61, Some 90), (''over_90'', 91, None)]"

record supplier_bill =
  bill_id :: uuid
  bill_no :: string
  bill_supplier_id :: uuid
  bill_po_id :: "uuid option"
  bill_grn_id :: "uuid option"
  bill_posting_date :: date
  bill_due_date :: date
  bill_currency_code :: string
  bill_subtotal :: rat
  bill_tax_total :: rat
  bill_total :: rat
  bill_status :: bill_status
  bill_je_id :: "uuid option"

record supplier_bill_line =
  bl_bill_id :: uuid
  bl_item_id :: "uuid option"
  bl_qty :: rat
  bl_unit_cost :: rat
  bl_line_total :: rat

record supplier_payment =
  sp_id :: uuid
  sp_no :: string
  sp_supplier_id :: uuid
  sp_payment_date :: date
  sp_amount :: rat
  sp_currency_code :: string
  sp_method :: string
  sp_je_id :: "uuid option"
  sp_status :: supplier_payment_status

record bill_allocation =
  ba_payment_id :: uuid
  ba_bill_id :: uuid
  ba_amount :: rat

record debit_note =
  dn_id :: uuid
  dn_no :: string
  dn_supplier_id :: uuid
  dn_bill_id :: "uuid option"
  dn_date :: date
  dn_amount :: rat
  dn_reason :: string
  dn_currency_code :: string
  dn_je_id :: "uuid option"
  dn_status :: debit_note_status

record payables = receivables +
  bills :: "supplier_bill list"
  bill_lines :: "supplier_bill_line list"
  supplier_payments :: "supplier_payment list"
  bill_allocations :: "bill_allocation list"
  debit_notes :: "debit_note list"

section \<open>Repositories\<close>

definition get_bill :: "uuid \<Rightarrow> 'a payables_scheme \<Rightarrow> supplier_bill option" where
  "get_bill i s = get_by bill_id i (bills s)"

definition upd_bill ::
  "uuid \<Rightarrow> (supplier_bill \<Rightarrow> supplier_bill) \<Rightarrow> 'a payables_scheme \<Rightarrow> 'a payables_scheme" where
  "upd_bill i f s = s\<lparr>bills := upd_by bill_id i f (bills s)\<rparr>"

definition add_bill :: "supplier_bill \<Rightarrow> 'a payables_scheme \<Rightarrow> 'a payables_scheme" where
  "add_bill r s = s\<lparr>bills := bills s @ [r]\<rparr>"

definition get_supplier_payment :: "uuid \<Rightarrow> 'a payables_scheme \<Rightarrow> supplier_payment option" where
  "get_supplier_payment i s = get_by sp_id i (supplier_payments s)"

definition upd_supplier_payment ::
  "uuid \<Rightarrow> (supplier_payment \<Rightarrow> supplier_payment) \<Rightarrow> 'a payables_scheme \<Rightarrow> 'a payables_scheme" where
  "upd_supplier_payment i f s = s\<lparr>supplier_payments := upd_by sp_id i f (supplier_payments s)\<rparr>"

definition add_supplier_payment :: "supplier_payment \<Rightarrow> 'a payables_scheme \<Rightarrow> 'a payables_scheme" where
  "add_supplier_payment r s = s\<lparr>supplier_payments := supplier_payments s @ [r]\<rparr>"

definition get_debit_note :: "uuid \<Rightarrow> 'a payables_scheme \<Rightarrow> debit_note option" where
  "get_debit_note i s = get_by dn_id i (debit_notes s)"

definition upd_debit_note ::
  "uuid \<Rightarrow> (debit_note \<Rightarrow> debit_note) \<Rightarrow> 'a payables_scheme \<Rightarrow> 'a payables_scheme" where
  "upd_debit_note i f s = s\<lparr>debit_notes := upd_by dn_id i f (debit_notes s)\<rparr>"

definition add_debit_note :: "debit_note \<Rightarrow> 'a payables_scheme \<Rightarrow> 'a payables_scheme" where
  "add_debit_note r s = s\<lparr>debit_notes := debit_notes s @ [r]\<rparr>"

definition lines_of_bill :: "uuid \<Rightarrow> 'a payables_scheme \<Rightarrow> supplier_bill_line list" where
  "lines_of_bill i s = filter (\<lambda>l. bl_bill_id l = i) (bill_lines s)"

definition list_bills_by_supplier ::
  "uuid \<Rightarrow> bill_status option \<Rightarrow> nat \<Rightarrow> nat \<Rightarrow> 'a payables_scheme \<Rightarrow> supplier_bill list" where
  "list_bills_by_supplier supplier_id status limit offset s =
     take limit (drop offset (sort_key (\<lambda>b. - int (bill_due_date b))
       (filter (\<lambda>b. bill_supplier_id b = supplier_id
          \<and> (case status of None \<Rightarrow> True | Some st \<Rightarrow> bill_status b = st)) (bills s))))"

definition bill_outstanding :: "uuid option \<Rightarrow> supplier_bill \<Rightarrow> bool" where
  "bill_outstanding supplier_id b =
     ((bill_status b = BILL_ISSUED \<or> bill_status b = BILL_OVERDUE)
      \<and> (case supplier_id of None \<Rightarrow> True | Some x \<Rightarrow> bill_supplier_id b = x))"

definition list_outstanding_bills ::
  "uuid option \<Rightarrow> nat \<Rightarrow> nat \<Rightarrow> 'a payables_scheme \<Rightarrow> supplier_bill list" where
  "list_outstanding_bills supplier_id limit offset s =
     take limit (drop offset
       (sort_key bill_due_date (filter (bill_outstanding supplier_id) (bills s))))"

definition count_by_supplier :: "uuid \<Rightarrow> 'a payables_scheme \<Rightarrow> nat" where
  "count_by_supplier supplier_id s = length (filter (\<lambda>b. bill_supplier_id b = supplier_id) (bills s))"

definition list_payments_by_supplier ::
  "uuid \<Rightarrow> nat \<Rightarrow> nat \<Rightarrow> 'a payables_scheme \<Rightarrow> supplier_payment list" where
  "list_payments_by_supplier supplier_id limit offset s =
     take limit (drop offset (sort_key (\<lambda>p. - int (sp_payment_date p))
       (filter (\<lambda>p. sp_supplier_id p = supplier_id) (supplier_payments s))))"

definition sum_bill_allocated :: "uuid \<Rightarrow> 'a payables_scheme \<Rightarrow> rat" where
  "sum_bill_allocated i s =
     sum_list (map ba_amount (filter (\<lambda>a. ba_bill_id a = i) (bill_allocations s)))"

definition next_doc_number ::
  "string \<Rightarrow> string \<Rightarrow> 'a session_scheme \<Rightarrow> string \<times> 'a session_scheme" where
  "next_doc_number doc_type prefix s =
     (let fiscal_year = year_of (today s);
          (next_val, s1) = alloc_number doc_type fiscal_year s
      in (doc_no prefix fiscal_year next_val, s1))"

section \<open>Requests\<close>

record bill_line_request =
  blr_item_id :: "uuid option"
  blr_qty :: rat
  blr_unit_cost :: rat

record bill_create_request =
  bcr_supplier_id :: uuid
  bcr_posting_date :: date
  bcr_due_date :: date
  bcr_currency_code :: string
  bcr_lines :: "bill_line_request list"
  bcr_po_id :: "uuid option"
  bcr_grn_id :: "uuid option"

record supplier_payment_request =
  spr_supplier_id :: uuid
  spr_payment_date :: date
  spr_amount :: rat
  spr_currency_code :: string
  spr_method :: string

record bill_allocation_request =
  bar_bill_id :: uuid
  bar_amount :: rat

record debit_note_create_request =
  dncr_supplier_id :: uuid
  dncr_bill_id :: "uuid option"
  dncr_date :: date
  dncr_amount :: rat
  dncr_reason :: string
  dncr_currency_code :: string

text \<open>What the schemas refuse before a service runs.\<close>

definition valid_bill_request :: "bill_create_request \<Rightarrow> bool" where
  "valid_bill_request r = (length (bcr_lines r) \<ge> 1)"

definition valid_supplier_payment_request :: "supplier_payment_request \<Rightarrow> bool" where
  "valid_supplier_payment_request r = (spr_amount r > 0)"

definition valid_bill_allocation_request :: "bill_allocation_request \<Rightarrow> bool" where
  "valid_bill_allocation_request r = (bar_amount r > 0)"

definition valid_debit_note_request :: "debit_note_create_request \<Rightarrow> bool" where
  "valid_debit_note_request r = (dncr_amount r > 0)"

section \<open>BillService\<close>

text \<open>The totals of the requested lines, then the rows, one insert each.\<close>

primrec bill_totals :: "bill_line_request list \<Rightarrow> rat \<times> rat \<Rightarrow> rat \<times> rat" where
  "bill_totals [] acc = acc"
| "bill_totals (line_req # ls) acc =
     (let (subtotal, tax_total) = acc;
          line_total = money (blr_qty line_req * blr_unit_cost line_req);
          tax_amt = money_zero
      in bill_totals ls (subtotal + line_total, tax_total + tax_amt))"

definition bill_line_of :: "uuid \<Rightarrow> bill_line_request \<Rightarrow> supplier_bill_line" where
  "bill_line_of i line_req =
     \<lparr>bl_bill_id = i, bl_item_id = blr_item_id line_req, bl_qty = qty (blr_qty line_req),
      bl_unit_cost = money (blr_unit_cost line_req),
      bl_line_total = money (money (blr_qty line_req * blr_unit_cost line_req))\<rparr>"

definition bill_create ::
  "bill_create_request \<Rightarrow> 'a payables_scheme \<Rightarrow> err + uuid \<times> 'a payables_scheme" where
  "bill_create request s =
     ebind (from_opt (ValidationError ''supplier_not_found'')
              (get_contact (bcr_supplier_id request) s)) (\<lambda>supplier.
     let (no, s1) = next_doc_number ''supplier_bill'' ''BIL'' s;
         (subtotal, tax_total) = bill_totals (bcr_lines request) (money_zero, money_zero);
         total = subtotal + tax_total;
         (i, s2) = fresh_id s1
     in ebind (ensure (no \<notin> bill_no ` set (bills s2))
                (IntegrityError ''uq_supplier_bills_bill_no'')) (\<lambda>_.
     let s3 = add_bill
           \<lparr>bill_id = i, bill_no = no, bill_supplier_id = bcr_supplier_id request,
            bill_po_id = bcr_po_id request, bill_grn_id = bcr_grn_id request,
            bill_posting_date = bcr_posting_date request, bill_due_date = bcr_due_date request,
            bill_currency_code = bcr_currency_code request, bill_subtotal = money subtotal,
            bill_tax_total = money tax_total, bill_total = money total,
            bill_status = BILL_DRAFT, bill_je_id = None\<rparr> s2
     in Inr (i, s3\<lparr>bill_lines := bill_lines s3 @ map (bill_line_of i) (bcr_lines request)\<rparr>)))"

text \<open>The journal line of one side, as the three posting operations of this module build it.\<close>

definition ap_line :: "uuid \<Rightarrow> rat \<Rightarrow> rat \<Rightarrow> uuid option \<Rightarrow> journal_line_request" where
  "ap_line account_id dr cr supplier =
     \<lparr>jlr_account_id = account_id, jlr_dr = dr, jlr_cr = cr, jlr_currency_code = None,
      jlr_fx_rate = None, jlr_dr_base = dr, jlr_cr_base = cr,
      jlr_party_type = map_option (\<lambda>_. ''supplier'') supplier, jlr_party_id = supplier\<rparr>"

definition ap_accounts ::
  "string \<Rightarrow> string \<Rightarrow> 'a ledger_scheme \<Rightarrow> err + account \<times> account" where
  "ap_accounts dr_code cr_code s =
     (case (get_account_by_code dr_code s, get_account_by_code cr_code s) of
        (Some a, Some b) \<Rightarrow> Inr (a, b)
      | _ \<Rightarrow> Inl (ValidationError ''missing_control_accounts''))"

definition bill_issue ::
  "uuid \<Rightarrow> uuid \<Rightarrow> 'a payables_scheme \<Rightarrow> err + 'a payables_scheme" where
  "bill_issue i actor_id s =
     ebind (from_opt NotFoundError (get_bill i s)) (\<lambda>bill.
     ebind (ensure (bill_status bill = BILL_DRAFT) (ValidationError ''cannot_issue_non_draft'')) (\<lambda>_.
     ebind (ap_accounts ''2200'' ''2100'' s) (\<lambda>(grn_accrual, ap_account).
     ebind (post
       \<lparr>jer_posting_date = bill_posting_date bill, jer_voucher_type = ''journal_entry'',
        jer_lines = [ap_line (acc_id grn_accrual) (bill_total bill) money_zero (Some (bill_supplier_id bill)),
                     ap_line (acc_id ap_account) money_zero (bill_total bill) (Some (bill_supplier_id bill))],
        jer_is_opening = False\<rparr>
       (Some actor_id) (Some ''supplier_bill'') (Some (bill_id bill)) True s) (\<lambda>(entry, s1).
     emit_event_async (BillMatched (bill_id bill) (bill_total bill) (bill_posting_date bill))
       (upd_bill i (\<lambda>b. b\<lparr>bill_status := BILL_ISSUED, bill_je_id := Some (je_id entry)\<rparr>) s1)))))"

definition bill_void ::
  "uuid \<Rightarrow> uuid \<Rightarrow> 'a payables_scheme \<Rightarrow> err + 'a payables_scheme" where
  "bill_void i actor_id s =
     ebind (from_opt NotFoundError (get_bill i s)) (\<lambda>bill.
     ebind (ensure (bill_status bill \<noteq> BILL_PAID) (ValidationError ''cannot_void_paid'')) (\<lambda>_.
     ebind (ensure (bill_status bill \<noteq> BILL_VOID) (ValidationError ''already_voided'')) (\<lambda>_.
     Inr (upd_bill i (\<lambda>b. b\<lparr>bill_status := BILL_VOID\<rparr>) s))))"

subsection \<open>Ageing\<close>

definition compute_age_bucket :: "date \<Rightarrow> date \<Rightarrow> int \<times> string" where
  "compute_age_bucket on due_date =
     (let overdue_days = int on - int due_date
      in if overdue_days \<le> 0 then (overdue_days, ''current'')
         else if overdue_days \<le> 30 then (overdue_days, ''1_30'')
         else if overdue_days \<le> 60 then (overdue_days, ''31_60'')
         else if overdue_days \<le> 90 then (overdue_days, ''61_90'')
         else (overdue_days, ''over_90''))"

text \<open>
  The dictionary \<open>by_supplier\<close> in insertion order, its inner dictionaries as functions from
  the label to the amounts.
\<close>

definition ageing_step ::
  "date \<Rightarrow> supplier_bill \<Rightarrow> (uuid \<times> (string \<Rightarrow> rat list)) list
     \<Rightarrow> (uuid \<times> (string \<Rightarrow> rat list)) list" where
  "ageing_step on bill by_supplier =
     (let sid = bill_supplier_id bill;
          data = (case map_of by_supplier sid of None \<Rightarrow> (\<lambda>_. []) | Some d \<Rightarrow> d);
          label = snd (compute_age_bucket on (bill_due_date bill))
      in AList.update sid (data(label := data label @ [bill_total bill])) by_supplier)"

record ap_ageing =
  aa_supplier_id :: uuid
  aa_buckets :: "(string \<times> nat \<times> rat) list"
  aa_total_outstanding :: rat

definition ap_ageing_of :: "uuid \<times> (string \<Rightarrow> rat list) \<Rightarrow> ap_ageing" where
  "ap_ageing_of entry =
     (let buckets = map (\<lambda>(label, low, high).
            let amounts = snd entry label; count = length amounts
            in (label, count, if count = 0 then money_zero else foldl (+) money_zero amounts))
            ap_ageing_buckets
      in \<lparr>aa_supplier_id = fst entry, aa_buckets = buckets,
          aa_total_outstanding = foldl (\<lambda>t b. t + snd (snd b)) money_zero buckets\<rparr>)"

definition ap_get_ageing :: "uuid option \<Rightarrow> 'a payables_scheme \<Rightarrow> ap_ageing list" where
  "ap_get_ageing supplier_id s =
     map ap_ageing_of
       (fold (ageing_step (today s)) (list_outstanding_bills supplier_id 10000 0 s) [])"

section \<open>PaymentService\<close>

definition supplier_payment_create ::
  "supplier_payment_request \<Rightarrow> 'a payables_scheme \<Rightarrow> err + uuid \<times> 'a payables_scheme" where
  "supplier_payment_create request s =
     ebind (from_opt (ValidationError ''supplier_not_found'')
              (get_contact (spr_supplier_id request) s)) (\<lambda>supplier.
     let (no, s1) = next_doc_number ''supplier_payment'' ''PAY'' s;
         (i, s2) = fresh_id s1
     in ebind (ensure (spr_method request \<in> set supplier_payment_methods)
                (IntegrityError ''ck_supplier_payments_method'')) (\<lambda>_.
     ebind (ensure (no \<notin> sp_no ` set (supplier_payments s2))
                (IntegrityError ''uq_supplier_payments_payment_no'')) (\<lambda>_.
     Inr (i, add_supplier_payment
       \<lparr>sp_id = i, sp_no = no, sp_supplier_id = spr_supplier_id request,
        sp_payment_date = spr_payment_date request, sp_amount = money (spr_amount request),
        sp_currency_code = spr_currency_code request, sp_method = spr_method request,
        sp_je_id = None, sp_status = SPM_UNCLEARED\<rparr> s2))))"

definition create_bill_allocation ::
  "uuid \<Rightarrow> uuid \<Rightarrow> rat \<Rightarrow> 'a payables_scheme \<Rightarrow> err + 'a payables_scheme" where
  "create_bill_allocation payment_id i amount s =
     ebind (ensure (\<forall>a\<in>set (bill_allocations s). \<not> (ba_payment_id a = payment_id \<and> ba_bill_id a = i))
              (IntegrityError ''uq_bill_allocations_payment_bill'')) (\<lambda>_.
     Inr (s\<lparr>bill_allocations := bill_allocations s @
       [\<lparr>ba_payment_id = payment_id, ba_bill_id = i, ba_amount = money amount\<rparr>]\<rparr>))"

definition bill_allocate ::
  "uuid \<Rightarrow> bill_allocation_request \<Rightarrow> 'a payables_scheme \<Rightarrow> err + 'a payables_scheme" where
  "bill_allocate payment_id request s =
     ebind (from_opt NotFoundError (get_supplier_payment payment_id s)) (\<lambda>payment.
     ebind (ensure (sp_status payment \<noteq> SPM_VOID) (ValidationError ''payment_voided'')) (\<lambda>_.
     ebind (from_opt NotFoundError (get_bill (bar_bill_id request) s)) (\<lambda>bill.
     ebind (ensure (bill_supplier_id bill = sp_supplier_id payment)
              (ValidationError ''supplier_mismatch'')) (\<lambda>_.
     ebind (ensure (bill_status bill = BILL_ISSUED \<or> bill_status bill = BILL_OVERDUE)
              (ValidationError ''bill_not_issuable'')) (\<lambda>_.
     let already_allocated = sum_bill_allocated (bill_id bill) s;
         remaining = bill_total bill - already_allocated
     in ebind (ensure (\<not> bar_amount request > remaining) (ValidationError ''over_allocation'')) (\<lambda>_.
     ebind (create_bill_allocation payment_id (bar_bill_id request) (bar_amount request) s) (\<lambda>s1.
     let new_allocated = already_allocated + bar_amount request
     in Inr (if new_allocated \<ge> bill_total bill
             then upd_bill (bar_bill_id request) (\<lambda>b. b\<lparr>bill_status := BILL_PAID\<rparr>) s1
             else s1))))))))"

definition supplier_payment_reconcile ::
  "uuid \<Rightarrow> uuid \<Rightarrow> 'a payables_scheme \<Rightarrow> err + 'a payables_scheme" where
  "supplier_payment_reconcile payment_id actor_id s =
     ebind (from_opt NotFoundError (get_supplier_payment payment_id s)) (\<lambda>payment.
     ebind (ensure (sp_status payment \<noteq> SPM_CLEARED) (ValidationError ''already_cleared'')) (\<lambda>_.
     ebind (ensure (sp_status payment \<noteq> SPM_VOID) (ValidationError ''payment_voided'')) (\<lambda>_.
     ebind (ap_accounts ''2100'' ''1020'' s) (\<lambda>(ap_acct, bank_acct).
     ebind (post
       \<lparr>jer_posting_date = sp_payment_date payment, jer_voucher_type = ''bank_entry'',
        jer_lines = [ap_line (acc_id ap_acct) (sp_amount payment) money_zero (Some (sp_supplier_id payment)),
                     ap_line (acc_id bank_acct) money_zero (sp_amount payment) None],
        jer_is_opening = False\<rparr>
       (Some actor_id) (Some ''supplier_payment'') (Some (sp_id payment)) True s) (\<lambda>(entry, s1).
     Inr (upd_supplier_payment payment_id
       (\<lambda>p. p\<lparr>sp_status := SPM_CLEARED, sp_je_id := Some (je_id entry)\<rparr>) s1))))))"

section \<open>DebitNoteService\<close>

definition debit_note_create ::
  "debit_note_create_request \<Rightarrow> 'a payables_scheme \<Rightarrow> err + uuid \<times> 'a payables_scheme" where
  "debit_note_create request s =
     ebind (from_opt (ValidationError ''supplier_not_found'')
              (get_contact (dncr_supplier_id request) s)) (\<lambda>supplier.
     ebind (case dncr_bill_id request of
              None \<Rightarrow> Inr ()
            | Some i \<Rightarrow>
                ebind (from_opt NotFoundError (get_bill i s)) (\<lambda>bill.
                ensure (bill_supplier_id bill = dncr_supplier_id request)
                  (ValidationError ''supplier_mismatch''))) (\<lambda>_.
     let (no, s1) = next_doc_number ''debit_note'' ''DBN'' s;
         (i, s2) = fresh_id s1
     in ebind (ensure (dncr_reason request \<in> set debit_note_reasons)
                (IntegrityError ''ck_debit_notes_reason'')) (\<lambda>_.
     ebind (ensure (no \<notin> dn_no ` set (debit_notes s2))
                (IntegrityError ''uq_debit_notes_debit_note_no'')) (\<lambda>_.
     Inr (i, add_debit_note
       \<lparr>dn_id = i, dn_no = no, dn_supplier_id = dncr_supplier_id request,
        dn_bill_id = dncr_bill_id request, dn_date = dncr_date request,
        dn_amount = money (dncr_amount request), dn_reason = dncr_reason request,
        dn_currency_code = dncr_currency_code request, dn_je_id = None, dn_status = DN_DRAFT\<rparr> s2)))))"

definition debit_note_issue ::
  "uuid \<Rightarrow> uuid \<Rightarrow> 'a payables_scheme \<Rightarrow> err + 'a payables_scheme" where
  "debit_note_issue note_id actor_id s =
     ebind (from_opt NotFoundError (get_debit_note note_id s)) (\<lambda>dn.
     ebind (ensure (dn_status dn = DN_DRAFT) (ValidationError ''cannot_issue_non_draft'')) (\<lambda>_.
     ebind (ap_accounts ''2100'' ''4200'' s) (\<lambda>(ap_acct, rev_acct).
     ebind (post
       \<lparr>jer_posting_date = dn_date dn, jer_voucher_type = ''debit_note'',
        jer_lines = [ap_line (acc_id ap_acct) (dn_amount dn) money_zero (Some (dn_supplier_id dn)),
                     ap_line (acc_id rev_acct) money_zero (dn_amount dn) None],
        jer_is_opening = False\<rparr>
       (Some actor_id) (Some ''debit_note'') (Some (dn_id dn)) True s) (\<lambda>(entry, s1).
     Inr (upd_debit_note note_id
       (\<lambda>d. d\<lparr>dn_status := DN_ISSUED, dn_je_id := Some (je_id entry)\<rparr>) s1)))))"

section \<open>The overdue sweep\<close>

definition ap_recompute_ageing :: "'a payables_scheme \<Rightarrow> nat \<times> 'a payables_scheme" where
  "ap_recompute_ageing s =
     (let overdue = (\<lambda>b. bill_status b = BILL_ISSUED \<and> bill_due_date b < today s)
      in (length (filter overdue (bills s)),
          s\<lparr>bills := map (\<lambda>b. if overdue b then b\<lparr>bill_status := BILL_OVERDUE\<rparr> else b) (bills s)\<rparr>))"

lemmas payables_evals = get_bill_def upd_bill_def add_bill_def get_supplier_payment_def
  upd_supplier_payment_def add_supplier_payment_def get_debit_note_def upd_debit_note_def
  add_debit_note_def bill_outstanding_def list_outstanding_bills_def sum_bill_allocated_def
  next_doc_number_def bill_line_of_def bill_create_def ap_line_def ap_accounts_def bill_issue_def
  bill_void_def compute_age_bucket_def ageing_step_def ap_ageing_of_def ap_get_ageing_def
  supplier_payment_create_def create_bill_allocation_def bill_allocate_def
  supplier_payment_reconcile_def debit_note_create_def debit_note_issue_def
  ap_recompute_ageing_def supplier_payment_methods_def debit_note_reasons_def ap_ageing_buckets_def

declare payables_evals [evals]

end
