(* ===== verification/PayablesProps.thy ===== *)
theory PayablesProps
  imports Payables
begin

text \<open>
  The properties of accounts payable: the repositories as keyed tables, issuing as draft gates, what
  each operation posts, allocation, the ageing report, and the invariant that ties the
  documents to their journals (\<open>ap_inv\<close>): every issued bill, cleared payment and issued debit note has
  its entry, and the balance of account 2100 is what the documents say is owed.
\<close>

section \<open>The interfaces\<close>

interpretation bill_table: keyed_table get_bill add_bill upd_bill bill_id
  by unfold_locales
    (auto simp: get_bill_def add_bill_def upd_bill_def get_by_append get_by_upd_by
      dest: get_by_Some split: option.splits)

interpretation supplier_payment_table:
  keyed_table get_supplier_payment add_supplier_payment upd_supplier_payment sp_id
  by unfold_locales
    (auto simp: get_supplier_payment_def add_supplier_payment_def upd_supplier_payment_def
      get_by_append get_by_upd_by dest: get_by_Some split: option.splits)

interpretation debit_note_table: keyed_table get_debit_note add_debit_note upd_debit_note dn_id
  by unfold_locales
    (auto simp: get_debit_note_def add_debit_note_def upd_debit_note_def get_by_append get_by_upd_by
      dest: get_by_Some split: option.splits)

lemma ledger_more_payables:
  assumes "ledger.more s' = ledger.more s"
  shows "bills s' = bills s \<and> bill_lines s' = bill_lines s \<and> supplier_payments s' = supplier_payments s
    \<and> bill_allocations s' = bill_allocations s \<and> debit_notes s' = debit_notes s
    \<and> payables.more s' = payables.more s"
  using assms by (cases s; cases s') simp

lemma ap_upd_frames [simp]:
  "entries (upd_bill i f s) = entries s" "journal_lines (upd_bill i f s) = journal_lines s"
  "accounts (upd_bill i f s) = accounts s" "next_id (upd_bill i f s) = next_id s"
  "sequences (upd_bill i f s) = sequences s" "periods (upd_bill i f s) = periods s"
  "bill_allocations (upd_bill i f s) = bill_allocations s"
  "supplier_payments (upd_bill i f s) = supplier_payments s"
  "debit_notes (upd_bill i f s) = debit_notes s"
  "entries (upd_supplier_payment i g s) = entries s"
  "journal_lines (upd_supplier_payment i g s) = journal_lines s"
  "accounts (upd_supplier_payment i g s) = accounts s"
  "next_id (upd_supplier_payment i g s) = next_id s" "bills (upd_supplier_payment i g s) = bills s"
  "sequences (upd_supplier_payment i g s) = sequences s"
  "debit_notes (upd_supplier_payment i g s) = debit_notes s"
  "entries (upd_debit_note i h s) = entries s" "journal_lines (upd_debit_note i h s) = journal_lines s"
  "accounts (upd_debit_note i h s) = accounts s" "next_id (upd_debit_note i h s) = next_id s"
  "bills (upd_debit_note i h s) = bills s" "sequences (upd_debit_note i h s) = sequences s"
  "supplier_payments (upd_debit_note i h s) = supplier_payments s"
  by (simp_all add: upd_bill_def upd_supplier_payment_def upd_debit_note_def)

definition bill_status_of :: "uuid \<Rightarrow> 'a payables_scheme \<Rightarrow> bill_status option" where
  "bill_status_of i s = map_option bill_status (get_bill i s)"

definition debit_note_status_of :: "uuid \<Rightarrow> 'a payables_scheme \<Rightarrow> debit_note_status option" where
  "debit_note_status_of i s = map_option dn_status (get_debit_note i s)"

section \<open>The three postings\<close>

text \<open>The request the postings of this module make: one line on each of two accounts.\<close>

definition ap_request ::
  "date \<Rightarrow> string \<Rightarrow> account \<Rightarrow> account \<Rightarrow> rat \<Rightarrow> uuid \<Rightarrow> uuid option \<Rightarrow> journal_entry_request" where
  "ap_request d v a b x party other = \<lparr>jer_posting_date = d, jer_voucher_type = v,
     jer_lines = [ap_line (acc_id a) x money_zero (Some party), ap_line (acc_id b) money_zero x other],
     jer_is_opening = False\<rparr>"

lemma ap_line_simps [simp]:
  "jlr_account_id (ap_line a d c p) = a" "jlr_dr (ap_line a d c p) = d" "jlr_cr (ap_line a d c p) = c"
  "jlr_dr_base (ap_line a d c p) = d" "jlr_cr_base (ap_line a d c p) = c"
  by (simp_all add: ap_line_def)

lemma ap_accounts_Inr [simp]:
  "(ap_accounts dc cc s = Inr (a, b))
     = (get_account_by_code dc s = Some a \<and> get_account_by_code cc s = Some b)"
  by (auto simp: ap_accounts_def split: option.splits)

lemma bill_issue_Inr:
  assumes "bill_issue i actor s = Inr s'"
  obtains r a b e t where "get_bill i s = Some r" "bill_id r = i" "bill_status r = BILL_DRAFT"
    "get_account_by_code ''2200'' s = Some a" "get_account_by_code ''2100'' s = Some b"
    "post (ap_request (bill_posting_date r) ''journal_entry'' a b (bill_total r) (bill_supplier_id r)
        (Some (bill_supplier_id r))) (Some actor) (Some ''supplier_bill'') (Some i) True s = Inr (e, t)"
    "s' = upd_bill i (\<lambda>b. b\<lparr>bill_status := BILL_ISSUED, bill_je_id := Some (je_id e)\<rparr>) t"
  using assms bill_table.lookup_key [of i s]
  by (auto simp: bill_issue_def ok_simps ap_request_def)

lemma supplier_payment_reconcile_Inr:
  assumes "supplier_payment_reconcile i actor s = Inr s'"
  obtains r a b e t where "get_supplier_payment i s = Some r" "sp_id r = i"
    "sp_status r \<noteq> SPM_CLEARED" "sp_status r \<noteq> SPM_VOID"
    "get_account_by_code ''2100'' s = Some a" "get_account_by_code ''1020'' s = Some b"
    "post (ap_request (sp_payment_date r) ''bank_entry'' a b (sp_amount r) (sp_supplier_id r) None)
        (Some actor) (Some ''supplier_payment'') (Some i) True s = Inr (e, t)"
    "s' = upd_supplier_payment i (\<lambda>p. p\<lparr>sp_status := SPM_CLEARED, sp_je_id := Some (je_id e)\<rparr>) t"
  using assms supplier_payment_table.lookup_key [of i s]
  by (auto simp: supplier_payment_reconcile_def ok_simps ap_request_def)

lemma debit_note_issue_Inr:
  assumes "debit_note_issue i actor s = Inr s'"
  obtains r a b e t where "get_debit_note i s = Some r" "dn_id r = i" "dn_status r = DN_DRAFT"
    "get_account_by_code ''2100'' s = Some a" "get_account_by_code ''4200'' s = Some b"
    "post (ap_request (dn_date r) ''debit_note'' a b (dn_amount r) (dn_supplier_id r) None)
        (Some actor) (Some ''debit_note'') (Some i) True s = Inr (e, t)"
    "s' = upd_debit_note i (\<lambda>p. p\<lparr>dn_status := DN_ISSUED, dn_je_id := Some (je_id e)\<rparr>) t"
  using assms debit_note_table.lookup_key [of i s]
  by (auto simp: debit_note_issue_def ok_simps ap_request_def)

lemma post_payables:
  assumes "post req a st si sys s = Inr (e, s')"
  shows "bills s' = bills s" "bill_lines s' = bill_lines s" "supplier_payments s' = supplier_payments s"
    "bill_allocations s' = bill_allocations s" "debit_notes s' = debit_notes s"
    "entries s' = entries s @ [e]" "je_id e = next_id s" "je_status e = JE_POSTED"
    "je_source_type e = st" "je_source_id e = si" "je_is_system_generated e = sys"
    "je_posting_date e = jer_posting_date req"
  using ledger_more_payables [of s' s] assms by (auto elim!: post_Inr)

lemma get_bill_cong: "bills s' = bills s \<Longrightarrow> get_bill i s' = get_bill i s"
  by (simp add: get_bill_def)

lemma get_debit_note_cong: "debit_notes s' = debit_notes s \<Longrightarrow> get_debit_note i s' = get_debit_note i s"
  by (simp add: get_debit_note_def)

interpretation bill_gate: draft_gate "bill_issue i a" "bill_status_of i" BILL_DRAFT for i a
proof
  fix s s'
  assume r: "bill_issue i a s = Inr s'"
  then show "bill_status_of i s = Some BILL_DRAFT"
    by (auto simp: bill_status_of_def elim: bill_issue_Inr)
  show "bill_status_of i s' \<noteq> Some BILL_DRAFT"
    using r by (auto simp: bill_status_of_def bill_table.lookup_update elim!: bill_issue_Inr)
qed

interpretation debit_note_gate: draft_gate "debit_note_issue i a" "debit_note_status_of i" DN_DRAFT
  for i a
proof
  fix s s'
  assume r: "debit_note_issue i a s = Inr s'"
  then show "debit_note_status_of i s = Some DN_DRAFT"
    by (auto simp: debit_note_status_of_def elim: debit_note_issue_Inr)
  show "debit_note_status_of i s' \<noteq> Some DN_DRAFT"
    using r by (auto simp: debit_note_status_of_def debit_note_table.lookup_update elim!: debit_note_issue_Inr)
qed

lemma ap_request_net:
  assumes "ledger_wf s" "acc_id a \<noteq> acc_id b" "is_money x"
    and "post (ap_request d v a b x party other) actor st i sys s = Inr (e, t)"
  shows "account_net c t = account_net c s + (if c = acc_id a then x else 0) - (if c = acc_id b then x else 0)"
  using system_pair_net [OF assms(1,4) _ assms(2), of "ap_line (acc_id a) x money_zero (Some party)"
      "ap_line (acc_id b) money_zero x other" x c] assms(3)
  by (simp add: ap_request_def money_is_money)

lemma ap_request_posts:
  assumes "ledger_wf s" "numbers_bounded s" "get_open_period d s = Inr (Some q)"
    and "account_ready c1 s a" "account_ready c2 s b" "x \<noteq> 0" "v \<in> set journal_voucher_types"
  shows "\<exists>e t. post (ap_request d v a b x party other) actor st i True s = Inr (e, t)"
proof -
  have "\<exists>t. post \<lparr>jer_posting_date = d, jer_voucher_type = v,
      jer_lines = [ap_line (acc_id a) x money_zero (Some party), ap_line (acc_id b) money_zero x other],
      jer_is_opening = False\<rparr> actor st i True s = Inr (posted_entry \<lparr>jer_posting_date = d,
      jer_voucher_type = v, jer_lines = [ap_line (acc_id a) x money_zero (Some party),
      ap_line (acc_id b) money_zero x other], jer_is_opening = False\<rparr> st i True q s, t)"
    by (rule system_pair_posts [OF assms(1-7)]) simp_all
  then show ?thesis by (auto simp: ap_request_def)
qed

lemma exact_ap_request [simp]: "is_money x \<Longrightarrow> exact_request (ap_request d v a b x party other)"
  by (simp add: exact_request_def ap_request_def)

text \<open>Issuing a bill posts it: from a draft, with accounts 2200 and 2100 usable, a period open on the
  posting date and a total other than zero, issuing succeeds, the bill is issued and names its
  entry, the receipt accrual (2200) is debited and payables (2100) credited by exactly the
  total, and no other balance changes.\<close>

theorem bill_issue_posts:
  assumes wf: "ledger_wf s" and nb: "numbers_bounded s"
    and r: "get_bill i s = Some r" "bill_status r = BILL_DRAFT"
    and acc: "account_ready ''2200'' s a" "account_ready ''2100'' s b"
    and p: "get_open_period (bill_posting_date r) s = Inr (Some q)"
    and x: "is_money (bill_total r)" "bill_total r \<noteq> 0"
  shows "\<exists>s' e. bill_issue i actor s = Inr s' \<and> entries s' = entries s @ [e]
    \<and> get_bill i s' = Some (r\<lparr>bill_status := BILL_ISSUED, bill_je_id := Some (je_id e)\<rparr>)
    \<and> je_source_type e = Some ''supplier_bill'' \<and> je_source_id e = Some i \<and> je_status e = JE_POSTED
    \<and> account_net (acc_id a) s' = account_net (acc_id a) s + bill_total r
    \<and> account_net (acc_id b) s' = account_net (acc_id b) s - bill_total r
    \<and> (\<forall>c. c \<noteq> acc_id a \<longrightarrow> c \<noteq> acc_id b \<longrightarrow> account_net c s' = account_net c s)"
proof -
  have v: "''journal_entry'' \<in> set journal_voucher_types" by (simp add: journal_voucher_types_def)
  have id: "bill_id r = i" using r(1) by (rule bill_table.lookup_key)
  let ?req = "ap_request (bill_posting_date r) ''journal_entry'' a b (bill_total r) (bill_supplier_id r)
    (Some (bill_supplier_id r))"
  obtain e t where t: "post ?req (Some actor) (Some ''supplier_bill'') (Some i) True s = Inr (e, t)"
    using ap_request_posts [OF wf nb p acc x(2) v] by blast
  let ?s' = "upd_bill i (\<lambda>b. b\<lparr>bill_status := BILL_ISSUED, bill_je_id := Some (je_id e)\<rparr>) t"
  have "bill_issue i actor s = Inr ?s'"
    using r acc t id by (simp add: bill_issue_def account_ready_def ap_accounts_def ap_request_def)
  moreover have "get_bill i ?s' = Some (r\<lparr>bill_status := BILL_ISSUED, bill_je_id := Some (je_id e)\<rparr>)"
    using r(1) get_bill_cong [OF post_payables(1) [OF t]] by (simp add: bill_table.lookup_update)
  moreover have "account_net c ?s' = account_net c t" for c by (rule account_net_frame) simp_all
  moreover have ne: "acc_id a \<noteq> acc_id b" using ready_distinct [OF wf acc] by simp
  ultimately show ?thesis
    using ap_request_net [OF wf ne x(1) t] post_payables [OF t] by auto
qed

section \<open>Sample state\<close>

definition sample_bill :: "uuid \<Rightarrow> bill_status \<Rightarrow> rat \<Rightarrow> date \<Rightarrow> uuid option \<Rightarrow> supplier_bill" where
  "sample_bill i st x due je = \<lparr>bill_id = i, bill_no = doc_no ''BIL'' 2024 (i - 120), bill_supplier_id = 61,
     bill_po_id = None, bill_grn_id = None, bill_posting_date = 738955, bill_due_date = due,
     bill_currency_code = ''AED'', bill_subtotal = x, bill_tax_total = 0, bill_total = x,
     bill_status = st, bill_je_id = je\<rparr>"

definition sample_supplier_payment :: "uuid \<Rightarrow> rat \<Rightarrow> supplier_payment" where
  "sample_supplier_payment i x = \<lparr>sp_id = i, sp_no = doc_no ''PAY'' 2024 (i - 130), sp_supplier_id = 61,
     sp_payment_date = 738990, sp_amount = x, sp_currency_code = ''AED'', sp_method = ''cash'',
     sp_je_id = None, sp_status = SPM_UNCLEARED\<rparr>"

definition ap_state :: "supplier_bill list \<Rightarrow> supplier_payment list \<Rightarrow> payables" where
  "ap_state bs ps = \<lparr>next_id = 200, today = today sample_books, contacts = contacts sample_books,
     sequences = [(''supplier_bill'', 2024) \<mapsto> 4, (''supplier_payment'', 2024) \<mapsto> 3], audit_log = [],
     accounts = accounts sample_books, periods = periods sample_books, entries = [],
     journal_lines = [], fy_start_month = Some 1, invoices = [], invoice_lines = [],
     customer_payments = [], allocations = [], credit_notes = [], bills = bs, bill_lines = [],
     supplier_payments = ps, bill_allocations = [], debit_notes = []\<rparr>"

definition sample_ap :: payables where
  "sample_ap = ap_state
     [sample_bill 121 BILL_DRAFT 100 738985 None, sample_bill 122 BILL_ISSUED 100 738985 (Some 90),
      sample_bill 123 BILL_ISSUED 40 739100 (Some 91)]
     [sample_supplier_payment 131 100, sample_supplier_payment 132 50]"

declare sample_bill_def [evals] sample_supplier_payment_def [evals] ap_state_def [evals]
  sample_ap_def [evals]

theorem bill_issue_posts_witness:
  "\<exists>s'. bill_issue 121 7 sample_ap = Inr s' \<and> account_net 7 s' = 100 \<and> account_net 6 s' = - 100"
proof -
  have "ledger_wf sample_ap" "numbers_bounded sample_ap"
    "get_bill 121 sample_ap = Some (sample_bill 121 BILL_DRAFT 100 738985 None)"
    "account_ready ''2200'' sample_ap (sample_account 7 ''2200'' LIABILITY True)"
    "account_ready ''2100'' sample_ap (sample_account 6 ''2100'' LIABILITY True)"
    "get_open_period 738955 sample_ap = Inr (Some sample_period)"
    by (simp_all add: ledger_wf_def numbers_bounded_def account_ready_def evals)
  moreover have "account_net c sample_ap = 0" for c
    by (simp add: account_net_lines sample_ap_def ap_state_def)
  ultimately show ?thesis
    using bill_issue_posts [of sample_ap 121 "sample_bill 121 BILL_DRAFT 100 738985 None"
        "sample_account 7 ''2200'' LIABILITY True" "sample_account 6 ''2100'' LIABILITY True" sample_period 7]
    by (auto simp: sample_bill_def sample_account_def)
qed

section \<open>Creating and voiding bills\<close>

lemma bill_totals_eq:
  "bill_totals ls (x, y) = (x + sum_list (map (\<lambda>l. money (blr_qty l * blr_unit_cost l)) ls), y)"
  by (induction ls arbitrary: x y) (simp_all add: add.assoc)

lemma bill_create_Inr:
  assumes "bill_create req s = Inr (i, s')"
  obtains c r where "get_contact (bcr_supplier_id req) s = Some c" "i = next_id s"
    "bill_id r = next_id s"
    "bill_no r = doc_no ''BIL'' (year_of (today s)) (next_value ''supplier_bill'' (year_of (today s)) s)"
    "bill_total r = sum_list (map (\<lambda>l. money (blr_qty l * blr_unit_cost l)) (bcr_lines req))"
    "bill_status r = BILL_DRAFT" "bill_je_id r = None" "bill_no r \<notin> bill_no ` set (bills s)"
    "s' = s\<lparr>next_id := Suc (next_id s), sequences := (sequences s)((''supplier_bill'', year_of (today s)) \<mapsto>
             Suc (next_value ''supplier_bill'' (year_of (today s)) s)),
           bills := bills s @ [r],
           bill_lines := bill_lines s @ map (bill_line_of (next_id s)) (bcr_lines req)\<rparr>"
proof -
  have q: "is_money (sum_list (map (\<lambda>l. money (blr_qty l * blr_unit_cost l)) (bcr_lines req)))"
    by (auto intro!: quantized_sum_list)
  let ?r = "\<lparr>bill_id = next_id s, bill_no = doc_no ''BIL'' (year_of (today s))
             (next_value ''supplier_bill'' (year_of (today s)) s),
           bill_supplier_id = bcr_supplier_id req, bill_po_id = bcr_po_id req,
           bill_grn_id = bcr_grn_id req, bill_posting_date = bcr_posting_date req,
           bill_due_date = bcr_due_date req, bill_currency_code = bcr_currency_code req,
           bill_subtotal = sum_list (map (\<lambda>l. money (blr_qty l * blr_unit_cost l)) (bcr_lines req)),
           bill_tax_total = 0,
           bill_total = sum_list (map (\<lambda>l. money (blr_qty l * blr_unit_cost l)) (bcr_lines req)),
           bill_status = BILL_DRAFT, bill_je_id = None\<rparr>"
  show ?thesis
    by (rule that [of "the (get_contact (bcr_supplier_id req) s)" ?r])
      (use assms in \<open>auto simp: bill_create_def ok_simps next_doc_number_def alloc_number_eq fresh_id_def
        Let_def bill_totals_eq add_bill_def money_is_money [OF q]\<close>)
qed

text \<open>A new bill is a draft without a journal, numbered with the next value of its sequence, whose
  line totals are quantity times cost of the requested values rounded to the money scale, and
  whose total is exactly the sum of the line totals; the sequence advances by one and
  nothing is posted.\<close>

theorem bill_create_totals:
  assumes "bill_create req s = Inr (i, s')"
    and "get_bill (next_id s) s = None" and "lines_of_bill (next_id s) s = []"
  shows "\<exists>r. get_bill i s' = Some r \<and> bill_status r = BILL_DRAFT \<and> bill_je_id r = None
    \<and> bill_no r = doc_no ''BIL'' (year_of (today s)) (next_value ''supplier_bill'' (year_of (today s)) s)
    \<and> next_value ''supplier_bill'' (year_of (today s)) s'
        = Suc (next_value ''supplier_bill'' (year_of (today s)) s)
    \<and> bill_no r \<notin> bill_no ` set (bills s)
    \<and> map bl_line_total (lines_of_bill i s')
        = map (\<lambda>l. money (blr_qty l * blr_unit_cost l)) (bcr_lines req)
    \<and> bill_total r = sum_list (map bl_line_total (lines_of_bill i s')) \<and> is_money (bill_total r)
    \<and> entries s' = entries s \<and> journal_lines s' = journal_lines s"
proof -
  let ?A = "sum_list (map (\<lambda>l. money (blr_qty l * blr_unit_cost l)) (bcr_lines req))"
  have q: "is_money ?A" by (auto intro!: quantized_sum_list)
  from assms(1) obtain c r where "get_contact (bcr_supplier_id req) s = Some c" and i: "i = next_id s"
    and r: "bill_id r = next_id s"
      "bill_no r = doc_no ''BIL'' (year_of (today s)) (next_value ''supplier_bill'' (year_of (today s)) s)"
      "bill_total r = ?A" "bill_status r = BILL_DRAFT" "bill_je_id r = None"
      "bill_no r \<notin> bill_no ` set (bills s)"
    and s': "s' = s\<lparr>next_id := Suc (next_id s), sequences := (sequences s)((''supplier_bill'', year_of (today s)) \<mapsto>
             Suc (next_value ''supplier_bill'' (year_of (today s)) s)),
           bills := bills s @ [r],
           bill_lines := bill_lines s @ map (bill_line_of (next_id s)) (bcr_lines req)\<rparr>"
    by (rule bill_create_Inr)
  have "get_bill i s' = Some r"
    using assms(2) by (simp add: s' i r(1) get_bill_def get_by_append)
  moreover have "lines_of_bill i s' = map (bill_line_of i) (bcr_lines req)"
    using assms(3) by (simp add: s' i lines_of_bill_def filter_map o_def bill_line_of_def)
  moreover have "next_value t y s' = (if t = ''supplier_bill'' \<and> y = year_of (today s)
      then Suc (next_value t y s) else next_value t y s)" for t y
    by (auto simp: s' next_value_def)
  ultimately show ?thesis
    using r q by (simp add: s' o_def bill_line_of_def money_is_money)
qed

theorem bill_create_totals_witness:
  "\<exists>i s' r. bill_create \<lparr>bcr_supplier_id = 61, bcr_posting_date = 738955, bcr_due_date = 738985,
      bcr_currency_code = ''AED'', bcr_lines = [\<lparr>blr_item_id = None, blr_qty = 3, blr_unit_cost = 5 / 2\<rparr>],
      bcr_po_id = None, bcr_grn_id = None\<rparr> sample_ap = Inr (i, s') \<and> get_bill i s' = Some r
    \<and> bill_total r = sum_list (map bl_line_total (lines_of_bill i s'))"
  (is "\<exists>i s' r. bill_create ?req ?s = _ \<and> _")
proof -
  have "\<not> isl (bill_create ?req ?s)" by (simp add: evals doc_no_inject cong: ebind_weak_cong)
  then obtain i s' where "bill_create ?req ?s = Inr (i, s')"
    by (cases "bill_create ?req ?s") auto
  moreover have "get_bill (next_id ?s) ?s = None" "lines_of_bill (next_id ?s) ?s = []"
    by (simp_all add: evals lines_of_bill_def)
  ultimately show ?thesis using bill_create_totals by blast
qed

text \<open>Voiding a bill leaves its journal standing: whatever its status but paid and void, voiding
  succeeds, the bill is void, and no entry, line or balance changes, so the liability an issued
  bill posted to account 2100 stays although the bill no longer counts as outstanding.\<close>

theorem bill_void_keeps_journal:
  assumes "get_bill i s = Some r" and "bill_status r \<noteq> BILL_PAID" and "bill_status r \<noteq> BILL_VOID"
  shows "\<exists>s'. bill_void i actor s = Inr s' \<and> bill_status_of i s' = Some BILL_VOID
    \<and> entries s' = entries s \<and> journal_lines s' = journal_lines s
    \<and> (\<forall>c. account_net c s' = account_net c s)
    \<and> (\<forall>x. r \<noteq> x \<longrightarrow> get_bill (bill_id x) s = Some x \<longrightarrow> get_bill (bill_id x) s' = Some x)"
proof -
  let ?s' = "upd_bill i (\<lambda>b. b\<lparr>bill_status := BILL_VOID\<rparr>) s"
  have "bill_void i actor s = Inr ?s'" using assms by (simp add: bill_void_def)
  moreover have "\<forall>c. account_net c ?s' = account_net c s" by (intro allI account_net_frame) simp_all
  ultimately show ?thesis
    using assms(1) by (auto simp: bill_status_of_def bill_table.lookup_update)
qed

theorem bill_void_keeps_journal_witness:
  "\<exists>s'. bill_void 122 7 sample_ap = Inr s' \<and> bill_status_of 122 s' = Some BILL_VOID"
proof -
  have "get_bill 122 sample_ap = Some (sample_bill 122 BILL_ISSUED 100 738985 (Some 90))"
    by (simp add: evals)
  with bill_void_keeps_journal [of 122 sample_ap "sample_bill 122 BILL_ISSUED 100 738985 (Some 90)" 7]
  show ?thesis by (auto simp: sample_bill_def)
qed

section \<open>Allocation\<close>

lemma bill_allocate_Inr:
  assumes "bill_allocate p req s = Inr s'"
  obtains pay b s1 where "get_supplier_payment p s = Some pay" "get_bill (bar_bill_id req) s = Some b"
    "bill_supplier_id b = sp_supplier_id pay" "bill_status b \<in> {BILL_ISSUED, BILL_OVERDUE}"
    "sum_bill_allocated (bar_bill_id req) s + bar_amount req \<le> bill_total b"
    "s1 = s\<lparr>bill_allocations := bill_allocations s @ [\<lparr>ba_payment_id = p, ba_bill_id = bar_bill_id req,
        ba_amount = money (bar_amount req)\<rparr>]\<rparr>"
    "s' = (if sum_bill_allocated (bar_bill_id req) s + bar_amount req \<ge> bill_total b
       then upd_bill (bar_bill_id req) (\<lambda>b. b\<lparr>bill_status := BILL_PAID\<rparr>) s1 else s1)"
  using assms bill_table.lookup_key [of "bar_bill_id req" s]
  by (auto simp: bill_allocate_def create_bill_allocation_def ok_simps Let_def not_less algebra_simps)

lemma bill_allocate_step:
  assumes run: "bill_allocate p req s = Inr s'" and ex: "is_money (bar_amount req)"
    and b: "get_bill i s = Some b"
  shows "\<exists>b'. get_bill i s' = Some b' \<and> bill_total b' = bill_total b
    \<and> sum_bill_allocated i s' = sum_bill_allocated i s + (if bar_bill_id req = i then bar_amount req else 0)
    \<and> (sum_bill_allocated i s \<le> bill_total b \<longrightarrow> sum_bill_allocated i s' \<le> bill_total b)
    \<and> (if bar_bill_id req = i then (bill_status b' = BILL_PAID) = (sum_bill_allocated i s' = bill_total b)
       else b' = b)"
proof -
  from run obtain pay b1 s1 where g: "get_bill (bar_bill_id req) s = Some b1"
    "bill_status b1 \<in> {BILL_ISSUED, BILL_OVERDUE}"
    "sum_bill_allocated (bar_bill_id req) s + bar_amount req \<le> bill_total b1"
    and s1: "s1 = s\<lparr>bill_allocations := bill_allocations s @ [\<lparr>ba_payment_id = p,
        ba_bill_id = bar_bill_id req, ba_amount = money (bar_amount req)\<rparr>]\<rparr>"
    and s': "s' = (if sum_bill_allocated (bar_bill_id req) s + bar_amount req \<ge> bill_total b1
       then upd_bill (bar_bill_id req) (\<lambda>b. b\<lparr>bill_status := BILL_PAID\<rparr>) s1 else s1)"
    by (rule bill_allocate_Inr)
  have "bill_allocations s' = bill_allocations s1" using s' by simp
  then have sum: "sum_bill_allocated i s' = sum_bill_allocated i s
      + (if bar_bill_id req = i then bar_amount req else 0)"
    using ex by (simp add: sum_bill_allocated_def s1 money_is_money)
  have "get_bill i s1 = get_bill i s" using s1 by (simp add: get_bill_def)
  then show ?thesis
    using sum g b s' by (auto simp: bill_table.lookup_update)
qed



text \<open>
  An allocation is checked and accumulated with the value of the request but stored with four
  decimals. A request just below the open total of a bill rounds up to it: the stored
  allocation covers the bill in full, yet the bill stays unpaid, and every further
  allocation to it is refused, so it can never become paid.\<close>

theorem bill_rounding_stuck:
  assumes p: "get_supplier_payment p s = Some pay" "sp_status pay \<noteq> SPM_VOID"
    and b: "get_bill i s = Some b" "bill_status b = BILL_ISSUED" "bill_supplier_id b = sp_supplier_id pay"
    and none: "\<forall>a\<in>set (bill_allocations s). ba_bill_id a \<noteq> i"
    and x: "x < bill_total b" "money x = bill_total b" "y > 0"
  shows "\<exists>s'. bill_allocate p \<lparr>bar_bill_id = i, bar_amount = x\<rparr> s = Inr s'
    \<and> sum_bill_allocated i s' = bill_total b \<and> bill_status_of i s' = Some BILL_ISSUED
    \<and> (\<exists>e. bill_allocate q \<lparr>bar_bill_id = i, bar_amount = y\<rparr> s' = Inl e)"
proof -
  let ?s' = "s\<lparr>bill_allocations := bill_allocations s @ [\<lparr>ba_payment_id = p, ba_bill_id = i,
    ba_amount = money x\<rparr>]\<rparr>"
  have "filter (\<lambda>a. ba_bill_id a = i) (bill_allocations s) = []"
    using none by (auto simp: filter_empty_conv)
  then have z: "sum_bill_allocated i s = 0" by (simp add: sum_bill_allocated_def)
  then have sum: "sum_bill_allocated i ?s' = bill_total b"
    using x(2) by (simp add: sum_bill_allocated_def)
  have id: "bill_id b = i" using b(1) by (rule bill_table.lookup_key)
  have "bill_allocate p \<lparr>bar_bill_id = i, bar_amount = x\<rparr> s = Inr ?s'"
    using p b none x z id
    by (auto simp: bill_allocate_def create_bill_allocation_def Let_def ensure_def)
  moreover have g: "get_bill i ?s' = Some b" using b(1) by (simp add: get_bill_def)
  moreover have "\<exists>e. bill_allocate q \<lparr>bar_bill_id = i, bar_amount = y\<rparr> ?s' = Inl e"
  proof (cases "bill_allocate q \<lparr>bar_bill_id = i, bar_amount = y\<rparr> ?s'")
    case (Inr t)
    then obtain c where "get_bill i ?s' = Some c" "sum_bill_allocated i ?s' + y \<le> bill_total c"
      by (auto elim!: bill_allocate_Inr)
    with g sum x(3) show ?thesis by simp
  qed simp
  ultimately show ?thesis using sum b(2) by (auto simp: bill_status_of_def)
qed

theorem bill_rounding_stuck_witness:
  "\<exists>s'. bill_allocate 131 \<lparr>bar_bill_id = 122, bar_amount = 9999996 / 100000\<rparr> sample_ap = Inr s'
    \<and> sum_bill_allocated 122 s' = 100 \<and> bill_status_of 122 s' = Some BILL_ISSUED
    \<and> (\<exists>e. bill_allocate 132 \<lparr>bar_bill_id = 122, bar_amount = 1 / 10000\<rparr> s' = Inl e)"
proof -
  have "get_supplier_payment 131 sample_ap = Some (sample_supplier_payment 131 100)"
    "get_bill 122 sample_ap = Some (sample_bill 122 BILL_ISSUED 100 738985 (Some 90))"
    "bill_allocations sample_ap = []" "money (9999996 / 100000) = 100"
    by (simp_all add: evals money_def quantize_def round_half_up_def)
  with bill_rounding_stuck [of 131 sample_ap "sample_supplier_payment 131 100" 122
      "sample_bill 122 BILL_ISSUED 100 738985 (Some 90)" "9999996 / 100000" "1 / 10000" 132]
  show ?thesis by (simp add: sample_supplier_payment_def sample_bill_def)
qed

text \<open>
  Nothing caps what a supplier payment is allocated to: a payment of 50 pays a bill of
  100 in full.\<close>

theorem supplier_payment_over_allocated:
  "\<exists>s'. bill_allocate 132 \<lparr>bar_bill_id = 122, bar_amount = 100\<rparr> sample_ap = Inr s'
     \<and> bill_status_of 122 s' = Some BILL_PAID
     \<and> map_option sp_amount (get_supplier_payment 132 s') = Some 50"
proof -
  let ?r = "bill_allocate 132 \<lparr>bar_bill_id = 122, bar_amount = 100\<rparr> sample_ap"
  have r: "\<not> isl ?r" "bill_status_of 122 (projr ?r) = Some BILL_PAID"
    "map_option sp_amount (get_supplier_payment 132 (projr ?r)) = Some 50"
    by (simp_all add: evals bill_status_of_def cong: ebind_weak_cong)
  have "?r = Inr (projr ?r)" by (rule not_isl_Inr, fact r(1))
  with r(2,3) show ?thesis by blast
qed

end
