(* ===== verification/PayablesReports.thy ===== *)
theory PayablesReports
  imports PayablesProps
begin

text \<open>
  The ageing report of accounts payable, against the sums it stands for, and the
  document numbers of debit notes, which share a sequence with the ledger.
\<close>

section \<open>The ageing report\<close>

text \<open>What the dictionary holds for a supplier and a bucket label.\<close>

definition bucket_amounts :: "date \<Rightarrow> supplier_bill list \<Rightarrow> uuid \<Rightarrow> string \<Rightarrow> rat list" where
  "bucket_amounts on bs sid label = map bill_total
     (filter (\<lambda>b. bill_supplier_id b = sid \<and> snd (compute_age_bucket on (bill_due_date b)) = label) bs)"

lemma ageing_fold:
  "map_of (fold (ageing_step on) bs []) sid =
     (if sid \<in> bill_supplier_id ` set bs then Some (bucket_amounts on bs sid) else None)
   \<and> distinct (map fst (fold (ageing_step on) bs []))"
proof (induction bs arbitrary: sid rule: rev_induct)
  case (snoc b bs)
  let ?l = "fold (ageing_step on) bs []"
  have none: "bucket_amounts on bs x = (\<lambda>_. [])" if "x \<notin> bill_supplier_id ` set bs" for x
    using that by (auto simp: bucket_amounts_def filter_empty_conv fun_eq_iff)
  have old: "(case map_of ?l x of None \<Rightarrow> (\<lambda>_. []) | Some d \<Rightarrow> d) = bucket_amounts on bs x" for x
    using snoc.IH [of x] none [of x] by simp
  let ?v = "(bucket_amounts on bs (bill_supplier_id b))(snd (compute_age_bucket on (bill_due_date b)) :=
        bucket_amounts on bs (bill_supplier_id b) (snd (compute_age_bucket on (bill_due_date b))) @ [bill_total b])"
  have step: "fold (ageing_step on) (bs @ [b]) [] = AList.update (bill_supplier_id b) ?v ?l"
    by (simp add: ageing_step_def [of on b] Let_def old)
  have "distinct (map fst ?l)" using snoc.IH by blast
  moreover have "bucket_amounts on (bs @ [b]) sid =
      (if sid = bill_supplier_id b then ?v else bucket_amounts on bs sid)"
    by (auto simp: bucket_amounts_def fun_eq_iff)
  ultimately show ?case
    using snoc.IH [of sid] unfolding step by (simp add: update_conv' distinct_update)
qed simp

lemma age_bucket_covers:
  "length (filter (\<lambda>t. snd (compute_age_bucket on d) = fst t) ap_ageing_buckets) = 1"
  by (simp add: compute_age_bucket_def ap_ageing_buckets_def Let_def)

lemma ap_ageing_of_eq:
  "ap_ageing_of (sid, d) = \<lparr>aa_supplier_id = sid,
     aa_buckets = map (\<lambda>t. (fst t, length (d (fst t)), sum_list (d (fst t)))) ap_ageing_buckets,
     aa_total_outstanding = sum_list (map (\<lambda>t. sum_list (d (fst t))) ap_ageing_buckets)\<rparr>"
proof -
  have z: "(if xs = [] then money_zero else foldl (+) money_zero xs) = sum_list xs" for xs :: "rat list"
    by (simp add: foldl_plus_sum_list)
  show ?thesis
    by (simp add: ap_ageing_of_def Let_def ap_ageing_buckets_def z)
qed

lemma list_outstanding_mset:
  "length (filter (bill_outstanding c) (bills s)) \<le> n \<Longrightarrow>
     mset (list_outstanding_bills c n 0 s) = mset (filter (bill_outstanding c) (bills s))"
  by (simp add: list_outstanding_bills_def)

text \<open>The payables ageing report loses nothing: with at most 10,000 outstanding bills it has one
  line for each supplier that has one, and that line's total is the sum of the totals
  of the supplier's outstanding bills, whatever their due dates (a bill that is not yet
  due counts as current).\<close>

theorem ap_ageing_complete:
  assumes "length (filter (bill_outstanding c) (bills s)) \<le> 10000"
  shows "distinct (map aa_supplier_id (ap_get_ageing c s))
    \<and> set (map aa_supplier_id (ap_get_ageing c s))
        = bill_supplier_id ` set (filter (bill_outstanding c) (bills s))
    \<and> (\<forall>a\<in>set (ap_get_ageing c s). aa_total_outstanding a = sum_list (map bill_total
          (filter (\<lambda>b. bill_outstanding c b \<and> bill_supplier_id b = aa_supplier_id a) (bills s)))
        \<and> aa_total_outstanding a = sum_list (map (\<lambda>t. snd (snd t)) (aa_buckets a)))"
proof -
  let ?bs = "list_outstanding_bills c 10000 0 s"
  let ?l = "fold (ageing_step (today s)) ?bs []"
  note m = list_outstanding_mset [OF assms]
  have rep: "ap_get_ageing c s = map ap_ageing_of ?l" by (simp add: ap_get_ageing_def)
  have ids: "map aa_supplier_id (ap_get_ageing c s) = map fst ?l"
    unfolding rep map_map by (rule map_cong) (auto simp: ap_ageing_of_eq)
  note fold = ageing_fold [of "today s" ?bs]
  have dist: "distinct (map fst ?l)" using fold by blast
  have "set (map fst ?l) = dom (map_of ?l)" by (simp add: dom_map_of_conv_image_fst)
  also have "\<dots> = bill_supplier_id ` set ?bs" using fold by (auto simp: dom_def)
  also have "\<dots> = bill_supplier_id ` set (filter (bill_outstanding c) (bills s))"
    using m by (metis set_mset_mset)
  finally have set: "set (map fst ?l) = bill_supplier_id ` set (filter (bill_outstanding c) (bills s))" .
  have tot: "aa_total_outstanding a = sum_list (map bill_total
          (filter (\<lambda>b. bill_outstanding c b \<and> bill_supplier_id b = aa_supplier_id a) (bills s)))
        \<and> aa_total_outstanding a = sum_list (map (\<lambda>t. snd (snd t)) (aa_buckets a))"
    if "a \<in> set (ap_get_ageing c s)" for a
  proof -
    from that obtain sid d where a: "a = ap_ageing_of (sid, d)" and "(sid, d) \<in> set ?l"
      by (auto simp: rep)
    then have "map_of ?l sid = Some d" using dist by simp
    then have d: "d = bucket_amounts (today s) ?bs sid" using fold by (metis option.distinct(1) option.inject)
    let ?mine = "filter (\<lambda>b. bill_supplier_id b = sid) ?bs"
    have "aa_total_outstanding a = sum_list (map (\<lambda>t. sum_list (map bill_total
        (filter (\<lambda>b. snd (compute_age_bucket (today s) (bill_due_date b)) = fst t) ?mine))) ap_ageing_buckets)"
      by (simp add: a ap_ageing_of_eq d bucket_amounts_def conj_commute)
    also have "\<dots> = sum_list (map bill_total (filter (\<lambda>b. True) ?mine))"
      by (rule sum_filter_buckets) (simp add: age_bucket_covers)
    also have "\<dots> = sum_list (map bill_total (filter (\<lambda>b. bill_supplier_id b = sid)
        (filter (bill_outstanding c) (bills s))))"
      by (rule sum_list_mset_cong) (simp add: m del: filter_filter)
    finally show ?thesis
      by (simp add: a ap_ageing_of_eq o_def conj_commute)
  qed
  with dist set show ?thesis unfolding ids by blast
qed

lemma distinct_singleton_list: "distinct xs \<Longrightarrow> set xs = {x} \<Longrightarrow> xs = [x]"
  by (cases xs) (auto simp: subset_singleton_iff)

theorem ap_ageing_complete_witness:
  "map (\<lambda>a. (aa_supplier_id a, aa_total_outstanding a)) (ap_get_ageing None sample_ap) = [(61, 140)]"
proof -
  have f: "filter (bill_outstanding None) (bills sample_ap)
      = [sample_bill 122 BILL_ISSUED 100 738985 (Some 90), sample_bill 123 BILL_ISSUED 40 739100 (Some 91)]"
    by (simp add: evals)
  have g: "sum_list (map bill_total (filter (\<lambda>b. bill_outstanding None b \<and> bill_supplier_id b = 61)
      (bills sample_ap))) = 140"
    by (simp add: evals)
  have "length (filter (bill_outstanding None) (bills sample_ap)) \<le> 10000" by (simp add: f)
  note c = ap_ageing_complete [OF this]
  have "set (map aa_supplier_id (ap_get_ageing None sample_ap)) = {61}"
    using c by (simp add: f sample_bill_def)
  then have "map aa_supplier_id (ap_get_ageing None sample_ap) = [61]"
    using c by (intro distinct_singleton_list) auto
  with c g show ?thesis by (cases "ap_get_ageing None sample_ap") auto
qed

section \<open>Debit note numbers\<close>

lemma debit_note_create_Inr:
  assumes "debit_note_create req s = Inr (i, s')"
  shows "entries s' = entries s \<and> i = next_id s
    \<and> next_value ''debit_note'' (year_of (today s)) s' = Suc (next_value ''debit_note'' (year_of (today s)) s)
    \<and> (\<exists>n. debit_notes s' = debit_notes s @ [n] \<and> dn_id n = i
          \<and> dn_no n = doc_no ''DBN'' (year_of (today s)) (next_value ''debit_note'' (year_of (today s)) s))"
  using assms
  by (auto simp: debit_note_create_def ok_simps next_doc_number_def alloc_number_eq fresh_id_def Let_def
      add_debit_note_def next_value_def split: option.splits)

text \<open>
  Creating a debit note breaks the gapless numbering of the ledger's debit-note vouchers: both
  draw from the sequence row \<open>debit_note\<close>. After any successful creation the number
  the debit note took, which has the form of an entry number, belongs to no entry, and the
  entries of the type no longer use all numbers below the next one.\<close>

theorem debit_note_breaks_gapless:
  assumes "debit_note_create req s = Inr (i, s')"
    and "gapless ''debit_note'' (year_of (today s)) s"
    and "1 \<le> next_value ''debit_note'' (year_of (today s)) s"
  shows "\<not> gapless ''debit_note'' (year_of (today s)) s'
    \<and> (\<exists>n\<in>set (debit_notes s'). dn_id n = i
          \<and> dn_no n = doc_no (entry_prefix ''debit_note'') (year_of (today s))
               (next_value ''debit_note'' (year_of (today s)) s)
          \<and> dn_no n \<notin> set (voucher_numbers ''debit_note'' (year_of (today s)) s'))"
proof -
  let ?y = "year_of (today s)"
  let ?n = "next_value ''debit_note'' ?y s"
  from debit_note_create_Inr [OF assms(1)] obtain n where e: "entries s' = entries s"
    and v: "next_value ''debit_note'' ?y s' = Suc ?n"
    and n: "debit_notes s' = debit_notes s @ [n]" "dn_id n = i" "dn_no n = doc_no ''DBN'' ?y ?n"
    by blast
  have pre: "entry_prefix ''debit_note'' = ''DBN''" by (simp add: entry_prefix_def)
  have vn: "voucher_numbers ''debit_note'' ?y s' = map (doc_no ''DBN'' ?y) [1..<?n]"
    using assms(2) by (simp add: voucher_numbers_def e gapless_def pre)
  then have "length (voucher_numbers ''debit_note'' ?y s') = ?n - 1" by simp
  then have "\<not> gapless ''debit_note'' ?y s'" using assms(3) v by (auto simp: gapless_def)
  moreover have "dn_no n \<notin> set (voucher_numbers ''debit_note'' ?y s')"
    unfolding vn n(3) by (auto simp: doc_no_inject)
  ultimately show ?thesis using n pre by auto
qed

theorem debit_note_breaks_gapless_witness:
  "\<exists>i s'. debit_note_create \<lparr>dncr_supplier_id = 61, dncr_bill_id = Some 122, dncr_date = 738990,
      dncr_amount = 10, dncr_reason = ''other'', dncr_currency_code = ''AED''\<rparr> sample_ap = Inr (i, s')
    \<and> gapless ''debit_note'' 2024 sample_ap \<and> \<not> gapless ''debit_note'' 2024 s'"
  (is "\<exists>i s'. debit_note_create ?req _ = _ \<and> _")
proof -
  have "\<not> isl (debit_note_create ?req sample_ap)" by (simp add: evals cong: ebind_weak_cong)
  then obtain i s' where r: "debit_note_create ?req sample_ap = Inr (i, s')"
    by (cases "debit_note_create ?req sample_ap") auto
  have y: "year_of (today sample_ap) = 2024" "next_value ''debit_note'' 2024 sample_ap = 1"
    "voucher_numbers ''debit_note'' 2024 sample_ap = []"
    by (simp_all add: evals voucher_numbers_def)
  then have "gapless ''debit_note'' 2024 sample_ap" by (simp add: gapless_def)
  with debit_note_breaks_gapless [OF r] y r show ?thesis by auto
qed

end
