(* ===== verification/PayablesLedger.thy ===== *)
theory PayablesLedger
  imports PayablesReports
begin

text \<open>
  Accounts payable against the general ledger: the invariant \<open>ap_inv\<close> says that every issued
  bill, cleared payment and issued debit note names an entry of the journal that names it back,
  and that the balance of the control account 2100 is what these documents add up to. Every
  operation of the ledger, of receivables and of payables keeps it.
\<close>

section \<open>The invariant\<close>

definition entry_for :: "'a ledger_scheme \<Rightarrow> string \<Rightarrow> uuid \<Rightarrow> uuid \<Rightarrow> bool" where
  "entry_for s t i j = (\<exists>e\<in>set (entries s). je_id e = j \<and> je_source_type e = Some t \<and> je_source_id e = Some i)"

definition bill_linked :: "'a ledger_scheme \<Rightarrow> supplier_bill \<Rightarrow> bool" where
  "bill_linked s b = (is_money (bill_total b) \<and> bill_id b < next_id s
     \<and> (bill_status b = BILL_DRAFT \<longrightarrow> bill_je_id b = None)
     \<and> (bill_status b \<in> {BILL_ISSUED, BILL_OVERDUE, BILL_PAID} \<longrightarrow> bill_je_id b \<noteq> None)
     \<and> (\<forall>j. bill_je_id b = Some j \<longrightarrow> entry_for s ''supplier_bill'' (bill_id b) j))"

definition payment_linked :: "'a ledger_scheme \<Rightarrow> supplier_payment \<Rightarrow> bool" where
  "payment_linked s p = (is_money (sp_amount p) \<and> sp_id p < next_id s
     \<and> (sp_status p = SPM_CLEARED) = (sp_je_id p \<noteq> None)
     \<and> (\<forall>j. sp_je_id p = Some j \<longrightarrow> entry_for s ''supplier_payment'' (sp_id p) j))"

definition note_linked :: "'a ledger_scheme \<Rightarrow> debit_note \<Rightarrow> bool" where
  "note_linked s n = (is_money (dn_amount n) \<and> dn_id n < next_id s
     \<and> (dn_status n = DN_DRAFT \<longrightarrow> dn_je_id n = None)
     \<and> (dn_status n = DN_ISSUED \<longrightarrow> dn_je_id n \<noteq> None)
     \<and> (\<forall>j. dn_je_id n = Some j \<longrightarrow> entry_for s ''debit_note'' (dn_id n) j))"

definition ap_docs :: "'a payables_scheme \<Rightarrow> bool" where
  "ap_docs s = (distinct (map bill_id (bills s)) \<and> distinct (map sp_id (supplier_payments s))
     \<and> distinct (map dn_id (debit_notes s)) \<and> (\<forall>b\<in>set (bills s). bill_linked s b)
     \<and> (\<forall>p\<in>set (supplier_payments s). payment_linked s p) \<and> (\<forall>n\<in>set (debit_notes s). note_linked s n))"

text \<open>What is owed to suppliers by the documents that have a journal.\<close>

definition journaled :: "('r \<Rightarrow> uuid option) \<Rightarrow> ('r \<Rightarrow> rat) \<Rightarrow> 'r list \<Rightarrow> rat" where
  "journaled je amount rs = sum_list (map (\<lambda>r. if je r = None then 0 else amount r) rs)"

definition ap_balance :: "'a payables_scheme \<Rightarrow> rat" where
  "ap_balance s = journaled bill_je_id bill_total (bills s)
     - journaled sp_je_id sp_amount (supplier_payments s) - journaled dn_je_id dn_amount (debit_notes s)"

definition ap_inv :: "account \<Rightarrow> 'a payables_scheme \<Rightarrow> bool" where
  "ap_inv a s = (ledger_inv s \<and> control_ok s \<and> get_account_by_code ''2100'' s = Some a \<and> acc_is_control a
     \<and> ap_docs s \<and> account_net (acc_id a) s = - ap_balance s)"

lemma journaled_append [simp]: "journaled je am (xs @ [x]) = journaled je am xs + (if je x = None then 0 else am x)"
  by (simp add: journaled_def)

lemma sum_list_upd_by:
  fixes g :: "'r \<Rightarrow> rat"
  assumes "distinct (map key rs)" "get_by key k rs = Some r"
  shows "sum_list (map g (upd_by key k f rs)) = sum_list (map g rs) + g (f r) - g r"
  using assms
proof (induction rs)
  case (Cons x xs)
  have "upd_by key k f xs = xs" if "k \<notin> key ` set xs"
    using that by (induction xs) auto
  with Cons show ?case by (auto split: if_splits)
qed simp

lemma journaled_upd:
  assumes "distinct (map key rs)" "get_by key k rs = Some r"
  shows "journaled je am (upd_by key k f rs) = journaled je am rs
     + (if je (f r) = None then 0 else am (f r)) - (if je r = None then 0 else am r)"
  unfolding journaled_def by (rule sum_list_upd_by [OF assms])

lemma journaled_map:
  assumes "\<And>r. r \<in> set rs \<Longrightarrow> je (f r) = je r \<and> am (f r) = am r"
  shows "journaled je am (map f rs) = journaled je am rs"
  using assms unfolding journaled_def map_map by (intro arg_cong [where f = sum_list] map_cong) auto

section \<open>Frames\<close>

lemma entry_for_kept: "entry_for s t i j \<Longrightarrow> entries_kept s s' \<Longrightarrow> entry_for s' t i j"
  unfolding entry_for_def entries_kept_def by metis

lemma linked_kept:
  assumes "entries_kept s s'" "next_id s \<le> next_id s'"
  shows "bill_linked s b \<Longrightarrow> bill_linked s' b" "payment_linked s p \<Longrightarrow> payment_linked s' p"
    "note_linked s n \<Longrightarrow> note_linked s' n"
  using entry_for_kept [OF _ assms(1)] assms(2)
  by (auto simp: bill_linked_def payment_linked_def note_linked_def intro: less_le_trans)

lemma ap_docs_kept:
  assumes "ap_docs s" "entries_kept s s'" "next_id s \<le> next_id s'" "bills s' = bills s"
    "supplier_payments s' = supplier_payments s" "debit_notes s' = debit_notes s"
  shows "ap_docs s'" "ap_balance s' = ap_balance s"
  using assms linked_kept [OF assms(2,3)] by (auto simp: ap_docs_def ap_balance_def)

lemma control_ok_frame:
  assumes "control_ok s" "entries s' = entries s" "journal_lines s' = journal_lines s" "accounts s' = accounts s"
  shows "control_ok s'"
  using assms by (simp add: control_ok_def entry_lines_def)

text \<open>A step that leaves the ledger's tables alone keeps the invariant if the documents stay linked.\<close>

lemma ap_inv_frame:
  assumes "ap_inv a s" "entries s' = entries s" "journal_lines s' = journal_lines s"
    "accounts s' = accounts s" "next_id s \<le> next_id s'" "ap_docs s'" "ap_balance s' = ap_balance s"
  shows "ap_inv a s'"
  using assms ledger_inv_frame [OF _ assms(2-5)] control_ok_frame [OF _ assms(2-4)]
    account_net_frame [OF assms(2,3), of "acc_id a"]
  by (simp add: ap_inv_def get_account_by_code_def)

lemma ap_inv_same:
  assumes "ap_inv a s" "entries s' = entries s" "journal_lines s' = journal_lines s"
    "accounts s' = accounts s" "next_id s \<le> next_id s'" "bills s' = bills s"
    "supplier_payments s' = supplier_payments s" "debit_notes s' = debit_notes s"
  shows "ap_inv a s'"
  using assms(1) ap_docs_kept [OF _ entries_kept_refl [OF assms(2)] assms(5-8)]
  by (intro ap_inv_frame [OF assms(1-5)]) (auto simp: ap_inv_def)

text \<open>A change of the status of bills that have a journal.\<close>

lemma ap_inv_status:
  assumes inv: "ap_inv a s" and same: "entries s' = entries s" "journal_lines s' = journal_lines s"
    "accounts s' = accounts s" "next_id s' = next_id s" "supplier_payments s' = supplier_payments s"
    "debit_notes s' = debit_notes s"
    and b: "bills s' = map f (bills s)"
    and f: "\<And>b. b \<in> set (bills s) \<Longrightarrow> bill_id (f b) = bill_id b \<and> bill_total (f b) = bill_total b
      \<and> bill_je_id (f b) = bill_je_id b \<and> (f b = b \<or> bill_status (f b) = BILL_VOID
          \<or> bill_je_id b \<noteq> None \<and> bill_status (f b) \<noteq> BILL_DRAFT)"
  shows "ap_inv a s'"
proof (rule ap_inv_frame [OF inv same(1-3)])
  have docs: "ap_docs s" using inv by (simp add: ap_inv_def)
  have ids: "map (bill_id \<circ> f) (bills s) = map bill_id (bills s)" using f by (intro map_cong) auto
  have "distinct (map (bill_id \<circ> f) (bills s))"
    unfolding ids using docs by (simp add: ap_docs_def)
  moreover have "bill_linked s' (f b)" if "b \<in> set (bills s)" for b
    using docs f [OF that] that same(1,4)
    by (auto simp: ap_docs_def bill_linked_def entry_for_def)
  moreover have "payment_linked s' = payment_linked s" "note_linked s' = note_linked s"
    using same by (auto simp: payment_linked_def note_linked_def entry_for_def fun_eq_iff)
  ultimately show "ap_docs s'" using docs b same by (auto simp: ap_docs_def)
  show "ap_balance s' = ap_balance s"
    using b same f by (simp add: ap_balance_def journaled_map)
qed (simp add: same)

text \<open>New documents: drafts under the fresh identifier.\<close>

lemma ap_inv_add:
  assumes inv: "ap_inv a s" and same: "entries s' = entries s" "journal_lines s' = journal_lines s"
    "accounts s' = accounts s" "next_id s' = Suc (next_id s)"
    and new: "bills s' = bills s @ nb" "supplier_payments s' = supplier_payments s @ np"
      "debit_notes s' = debit_notes s @ nn"
    and one: "length nb \<le> 1" "length np \<le> 1" "length nn \<le> 1"
    and nb: "\<forall>b\<in>set nb. bill_id b = next_id s \<and> bill_je_id b = None \<and> bill_linked s' b"
    and np: "\<forall>p\<in>set np. sp_id p = next_id s \<and> sp_je_id p = None \<and> payment_linked s' p"
    and nn: "\<forall>n\<in>set nn. dn_id n = next_id s \<and> dn_je_id n = None \<and> note_linked s' n"
  shows "ap_inv a s'"
proof -
  have dist: "distinct (map k ys)" if "length ys \<le> 1" for ys :: "'r list" and k :: "'r \<Rightarrow> uuid"
    using that by (cases ys) auto
  have zero: "journaled je am ys = 0" if "\<forall>y\<in>set ys. je y = None"
    for ys :: "'r list" and je and am
    using that by (induction ys) (auto simp: journaled_def)
  have app: "journaled je am (xs @ ys) = journaled je am xs + journaled je am ys"
    for xs ys :: "'r list" and je and am
    by (simp add: journaled_def)
  have docs: "ap_docs s" using inv by (simp add: ap_inv_def)
  then have lt: "\<forall>b\<in>set (bills s). bill_id b < next_id s" "\<forall>p\<in>set (supplier_payments s). sp_id p < next_id s"
    "\<forall>n\<in>set (debit_notes s). dn_id n < next_id s"
    by (auto simp: ap_docs_def bill_linked_def payment_linked_def note_linked_def)
  have mono: "next_id s \<le> next_id s'" using same by simp
  have bills: "distinct (map bill_id (bills s'))" "\<forall>b\<in>set (bills s'). bill_linked s' b"
    using docs nb lt(1) linked_kept(1) [OF entries_kept_refl [OF same(1)] mono] dist [OF one(1), of bill_id]
    by (fastforce simp: ap_docs_def new)+
  have payments: "distinct (map sp_id (supplier_payments s'))"
      "\<forall>b\<in>set (supplier_payments s'). payment_linked s' b"
    using docs np lt(2) linked_kept(2) [OF entries_kept_refl [OF same(1)] mono] dist [OF one(2), of sp_id]
    by (fastforce simp: ap_docs_def new)+
  have dns: "distinct (map dn_id (debit_notes s'))" "\<forall>b\<in>set (debit_notes s'). note_linked s' b"
    using docs nn lt(3) linked_kept(3) [OF entries_kept_refl [OF same(1)] mono] dist [OF one(3), of dn_id]
    by (fastforce simp: ap_docs_def new)+
  have "ap_docs s'" using bills payments dns by (simp add: ap_docs_def)
  moreover have "ap_balance s' = ap_balance s"
    using nb np nn by (simp add: ap_balance_def new app zero)
  ultimately show ?thesis
    using ap_inv_frame [OF inv same(1-3) mono] by blast
qed

section \<open>The operations of payables keep it\<close>

lemma bill_create_keeps:
  assumes inv: "ap_inv a s" and r: "bill_create req s = Inr (i, s')"
  shows "ap_inv a s'"
proof -
  from r obtain c b where "get_contact (bcr_supplier_id req) s = Some c" and i: "i = next_id s"
    and b: "bill_id b = next_id s"
      "bill_no b = doc_no ''BIL'' (year_of (today s)) (next_value ''supplier_bill'' (year_of (today s)) s)"
      "bill_total b = sum_list (map (\<lambda>l. money (blr_qty l * blr_unit_cost l)) (bcr_lines req))"
      "bill_status b = BILL_DRAFT" "bill_je_id b = None" "bill_no b \<notin> bill_no ` set (bills s)"
    and s': "s' = s\<lparr>next_id := Suc (next_id s), sequences := (sequences s)((''supplier_bill'', year_of (today s)) \<mapsto>
             Suc (next_value ''supplier_bill'' (year_of (today s)) s)), bills := bills s @ [b],
           bill_lines := bill_lines s @ map (bill_line_of (next_id s)) (bcr_lines req)\<rparr>"
    by (rule bill_create_Inr)
  have "is_money (bill_total b)" unfolding b(3) by (auto intro!: quantized_sum_list)
  then show ?thesis
    by (intro ap_inv_add [OF inv, where nb = "[b]" and np = "[]" and nn = "[]"])
      (simp_all add: b(1,4,5) s' bill_linked_def)
qed

lemma upd_by_map: "upd_by key k f rs = map (\<lambda>r. if key r = k then f r else r) rs"
  by (simp add: upd_by_def)

lemma bill_void_keeps:
  assumes inv: "ap_inv a s" and r: "bill_void i actor s = Inr s'"
  shows "ap_inv a s'"
proof -
  from r have "s' = upd_bill i (\<lambda>b. b\<lparr>bill_status := BILL_VOID\<rparr>) s"
    by (auto simp: bill_void_def ok_simps)
  then show ?thesis
    by (intro ap_inv_status [OF inv, where f = "\<lambda>b. if bill_id b = i then b\<lparr>bill_status := BILL_VOID\<rparr> else b"])
      (simp_all add: upd_bill_def upd_by_def)
qed

lemma ap_sweep_keeps:
  assumes inv: "ap_inv a s" and r: "ap_recompute_ageing s = (n, s')"
  shows "ap_inv a s'"
proof -
  have "bill_je_id b \<noteq> None" if "b \<in> set (bills s)" "bill_status b = BILL_ISSUED" for b
    using inv that by (auto simp: ap_inv_def ap_docs_def bill_linked_def)
  then show ?thesis
    using r by (intro ap_inv_status [OF inv, where f = "\<lambda>b. if bill_status b = BILL_ISSUED
        \<and> bill_due_date b < today s then b\<lparr>bill_status := BILL_OVERDUE\<rparr> else b"])
      (auto simp: ap_recompute_ageing_def Let_def)
qed

lemma bill_allocate_keeps:
  assumes inv: "ap_inv a s" and r: "bill_allocate p req s = Inr s'"
  shows "ap_inv a s'"
proof -
  from r obtain pay b s1 where b: "get_bill (bar_bill_id req) s = Some b" "bill_status b \<in> {BILL_ISSUED, BILL_OVERDUE}"
    and s1: "s1 = s\<lparr>bill_allocations := bill_allocations s @ [\<lparr>ba_payment_id = p, ba_bill_id = bar_bill_id req,
        ba_amount = money (bar_amount req)\<rparr>]\<rparr>"
    and s': "s' = (if sum_bill_allocated (bar_bill_id req) s + bar_amount req \<ge> bill_total b
       then upd_bill (bar_bill_id req) (\<lambda>b. b\<lparr>bill_status := BILL_PAID\<rparr>) s1 else s1)"
    by (rule bill_allocate_Inr)
  have same: "ap_inv a s1" by (rule ap_inv_same [OF inv]) (simp_all add: s1)
  have je: "bill_je_id x \<noteq> None" if "x \<in> set (bills s)" "bill_id x = bar_bill_id req" for x
  proof -
    have "ap_docs s" using inv by (simp add: ap_inv_def)
    moreover have "x = b"
      using b(1) that \<open>ap_docs s\<close> get_by_mem [of bill_id "bills s" x] by (simp add: get_bill_def ap_docs_def)
    ultimately show ?thesis using b(2) that by (auto simp: ap_docs_def bill_linked_def)
  qed
  have "ap_inv a (upd_bill (bar_bill_id req) (\<lambda>b. b\<lparr>bill_status := BILL_PAID\<rparr>) s1)"
    by (rule ap_inv_status [OF same, where f = "\<lambda>b. if bill_id b = bar_bill_id req
        then b\<lparr>bill_status := BILL_PAID\<rparr> else b"])
      (use je in \<open>auto simp: upd_bill_def upd_by_def s1\<close>)
  with same show ?thesis unfolding s' by simp
qed

lemma supplier_payment_create_Inr:
  assumes "supplier_payment_create req s = Inr (i, s')"
  shows "entries s' = entries s \<and> journal_lines s' = journal_lines s \<and> accounts s' = accounts s
    \<and> next_id s' = Suc (next_id s) \<and> bills s' = bills s \<and> debit_notes s' = debit_notes s \<and> i = next_id s
    \<and> (\<exists>p. supplier_payments s' = supplier_payments s @ [p] \<and> sp_id p = next_id s \<and> sp_je_id p = None
          \<and> sp_status p = SPM_UNCLEARED \<and> sp_amount p = money (spr_amount req))"
  using assms
  by (auto simp: supplier_payment_create_def ok_simps next_doc_number_def alloc_number_eq fresh_id_def Let_def
      add_supplier_payment_def)

lemma debit_note_create_row:
  assumes "debit_note_create req s = Inr (i, s')"
  shows "entries s' = entries s \<and> journal_lines s' = journal_lines s \<and> accounts s' = accounts s
    \<and> next_id s' = Suc (next_id s) \<and> bills s' = bills s \<and> supplier_payments s' = supplier_payments s
    \<and> (\<exists>n. debit_notes s' = debit_notes s @ [n] \<and> dn_id n = next_id s \<and> dn_je_id n = None
          \<and> dn_status n = DN_DRAFT \<and> dn_amount n = money (dncr_amount req))"
  using assms
  by (auto simp: debit_note_create_def ok_simps next_doc_number_def alloc_number_eq fresh_id_def Let_def
      add_debit_note_def split: option.splits)

lemma supplier_payment_create_keeps:
  assumes inv: "ap_inv a s" and r: "supplier_payment_create req s = Inr (i, s')"
  shows "ap_inv a s'"
proof -
  from supplier_payment_create_Inr [OF r] obtain p where
    same: "entries s' = entries s" "journal_lines s' = journal_lines s" "accounts s' = accounts s"
      "next_id s' = Suc (next_id s)" "bills s' = bills s" "debit_notes s' = debit_notes s"
    and p: "supplier_payments s' = supplier_payments s @ [p]" "sp_id p = next_id s" "sp_je_id p = None"
      "sp_status p = SPM_UNCLEARED" "sp_amount p = money (spr_amount req)" by blast
  show ?thesis
    by (rule ap_inv_add [OF inv same(1-4), where nb = "[]" and np = "[p]" and nn = "[]"])
      (simp_all add: same p payment_linked_def)
qed

lemma debit_note_create_keeps:
  assumes inv: "ap_inv a s" and r: "debit_note_create req s = Inr (i, s')"
  shows "ap_inv a s'"
proof -
  from debit_note_create_row [OF r] obtain n where
    same: "entries s' = entries s" "journal_lines s' = journal_lines s" "accounts s' = accounts s"
      "next_id s' = Suc (next_id s)" "bills s' = bills s" "supplier_payments s' = supplier_payments s"
    and n: "debit_notes s' = debit_notes s @ [n]" "dn_id n = next_id s" "dn_je_id n = None"
      "dn_status n = DN_DRAFT" "dn_amount n = money (dncr_amount req)" by blast
  show ?thesis
    by (rule ap_inv_add [OF inv same(1-4), where nb = "[]" and np = "[]" and nn = "[n]"])
      (simp_all add: same n note_linked_def)
qed

text \<open>A posting of this module, and the update of the document that follows it.\<close>

lemma ap_post_facts:
  assumes inv: "ap_inv a s" and x: "get_account_by_code c s = Some x" and y: "get_account_by_code d s = Some y"
    and ne: "c \<noteq> d" and q: "is_money amt"
    and p: "post (ap_request dt v x y amt party other) actor (Some t) (Some i) True s = Inr (e, u)"
  shows "ledger_inv u" "control_ok u" "get_account_by_code ''2100'' u = Some a"
    "account_net (acc_id a) u = account_net (acc_id a) s + (if c = ''2100'' then amt else 0)
       - (if d = ''2100'' then amt else 0)"
    "entries_kept s u" "next_id s \<le> next_id u" "entry_for u t i (je_id e)"
proof -
  have s: "ledger_inv s" "ledger_wf s" "control_ok s" "get_account_by_code ''2100'' s = Some a"
    using inv by (simp_all add: ap_inv_def ledger_inv_def)
  show "ledger_inv u" by (rule books.post_keeps [OF s(1) exact_ap_request [OF q] p])
  show "control_ok u" using controls.post_keeps [of s, OF _ _ p] s by simp
  show "get_account_by_code ''2100'' u = Some a"
    using s(4) post_frame [OF p] by (simp add: get_account_by_code_def)
  show "entries_kept s u" by (rule entries_kept_post [OF p])
  show "next_id s \<le> next_id u" using post_frame [OF p] by simp
  show "entry_for u t i (je_id e)" using post_payables [OF p] by (auto simp: entry_for_def)
  have "(acc_id a = acc_id x) = (c = ''2100'')" "(acc_id a = acc_id y) = (d = ''2100'')"
    using code_ids [OF s(2) s(4) x] code_ids [OF s(2) s(4) y] s(4) x y by auto
  with ap_request_net [OF s(2) code_ids [OF s(2) x y ne] q p, of "acc_id a"]
  show "account_net (acc_id a) u = account_net (acc_id a) s + (if c = ''2100'' then amt else 0)
       - (if d = ''2100'' then amt else 0)" by simp
qed

lemma ap_inv_posted:
  assumes "acc_is_control a" "ledger_inv u" "control_ok u" "get_account_by_code ''2100'' u = Some a"
    and same: "entries s' = entries u" "journal_lines s' = journal_lines u" "accounts s' = accounts u"
      "next_id s' = next_id u"
    and "ap_docs s'" "account_net (acc_id a) u = - ap_balance s'"
  shows "ap_inv a s'"
  using assms ledger_inv_frame [OF assms(2) same(1-3)] control_ok_frame [OF assms(3) same(1-3)]
    account_net_frame [OF same(1,2), of "acc_id a"]
  by (simp add: ap_inv_def get_account_by_code_def)

lemma rows_relinked:
  assumes "\<forall>r\<in>set rs. L r" "distinct (map key rs)" "\<And>r. key (f r) = key r"
    and "\<And>r. key r = i \<Longrightarrow> L r \<Longrightarrow> L' (f r)" "\<And>r. L r \<Longrightarrow> L' r"
  shows "distinct (map key (upd_by key i f rs))" "\<forall>r\<in>set (upd_by key i f rs). L' r"
proof -
  have "map key (upd_by key i f rs) = map key rs" using assms(3) by (simp add: upd_by_def)
  with assms(2) show "distinct (map key (upd_by key i f rs))" by simp
  show "\<forall>r\<in>set (upd_by key i f rs). L' r" using assms(1,4,5) by (auto simp: upd_by_def)
qed

lemma bill_issue_keeps:
  assumes inv: "ap_inv a s" and r: "bill_issue i actor s = Inr s'"
  shows "ap_inv a s'"
proof -
  from r obtain b x y e u where b: "get_bill i s = Some b" "bill_id b = i" "bill_status b = BILL_DRAFT"
    and acc: "get_account_by_code ''2200'' s = Some x" "get_account_by_code ''2100'' s = Some y"
    and p: "post (ap_request (bill_posting_date b) ''journal_entry'' x y (bill_total b) (bill_supplier_id b)
        (Some (bill_supplier_id b))) (Some actor) (Some ''supplier_bill'') (Some i) True s = Inr (e, u)"
    and s': "s' = upd_bill i (\<lambda>b. b\<lparr>bill_status := BILL_ISSUED, bill_je_id := Some (je_id e)\<rparr>) u"
    by (rule bill_issue_Inr)
  have docs: "ap_docs s" using inv by (simp add: ap_inv_def)
  then have g: "distinct (map bill_id (bills s))" "get_by bill_id i (bills s) = Some b" "bill_linked s b"
    using b(1) by (auto simp: get_bill_def ap_docs_def dest!: get_by_Some)
  then have q: "is_money (bill_total b)" and none: "bill_je_id b = None" using b(3) by (auto simp: bill_linked_def)
  note f = ap_post_facts [OF inv acc _ q p, simplified]
  have tables: "bills s' = upd_by bill_id i (\<lambda>b. b\<lparr>bill_status := BILL_ISSUED, bill_je_id := Some (je_id e)\<rparr>) (bills s)"
    "supplier_payments s' = supplier_payments s" "debit_notes s' = debit_notes s"
    using post_payables [OF p] by (simp_all add: s' upd_bill_def)
  have kept: "entries_kept s s'" "next_id s \<le> next_id s'" "entry_for s' ''supplier_bill'' i (je_id e)"
    using f(5-7) by (simp_all add: s' entries_kept_def entry_for_def)
  have "ap_docs s'"
    using docs linked_kept [OF kept(1,2)] kept(3) unfolding ap_docs_def tables
    by (intro conjI rows_relinked [where L = "bill_linked s"]) (auto simp: bill_linked_def)
  moreover have "ap_balance s' = ap_balance s + bill_total b"
    using journaled_upd [OF g(1,2)] none by (simp add: ap_balance_def tables)
  ultimately show ?thesis
    using f inv by (intro ap_inv_posted [where u = u]) (simp_all add: s' ap_inv_def)
qed

lemma bill_issue_others:
  assumes "bill_issue i actor s = Inr s'"
  shows "supplier_payments s' = supplier_payments s" "debit_notes s' = debit_notes s"
proof -
  from assms obtain b x y e u where "get_bill i s = Some b" "bill_id b = i" "bill_status b = BILL_DRAFT"
    "get_account_by_code ''2200'' s = Some x" "get_account_by_code ''2100'' s = Some y"
    and p: "post (ap_request (bill_posting_date b) ''journal_entry'' x y (bill_total b) (bill_supplier_id b)
        (Some (bill_supplier_id b))) (Some actor) (Some ''supplier_bill'') (Some i) True s = Inr (e, u)"
    and s': "s' = upd_bill i (\<lambda>b. b\<lparr>bill_status := BILL_ISSUED, bill_je_id := Some (je_id e)\<rparr>) u"
    by (rule bill_issue_Inr)
  show "supplier_payments s' = supplier_payments s" "debit_notes s' = debit_notes s"
    using post_payables [OF p] by (simp_all add: s')
qed

lemma supplier_payment_reconcile_keeps:
  assumes inv: "ap_inv a s" and r: "supplier_payment_reconcile i actor s = Inr s'"
  shows "ap_inv a s'"
proof -
  from r obtain b x y e u where b: "get_supplier_payment i s = Some b" "sp_id b = i"
      "sp_status b \<noteq> SPM_CLEARED" "sp_status b \<noteq> SPM_VOID"
    and acc: "get_account_by_code ''2100'' s = Some x" "get_account_by_code ''1020'' s = Some y"
    and p: "post (ap_request (sp_payment_date b) ''bank_entry'' x y (sp_amount b) (sp_supplier_id b) None)
        (Some actor) (Some ''supplier_payment'') (Some i) True s = Inr (e, u)"
    and s': "s' = upd_supplier_payment i (\<lambda>p. p\<lparr>sp_status := SPM_CLEARED, sp_je_id := Some (je_id e)\<rparr>) u"
    by (rule supplier_payment_reconcile_Inr)
  have docs: "ap_docs s" using inv by (simp add: ap_inv_def)
  then have g: "distinct (map sp_id (supplier_payments s))" "get_by sp_id i (supplier_payments s) = Some b"
      "payment_linked s b"
    using b(1) by (auto simp: get_supplier_payment_def ap_docs_def dest!: get_by_Some)
  then have q: "is_money (sp_amount b)" and none: "sp_je_id b = None" using b(3) by (auto simp: payment_linked_def)
  note f = ap_post_facts [OF inv acc _ q p, simplified]
  have tables: "supplier_payments s' = upd_by sp_id i
      (\<lambda>p. p\<lparr>sp_status := SPM_CLEARED, sp_je_id := Some (je_id e)\<rparr>) (supplier_payments s)"
    "bills s' = bills s" "debit_notes s' = debit_notes s"
    using post_payables [OF p] by (simp_all add: s' upd_supplier_payment_def)
  have kept: "entries_kept s s'" "next_id s \<le> next_id s'" "entry_for s' ''supplier_payment'' i (je_id e)"
    using f(5-7) by (simp_all add: s' entries_kept_def entry_for_def)
  have "ap_docs s'"
    using docs linked_kept [OF kept(1,2)] kept(3) unfolding ap_docs_def tables
    by (intro conjI rows_relinked [where L = "payment_linked s"]) (auto simp: payment_linked_def)
  moreover have "ap_balance s' = ap_balance s - sp_amount b"
    using journaled_upd [OF g(1,2)] none by (simp add: ap_balance_def tables)
  ultimately show ?thesis
    using f inv by (intro ap_inv_posted [where u = u]) (simp_all add: s' ap_inv_def)
qed

lemma debit_note_issue_keeps:
  assumes inv: "ap_inv a s" and r: "debit_note_issue i actor s = Inr s'"
  shows "ap_inv a s'"
proof -
  from r obtain b x y e u where b: "get_debit_note i s = Some b" "dn_id b = i" "dn_status b = DN_DRAFT"
    and acc: "get_account_by_code ''2100'' s = Some x" "get_account_by_code ''4200'' s = Some y"
    and p: "post (ap_request (dn_date b) ''debit_note'' x y (dn_amount b) (dn_supplier_id b) None)
        (Some actor) (Some ''debit_note'') (Some i) True s = Inr (e, u)"
    and s': "s' = upd_debit_note i (\<lambda>p. p\<lparr>dn_status := DN_ISSUED, dn_je_id := Some (je_id e)\<rparr>) u"
    by (rule debit_note_issue_Inr)
  have docs: "ap_docs s" using inv by (simp add: ap_inv_def)
  then have g: "distinct (map dn_id (debit_notes s))" "get_by dn_id i (debit_notes s) = Some b" "note_linked s b"
    using b(1) by (auto simp: get_debit_note_def ap_docs_def dest!: get_by_Some)
  then have q: "is_money (dn_amount b)" and none: "dn_je_id b = None" using b(3) by (auto simp: note_linked_def)
  note f = ap_post_facts [OF inv acc _ q p, simplified]
  have tables: "debit_notes s' = upd_by dn_id i (\<lambda>p. p\<lparr>dn_status := DN_ISSUED, dn_je_id := Some (je_id e)\<rparr>) (debit_notes s)"
    "bills s' = bills s" "supplier_payments s' = supplier_payments s"
    using post_payables [OF p] by (simp_all add: s' upd_debit_note_def)
  have kept: "entries_kept s s'" "next_id s \<le> next_id s'" "entry_for s' ''debit_note'' i (je_id e)"
    using f(5-7) by (simp_all add: s' entries_kept_def entry_for_def)
  have "ap_docs s'"
    using docs linked_kept [OF kept(1,2)] kept(3) unfolding ap_docs_def tables
    by (intro conjI rows_relinked [where L = "note_linked s"]) (auto simp: note_linked_def)
  moreover have "ap_balance s' = ap_balance s - dn_amount b"
    using journaled_upd [OF g(1,2)] none by (simp add: ap_balance_def tables)
  ultimately show ?thesis
    using f inv by (intro ap_inv_posted [where u = u]) (simp_all add: s' ap_inv_def)
qed

section \<open>The other operations keep it\<close>

text \<open>Receivables reach the ledger through the bridge only, and leave the tables of payables alone.\<close>

lemma run_of_tables:
  assumes "ledger.entries s' = entries s" "journal_lines s' = journal_lines s" "accounts s' = accounts s"
    "periods s' = periods s" "next_id s \<le> next_id s'"
  shows "bridge_run s s'"
  using assms by (intro bridge_run.tables) (simp add: ledger_same_def)

lemma alloc_step_frame:
  assumes "alloc_step i amt req (tot, s) = Inr (tot', s')"
  shows "entries s' = entries s \<and> journal_lines s' = journal_lines s \<and> accounts s' = accounts s
    \<and> periods s' = periods s \<and> next_id s' = next_id s \<and> receivables.more s' = receivables.more s"
proof -
  from assms obtain r s1 where "get_invoice (alr_invoice_id req) s = Some r" "tot + alr_amount req \<le> amt"
    "inv_status r \<in> {INV_ISSUED, INV_OVERDUE, INV_PAID}" "tot' = tot + alr_amount req"
    and s1: "s1 = s\<lparr>allocations := allocations s @ [\<lparr>al_payment_id = i, al_invoice_id = alr_invoice_id req,
        al_amount = money (alr_amount req)\<rparr>]\<rparr>"
    and "\<forall>a\<in>set (allocations s). \<not> (al_payment_id a = i \<and> al_invoice_id a = alr_invoice_id req)"
    and s': "s' = (if sum_allocated (alr_invoice_id req) s1 \<ge> inv_total r
       then upd_invoice (alr_invoice_id req) (\<lambda>r. r\<lparr>inv_status := INV_PAID\<rparr>) s1 else s1)"
    by (rule alloc_step_Inr)
  show ?thesis by (simp add: s' upd_invoice_def) (simp add: s1)
qed

lemma receivables_step_run:
  assumes "receivables_step s s'"
  shows "bridge_run s s' \<and> receivables.more s' = receivables.more s"
  using assms
proof cases
  case (create req i)
  then show ?thesis
    by (intro conjI run_of_tables)
      (auto simp: invoice_create_def ok_simps fresh_id_def Let_def invoice_create_lines_eq add_invoice_def
        upd_invoice_def)
next
  case (issue i a)
  then obtain r where "get_invoice i s = Some r" "inv_status r = INV_DRAFT" "inv_id r = i"
    and e: "emit_event_async (InvoiceCreated i (inv_total r) (inv_posting_date r) (Some a) (inv_customer_id r))
       (upd_invoice i (\<lambda>r. r\<lparr>inv_status := INV_ISSUED\<rparr>) s) = Inr s'" by (rule invoice_issue_Inr)
  have "bridge_run s (upd_invoice i (\<lambda>r. r\<lparr>inv_status := INV_ISSUED\<rparr>) s)"
    by (rule run_of_tables) simp_all
  from bridge_run.event [OF this e] emit_receivables(6) [OF e] show ?thesis
    by (simp add: upd_invoice_def)
next
  case (void i a)
  then obtain r where "s' = upd_invoice i (\<lambda>r. r\<lparr>inv_status := INV_VOID\<rparr>) s"
    by (rule invoice_void_invoices)
  then show ?thesis by (intro conjI run_of_tables) (simp_all add: upd_invoice_def)
next
  case (payment preq i)
  then show ?thesis
    by (intro conjI run_of_tables)
      (auto simp: payment_create_def ok_simps fresh_id_def Let_def add_payment_def)
next
  case (allocate i reqs)
  then obtain p tot t where "get_payment i s = Some p" "cp_status p \<noteq> PMT_VOID"
    and f: "foldE (alloc_step i (cp_amount p)) reqs (sum_allocated_for_payment i s, s) = Inr (tot, t)"
    and s': "s' = (if sum_allocated_for_payment i t \<ge> cp_amount p
       then upd_payment i (\<lambda>r. r\<lparr>cp_status := PMT_CLEARED\<rparr>) t else t)" by (rule allocate_Inr)
  let ?Q = "\<lambda>y. entries (snd y) = entries s \<and> journal_lines (snd y) = journal_lines s
    \<and> accounts (snd y) = accounts s \<and> periods (snd y) = periods s \<and> next_id (snd y) = next_id s
    \<and> receivables.more (snd y) = receivables.more s"
  have "?Q y'" if "?Q y" "alloc_step i (cp_amount p) r y = Inr y'" for r y y'
    using that alloc_step_frame [of i "cp_amount p" r "fst y" "snd y" "fst y'" "snd y'"] by simp
  note step = this
  have "?Q (tot, t)"
  proof (rule foldE_inv [OF f, where P = ?Q])
    show "?Q (sum_allocated_for_payment i s, s)" by simp
  qed (rule step)
  then show ?thesis
    by (intro conjI run_of_tables) (auto simp: s' upd_payment_def)
next
  case (reconcile i a)
  then show ?thesis
    by (intro conjI run_of_tables) (auto simp: payment_reconcile_def ok_simps upd_payment_def)
next
  case (credit creq i)
  then show ?thesis
    by (intro conjI run_of_tables)
      (auto simp: credit_note_create_def ok_simps fresh_id_def Let_def add_credit_note_def)
next
  case (credit_issue i a)
  then show ?thesis
    by (intro conjI run_of_tables) (auto simp: upd_credit_note_def dest!: credit_note_issue_Inr)
next
  case (sweep n)
  then show ?thesis
    by (intro conjI run_of_tables) (auto simp: recompute_ageing_def Let_def)
qed

lemma more_payables:
  assumes "receivables.more s' = receivables.more s"
  shows "bills s' = bills s \<and> supplier_payments s' = supplier_payments s \<and> debit_notes s' = debit_notes s
    \<and> payables.more s' = payables.more s"
  using assms by (cases s; cases s') simp

lemma ap_inv_ledger:
  assumes inv: "ap_inv a s" and "ledger_inv s'" "control_ok s'" "entries_kept s s'" "next_id s \<le> next_id s'"
    and "get_account_by_code ''2100'' s' = Some a" "account_net (acc_id a) s' = account_net (acc_id a) s"
    and "bills s' = bills s" "supplier_payments s' = supplier_payments s" "debit_notes s' = debit_notes s"
  shows "ap_inv a s'"
  using assms ap_docs_kept [of s s'] by (simp add: ap_inv_def)

lemma ap_inv_run:
  assumes inv: "ap_inv a s" and r: "bridge_run s s'"
    and "bills s' = bills s" "supplier_payments s' = supplier_payments s" "debit_notes s' = debit_notes s"
  shows "ap_inv a s'"
proof -
  have s: "ledger_inv s" "control_ok s" "get_account_by_code ''2100'' s = Some a"
    using inv by (simp_all add: ap_inv_def)
  from bridge_run_keeps [OF r s(1,2)] payables_account.bridge_run_net [OF r s] s(3) assms(3-5)
  show ?thesis by (intro ap_inv_ledger [OF inv]) (simp_all add: get_account_by_code_def)
qed

lemma ap_inv_receivables: "ap_inv a s \<Longrightarrow> receivables_step s s' \<Longrightarrow> ap_inv a s'"
  using receivables_step_run [of s s'] more_payables [of s' s] by (auto intro: ap_inv_run)

lemma ap_inv_ledger_step:
  assumes inv: "ap_inv a s" and r: "ledger_step s s'"
  shows "ap_inv a s'"
proof -
  have s: "ledger_inv s" "control_ok s" "get_account_by_code ''2100'' s = Some a" "acc_is_control a"
    using inv by (simp_all add: ap_inv_def)
  from ledger_step_keeps [OF r s(1,2)] s(3,4) ledger_more_payables [of s' s] show ?thesis
    by (intro ap_inv_ledger [OF inv]) simp_all
qed

section \<open>Steps of payables\<close>

inductive payables_step :: "'a payables_scheme \<Rightarrow> 'a payables_scheme \<Rightarrow> bool" where
  create: "bill_create req s = Inr (i, s') \<Longrightarrow> payables_step s s'"
| issue: "bill_issue i a s = Inr s' \<Longrightarrow> payables_step s s'"
| void: "bill_void i a s = Inr s' \<Longrightarrow> payables_step s s'"
| payment: "supplier_payment_create preq s = Inr (i, s') \<Longrightarrow> payables_step s s'"
| allocate: "bill_allocate i areq s = Inr s' \<Longrightarrow> payables_step s s'"
| reconcile: "supplier_payment_reconcile i a s = Inr s' \<Longrightarrow> payables_step s s'"
| debit: "debit_note_create dreq s = Inr (i, s') \<Longrightarrow> payables_step s s'"
| debit_issue: "debit_note_issue i a s = Inr s' \<Longrightarrow> payables_step s s'"
| sweep: "ap_recompute_ageing s = (n, s') \<Longrightarrow> payables_step s s'"

lemma ap_inv_payables: "payables_step s s' \<Longrightarrow> ap_inv a s \<Longrightarrow> ap_inv a s'"
  by (induction rule: payables_step.induct)
    (auto intro: bill_create_keeps bill_issue_keeps bill_void_keeps supplier_payment_create_keeps
      bill_allocate_keeps supplier_payment_reconcile_keeps debit_note_create_keeps debit_note_issue_keeps
      ap_sweep_keeps)

text \<open>
  The three components together, with the calendar moving on and the CRM side changing contacts.
\<close>

inductive finance_step :: "'a payables_scheme \<Rightarrow> 'a payables_scheme \<Rightarrow> bool" where
  ledger: "ledger_step s s' \<Longrightarrow> finance_step s s'"
| receivables: "receivables_step s s' \<Longrightarrow> finance_step s s'"
| payables: "payables_step s s' \<Longrightarrow> finance_step s s'"
| day: "today s \<le> d \<Longrightarrow> finance_step s (s\<lparr>today := d\<rparr>)"
| contacts: "finance_step s (s\<lparr>contacts := cs\<rparr>)"

lemma ap_inv_finance: "finance_step s s' \<Longrightarrow> ap_inv a s \<Longrightarrow> ap_inv a s'"
proof (induction rule: finance_step.induct)
  case (day s d)
  show ?case by (rule ap_inv_same [OF day.prems]) simp_all
next
  case (contacts s cs)
  show ?case by (rule ap_inv_same [OF contacts.prems]) simp_all
qed (auto intro: ap_inv_ledger_step ap_inv_receivables ap_inv_payables)

lemma ap_inv_reachable: "finance_step\<^sup>*\<^sup>* s s' \<Longrightarrow> ap_inv a s \<Longrightarrow> ap_inv a s'"
  by (induction rule: rtranclp_induct) (auto intro: ap_inv_finance)

end
