(* ===== verification/Inventory.thy ===== *)
theory Inventory
  imports PayablesLedger "HOL-Library.Product_Lexorder"
begin

text \<open>
  Stock (backend/app/modules/inventory: constants, models, schemas, repository, service, the
  queries of the router and the valuation task): items, warehouses and their locations,
  serialized units, balances per item and location, the stock ledger, the serial registry, and the
  valuation with its reconciliation to account 1200. Goods receipts and dispatches
  (procurement, fulfilment) write the same tables.

  Where a query has no order, or orders by a date that ties, and takes one row, the database chooses:
  \<open>db_choice\<close> gives the position it takes among the candidates, in any way. A result list whose
  order the query leaves open is in table order here. The surrogate keys of balances and ledger
  rows, units of measure, weights, tariff data and warranty dates are left out.
\<close>

section \<open>Constants\<close>

datatype item_nature = SERIALIZED | BULK

datatype stock_unit_status = ON_ORDER | IN_STOCK | IN_TRANSIT | SOLD | SCRAPPED | RETURNED

datatype valuation_method = SPECIFIC_ID | FIFO | MOVING_AVG

datatype stock_voucher_type = SV_GRN | SV_DISPATCH | SV_TRANSFER | SV_ADJUSTMENT | SV_COUNT | SV_OPENING

definition item_nature_of :: "string \<Rightarrow> item_nature option" where
  "item_nature_of v = map_of [(''serialized'', SERIALIZED), (''bulk'', BULK)] v"

definition valuation_method_of :: "string \<Rightarrow> valuation_method option" where
  "valuation_method_of v = map_of
     [(''specific_identification'', SPECIFIC_ID), (''fifo'', FIFO), (''moving_average'', MOVING_AVG)] v"

definition adjustment_reasons :: "string list" where
  "adjustment_reasons = [''damage'', ''loss'', ''found'', ''expiry'', ''other'']"

section \<open>Tables\<close>

record item =
  it_id :: uuid
  it_sku :: string
  it_name :: string
  it_category :: "string option"
  it_nature :: item_nature
  it_valuation_method :: valuation_method
  it_reorder_level :: int
  it_reorder_qty :: rat
  it_default_purchase_price :: rat
  it_default_sale_price :: rat
  it_inventory_account_id :: uuid
  it_cogs_account_id :: uuid
  it_revenue_account_id :: uuid
  it_is_sales_item :: bool
  it_is_purchase_item :: bool
  it_is_active :: bool
  it_safety_stock :: "rat option"

record warehouse =
  wh_id :: uuid
  wh_name :: string
  wh_code :: string
  wh_is_active :: bool

record location =
  loc_id :: uuid
  loc_warehouse_id :: uuid
  loc_code :: string
  loc_is_active :: bool

record stock_unit =
  su_id :: uuid
  su_item_id :: uuid
  su_serial_no :: string
  su_imei :: "string option"
  su_status :: stock_unit_status
  su_location_id :: "uuid option"
  su_purchase_cost :: rat
  su_grn_id :: "uuid option"
  su_sales_dispatch_id :: "uuid option"

record stock_balance =
  sb_item_id :: uuid
  sb_location_id :: uuid
  sb_qty :: rat
  sb_avg_cost :: rat

record stock_ledger_entry =
  sle_posting_date :: date
  sle_item_id :: uuid
  sle_warehouse_id :: "uuid option"
  sle_stock_unit_id :: "uuid option"
  sle_voucher_type :: stock_voucher_type
  sle_voucher_id :: uuid
  sle_qty_change :: rat
  sle_valuation_rate :: rat
  sle_stock_value_change :: rat
  sle_qty_after :: rat
  sle_is_cancelled :: bool

record serial_entry =
  sn_id :: uuid
  sn_serial_no :: string
  sn_item_id :: "uuid option"
  sn_status :: stock_unit_status
  sn_warehouse_id :: "uuid option"
  sn_purchase_rate :: "rat option"

record inventory = payables +
  items :: "item list"
  warehouses :: "warehouse list"
  locations :: "location list"
  stock_units :: "stock_unit list"
  stock_balances :: "stock_balance list"
  stock_ledger :: "stock_ledger_entry list"
  serial_nos :: "serial_entry list"
  db_choice :: "nat \<Rightarrow> nat"

section \<open>Repositories\<close>

text \<open>\<open>LIMIT 1\<close> on rows whose order the query does not fix.\<close>

definition limit_1 :: "'r list \<Rightarrow> 'a inventory_scheme \<Rightarrow> 'r option" where
  "limit_1 rs s = (if rs = [] then None else Some (rs ! (db_choice s (length rs) mod length rs)))"

text \<open>A nullable foreign key.\<close>

definition fk_ok :: "uuid option \<Rightarrow> uuid list \<Rightarrow> bool" where
  "fk_ok ref ids = (case ref of None \<Rightarrow> True | Some i \<Rightarrow> i \<in> set ids)"

definition get_item :: "uuid \<Rightarrow> 'a inventory_scheme \<Rightarrow> item option" where
  "get_item i s = get_by it_id i (items s)"

definition get_by_sku :: "string \<Rightarrow> 'a inventory_scheme \<Rightarrow> item option" where
  "get_by_sku sku s = get_by it_sku sku (items s)"

definition upd_item :: "uuid \<Rightarrow> (item \<Rightarrow> item) \<Rightarrow> 'a inventory_scheme \<Rightarrow> 'a inventory_scheme" where
  "upd_item i f s = s\<lparr>items := upd_by it_id i f (items s)\<rparr>"

definition list_active_items :: "'a inventory_scheme \<Rightarrow> item list" where
  "list_active_items s = sort_key it_name (filter it_is_active (items s))"

definition list_by_category :: "string \<Rightarrow> 'a inventory_scheme \<Rightarrow> item list" where
  "list_by_category category s =
     sort_key it_name (filter (\<lambda>r. it_category r = Some category \<and> it_is_active r) (items s))"

definition get_warehouse :: "uuid \<Rightarrow> 'a inventory_scheme \<Rightarrow> warehouse option" where
  "get_warehouse i s = get_by wh_id i (warehouses s)"

definition get_warehouse_by_code :: "string \<Rightarrow> 'a inventory_scheme \<Rightarrow> warehouse option" where
  "get_warehouse_by_code code s = get_by wh_code code (warehouses s)"

definition list_active_warehouses :: "'a inventory_scheme \<Rightarrow> warehouse list" where
  "list_active_warehouses s = sort_key wh_name (filter wh_is_active (warehouses s))"

definition get_location :: "uuid \<Rightarrow> 'a inventory_scheme \<Rightarrow> location option" where
  "get_location i s = get_by loc_id i (locations s)"

definition get_location_by_code :: "uuid \<Rightarrow> string \<Rightarrow> 'a inventory_scheme \<Rightarrow> location option" where
  "get_location_by_code w code s = get_by (\<lambda>r. (loc_warehouse_id r, loc_code r)) (w, code) (locations s)"

definition list_by_warehouse :: "uuid \<Rightarrow> 'a inventory_scheme \<Rightarrow> location list" where
  "list_by_warehouse w s =
     sort_key loc_code (filter (\<lambda>r. loc_warehouse_id r = w \<and> loc_is_active r) (locations s))"

definition get_unit :: "uuid \<Rightarrow> 'a inventory_scheme \<Rightarrow> stock_unit option" where
  "get_unit i s = get_by su_id i (stock_units s)"

definition upd_unit :: "uuid \<Rightarrow> (stock_unit \<Rightarrow> stock_unit) \<Rightarrow> 'a inventory_scheme \<Rightarrow> 'a inventory_scheme" where
  "upd_unit i f s = s\<lparr>stock_units := upd_by su_id i f (stock_units s)\<rparr>"

definition get_unit_by_serial :: "string \<Rightarrow> 'a inventory_scheme \<Rightarrow> stock_unit option" where
  "get_unit_by_serial sno s = get_by su_serial_no sno (stock_units s)"

definition list_units :: "(stock_unit \<Rightarrow> bool) \<Rightarrow> 'a inventory_scheme \<Rightarrow> stock_unit list" where
  "list_units P s = sort_key su_serial_no (filter P (stock_units s))"

definition list_units_by_item :: "uuid \<Rightarrow> 'a inventory_scheme \<Rightarrow> stock_unit list" where
  "list_units_by_item i s = list_units (\<lambda>u. su_item_id u = i) s"

definition list_units_by_location :: "uuid \<Rightarrow> 'a inventory_scheme \<Rightarrow> stock_unit list" where
  "list_units_by_location l s = list_units (\<lambda>u. su_location_id u = Some l) s"

definition list_units_by_status :: "stock_unit_status \<Rightarrow> 'a inventory_scheme \<Rightarrow> stock_unit list" where
  "list_units_by_status st s = list_units (\<lambda>u. su_status u = st) s"

text \<open>\<open>StockUnit.id.in_(...)\<close>: a repeated identifier finds its row once.\<close>

definition acquire_for_dispatch :: "uuid list \<Rightarrow> 'a inventory_scheme \<Rightarrow> stock_unit list" where
  "acquire_for_dispatch unit_ids s =
     (if unit_ids = [] then [] else filter (\<lambda>u. su_id u \<in> set unit_ids) (stock_units s))"

definition get_balance :: "uuid \<Rightarrow> uuid \<Rightarrow> 'a inventory_scheme \<Rightarrow> stock_balance option" where
  "get_balance i l s = get_by (\<lambda>b. (sb_item_id b, sb_location_id b)) (i, l) (stock_balances s)"

definition upd_balance ::
  "uuid \<Rightarrow> uuid \<Rightarrow> (stock_balance \<Rightarrow> stock_balance) \<Rightarrow> 'a inventory_scheme \<Rightarrow> 'a inventory_scheme" where
  "upd_balance i l f s = s\<lparr>stock_balances :=
     upd_by (\<lambda>b. (sb_item_id b, sb_location_id b)) (i, l) f (stock_balances s)\<rparr>"

definition create_balance :: "stock_balance \<Rightarrow> 'a inventory_scheme \<Rightarrow> err + 'a inventory_scheme" where
  "create_balance b s =
     ebind (ensure (sb_item_id b \<in> it_id ` set (items s)) (IntegrityError ''stock_balances_item_id_fkey'')) (\<lambda>_.
     ebind (ensure (sb_location_id b \<in> loc_id ` set (locations s))
              (IntegrityError ''stock_balances_location_id_fkey'')) (\<lambda>_.
     Inr (s\<lparr>stock_balances := stock_balances s @
       [b\<lparr>sb_qty := qty (sb_qty b), sb_avg_cost := money (sb_avg_cost b)\<rparr>]\<rparr>)))"

definition upsert_balance ::
  "uuid \<Rightarrow> uuid \<Rightarrow> rat \<Rightarrow> rat option \<Rightarrow> 'a inventory_scheme \<Rightarrow> err + 'a inventory_scheme" where
  "upsert_balance i l qty_change avg_cost s =
     (case get_balance i l s of
        None \<Rightarrow> create_balance \<lparr>sb_item_id = i, sb_location_id = l, sb_qty = qty_change,
                  sb_avg_cost = (case avg_cost of None \<Rightarrow> 0 | Some c \<Rightarrow> c)\<rparr> s
      | Some balance \<Rightarrow>
          Inr (upd_balance i l (\<lambda>b. b\<lparr>sb_qty := qty (sb_qty b + qty_change),
                 sb_avg_cost := (case avg_cost of None \<Rightarrow> sb_avg_cost b | Some c \<Rightarrow> money c)\<rparr>) s))"

definition update_avg_cost :: "uuid \<Rightarrow> uuid \<Rightarrow> rat \<Rightarrow> 'a inventory_scheme \<Rightarrow> 'a inventory_scheme" where
  "update_avg_cost i l avg_cost s =
     (case get_balance i l s of
        None \<Rightarrow> s
      | Some b \<Rightarrow> upd_balance i l (\<lambda>b. b\<lparr>sb_avg_cost := money avg_cost\<rparr>) s)"

definition create_sle :: "stock_ledger_entry \<Rightarrow> 'a inventory_scheme \<Rightarrow> err + 'a inventory_scheme" where
  "create_sle e s =
     ebind (ensure (sle_item_id e \<in> it_id ` set (items s))
              (IntegrityError ''stock_ledger_entries_item_id_fkey'')) (\<lambda>_.
     ebind (ensure (fk_ok (sle_warehouse_id e) (map wh_id (warehouses s)))
              (IntegrityError ''stock_ledger_entries_warehouse_id_fkey'')) (\<lambda>_.
     Inr (s\<lparr>stock_ledger := stock_ledger s @
       [e\<lparr>sle_qty_change := qty (sle_qty_change e), sle_valuation_rate := money (sle_valuation_rate e),
          sle_stock_value_change := money (sle_stock_value_change e),
          sle_qty_after := qty (sle_qty_after e)\<rparr>]\<rparr>)))"

definition list_sle_by_item :: "uuid \<Rightarrow> nat \<Rightarrow> nat \<Rightarrow> 'a inventory_scheme \<Rightarrow> stock_ledger_entry list" where
  "list_sle_by_item i limit offset s =
     take limit (drop offset (sort_key (\<lambda>e. - int (sle_posting_date e))
       (filter (\<lambda>e. sle_item_id e = i) (stock_ledger s))))"

definition list_sle_by_unit :: "uuid \<Rightarrow> 'a inventory_scheme \<Rightarrow> stock_ledger_entry list" where
  "list_sle_by_unit u s =
     sort_key sle_posting_date (filter (\<lambda>e. sle_stock_unit_id e = Some u) (stock_ledger s))"

text \<open>The location argument is compared with the warehouse column.\<close>

definition get_qty_after :: "uuid \<Rightarrow> uuid option \<Rightarrow> 'a inventory_scheme \<Rightarrow> rat" where
  "get_qty_after i location_id s =
     (let rows = filter (\<lambda>e. sle_item_id e = i \<and> \<not> sle_is_cancelled e
                   \<and> (case location_id of None \<Rightarrow> True | Some l \<Rightarrow> sle_warehouse_id e = Some l))
                   (stock_ledger s);
          latest = filter (\<lambda>e. \<forall>r\<in>set rows. sle_posting_date r \<le> sle_posting_date e) rows
      in case limit_1 latest s of None \<Rightarrow> 0 | Some e \<Rightarrow> sle_qty_after e)"

definition get_serial :: "string \<Rightarrow> 'a inventory_scheme \<Rightarrow> serial_entry option" where
  "get_serial sno s = get_by sn_serial_no sno (serial_nos s)"

definition create_serial ::
  "string \<Rightarrow> uuid \<Rightarrow> stock_unit_status \<Rightarrow> uuid option \<Rightarrow> rat option \<Rightarrow> 'a inventory_scheme
     \<Rightarrow> err + 'a inventory_scheme" where
  "create_serial sno i st w rate s =
     ebind (ensure (sno \<notin> sn_serial_no ` set (serial_nos s))
              (IntegrityError ''uq_serial_nos_serial_no'')) (\<lambda>_.
     ebind (ensure (fk_ok w (map wh_id (warehouses s))) (IntegrityError ''serial_nos_warehouse_id_fkey'')) (\<lambda>_.
     let (n, s1) = fresh_id s
     in Inr (s1\<lparr>serial_nos := serial_nos s1 @
          [\<lparr>sn_id = n, sn_serial_no = sno, sn_item_id = Some i, sn_status = st, sn_warehouse_id = w,
            sn_purchase_rate = map_option money rate\<rparr>]\<rparr>)))"

definition update_serial_status ::
  "uuid \<Rightarrow> stock_unit_status \<Rightarrow> 'a inventory_scheme \<Rightarrow> 'a inventory_scheme" where
  "update_serial_status i st s =
     s\<lparr>serial_nos := upd_by sn_id i (\<lambda>r. r\<lparr>sn_status := st\<rparr>) (serial_nos s)\<rparr>"

text \<open>A new unit with the constraints of its table.\<close>

definition create_unit ::
  "uuid \<Rightarrow> string \<Rightarrow> string option \<Rightarrow> uuid option \<Rightarrow> rat \<Rightarrow> uuid \<Rightarrow> 'a inventory_scheme
     \<Rightarrow> err + uuid \<times> 'a inventory_scheme" where
  "create_unit i sno imei location_id cost grn_id s =
     ebind (ensure (i \<in> it_id ` set (items s)) (IntegrityError ''stock_units_item_id_fkey'')) (\<lambda>_.
     ebind (ensure (sno \<notin> su_serial_no ` set (stock_units s))
              (IntegrityError ''uq_stock_units_serial_no'')) (\<lambda>_.
     ebind (ensure (fk_ok location_id (map loc_id (locations s)))
              (IntegrityError ''stock_units_location_id_fkey'')) (\<lambda>_.
     let (n, s1) = fresh_id s
     in Inr (n, s1\<lparr>stock_units := stock_units s1 @
          [\<lparr>su_id = n, su_item_id = i, su_serial_no = sno, su_imei = imei, su_status = IN_STOCK,
            su_location_id = location_id, su_purchase_cost = money cost, su_grn_id = Some grn_id,
            su_sales_dispatch_id = None\<rparr>]\<rparr>))))"

section \<open>ItemService, WarehouseService, LocationService\<close>

record item_create_request =
  itr_sku :: string
  itr_name :: string
  itr_category :: "string option"
  itr_nature :: string
  itr_valuation_method :: string
  itr_reorder_level :: int
  itr_reorder_qty :: rat
  itr_default_purchase_price :: rat
  itr_default_sale_price :: rat
  itr_inventory_account_id :: uuid
  itr_cogs_account_id :: uuid
  itr_revenue_account_id :: uuid
  itr_is_sales_item :: bool
  itr_is_purchase_item :: bool
  itr_safety_stock :: "rat option"

text \<open>The schema: the two prices and the reorder quantity are rounded first, then bounded.\<close>

definition parse_item_request :: "item_create_request \<Rightarrow> err + item_create_request" where
  "parse_item_request r =
     (let r' = r\<lparr>itr_default_purchase_price := money (itr_default_purchase_price r),
               itr_default_sale_price := money (itr_default_sale_price r),
               itr_reorder_qty := money (itr_reorder_qty r)\<rparr>
      in ebind (ensure (1 \<le> length (itr_sku r) \<and> length (itr_sku r) \<le> 50
                        \<and> 1 \<le> length (itr_name r) \<and> length (itr_name r) \<le> 200) ValueError) (\<lambda>_.
         ebind (ensure (itr_reorder_level r \<ge> 0 \<and> itr_reorder_qty r' \<ge> 0
                        \<and> itr_default_purchase_price r' \<ge> 0 \<and> itr_default_sale_price r' \<ge> 0) ValueError) (\<lambda>_.
         ebind (ensure (item_nature_of (itr_nature r) \<noteq> None) ValueError) (\<lambda>_.
         ebind (ensure (valuation_method_of (itr_valuation_method r) \<noteq> None) ValueError) (\<lambda>_.
         Inr r')))))"

definition item_create ::
  "item_create_request \<Rightarrow> 'a inventory_scheme \<Rightarrow> err + uuid \<times> 'a inventory_scheme" where
  "item_create request s =
     ebind (ensure (get_by_sku (itr_sku request) s = None) ConflictError) (\<lambda>_.
     ebind (from_opt (IntegrityError ''ck_items_nature'') (item_nature_of (itr_nature request))) (\<lambda>nature.
     ebind (from_opt (IntegrityError ''ck_items_valuation_method'')
              (valuation_method_of (itr_valuation_method request))) (\<lambda>method.
     ebind (ensure ({itr_inventory_account_id request, itr_cogs_account_id request,
                     itr_revenue_account_id request} \<subseteq> acc_id ` set (accounts s))
              (IntegrityError ''items_account_id_fkey'')) (\<lambda>_.
     let (i, s1) = fresh_id s
     in Inr (i, s1\<lparr>items := items s1 @
          [\<lparr>it_id = i, it_sku = itr_sku request, it_name = itr_name request,
            it_category = itr_category request, it_nature = nature, it_valuation_method = method,
            it_reorder_level = itr_reorder_level request,
            it_reorder_qty = qty (itr_reorder_qty request),
            it_default_purchase_price = money (itr_default_purchase_price request),
            it_default_sale_price = money (itr_default_sale_price request),
            it_inventory_account_id = itr_inventory_account_id request,
            it_cogs_account_id = itr_cogs_account_id request,
            it_revenue_account_id = itr_revenue_account_id request,
            it_is_sales_item = itr_is_sales_item request,
            it_is_purchase_item = itr_is_purchase_item request, it_is_active = True,
            it_safety_stock = map_option qty (itr_safety_stock request)\<rparr>]\<rparr>)))))"

text \<open>\<open>update\<close> assigns the columns the caller names; \<open>f\<close> is that assignment.\<close>

definition item_update ::
  "uuid \<Rightarrow> (item \<Rightarrow> item) \<Rightarrow> 'a inventory_scheme \<Rightarrow> err + 'a inventory_scheme" where
  "item_update i f s =
     ebind (from_opt NotFoundError (get_item i s)) (\<lambda>_. Inr (upd_item i f s))"

definition item_deactivate :: "uuid \<Rightarrow> 'a inventory_scheme \<Rightarrow> err + 'a inventory_scheme" where
  "item_deactivate i s = item_update i (\<lambda>r. r\<lparr>it_is_active := False\<rparr>) s"

definition warehouse_create ::
  "string \<Rightarrow> string \<Rightarrow> 'a inventory_scheme \<Rightarrow> err + uuid \<times> 'a inventory_scheme" where
  "warehouse_create name code s =
     ebind (ensure (get_warehouse_by_code code s = None) ConflictError) (\<lambda>_.
     let (i, s1) = fresh_id s
     in Inr (i, s1\<lparr>warehouses := warehouses s1 @
          [\<lparr>wh_id = i, wh_name = name, wh_code = code, wh_is_active = True\<rparr>]\<rparr>))"

definition location_create ::
  "string \<Rightarrow> string \<Rightarrow> 'a inventory_scheme \<Rightarrow> err + uuid \<times> 'a inventory_scheme" where
  "location_create warehouse_code code s =
     ebind (from_opt NotFoundError (get_warehouse_by_code warehouse_code s)) (\<lambda>w.
     ebind (ensure (get_location_by_code (wh_id w) code s = None) ConflictError) (\<lambda>_.
     let (i, s1) = fresh_id s
     in Inr (i, s1\<lparr>locations := locations s1 @
          [\<lparr>loc_id = i, loc_warehouse_id = wh_id w, loc_code = code, loc_is_active = True\<rparr>]\<rparr>)))"

section \<open>StockService\<close>

record receipt_line =
  rl_item_id :: uuid
  rl_location_id :: "uuid option"
  rl_warehouse_id :: "uuid option"
  rl_qty :: rat
  rl_purchase_cost :: rat
  rl_serial_nos :: "string list"
  rl_imei :: "string option"

record received_unit =
  ru_stock_unit_id :: uuid
  ru_serial_no :: string
  ru_item_id :: uuid
  ru_purchase_cost :: rat
  ru_location_id :: "uuid option"

text \<open>The loops carry the list of received units that the operation returns.\<close>

definition receive_serial ::
  "uuid \<Rightarrow> date \<Rightarrow> receipt_line \<Rightarrow> string \<Rightarrow> received_unit list \<times> 'a inventory_scheme
     \<Rightarrow> err + received_unit list \<times> 'a inventory_scheme" where
  "receive_serial grn_id posting_date line sno acc =
     (let (result_units, s) = acc; purchase_cost = money (rl_purchase_cost line) in
      ebind (ensure (get_unit_by_serial sno s = None) ConflictError) (\<lambda>_.
      ebind (create_unit (rl_item_id line) sno (rl_imei line) (rl_location_id line) purchase_cost grn_id s)
        (\<lambda>(unit_id, s1).
      ebind (create_serial sno (rl_item_id line) IN_STOCK (rl_warehouse_id line) (Some purchase_cost) s1) (\<lambda>s2.
      let qty_after = get_qty_after (rl_item_id line) (rl_location_id line) s2 + 1 in
      ebind (create_sle
        \<lparr>sle_posting_date = posting_date, sle_item_id = rl_item_id line,
         sle_warehouse_id = rl_warehouse_id line, sle_stock_unit_id = Some unit_id,
         sle_voucher_type = SV_GRN, sle_voucher_id = grn_id, sle_qty_change = 1,
         sle_valuation_rate = purchase_cost, sle_stock_value_change = purchase_cost,
         sle_qty_after = qty_after, sle_is_cancelled = False\<rparr> s2) (\<lambda>s3.
      ebind (case rl_location_id line of
               None \<Rightarrow> Inr s3
             | Some l \<Rightarrow> upsert_balance (rl_item_id line) l 1 (Some purchase_cost) s3) (\<lambda>s4.
      Inr (result_units @ [\<lparr>ru_stock_unit_id = unit_id, ru_serial_no = sno,
             ru_item_id = rl_item_id line, ru_purchase_cost = purchase_cost,
             ru_location_id = rl_location_id line\<rparr>], s4)))))))"

definition receive_line ::
  "uuid \<Rightarrow> date \<Rightarrow> receipt_line \<Rightarrow> received_unit list \<times> 'a inventory_scheme
     \<Rightarrow> err + received_unit list \<times> 'a inventory_scheme" where
  "receive_line grn_id posting_date line acc =
     (let (result_units, s) = acc;
          line_qty = qty (rl_qty line); purchase_cost = money (rl_purchase_cost line) in
      ebind (from_opt NotFoundError (get_item (rl_item_id line) s)) (\<lambda>item.
      if it_nature item = SERIALIZED
      then foldE (receive_serial grn_id posting_date line) (rl_serial_nos line) acc
      else
        let qty_after_val = get_qty_after (rl_item_id line) (rl_location_id line) s + line_qty;
            value_change = line_qty * purchase_cost
        in ebind (create_sle
          \<lparr>sle_posting_date = posting_date, sle_item_id = rl_item_id line,
           sle_warehouse_id = rl_warehouse_id line, sle_stock_unit_id = None,
           sle_voucher_type = SV_GRN, sle_voucher_id = grn_id, sle_qty_change = line_qty,
           sle_valuation_rate = purchase_cost, sle_stock_value_change = money value_change,
           sle_qty_after = qty_after_val, sle_is_cancelled = False\<rparr> s) (\<lambda>s1.
        ebind (case rl_location_id line of
                 None \<Rightarrow> Inr s1
               | Some l \<Rightarrow> upsert_balance (rl_item_id line) l line_qty (Some purchase_cost) s1) (\<lambda>s2.
        Inr (result_units, s2)))))"

definition receive_into_stock ::
  "uuid \<Rightarrow> receipt_line list \<Rightarrow> date \<Rightarrow> 'a inventory_scheme
     \<Rightarrow> err + received_unit list \<times> 'a inventory_scheme" where
  "receive_into_stock grn_id ls posting_date s = foldE (receive_line grn_id posting_date) ls ([], s)"

text \<open>
  One turn of the loop of \<open>dispatch_units\<close>, with the running cost of the goods sold. The unit the
  loop holds is the row itself (one object per row in a session), so its columns are read from the
  state.
\<close>

definition dispatch_unit ::
  "uuid \<Rightarrow> date \<Rightarrow> uuid \<Rightarrow> rat \<times> 'a inventory_scheme \<Rightarrow> err + rat \<times> 'a inventory_scheme" where
  "dispatch_unit dispatch_id posting_date unit_id acc =
     (let (total_cogs, s) = acc in
      ebind (from_opt NotFoundError (get_unit unit_id s)) (\<lambda>unit.
      ebind (ensure (su_status unit = IN_STOCK) ConflictError) (\<lambda>_.
      let s1 = upd_unit unit_id
                 (\<lambda>u. u\<lparr>su_status := SOLD, su_sales_dispatch_id := Some dispatch_id\<rparr>) s;
          s2 = (case get_serial (su_serial_no unit) s1 of
                  None \<Rightarrow> s1
                | Some e \<Rightarrow> update_serial_status (sn_id e) SOLD s1);
          qty_after = get_qty_after (su_item_id unit) (su_location_id unit) s2 - 1
      in ebind (create_sle
        \<lparr>sle_posting_date = posting_date, sle_item_id = su_item_id unit, sle_warehouse_id = None,
         sle_stock_unit_id = Some unit_id, sle_voucher_type = SV_DISPATCH,
         sle_voucher_id = dispatch_id, sle_qty_change = - 1, sle_valuation_rate = su_purchase_cost unit,
         sle_stock_value_change = money (- su_purchase_cost unit), sle_qty_after = qty_after,
         sle_is_cancelled = False\<rparr> s2) (\<lambda>s3.
      ebind (case su_location_id unit of
               None \<Rightarrow> Inr s3
             | Some l \<Rightarrow> upsert_balance (su_item_id unit) l (- 1) None s3) (\<lambda>s4.
      Inr (total_cogs + su_purchase_cost unit, s4))))))"

definition dispatch_units ::
  "uuid list \<Rightarrow> uuid \<Rightarrow> date \<Rightarrow> 'a inventory_scheme \<Rightarrow> err + rat \<times> 'a inventory_scheme" where
  "dispatch_units unit_ids dispatch_id posting_date s =
     (let units = acquire_for_dispatch unit_ids s in
      ebind (ensure (length units = length unit_ids) NotFoundError) (\<lambda>_.
      ebind (foldE (dispatch_unit dispatch_id posting_date) (map su_id units) (money 0, s))
        (\<lambda>(total_cogs, s1). Inr (money total_cogs, s1))))"

record stock_transfer_request =
  str_unit_ids :: "uuid list"
  str_to_location_id :: uuid
  str_transfer_id :: uuid
  str_posting_date :: date

definition valid_transfer_request :: "stock_transfer_request \<Rightarrow> bool" where
  "valid_transfer_request r = (length (str_unit_ids r) \<ge> 1)"

definition transfer_unit ::
  "stock_transfer_request \<Rightarrow> uuid \<Rightarrow> 'a inventory_scheme \<Rightarrow> err + 'a inventory_scheme" where
  "transfer_unit request unit_id s =
     ebind (from_opt NotFoundError (get_unit unit_id s)) (\<lambda>unit.
     ebind (ensure (su_status unit = IN_STOCK) ConflictError) (\<lambda>_.
     ebind (create_sle
       \<lparr>sle_posting_date = str_posting_date request, sle_item_id = su_item_id unit,
        sle_warehouse_id = None, sle_stock_unit_id = Some unit_id,
        sle_voucher_type = SV_TRANSFER, sle_voucher_id = str_transfer_id request,
        sle_qty_change = 0, sle_valuation_rate = su_purchase_cost unit,
        sle_stock_value_change = 0, sle_qty_after = 0, sle_is_cancelled = False\<rparr> s) (\<lambda>s1.
     ebind (case su_location_id unit of
              None \<Rightarrow> Inr s1
            | Some l \<Rightarrow> upsert_balance (su_item_id unit) l (- 1) None s1) (\<lambda>s2.
     ebind (ensure (str_to_location_id request \<in> loc_id ` set (locations s2))
              (IntegrityError ''stock_units_location_id_fkey'')) (\<lambda>_.
     Inr (upd_unit unit_id
       (\<lambda>u. u\<lparr>su_location_id := Some (str_to_location_id request), su_status := IN_TRANSIT\<rparr>) s2))))))"

definition transfer_units ::
  "stock_transfer_request \<Rightarrow> 'a inventory_scheme \<Rightarrow> err + 'a inventory_scheme" where
  "transfer_units request s =
     (let units = acquire_for_dispatch (str_unit_ids request) s in
      ebind (ensure (length units = length (str_unit_ids request)) NotFoundError) (\<lambda>_.
      foldE (transfer_unit request) (map su_id units) s))"

record stock_adjustment_request =
  sar_item_id :: uuid
  sar_location_id :: uuid
  sar_adjustment_id :: uuid
  sar_qty_adjustment :: rat
  sar_reason_code :: string
  sar_posting_date :: date

definition parse_adjustment_request :: "stock_adjustment_request \<Rightarrow> err + stock_adjustment_request" where
  "parse_adjustment_request r =
     ebind (ensure (sar_reason_code r \<in> set adjustment_reasons) ValueError) (\<lambda>_.
     Inr (r\<lparr>sar_qty_adjustment := qty (sar_qty_adjustment r)\<rparr>))"

definition adjust_stock ::
  "stock_adjustment_request \<Rightarrow> uuid \<Rightarrow> 'a inventory_scheme \<Rightarrow> err + rat \<times> 'a inventory_scheme" where
  "adjust_stock request actor_id s =
     ebind (from_opt NotFoundError (get_item (sar_item_id request) s)) (\<lambda>item.
     ebind (ensure (it_nature item \<noteq> SERIALIZED) ConflictError) (\<lambda>_.
     let qty_adjustment = qty (sar_qty_adjustment request);
         balance = get_balance (sar_item_id request) (sar_location_id request) s;
         current_qty = (case balance of None \<Rightarrow> 0 | Some b \<Rightarrow> sb_qty b);
         avg_cost = (case balance of None \<Rightarrow> money (it_default_purchase_price item)
                     | Some b \<Rightarrow> sb_avg_cost b);
         qty_after = current_qty + qty_adjustment
     in ebind (ensure (\<not> qty_after < 0) ConflictError) (\<lambda>_.
     let adjustment_amount = money (\<bar>qty_adjustment\<bar> * avg_cost)
     in ebind (create_sle
       \<lparr>sle_posting_date = sar_posting_date request, sle_item_id = sar_item_id request,
        sle_warehouse_id = None, sle_stock_unit_id = None, sle_voucher_type = SV_ADJUSTMENT,
        sle_voucher_id = sar_adjustment_id request, sle_qty_change = qty_adjustment,
        sle_valuation_rate = avg_cost, sle_stock_value_change = money (qty_adjustment * avg_cost),
        sle_qty_after = qty_after, sle_is_cancelled = False\<rparr> s) (\<lambda>s1.
     ebind (upsert_balance (sar_item_id request) (sar_location_id request) qty_adjustment
              (Some avg_cost) s1) (\<lambda>s2.
     ebind (emit_event_async (AdjustmentConfirmed (sar_adjustment_id request) adjustment_amount
              (sar_posting_date request) (Some actor_id)) s2) (\<lambda>s3.
     Inr (adjustment_amount, s3)))))))"

section \<open>ValuationService\<close>

record stock_value =
  sv_total_value :: rat
  sv_serialized_value :: rat
  sv_bulk_value :: rat
  sv_item_count :: nat

definition serial_value :: "'a inventory_scheme \<Rightarrow> rat" where
  "serial_value s =
     sum_list (map su_purchase_cost (filter (\<lambda>u. su_status u = IN_STOCK) (stock_units s)))"

definition bulk_value :: "'a inventory_scheme \<Rightarrow> rat" where
  "bulk_value s = sum_list (map (\<lambda>b. sb_qty b * sb_avg_cost b) (stock_balances s))"

definition compute_stock_value :: "'a inventory_scheme \<Rightarrow> stock_value" where
  "compute_stock_value s =
     \<lparr>sv_total_value = money (serial_value s + bulk_value s),
      sv_serialized_value = money (serial_value s), sv_bulk_value = money (bulk_value s),
      sv_item_count = length (remdups
        (map su_item_id (filter (\<lambda>u. su_status u = IN_STOCK) (stock_units s))
         @ map sb_item_id (filter (\<lambda>b. sb_qty b > 0) (stock_balances s))))\<rparr>"

definition gl_inventory_balance :: "'a ledger_scheme \<Rightarrow> rat" where
  "gl_inventory_balance s =
     sum_list (map (\<lambda>l. if jl_dr_base l > 0 then jl_dr_base l else - jl_cr_base l)
       (filter (\<lambda>l. (\<exists>a\<in>set (accounts s). acc_id a = jl_account_id l \<and> acc_code a = ''1200'')
                  \<and> (\<exists>e\<in>set (entries s). je_id e = jl_entry_id l \<and> je_status e = JE_POSTED))
          (journal_lines s)))"

record stock_reconciliation =
  sr_stock_value :: rat
  sr_gl_balance :: rat
  sr_variance :: rat
  sr_reconciled :: bool

definition reconcile_to_gl :: "'a inventory_scheme \<Rightarrow> stock_reconciliation" where
  "reconcile_to_gl s =
     (let stock_value = sv_total_value (compute_stock_value s);
          gl_balance = gl_inventory_balance s;
          variance = money (stock_value - gl_balance)
      in \<lparr>sr_stock_value = stock_value, sr_gl_balance = gl_balance, sr_variance = variance,
          sr_reconciled = (\<bar>variance\<bar> < 5 / 1000)\<rparr>)"

text \<open>The Celery task computes the same figures, with the rounding in its own place.\<close>

definition recompute_valuation_task :: "'a inventory_scheme \<Rightarrow> stock_reconciliation" where
  "recompute_valuation_task s =
     (let gl_balance = gl_inventory_balance s;
          stock_value = money (serial_value s + bulk_value s);
          variance = money (stock_value - gl_balance)
      in \<lparr>sr_stock_value = stock_value, sr_gl_balance = gl_balance, sr_variance = variance,
          sr_reconciled = (\<bar>variance\<bar> < 5 / 1000)\<rparr>)"

definition recompute_moving_average :: "uuid \<Rightarrow> 'a inventory_scheme \<Rightarrow> rat" where
  "recompute_moving_average i s =
     (let rows = filter (\<lambda>e. sle_item_id e = i \<and> sle_voucher_type e = SV_GRN
                   \<and> \<not> sle_is_cancelled e \<and> sle_qty_change e > 0) (stock_ledger s);
          total_value = sum_list (map sle_stock_value_change rows);
          total_qty = sum_list (map sle_qty_change rows)
      in money (if total_qty > 0 then total_value / total_qty else 0))"

section \<open>Queries of the router\<close>

record stock_on_hand_row =
  soh_item_id :: uuid
  soh_item_name :: string
  soh_warehouse_id :: uuid
  soh_location_id :: uuid
  soh_location_code :: string
  soh_qty :: rat
  soh_value :: rat

definition stock_on_hand ::
  "uuid option \<Rightarrow> nat \<Rightarrow> nat \<Rightarrow> 'a inventory_scheme \<Rightarrow> stock_on_hand_row list" where
  "stock_on_hand item_id limit offset s =
     take limit (drop offset (sort_key (\<lambda>r. (soh_item_name r, soh_location_code r))
       (List.map_filter (\<lambda>b.
          case (get_item (sb_item_id b) s, get_location (sb_location_id b) s) of
            (Some it, Some loc) \<Rightarrow>
              if sb_qty b > 0 \<and> (case item_id of None \<Rightarrow> True | Some i \<Rightarrow> sb_item_id b = i)
              then Some \<lparr>soh_item_id = sb_item_id b, soh_item_name = it_name it,
                soh_warehouse_id = loc_warehouse_id loc, soh_location_id = sb_location_id b,
                soh_location_code = loc_code loc, soh_qty = sb_qty b,
                soh_value = sb_qty b * sb_avg_cost b\<rparr>
              else None
          | _ \<Rightarrow> None) (stock_balances s))))"

record serial_lookup_response =
  slr_item_id :: "uuid option"
  slr_item_name :: "string option"
  slr_status :: "stock_unit_status option"
  slr_location :: "string option"
  slr_lifecycle :: "stock_ledger_entry list"

text \<open>\<open>None\<close> is the status ''unknown''.\<close>

definition serial_lookup :: "string \<Rightarrow> 'a inventory_scheme \<Rightarrow> serial_lookup_response" where
  "serial_lookup sno s =
     (let serial_entry = get_serial sno s;
          item_id = Option.bind serial_entry sn_item_id;
          unit = get_unit_by_serial sno s
      in \<lparr>slr_item_id = item_id,
          slr_item_name = map_option it_name (Option.bind item_id (\<lambda>i. get_item i s)),
          slr_status = (case serial_entry of Some e \<Rightarrow> Some (sn_status e)
                        | None \<Rightarrow> map_option su_status unit),
          slr_location = map_option loc_code
            (Option.bind unit (\<lambda>u. Option.bind (su_location_id u) (\<lambda>l. get_location l s))),
          slr_lifecycle = (case unit of None \<Rightarrow> [] | Some u \<Rightarrow> list_sle_by_unit (su_id u) s)\<rparr>)"

lemmas inventory_evals = limit_1_def fk_ok_def get_item_def get_by_sku_def upd_item_def
  get_warehouse_def get_warehouse_by_code_def get_location_def get_location_by_code_def get_unit_def
  upd_unit_def get_unit_by_serial_def acquire_for_dispatch_def get_balance_def upd_balance_def
  create_balance_def upsert_balance_def create_sle_def get_qty_after_def get_serial_def
  create_serial_def update_serial_status_def create_unit_def receive_serial_def receive_line_def
  receive_into_stock_def dispatch_unit_def dispatch_units_def transfer_unit_def transfer_units_def
  adjust_stock_def serial_value_def bulk_value_def compute_stock_value_def gl_inventory_balance_def
  reconcile_to_gl_def item_nature_of_def valuation_method_of_def

declare inventory_evals [evals]

end
