(* ===== verification/Procurement.thy ===== *)
theory Procurement
  imports Inventory Strings
begin

text \<open>
  Purchasing (backend/app/modules/procurement: constants, models, schemas, repository, service):
  purchase orders and goods receipt notes. Confirming a receipt writes the tables of Inventory itself
  (it does not call \<open>receive_into_stock\<close>) and emits the event the bridge posts. Remarks and line
  descriptions are left out; the lines of a document are in insertion order.
\<close>

section \<open>Constants and tables\<close>

datatype po_status = PO_DRAFT | PO_ISSUED | PO_RECEIVED | PO_CLOSED | PO_CANCELLED

datatype grn_status = GRN_DRAFT | GRN_CONFIRMED | GRN_CANCELLED

record purchase_order =
  po_id :: uuid
  po_no :: string
  po_supplier_id :: uuid
  po_currency_code :: string
  po_status :: po_status
  po_order_date :: date
  po_expected_date :: "date option"
  po_created_year :: nat

record purchase_order_line =
  pol_po_id :: uuid
  pol_item_id :: "uuid option"
  pol_qty :: rat
  pol_unit_cost :: rat
  pol_line_total :: rat

record goods_receipt_note =
  grn_id :: uuid
  grn_no :: string
  grn_po_id :: "uuid option"
  grn_warehouse_id :: uuid
  grn_receipt_date :: date
  grn_status :: grn_status
  grn_je_id :: "uuid option"
  grn_created_year :: nat

record grn_line =
  gl_grn_id :: uuid
  gl_item_id :: "uuid option"
  gl_serial_no :: "string option"
  gl_imei :: "string option"
  gl_qty_received :: rat
  gl_unit_cost :: rat
  gl_line_total :: rat

record procurement = inventory +
  purchase_orders :: "purchase_order list"
  po_lines :: "purchase_order_line list"
  grns :: "goods_receipt_note list"
  grn_lines :: "grn_line list"

section \<open>Repositories\<close>

definition get_po :: "uuid \<Rightarrow> 'a procurement_scheme \<Rightarrow> purchase_order option" where
  "get_po i s = get_by po_id i (purchase_orders s)"

definition upd_po ::
  "uuid \<Rightarrow> (purchase_order \<Rightarrow> purchase_order) \<Rightarrow> 'a procurement_scheme \<Rightarrow> 'a procurement_scheme" where
  "upd_po i f s = s\<lparr>purchase_orders := upd_by po_id i f (purchase_orders s)\<rparr>"

definition add_po :: "purchase_order \<Rightarrow> 'a procurement_scheme \<Rightarrow> 'a procurement_scheme" where
  "add_po r s = s\<lparr>purchase_orders := purchase_orders s @ [r]\<rparr>"

definition lines_of_po :: "uuid \<Rightarrow> 'a procurement_scheme \<Rightarrow> purchase_order_line list" where
  "lines_of_po i s = filter (\<lambda>l. pol_po_id l = i) (po_lines s)"

definition get_grn :: "uuid \<Rightarrow> 'a procurement_scheme \<Rightarrow> goods_receipt_note option" where
  "get_grn i s = get_by grn_id i (grns s)"

definition upd_grn ::
  "uuid \<Rightarrow> (goods_receipt_note \<Rightarrow> goods_receipt_note) \<Rightarrow> 'a procurement_scheme \<Rightarrow> 'a procurement_scheme" where
  "upd_grn i f s = s\<lparr>grns := upd_by grn_id i f (grns s)\<rparr>"

definition add_grn :: "goods_receipt_note \<Rightarrow> 'a procurement_scheme \<Rightarrow> 'a procurement_scheme" where
  "add_grn r s = s\<lparr>grns := grns s @ [r]\<rparr>"

definition lines_of_grn :: "uuid \<Rightarrow> 'a procurement_scheme \<Rightarrow> grn_line list" where
  "lines_of_grn i s = filter (\<lambda>l. gl_grn_id l = i) (grn_lines s)"

definition list_pos ::
  "uuid option \<Rightarrow> po_status option \<Rightarrow> nat \<Rightarrow> nat \<Rightarrow> 'a procurement_scheme \<Rightarrow> purchase_order list" where
  "list_pos supplier_id status limit offset s =
     take limit (drop offset (sort_key (\<lambda>r. - int (po_order_date r))
       (filter (\<lambda>r. (case supplier_id of None \<Rightarrow> True | Some i \<Rightarrow> po_supplier_id r = i)
                  \<and> (case status of None \<Rightarrow> True | Some st \<Rightarrow> po_status r = st)) (purchase_orders s))))"

definition list_grns ::
  "uuid option \<Rightarrow> uuid option \<Rightarrow> grn_status option \<Rightarrow> nat \<Rightarrow> nat \<Rightarrow> 'a procurement_scheme
     \<Rightarrow> goods_receipt_note list" where
  "list_grns po_ref warehouse_id status limit offset s =
     take limit (drop offset (sort_key (\<lambda>r. - int (grn_receipt_date r))
       (filter (\<lambda>r. (case po_ref of None \<Rightarrow> True | Some i \<Rightarrow> grn_po_id r = Some i)
                  \<and> (case warehouse_id of None \<Rightarrow> True | Some i \<Rightarrow> grn_warehouse_id r = i)
                  \<and> (case status of None \<Rightarrow> True | Some st \<Rightarrow> grn_status r = st)) (grns s))))"

definition generate_po_no :: "'a procurement_scheme \<Rightarrow> string" where
  "generate_po_no s = generate_no ''PO'' po_created_year (purchase_orders s) (year_of (today s))"

definition generate_grn_no :: "'a procurement_scheme \<Rightarrow> string" where
  "generate_grn_no s = generate_no ''GRN'' grn_created_year (grns s) (year_of (today s))"

section \<open>Requests\<close>

record po_line_request =
  plr_item_id :: "uuid option"
  plr_qty :: rat
  plr_unit_cost :: rat

record po_create_request =
  pcr_supplier_id :: uuid
  pcr_currency_code :: string
  pcr_order_date :: date
  pcr_expected_date :: "date option"
  pcr_lines :: "po_line_request list"

record grn_line_request =
  glr_item_id :: "uuid option"
  glr_serial_no :: "string option"
  glr_imei :: "string option"
  glr_qty_received :: rat
  glr_unit_cost :: rat

record grn_create_request =
  gcr_po_id :: "uuid option"
  gcr_warehouse_id :: uuid
  gcr_receipt_date :: date
  gcr_lines :: "grn_line_request list"

text \<open>The schemas round to the scale of the column and refuse negative values.\<close>

definition parse_po_line :: "po_line_request \<Rightarrow> err + po_line_request" where
  "parse_po_line r =
     (let r' = r\<lparr>plr_qty := qty (plr_qty r), plr_unit_cost := money (plr_unit_cost r)\<rparr>
      in ebind (ensure (plr_qty r' \<ge> 0 \<and> plr_unit_cost r' \<ge> 0) ValueError) (\<lambda>_. Inr r'))"

definition parse_grn_line :: "grn_line_request \<Rightarrow> err + grn_line_request" where
  "parse_grn_line r =
     (let r' = r\<lparr>glr_qty_received := qty (glr_qty_received r), glr_unit_cost := money (glr_unit_cost r)\<rparr>
      in ebind (ensure (glr_qty_received r' \<ge> 0 \<and> glr_unit_cost r' \<ge> 0
                  \<and> (case glr_serial_no r of None \<Rightarrow> True | Some x \<Rightarrow> length x \<le> 100)
                  \<and> (case glr_imei r of None \<Rightarrow> True | Some x \<Rightarrow> length x \<le> 20)) ValueError) (\<lambda>_. Inr r'))"

primrec mapE :: "('a \<Rightarrow> 'e + 'b) \<Rightarrow> 'a list \<Rightarrow> 'e + 'b list" where
  "mapE f [] = Inr []"
| "mapE f (x # xs) = ebind (f x) (\<lambda>y. ebind (mapE f xs) (\<lambda>ys. Inr (y # ys)))"

definition parse_po_request :: "po_create_request \<Rightarrow> err + po_create_request" where
  "parse_po_request r =
     ebind (ensure (length (pcr_currency_code r) = 3 \<and> length (pcr_lines r) \<ge> 1) ValueError) (\<lambda>_.
     ebind (mapE parse_po_line (pcr_lines r)) (\<lambda>ls. Inr (r\<lparr>pcr_lines := ls\<rparr>)))"

definition parse_grn_request :: "grn_create_request \<Rightarrow> err + grn_create_request" where
  "parse_grn_request r =
     ebind (ensure (length (gcr_lines r) \<ge> 1) ValueError) (\<lambda>_.
     ebind (mapE parse_grn_line (gcr_lines r)) (\<lambda>ls. Inr (r\<lparr>gcr_lines := ls\<rparr>)))"

section \<open>POService\<close>

text \<open>One line of a new order, with the foreign key of the item.\<close>

definition po_create_line ::
  "uuid \<Rightarrow> po_line_request \<Rightarrow> 'a procurement_scheme \<Rightarrow> err + 'a procurement_scheme" where
  "po_create_line i line_req s =
     ebind (ensure (fk_ok (plr_item_id line_req) (map it_id (items s)))
              (IntegrityError ''purchase_order_lines_item_id_fkey'')) (\<lambda>_.
     Inr (s\<lparr>po_lines := po_lines s @
       [\<lparr>pol_po_id = i, pol_item_id = plr_item_id line_req, pol_qty = qty (plr_qty line_req),
         pol_unit_cost = money (plr_unit_cost line_req),
         pol_line_total = money (plr_qty line_req * plr_unit_cost line_req)\<rparr>]\<rparr>))"

definition po_create ::
  "po_create_request \<Rightarrow> 'a procurement_scheme \<Rightarrow> err + uuid \<times> 'a procurement_scheme" where
  "po_create request s =
     ebind (from_opt NotFoundError (get_contact (pcr_supplier_id request) s)) (\<lambda>supplier.
     let no = generate_po_no s;
         (i, s1) = fresh_id s
     in ebind (ensure (no \<notin> po_no ` set (purchase_orders s1))
                (IntegrityError ''uq_purchase_orders_po_no'')) (\<lambda>_.
     ebind (foldE (po_create_line i) (pcr_lines request) (add_po
       \<lparr>po_id = i, po_no = no, po_supplier_id = pcr_supplier_id request,
        po_currency_code = pcr_currency_code request, po_status = PO_DRAFT,
        po_order_date = pcr_order_date request, po_expected_date = pcr_expected_date request,
        po_created_year = year_of (today s1)\<rparr> s1)) (\<lambda>s2.
     Inr (i, s2))))"

definition po_issue :: "uuid \<Rightarrow> uuid \<Rightarrow> 'a procurement_scheme \<Rightarrow> err + 'a procurement_scheme" where
  "po_issue i actor_id s =
     ebind (from_opt NotFoundError (get_po i s)) (\<lambda>po.
     ebind (ensure (po_status po = PO_DRAFT) ConflictError) (\<lambda>_.
     Inr (upd_po i (\<lambda>r. r\<lparr>po_status := PO_ISSUED\<rparr>) s)))"

section \<open>GRNService\<close>

definition grn_create_line ::
  "uuid \<Rightarrow> grn_line_request \<Rightarrow> 'a procurement_scheme \<Rightarrow> err + 'a procurement_scheme" where
  "grn_create_line i line_req s =
     ebind (ensure (fk_ok (glr_item_id line_req) (map it_id (items s)))
              (IntegrityError ''grn_lines_item_id_fkey'')) (\<lambda>_.
     Inr (s\<lparr>grn_lines := grn_lines s @
       [\<lparr>gl_grn_id = i, gl_item_id = glr_item_id line_req, gl_serial_no = glr_serial_no line_req,
         gl_imei = glr_imei line_req, gl_qty_received = qty (glr_qty_received line_req),
         gl_unit_cost = money (glr_unit_cost line_req),
         gl_line_total = money (glr_qty_received line_req * glr_unit_cost line_req)\<rparr>]\<rparr>))"

definition grn_create ::
  "grn_create_request \<Rightarrow> 'a procurement_scheme \<Rightarrow> err + uuid \<times> 'a procurement_scheme" where
  "grn_create request s =
     ebind (case gcr_po_id request of
              None \<Rightarrow> Inr ()
            | Some p \<Rightarrow> ebind (from_opt NotFoundError (get_po p s)) (\<lambda>_. Inr ())) (\<lambda>_.
     let no = generate_grn_no s;
         (i, s1) = fresh_id s
     in ebind (ensure (no \<notin> grn_no ` set (grns s1))
                (IntegrityError ''uq_goods_receipt_notes_grn_no'')) (\<lambda>_.
     ebind (ensure (gcr_warehouse_id request \<in> wh_id ` set (warehouses s1))
              (IntegrityError ''goods_receipt_notes_warehouse_id_fkey'')) (\<lambda>_.
     ebind (foldE (grn_create_line i) (gcr_lines request) (add_grn
       \<lparr>grn_id = i, grn_no = no, grn_po_id = gcr_po_id request,
        grn_warehouse_id = gcr_warehouse_id request, grn_receipt_date = gcr_receipt_date request,
        grn_status = GRN_DRAFT, grn_je_id = None, grn_created_year = year_of (today s1)\<rparr> s1)) (\<lambda>s2.
     Inr (i, s2)))))"

text \<open>\<open>[s.strip() for s in line.serial_no.split(",") if s.strip()]\<close> on code points below 256.\<close>

definition serial_numbers :: "string \<Rightarrow> string list" where
  "serial_numbers text = filter (\<lambda>w. w \<noteq> []) (map strip (split_on (CHR '','') text))"

text \<open>One serial number of a line: a unit without location and its ledger row.\<close>

definition grn_serial ::
  "goods_receipt_note \<Rightarrow> uuid \<Rightarrow> grn_line \<Rightarrow> string \<Rightarrow> 'a procurement_scheme \<Rightarrow> err + 'a procurement_scheme" where
  "grn_serial grn i line sn s =
     ebind (create_unit i sn None None (gl_unit_cost line) (grn_id grn) s) (\<lambda>(unit_id, s1).
     create_sle
       \<lparr>sle_posting_date = grn_receipt_date grn, sle_item_id = i,
        sle_warehouse_id = Some (grn_warehouse_id grn), sle_stock_unit_id = Some unit_id,
        sle_voucher_type = SV_GRN, sle_voucher_id = grn_id grn, sle_qty_change = 1,
        sle_valuation_rate = gl_unit_cost line, sle_stock_value_change = gl_unit_cost line,
        sle_qty_after = 1, sle_is_cancelled = False\<rparr> s1)"

definition moving_average :: "stock_balance \<Rightarrow> rat \<Rightarrow> rat \<Rightarrow> stock_balance" where
  "moving_average balance received unit_cost =
     (let new_qty = sb_qty balance + received
      in balance\<lparr>sb_avg_cost :=
             (if new_qty > 0
              then money ((sb_qty balance * sb_avg_cost balance + received * unit_cost) / new_qty)
              else sb_avg_cost balance),
           sb_qty := new_qty\<rparr>)"

text \<open>A line without serial numbers: the balance at one active location of the warehouse.\<close>

definition grn_bulk ::
  "goods_receipt_note \<Rightarrow> uuid \<Rightarrow> grn_line \<Rightarrow> rat \<Rightarrow> 'a procurement_scheme \<Rightarrow> err + 'a procurement_scheme" where
  "grn_bulk grn i line line_value s =
     ebind (from_opt ConflictError (limit_1
       (filter (\<lambda>l. loc_warehouse_id l = grn_warehouse_id grn \<and> loc_is_active l) (locations s)) s))
       (\<lambda>location.
     ebind (case get_balance i (loc_id location) s of
              None \<Rightarrow> create_balance
                \<lparr>sb_item_id = i, sb_location_id = loc_id location, sb_qty = 0, sb_avg_cost = 0\<rparr> s
            | Some _ \<Rightarrow> Inr s) (\<lambda>s1.
     let s2 = upd_balance i (loc_id location)
                (\<lambda>b. moving_average b (gl_qty_received line) (gl_unit_cost line)) s1;
         qty_after = (case get_balance i (loc_id location) s2 of None \<Rightarrow> 0 | Some b \<Rightarrow> sb_qty b)
     in create_sle
       \<lparr>sle_posting_date = grn_receipt_date grn, sle_item_id = i,
        sle_warehouse_id = Some (grn_warehouse_id grn), sle_stock_unit_id = None,
        sle_voucher_type = SV_GRN, sle_voucher_id = grn_id grn,
        sle_qty_change = gl_qty_received line, sle_valuation_rate = gl_unit_cost line,
        sle_stock_value_change = line_value, sle_qty_after = qty_after, sle_is_cancelled = False\<rparr> s2))"

text \<open>A serial number that is absent or empty.\<close>

definition has_serial :: "grn_line \<Rightarrow> bool" where
  "has_serial line = (case gl_serial_no line of None \<Rightarrow> False | Some x \<Rightarrow> x \<noteq> [])"

definition grn_confirm_line ::
  "goods_receipt_note \<Rightarrow> grn_line \<Rightarrow> rat \<times> 'a procurement_scheme \<Rightarrow> err + rat \<times> 'a procurement_scheme" where
  "grn_confirm_line grn line acc =
     (let (total_received_value, s) = acc in
      case gl_item_id line of
        None \<Rightarrow> Inr acc
      | Some i \<Rightarrow>
          let line_value = money (gl_qty_received line * gl_unit_cost line);
              total = total_received_value + line_value
          in ebind (if has_serial line
                    then foldE (grn_serial grn i line) (serial_numbers (the (gl_serial_no line))) s
                    else Inr s) (\<lambda>s1.
             ebind (if gl_qty_received line > 0 \<and> \<not> has_serial line
                    then grn_bulk grn i line line_value s1 else Inr s1) (\<lambda>s2.
             Inr (total, s2))))"

definition received_qty :: "uuid \<Rightarrow> uuid \<Rightarrow> 'a procurement_scheme \<Rightarrow> rat" where
  "received_qty po_ref i s =
     sum_list (map gl_qty_received (filter (\<lambda>l. gl_item_id l = Some i
       \<and> (case get_grn (gl_grn_id l) s of None \<Rightarrow> False
          | Some g \<Rightarrow> grn_po_id g = Some po_ref \<and> grn_status g = GRN_CONFIRMED)) (grn_lines s)))"

definition maybe_receive_po :: "uuid \<Rightarrow> 'a procurement_scheme \<Rightarrow> 'a procurement_scheme" where
  "maybe_receive_po po_ref s =
     (case get_po po_ref s of
        None \<Rightarrow> s
      | Some po \<Rightarrow>
          if po_status po \<noteq> PO_ISSUED then s
          else let all_covered = (\<forall>pol\<in>set (lines_of_po po_ref s).
                     case pol_item_id pol of None \<Rightarrow> True
                     | Some i \<Rightarrow> \<not> received_qty po_ref i s < pol_qty pol)
               in if all_covered then upd_po po_ref (\<lambda>r. r\<lparr>po_status := PO_RECEIVED\<rparr>) s else s)"

definition grn_confirm ::
  "uuid \<Rightarrow> uuid \<Rightarrow> 'a procurement_scheme \<Rightarrow> err + 'a procurement_scheme" where
  "grn_confirm i actor_id s =
     ebind (from_opt NotFoundError (get_grn i s)) (\<lambda>grn.
     ebind (ensure (grn_status grn = GRN_DRAFT) ConflictError) (\<lambda>_.
     ebind (foldE (grn_confirm_line grn) (lines_of_grn i s) (money_zero, s)) (\<lambda>(total_received_value, s1).
     ebind (emit_event_async (GrnConfirmed (grn_id grn) total_received_value (grn_receipt_date grn)
              (Some actor_id)) (upd_grn i (\<lambda>g. g\<lparr>grn_status := GRN_CONFIRMED\<rparr>) s1)) (\<lambda>s2.
     Inr (case grn_po_id grn of None \<Rightarrow> s2 | Some p \<Rightarrow> maybe_receive_po p s2)))))"

lemmas procurement_evals = get_po_def upd_po_def add_po_def lines_of_po_def get_grn_def upd_grn_def
  add_grn_def lines_of_grn_def generate_po_no_def generate_grn_no_def parse_po_line_def
  parse_grn_line_def po_create_line_def po_create_def po_issue_def grn_create_line_def grn_create_def
  serial_numbers_def grn_serial_def moving_average_def grn_bulk_def
  has_serial_def grn_confirm_line_def received_qty_def maybe_receive_po_def grn_confirm_def

declare procurement_evals [evals]

end
