(* ===== verification/Fulfilment.thy ===== *)
theory Fulfilment
  imports Procurement
begin

text \<open>
  Sales (backend/app/modules/fulfilment: constants, models, schemas, repository, service): sales
  orders and dispatches. Confirming a dispatch takes serialized units and bulk quantities out of
  stock and emits the event the bridge posts as cost of goods sold.

  The sessions do not flush before a query (\<open>autoflush=False\<close>), and the loop of \<open>confirm\<close> does
  not flush either: which balance a bulk line takes from is decided on the quantities the database
  had when the operation began, while the quantity it is taken from is the one in memory.
\<close>

section \<open>Constants and tables\<close>

datatype so_status = SO_DRAFT | SO_CONFIRMED | SO_DISPATCHED | SO_INVOICED | SO_CANCELLED

datatype dispatch_status = DP_DRAFT | DP_CONFIRMED | DP_CANCELLED

record sales_order =
  so_id :: uuid
  so_no :: string
  so_customer_id :: uuid
  so_currency_code :: string
  so_status :: so_status
  so_order_date :: date
  so_created_year :: nat

record sales_order_line =
  sol_so_id :: uuid
  sol_item_id :: "uuid option"
  sol_qty :: rat
  sol_unit_price :: rat
  sol_line_total :: rat

record dispatch =
  dp_id :: uuid
  dp_no :: string
  dp_so_id :: "uuid option"
  dp_dispatch_date :: date
  dp_status :: dispatch_status
  dp_je_id :: "uuid option"
  dp_created_year :: nat

record dispatch_line =
  dl_dispatch_id :: uuid
  dl_stock_unit_id :: "uuid option"
  dl_item_id :: "uuid option"
  dl_qty :: rat
  dl_unit_cost :: rat

record fulfilment = procurement +
  sales_orders :: "sales_order list"
  so_lines :: "sales_order_line list"
  dispatches :: "dispatch list"
  dispatch_lines :: "dispatch_line list"

section \<open>Repositories\<close>

definition get_so :: "uuid \<Rightarrow> 'a fulfilment_scheme \<Rightarrow> sales_order option" where
  "get_so i s = get_by so_id i (sales_orders s)"

definition upd_so ::
  "uuid \<Rightarrow> (sales_order \<Rightarrow> sales_order) \<Rightarrow> 'a fulfilment_scheme \<Rightarrow> 'a fulfilment_scheme" where
  "upd_so i f s = s\<lparr>sales_orders := upd_by so_id i f (sales_orders s)\<rparr>"

definition add_so :: "sales_order \<Rightarrow> 'a fulfilment_scheme \<Rightarrow> 'a fulfilment_scheme" where
  "add_so r s = s\<lparr>sales_orders := sales_orders s @ [r]\<rparr>"

definition lines_of_so :: "uuid \<Rightarrow> 'a fulfilment_scheme \<Rightarrow> sales_order_line list" where
  "lines_of_so i s = filter (\<lambda>l. sol_so_id l = i) (so_lines s)"

definition get_dispatch :: "uuid \<Rightarrow> 'a fulfilment_scheme \<Rightarrow> dispatch option" where
  "get_dispatch i s = get_by dp_id i (dispatches s)"

definition upd_dispatch ::
  "uuid \<Rightarrow> (dispatch \<Rightarrow> dispatch) \<Rightarrow> 'a fulfilment_scheme \<Rightarrow> 'a fulfilment_scheme" where
  "upd_dispatch i f s = s\<lparr>dispatches := upd_by dp_id i f (dispatches s)\<rparr>"

definition add_dispatch :: "dispatch \<Rightarrow> 'a fulfilment_scheme \<Rightarrow> 'a fulfilment_scheme" where
  "add_dispatch r s = s\<lparr>dispatches := dispatches s @ [r]\<rparr>"

definition lines_of_dispatch :: "uuid \<Rightarrow> 'a fulfilment_scheme \<Rightarrow> dispatch_line list" where
  "lines_of_dispatch i s = filter (\<lambda>l. dl_dispatch_id l = i) (dispatch_lines s)"

definition list_sos ::
  "uuid option \<Rightarrow> so_status option \<Rightarrow> nat \<Rightarrow> nat \<Rightarrow> 'a fulfilment_scheme \<Rightarrow> sales_order list" where
  "list_sos customer_id status limit offset s =
     take limit (drop offset (sort_key (\<lambda>r. - int (so_order_date r))
       (filter (\<lambda>r. (case customer_id of None \<Rightarrow> True | Some i \<Rightarrow> so_customer_id r = i)
                  \<and> (case status of None \<Rightarrow> True | Some st \<Rightarrow> so_status r = st)) (sales_orders s))))"

definition list_dispatches ::
  "uuid option \<Rightarrow> dispatch_status option \<Rightarrow> nat \<Rightarrow> nat \<Rightarrow> 'a fulfilment_scheme \<Rightarrow> dispatch list" where
  "list_dispatches so_ref status limit offset s =
     take limit (drop offset (sort_key (\<lambda>r. - int (dp_dispatch_date r))
       (filter (\<lambda>r. (case so_ref of None \<Rightarrow> True | Some i \<Rightarrow> dp_so_id r = Some i)
                  \<and> (case status of None \<Rightarrow> True | Some st \<Rightarrow> dp_status r = st)) (dispatches s))))"

definition generate_so_no :: "'a fulfilment_scheme \<Rightarrow> string" where
  "generate_so_no s = generate_no ''SO'' so_created_year (sales_orders s) (year_of (today s))"

definition generate_dispatch_no :: "'a fulfilment_scheme \<Rightarrow> string" where
  "generate_dispatch_no s = generate_no ''DPN'' dp_created_year (dispatches s) (year_of (today s))"

section \<open>Requests\<close>

record so_line_request =
  slq_item_id :: "uuid option"
  slq_qty :: rat
  slq_unit_price :: rat

record so_create_request =
  scr_customer_id :: uuid
  scr_currency_code :: string
  scr_order_date :: date
  scr_lines :: "so_line_request list"

record dispatch_line_request =
  dlr_stock_unit_id :: "uuid option"
  dlr_item_id :: "uuid option"
  dlr_qty :: rat
  dlr_unit_cost :: "rat option"

record dispatch_create_request =
  dcr_so_id :: "uuid option"
  dcr_dispatch_date :: date
  dcr_lines :: "dispatch_line_request list"

definition parse_so_line :: "so_line_request \<Rightarrow> err + so_line_request" where
  "parse_so_line r =
     (let r' = r\<lparr>slq_qty := qty (slq_qty r), slq_unit_price := money (slq_unit_price r)\<rparr>
      in ebind (ensure (slq_qty r' \<ge> 0 \<and> slq_unit_price r' \<ge> 0) ValueError) (\<lambda>_. Inr r'))"

definition parse_so_request :: "so_create_request \<Rightarrow> err + so_create_request" where
  "parse_so_request r =
     ebind (ensure (length (scr_currency_code r) = 3 \<and> length (scr_lines r) \<ge> 1) ValueError) (\<lambda>_.
     ebind (mapE parse_so_line (scr_lines r)) (\<lambda>ls. Inr (r\<lparr>scr_lines := ls\<rparr>)))"

text \<open>The unit cost of a dispatch line has no lower bound.\<close>

definition parse_dispatch_line :: "dispatch_line_request \<Rightarrow> err + dispatch_line_request" where
  "parse_dispatch_line r =
     (let r' = r\<lparr>dlr_qty := qty (dlr_qty r), dlr_unit_cost := map_option money (dlr_unit_cost r)\<rparr>
      in ebind (ensure (dlr_qty r' \<ge> 0) ValueError) (\<lambda>_. Inr r'))"

definition parse_dispatch_request :: "dispatch_create_request \<Rightarrow> err + dispatch_create_request" where
  "parse_dispatch_request r =
     ebind (ensure (length (dcr_lines r) \<ge> 1) ValueError) (\<lambda>_.
     ebind (mapE parse_dispatch_line (dcr_lines r)) (\<lambda>ls. Inr (r\<lparr>dcr_lines := ls\<rparr>)))"

section \<open>SOService\<close>

definition so_create_line ::
  "uuid \<Rightarrow> so_line_request \<Rightarrow> 'a fulfilment_scheme \<Rightarrow> err + 'a fulfilment_scheme" where
  "so_create_line i line_req s =
     ebind (ensure (fk_ok (slq_item_id line_req) (map it_id (items s)))
              (IntegrityError ''sales_order_lines_item_id_fkey'')) (\<lambda>_.
     Inr (s\<lparr>so_lines := so_lines s @
       [\<lparr>sol_so_id = i, sol_item_id = slq_item_id line_req, sol_qty = qty (slq_qty line_req),
         sol_unit_price = money (slq_unit_price line_req),
         sol_line_total = money (slq_qty line_req * slq_unit_price line_req)\<rparr>]\<rparr>))"

definition so_create ::
  "so_create_request \<Rightarrow> 'a fulfilment_scheme \<Rightarrow> err + uuid \<times> 'a fulfilment_scheme" where
  "so_create request s =
     ebind (from_opt NotFoundError (get_contact (scr_customer_id request) s)) (\<lambda>customer.
     let no = generate_so_no s;
         (i, s1) = fresh_id s
     in ebind (ensure (no \<notin> so_no ` set (sales_orders s1))
                (IntegrityError ''uq_sales_orders_so_no'')) (\<lambda>_.
     ebind (foldE (so_create_line i) (scr_lines request) (add_so
       \<lparr>so_id = i, so_no = no, so_customer_id = scr_customer_id request,
        so_currency_code = scr_currency_code request, so_status = SO_DRAFT,
        so_order_date = scr_order_date request, so_created_year = year_of (today s1)\<rparr> s1)) (\<lambda>s2.
     Inr (i, s2))))"

definition so_confirm :: "uuid \<Rightarrow> uuid \<Rightarrow> 'a fulfilment_scheme \<Rightarrow> err + 'a fulfilment_scheme" where
  "so_confirm i actor_id s =
     ebind (from_opt NotFoundError (get_so i s)) (\<lambda>so.
     ebind (ensure (so_status so = SO_DRAFT) ConflictError) (\<lambda>_.
     let so_total = foldl (\<lambda>t l. t + sol_line_total l) money_zero (lines_of_so i s)
     in ebind (check_credit_limit (so_customer_id so) so_total s) (\<lambda>has_credit.
     ebind (ensure has_credit ConflictError) (\<lambda>_.
     Inr (upd_so i (\<lambda>r. r\<lparr>so_status := SO_CONFIRMED\<rparr>) s)))))"

section \<open>DispatchService\<close>

definition dispatch_create_line ::
  "uuid \<Rightarrow> dispatch_line_request \<Rightarrow> 'a fulfilment_scheme \<Rightarrow> err + 'a fulfilment_scheme" where
  "dispatch_create_line i line_req s =
     ebind (ensure (fk_ok (dlr_stock_unit_id line_req) (map su_id (stock_units s)))
              (IntegrityError ''dispatch_lines_stock_unit_id_fkey'')) (\<lambda>_.
     ebind (ensure (fk_ok (dlr_item_id line_req) (map it_id (items s)))
              (IntegrityError ''dispatch_lines_item_id_fkey'')) (\<lambda>_.
     Inr (s\<lparr>dispatch_lines := dispatch_lines s @
       [\<lparr>dl_dispatch_id = i, dl_stock_unit_id = dlr_stock_unit_id line_req,
         dl_item_id = dlr_item_id line_req, dl_qty = qty (dlr_qty line_req),
         dl_unit_cost = (case dlr_unit_cost line_req of None \<Rightarrow> money_zero | Some c \<Rightarrow> money c)\<rparr>]\<rparr>)))"

definition dispatch_create ::
  "dispatch_create_request \<Rightarrow> 'a fulfilment_scheme \<Rightarrow> err + uuid \<times> 'a fulfilment_scheme" where
  "dispatch_create request s =
     ebind (case dcr_so_id request of
              None \<Rightarrow> Inr ()
            | Some x \<Rightarrow> ebind (from_opt NotFoundError (get_so x s)) (\<lambda>_. Inr ())) (\<lambda>_.
     let no = generate_dispatch_no s;
         (i, s1) = fresh_id s
     in ebind (ensure (no \<notin> dp_no ` set (dispatches s1))
                (IntegrityError ''uq_dispatches_dispatch_no'')) (\<lambda>_.
     ebind (foldE (dispatch_create_line i) (dcr_lines request) (add_dispatch
       \<lparr>dp_id = i, dp_no = no, dp_so_id = dcr_so_id request,
        dp_dispatch_date = dcr_dispatch_date request, dp_status = DP_DRAFT, dp_je_id = None,
        dp_created_year = year_of (today s1)\<rparr> s1)) (\<lambda>s2.
     Inr (i, s2))))"

definition dispatch_serialized ::
  "dispatch \<Rightarrow> uuid \<Rightarrow> rat \<times> 'a fulfilment_scheme \<Rightarrow> err + rat \<times> 'a fulfilment_scheme" where
  "dispatch_serialized dp unit_id acc =
     (let (total_cogs, s) = acc in
      ebind (from_opt NotFoundError (get_unit unit_id s)) (\<lambda>stock_unit.
      ebind (ensure (su_status stock_unit = IN_STOCK) ConflictError) (\<lambda>_.
      let unit_cost = su_purchase_cost stock_unit;
          s1 = upd_unit unit_id
                 (\<lambda>u. u\<lparr>su_status := SOLD, su_sales_dispatch_id := Some (dp_id dp)\<rparr>) s
      in ebind (create_sle
        \<lparr>sle_posting_date = dp_dispatch_date dp, sle_item_id = su_item_id stock_unit,
         sle_warehouse_id = None, sle_stock_unit_id = Some unit_id,
         sle_voucher_type = SV_DISPATCH, sle_voucher_id = dp_id dp, sle_qty_change = - 1,
         sle_valuation_rate = unit_cost, sle_stock_value_change = - unit_cost, sle_qty_after = 0,
         sle_is_cancelled = False\<rparr> s1) (\<lambda>s2.
      Inr (total_cogs + unit_cost, s2)))))"

text \<open>The balance the query picks, on the quantities \<open>flushed\<close> to the database.\<close>

definition pick_balance :: "stock_balance list \<Rightarrow> uuid \<Rightarrow> rat \<Rightarrow> stock_balance option" where
  "pick_balance flushed i q =
     (case sort_key sb_location_id (filter (\<lambda>b. sb_item_id b = i \<and> sb_qty b \<ge> q) flushed) of
        [] \<Rightarrow> None | b # _ \<Rightarrow> Some b)"

definition bulk_unit_cost :: "dispatch_line \<Rightarrow> stock_balance \<Rightarrow> rat" where
  "bulk_unit_cost line balance =
     (if dl_unit_cost line > 0 then dl_unit_cost line
      else if sb_avg_cost balance > 0 then sb_avg_cost balance else money_zero)"

definition dispatch_bulk ::
  "dispatch \<Rightarrow> stock_balance list \<Rightarrow> uuid \<Rightarrow> dispatch_line \<Rightarrow> rat \<times> 'a fulfilment_scheme
     \<Rightarrow> err + rat \<times> 'a fulfilment_scheme" where
  "dispatch_bulk dp flushed i line acc =
     (let (total_cogs, s) = acc in
      ebind (from_opt ConflictError (pick_balance flushed i (dl_qty line))) (\<lambda>picked.
      let l = sb_location_id picked in
      ebind (from_opt ConflictError (get_balance i l s)) (\<lambda>balance.
      let unit_cost = bulk_unit_cost line balance;
          line_cogs = money (dl_qty line * unit_cost);
          qty_after = sb_qty balance - dl_qty line;
          s1 = upd_balance i l (\<lambda>b. b\<lparr>sb_qty := sb_qty b - dl_qty line\<rparr>) s
      in ebind (create_sle
        \<lparr>sle_posting_date = dp_dispatch_date dp, sle_item_id = i,
         sle_warehouse_id = map_option loc_warehouse_id (get_location l s), sle_stock_unit_id = None,
         sle_voucher_type = SV_DISPATCH, sle_voucher_id = dp_id dp, sle_qty_change = - dl_qty line,
         sle_valuation_rate = unit_cost, sle_stock_value_change = - line_cogs,
         sle_qty_after = qty_after, sle_is_cancelled = False\<rparr> s1) (\<lambda>s2.
      Inr (total_cogs + line_cogs, s2)))))"

definition dispatch_confirm_line ::
  "dispatch \<Rightarrow> stock_balance list \<Rightarrow> dispatch_line \<Rightarrow> rat \<times> 'a fulfilment_scheme
     \<Rightarrow> err + rat \<times> 'a fulfilment_scheme" where
  "dispatch_confirm_line dp flushed line acc =
     (case dl_stock_unit_id line of
        Some u \<Rightarrow> dispatch_serialized dp u acc
      | None \<Rightarrow>
          (case dl_item_id line of
             Some i \<Rightarrow> if dl_qty line > 0 then dispatch_bulk dp flushed i line acc else Inr acc
           | None \<Rightarrow> Inr acc))"

definition dispatched_qty :: "uuid \<Rightarrow> uuid \<Rightarrow> 'a fulfilment_scheme \<Rightarrow> rat" where
  "dispatched_qty so_ref i s =
     sum_list (map dl_qty (filter (\<lambda>l. dl_item_id l = Some i
       \<and> (case get_dispatch (dl_dispatch_id l) s of None \<Rightarrow> False
          | Some d \<Rightarrow> dp_so_id d = Some so_ref \<and> dp_status d = DP_CONFIRMED)) (dispatch_lines s)))"

definition maybe_mark_so_dispatched :: "uuid \<Rightarrow> 'a fulfilment_scheme \<Rightarrow> 'a fulfilment_scheme" where
  "maybe_mark_so_dispatched so_ref s =
     (case get_so so_ref s of
        None \<Rightarrow> s
      | Some so \<Rightarrow>
          if so_status so \<noteq> SO_CONFIRMED then s
          else let all_dispatched = (\<forall>sol\<in>set (lines_of_so so_ref s).
                     case sol_item_id sol of None \<Rightarrow> True
                     | Some i \<Rightarrow> \<not> dispatched_qty so_ref i s < sol_qty sol)
               in if all_dispatched then upd_so so_ref (\<lambda>r. r\<lparr>so_status := SO_DISPATCHED\<rparr>) s else s)"

definition dispatch_confirm ::
  "uuid \<Rightarrow> uuid \<Rightarrow> 'a fulfilment_scheme \<Rightarrow> err + 'a fulfilment_scheme" where
  "dispatch_confirm i actor_id s =
     ebind (from_opt NotFoundError (get_dispatch i s)) (\<lambda>dp.
     ebind (ensure (dp_status dp = DP_DRAFT) ConflictError) (\<lambda>_.
     ebind (foldE (dispatch_confirm_line dp (stock_balances s)) (lines_of_dispatch i s) (money_zero, s))
       (\<lambda>(total_cogs, s1).
     ebind (emit_event_async (UnitDispatched (dp_id dp) total_cogs (dp_dispatch_date dp) (Some actor_id))
              (upd_dispatch i (\<lambda>d. d\<lparr>dp_status := DP_CONFIRMED\<rparr>) s1)) (\<lambda>s2.
     Inr (case dp_so_id dp of None \<Rightarrow> s2 | Some x \<Rightarrow> maybe_mark_so_dispatched x s2)))))"

lemmas fulfilment_evals = get_so_def upd_so_def add_so_def lines_of_so_def get_dispatch_def
  upd_dispatch_def add_dispatch_def lines_of_dispatch_def generate_so_no_def
  generate_dispatch_no_def parse_so_line_def parse_dispatch_line_def so_create_line_def
  so_create_def so_confirm_def dispatch_create_line_def dispatch_create_def dispatch_serialized_def
  pick_balance_def bulk_unit_cost_def dispatch_bulk_def dispatch_confirm_line_def dispatched_qty_def
  maybe_mark_so_dispatched_def dispatch_confirm_def

declare fulfilment_evals [evals]

end
