(* ===== verification/InventoryProps.thy ===== *)
theory InventoryProps
  imports Fulfilment
begin

text \<open>
  What the stock operations keep. \<open>tally\<close> compares the quantities on hand of an item with its bulk
  movements in the stock ledger, \<open>unit_tally\<close> its unsold units with the movements of its units; \<open>stock_inv\<close>
  says that both agree, with the keys of the tables and the states a unit can be in. A loop turn or
  operation is a \<open>stock_effect\<close>: it reaches the general ledger through the bridge only, it takes every
  unit along its life cycle (\<open>unit_succ\<close>) and it keeps \<open>stock_inv\<close>.
\<close>

section \<open>Repositories\<close>

interpretation unit_table: keyed_table get_unit "\<lambda>r s. s\<lparr>stock_units := stock_units s @ [r]\<rparr>" upd_unit su_id
  by unfold_locales
    (auto simp: get_unit_def upd_unit_def get_by_append get_by_upd_by dest: get_by_Some split: option.splits)

interpretation item_table: keyed_table get_item "\<lambda>r s. s\<lparr>items := items s @ [r]\<rparr>" upd_item it_id
  by unfold_locales
    (auto simp: get_item_def upd_item_def get_by_append get_by_upd_by dest: get_by_Some split: option.splits)

lemma stock_upd_frames [simp]:
  "ledger.entries (upd_unit i f s) = entries s" "journal_lines (upd_unit i f s) = journal_lines s"
  "accounts (upd_unit i f s) = accounts s" "periods (upd_unit i f s) = periods s"
  "sequences (upd_unit i f s) = sequences s" "next_id (upd_unit i f s) = next_id s" "stock_balances (upd_unit i f s) = stock_balances s"
  "stock_ledger (upd_unit i f s) = stock_ledger s" "items (upd_unit i f s) = items s"
  "warehouses (upd_unit i f s) = warehouses s" "locations (upd_unit i f s) = locations s"
  "bills (upd_unit i f s) = bills s" "supplier_payments (upd_unit i f s) = supplier_payments s"
  "debit_notes (upd_unit i f s) = debit_notes s" "inventory.more (upd_unit i f s) = inventory.more s"
  "ledger.entries (upd_balance j l g s) = entries s"
  "journal_lines (upd_balance j l g s) = journal_lines s"
  "accounts (upd_balance j l g s) = accounts s" "periods (upd_balance j l g s) = periods s"
  "sequences (upd_balance j l g s) = sequences s" "next_id (upd_balance j l g s) = next_id s" "stock_units (upd_balance j l g s) = stock_units s"
  "stock_ledger (upd_balance j l g s) = stock_ledger s" "items (upd_balance j l g s) = items s"
  "warehouses (upd_balance j l g s) = warehouses s" "locations (upd_balance j l g s) = locations s"
  "bills (upd_balance j l g s) = bills s" "supplier_payments (upd_balance j l g s) = supplier_payments s"
  "debit_notes (upd_balance j l g s) = debit_notes s" "inventory.more (upd_balance j l g s) = inventory.more s"
  by (simp_all add: upd_unit_def upd_balance_def)

lemma create_sle_Inr:
  assumes "create_sle e s = Inr s'"
  shows "sle_item_id e \<in> it_id ` set (items s) \<and> s' = s\<lparr>stock_ledger := stock_ledger s @
    [e\<lparr>sle_qty_change := qty (sle_qty_change e), sle_valuation_rate := money (sle_valuation_rate e),
       sle_stock_value_change := money (sle_stock_value_change e), sle_qty_after := qty (sle_qty_after e)\<rparr>]\<rparr>"
  using assms by (auto simp: create_sle_def ok_simps)

lemma create_unit_Inr:
  assumes "create_unit i sn im l c g s = Inr (u, s')"
  shows "u = next_id s \<and> sn \<notin> su_serial_no ` set (stock_units s)
    \<and> s' = s\<lparr>next_id := Suc (next_id s), stock_units := stock_units s @
        [\<lparr>su_id = next_id s, su_item_id = i, su_serial_no = sn, su_imei = im, su_status = IN_STOCK,
          su_location_id = l, su_purchase_cost = money c, su_grn_id = Some g,
          su_sales_dispatch_id = None\<rparr>]\<rparr>"
  using assms by (auto simp: create_unit_def ok_simps fresh_id_def Let_def)

lemma create_balance_Inr:
  assumes "create_balance b s = Inr s'"
  shows "s' = s\<lparr>stock_balances := stock_balances s @ [b\<lparr>sb_qty := qty (sb_qty b), sb_avg_cost := money (sb_avg_cost b)\<rparr>]\<rparr>"
  using assms by (auto simp: create_balance_def ok_simps)

lemma emit_inventory:
  assumes "emit_event_async ev s = Inr s'"
  shows "stock_units s' = stock_units s" "stock_balances s' = stock_balances s"
    "stock_ledger s' = stock_ledger s" "items s' = items s" "bills s' = bills s"
    "supplier_payments s' = supplier_payments s" "debit_notes s' = debit_notes s"
    "inventory.more s' = inventory.more s" "next_id s \<le> next_id s'" "today s' = today s"
  using emit_frame [OF assms] by (cases s; cases s'; simp)+

lemma limit_1_mem: "limit_1 rs s = Some r \<Longrightarrow> r \<in> set rs"
  by (auto simp: limit_1_def split: if_splits)

section \<open>The life of a unit\<close>

text \<open>A unit is sold by one dispatch or put in transit, once; then it stays as it is.\<close>

definition unit_succ :: "stock_unit \<Rightarrow> stock_unit \<Rightarrow> bool" where
  "unit_succ u u' = (u' = u \<or> su_status u = IN_STOCK
     \<and> ((\<exists>d. u' = u\<lparr>su_status := SOLD, su_sales_dispatch_id := Some d\<rparr>)
        \<or> (\<exists>l. u' = u\<lparr>su_location_id := Some l, su_status := IN_TRANSIT\<rparr>)))"

lemma unit_succ_refl [simp]: "unit_succ u u"
  by (simp add: unit_succ_def)

lemma unit_succ_trans: "unit_succ u v \<Longrightarrow> unit_succ v w \<Longrightarrow> unit_succ u w"
  by (auto simp: unit_succ_def)

definition units_kept :: "'a inventory_scheme \<Rightarrow> 'b inventory_scheme \<Rightarrow> bool" where
  "units_kept s s' = (\<forall>j u. get_unit j s = Some u \<longrightarrow> (\<exists>u'. get_unit j s' = Some u' \<and> unit_succ u u'))"

lemma units_kept_same: "stock_units s' = stock_units s \<Longrightarrow> units_kept s s'"
  by (auto simp: units_kept_def get_unit_def)

lemma units_kept_trans: "units_kept s t \<Longrightarrow> units_kept t v \<Longrightarrow> units_kept s v"
  unfolding units_kept_def by (meson unit_succ_trans)

lemma units_kept_upd:
  assumes "get_unit i s = Some u" "unit_succ u (f u)" "\<And>u. su_id (f u) = su_id u"
  shows "units_kept s (upd_unit i f s)"
  using assms by (auto simp: units_kept_def unit_table.lookup_update)

lemma units_kept_create: "create_unit i sn im l c g s = Inr (u, s') \<Longrightarrow> units_kept s s'"
  by (auto simp: units_kept_def get_unit_def get_by_append dest!: create_unit_Inr)

section \<open>Quantities\<close>

definition bal_key :: "stock_balance \<Rightarrow> uuid \<times> uuid" where
  "bal_key b = (sb_item_id b, sb_location_id b)"

definition on_hand :: "uuid \<Rightarrow> 'a inventory_scheme \<Rightarrow> rat" where
  "on_hand i s = sum_list (map (\<lambda>b. if sb_item_id b = i then sb_qty b else 0) (stock_balances s))"

definition moved :: "uuid \<Rightarrow> bool \<Rightarrow> 'a inventory_scheme \<Rightarrow> rat" where
  "moved i units s = sum_list (map (\<lambda>e. if sle_item_id e = i \<and> (sle_stock_unit_id e \<noteq> None) = units
     then sle_qty_change e else 0) (stock_ledger s))"

definition unsold :: "uuid \<Rightarrow> 'a inventory_scheme \<Rightarrow> rat" where
  "unsold i s = sum_list (map (\<lambda>u. if su_item_id u = i \<and> su_status u \<noteq> SOLD then 1 else 0) (stock_units s))"

definition tally :: "uuid \<Rightarrow> 'a inventory_scheme \<Rightarrow> rat" where
  "tally i s = on_hand i s - moved i False s"

definition unit_tally :: "uuid \<Rightarrow> 'a inventory_scheme \<Rightarrow> rat" where
  "unit_tally i s = unsold i s - moved i True s"

definition unit_ok :: "stock_unit \<Rightarrow> bool" where
  "unit_ok u = (is_money (su_purchase_cost u) \<and>
     (case su_status u of
        IN_STOCK \<Rightarrow> su_location_id u = None \<and> su_sales_dispatch_id u = None
      | IN_TRANSIT \<Rightarrow> su_location_id u \<noteq> None \<and> su_sales_dispatch_id u = None
      | SOLD \<Rightarrow> su_location_id u = None \<and> su_sales_dispatch_id u \<noteq> None
      | _ \<Rightarrow> False))"

definition stock_ok :: "'a inventory_scheme \<Rightarrow> bool" where
  "stock_ok s =
     (distinct (map su_id (stock_units s)) \<and> (\<forall>u\<in>set (stock_units s). su_id u < next_id s \<and> unit_ok u)
      \<and> distinct (map su_serial_no (stock_units s))
      \<and> distinct (map bal_key (stock_balances s)) \<and> (\<forall>b\<in>set (stock_balances s). quantized 2 (sb_qty b)))"

definition stock_inv :: "'a inventory_scheme \<Rightarrow> bool" where
  "stock_inv s = (stock_ok s \<and> (\<forall>i. tally i s = 0 \<and> unit_tally i s = 0))"

text \<open>The value the stock ledger has booked.\<close>

definition stock_booked :: "'a inventory_scheme \<Rightarrow> rat" where
  "stock_booked s = sum_list (map sle_stock_value_change (stock_ledger s))"

lemmas stock_defs = tally_def unit_tally_def on_hand_def moved_def unsold_def stock_ok_def

lemma stock_inv_same:
  assumes "stock_inv s" "stock_units s' = stock_units s" "stock_balances s' = stock_balances s"
    "stock_ledger s' = stock_ledger s" "next_id s \<le> next_id s'"
  shows "stock_inv s'"
  using assms(1,5) unfolding stock_inv_def stock_defs assms(2,3,4) by (meson less_le_trans)

subsection \<open>The effect of each write\<close>

lemma sle_effect:
  assumes "create_sle e s = Inr s'"
  shows "stock_ok s' = stock_ok s"
    "tally j s' = tally j s - (if sle_item_id e = j \<and> sle_stock_unit_id e = None then qty (sle_qty_change e) else 0)"
    "unit_tally j s' = unit_tally j s
       - (if sle_item_id e = j \<and> sle_stock_unit_id e \<noteq> None then qty (sle_qty_change e) else 0)"
  using create_sle_Inr [OF assms] by (auto simp: stock_defs)

lemma sle_booked:
  "create_sle e s = Inr s' \<Longrightarrow> stock_booked s' = stock_booked s + money (sle_stock_value_change e)"
  by (auto simp: stock_booked_def dest!: create_sle_Inr)

lemma unit_effect:
  assumes "create_unit i sn im None c g s = Inr (u, s')" and ok: "stock_ok s"
  shows "stock_ok s'" "tally j s' = tally j s" "unit_tally j s' = unit_tally j s + (if i = j then 1 else 0)"
  using create_unit_Inr [OF assms(1)] ok by (auto simp: stock_defs unit_ok_def)

lemma unit_upd_effect:
  assumes u: "get_unit i s = Some u" and st: "su_status u = IN_STOCK" and ok: "stock_ok s"
    and f: "\<And>u. su_id (f u) = su_id u \<and> su_serial_no (f u) = su_serial_no u \<and> su_item_id (f u) = su_item_id u"
    and "unit_ok u \<Longrightarrow> unit_ok (f u)"
  shows "stock_ok (upd_unit i f s)" "tally j (upd_unit i f s) = tally j s"
    "unit_tally j (upd_unit i f s) = unit_tally j s
       - (if su_item_id u = j \<and> su_status (f u) = SOLD then 1 else 0)"
proof -
  have d: "distinct (map su_id (stock_units s))" using ok by (simp add: stock_ok_def)
  have g: "get_by su_id i (stock_units s) = Some u" using u by (simp add: get_unit_def)
  have "v = u" if "v \<in> set (stock_units s)" "su_id v = i" for v
    using get_by_mem [OF d that(1)] that(2) g by simp
  then show "stock_ok (upd_unit i f s)"
    using ok f assms(5) by (auto simp: stock_ok_def upd_unit_def map_upd_by set_upd_by)
  show "tally j (upd_unit i f s) = tally j s" by (simp add: stock_defs)
  show "unit_tally j (upd_unit i f s) = unit_tally j s
       - (if su_item_id u = j \<and> su_status (f u) = SOLD then 1 else 0)"
    using f st by (simp add: stock_defs upd_unit_def sum_list_upd_by [OF d g])
qed

lemma balance_effect:
  assumes "create_balance b s = Inr s'" and "get_balance (sb_item_id b) (sb_location_id b) s = None"
    and ok: "stock_ok s"
  shows "stock_ok s'" "tally j s' = tally j s + (if sb_item_id b = j then qty (sb_qty b) else 0)"
    "unit_tally j s' = unit_tally j s"
  using create_balance_Inr [OF assms(1)] assms(2) ok
  by (auto simp: stock_defs get_balance_def get_by_None_iff bal_key_def qty_def rev_image_eqI)

lemma balance_upd_effect:
  assumes b: "get_balance i l s = Some b" and ok: "stock_ok s"
    and f: "\<And>b. bal_key (f b) = bal_key b" and q: "sb_qty (f b) = sb_qty b + d" "quantized 2 d"
  shows "stock_ok (upd_balance i l f s)" "tally j (upd_balance i l f s) = tally j s + (if i = j then d else 0)"
    "unit_tally j (upd_balance i l f s) = unit_tally j s"
proof -
  have k: "(\<lambda>b. (sb_item_id b, sb_location_id b)) = bal_key" by (simp add: bal_key_def fun_eq_iff)
  have dist: "distinct (map bal_key (stock_balances s))" using ok by (simp add: stock_ok_def)
  have g: "get_by bal_key (i, l) (stock_balances s) = Some b" using b by (simp add: get_balance_def k)
  then have i: "b \<in> set (stock_balances s)" "sb_item_id b = i" by (auto simp: bal_key_def dest!: get_by_Some)
  have fi: "sb_item_id (f b) = sb_item_id b" for b using f [of b] by (simp add: bal_key_def)
  have "x = b" if "x \<in> set (stock_balances s)" "bal_key x = (i, l)" for x
    using get_by_mem [OF dist that(1)] that(2) g by simp
  moreover have "quantized 2 (sb_qty (f b))" using ok q i(1) by (auto simp: stock_ok_def)
  ultimately have "quantized 2 (sb_qty (f x))" if "x \<in> set (stock_balances s)" "bal_key x = (i, l)" for x
    using that by metis
  then show "stock_ok (upd_balance i l f s)"
    using ok f by (auto simp: stock_ok_def upd_balance_def k map_upd_by set_upd_by)
  show "tally j (upd_balance i l f s) = tally j s + (if i = j then d else 0)"
    using q i fi by (simp add: stock_defs upd_balance_def k sum_list_upd_by [OF dist g])
  show "unit_tally j (upd_balance i l f s) = unit_tally j s" by (simp add: stock_defs)
qed

section \<open>The effect of an operation\<close>

definition stock_effect :: "'a inventory_scheme \<Rightarrow> 'a inventory_scheme \<Rightarrow> bool" where
  "stock_effect s s' =
     (bridge_run s s' \<and> bills s' = bills s \<and> supplier_payments s' = supplier_payments s
      \<and> debit_notes s' = debit_notes s \<and> units_kept s s' \<and> (stock_inv s \<longrightarrow> stock_inv s'))"

lemma stock_effect_trans: "stock_effect s t \<Longrightarrow> stock_effect t u \<Longrightarrow> stock_effect s u"
  by (auto simp: stock_effect_def intro: bridge_run_trans units_kept_trans)

lemma stock_effect_same:
  assumes "ledger_same s s'" "stock_units s' = stock_units s" "stock_balances s' = stock_balances s"
    "stock_ledger s' = stock_ledger s" "bills s' = bills s" "supplier_payments s' = supplier_payments s"
    "debit_notes s' = debit_notes s"
  shows "stock_effect s s'"
  using assms stock_inv_same [of s s']
  by (auto simp: stock_effect_def ledger_same_def intro: bridge_run.tables units_kept_same)

lemma stock_effect_refl [simp]: "stock_effect s s"
  by (rule stock_effect_same) simp_all

lemma stock_effect_emit: "emit_event_async ev s = Inr s' \<Longrightarrow> stock_effect s s'"
  using emit_inventory [of ev s s'] stock_inv_same [of s s']
  by (auto simp: stock_effect_def intro: bridge_run_emit units_kept_same)

lemma stock_effect_foldE:
  assumes "foldE f xs y = Inr y'" "\<And>x y y'. f x y = Inr y' \<Longrightarrow> stock_effect (p y) (p y')"
  shows "stock_effect (p y) (p y')"
  by (rule foldE_inv [OF assms(1), where P = "\<lambda>z. stock_effect (p y) (p z)"])
    (auto intro: stock_effect_trans assms(2))

lemma stock_effectI:
  assumes "ledger_same s s'" "bills s' = bills s" "supplier_payments s' = supplier_payments s"
    "debit_notes s' = debit_notes s" "units_kept s s'"
    "stock_ok s \<Longrightarrow> stock_inv s \<Longrightarrow> stock_ok s' \<and> (\<forall>j. tally j s' = tally j s \<and> unit_tally j s' = unit_tally j s)"
  shows "stock_effect s s'"
  using assms by (auto simp: stock_effect_def stock_inv_def intro: bridge_run.tables)

lemma upsert_frame:
  assumes "upsert_balance i l d c s = Inr s'"
  shows "ledger_same s s'" "bills s' = bills s" "supplier_payments s' = supplier_payments s"
    "debit_notes s' = debit_notes s" "stock_units s' = stock_units s" "stock_ledger s' = stock_ledger s"
    "inventory.more s' = inventory.more s" "next_id s' = next_id s" "sequences s' = sequences s"
  using assms by (auto simp: upsert_balance_def ledger_same_def split: option.splits dest!: create_balance_Inr)

lemma upsert_effect:
  assumes "upsert_balance i l d c s = Inr s'" and ok: "stock_ok s" and d: "quantized 2 d"
  shows "stock_ok s'" "tally j s' = tally j s + (if i = j then d else 0)" "unit_tally j s' = unit_tally j s"
proof -
  have q: "qty d = d" using d by (simp add: qty_def quantize_quantized)
  have "stock_ok s' \<and> tally j s' = tally j s + (if i = j then d else 0) \<and> unit_tally j s' = unit_tally j s"
  proof (cases "get_balance i l s")
    case None
    then have "create_balance \<lparr>sb_item_id = i, sb_location_id = l, sb_qty = d,
        sb_avg_cost = (case c of None \<Rightarrow> 0 | Some c \<Rightarrow> c)\<rparr> s = Inr s'"
      using assms(1) by (simp add: upsert_balance_def)
    from balance_effect [OF this _ ok] None q show ?thesis by simp
  next
    case (Some b)
    have "b \<in> set (stock_balances s)" using Some by (auto simp: get_balance_def dest!: get_by_Some)
    then have "qty (sb_qty b + d) = sb_qty b + d"
      using ok d by (simp add: qty_def stock_ok_def quantize_quantized quantized_add)
    moreover have "s' = upd_balance i l (\<lambda>b. b\<lparr>sb_qty := qty (sb_qty b + d),
        sb_avg_cost := (case c of None \<Rightarrow> sb_avg_cost b | Some c \<Rightarrow> money c)\<rparr>) s"
      using assms(1) Some by (simp add: upsert_balance_def)
    ultimately show ?thesis
      using balance_upd_effect [OF Some ok, where d = d and f = "\<lambda>b. b\<lparr>sb_qty := qty (sb_qty b + d),
        sb_avg_cost := (case c of None \<Rightarrow> sb_avg_cost b | Some c \<Rightarrow> money c)\<rparr>"] d
      by (simp add: bal_key_def)
  qed
  then show "stock_ok s'" "tally j s' = tally j s + (if i = j then d else 0)"
    "unit_tally j s' = unit_tally j s" by simp_all
qed

lemma sle_frame:
  assumes "create_sle e s = Inr s'"
  shows "ledger_same s s'" "bills s' = bills s" "supplier_payments s' = supplier_payments s"
    "debit_notes s' = debit_notes s" "stock_units s' = stock_units s"
    "stock_balances s' = stock_balances s" "inventory.more s' = inventory.more s" "next_id s' = next_id s"
    "sequences s' = sequences s"
  using create_sle_Inr [OF assms] by (auto simp: ledger_same_def)

lemma unit_frame:
  assumes "create_unit i sn im l c g s = Inr (u, s')"
  shows "ledger_same s s'" "bills s' = bills s" "supplier_payments s' = supplier_payments s"
    "debit_notes s' = debit_notes s" "stock_balances s' = stock_balances s" "stock_ledger s' = stock_ledger s"
    "inventory.more s' = inventory.more s" "sequences s' = sequences s"
  using create_unit_Inr [OF assms] by (auto simp: ledger_same_def)

lemma ledger_same_trans: "ledger_same s t \<Longrightarrow> ledger_same t u \<Longrightarrow> ledger_same s u"
  by (auto simp: ledger_same_def)

text \<open>Only stock tables and identifiers change.\<close>

definition stock_only :: "'a inventory_scheme \<Rightarrow> 'a inventory_scheme \<Rightarrow> bool" where
  "stock_only s s' = (ledger_same s s' \<and> sequences s' = sequences s \<and> inventory.more s' = inventory.more s)"

lemma stock_only_refl [simp]: "stock_only s s"
  by (simp add: stock_only_def)

lemma stock_only_trans: "stock_only s t \<Longrightarrow> stock_only t u \<Longrightarrow> stock_only s u"
  by (auto simp: stock_only_def intro: ledger_same_trans)

lemma stock_only_writes:
  "create_sle e s = Inr s' \<Longrightarrow> stock_only s s'"
  "create_unit i sn im l c g s = Inr (u, s') \<Longrightarrow> stock_only s s'"
  "upsert_balance i k d c' s = Inr s' \<Longrightarrow> stock_only s s'"
  "create_balance b s = Inr s' \<Longrightarrow> stock_only s s'"
  "stock_only s (upd_unit i f s)" "stock_only s (upd_balance i k h s)"
  using sle_frame [of e s s'] unit_frame [of i sn im l c g s u s'] upsert_frame [of i k d c' s s']
    create_balance_Inr [of b s s']
  by (auto simp: stock_only_def ledger_same_def)

lemma qty_one [simp]: "qty 1 = 1" "qty (- 1) = - 1" "qty 0 = 0"
proof -
  show "qty 1 = 1" unfolding qty_def by (rule quantize_quantized) simp
  then show "qty (- 1) = - 1" by (simp add: qty_def quantize_minus)
qed (simp add: qty_def)

lemma qty_quantized [simp]: "quantized 2 (qty x)"
  by (simp add: qty_def)

lemma qty_idem [simp]: "qty (qty x) = qty x"
  by (simp add: qty_def)

lemma stock_unit_in_stock:
  "stock_ok s \<Longrightarrow> get_unit i s = Some u \<Longrightarrow> unit_ok u \<and> u \<in> set (stock_units s)"
  by (auto simp: stock_ok_def get_unit_def dest!: get_by_Some)

section \<open>Adjustment and transfer\<close>

lemma transfer_unit_effect:
  assumes "transfer_unit r i s = Inr s'"
  shows "stock_effect s s' \<and> inventory.more s' = inventory.more s"
proof -
  let ?f = "\<lambda>u. u\<lparr>su_location_id := Some (str_to_location_id r), su_status := IN_TRANSIT\<rparr>"
  from assms obtain u s1 s2 where u: "get_unit i s = Some u" "su_status u = IN_STOCK"
    and e: "create_sle \<lparr>sle_posting_date = str_posting_date r, sle_item_id = su_item_id u,
        sle_warehouse_id = None, sle_stock_unit_id = Some i, sle_voucher_type = SV_TRANSFER,
        sle_voucher_id = str_transfer_id r, sle_qty_change = 0, sle_valuation_rate = su_purchase_cost u,
        sle_stock_value_change = 0, sle_qty_after = 0, sle_is_cancelled = False\<rparr> s = Inr s1"
    and b: "(case su_location_id u of None \<Rightarrow> Inr s1
            | Some l \<Rightarrow> upsert_balance (su_item_id u) l (- 1) None s1) = Inr s2"
    and s': "s' = upd_unit i ?f s2"
    by (auto simp: transfer_unit_def ok_simps)
  have frame: "ledger_same s1 s2 \<and> bills s2 = bills s1 \<and> supplier_payments s2 = supplier_payments s1
      \<and> debit_notes s2 = debit_notes s1 \<and> stock_units s2 = stock_units s1
      \<and> inventory.more s2 = inventory.more s1"
    using b upsert_frame by (auto split: option.splits)
  have u2: "get_unit i s2 = Some u" using u(1) frame sle_frame(5) [OF e] by (simp add: get_unit_def)
  have "stock_effect s s'"
  proof (rule stock_effectI)
    show "units_kept s s'"
      unfolding s' using frame sle_frame(5) [OF e] u u2
      by (intro units_kept_trans [OF units_kept_same units_kept_upd]) (auto simp: unit_succ_def)
    show "ledger_same s s'"
      using frame sle_frame(1) [OF e] unfolding s' by (auto simp: ledger_same_def)
    assume ok: "stock_ok s" "stock_inv s"
    have "unit_ok u" using stock_unit_in_stock [OF ok(1) u(1)] by simp
    then have "s2 = s1" "su_sales_dispatch_id u = None" using b u(2) by (simp_all add: unit_ok_def)
    with unit_upd_effect [of i s1 u ?f] sle_effect [OF e] u2 u(2) ok(1)
    show "stock_ok s' \<and> (\<forall>j. tally j s' = tally j s \<and> unit_tally j s' = unit_tally j s)"
      by (simp add: s' unit_ok_def)
  qed (use frame sle_frame [OF e] in \<open>auto simp: s'\<close>)
  then show ?thesis using frame sle_frame(7) [OF e] by (simp add: s')
qed

lemma transfer_units_effect:
  assumes "transfer_units r s = Inr s'"
  shows "stock_effect s s' \<and> inventory.more s' = inventory.more s"
proof -
  from assms obtain us where f: "foldE (transfer_unit r) us s = Inr s'"
    by (auto simp: transfer_units_def Let_def ok_simps)
  have "stock_effect s s'"
    using stock_effect_foldE [OF f, of id] transfer_unit_effect by auto
  moreover have "inventory.more s' = inventory.more s"
    by (rule foldE_inv [OF f, where P = "\<lambda>t. inventory.more t = inventory.more s"])
      (use transfer_unit_effect in \<open>metis\<close>)+
  ultimately show ?thesis by simp
qed

lemma adjust_stock_Inr:
  assumes "adjust_stock r a s = Inr (x, s')"
  obtains it avg e s1 s2 where "get_item (sar_item_id r) s = Some it" "it_nature it = BULK"
    "avg = (case get_balance (sar_item_id r) (sar_location_id r) s of
        None \<Rightarrow> money (it_default_purchase_price it) | Some b \<Rightarrow> sb_avg_cost b)"
    "0 \<le> (case get_balance (sar_item_id r) (sar_location_id r) s of None \<Rightarrow> 0 | Some b \<Rightarrow> sb_qty b)
       + qty (sar_qty_adjustment r)"
    "sle_item_id e = sar_item_id r" "sle_stock_unit_id e = None" "sle_qty_change e = qty (sar_qty_adjustment r)"
    "create_sle e s = Inr s1"
    "upsert_balance (sar_item_id r) (sar_location_id r) (qty (sar_qty_adjustment r)) (Some avg) s1 = Inr s2"
    "x = money (\<bar>qty (sar_qty_adjustment r)\<bar> * avg)"
    "emit_event_async (AdjustmentConfirmed (sar_adjustment_id r) x (sar_posting_date r) (Some a)) s2 = Inr s'"
proof -
  let ?q = "qty (sar_qty_adjustment r)"
  let ?b = "get_balance (sar_item_id r) (sar_location_id r) s"
  from assms obtain it s1 s2 where it: "get_item (sar_item_id r) s = Some it" "it_nature it \<noteq> SERIALIZED"
    and nn: "\<not> (case ?b of None \<Rightarrow> 0 | Some b \<Rightarrow> sb_qty b) + ?q < 0"
    and x: "x = money (\<bar>?q\<bar> * (case ?b of None \<Rightarrow> money (it_default_purchase_price it) | Some b \<Rightarrow> sb_avg_cost b))"
    and e: "create_sle
       \<lparr>sle_posting_date = sar_posting_date r, sle_item_id = sar_item_id r,
        sle_warehouse_id = None, sle_stock_unit_id = None, sle_voucher_type = SV_ADJUSTMENT,
        sle_voucher_id = sar_adjustment_id r, sle_qty_change = ?q,
        sle_valuation_rate = (case ?b of None \<Rightarrow> money (it_default_purchase_price it) | Some b \<Rightarrow> sb_avg_cost b),
        sle_stock_value_change = money (?q * (case ?b of None \<Rightarrow> money (it_default_purchase_price it) | Some b \<Rightarrow> sb_avg_cost b)),
        sle_qty_after = (case ?b of None \<Rightarrow> 0 | Some b \<Rightarrow> sb_qty b) + ?q,
        sle_is_cancelled = False\<rparr> s = Inr s1"
    and u: "upsert_balance (sar_item_id r) (sar_location_id r) ?q
        (Some (case ?b of None \<Rightarrow> money (it_default_purchase_price it) | Some b \<Rightarrow> sb_avg_cost b)) s1 = Inr s2"
    and ev: "emit_event_async (AdjustmentConfirmed (sar_adjustment_id r) x (sar_posting_date r) (Some a)) s2 = Inr s'"
    unfolding adjust_stock_def Let_def ebind_Inr_iff by auto
  have n: "it_nature it = BULK" using it(2) by (cases "it_nature it") auto
  show ?thesis
    by (rule that [OF it(1) n refl _ _ _ _ e u x ev]) (use nn in simp_all)
qed

lemma adjust_stock_effect:
  assumes "adjust_stock r a s = Inr (x, s')"
  shows "stock_effect s s' \<and> inventory.more s' = inventory.more s"
proof -
  from assms obtain it avg e s1 s2 where
    sle: "sle_item_id e = sar_item_id r" "sle_stock_unit_id e = None"
      "sle_qty_change e = qty (sar_qty_adjustment r)" and e: "create_sle e s = Inr s1"
    and b: "upsert_balance (sar_item_id r) (sar_location_id r) (qty (sar_qty_adjustment r)) (Some avg) s1 = Inr s2"
    and ev: "emit_event_async (AdjustmentConfirmed (sar_adjustment_id r) x (sar_posting_date r) (Some a)) s2 = Inr s'"
    by (rule adjust_stock_Inr)
  have "stock_effect s s2"
  proof (rule stock_effectI)
    show "ledger_same s s2" by (rule ledger_same_trans [OF sle_frame(1) [OF e] upsert_frame(1) [OF b]])
    show "units_kept s s2" using sle_frame(5) [OF e] upsert_frame(5) [OF b] by (intro units_kept_same) simp
    assume "stock_ok s"
    with sle_effect [OF e] upsert_effect [OF b] sle
    show "stock_ok s2 \<and> (\<forall>j. tally j s2 = tally j s \<and> unit_tally j s2 = unit_tally j s)" by simp
  qed (use sle_frame [OF e] upsert_frame [OF b] in simp_all)
  from stock_effect_trans [OF this stock_effect_emit [OF ev]] emit_inventory(8) [OF ev]
    sle_frame(7) [OF e] upsert_frame(7) [OF b] show ?thesis by simp
qed

section \<open>Events after stock writes\<close>

text \<open>
  An operation writes its stock rows and then emits its event: what the bridge posts is what it
  would have posted on the state the operation began with.
\<close>

lemma emit_after:
  assumes same: "ledger_same s t" "sequences t = sequences s" and e: "emit_event_async ev t = Inr t'"
    and wf: "ledger_wf s" and nb: "numbers_bounded s"
    and acc: "bridge_accounts ev = Some (dc, cc)" "account_ready dc s a" "account_ready cc s b"
    and p: "get_open_period (ev_date ev) s = Inr (Some q)" and x: "bridge_amount ev \<noteq> 0"
  shows "account_net (acc_id a) t' = account_net (acc_id a) s + bridge_amount ev
    \<and> account_net (acc_id b) t' = account_net (acc_id b) s - bridge_amount ev
    \<and> (\<forall>c. c \<noteq> acc_id a \<longrightarrow> c \<noteq> acc_id b \<longrightarrow> account_net c t' = account_net c s)"
proof -
  have t: "entries t = entries s" "journal_lines t = journal_lines s" "accounts t = accounts s"
    "periods t = periods s" "next_id s \<le> next_id t" using same(1) by (simp_all add: ledger_same_def)
  have wf': "ledger_wf t" by (rule ledger_wf_frame [OF wf t(1-3,5)])
  have nb': "numbers_bounded t" by (rule numbers_bounded_frame [OF nb t(1) same(2)])
  have acc': "account_ready dc t a" "account_ready cc t b"
    using acc(2,3) t(3) by (simp_all add: account_ready_def get_account_by_code_def)
  have p': "get_open_period (ev_date ev) t = Inr (Some q)" using p t(4) by (simp add: get_open_period_def)
  have n: "account_net c t = account_net c s" for c by (rule account_net_frame [OF t(1,2)])
  from emit_posts [OF wf' nb' acc(1) acc' p' x] e n show ?thesis by auto
qed

end
