(* ===== verification/FulfilmentProps.thy ===== *)
theory FulfilmentProps
  imports InventoryProps
begin

text \<open>
  Goods receipts and dispatches: their effect on stock, the value they post, their life cycle and
  numbers, and where the code loses track of stock.
\<close>

section \<open>Repositories\<close>

interpretation po_table: keyed_table get_po add_po upd_po po_id
  by unfold_locales
    (auto simp: get_po_def add_po_def upd_po_def get_by_append get_by_upd_by dest: get_by_Some split: option.splits)

interpretation grn_table: keyed_table get_grn add_grn upd_grn grn_id
  by unfold_locales
    (auto simp: get_grn_def add_grn_def upd_grn_def get_by_append get_by_upd_by dest: get_by_Some split: option.splits)

interpretation so_table: keyed_table get_so add_so upd_so so_id
  by unfold_locales
    (auto simp: get_so_def add_so_def upd_so_def get_by_append get_by_upd_by dest: get_by_Some split: option.splits)

interpretation dispatch_table: keyed_table get_dispatch add_dispatch upd_dispatch dp_id
  by unfold_locales
    (auto simp: get_dispatch_def add_dispatch_def upd_dispatch_def get_by_append get_by_upd_by
      dest: get_by_Some split: option.splits)

lemma more_procurement:
  assumes "inventory.more s' = inventory.more s"
  shows "purchase_orders s' = purchase_orders s \<and> po_lines s' = po_lines s \<and> grns s' = grns s
    \<and> grn_lines s' = grn_lines s \<and> procurement.more s' = procurement.more s"
  using assms by (cases s; cases s') simp

lemma more_fulfilment:
  assumes "inventory.more s' = inventory.more s"
  shows "sales_orders s' = sales_orders s \<and> so_lines s' = so_lines s \<and> dispatches s' = dispatches s
    \<and> dispatch_lines s' = dispatch_lines s \<and> fulfilment.more s' = fulfilment.more s
    \<and> purchase_orders s' = purchase_orders s \<and> po_lines s' = po_lines s \<and> grns s' = grns s
    \<and> grn_lines s' = grn_lines s"
  using assms by (cases s; cases s') simp

section \<open>Goods receipts\<close>

lemma grn_serial_effect:
  assumes "grn_serial grn i line sn s = Inr s'"
  shows "stock_effect s s' \<and> stock_only s s'"
proof -
  from assms obtain u s1 e where c: "create_unit i sn None None (gl_unit_cost line) (grn_id grn) s = Inr (u, s1)"
    and e: "create_sle e s1 = Inr s'"
    and sle: "sle_item_id e = i" "sle_stock_unit_id e = Some u" "sle_qty_change e = 1"
    by (auto simp: grn_serial_def ok_simps)
  have "stock_effect s s'"
  proof (rule stock_effectI)
    show "ledger_same s s'" by (rule ledger_same_trans [OF unit_frame(1) [OF c] sle_frame(1) [OF e]])
    show "units_kept s s'"
      by (rule units_kept_trans [OF units_kept_create [OF c] units_kept_same [OF sle_frame(5) [OF e]]])
    assume "stock_ok s"
    with unit_effect [OF c] sle_effect [OF e] sle
    show "stock_ok s' \<and> (\<forall>j. tally j s' = tally j s \<and> unit_tally j s' = unit_tally j s)" by simp
  qed (use unit_frame [OF c] sle_frame [OF e] in simp_all)
  with stock_only_writes(2) [OF c] stock_only_writes(1) [OF e] show ?thesis by (auto intro: stock_only_trans)
qed

lemma grn_bulk_Inr:
  assumes "grn_bulk grn i line v s = Inr s'"
  obtains loc s1 e where "loc \<in> set (locations s)" "loc_warehouse_id loc = grn_warehouse_id grn"
    "(case get_balance i (loc_id loc) s of
        None \<Rightarrow> create_balance \<lparr>sb_item_id = i, sb_location_id = loc_id loc, sb_qty = 0, sb_avg_cost = 0\<rparr> s
      | Some _ \<Rightarrow> Inr s) = Inr s1"
    "sle_item_id e = i" "sle_stock_unit_id e = None" "sle_qty_change e = gl_qty_received line"
    "create_sle e (upd_balance i (loc_id loc)
       (\<lambda>b. moving_average b (gl_qty_received line) (gl_unit_cost line)) s1) = Inr s'"
proof -
  let ?locs = "filter (\<lambda>l. loc_warehouse_id l = grn_warehouse_id grn \<and> loc_is_active l) (locations s)"
  let ?f = "\<lambda>b. moving_average b (gl_qty_received line) (gl_unit_cost line)"
  from assms obtain loc s1 where l: "limit_1 ?locs s = Some loc"
    and 1: "(case get_balance i (loc_id loc) s of
        None \<Rightarrow> create_balance \<lparr>sb_item_id = i, sb_location_id = loc_id loc, sb_qty = 0, sb_avg_cost = 0\<rparr> s
      | Some _ \<Rightarrow> Inr s) = Inr s1"
    and 2: "create_sle
       \<lparr>sle_posting_date = grn_receipt_date grn, sle_item_id = i,
        sle_warehouse_id = Some (grn_warehouse_id grn), sle_stock_unit_id = None,
        sle_voucher_type = SV_GRN, sle_voucher_id = grn_id grn,
        sle_qty_change = gl_qty_received line, sle_valuation_rate = gl_unit_cost line,
        sle_stock_value_change = v,
        sle_qty_after = (case get_balance i (loc_id loc) (upd_balance i (loc_id loc) ?f s1) of
          None \<Rightarrow> 0 | Some b \<Rightarrow> sb_qty b), sle_is_cancelled = False\<rparr>
       (upd_balance i (loc_id loc) ?f s1) = Inr s'"
    by (auto simp: grn_bulk_def ok_simps Let_def)
  have "loc \<in> set ?locs" by (rule limit_1_mem [OF l])
  then show ?thesis using that [OF _ _ 1 _ _ _ 2] by simp
qed

lemma grn_bulk_effect:
  assumes "grn_bulk grn i line v s = Inr s'" and q: "quantized 2 (gl_qty_received line)"
  shows "stock_effect s s' \<and> stock_only s s'"
proof -
  let ?f = "\<lambda>b. moving_average b (gl_qty_received line) (gl_unit_cost line)"
  from assms(1) obtain loc s1 e where "loc \<in> set (locations s)"
    and 1: "(case get_balance i (loc_id loc) s of
        None \<Rightarrow> create_balance \<lparr>sb_item_id = i, sb_location_id = loc_id loc, sb_qty = 0, sb_avg_cost = 0\<rparr> s
      | Some _ \<Rightarrow> Inr s) = Inr s1"
    and sle: "sle_item_id e = i" "sle_stock_unit_id e = None" "sle_qty_change e = gl_qty_received line"
    and e: "create_sle e (upd_balance i (loc_id loc) ?f s1) = Inr s'" by (rule grn_bulk_Inr)
  have frame: "ledger_same s s1 \<and> bills s1 = bills s \<and> supplier_payments s1 = supplier_payments s
      \<and> debit_notes s1 = debit_notes s \<and> stock_units s1 = stock_units s"
    using 1 by (auto simp: ledger_same_def split: option.splits dest!: create_balance_Inr)
  have only: "stock_only s s1"
    using 1 by (auto split: option.splits intro: stock_only_writes(4))
  obtain b where b: "get_balance i (loc_id loc) s1 = Some b"
    using 1 by (cases "get_balance i (loc_id loc) s")
      (auto simp: get_balance_def get_by_append dest!: create_balance_Inr split: option.splits)
  have s1: "stock_ok s1 \<and> (\<forall>j. tally j s1 = tally j s \<and> unit_tally j s1 = unit_tally j s)" if "stock_ok s"
    using 1 that balance_effect [of "\<lparr>sb_item_id = i, sb_location_id = loc_id loc, sb_qty = 0, sb_avg_cost = 0\<rparr>" s s1]
    by (auto split: option.splits)
  have "stock_effect s s'"
  proof (rule stock_effectI)
    show "ledger_same s s'" using frame sle_frame(1) [OF e] by (auto simp: ledger_same_def)
    show "units_kept s s'" using frame sle_frame(5) [OF e] by (intro units_kept_same) simp
    assume "stock_ok s"
    with s1 balance_upd_effect [OF b, of ?f "gl_qty_received line"] sle_effect [OF e] sle q
    show "stock_ok s' \<and> (\<forall>j. tally j s' = tally j s \<and> unit_tally j s' = unit_tally j s)"
      by (simp add: moving_average_def Let_def bal_key_def qty_def quantize_quantized)
  qed (use frame sle_frame [OF e] in simp_all)
  with stock_only_trans [OF stock_only_trans [OF only stock_only_writes(6)] stock_only_writes(1) [OF e]]
  show ?thesis by simp
qed

definition receipt_value :: "grn_line \<Rightarrow> rat" where
  "receipt_value line =
     (if gl_item_id line = None then 0 else money (gl_qty_received line * gl_unit_cost line))"

lemma grn_confirm_line_effect:
  assumes "grn_confirm_line grn line (t, s) = Inr (t', s')" and q: "quantized 2 (gl_qty_received line)"
  shows "stock_effect s s' \<and> stock_only s s' \<and> t' = t + receipt_value line"
proof (cases "gl_item_id line")
  case None
  with assms show ?thesis by (simp add: grn_confirm_line_def receipt_value_def)
next
  case (Some i)
  with assms obtain s1 where t': "t' = t + receipt_value line"
    and 1: "(if has_serial line then foldE (grn_serial grn i line) (serial_numbers (the (gl_serial_no line))) s
        else Inr s) = Inr s1"
    and 2: "(if gl_qty_received line > 0 \<and> \<not> has_serial line
        then grn_bulk grn i line (money (gl_qty_received line * gl_unit_cost line)) s1 else Inr s1) = Inr s'"
    by (auto simp: grn_confirm_line_def Let_def ok_simps receipt_value_def)
  have "stock_effect s s1 \<and> stock_only s s1"
  proof (cases "has_serial line")
    case True
    with 1 have f: "foldE (grn_serial grn i line) (serial_numbers (the (gl_serial_no line))) s = Inr s1" by simp
    show ?thesis
      by (rule foldE_inv [OF f, where P = "\<lambda>t. stock_effect s t \<and> stock_only s t"])
        (simp, metis grn_serial_effect stock_effect_trans stock_only_trans)
  qed (use 1 in simp)
  moreover have "stock_effect s1 s' \<and> stock_only s1 s'"
    using 2 grn_bulk_effect [of grn i line _ s1 s'] q by (auto split: if_splits)
  ultimately show ?thesis using t' by (auto intro: stock_effect_trans stock_only_trans)
qed

lemma grn_lines_effect:
  assumes "foldE (grn_confirm_line grn) ls (t, s) = Inr (t', s')"
    and "\<forall>l\<in>set ls. quantized 2 (gl_qty_received l)"
  shows "stock_effect s s' \<and> stock_only s s' \<and> t' = t + sum_list (map receipt_value ls)"
  using assms
proof (induction ls arbitrary: t s)
  case (Cons l ls)
  then obtain t1 s1 where 1: "grn_confirm_line grn l (t, s) = Inr (t1, s1)"
    and 2: "foldE (grn_confirm_line grn) ls (t1, s1) = Inr (t', s')" by (auto simp: ok_simps)
  from grn_confirm_line_effect [OF 1] Cons.IH [OF 2] Cons.prems(2) show ?case
    by (auto intro: stock_effect_trans stock_only_trans)
qed simp

text \<open>What confirming a receipt needs and does.\<close>

lemma grn_confirm_Inr:
  assumes "grn_confirm i a s = Inr s'"
  obtains g t s1 s2 where "get_grn i s = Some g" "grn_id g = i" "grn_status g = GRN_DRAFT"
    "foldE (grn_confirm_line g) (lines_of_grn i s) (0, s) = Inr (t, s1)"
    "emit_event_async (GrnConfirmed i t (grn_receipt_date g) (Some a))
       (upd_grn i (\<lambda>g. g\<lparr>grn_status := GRN_CONFIRMED\<rparr>) s1) = Inr s2"
    "s' = (case grn_po_id g of None \<Rightarrow> s2 | Some p \<Rightarrow> maybe_receive_po p s2)"
proof -
  from assms obtain g t s1 s2 where g: "get_grn i s = Some g" "grn_status g = GRN_DRAFT"
    and 1: "foldE (grn_confirm_line g) (lines_of_grn i s) (0, s) = Inr (t, s1)"
    and 2: "emit_event_async (GrnConfirmed (grn_id g) t (grn_receipt_date g) (Some a))
       (upd_grn i (\<lambda>g. g\<lparr>grn_status := GRN_CONFIRMED\<rparr>) s1) = Inr s2"
    and 3: "s' = (case grn_po_id g of None \<Rightarrow> s2 | Some p \<Rightarrow> maybe_receive_po p s2)"
    by (auto simp: grn_confirm_def ok_simps)
  have "grn_id g = i" by (rule grn_table.lookup_key [OF g(1)])
  from that [OF g(1) this g(2) 1 _ 3] 2 this show ?thesis by simp
qed

lemma maybe_receive_po_cases:
  "maybe_receive_po p s = s
   \<or> (\<exists>q. get_po p s = Some q \<and> po_status q = PO_ISSUED
       \<and> maybe_receive_po p s = upd_po p (\<lambda>r. r\<lparr>po_status := PO_RECEIVED\<rparr>) s)"
  by (simp add: maybe_receive_po_def Let_def split: option.splits)

section \<open>Dispatches\<close>

lemma dispatch_serialized_effect:
  assumes "dispatch_serialized dp i (t, s) = Inr (t', s')"
  shows "stock_effect s s' \<and> stock_only s s'
    \<and> (stock_inv s \<longrightarrow> is_money (t' - t) \<and> stock_booked s' = stock_booked s - (t' - t))"
proof -
  let ?f = "\<lambda>u. u\<lparr>su_status := SOLD, su_sales_dispatch_id := Some (dp_id dp)\<rparr>"
  from assms obtain u where u: "get_unit i s = Some u" "su_status u = IN_STOCK"
    and e: "create_sle
        \<lparr>sle_posting_date = dp_dispatch_date dp, sle_item_id = su_item_id u,
         sle_warehouse_id = None, sle_stock_unit_id = Some i,
         sle_voucher_type = SV_DISPATCH, sle_voucher_id = dp_id dp, sle_qty_change = - 1,
         sle_valuation_rate = su_purchase_cost u, sle_stock_value_change = - su_purchase_cost u,
         sle_qty_after = 0, sle_is_cancelled = False\<rparr> (upd_unit i ?f s) = Inr s'"
    and t': "t' = t + su_purchase_cost u"
    by (auto simp: dispatch_serialized_def Let_def ok_simps)
  have "stock_effect s s'"
  proof (rule stock_effectI)
    show "ledger_same s s'" using sle_frame(1) [OF e] by (auto simp: ledger_same_def)
    show "units_kept s s'"
      using u sle_frame(5) [OF e]
      by (intro units_kept_trans [OF units_kept_upd units_kept_same]) (auto simp: unit_succ_def)
    assume ok: "stock_ok s" "stock_inv s"
    have "unit_ok u" using stock_unit_in_stock [OF ok(1) u(1)] by simp
    with unit_upd_effect [OF u ok(1), of ?f] sle_effect [OF e] u(2)
    show "stock_ok s' \<and> (\<forall>j. tally j s' = tally j s \<and> unit_tally j s' = unit_tally j s)"
      by (simp add: unit_ok_def)
  qed (use sle_frame [OF e] in simp_all)
  moreover have "is_money (su_purchase_cost u)" if "stock_inv s"
    using that stock_unit_in_stock [of s, OF _ u(1)] by (simp add: stock_inv_def unit_ok_def)
  ultimately show ?thesis
    using stock_only_trans [OF stock_only_writes(5) stock_only_writes(1) [OF e]] sle_booked [OF e] t'
    by (simp add: stock_booked_def money_minus money_is_money)
qed

lemma dispatch_bulk_effect:
  assumes "dispatch_bulk dp flushed i line (t, s) = Inr (t', s')" and q: "quantized 2 (dl_qty line)"
  shows "stock_effect s s' \<and> stock_only s s'
    \<and> is_money (t' - t) \<and> stock_booked s' = stock_booked s - (t' - t)"
proof -
  let ?f = "\<lambda>b. b\<lparr>sb_qty := sb_qty b - dl_qty line\<rparr>"
  from assms(1) obtain l b e where b: "get_balance i l s = Some b"
    and e: "create_sle e (upd_balance i l ?f s) = Inr s'"
    and sle: "sle_item_id e = i" "sle_stock_unit_id e = None" "sle_qty_change e = - dl_qty line"
      "sle_stock_value_change e = - money (dl_qty line * bulk_unit_cost line b)"
    and t': "t' = t + money (dl_qty line * bulk_unit_cost line b)"
    by (auto simp: dispatch_bulk_def Let_def ok_simps)
  have "stock_effect s s'"
  proof (rule stock_effectI)
    show "ledger_same s s'" using sle_frame(1) [OF e] by (auto simp: ledger_same_def)
    show "units_kept s s'" using sle_frame(5) [OF e] by (intro units_kept_same) simp
    assume ok: "stock_ok s"
    from balance_upd_effect [OF b ok, of ?f "- dl_qty line"] sle_effect [OF e] sle q
    show "stock_ok s' \<and> (\<forall>j. tally j s' = tally j s \<and> unit_tally j s' = unit_tally j s)"
      by (simp add: bal_key_def qty_def quantize_quantized)
  qed (use sle_frame [OF e] in simp_all)
  then show ?thesis
    using stock_only_trans [OF stock_only_writes(6) stock_only_writes(1) [OF e]] sle_booked [OF e] t' sle
    by (simp add: stock_booked_def money_minus money_is_money)
qed

lemma dispatch_lines_effect:
  assumes "foldE (dispatch_confirm_line dp flushed) ls (t, s) = Inr (t', s')"
    and "\<forall>l\<in>set ls. quantized 2 (dl_qty l)"
  shows "stock_effect s s' \<and> stock_only s s'
    \<and> (stock_inv s \<longrightarrow> is_money (t' - t) \<and> stock_booked s' = stock_booked s - (t' - t))"
  using assms
proof (induction ls arbitrary: t s)
  case (Cons l ls)
  then obtain t1 s1 where 1: "dispatch_confirm_line dp flushed l (t, s) = Inr (t1, s1)"
    and 2: "foldE (dispatch_confirm_line dp flushed) ls (t1, s1) = Inr (t', s')" by (auto simp: ok_simps)
  have s1: "stock_effect s s1 \<and> stock_only s s1
      \<and> (stock_inv s \<longrightarrow> is_money (t1 - t) \<and> stock_booked s1 = stock_booked s - (t1 - t))"
    using 1 Cons.prems(2) dispatch_serialized_effect [of dp _ t s t1 s1]
      dispatch_bulk_effect [of dp flushed _ l t s t1 s1]
    by (auto simp: dispatch_confirm_line_def split: option.splits if_splits)
  have IH: "stock_effect s1 s' \<and> stock_only s1 s'
      \<and> (stock_inv s1 \<longrightarrow> is_money (t' - t1) \<and> stock_booked s' = stock_booked s1 - (t' - t1))"
    using Cons.IH [OF 2] Cons.prems(2) by simp
  have "is_money (t' - t)" if "is_money (t1 - t)" "is_money (t' - t1)"
    using quantized_add [OF that] by simp
  moreover have "stock_inv s1" if "stock_inv s" using s1 that by (simp add: stock_effect_def)
  ultimately show ?case using s1 IH by (auto intro: stock_effect_trans stock_only_trans)
qed simp

lemma dispatch_confirm_Inr:
  assumes "dispatch_confirm i a s = Inr s'"
  obtains d t s1 s2 where "get_dispatch i s = Some d" "dp_id d = i" "dp_status d = DP_DRAFT"
    "foldE (dispatch_confirm_line d (stock_balances s)) (lines_of_dispatch i s) (0, s) = Inr (t, s1)"
    "emit_event_async (UnitDispatched i t (dp_dispatch_date d) (Some a))
       (upd_dispatch i (\<lambda>d. d\<lparr>dp_status := DP_CONFIRMED\<rparr>) s1) = Inr s2"
    "s' = (case dp_so_id d of None \<Rightarrow> s2 | Some x \<Rightarrow> maybe_mark_so_dispatched x s2)"
proof -
  from assms obtain d t s1 s2 where d: "get_dispatch i s = Some d" "dp_status d = DP_DRAFT"
    and 1: "foldE (dispatch_confirm_line d (stock_balances s)) (lines_of_dispatch i s) (0, s) = Inr (t, s1)"
    and 2: "emit_event_async (UnitDispatched (dp_id d) t (dp_dispatch_date d) (Some a))
       (upd_dispatch i (\<lambda>d. d\<lparr>dp_status := DP_CONFIRMED\<rparr>) s1) = Inr s2"
    and 3: "s' = (case dp_so_id d of None \<Rightarrow> s2 | Some x \<Rightarrow> maybe_mark_so_dispatched x s2)"
    by (auto simp: dispatch_confirm_def ok_simps)
  have "dp_id d = i" by (rule dispatch_table.lookup_key [OF d(1)])
  from that [OF d(1) this d(2) 1 _ 3] 2 this show ?thesis by simp
qed

lemma maybe_mark_so_cases:
  "maybe_mark_so_dispatched x s = s
   \<or> (\<exists>q. get_so x s = Some q \<and> so_status q = SO_CONFIRMED
       \<and> maybe_mark_so_dispatched x s = upd_so x (\<lambda>r. r\<lparr>so_status := SO_DISPATCHED\<rparr>) s)"
  by (simp add: maybe_mark_so_dispatched_def Let_def split: option.splits)

lemma document_frames [simp]:
  "stock_booked (upd_grn i f s) = stock_booked s" "stock_booked (upd_dispatch i g u) = stock_booked u"
  by (simp_all add: upd_grn_def upd_dispatch_def stock_booked_def)

lemma stock_effect_documents [simp]:
  "stock_effect s (upd_grn i f s)" "stock_effect s (upd_po i f' s)" "stock_effect u (upd_so i g u)"
  "stock_effect u (upd_dispatch i g' u)"
  by (rule stock_effect_same;
      simp add: upd_grn_def upd_po_def upd_so_def upd_dispatch_def ledger_same_def)+

end
