(* ===== verification/Erp.thy ===== *)
theory Erp
  imports FulfilmentProps
begin

text \<open>
  The ERP as one transition system. \<open>stock_step\<close> is every operation of inventory, procurement and
  fulfilment that the program's routers reach (\<open>receive_into_stock\<close> and \<open>dispatch_units\<close> have no caller);
  \<open>erp_step\<close> adds the ledger, receivables, payables, the calendar and the contacts. \<open>erp_inv\<close> is what
  they all keep.
\<close>

section \<open>Steps\<close>

inductive stock_step :: "'a fulfilment_scheme \<Rightarrow> 'a fulfilment_scheme \<Rightarrow> bool" where
  item: "item_create ireq s = Inr (i, s') \<Longrightarrow> stock_step s s'"
| item_update: "item_update i f s = Inr s' \<Longrightarrow> stock_step s s'"
| warehouse: "warehouse_create nm c s = Inr (i, s') \<Longrightarrow> stock_step s s'"
| location: "location_create w c s = Inr (i, s') \<Longrightarrow> stock_step s s'"
| transfer: "transfer_units treq s = Inr s' \<Longrightarrow> stock_step s s'"
| adjust: "adjust_stock areq a s = Inr (x, s') \<Longrightarrow> stock_step s s'"
| po_create: "po_create preq s = Inr (i, s') \<Longrightarrow> stock_step s s'"
| po_issue: "po_issue i a s = Inr s' \<Longrightarrow> stock_step s s'"
| grn_create: "grn_create greq s = Inr (i, s') \<Longrightarrow> stock_step s s'"
| grn_confirm: "grn_confirm i a s = Inr s' \<Longrightarrow> stock_step s s'"
| so_create: "so_create sreq s = Inr (i, s') \<Longrightarrow> stock_step s s'"
| so_confirm: "so_confirm i a s = Inr s' \<Longrightarrow> stock_step s s'"
| dispatch_create: "dispatch_create dreq s = Inr (i, s') \<Longrightarrow> stock_step s s'"
| dispatch_confirm: "dispatch_confirm i a s = Inr s' \<Longrightarrow> stock_step s s'"
| choice: "stock_step s (s\<lparr>db_choice := c\<rparr>)"

inductive erp_step :: "'a fulfilment_scheme \<Rightarrow> 'a fulfilment_scheme \<Rightarrow> bool" where
  finance: "finance_step s s' \<Longrightarrow> erp_step s s'"
| stock: "stock_step s s' \<Longrightarrow> erp_step s s'"

inductive_cases stock_stepE: "stock_step s s'"

section \<open>The invariant\<close>

definition lines_ok :: "'a fulfilment_scheme \<Rightarrow> bool" where
  "lines_ok s = ((\<forall>l\<in>set (grn_lines s). quantized 2 (gl_qty_received l))
     \<and> (\<forall>l\<in>set (dispatch_lines s). quantized 2 (dl_qty l)))"

definition numbers_ok :: "'a fulfilment_scheme \<Rightarrow> bool" where
  "numbers_ok s =
     (counted_ok ''PO'' po_created_year po_no (purchase_orders s)
      \<and> counted_ok ''GRN'' grn_created_year grn_no (grns s)
      \<and> counted_ok ''SO'' so_created_year so_no (sales_orders s)
      \<and> counted_ok ''DPN'' dp_created_year dp_no (dispatches s))"

text \<open>Documents have distinct identifiers that were handed out, and lines belong to one of them.\<close>

definition keyed_below :: "uuid \<Rightarrow> ('r \<Rightarrow> uuid) \<Rightarrow> 'r list \<Rightarrow> ('l \<Rightarrow> uuid) \<Rightarrow> 'l list \<Rightarrow> bool" where
  "keyed_below n key rs head ls =
     (distinct (map key rs) \<and> (\<forall>r\<in>set rs. key r < n) \<and> (\<forall>l\<in>set ls. head l < n))"

lemma keyed_below_mono: "keyed_below n key rs head ls \<Longrightarrow> n \<le> m \<Longrightarrow> keyed_below m key rs head ls"
  unfolding keyed_below_def by (meson less_le_trans)

lemma keyed_below_add:
  "keyed_below n key rs head ls \<Longrightarrow> key r = n \<Longrightarrow> \<forall>l\<in>set ks. head l = n
     \<Longrightarrow> keyed_below (Suc n) key (rs @ [r]) head (ls @ ks)"
  by (fastforce simp: keyed_below_def)

lemma keyed_below_upd:
  assumes "\<And>r. key (f r) = key r"
  shows "keyed_below n key (upd_by key k f rs) head ls = keyed_below n key rs head ls"
  by (simp add: keyed_below_def map_upd_by assms ball_upd_by [where P = "\<lambda>r. key r < n"])

definition ids_ok :: "'a fulfilment_scheme \<Rightarrow> bool" where
  "ids_ok s =
     (keyed_below (next_id s) po_id (purchase_orders s) pol_po_id (po_lines s)
      \<and> keyed_below (next_id s) grn_id (grns s) gl_grn_id (grn_lines s)
      \<and> keyed_below (next_id s) so_id (sales_orders s) sol_so_id (so_lines s)
      \<and> keyed_below (next_id s) dp_id (dispatches s) dl_dispatch_id (dispatch_lines s))"

definition erp_inv :: "'a fulfilment_scheme \<Rightarrow> bool" where
  "erp_inv s = (stock_inv s \<and> lines_ok s \<and> numbers_ok s \<and> ids_ok s)"

lemmas erp_defs = lines_ok_def numbers_ok_def ids_ok_def

lemma docs_same:
  assumes "inventory.more s' = inventory.more s"
  shows "lines_ok s' = lines_ok s" "numbers_ok s' = numbers_ok s"
    "ids_ok s \<Longrightarrow> next_id s \<le> next_id s' \<Longrightarrow> ids_ok s'"
  using more_fulfilment [OF assms] by (auto simp: erp_defs elim: keyed_below_mono)

text \<open>Changing the status of a document keeps its number and the year it was created in.\<close>

lemma docs_upd [simp]:
  "lines_ok (upd_po i (\<lambda>r. r\<lparr>po_status := a\<rparr>) s) = lines_ok s"
  "numbers_ok (upd_po i (\<lambda>r. r\<lparr>po_status := a\<rparr>) s) = numbers_ok s"
  "lines_ok (upd_grn i (\<lambda>r. r\<lparr>grn_status := b\<rparr>) s) = lines_ok s"
  "numbers_ok (upd_grn i (\<lambda>r. r\<lparr>grn_status := b\<rparr>) s) = numbers_ok s"
  "lines_ok (upd_so i (\<lambda>r. r\<lparr>so_status := c\<rparr>) s) = lines_ok s"
  "numbers_ok (upd_so i (\<lambda>r. r\<lparr>so_status := c\<rparr>) s) = numbers_ok s"
  "lines_ok (upd_dispatch i (\<lambda>r. r\<lparr>dp_status := d\<rparr>) s) = lines_ok s"
  "numbers_ok (upd_dispatch i (\<lambda>r. r\<lparr>dp_status := d\<rparr>) s) = numbers_ok s"
  "ids_ok (upd_po i (\<lambda>r. r\<lparr>po_status := a\<rparr>) s) = ids_ok s"
  "ids_ok (upd_grn i (\<lambda>r. r\<lparr>grn_status := b\<rparr>) s) = ids_ok s"
  "ids_ok (upd_so i (\<lambda>r. r\<lparr>so_status := c\<rparr>) s) = ids_ok s"
  "ids_ok (upd_dispatch i (\<lambda>r. r\<lparr>dp_status := d\<rparr>) s) = ids_ok s"
  by (simp_all add: erp_defs upd_po_def upd_grn_def upd_so_def upd_dispatch_def counted_ok_upd keyed_below_upd)

section \<open>Finance leaves stock alone\<close>

lemma payables_step_more:
  assumes "payables_step s s'"
  shows "payables.more s' = payables.more s \<and> next_id s \<le> next_id s'"
  using assms
proof cases
  case (create req i)
  then show ?thesis by (elim bill_create_Inr) simp
next
  case (issue i a)
  then obtain r x y e t where "get_bill i s = Some r" "bill_id r = i" "bill_status r = BILL_DRAFT"
    "get_account_by_code ''2200'' s = Some x" "get_account_by_code ''2100'' s = Some y"
    and p: "post (ap_request (bill_posting_date r) ''journal_entry'' x y (bill_total r) (bill_supplier_id r)
        (Some (bill_supplier_id r))) (Some a) (Some ''supplier_bill'') (Some i) True s = Inr (e, t)"
    and s': "s' = upd_bill i (\<lambda>b. b\<lparr>bill_status := BILL_ISSUED, bill_je_id := Some (je_id e)\<rparr>) t"
    by (rule bill_issue_Inr)
  from post_frame [OF p] ledger_more_payables [of t s] show ?thesis by (simp add: s' upd_bill_def)
next
  case (void i a)
  then show ?thesis by (auto simp: bill_void_def ok_simps upd_bill_def)
next
  case (payment preq i)
  then show ?thesis
    by (auto simp: supplier_payment_create_def ok_simps next_doc_number_def alloc_number_eq fresh_id_def
        Let_def add_supplier_payment_def)
next
  case (allocate i areq)
  then show ?thesis by (elim bill_allocate_Inr) (simp add: upd_bill_def)
next
  case (reconcile i a)
  then obtain r x y e t where "get_supplier_payment i s = Some r" "sp_id r = i"
    "sp_status r \<noteq> SPM_CLEARED" "sp_status r \<noteq> SPM_VOID"
    "get_account_by_code ''2100'' s = Some x" "get_account_by_code ''1020'' s = Some y"
    and p: "post (ap_request (sp_payment_date r) ''bank_entry'' x y (sp_amount r) (sp_supplier_id r) None)
        (Some a) (Some ''supplier_payment'') (Some i) True s = Inr (e, t)"
    and s': "s' = upd_supplier_payment i (\<lambda>p. p\<lparr>sp_status := SPM_CLEARED, sp_je_id := Some (je_id e)\<rparr>) t"
    by (rule supplier_payment_reconcile_Inr)
  from post_frame [OF p] ledger_more_payables [of t s] show ?thesis by (simp add: s' upd_supplier_payment_def)
next
  case (debit dreq i)
  then show ?thesis
    by (auto simp: debit_note_create_def ok_simps next_doc_number_def alloc_number_eq fresh_id_def
        Let_def add_debit_note_def split: option.splits)
next
  case (debit_issue i a)
  then obtain r x y e t where "get_debit_note i s = Some r" "dn_id r = i" "dn_status r = DN_DRAFT"
    "get_account_by_code ''2100'' s = Some x" "get_account_by_code ''4200'' s = Some y"
    and p: "post (ap_request (dn_date r) ''debit_note'' x y (dn_amount r) (dn_supplier_id r) None)
        (Some a) (Some ''debit_note'') (Some i) True s = Inr (e, t)"
    and s': "s' = upd_debit_note i (\<lambda>p. p\<lparr>dn_status := DN_ISSUED, dn_je_id := Some (je_id e)\<rparr>) t"
    by (rule debit_note_issue_Inr)
  from post_frame [OF p] ledger_more_payables [of t s] show ?thesis by (simp add: s' upd_debit_note_def)
next
  case (sweep n)
  then show ?thesis by (auto simp: ap_recompute_ageing_def Let_def)
qed

lemma ledger_step_more:
  assumes "ledger_step s s'"
  shows "ledger.more s' = ledger.more s \<and> next_id s \<le> next_id s'"
  using assms
proof cases
  case (post req actor e)
  then have p: "post req (Some actor) None None False s = Inr (e, s')" by (auto simp: post_entry_def ok_simps)
  from post_frame [OF p] show ?thesis by simp
next
  case (reverse i actor e)
  then obtain r x where r: "post r (Some actor) (Some ''journal_entry'') (Some i) False s = Inr (e, x)"
    and "s' = mark_reversed i (je_id e) x"
    by (auto simp: journal_reverse_entry_def reverse_entry_Inr_iff)
  then show ?thesis using post_frame [OF r] by (simp add: mark_reversed_def)
next
  case (close i)
  then show ?thesis by (auto simp: close_period_def ok_simps set_period_status_def)
next
  case (reopen i)
  then show ?thesis by (auto simp: reopen_period_def ok_simps set_period_status_def)
next
  case (account areq a)
  then show ?thesis by (auto dest!: account_create_Inr)
qed

lemma bridge_run_next_id: "bridge_run s s' \<Longrightarrow> next_id s \<le> next_id s'"
proof (induction rule: bridge_run.induct)
  case (event s t ev u)
  then show ?case using emit_frame [of ev t u] by simp
qed (auto simp: ledger_same_def)

lemma finance_step_more:
  assumes "finance_step s s'"
  shows "payables.more s' = payables.more s \<and> next_id s \<le> next_id s'"
  using assms
proof cases
  case ledger
  from ledger_step_more [OF this] ledger_more_payables [of s' s] show ?thesis by simp
next
  case receivables
  from receivables_step_run [OF this] more_payables [of s' s] bridge_run_next_id [of s s']
  show ?thesis by simp
next
  case payables
  then show ?thesis by (rule payables_step_more)
qed simp_all

lemma more_stock:
  assumes "payables.more s' = payables.more s"
  shows "stock_units s' = stock_units s \<and> stock_balances s' = stock_balances s
    \<and> stock_ledger s' = stock_ledger s \<and> inventory.more s' = inventory.more s"
  using assms by (cases s; cases s') simp

lemma finance_step_keeps: "finance_step s s' \<Longrightarrow> erp_inv s \<Longrightarrow> erp_inv s' \<and> units_kept s s'"
  using finance_step_more [of s s'] more_stock [of s' s] docs_same [of s' s]
    stock_inv_same [of s s'] units_kept_same [of s' s]
  by (simp add: erp_inv_def)

section \<open>Stock operations keep the invariant\<close>

lemma create_lines_frame:
  assumes "foldE f xs s = Inr s'" and "\<And>x t t'. f x t = Inr t' \<Longrightarrow> R t t'"
    and "\<And>t. R t t" and "\<And>t u v. R t u \<Longrightarrow> R u v \<Longrightarrow> R t v"
  shows "R s s'"
  by (rule foldE_inv [OF assms(1), where P = "R s"]) (use assms in blast)+

lemma po_create_Inr:
  assumes "po_create req s = Inr (i, s')"
  obtains r ls where "po_id r = next_id s" "po_no r = generate_po_no s" "po_created_year r = year_of (today s)"
    "\<forall>l\<in>set ls. pol_po_id l = next_id s"
    "s' = s\<lparr>next_id := Suc (next_id s), purchase_orders := purchase_orders s @ [r], po_lines := po_lines s @ ls\<rparr>"
proof -
  let ?r = "\<lparr>po_id = next_id s, po_no = generate_po_no s, po_supplier_id = pcr_supplier_id req,
        po_currency_code = pcr_currency_code req, po_status = PO_DRAFT,
        po_order_date = pcr_order_date req, po_expected_date = pcr_expected_date req,
        po_created_year = year_of (today s)\<rparr>"
  let ?s = "add_po ?r (s\<lparr>next_id := Suc (next_id s)\<rparr>)"
  let ?R = "\<lambda>t t'. \<exists>ls. (\<forall>l\<in>set ls. pol_po_id l = next_id s)
    \<and> t' = t\<lparr>po_lines := po_lines t @ ls\<rparr>"
  from assms have f: "foldE (po_create_line (next_id s)) (pcr_lines req) ?s = Inr s'"
    by (auto simp: po_create_def ok_simps fresh_id_def Let_def)
  have "?R ?s s'"
  proof (rule create_lines_frame [OF f, where R = ?R])
    fix t u v :: "'a procurement_scheme"
    assume "?R t u" "?R u v"
    then obtain xs ys where "\<forall>l\<in>set xs. pol_po_id l = next_id s" "\<forall>l\<in>set ys. pol_po_id l = next_id s"
      "u = t\<lparr>po_lines := po_lines t @ xs\<rparr>" "v = u\<lparr>po_lines := po_lines u @ ys\<rparr>" by blast
    then show "?R t v" by (intro exI [of _ "xs @ ys"]) auto
  next
    fix x and t t' :: "'a procurement_scheme"
    assume "po_create_line (next_id s) x t = Inr t'"
    then show "?R t t'" by (auto simp: po_create_line_def ok_simps intro!: exI [of _ "[y]" for y])
  qed (auto intro: exI [of _ "[]"])
  then show ?thesis using that [of ?r] by (auto simp: add_po_def)
qed

lemma grn_create_Inr:
  assumes "grn_create req s = Inr (i, s')"
  obtains r ls where "grn_id r = next_id s" "grn_no r = generate_grn_no s" "grn_created_year r = year_of (today s)"
    "\<forall>l\<in>set ls. gl_grn_id l = next_id s \<and> quantized 2 (gl_qty_received l)"
    "s' = s\<lparr>next_id := Suc (next_id s), grns := grns s @ [r], grn_lines := grn_lines s @ ls\<rparr>"
proof -
  let ?r = "\<lparr>grn_id = next_id s, grn_no = generate_grn_no s, grn_po_id = gcr_po_id req,
        grn_warehouse_id = gcr_warehouse_id req, grn_receipt_date = gcr_receipt_date req,
        grn_status = GRN_DRAFT, grn_je_id = None, grn_created_year = year_of (today s)\<rparr>"
  let ?s = "add_grn ?r (s\<lparr>next_id := Suc (next_id s)\<rparr>)"
  let ?R = "\<lambda>t t'. \<exists>ls. (\<forall>l\<in>set ls. gl_grn_id l = next_id s \<and> quantized 2 (gl_qty_received l))
    \<and> t' = t\<lparr>grn_lines := grn_lines t @ ls\<rparr>"
  from assms have f: "foldE (grn_create_line (next_id s)) (gcr_lines req) ?s = Inr s'"
    by (auto simp: grn_create_def ok_simps fresh_id_def Let_def)
  have "?R ?s s'"
  proof (rule create_lines_frame [OF f, where R = ?R])
    fix t u v :: "'a procurement_scheme"
    assume "?R t u" "?R u v"
    then obtain xs ys where "\<forall>l\<in>set xs. gl_grn_id l = next_id s \<and> quantized 2 (gl_qty_received l)" "\<forall>l\<in>set ys. gl_grn_id l = next_id s \<and> quantized 2 (gl_qty_received l)"
      "u = t\<lparr>grn_lines := grn_lines t @ xs\<rparr>" "v = u\<lparr>grn_lines := grn_lines u @ ys\<rparr>" by blast
    then show "?R t v" by (intro exI [of _ "xs @ ys"]) auto
  next
    fix x and t t' :: "'a procurement_scheme"
    assume "grn_create_line (next_id s) x t = Inr t'"
    then show "?R t t'" by (auto simp: grn_create_line_def ok_simps intro!: exI [of _ "[y]" for y])
  qed (auto intro: exI [of _ "[]"])
  then show ?thesis using that [of ?r] by (auto simp: add_grn_def)
qed

lemma so_create_Inr:
  assumes "so_create req s = Inr (i, s')"
  obtains r ls where "so_id r = next_id s" "so_no r = generate_so_no s" "so_created_year r = year_of (today s)"
    "\<forall>l\<in>set ls. sol_so_id l = next_id s"
    "s' = s\<lparr>next_id := Suc (next_id s), sales_orders := sales_orders s @ [r], so_lines := so_lines s @ ls\<rparr>"
proof -
  let ?r = "\<lparr>so_id = next_id s, so_no = generate_so_no s, so_customer_id = scr_customer_id req,
        so_currency_code = scr_currency_code req, so_status = SO_DRAFT,
        so_order_date = scr_order_date req, so_created_year = year_of (today s)\<rparr>"
  let ?s = "add_so ?r (s\<lparr>next_id := Suc (next_id s)\<rparr>)"
  let ?R = "\<lambda>t t'. \<exists>ls. (\<forall>l\<in>set ls. sol_so_id l = next_id s)
    \<and> t' = t\<lparr>so_lines := so_lines t @ ls\<rparr>"
  from assms have f: "foldE (so_create_line (next_id s)) (scr_lines req) ?s = Inr s'"
    by (auto simp: so_create_def ok_simps fresh_id_def Let_def)
  have "?R ?s s'"
  proof (rule create_lines_frame [OF f, where R = ?R])
    fix t u v :: "'a fulfilment_scheme"
    assume "?R t u" "?R u v"
    then obtain xs ys where "\<forall>l\<in>set xs. sol_so_id l = next_id s" "\<forall>l\<in>set ys. sol_so_id l = next_id s"
      "u = t\<lparr>so_lines := so_lines t @ xs\<rparr>" "v = u\<lparr>so_lines := so_lines u @ ys\<rparr>" by blast
    then show "?R t v" by (intro exI [of _ "xs @ ys"]) auto
  next
    fix x and t t' :: "'a fulfilment_scheme"
    assume "so_create_line (next_id s) x t = Inr t'"
    then show "?R t t'" by (auto simp: so_create_line_def ok_simps intro!: exI [of _ "[y]" for y])
  qed (auto intro: exI [of _ "[]"])
  then show ?thesis using that [of ?r] by (auto simp: add_so_def)
qed

lemma dispatch_create_Inr:
  assumes "dispatch_create req s = Inr (i, s')"
  obtains r ls where "dp_id r = next_id s" "dp_no r = generate_dispatch_no s" "dp_created_year r = year_of (today s)"
    "\<forall>l\<in>set ls. dl_dispatch_id l = next_id s \<and> quantized 2 (dl_qty l)"
    "s' = s\<lparr>next_id := Suc (next_id s), dispatches := dispatches s @ [r], dispatch_lines := dispatch_lines s @ ls\<rparr>"
proof -
  let ?r = "\<lparr>dp_id = next_id s, dp_no = generate_dispatch_no s, dp_so_id = dcr_so_id req,
        dp_dispatch_date = dcr_dispatch_date req, dp_status = DP_DRAFT, dp_je_id = None,
        dp_created_year = year_of (today s)\<rparr>"
  let ?s = "add_dispatch ?r (s\<lparr>next_id := Suc (next_id s)\<rparr>)"
  let ?R = "\<lambda>t t'. \<exists>ls. (\<forall>l\<in>set ls. dl_dispatch_id l = next_id s \<and> quantized 2 (dl_qty l))
    \<and> t' = t\<lparr>dispatch_lines := dispatch_lines t @ ls\<rparr>"
  from assms have f: "foldE (dispatch_create_line (next_id s)) (dcr_lines req) ?s = Inr s'"
    by (auto simp: dispatch_create_def ok_simps fresh_id_def Let_def)
  have "?R ?s s'"
  proof (rule create_lines_frame [OF f, where R = ?R])
    fix t u v :: "'a fulfilment_scheme"
    assume "?R t u" "?R u v"
    then obtain xs ys where "\<forall>l\<in>set xs. dl_dispatch_id l = next_id s \<and> quantized 2 (dl_qty l)" "\<forall>l\<in>set ys. dl_dispatch_id l = next_id s \<and> quantized 2 (dl_qty l)"
      "u = t\<lparr>dispatch_lines := dispatch_lines t @ xs\<rparr>" "v = u\<lparr>dispatch_lines := dispatch_lines u @ ys\<rparr>" by blast
    then show "?R t v" by (intro exI [of _ "xs @ ys"]) auto
  next
    fix x and t t' :: "'a fulfilment_scheme"
    assume "dispatch_create_line (next_id s) x t = Inr t'"
    then show "?R t t'" by (auto simp: dispatch_create_line_def ok_simps intro!: exI [of _ "[y]" for y])
  qed (auto intro: exI [of _ "[]"])
  then show ?thesis using that [of ?r] by (auto simp: add_dispatch_def)
qed

lemma grn_confirm_keeps:
  assumes r: "grn_confirm i a s = Inr s'" and inv: "lines_ok s"
  shows "stock_effect s s' \<and> lines_ok s' \<and> numbers_ok s' = numbers_ok s \<and> (ids_ok s \<longrightarrow> ids_ok s')"
proof -
  from r obtain g t s1 s2 where "get_grn i s = Some g" "grn_id g = i" "grn_status g = GRN_DRAFT"
    and 1: "foldE (grn_confirm_line g) (lines_of_grn i s) (0, s) = Inr (t, s1)"
    and 2: "emit_event_async (GrnConfirmed i t (grn_receipt_date g) (Some a))
       (upd_grn i (\<lambda>g. g\<lparr>grn_status := GRN_CONFIRMED\<rparr>) s1) = Inr s2"
    and s': "s' = (case grn_po_id g of None \<Rightarrow> s2 | Some p \<Rightarrow> maybe_receive_po p s2)"
    by (rule grn_confirm_Inr)
  have "\<forall>l\<in>set (lines_of_grn i s). quantized 2 (gl_qty_received l)"
    using inv by (simp add: lines_ok_def lines_of_grn_def)
  from grn_lines_effect [OF 1 this] have s1: "stock_effect s s1" "inventory.more s1 = inventory.more s"
    "next_id s \<le> next_id s1" by (simp_all add: stock_only_def ledger_same_def)
  have s2: "stock_effect s s2"
    by (meson s1(1) stock_effect_trans stock_effect_documents(1) stock_effect_emit [OF 2])
  have n: "lines_ok s2 = lines_ok s \<and> numbers_ok s2 = numbers_ok s \<and> (ids_ok s \<longrightarrow> ids_ok s2)"
    using docs_same [OF emit_inventory(8) [OF 2]] docs_same [OF s1(2)] s1(3) emit_inventory(9) [OF 2] by simp
  have "s' = s2 \<or> (\<exists>p. s' = upd_po p (\<lambda>r. r\<lparr>po_status := PO_RECEIVED\<rparr>) s2)"
    using s' maybe_receive_po_cases by (auto split: option.splits)
  with s2 n inv show ?thesis by (auto intro: stock_effect_trans)
qed

lemma dispatch_confirm_keeps:
  assumes r: "dispatch_confirm i a s = Inr s'" and inv: "lines_ok s"
  shows "stock_effect s s' \<and> lines_ok s' \<and> numbers_ok s' = numbers_ok s \<and> (ids_ok s \<longrightarrow> ids_ok s')"
proof -
  from r obtain d t s1 s2 where "get_dispatch i s = Some d" "dp_id d = i" "dp_status d = DP_DRAFT"
    and 1: "foldE (dispatch_confirm_line d (stock_balances s)) (lines_of_dispatch i s) (0, s) = Inr (t, s1)"
    and 2: "emit_event_async (UnitDispatched i t (dp_dispatch_date d) (Some a))
       (upd_dispatch i (\<lambda>d. d\<lparr>dp_status := DP_CONFIRMED\<rparr>) s1) = Inr s2"
    and s': "s' = (case dp_so_id d of None \<Rightarrow> s2 | Some x \<Rightarrow> maybe_mark_so_dispatched x s2)"
    by (rule dispatch_confirm_Inr)
  have "\<forall>l\<in>set (lines_of_dispatch i s). quantized 2 (dl_qty l)"
    using inv by (simp add: lines_ok_def lines_of_dispatch_def)
  from dispatch_lines_effect [OF 1 this] have s1: "stock_effect s s1" "inventory.more s1 = inventory.more s"
    "next_id s \<le> next_id s1" by (simp_all add: stock_only_def ledger_same_def)
  have s2: "stock_effect s s2"
    by (meson s1(1) stock_effect_trans stock_effect_documents(4) stock_effect_emit [OF 2])
  have n: "lines_ok s2 = lines_ok s \<and> numbers_ok s2 = numbers_ok s \<and> (ids_ok s \<longrightarrow> ids_ok s2)"
    using docs_same [OF emit_inventory(8) [OF 2]] docs_same [OF s1(2)] s1(3) emit_inventory(9) [OF 2] by simp
  have "s' = s2 \<or> (\<exists>p. s' = upd_so p (\<lambda>r. r\<lparr>so_status := SO_DISPATCHED\<rparr>) s2)"
    using s' maybe_mark_so_cases by (auto split: option.splits)
  with s2 n inv show ?thesis by (auto intro: stock_effect_trans)
qed

lemma stock_step_keeps:
  assumes "stock_step s s'" and inv: "erp_inv s"
  shows "stock_effect s s' \<and> erp_inv s'"
proof -
  have l: "lines_ok s" and n: "numbers_ok s" and d: "ids_ok s" using inv by (simp_all add: erp_inv_def)
  have next_id: "next_id s \<le> next_id s'" if "stock_effect s s'"
    using that bridge_run_next_id [of s s'] by (simp add: stock_effect_def)
  have "stock_effect s s' \<and> lines_ok s' \<and> numbers_ok s' \<and> ids_ok s'"
    using assms(1)
  proof cases
    case (item ireq i)
    then have "stock_effect s s' \<and> inventory.more s' = inventory.more s"
      by (auto simp: item_create_def ok_simps fresh_id_def Let_def ledger_same_def intro: stock_effect_same)
    with l n d next_id docs_same [of s' s] show ?thesis by simp
  next
    case (item_update i f)
    then have "stock_effect s s' \<and> inventory.more s' = inventory.more s"
      by (auto simp: item_update_def ok_simps upd_item_def ledger_same_def intro: stock_effect_same)
    with l n d next_id docs_same [of s' s] show ?thesis by simp
  next
    case (warehouse nm c i)
    then have "stock_effect s s' \<and> inventory.more s' = inventory.more s"
      by (auto simp: warehouse_create_def ok_simps fresh_id_def Let_def ledger_same_def intro: stock_effect_same)
    with l n d next_id docs_same [of s' s] show ?thesis by simp
  next
    case (location w c i)
    then have "stock_effect s s' \<and> inventory.more s' = inventory.more s"
      by (auto simp: location_create_def ok_simps fresh_id_def Let_def ledger_same_def intro: stock_effect_same)
    with l n d next_id docs_same [of s' s] show ?thesis by simp
  next
    case (transfer treq)
    from transfer_units_effect [OF this] l n d next_id docs_same [of s' s] show ?thesis by simp
  next
    case (adjust areq a x)
    from adjust_stock_effect [OF this] l n d next_id docs_same [of s' s] show ?thesis by simp
  next
    case (po_create preq i)
    then obtain r ls where r: "po_id r = next_id s" "po_no r = generate_po_no s"
      "po_created_year r = year_of (today s)" "\<forall>l\<in>set ls. pol_po_id l = next_id s"
      "s' = s\<lparr>next_id := Suc (next_id s), purchase_orders := purchase_orders s @ [r], po_lines := po_lines s @ ls\<rparr>"
      by (rule po_create_Inr)
    have "stock_effect s s'" by (rule stock_effect_same) (simp_all add: r(5) ledger_same_def)
    moreover have "lines_ok s'" using l r by (auto simp: lines_ok_def)
    moreover have "numbers_ok s'"
      using n r counted_ok_add [of "''PO''" po_created_year po_no "purchase_orders s" r]
      by (simp add: numbers_ok_def generate_po_no_def)
    moreover have "ids_ok s'"
      using d r by (auto simp: ids_ok_def intro: keyed_below_add keyed_below_mono [OF _ le_SucI [OF order_refl]])
    ultimately show ?thesis by simp
  next
    case (po_issue i a)
    then have "s' = upd_po i (\<lambda>r. r\<lparr>po_status := PO_ISSUED\<rparr>) s" by (auto simp: po_issue_def ok_simps)
    with l n d show ?thesis by simp
  next
    case (grn_create greq i)
    then obtain r ls where r: "grn_id r = next_id s" "grn_no r = generate_grn_no s"
      "grn_created_year r = year_of (today s)" "\<forall>l\<in>set ls. gl_grn_id l = next_id s \<and> quantized 2 (gl_qty_received l)"
      "s' = s\<lparr>next_id := Suc (next_id s), grns := grns s @ [r], grn_lines := grn_lines s @ ls\<rparr>"
      by (rule grn_create_Inr)
    have "stock_effect s s'" by (rule stock_effect_same) (simp_all add: r(5) ledger_same_def)
    moreover have "lines_ok s'" using l r by (auto simp: lines_ok_def)
    moreover have "numbers_ok s'"
      using n r counted_ok_add [of "''GRN''" grn_created_year grn_no "grns s" r]
      by (simp add: numbers_ok_def generate_grn_no_def)
    moreover have "ids_ok s'"
      using d r by (auto simp: ids_ok_def intro: keyed_below_add keyed_below_mono [OF _ le_SucI [OF order_refl]])
    ultimately show ?thesis by simp
  next
    case (grn_confirm i a)
    from grn_confirm_keeps [OF this l] n d show ?thesis by simp
  next
    case (so_create sreq i)
    then obtain r ls where r: "so_id r = next_id s" "so_no r = generate_so_no s"
      "so_created_year r = year_of (today s)" "\<forall>l\<in>set ls. sol_so_id l = next_id s"
      "s' = s\<lparr>next_id := Suc (next_id s), sales_orders := sales_orders s @ [r], so_lines := so_lines s @ ls\<rparr>"
      by (rule so_create_Inr)
    have "stock_effect s s'" by (rule stock_effect_same) (simp_all add: r(5) ledger_same_def)
    moreover have "lines_ok s'" using l r by (auto simp: lines_ok_def)
    moreover have "numbers_ok s'"
      using n r counted_ok_add [of "''SO''" so_created_year so_no "sales_orders s" r]
      by (simp add: numbers_ok_def generate_so_no_def)
    moreover have "ids_ok s'"
      using d r by (auto simp: ids_ok_def intro: keyed_below_add keyed_below_mono [OF _ le_SucI [OF order_refl]])
    ultimately show ?thesis by simp
  next
    case (so_confirm i a)
    then have "s' = upd_so i (\<lambda>r. r\<lparr>so_status := SO_CONFIRMED\<rparr>) s" by (auto simp: so_confirm_def ok_simps Let_def)
    with l n d show ?thesis by simp
  next
    case (dispatch_create dreq i)
    then obtain r ls where r: "dp_id r = next_id s" "dp_no r = generate_dispatch_no s"
      "dp_created_year r = year_of (today s)" "\<forall>l\<in>set ls. dl_dispatch_id l = next_id s \<and> quantized 2 (dl_qty l)"
      "s' = s\<lparr>next_id := Suc (next_id s), dispatches := dispatches s @ [r], dispatch_lines := dispatch_lines s @ ls\<rparr>"
      by (rule dispatch_create_Inr)
    have "stock_effect s s'" by (rule stock_effect_same) (simp_all add: r(5) ledger_same_def)
    moreover have "lines_ok s'" using l r by (auto simp: lines_ok_def)
    moreover have "numbers_ok s'"
      using n r counted_ok_add [of "''DPN''" dp_created_year dp_no "dispatches s" r]
      by (simp add: numbers_ok_def generate_dispatch_no_def)
    moreover have "ids_ok s'"
      using d r by (auto simp: ids_ok_def intro: keyed_below_add keyed_below_mono [OF _ le_SucI [OF order_refl]])
    ultimately show ?thesis by simp
  next
    case (dispatch_confirm i a)
    from dispatch_confirm_keeps [OF this l] n d show ?thesis by simp
  next
    case (choice c)
    with l n d show ?thesis by (auto simp: erp_defs ledger_same_def intro: stock_effect_same)
  qed
  with inv show ?thesis by (simp add: erp_inv_def stock_effect_def)
qed

lemma erp_step_keeps: "erp_step s s' \<Longrightarrow> erp_inv s \<Longrightarrow> erp_inv s' \<and> units_kept s s'"
  by (cases rule: erp_step.cases)
    (auto dest: finance_step_keeps stock_step_keeps simp: stock_effect_def)

lemma erp_reachable: "erp_step\<^sup>*\<^sup>* s s' \<Longrightarrow> erp_inv s \<Longrightarrow> erp_inv s' \<and> units_kept s s'"
proof (induction rule: rtranclp_induct)
  case base
  then show ?case by (simp add: units_kept_same)
next
  case (step t u)
  then show ?case using erp_step_keeps [of t u] units_kept_trans [of s t u] by simp
qed

text \<open>Accounts payable stays reconciled whatever the stock side does.\<close>

lemma ap_inv_effect: "stock_effect s s' \<Longrightarrow> ap_inv a s \<Longrightarrow> ap_inv a s'"
  by (auto simp: stock_effect_def intro: ap_inv_run)

lemma ap_inv_erp: "erp_step s s' \<Longrightarrow> erp_inv s \<Longrightarrow> ap_inv a s \<Longrightarrow> ap_inv a s'"
  by (cases rule: erp_step.cases) (auto dest: ap_inv_finance stock_step_keeps intro: ap_inv_effect)

lemma ap_inv_erp_reachable:
  "erp_step\<^sup>*\<^sup>* s s' \<Longrightarrow> erp_inv s \<Longrightarrow> ap_inv a s \<Longrightarrow> erp_inv s' \<and> ap_inv a s'"
  by (induction rule: rtranclp_induct) (auto intro: ap_inv_erp dest: erp_step_keeps)

end
