(* ===== verification/Reporting.thy ===== *)
theory Reporting
  imports Erp
begin

text \<open>
  The financial statements (backend/app/modules/erp_reporting: repository.py, schemas.py,
  service.py): trial balance, profit and loss, balance sheet and gross margin, with the variants
  the Celery task caches. They only read. A join on a primary key is a search for a row with
  that key; a left join keeps a row without a partner. Rows whose order the query leaves open are in
  table order.
\<close>

section \<open>Joins\<close>

definition left_join :: "('l \<Rightarrow> 'r \<Rightarrow> bool) \<Rightarrow> 'l list \<Rightarrow> 'r list \<Rightarrow> ('l \<times> 'r option) list" where
  "left_join on_rows ls rs = concat (map (\<lambda>l. case filter (on_rows l) rs of
       [] \<Rightarrow> [(l, None)] | ms \<Rightarrow> map (\<lambda>r. (l, Some r)) ms) ls)"

text \<open>\<open>WHERE ... AND a.type = ...\<close> over lines joined with their account and entry, summed.\<close>

definition type_sum ::
  "(journal_line \<Rightarrow> rat) \<Rightarrow> (journal_entry \<Rightarrow> bool) \<Rightarrow> account_type \<Rightarrow> 'a ledger_scheme \<Rightarrow> rat" where
  "type_sum f P t s = sum_list (map f (filter (\<lambda>l.
       (\<exists>a\<in>set (accounts s). acc_id a = jl_account_id l \<and> acc_type a = t)
       \<and> (\<exists>e\<in>set (entries s). je_id e = jl_entry_id l \<and> je_status e = JE_POSTED \<and> P e))
     (journal_lines s)))"

section \<open>Trial balance\<close>

record report_tb_item =
  rt_account_code :: string
  rt_account_name :: string
  rt_account_type :: account_type
  rt_dr_total :: rat
  rt_cr_total :: rat
  rt_net_balance :: rat

text \<open>The conditions on the entry stand in the join, so they drop no line.\<close>

definition report_tb_row :: "date \<Rightarrow> 'a ledger_scheme \<Rightarrow> account \<Rightarrow> report_tb_item" where
  "report_tb_row as_of_date s a =
     (let rows = left_join (\<lambda>l e. je_id e = jl_entry_id l \<and> je_posting_date e \<le> as_of_date
                     \<and> je_status e = JE_POSTED)
                   (filter (\<lambda>l. jl_account_id l = acc_id a) (journal_lines s)) (entries s);
          dr_total = sum_list (map (\<lambda>(l, e). jl_dr l) rows);
          cr_total = sum_list (map (\<lambda>(l, e). jl_cr l) rows)
      in \<lparr>rt_account_code = acc_code a, rt_account_name = acc_name a, rt_account_type = acc_type a,
          rt_dr_total = dr_total, rt_cr_total = cr_total,
          rt_net_balance = (if acc_normal_side a = DEBIT then dr_total - cr_total
                            else cr_total - dr_total)\<rparr>)"

definition report_trial_balance :: "date \<Rightarrow> 'a ledger_scheme \<Rightarrow> report_tb_item list" where
  "report_trial_balance as_of_date s = map (report_tb_row as_of_date s) (list_active_accounts s)"

section \<open>Profit and loss\<close>

record pl_report =
  pl_revenue :: rat
  pl_cogs :: rat
  pl_gross_profit :: rat
  pl_opex :: rat
  pl_net_profit :: rat

definition in_fiscal_year :: "'a ledger_scheme \<Rightarrow> nat \<Rightarrow> journal_entry \<Rightarrow> bool" where
  "in_fiscal_year s fy e = (\<exists>p\<in>set (periods s). per_id p = je_period_id e \<and> per_fiscal_year p = fy)"

definition pl_amount :: "nat \<Rightarrow> 'a ledger_scheme \<Rightarrow> account_type \<Rightarrow> rat" where
  "pl_amount fy s t = type_sum (\<lambda>l. jl_cr l - jl_dr l) (in_fiscal_year s fy) t s"

definition profit_and_loss :: "nat \<Rightarrow> 'a ledger_scheme \<Rightarrow> pl_report" where
  "profit_and_loss fy s =
     (let revenue = pl_amount fy s REVENUE;
          cogs = - pl_amount fy s COGS;
          opex = - pl_amount fy s OPEX;
          gross_profit = revenue - cogs;
          net_profit = gross_profit - opex
      in \<lparr>pl_revenue = revenue, pl_cogs = cogs, pl_gross_profit = gross_profit,
          pl_opex = opex, pl_net_profit = net_profit\<rparr>)"

definition sync_profit_and_loss :: "nat \<Rightarrow> 'a ledger_scheme \<Rightarrow> pl_report" where
  "sync_profit_and_loss fy s =
     (let revenue = pl_amount fy s REVENUE;
          cogs = pl_amount fy s COGS;
          opex = pl_amount fy s OPEX
      in \<lparr>pl_revenue = revenue, pl_cogs = cogs, pl_gross_profit = revenue - \<bar>cogs\<bar>,
          pl_opex = opex, pl_net_profit = revenue - \<bar>cogs\<bar> - \<bar>opex\<bar>\<rparr>)"

section \<open>Balance sheet\<close>

record balance_sheet_report =
  bs_assets :: rat
  bs_liabilities :: rat
  bs_equity :: rat
  bs_retained_earnings :: rat
  bs_total_liabilities_and_equity :: rat

definition bs_amount :: "date \<Rightarrow> 'a ledger_scheme \<Rightarrow> account_type \<Rightarrow> rat" where
  "bs_amount as_of_date s t =
     type_sum (\<lambda>l. jl_dr l - jl_cr l) (\<lambda>e. je_posting_date e \<le> as_of_date) t s"

definition balance_sheet :: "date \<Rightarrow> 'a ledger_scheme \<Rightarrow> balance_sheet_report" where
  "balance_sheet as_of_date s =
     (let amounts = bs_amount as_of_date s;
          assets = amounts ASSET;
          liabilities = - amounts LIABILITY;
          equity = - amounts EQUITY;
          retained_earnings = - amounts REVENUE - amounts COGS - amounts OPEX
      in \<lparr>bs_assets = assets, bs_liabilities = liabilities, bs_equity = equity + retained_earnings,
          bs_retained_earnings = retained_earnings,
          bs_total_liabilities_and_equity = liabilities + equity + retained_earnings\<rparr>)"

text \<open>The variant of the task has no retained earnings; its result has four figures.\<close>

definition sync_balance_sheet :: "date \<Rightarrow> 'a ledger_scheme \<Rightarrow> rat \<times> rat \<times> rat \<times> rat" where
  "sync_balance_sheet as_of_date s =
     (let amounts = bs_amount as_of_date s;
          liabilities = \<bar>amounts LIABILITY\<bar>;
          equity = amounts EQUITY
      in (amounts ASSET, liabilities, equity, liabilities + equity))"

section \<open>Gross margin\<close>

text \<open>\<open>Decimal.quantize\<close> without a rounding mode: ties to even.\<close>

definition round_half_even :: "rat \<Rightarrow> int" where
  "round_half_even x =
     (let f = \<lfloor>x\<rfloor>; d = x - of_int f
      in if d < 1 / 2 then f else if d > 1 / 2 then f + 1 else if even f then f else f + 1)"

record margin_item =
  mi_entity_id :: "uuid option"
  mi_entity_name :: string
  mi_is_customer :: bool
  mi_revenue :: rat
  mi_cogs :: rat
  mi_margin :: rat
  mi_margin_pct :: rat

type_synonym margin_source = "journal_line \<times> account_type \<times> dispatch_line option"

text \<open>The joined rows: one for each line and each dispatch line of the entry's source.\<close>

definition margin_sources :: "nat \<Rightarrow> 'a fulfilment_scheme \<Rightarrow> margin_source list" where
  "margin_sources fy s =
     concat (map (\<lambda>l.
       case (get_account (jl_account_id l) s, get_entry (jl_entry_id l) s) of
         (Some a, Some e) \<Rightarrow>
           if je_status e = JE_POSTED \<and> in_fiscal_year s fy e \<and> acc_type a \<in> {REVENUE, COGS}
           then map (\<lambda>(l, dm). (l, acc_type a, dm))
                  (left_join (\<lambda>l dm. Some (dl_dispatch_id dm) = je_source_id e
                       \<and> je_source_type e = Some ''dispatch'') [l] (dispatch_lines s))
           else []
       | _ \<Rightarrow> []) (journal_lines s))"

definition source_item :: "margin_source \<Rightarrow> uuid option" where
  "source_item row = (case row of (l, t, dm) \<Rightarrow> Option.bind dm dl_item_id)"

definition margin_key :: "'a fulfilment_scheme \<Rightarrow> margin_source \<Rightarrow> uuid option \<times> string option \<times> bool" where
  "margin_key s row = (case row of (l, t, dm) \<Rightarrow>
     (case jl_party_id l of Some p \<Rightarrow> Some p | None \<Rightarrow> source_item row,
      if jl_party_type l = Some ''customer''
      then Option.bind (Option.bind (jl_party_id l) (\<lambda>p. get_contact p s)) c_name
      else map_option it_name (Option.bind (source_item row) (\<lambda>i. get_item i s)),
      jl_party_type l = Some ''customer''))"

definition margin_row ::
  "'a fulfilment_scheme \<Rightarrow> margin_source list \<Rightarrow> uuid option \<times> string option \<times> bool \<Rightarrow> margin_item" where
  "margin_row s rows k =
     (let group = filter (\<lambda>r. margin_key s r = k) rows;
          revenue = sum_list (map (\<lambda>(l, t, dm). if t = REVENUE then jl_cr l - jl_dr l else 0) group);
          cogs = sum_list (map (\<lambda>(l, t, dm). if t = COGS then jl_dr l - jl_cr l else 0) group);
          name = (case fst (snd k) of None \<Rightarrow> '''' | Some n \<Rightarrow> n)
      in \<lparr>mi_entity_id = fst k, mi_entity_name = (if name = [] then ''Unknown'' else name),
          mi_is_customer = snd (snd k), mi_revenue = revenue, mi_cogs = cogs,
          mi_margin = revenue - cogs,
          mi_margin_pct = (if revenue \<noteq> 0
             then of_int (round_half_even ((revenue - cogs) / revenue * 100 * 100)) / 100 else 0)\<rparr>)"

definition gross_margin :: "nat \<Rightarrow> 'a fulfilment_scheme \<Rightarrow> margin_item list" where
  "gross_margin fy s =
     (let rows = filter (\<lambda>r. jl_party_id (fst r) \<noteq> None \<or> source_item r \<noteq> None) (margin_sources fy s)
      in sort_key (\<lambda>r. - mi_revenue r) (map (margin_row s rows) (remdups (map (margin_key s) rows))))"

record margin_report =
  mr_items :: "margin_item list"
  mr_total_revenue :: rat
  mr_total_cogs :: rat
  mr_total_margin :: rat
  mr_overall_margin_pct :: rat

definition build_margin :: "nat \<Rightarrow> 'a fulfilment_scheme \<Rightarrow> margin_report" where
  "build_margin fy s =
     (let items = gross_margin fy s;
          total_revenue = money (sum_list (map mi_revenue items));
          total_cogs = money (sum_list (map mi_cogs items));
          total_margin = money (total_revenue - total_cogs)
      in \<lparr>mr_items = items, mr_total_revenue = total_revenue, mr_total_cogs = total_cogs,
          mr_total_margin = total_margin,
          mr_overall_margin_pct =
            money (if total_revenue \<noteq> 0 then total_margin / total_revenue * 100 else 0)\<rparr>)"

lemmas reporting_evals = left_join_def type_sum_def report_tb_row_def report_trial_balance_def
  in_fiscal_year_def pl_amount_def profit_and_loss_def sync_profit_and_loss_def bs_amount_def
  balance_sheet_def sync_balance_sheet_def round_half_even_def margin_sources_def source_item_def
  margin_key_def margin_row_def gross_margin_def build_margin_def

declare reporting_evals [evals]

section \<open>Joins on a key\<close>

lemma sum_list_zero: "\<forall>x\<in>set xs. f x = (0 :: 'm :: comm_monoid_add) \<Longrightarrow> sum_list (map f xs) = 0"
  by (induction xs) auto

lemma left_join_key:
  assumes "distinct (map key rs)"
  shows "left_join (\<lambda>l r. key r = g l \<and> P r) ls rs
    = map (\<lambda>l. (l, find (\<lambda>r. key r = g l \<and> P r) rs)) ls"
proof -
  have one: "filter (\<lambda>r. key r = k \<and> P r) rs
      = (case find (\<lambda>r. key r = k \<and> P r) rs of None \<Rightarrow> [] | Some r \<Rightarrow> [r])" for k
    using assms
  proof (induction rs)
    case (Cons x xs)
    have "filter (\<lambda>r. key r = k \<and> P r) xs = []" if "key x = k"
      using Cons.prems that by (force simp: filter_empty_conv image_iff)
    with Cons show ?case by auto
  qed simp
  show ?thesis
    by (induction ls) (auto simp: left_join_def one split: option.splits)
qed

lemma entry_ex_iff:
  "ledger_wf s \<Longrightarrow> (\<exists>e\<in>set (entries s). je_id e = i \<and> P e) = (\<exists>e. get_entry i s = Some e \<and> P e)"
  using get_entry_mem [of s] by (force simp: get_entry_def dest: get_by_Some)

text \<open>Every line is on one account, so the types partition the lines.\<close>

lemma type_sums_partition:
  assumes wf: "ledger_wf s"
  shows "type_sum f P ASSET s + type_sum f P LIABILITY s + type_sum f P EQUITY s
      + type_sum f P REVENUE s + type_sum f P COGS s + type_sum f P OPEX s
    = sum_list (map f (filter (\<lambda>l. \<exists>e. get_entry (jl_entry_id l) s = Some e \<and> je_status e = JE_POSTED \<and> P e)
        (journal_lines s)))"
proof -
  let ?Q = "\<lambda>l. \<exists>e\<in>set (entries s). je_id e = jl_entry_id l \<and> je_status e = JE_POSTED \<and> P e"
  let ?T = "\<lambda>l t. \<exists>a\<in>set (accounts s). acc_id a = jl_account_id l \<and> acc_type a = t"
  have one: "(if ?T l ASSET then f l else 0) + (if ?T l LIABILITY then f l else 0)
      + (if ?T l EQUITY then f l else 0) + (if ?T l REVENUE then f l else 0)
      + (if ?T l COGS then f l else 0) + (if ?T l OPEX then f l else 0) = f l"
    if l: "jl_account_id l \<in> acc_id ` set (accounts s)" for l
  proof -
    from l obtain a where a: "a \<in> set (accounts s)" "acc_id a = jl_account_id l" by force
    have "b = a" if "b \<in> set (accounts s)" "acc_id b = jl_account_id l" for b
      using get_by_mem [of acc_id "accounts s"] wf a that by (metis ledger_wf_def option.inject)
    then have "?T l t = (acc_type a = t)" for t using a by blast
    then show ?thesis by (cases "acc_type a") simp_all
  qed
  define g where "g t l = (if ?T l t \<and> ?Q l then f l else 0)" for t l
  have sums: "type_sum f P t s = sum_list (map (g t) (journal_lines s))" for t
    by (simp add: type_sum_def sum_list_map_filter' g_def [abs_def])
  have "g ASSET l + g LIABILITY l + g EQUITY l + g REVENUE l + g COGS l + g OPEX l
      = (if ?Q l then f l else 0)" if "l \<in> set (journal_lines s)" for l
  proof (cases "?Q l")
    case True
    then have "g t l = (if ?T l t then f l else 0)" for t by (simp add: g_def)
    then show ?thesis using one [of l] wf that True by (simp add: ledger_wf_def)
  next
    case False
    then have "g t l = 0" for t unfolding g_def by (simp only: if_False simp_thms)
    then show ?thesis unfolding if_not_P [OF False] by simp
  qed
  then have "sum_list (map (\<lambda>l. g ASSET l + g LIABILITY l + g EQUITY l + g REVENUE l + g COGS l + g OPEX l)
      (journal_lines s)) = sum_list (map (\<lambda>l. if ?Q l then f l else 0) (journal_lines s))"
    by (intro arg_cong [where f = sum_list] map_cong) simp_all
  then show ?thesis
    unfolding entry_ex_iff [OF wf, symmetric] by (simp add: sums sum_list_addf sum_list_map_filter')
qed

end
