(* ===== verification/ErpProps.thy ===== *)
theory ErpProps
  imports Erp
begin

text \<open>
  The properties of the stock side of the ERP, with a small sample state: a bulk and a serialized
  item, one warehouse with one location, an issued purchase order, a draft receipt for it and
  a draft dispatch.
\<close>

section \<open>Sample state\<close>

definition sample_item :: "uuid \<Rightarrow> item_nature \<Rightarrow> item" where
  "sample_item i n = \<lparr>it_id = i, it_sku = ''SKU'' @ dec i, it_name = ''Item'', it_category = None,
     it_nature = n, it_valuation_method = MOVING_AVG, it_reorder_level = 0, it_reorder_qty = 0,
     it_default_purchase_price = 10, it_default_sale_price = 15, it_inventory_account_id = 4,
     it_cogs_account_id = 15, it_revenue_account_id = 12, it_is_sales_item = True,
     it_is_purchase_item = True, it_is_active = True, it_safety_stock = None\<rparr>"

definition sample_balance :: "rat \<Rightarrow> rat \<Rightarrow> stock_balance" where
  "sample_balance q c = \<lparr>sb_item_id = 70, sb_location_id = 81, sb_qty = q, sb_avg_cost = c\<rparr>"

definition sample_unit :: "uuid \<Rightarrow> string \<Rightarrow> rat \<Rightarrow> stock_unit" where
  "sample_unit i sn c = \<lparr>su_id = i, su_item_id = 71, su_serial_no = sn, su_imei = None,
     su_status = IN_STOCK, su_location_id = None, su_purchase_cost = c, su_grn_id = Some 90,
     su_sales_dispatch_id = None\<rparr>"

definition sample_movement :: "uuid \<Rightarrow> uuid option \<Rightarrow> rat \<Rightarrow> rat \<Rightarrow> stock_ledger_entry" where
  "sample_movement i u q v = \<lparr>sle_posting_date = 738950, sle_item_id = i, sle_warehouse_id = Some 80,
     sle_stock_unit_id = u, sle_voucher_type = SV_GRN, sle_voucher_id = 90, sle_qty_change = q,
     sle_valuation_rate = v, sle_stock_value_change = v, sle_qty_after = q, sle_is_cancelled = False\<rparr>"

definition sample_po_line :: "uuid \<Rightarrow> rat \<Rightarrow> purchase_order_line" where
  "sample_po_line i q = \<lparr>pol_po_id = 91, pol_item_id = Some i, pol_qty = q, pol_unit_cost = 10,
     pol_line_total = 10 * q\<rparr>"

definition sample_grn_line :: "uuid \<Rightarrow> string option \<Rightarrow> rat \<Rightarrow> rat \<Rightarrow> grn_line" where
  "sample_grn_line i sn q c = \<lparr>gl_grn_id = 92, gl_item_id = Some i, gl_serial_no = sn, gl_imei = None,
     gl_qty_received = q, gl_unit_cost = c, gl_line_total = q * c\<rparr>"

definition sample_dispatch_line :: "uuid option \<Rightarrow> uuid option \<Rightarrow> rat \<Rightarrow> dispatch_line" where
  "sample_dispatch_line u i q = \<lparr>dl_dispatch_id = 94, dl_stock_unit_id = u, dl_item_id = i,
     dl_qty = q, dl_unit_cost = 0\<rparr>"

text \<open>The stock on hand is five of the bulk item at 8 and one unit of the serialized item at 300.\<close>

definition erp_state ::
  "purchase_order_line list \<Rightarrow> grn_line list \<Rightarrow> dispatch_line list \<Rightarrow> fulfilment" where
  "erp_state pls gls dls = \<lparr>next_id = 200, today = today sample_books, contacts = contacts sample_books,
     sequences = [(''supplier_bill'', 2024) \<mapsto> 4], audit_log = [],
     accounts = accounts sample_books, periods = periods sample_books, entries = [],
     journal_lines = [], fy_start_month = Some 1, invoices = [], invoice_lines = [],
     customer_payments = [], allocations = [], credit_notes = [], bills = [], bill_lines = [],
     supplier_payments = [], bill_allocations = [], debit_notes = [],
     items = [sample_item 70 BULK, sample_item 71 SERIALIZED],
     warehouses = [\<lparr>wh_id = 80, wh_name = ''Main'', wh_code = ''W1'', wh_is_active = True\<rparr>],
     locations = [\<lparr>loc_id = 81, loc_warehouse_id = 80, loc_code = ''A1'', loc_is_active = True\<rparr>],
     stock_units = [sample_unit 75 ''SN1'' 300], stock_balances = [sample_balance 5 8],
     stock_ledger = [sample_movement 70 None 5 40, sample_movement 71 (Some 75) 1 300], serial_nos = [],
     db_choice = (\<lambda>_. 0),
     purchase_orders = [\<lparr>po_id = 91, po_no = doc_no ''PO'' 2024 1, po_supplier_id = 61,
       po_currency_code = ''AED'', po_status = PO_ISSUED, po_order_date = 738940,
       po_expected_date = None, po_created_year = 2024\<rparr>],
     po_lines = pls,
     grns = [\<lparr>grn_id = 92, grn_no = doc_no ''GRN'' 2024 1, grn_po_id = Some 91, grn_warehouse_id = 80,
       grn_receipt_date = 738955, grn_status = GRN_DRAFT, grn_je_id = None, grn_created_year = 2024\<rparr>],
     grn_lines = gls, sales_orders = [], so_lines = [],
     dispatches = [\<lparr>dp_id = 94, dp_no = doc_no ''DPN'' 2024 1, dp_so_id = None,
       dp_dispatch_date = 738956, dp_status = DP_DRAFT, dp_je_id = None, dp_created_year = 2024\<rparr>],
     dispatch_lines = dls\<rparr>"

declare sample_item_def [evals] sample_balance_def [evals] sample_unit_def [evals]
  sample_movement_def [evals] sample_po_line_def [evals] sample_grn_line_def [evals]
  sample_dispatch_line_def [evals] erp_state_def [evals]

lemma quantized_2_numeral [simp]: "quantized 2 (numeral n)"
proof -
  have "(numeral n :: rat) * 10 ^ 2 = of_int (numeral n * 100)" by simp
  then show ?thesis unfolding quantized_def by (metis Ints_of_int)
qed

lemma erp_state_inv:
  assumes "\<forall>l\<in>set pls. pol_po_id l = 91"
    "\<forall>l\<in>set gls. gl_grn_id l = 92 \<and> quantized 2 (gl_qty_received l)"
    "\<forall>l\<in>set dls. dl_dispatch_id l = 94 \<and> quantized 2 (dl_qty l)"
  shows "erp_inv (erp_state pls gls dls)"
  using assms
  by (simp add: erp_inv_def stock_inv_def stock_defs erp_defs erp_state_def sample_unit_def
      sample_balance_def sample_movement_def unit_ok_def bal_key_def counted_ok_def image_iff keyed_below_def)

lemma erp_state_books:
  "ledger_inv (erp_state pls gls dls)" "numbers_bounded (erp_state pls gls dls)"
  "account_net c (erp_state pls gls dls) = 0"
  by (simp_all add: ledger_defs erp_state_def numbers_bounded_def account_net_lines sample_books_def sample_account_def)

section \<open>Units and the stock ledger\<close>

text \<open>C4: The life of a serialized unit, over any sequence of operations of the whole ERP: a unit is never
  deleted and its item, serial number, cost and receipt never change. From IN_STOCK it is sold by
  one dispatch or put in transit, and after that nothing changes it any more. So no unit is
  ever dispatched twice; and a transferred unit, which no operation receives, stays in transit for
  ever and can neither be dispatched nor moved again.\<close>

theorem unit_life_cycle:
  assumes "erp_step\<^sup>*\<^sup>* s s'" and "erp_inv s" and "get_unit j s = Some u"
  shows "\<exists>u'. get_unit j s' = Some u' \<and> (u' = u \<or> su_status u = IN_STOCK
    \<and> ((\<exists>d. u' = u\<lparr>su_status := SOLD, su_sales_dispatch_id := Some d\<rparr>)
       \<or> (\<exists>l. u' = u\<lparr>su_location_id := Some l, su_status := IN_TRANSIT\<rparr>)))"
  using erp_reachable [OF assms(1,2)] assms(3) by (simp add: units_kept_def unit_succ_def)

text \<open>The unit in stock is dispatched.\<close>

definition unit_dispatch :: fulfilment where
  "unit_dispatch = erp_state [] [] [sample_dispatch_line (Some 75) None 0]"

lemma unit_dispatch_eval: "\<not> isl (dispatch_confirm 94 7 unit_dispatch)"
  by (simp add: unit_dispatch_def evals Let_def cong: ebind_weak_cong)

lemma unit_dispatch_inv: "erp_inv unit_dispatch"
  unfolding unit_dispatch_def by (rule erp_state_inv) (simp_all add: sample_dispatch_line_def)

theorem unit_life_cycle_witness:
  "\<exists>s'. dispatch_confirm 94 7 unit_dispatch = Inr s' \<and> (\<exists>u. get_unit 75 s' = Some u \<and> su_serial_no u = ''SN1'')"
proof -
  obtain s' where r: "dispatch_confirm 94 7 unit_dispatch = Inr s'"
    using not_isl_Inr [OF unit_dispatch_eval] by blast
  then have "erp_step\<^sup>*\<^sup>* unit_dispatch s'" by (blast intro: erp_step.stock stock_step.dispatch_confirm)
  moreover have "get_unit 75 unit_dispatch = Some (sample_unit 75 ''SN1'' 300)"
    by (simp add: unit_dispatch_def evals)
  ultimately have "\<exists>u. get_unit 75 s' = Some u \<and> su_serial_no u = ''SN1''"
    using unit_life_cycle [OF _ unit_dispatch_inv] by (force simp: sample_unit_def)
  with r show ?thesis by blast
qed

text \<open>C3: The stock ledger accounts for the stock, in every state the ERP reaches: for every item the
  quantities on hand, over all locations, add up to its bulk movements, and its units that are not
  sold are as many as the movements of its units add up to; serial numbers are unique, there is
  one balance per item and location, and a unit is marked sold exactly when it names its dispatch.\<close>

theorem stock_ledger_tallies:
  assumes "erp_step\<^sup>*\<^sup>* s s'" and "erp_inv s"
  shows "on_hand i s' = moved i False s' \<and> unsold i s' = moved i True s'
    \<and> distinct (map su_serial_no (stock_units s')) \<and> distinct (map bal_key (stock_balances s'))
    \<and> (\<forall>u\<in>set (stock_units s'). (su_status u = SOLD) = (su_sales_dispatch_id u \<noteq> None))"
proof -
  have inv: "stock_inv s'" using erp_reachable [OF assms] by (simp add: erp_inv_def)
  have "(su_status u = SOLD) = (su_sales_dispatch_id u \<noteq> None)" if "u \<in> set (stock_units s')" for u
  proof -
    have "unit_ok u" using inv that by (simp add: stock_inv_def stock_ok_def)
    then show ?thesis by (cases "su_status u") (auto simp: unit_ok_def)
  qed
  moreover have "tally i s' = 0" "unit_tally i s' = 0" using inv by (simp_all add: stock_inv_def)
  ultimately show ?thesis using inv by (simp add: stock_inv_def stock_ok_def tally_def unit_tally_def)
qed

theorem stock_ledger_tallies_witness:
  "\<exists>s'. dispatch_confirm 94 7 unit_dispatch = Inr s' \<and> unsold 71 s' = moved 71 True s'"
proof -
  obtain s' where r: "dispatch_confirm 94 7 unit_dispatch = Inr s'"
    using not_isl_Inr [OF unit_dispatch_eval] by blast
  then have "erp_step\<^sup>*\<^sup>* unit_dispatch s'" by (blast intro: erp_step.stock stock_step.dispatch_confirm)
  with stock_ledger_tallies [OF this unit_dispatch_inv] r show ?thesis by blast
qed

section \<open>What receipts and dispatches post\<close>

lemma maybe_receive_po_net: "account_net c (maybe_receive_po p s) = account_net c s"
  using maybe_receive_po_cases [of p s] by (auto intro!: account_net_frame simp: upd_po_def)

lemma maybe_mark_so_ledger: "stock_ledger (maybe_mark_so_dispatched x s) = stock_ledger s"
  using maybe_mark_so_cases [of x s] by (auto simp: upd_so_def)

lemma maybe_mark_so_net: "account_net c (maybe_mark_so_dispatched x s) = account_net c s"
  using maybe_mark_so_cases [of x s] by (auto intro!: account_net_frame simp: upd_so_def)

text \<open>C5: Confirming a goods receipt posts its value: with accounts 1200 and 2200 usable and a period open on the
  receipt date, inventory (1200) grows and the receipt accrual (2200) is credited by the sum of
  quantity times unit cost over the lines that name an item, each rounded to the money
  scale; no other balance changes.\<close>

theorem grn_confirm_posts:
  assumes r: "grn_confirm i actor s = Inr s'" and g: "get_grn i s = Some g"
    and inv: "erp_inv s" "ledger_wf s" "numbers_bounded s"
    and acc: "account_ready ''1200'' s a" "account_ready ''2200'' s b"
    and p: "get_open_period (grn_receipt_date g) s = Inr (Some q)"
    and x: "x = sum_list (map receipt_value (lines_of_grn i s))" "x \<noteq> 0"
  shows "account_net (acc_id a) s' = account_net (acc_id a) s + x
    \<and> account_net (acc_id b) s' = account_net (acc_id b) s - x
    \<and> (\<forall>c. c \<noteq> acc_id a \<longrightarrow> c \<noteq> acc_id b \<longrightarrow> account_net c s' = account_net c s)"
proof -
  from r obtain g' t s1 s2 where g': "get_grn i s = Some g'" "grn_id g' = i" "grn_status g' = GRN_DRAFT"
    and 1: "foldE (grn_confirm_line g') (lines_of_grn i s) (0, s) = Inr (t, s1)"
    and 2: "emit_event_async (GrnConfirmed i t (grn_receipt_date g') (Some actor))
       (upd_grn i (\<lambda>g. g\<lparr>grn_status := GRN_CONFIRMED\<rparr>) s1) = Inr s2"
    and s': "s' = (case grn_po_id g' of None \<Rightarrow> s2 | Some p \<Rightarrow> maybe_receive_po p s2)"
    by (rule grn_confirm_Inr)
  have "\<forall>l\<in>set (lines_of_grn i s). quantized 2 (gl_qty_received l)"
    using inv(1) by (simp add: erp_inv_def lines_ok_def lines_of_grn_def)
  from grn_lines_effect [OF 1 this] have t: "t = x" and only: "stock_only s s1" using x by simp_all
  let ?u = "upd_grn i (\<lambda>g. g\<lparr>grn_status := GRN_CONFIRMED\<rparr>) s1"
  have same: "ledger_same s ?u" "sequences ?u = sequences s"
    using only by (auto simp: stock_only_def ledger_same_def upd_grn_def)
  have "is_money x" unfolding x(1) by (auto intro!: quantized_sum_list simp: receipt_value_def)
  then have am: "bridge_amount (GrnConfirmed i t (grn_receipt_date g') (Some actor)) = x"
    by (simp add: t money_is_money)
  have "account_net c s' = account_net c s2" for c
    by (simp add: s' maybe_receive_po_net split: option.splits)
  with emit_after [OF same 2 inv(2,3) _ acc, where q = q] am p x(2) g g'(1) show ?thesis by simp
qed

text \<open>C6: Confirming a dispatch posts the cost of what leaves: with accounts 5100 and 1200 usable and a
  period open on the dispatch date, the cost of goods sold (5100) grows and inventory (1200) is
  credited by exactly the value the stock ledger writes off in the same operation; no other
  balance changes.\<close>

theorem dispatch_confirm_posts:
  assumes r: "dispatch_confirm i actor s = Inr s'" and d: "get_dispatch i s = Some d"
    and inv: "erp_inv s" "ledger_wf s" "numbers_bounded s"
    and acc: "account_ready ''5100'' s a" "account_ready ''1200'' s b"
    and p: "get_open_period (dp_dispatch_date d) s = Inr (Some q)"
    and x: "x = stock_booked s - stock_booked s'" "x \<noteq> 0"
  shows "account_net (acc_id a) s' = account_net (acc_id a) s + x
    \<and> account_net (acc_id b) s' = account_net (acc_id b) s - x
    \<and> (\<forall>c. c \<noteq> acc_id a \<longrightarrow> c \<noteq> acc_id b \<longrightarrow> account_net c s' = account_net c s)"
proof -
  from r obtain d' t s1 s2 where d': "get_dispatch i s = Some d'" "dp_id d' = i" "dp_status d' = DP_DRAFT"
    and 1: "foldE (dispatch_confirm_line d' (stock_balances s)) (lines_of_dispatch i s) (0, s) = Inr (t, s1)"
    and 2: "emit_event_async (UnitDispatched i t (dp_dispatch_date d') (Some actor))
       (upd_dispatch i (\<lambda>d. d\<lparr>dp_status := DP_CONFIRMED\<rparr>) s1) = Inr s2"
    and s': "s' = (case dp_so_id d' of None \<Rightarrow> s2 | Some x \<Rightarrow> maybe_mark_so_dispatched x s2)"
    by (rule dispatch_confirm_Inr)
  have "\<forall>l\<in>set (lines_of_dispatch i s). quantized 2 (dl_qty l)" "stock_inv s"
    using inv(1) by (simp_all add: erp_inv_def lines_ok_def lines_of_dispatch_def)
  with dispatch_lines_effect [OF 1] have only: "stock_only s s1" and t: "is_money t"
    "stock_booked s1 = stock_booked s - t" by simp_all
  let ?u = "upd_dispatch i (\<lambda>d. d\<lparr>dp_status := DP_CONFIRMED\<rparr>) s1"
  have same: "ledger_same s ?u" "sequences ?u = sequences s"
    using only by (auto simp: stock_only_def ledger_same_def upd_dispatch_def)
  have "stock_ledger s' = stock_ledger s2"
    by (simp add: s' maybe_mark_so_ledger split: option.splits)
  then have "stock_booked s' = stock_booked s1"
    using emit_inventory(3) [OF 2] by (simp add: stock_booked_def upd_dispatch_def)
  then have tx: "t = x" using t(2) x(1) by simp
  have am: "bridge_amount (UnitDispatched i t (dp_dispatch_date d') (Some actor)) = x"
    using t(1) by (simp add: tx money_is_money)
  have "account_net c s' = account_net c s2" for c
    by (simp add: s' maybe_mark_so_net split: option.splits)
  with emit_after [OF same 2 inv(2,3) _ acc, where q = q] am p x(2) d d'(1) show ?thesis by simp
qed

lemma erp_state_ready:
  "account_ready ''1200'' (erp_state pls gls dls) (sample_account 4 ''1200'' ASSET True)"
  "account_ready ''2200'' (erp_state pls gls dls) (sample_account 7 ''2200'' LIABILITY True)"
  "account_ready ''5100'' (erp_state pls gls dls) (sample_account 15 ''5100'' COGS False)"
  "account_ready ''5200'' (erp_state pls gls dls) (sample_account 16 ''5200'' COGS False)"
  "get_open_period 738955 (erp_state pls gls dls) = Inr (Some sample_period)"
  "get_open_period 738956 (erp_state pls gls dls) = Inr (Some sample_period)"
  by (simp_all add: account_ready_def evals)

theorem dispatch_confirm_posts_witness:
  "\<exists>s'. dispatch_confirm 94 7 unit_dispatch = Inr s' \<and> account_net 15 s' = 300 \<and> account_net 4 s' = - 300"
proof -
  have s: "unit_dispatch = erp_state [] [] [sample_dispatch_line (Some 75) None 0]"
    by (simp add: unit_dispatch_def)
  obtain s' where r: "dispatch_confirm 94 7 unit_dispatch = Inr s'"
    using not_isl_Inr [OF unit_dispatch_eval] by blast
  obtain d where d: "get_dispatch 94 unit_dispatch = Some d" "dp_dispatch_date d = 738956"
    by (simp add: s evals)
  have "stock_booked (projr (dispatch_confirm 94 7 unit_dispatch)) = 40"
    by (simp add: s stock_booked_def evals Let_def cong: ebind_weak_cong)
  then have "stock_booked s' = 40" by (simp add: r)
  moreover have "stock_booked unit_dispatch = 340" by (simp add: stock_booked_def s evals)
  ultimately have x: "300 = stock_booked unit_dispatch - stock_booked s'" by simp
  have books: "ledger_wf unit_dispatch" "numbers_bounded unit_dispatch"
    using erp_state_books by (simp_all add: s ledger_inv_def)
  have rd: "account_ready ''5100'' unit_dispatch (sample_account 15 ''5100'' COGS False)"
    "account_ready ''1200'' unit_dispatch (sample_account 4 ''1200'' ASSET True)"
    "get_open_period (dp_dispatch_date d) unit_dispatch = Inr (Some sample_period)"
    unfolding d(2) s by (rule erp_state_ready)+
  from dispatch_confirm_posts [OF r d(1) unit_dispatch_inv books rd x]
  show ?thesis using r erp_state_books(3) by (simp add: s sample_account_def)
qed

text \<open>Five cables at 10 and five phones at 100 of which one serial number is recorded.\<close>

definition sample_receipt :: fulfilment where
  "sample_receipt = erp_state [sample_po_line 70 5, sample_po_line 70 5]
     [sample_grn_line 70 None 5 10, sample_grn_line 71 (Some ''SN7'') 5 100] []"

lemma sample_receipt_eval: "\<not> isl (grn_confirm 92 7 sample_receipt)"
  by (simp add: sample_receipt_def evals Let_def cong: ebind_weak_cong)

lemma sample_receipt_inv: "erp_inv sample_receipt"
  unfolding sample_receipt_def by (rule erp_state_inv) (simp_all add: sample_grn_line_def sample_po_line_def)

theorem grn_confirm_posts_witness:
  "\<exists>s'. grn_confirm 92 7 sample_receipt = Inr s' \<and> account_net 4 s' = 550 \<and> account_net 7 s' = - 550"
proof -
  note s = sample_receipt_def
  obtain s' where r: "grn_confirm 92 7 sample_receipt = Inr s'"
    using not_isl_Inr [OF sample_receipt_eval] by blast
  obtain g where g: "get_grn 92 sample_receipt = Some g" "grn_receipt_date g = 738955"
    by (simp add: s evals)
  have x: "550 = sum_list (map receipt_value (lines_of_grn 92 sample_receipt))"
    by (simp add: s receipt_value_def evals)
  have books: "ledger_wf sample_receipt" "numbers_bounded sample_receipt"
    using erp_state_books by (simp_all add: s ledger_inv_def)
  have rd: "account_ready ''1200'' sample_receipt (sample_account 4 ''1200'' ASSET True)"
    "account_ready ''2200'' sample_receipt (sample_account 7 ''2200'' LIABILITY True)"
    "get_open_period (grn_receipt_date g) sample_receipt = Inr (Some sample_period)"
    unfolding g(2) s by (rule erp_state_ready)+
  from grn_confirm_posts [OF r g(1) sample_receipt_inv books rd x]
  show ?thesis using r erp_state_books(3) by (simp add: s sample_account_def)
qed

section \<open>Where stock and books part\<close>

text \<open>The confirmation of a goods receipt values a serialized line by its quantity but creates one unit
  per serial number, and marks a purchase order received by counting what was received of an
  item against every line of that item. Here five phones at 100 arrive with one serial number, and
  five of the ten cables ordered on two lines: inventory in the books grows by 550, the stock by 150,
  and the order is closed as received.\<close>

theorem receipt_overstates_stock:
  "erp_inv sample_receipt \<and> (\<exists>s'. grn_confirm 92 7 sample_receipt = Inr s'
     \<and> gl_inventory_balance s' - gl_inventory_balance sample_receipt = 550
     \<and> sv_total_value (compute_stock_value s') - sv_total_value (compute_stock_value sample_receipt) = 150
     \<and> map_option po_status (get_po 91 s') = Some PO_RECEIVED
     \<and> received_qty 91 70 s' = 5 \<and> sum_list (map pol_qty (lines_of_po 91 s')) = 10)"
proof -
  let ?s' = "projr (grn_confirm 92 7 sample_receipt)"
  have "gl_inventory_balance ?s' = 550" "sv_total_value (compute_stock_value ?s') = 490"
    "map_option po_status (get_po 91 ?s') = Some PO_RECEIVED"
    "received_qty 91 70 ?s' = 5" "sum_list (map pol_qty (lines_of_po 91 ?s')) = 10"
    "gl_inventory_balance sample_receipt = 0" "sv_total_value (compute_stock_value sample_receipt) = 340"
    by (simp_all add: sample_receipt_def evals Let_def cong: ebind_weak_cong)
  with not_isl_Inr [OF sample_receipt_eval] sample_receipt_inv show ?thesis
    by (intro conjI exI [of _ ?s']) simp_all
qed

definition double_dispatch :: fulfilment where
  "double_dispatch = erp_state [] []
     [sample_dispatch_line None (Some 70) 3, sample_dispatch_line None (Some 70) 3]"

text \<open>A dispatch can drive stock below zero: every bulk line is checked against the quantity the
  database had when the confirmation began, so two lines of three are both taken from the five on
  hand, and the balance ends at minus one.\<close>

theorem dispatch_goes_negative:
  "erp_inv double_dispatch \<and> map_option sb_qty (get_balance 70 81 double_dispatch) = Some 5
   \<and> (\<exists>s'. dispatch_confirm 94 7 double_dispatch = Inr s' \<and> erp_inv s'
         \<and> map_option sb_qty (get_balance 70 81 s') = Some (- 1))"
proof -
  let ?s' = "projr (dispatch_confirm 94 7 double_dispatch)"
  have inv: "erp_inv double_dispatch"
    unfolding double_dispatch_def by (rule erp_state_inv) (simp_all add: sample_dispatch_line_def)
  have "\<not> isl (dispatch_confirm 94 7 double_dispatch)"
    "map_option sb_qty (get_balance 70 81 ?s') = Some (- 1)"
    "map_option sb_qty (get_balance 70 81 double_dispatch) = Some 5"
    by (simp_all add: double_dispatch_def evals Let_def cong: ebind_weak_cong)
  moreover from this(1) have r: "dispatch_confirm 94 7 double_dispatch = Inr ?s'" by (rule not_isl_Inr)
  moreover have "erp_inv ?s'"
    by (rule conjunct2 [OF stock_step_keeps [OF stock_step.dispatch_confirm [OF r] inv]])
  ultimately show ?thesis using inv by blast
qed

section \<open>Adjustments\<close>

lemma get_balance_after_upsert:
  assumes u: "upsert_balance i l d c s = Inr s'" and ok: "stock_ok s" and d: "quantized 2 d"
  shows "\<exists>b. get_balance i l s' = Some b
    \<and> sb_qty b = (case get_balance i l s of None \<Rightarrow> 0 | Some b \<Rightarrow> sb_qty b) + d"
    and "(j, k) \<noteq> (i, l) \<Longrightarrow> get_balance j k s' = get_balance j k s"
proof -
  have q: "qty d = d" using d by (simp add: qty_def quantize_quantized)
  have "qty (sb_qty b + d) = sb_qty b + d" if "get_balance i l s = Some b" for b
    using that ok d by (auto simp: get_balance_def qty_def stock_ok_def quantize_quantized quantized_add
        dest!: get_by_Some)
  then show "\<exists>b. get_balance i l s' = Some b
      \<and> sb_qty b = (case get_balance i l s of None \<Rightarrow> 0 | Some b \<Rightarrow> sb_qty b) + d"
    using u q by (cases "get_balance i l s")
      (auto simp: upsert_balance_def get_balance_def upd_balance_def get_by_append get_by_upd_by
        dest!: create_balance_Inr)
  show "(j, k) \<noteq> (i, l) \<Longrightarrow> get_balance j k s' = get_balance j k s"
    using u by (cases "get_balance i l s")
      (auto simp: upsert_balance_def get_balance_def upd_balance_def get_by_append get_by_upd_by
        dest!: create_balance_Inr split: option.splits)
qed

text \<open>A stock adjustment that succeeds changes the balance of its item and location by exactly the
  requested quantity (at two decimals), never to below zero, and no other balance; serialized items
  are refused.\<close>

theorem adjust_stock_exact:
  assumes "adjust_stock r a s = Inr (x, s')" and "erp_inv s"
  shows "(\<exists>b. get_balance (sar_item_id r) (sar_location_id r) s' = Some b \<and> 0 \<le> sb_qty b
      \<and> sb_qty b = (case get_balance (sar_item_id r) (sar_location_id r) s of None \<Rightarrow> 0 | Some b \<Rightarrow> sb_qty b)
          + qty (sar_qty_adjustment r))
    \<and> (\<forall>j k. (j, k) \<noteq> (sar_item_id r, sar_location_id r) \<longrightarrow> get_balance j k s' = get_balance j k s)
    \<and> map_option it_nature (get_item (sar_item_id r) s) = Some BULK"
proof -
  from assms(1) obtain it avg e s1 s2 where it: "get_item (sar_item_id r) s = Some it" "it_nature it = BULK"
    and "avg = (case get_balance (sar_item_id r) (sar_location_id r) s of
        None \<Rightarrow> money (it_default_purchase_price it) | Some b \<Rightarrow> sb_avg_cost b)"
    and nn: "0 \<le> (case get_balance (sar_item_id r) (sar_location_id r) s of None \<Rightarrow> 0 | Some b \<Rightarrow> sb_qty b)
       + qty (sar_qty_adjustment r)"
    and "sle_item_id e = sar_item_id r" "sle_stock_unit_id e = None"
      "sle_qty_change e = qty (sar_qty_adjustment r)" and e: "create_sle e s = Inr s1"
    and u: "upsert_balance (sar_item_id r) (sar_location_id r) (qty (sar_qty_adjustment r)) (Some avg) s1 = Inr s2"
    and "x = money (\<bar>qty (sar_qty_adjustment r)\<bar> * avg)"
    and ev: "emit_event_async (AdjustmentConfirmed (sar_adjustment_id r) x (sar_posting_date r) (Some a)) s2 = Inr s'"
    by (rule adjust_stock_Inr)
  have ok: "stock_ok s1" using assms(2) sle_effect(1) [OF e] by (simp add: erp_inv_def stock_inv_def)
  have g: "get_balance j k s1 = get_balance j k s" "get_balance j k s' = get_balance j k s2" for j k
    using sle_frame(6) [OF e] emit_inventory(2) [OF ev] by (simp_all add: get_balance_def)
  from get_balance_after_upsert [OF u ok] nn it show ?thesis by (auto simp: g)
qed

definition sample_adjustment :: "rat \<Rightarrow> stock_adjustment_request" where
  "sample_adjustment q = \<lparr>sar_item_id = 70, sar_location_id = 81, sar_adjustment_id = 95,
     sar_qty_adjustment = q, sar_reason_code = ''found'', sar_posting_date = 738955\<rparr>"

declare sample_adjustment_def [evals]

lemma sample_adjustment_eval: "\<not> isl (adjust_stock (sample_adjustment 2) 7 (erp_state [] [] []))"
  by (simp add: evals Let_def cong: ebind_weak_cong)

theorem adjust_stock_exact_witness:
  "\<exists>x s' b. adjust_stock (sample_adjustment 2) 7 (erp_state [] [] []) = Inr (x, s')
     \<and> get_balance 70 81 s' = Some b \<and> sb_qty b = 7"
proof -
  let ?s = "erp_state [] [] []"
  obtain x s' where r: "adjust_stock (sample_adjustment 2) 7 ?s = Inr (x, s')"
    using not_isl_Inr [OF sample_adjustment_eval] by (metis surj_pair)
  have "erp_inv ?s" by (rule erp_state_inv) simp_all
  from adjust_stock_exact [OF r this] have "\<exists>b. get_balance 70 81 s' = Some b \<and> sb_qty b
      = (case get_balance 70 81 ?s of None \<Rightarrow> 0 | Some b \<Rightarrow> sb_qty b) + qty 2"
    by (simp add: sample_adjustment_def) blast
  moreover have "(case get_balance 70 81 ?s of None \<Rightarrow> 0 | Some b \<Rightarrow> sb_qty b) + qty 2 = 7" by (simp add: evals)
  ultimately show ?thesis using r by metis
qed

text \<open>Stock that is found is written off: the amount of an adjustment is an absolute value, so whatever
  the sign of the quantity the bridge debits the write-off account (5200) and credits inventory
  (1200). With both accounts usable, an open period and a cost that is not zero, adding stock
  lowers the inventory balance by the value of what was added.\<close>

theorem found_stock_written_off:
  assumes r: "adjust_stock r actor s = Inr (x, s')" and x: "0 < x"
    and inv: "ledger_wf s" "numbers_bounded s"
    and acc: "account_ready ''5200'' s a" "account_ready ''1200'' s b"
    and p: "get_open_period (sar_posting_date r) s = Inr (Some q)"
  shows "account_net (acc_id a) s' = account_net (acc_id a) s + x
    \<and> account_net (acc_id b) s' = account_net (acc_id b) s - x"
proof -
  from r obtain it avg e s1 s2 where "get_item (sar_item_id r) s = Some it" "it_nature it = BULK"
    and "avg = (case get_balance (sar_item_id r) (sar_location_id r) s of
        None \<Rightarrow> money (it_default_purchase_price it) | Some b \<Rightarrow> sb_avg_cost b)"
    and "0 \<le> (case get_balance (sar_item_id r) (sar_location_id r) s of None \<Rightarrow> 0 | Some b \<Rightarrow> sb_qty b)
       + qty (sar_qty_adjustment r)"
    and "sle_item_id e = sar_item_id r" "sle_stock_unit_id e = None"
      "sle_qty_change e = qty (sar_qty_adjustment r)" and e: "create_sle e s = Inr s1"
    and u: "upsert_balance (sar_item_id r) (sar_location_id r) (qty (sar_qty_adjustment r)) (Some avg) s1 = Inr s2"
    and xe: "x = money (\<bar>qty (sar_qty_adjustment r)\<bar> * avg)"
    and ev: "emit_event_async (AdjustmentConfirmed (sar_adjustment_id r) x (sar_posting_date r) (Some actor)) s2 = Inr s'"
    by (rule adjust_stock_Inr)
  have m: "money x = x" by (simp add: xe money_is_money)
  have "stock_only s s2" by (rule stock_only_trans [OF stock_only_writes(1) [OF e] stock_only_writes(3) [OF u]])
  then have same: "ledger_same s s2" "sequences s2 = sequences s" by (simp_all add: stock_only_def)
  from emit_after [OF same ev inv _ acc, where q = q] p x m show ?thesis by simp
qed

theorem found_stock_written_off_witness:
  "\<exists>s'. adjust_stock (sample_adjustment 2) 7 (erp_state [] [] []) = Inr (16, s') \<and> account_net 4 s' = - 16"
proof -
  let ?s = "erp_state [] [] []"
  have "fst (projr (adjust_stock (sample_adjustment 2) 7 ?s)) = 16"
    by (simp add: evals Let_def cong: ebind_weak_cong)
  then obtain s' where r: "adjust_stock (sample_adjustment 2) 7 ?s = Inr (16, s')"
    using not_isl_Inr [OF sample_adjustment_eval] by (metis prod.collapse)
  have books: "ledger_wf ?s" "numbers_bounded ?s" using erp_state_books by (simp_all add: ledger_inv_def)
  have p: "get_open_period (sar_posting_date (sample_adjustment 2)) ?s = Inr (Some sample_period)"
    unfolding sample_adjustment_def by (simp add: erp_state_ready)
  from found_stock_written_off [OF r _ books erp_state_ready(4,1) p] r erp_state_books(3)
  show ?thesis by (simp add: sample_account_def)
qed

section \<open>Valuation\<close>

lemma average_error:
  assumes "0 < q"
  shows "\<bar>q * money (v / q) - v\<bar> \<le> q / 20000"
proof -
  have "q * money (v / q) - v = q * (money (v / q) - v / q)"
    using assms by (simp add: right_diff_distrib)
  then have "\<bar>q * money (v / q) - v\<bar> = q * \<bar>money (v / q) - v / q\<bar>"
    using assms by (simp add: abs_mult)
  also have "\<dots> \<le> q * (1 / 20000)"
    using assms by (intro mult_left_mono money_error) simp
  finally show ?thesis by simp
qed

text \<open>Receiving bulk stock keeps its value: after a receipt the quantity grows by what arrived, the new
  moving-average cost is at the money scale, and quantity times average equals the old value plus the
  received value up to half a unit of the fourth decimal per item on hand.\<close>

theorem moving_average_keeps_value:
  assumes "0 < sb_qty b + r"
  shows "sb_qty (moving_average b r c) = sb_qty b + r \<and> is_money (sb_avg_cost (moving_average b r c))
    \<and> \<bar>sb_qty (moving_average b r c) * sb_avg_cost (moving_average b r c)
        - (sb_qty b * sb_avg_cost b + r * c)\<bar> \<le> (sb_qty b + r) / 20000"
  using assms average_error [of "sb_qty b + r" "sb_qty b * sb_avg_cost b + r * c"]
  by (simp add: moving_average_def Let_def)

theorem moving_average_keeps_value_witness:
  "sb_avg_cost (moving_average (sample_balance 2 1) 1 2) = 13333 / 10000
   \<and> \<bar>3 * sb_avg_cost (moving_average (sample_balance 2 1) 1 2) - 4\<bar> \<le> 3 / 20000"
proof -
  have "sb_avg_cost (moving_average (sample_balance 2 1) 1 2) = 13333 / 10000"
    by (simp add: evals Let_def)
  then show ?thesis
    using moving_average_keeps_value [of "sample_balance 2 1" 1 2] by (simp add: sample_balance_def)
qed

text \<open>The inventory balance that the reconciliation reads with its own query is the balance of account
  1200 in the books, when the code names one account and every line is one-sided with no
  negative debit.\<close>

theorem gl_inventory_is_account_net:
  assumes wf: "ledger_wf s" and a: "get_account_by_code ''1200'' s = Some a"
    and sided: "\<forall>l\<in>set (journal_lines s). (0 < jl_dr_base l \<and> jl_cr_base l = 0) \<or> jl_dr_base l = 0"
  shows "gl_inventory_balance s = account_net (acc_id a) s"
proof -
  have "(\<exists>x\<in>set (accounts s). acc_id x = i \<and> acc_code x = ''1200'') = (i = acc_id a)" for i
  proof
    assume "\<exists>x\<in>set (accounts s). acc_id x = i \<and> acc_code x = ''1200''"
    then obtain x where x: "x \<in> set (accounts s)" "acc_id x = i" "acc_code x = ''1200''" by blast
    have "get_account_by_code ''1200'' s = Some x"
      using get_by_mem [of acc_code "accounts s" x] wf x by (simp add: ledger_wf_def get_account_by_code_def)
    with a x show "i = acc_id a" by simp
  next
    assume "i = acc_id a"
    with a show "\<exists>x\<in>set (accounts s). acc_id x = i \<and> acc_code x = ''1200''"
      by (auto simp: get_account_by_code_def dest!: get_by_Some)
  qed
  moreover have "(\<exists>e\<in>set (entries s). je_id e = jl_entry_id l \<and> je_status e = JE_POSTED) = line_posted s l" for l
  proof
    assume "\<exists>e\<in>set (entries s). je_id e = jl_entry_id l \<and> je_status e = JE_POSTED"
    then obtain e where e: "e \<in> set (entries s)" "je_id e = jl_entry_id l" "je_status e = JE_POSTED" by blast
    then show "line_posted s l"
      using get_by_mem [of je_id "entries s" e] wf by (simp add: line_posted_iff get_entry_def ledger_wf_def)
  qed (auto simp: line_posted_iff get_entry_def dest!: get_by_Some)
  ultimately show ?thesis
    using sided unfolding gl_inventory_balance_def account_net_lines
    by (intro arg_cong [where f = sum_list]) (auto intro!: map_cong simp: conj_commute)
qed

theorem gl_inventory_is_account_net_witness:
  "\<exists>x s'. adjust_stock (sample_adjustment 2) 7 (erp_state [] [] []) = Inr (x, s')
     \<and> gl_inventory_balance s' = account_net 4 s' \<and> length (journal_lines s') = 2"
proof -
  let ?s = "erp_state [] [] []" and ?y = "projr (adjust_stock (sample_adjustment 2) 7 (erp_state [] [] []))"
  obtain x s' where r: "adjust_stock (sample_adjustment 2) 7 ?s = Inr (x, s')"
    using not_isl_Inr [OF sample_adjustment_eval] by (metis surj_pair)
  then have s': "s' = snd ?y" by simp
  have "\<forall>l\<in>set (journal_lines (snd ?y)). (0 < jl_dr_base l \<and> jl_cr_base l = 0) \<or> jl_dr_base l = 0"
    "length (journal_lines (snd ?y)) = 2"
    by (simp_all add: evals Let_def cong: ebind_weak_cong)
  then have sided: "\<forall>l\<in>set (journal_lines s'). (0 < jl_dr_base l \<and> jl_cr_base l = 0) \<or> jl_dr_base l = 0"
    and two: "length (journal_lines s') = 2" unfolding s' .
  have "control_ok ?s" by (simp add: control_ok_def erp_state_def)
  moreover have "bridge_run ?s s'" using adjust_stock_effect [OF r] by (simp add: stock_effect_def)
  ultimately have k: "ledger_inv s'" "accounts s' = accounts ?s"
    using bridge_run_keeps erp_state_books(1) by metis+
  have "get_account_by_code ''1200'' s' = Some (sample_account 4 ''1200'' ASSET True)"
    using erp_state_ready(1) k(2) by (simp add: account_ready_def get_account_by_code_def)
  from gl_inventory_is_account_net [OF _ this sided] k(1) have "gl_inventory_balance s' = account_net 4 s'"
    by (simp add: ledger_inv_def sample_account_def)
  with two r show ?thesis by blast
qed

section \<open>Orders\<close>

text \<open>Lines of an order: what creating them appends.\<close>

lemma po_lines_created:
  assumes "\<forall>l\<in>set ls. fk_ok (plr_item_id l) (map it_id (items s))"
  shows "foldE (po_create_line i) ls s = Inr (s\<lparr>po_lines := po_lines s @ map (\<lambda>l.
       \<lparr>pol_po_id = i, pol_item_id = plr_item_id l, pol_qty = qty (plr_qty l),
        pol_unit_cost = money (plr_unit_cost l), pol_line_total = money (plr_qty l * plr_unit_cost l)\<rparr>) ls\<rparr>)"
  using assms by (induction ls arbitrary: s) (auto simp: po_create_line_def)

text \<open>A purchase order can be created in every state the ERP reaches: when the supplier and the items
  exist, creation succeeds, the generated number is not in use, and the order is a draft with
  exactly the requested lines.\<close>

theorem po_create_succeeds:
  assumes "erp_step\<^sup>*\<^sup>* s s'" and "erp_inv s"
    and "get_contact (pcr_supplier_id req) s' = Some c"
    and "\<forall>l\<in>set (pcr_lines req). fk_ok (plr_item_id l) (map it_id (items s'))"
  shows "\<exists>i r s''. po_create req s' = Inr (i, s'') \<and> get_po i s'' = Some r \<and> po_status r = PO_DRAFT
    \<and> po_no r \<notin> po_no ` set (purchase_orders s')
    \<and> map (\<lambda>l. (pol_item_id l, pol_qty l)) (lines_of_po i s'')
        = map (\<lambda>l. (plr_item_id l, qty (plr_qty l))) (pcr_lines req)"
proof -
  have inv: "numbers_ok s'" "ids_ok s'" using erp_reachable [OF assms(1,2)] by (simp_all add: erp_inv_def)
  then have fresh: "generate_po_no s' \<notin> po_no ` set (purchase_orders s')"
    unfolding generate_po_no_def numbers_ok_def by (intro generate_no_fresh) simp_all
  let ?r = "\<lparr>po_id = next_id s', po_no = generate_po_no s', po_supplier_id = pcr_supplier_id req,
        po_currency_code = pcr_currency_code req, po_status = PO_DRAFT,
        po_order_date = pcr_order_date req, po_expected_date = pcr_expected_date req,
        po_created_year = year_of (today s')\<rparr>"
  let ?s = "add_po ?r (s'\<lparr>next_id := Suc (next_id s')\<rparr>)"
  let ?ls = "map (\<lambda>l. \<lparr>pol_po_id = next_id s', pol_item_id = plr_item_id l, pol_qty = qty (plr_qty l),
        pol_unit_cost = money (plr_unit_cost l), pol_line_total = money (plr_qty l * plr_unit_cost l)\<rparr>)
        (pcr_lines req)"
  have "foldE (po_create_line (next_id s')) (pcr_lines req) ?s = Inr (?s\<lparr>po_lines := po_lines ?s @ ?ls\<rparr>)"
    using assms(4) by (intro po_lines_created) (simp add: add_po_def)
  then have r: "po_create req s' = Inr (next_id s', ?s\<lparr>po_lines := po_lines ?s @ ?ls\<rparr>)"
    using assms(3) fresh by (simp add: po_create_def fresh_id_def Let_def get_contact_def)
  have none: "get_by po_id (next_id s') (purchase_orders s') = None"
    "filter (\<lambda>l. pol_po_id l = next_id s') (po_lines s') = []"
    using inv(2) by (auto simp: ids_ok_def keyed_below_def get_by_None_iff filter_empty_conv)
  show ?thesis
    by (rule exI [of _ "next_id s'"], rule exI [of _ ?r], rule exI, intro conjI, rule r)
      (simp_all add: get_po_def add_po_def get_by_append none fresh lines_of_po_def o_def)
qed

definition sample_order :: po_create_request where
  "sample_order = \<lparr>pcr_supplier_id = 61, pcr_currency_code = ''AED'', pcr_order_date = 738950,
     pcr_expected_date = None, pcr_lines = [\<lparr>plr_item_id = Some 70, plr_qty = 4, plr_unit_cost = 9\<rparr>]\<rparr>"

theorem po_create_succeeds_witness:
  "\<exists>i r s'. po_create sample_order (erp_state [] [] []) = Inr (i, s') \<and> get_po i s' = Some r
     \<and> po_no r \<noteq> doc_no ''PO'' 2024 1"
proof -
  let ?s = "erp_state [] [] []"
  have "erp_inv ?s" by (rule erp_state_inv) simp_all
  moreover have "get_contact (pcr_supplier_id sample_order) ?s
      = Some \<lparr>c_id = 61, c_name = Some ''Supplier'', c_credit_limit = None\<rparr>"
    by (simp add: sample_order_def evals)
  moreover have "\<forall>l\<in>set (pcr_lines sample_order). fk_ok (plr_item_id l) (map it_id (items ?s))"
    by (simp add: sample_order_def evals)
  moreover have "po_no ` set (purchase_orders ?s) = {doc_no ''PO'' 2024 1}"
    by (simp add: erp_state_def)
  ultimately show ?thesis using po_create_succeeds [of ?s ?s sample_order] by fastforce
qed

section \<open>Serial numbers\<close>

lemma split_on_append:
  "c \<notin> set w \<Longrightarrow> split_on c (w @ c # ws) = w # split_on c ws"
  by (induction w) auto

lemma split_on_none: "c \<notin> set w \<Longrightarrow> split_on c w = [w]"
  by (induction w) auto

definition join_comma :: "string list \<Rightarrow> string" where
  "join_comma ws = concat (map (\<lambda>w. w @ '','') ws)"

text \<open>The serial numbers of a receipt line are read back as they were written: joining any
  serial numbers that are not empty, hold no comma and neither start nor end with white space, and
  reading the text, gives the same list.\<close>

theorem serial_numbers_roundtrip:
  assumes "\<forall>w\<in>set ws. w \<noteq> [] \<and> CHR '','' \<notin> set w \<and> \<not> py_space (hd w) \<and> \<not> py_space (last w)"
  shows "serial_numbers (join_comma ws) = ws"
proof -
  have split: "split_on (CHR '','') (join_comma ws) = ws @ [[]]"
    using assms by (induction ws) (auto simp: join_comma_def split_on_append)
  have "strip w = w" if "w \<in> set ws" for w
  proof -
    have w: "w \<noteq> []" "\<not> py_space (hd w)" "\<not> py_space (last w)" using assms that by auto
    then have "dropWhile py_space w = w" "dropWhile py_space (rev w) = rev w"
      by (simp_all add: dropWhile_eq_self_iff hd_rev)
    then show ?thesis by (simp add: strip_def)
  qed
  then have "map strip ws = ws" by (intro map_idI)
  moreover have "strip [] = []" by (simp add: strip_def)
  moreover have "filter (\<lambda>w. w \<noteq> []) ws = ws" using assms by (auto intro: filter_True)
  ultimately show ?thesis by (simp add: serial_numbers_def split)
qed

theorem serial_numbers_roundtrip_witness:
  "serial_numbers (join_comma [''SN1'', ''A 2'']) = [''SN1'', ''A 2'']"
  by (rule serial_numbers_roundtrip) (simp add: py_space_def)

end
