(* ===== verification/ReportingProps.thy ===== *)
theory ReportingProps
  imports Reporting ErpProps
begin

text \<open>
  What the financial statements say, measured against the books: when the balance sheet ties,
  how profit and loss and retained earnings agree, and where the trial balance and margin
  reports leave the books.
\<close>

section \<open>The balance sheet\<close>

lemma in_range_iff:
  "line_in_range None (Some d) s
     = (\<lambda>l. \<exists>e. get_entry (jl_entry_id l) s = Some e \<and> je_status e = JE_POSTED \<and> je_posting_date e \<le> d)"
  by (rule ext) (auto simp: line_in_range_def entry_in_range_def split: option.splits)

lemma base_in_balance:
  assumes "ledger_inv s"
  shows "sum_list (map jl_dr_base (filter (line_in_range fd td s) (journal_lines s)))
    = sum_list (map jl_cr_base (filter (line_in_range fd td s) (journal_lines s)))"
  using ledger_in_balance [of s fd td] assms
  by (simp add: ledger_inv_def sum_by_account_def Let_def sum_over_accounts)

text \<open>What the balance sheet is out of balance by, in every state the ERP reaches and for every date: exactly
  the difference between the transaction amounts it adds up and the base amounts the posting service
  checks, over the posted lines up to that date. So it ties when all those lines are in base
  currency; and its total is always its liabilities plus its equity.\<close>

theorem balance_sheet_gap:
  assumes "erp_step\<^sup>*\<^sup>* s s'" and "erp_inv s" and "ap_inv a s" and b: "b = balance_sheet d s'"
  shows "bs_total_liabilities_and_equity b = bs_liabilities b + bs_equity b
    \<and> bs_assets b - bs_total_liabilities_and_equity b
      = sum_list (map (\<lambda>l. (jl_dr l - jl_dr_base l) - (jl_cr l - jl_cr_base l))
          (filter (line_in_range None (Some d) s') (journal_lines s')))
    \<and> ((\<forall>l\<in>set (journal_lines s'). jl_dr l = jl_dr_base l \<and> jl_cr l = jl_cr_base l)
         \<longrightarrow> bs_assets b = bs_total_liabilities_and_equity b)"
proof -
  let ?ls = "filter (line_in_range None (Some d) s') (journal_lines s')"
  let ?gap = "sum_list (map (\<lambda>l. (jl_dr l - jl_dr_base l) - (jl_cr l - jl_cr_base l)) ?ls)"
  have inv: "ledger_inv s'" using ap_inv_erp_reachable [OF assms(1-3)] by (simp add: ap_inv_def)
  then have wf: "ledger_wf s'" by (simp add: ledger_inv_def)
  have "bs_assets b - bs_total_liabilities_and_equity b = sum_list (map (\<lambda>l. jl_dr l - jl_cr l) ?ls)"
    using type_sums_partition [OF wf, of "\<lambda>l. jl_dr l - jl_cr l" "\<lambda>e. je_posting_date e \<le> d"]
    by (simp add: b balance_sheet_def bs_amount_def Let_def in_range_iff algebra_simps)
  moreover have "?gap = sum_list (map (\<lambda>l. jl_dr l - jl_cr l) ?ls)"
    using base_in_balance [OF inv, of None "Some d"] by (simp add: sum_list_subtractf)
  ultimately have gap: "bs_assets b - bs_total_liabilities_and_equity b = ?gap" by simp
  have "?gap = 0" if "\<forall>l\<in>set (journal_lines s'). jl_dr l = jl_dr_base l \<and> jl_cr l = jl_cr_base l"
    using that by (intro sum_list_zero) simp
  then have "bs_assets b = bs_total_liabilities_and_equity b"
    if "\<forall>l\<in>set (journal_lines s'). jl_dr l = jl_dr_base l \<and> jl_cr l = jl_cr_base l"
    using gap that by simp
  with gap show ?thesis by (simp add: b balance_sheet_def Let_def)
qed

text \<open>An issued invoice: receivables and retained earnings grow by its total.\<close>

definition sample_sale :: fulfilment where
  "sample_sale = (erp_state [] [] [])\<lparr>invoices := [sample_invoice 101 INV_DRAFT 100 738985]\<rparr>"

lemma sample_sale_eval: "\<not> isl (invoice_issue 101 7 sample_sale)"
  by (simp add: sample_sale_def evals Let_def cong: ebind_weak_cong)

lemma sample_sale_inv: "erp_inv sample_sale" "ap_inv (sample_account 6 ''2100'' LIABILITY True) sample_sale"
proof -
  have "erp_inv (s\<lparr>invoices := xs\<rparr>) = erp_inv s" for s :: fulfilment and xs
    by (simp add: erp_inv_def stock_inv_def stock_defs erp_defs)
  then show "erp_inv sample_sale" unfolding sample_sale_def by (simp add: erp_state_inv)
  have "account_net 6 sample_sale = 0" by (simp add: account_net_lines sample_sale_def erp_state_def)
  then show "ap_inv (sample_account 6 ''2100'' LIABILITY True) sample_sale"
    by (simp add: ap_inv_def ledger_defs control_ok_def ap_docs_def ap_balance_def
        journaled_def sample_sale_def evals)
qed

theorem balance_sheet_gap_witness:
  "\<exists>s'. invoice_issue 101 7 sample_sale = Inr s' \<and> bs_retained_earnings (balance_sheet 738985 s') = 100
     \<and> bs_assets (balance_sheet 738985 s') = bs_total_liabilities_and_equity (balance_sheet 738985 s')"
proof -
  let ?t = "projr (invoice_issue 101 7 sample_sale)"
  obtain s' where r: "invoice_issue 101 7 sample_sale = Inr s'"
    using not_isl_Inr [OF sample_sale_eval] by blast
  then have step: "erp_step\<^sup>*\<^sup>* sample_sale s'"
    by (blast intro: erp_step.finance finance_step.receivables receivables_step.issue)
  have "\<forall>l\<in>set (journal_lines ?t). jl_dr l = jl_dr_base l \<and> jl_cr l = jl_cr_base l"
    "bs_retained_earnings (balance_sheet 738985 ?t) = 100"
    by (simp_all add: sample_sale_def evals Let_def cong: ebind_weak_cong)
  with balance_sheet_gap [OF step sample_sale_inv refl, of 738985] r show ?thesis by simp
qed

definition base_missing :: journal_entry_request where
  "base_missing = \<lparr>jer_posting_date = 738955, jer_voucher_type = ''journal_entry'',
     jer_lines = [(one_sided 21 100 0)\<lparr>jlr_dr_base := 0\<rparr>, (one_sided 2 0 40)\<lparr>jlr_cr_base := 0\<rparr>],
     jer_is_opening = False\<rparr>"

definition zero_row :: "tb_row \<Rightarrow> bool" where
  "zero_row r = (tb_closing_dr r = 0 \<and> tb_closing_cr r = 0 \<and> tb_period_dr r = 0 \<and> tb_period_cr r = 0)"

definition base_missing_posted :: ledger where
  "base_missing_posted = sample_after False (Some 7) (jer_lines base_missing)"

declare base_missing_def [evals] base_missing_posted_def [evals]

lemma base_missing_posts:
  "post_entry base_missing 7 sample_books = Inr (sample_entry False, base_missing_posted)"
  by (simp add: evals valid_entry_request_def post_entry_def cong: ebind_weak_cong)

lemma zero_base_row:
  assumes "\<forall>l\<in>set (journal_lines s). jl_dr_base l = 0 \<and> jl_cr_base l = 0"
  shows "zero_row (tb_build_row fs d s a)"
proof -
  have "sum_by_account i fd td s = (0, 0)" for i fd td
    using assms by (simp add: sum_by_account_def Let_def sum_list_zero)
  then show ?thesis by (simp add: zero_row_def tb_build_row_def money_is_money)
qed

text \<open>The base amounts of a manual entry default to zero, the balance gate looks at nothing else and the
  balance sheet adds up the other columns: an entry with 100 on the debit side and 40 on the
  credit side is posted, the trial balance shows zero everywhere, and the balance sheet is out of
  balance by 60.\<close>

theorem balance_sheet_open:
  "\<exists>e s' tb. post_entry base_missing 7 sample_books = Inr (e, s') \<and> ledger_inv s'
     \<and> trial_balance_build 739000 s' = Inr tb \<and> (\<forall>r\<in>set (tb_rows tb). zero_row r)
     \<and> bs_assets (balance_sheet 739000 s') - bs_total_liabilities_and_equity (balance_sheet 739000 s') = 60"
proof -
  have "exact_request base_missing" by (simp add: exact_request_def evals)
  then have "ledger_inv base_missing_posted"
    using books.post_entry_keeps [OF sample_books_inv _ base_missing_posts] by simp
  moreover obtain tb where tb: "trial_balance_build 739000 base_missing_posted = Inr tb"
    by (simp add: trial_balance_build_def Let_def base_missing_posted_def sample_after_def sample_books_def)
  moreover have "\<forall>r\<in>set (tb_rows tb). zero_row r"
    using tb zero_base_row [of base_missing_posted]
    by (auto simp: trial_balance_build_def Let_def ok_simps base_missing_posted_def sample_after_def
        base_missing_def one_sided_def)
  moreover have "bs_assets (balance_sheet 739000 base_missing_posted)
      - bs_total_liabilities_and_equity (balance_sheet 739000 base_missing_posted) = 60"
    by (simp add: balance_sheet_def bs_amount_def type_sum_def evals)
  ultimately show ?thesis using base_missing_posts by blast
qed

section \<open>Profit and loss\<close>

lemma type_sum_filter:
  "type_sum f P t s = sum_list (map f (filter (\<lambda>l. \<exists>e\<in>set (entries s). je_id e = jl_entry_id l
       \<and> je_status e = JE_POSTED \<and> P e)
     (filter (\<lambda>l. \<exists>a\<in>set (accounts s). acc_id a = jl_account_id l \<and> acc_type a = t) (journal_lines s))))"
  by (simp add: type_sum_def)

text \<open>Grouping by fiscal year: every posted entry lies in the year of its period.\<close>

lemma type_sum_years:
  assumes wf: "ledger_wf s" and d: "distinct (map per_id (periods s))"
    and fk: "\<forall>e\<in>set (entries s). je_period_id e \<in> per_id ` set (periods s)"
  shows "sum_list (map (\<lambda>y. type_sum f (in_fiscal_year s y) t s) (remdups (map per_fiscal_year (periods s))))
    = type_sum f (\<lambda>_. True) t s"
proof -
  define year where "year l = (case get_entry (jl_entry_id l) s of None \<Rightarrow> 0 | Some e \<Rightarrow>
      (case get_by per_id (je_period_id e) (periods s) of None \<Rightarrow> 0 | Some p \<Rightarrow> per_fiscal_year p))" for l :: journal_line
  let ?ls = "filter (\<lambda>l. \<exists>a\<in>set (accounts s). acc_id a = jl_account_id l \<and> acc_type a = t) (journal_lines s)"
  let ?posted = "\<lambda>l. \<exists>e. get_entry (jl_entry_id l) s = Some e \<and> je_status e = JE_POSTED"
  have period: "\<exists>p. get_by per_id (je_period_id e) (periods s) = Some p
      \<and> (\<forall>y. in_fiscal_year s y e = (per_fiscal_year p = y)) \<and> p \<in> set (periods s)"
    if "get_entry i s = Some e" for i e
  proof -
    have "e \<in> set (entries s)" using that by (auto simp: get_entry_def dest: get_by_Some)
    with fk obtain p where p: "p \<in> set (periods s)" "per_id p = je_period_id e" by force
    then have g: "get_by per_id (je_period_id e) (periods s) = Some p" using get_by_mem [OF d] by metis
    then have "q = p" if "q \<in> set (periods s)" "per_id q = je_period_id e" for q
      using get_by_mem [OF d that(1)] that(2) by simp
    with p have "in_fiscal_year s y e = (per_fiscal_year p = y)" for y
      unfolding in_fiscal_year_def by blast
    with p(1) g show ?thesis by blast
  qed
  have "type_sum f (in_fiscal_year s y) t s = sum_list (map f (filter (\<lambda>l. year l = y) (filter ?posted ?ls)))" for y
  proof -
    have eq: "(\<exists>e. get_entry (jl_entry_id l) s = Some e \<and> je_status e = JE_POSTED \<and> in_fiscal_year s y e)
        = (?posted l \<and> year l = y)" for l
    proof (cases "get_entry (jl_entry_id l) s")
      case (Some e)
      from period [OF this] obtain p where "get_by per_id (je_period_id e) (periods s) = Some p"
        "in_fiscal_year s y e = (per_fiscal_year p = y)" by blast
      with Some show ?thesis by (simp add: year_def)
    qed simp
    have "filter (\<lambda>l. \<exists>e. get_entry (jl_entry_id l) s = Some e \<and> je_status e = JE_POSTED \<and> in_fiscal_year s y e) ?ls
        = filter (\<lambda>l. year l = y) (filter ?posted ?ls)"
      unfolding eq by (rule filter_filter [symmetric])
    then show ?thesis unfolding type_sum_filter entry_ex_iff [OF wf] by simp
  qed
  moreover have "sum_list (map (\<lambda>y. sum_list (map f (filter (\<lambda>l. year l = y) (filter ?posted ?ls))))
      (remdups (map per_fiscal_year (periods s)))) = sum_list (map f (filter ?posted ?ls))"
  proof (rule sum_join [where key = "\<lambda>y. y"])
    show "year l \<in> (\<lambda>y. y) ` set (remdups (map per_fiscal_year (periods s)))" if "l \<in> set (filter ?posted ?ls)" for l
    proof -
      from that obtain e where e: "get_entry (jl_entry_id l) s = Some e" by auto
      from period [OF this] obtain p where "get_by per_id (je_period_id e) (periods s) = Some p"
        "p \<in> set (periods s)" by blast
      with e show ?thesis by (simp add: year_def)
    qed
  qed simp
  ultimately show ?thesis unfolding type_sum_filter [where P = "\<lambda>_. True"] entry_ex_iff [OF wf] by simp
qed

lemma type_sum_minus: "type_sum (\<lambda>l. jl_cr l - jl_dr l) P t s = - type_sum (\<lambda>l. jl_dr l - jl_cr l) P t s"
  by (simp add: type_sum_def sum_list_subtractf)

text \<open>Profit and loss and balance sheet agree: when every entry lies in a period of the calendar, the net
  profits of all fiscal years add up to the retained earnings that the balance sheet derives, at any
  date on or after the last posting; and each statement's net profit is its revenue less its
  two positive costs.\<close>

theorem profits_are_retained_earnings:
  assumes "ledger_wf s" and "distinct (map per_id (periods s))"
    and "\<forall>e\<in>set (entries s). je_period_id e \<in> per_id ` set (periods s) \<and> je_posting_date e \<le> d"
  shows "sum_list (map (\<lambda>y. pl_net_profit (profit_and_loss y s)) (remdups (map per_fiscal_year (periods s))))
      = bs_retained_earnings (balance_sheet d s)
    \<and> pl_net_profit (profit_and_loss y s) = pl_revenue (profit_and_loss y s)
        - pl_cogs (profit_and_loss y s) - pl_opex (profit_and_loss y s)"
proof -
  let ?ys = "remdups (map per_fiscal_year (periods s))" and ?f = "\<lambda>l. jl_dr l - jl_cr l"
  have all: "type_sum ?f (\<lambda>e. je_posting_date e \<le> d) t s = type_sum ?f (\<lambda>_. True) t s" for t
    unfolding type_sum_def using assms(3)
    by (intro arg_cong [where f = sum_list] arg_cong [where f = "map ?f"] filter_cong) auto
  have "sum_list (map (\<lambda>y. pl_net_profit (profit_and_loss y s)) ys)
      = - sum_list (map (\<lambda>y. type_sum ?f (in_fiscal_year s y) REVENUE s) ys)
        - sum_list (map (\<lambda>y. type_sum ?f (in_fiscal_year s y) COGS s) ys)
        - sum_list (map (\<lambda>y. type_sum ?f (in_fiscal_year s y) OPEX s) ys)" for ys
    by (induction ys) (simp_all add: profit_and_loss_def pl_amount_def Let_def type_sum_minus)
  then show ?thesis
    using assms by (simp add: type_sum_years balance_sheet_def bs_amount_def all profit_and_loss_def Let_def)
qed

theorem profits_are_retained_earnings_witness:
  "pl_net_profit (profit_and_loss 2024 sample_posted) = bs_retained_earnings (balance_sheet 738955 sample_posted)
   \<and> bs_retained_earnings (balance_sheet 738955 sample_posted) = - 601 / 4"
proof -
  have "ledger_wf sample_posted" using sample_posted_inv by (simp add: ledger_inv_def)
  moreover have "distinct (map per_id (periods sample_posted))"
    "\<forall>e\<in>set (entries sample_posted). je_period_id e \<in> per_id ` set (periods sample_posted)
       \<and> je_posting_date e \<le> 738955"
    "remdups (map per_fiscal_year (periods sample_posted)) = [2024]"
    by (simp_all add: evals)
  moreover have "bs_retained_earnings (balance_sheet 738955 sample_posted) = - 601 / 4"
    by (simp add: evals Let_def)
  ultimately show ?thesis using conjunct1 [OF profits_are_retained_earnings [of sample_posted 738955]] by simp
qed

section \<open>Reports that leave the books\<close>

text \<open>The trial balance of the reporting module does not depend on its date: the conditions on date and
  status stand in a left join, which drops no line, so in every state the ERP reaches each row adds up
  all lines of its account, of later and of reversed entries too.\<close>

theorem report_tb_ignores_date:
  assumes "erp_step\<^sup>*\<^sup>* s s'" and "erp_inv s" and "ap_inv a s"
  shows "report_trial_balance d s' = map (\<lambda>a.
      let dr = sum_list (map jl_dr (filter (\<lambda>l. jl_account_id l = acc_id a) (journal_lines s')));
          cr = sum_list (map jl_cr (filter (\<lambda>l. jl_account_id l = acc_id a) (journal_lines s')))
      in \<lparr>rt_account_code = acc_code a, rt_account_name = acc_name a, rt_account_type = acc_type a,
          rt_dr_total = dr, rt_cr_total = cr,
          rt_net_balance = (if acc_normal_side a = DEBIT then dr - cr else cr - dr)\<rparr>)
      (list_active_accounts s')"
proof -
  have "ledger_wf s'" using ap_inv_erp_reachable [OF assms] by (simp add: ap_inv_def ledger_inv_def)
  then have "distinct (map je_id (entries s'))" by (simp add: ledger_wf_def)
  then have join: "left_join (\<lambda>l e. je_id e = jl_entry_id l \<and> P e) ls (entries s')
      = map (\<lambda>l. (l, find (\<lambda>e. je_id e = jl_entry_id l \<and> P e) (entries s'))) ls" for P ls
    by (rule left_join_key)
  show ?thesis unfolding report_trial_balance_def report_tb_row_def Let_def join by (simp add: o_def)
qed

theorem report_tb_ignores_date_witness:
  "\<exists>s'. invoice_issue 101 7 sample_sale = Inr s' \<and> report_trial_balance 0 s' = report_trial_balance 738985 s'"
proof -
  obtain s' where r: "invoice_issue 101 7 sample_sale = Inr s'"
    using not_isl_Inr [OF sample_sale_eval] by blast
  then have step: "erp_step\<^sup>*\<^sup>* sample_sale s'"
    by (blast intro: erp_step.finance finance_step.receivables receivables_step.issue)
  show ?thesis
    by (intro exI conjI, rule r) (simp only: report_tb_ignores_date [OF step sample_sale_inv])
qed

text \<open>A dispatch of one phone that cost 300 and two cables at 8.\<close>

definition mixed_dispatch :: fulfilment where
  "mixed_dispatch = erp_state [] []
     [sample_dispatch_line (Some 75) (Some 71) 0, sample_dispatch_line None (Some 70) 2]"

lemma mixed_dispatch_eval: "\<not> isl (dispatch_confirm 94 7 mixed_dispatch)"
  by (simp add: mixed_dispatch_def evals Let_def cong: ebind_weak_cong)

text \<open>The margin report is far from the books: it joins a dispatch's one journal with each of the
  dispatch's lines, so the cost of a dispatch counts once per line (here 632 for goods that cost
  316), and it keeps only lines that name a party or a dispatched item, which the revenue line of an
  invoice never does (here an issued invoice of 100 gives no row).\<close>

theorem margin_report_off:
  "(\<exists>s'. dispatch_confirm 94 7 mixed_dispatch = Inr s' \<and> account_net 15 s' = 316
      \<and> mr_total_cogs (build_margin 2024 s') = 632)
   \<and> (\<exists>s'. invoice_issue 101 7 sample_sale = Inr s' \<and> pl_revenue (profit_and_loss 2024 s') = 100
      \<and> mr_items (build_margin 2024 s') = [])"
proof -
  let ?d = "projr (dispatch_confirm 94 7 mixed_dispatch)" and ?i = "projr (invoice_issue 101 7 sample_sale)"
  have "account_net 15 ?d = 316"
    by (simp add: account_net_def mixed_dispatch_def evals Let_def cong: ebind_weak_cong)
  moreover have "mr_total_cogs (build_margin 2024 ?d) = 632"
    by (simp add: mixed_dispatch_def evals Let_def cong: ebind_weak_cong)
  moreover have "pl_revenue (profit_and_loss 2024 ?i) = 100" "mr_items (build_margin 2024 ?i) = []"
    by (simp_all add: sample_sale_def evals Let_def cong: ebind_weak_cong)
  ultimately show ?thesis
    using not_isl_Inr [OF mixed_dispatch_eval] not_isl_Inr [OF sample_sale_eval]
    by (metis sum.sel(2))
qed

end
