(* ===== verification/ContactProps.thy ===== *)
theory ContactProps
  imports Contacts
begin

text \<open>
  Contacts: the display form of a phone number, the invariant of the table, and what an import does.
\<close>

section \<open>Phone numbers\<close>

lemma canonicalize_append: "canonicalize_phone (v @ w) = canonicalize_phone v @ canonicalize_phone w"
  by (simp add: canonicalize_phone_def)

lemma canonicalize_digits: "list_all ascii_digit w \<Longrightarrow> canonicalize_phone w = w"
  by (simp add: canonicalize_phone_def list_all_iff)

lemma digits_canonicalize: "list_all ascii_digit (canonicalize_phone w)"
  by (simp add: canonicalize_phone_def list_all_iff)

lemma canonicalize_join: "canonicalize_phone (join '' '' ws) = concat (map canonicalize_phone ws)"
proof (induction ws rule: induct_list012)
  case (3 v w ws)
  then show ?case by (simp add: canonicalize_append) (simp add: canonicalize_phone_def ascii_digit_def)
qed (simp_all add: canonicalize_phone_def)

lemma concat_phone_groups: "concat (phone_groups gs w) = w"
proof (induction gs arbitrary: w)
  case (Cons g gs)
  show ?case using Cons.IH [of "drop g w"] by simp
qed simp

lemma phone_groups_digits: "list_all ascii_digit w \<Longrightarrow> v \<in> set (phone_groups gs w) \<Longrightarrow> list_all ascii_digit v"
  by (metis concat_phone_groups in_set_conv_decomp concat_append concat.simps(2) list_all_append)

lemma plus_dropped: "canonicalize_phone (''+'' @ w) = canonicalize_phone w"
  by (simp add: canonicalize_phone_def ascii_digit_def)

text \<open>C18: Formatting a phone number for display never changes the number: whatever the country code and
  the length, the canonical form of the displayed text is the canonical form of the input.\<close>

theorem phone_display_roundtrip:
  "canonicalize_phone (format_phone_for_display raw) = canonicalize_phone raw"
proof (cases "canonicalize_phone raw = []")
  case True
  then show ?thesis by (simp add: format_phone_for_display_def)
next
  case False
  let ?c = "canonicalize_phone raw"
  let ?rules = "filter (\<lambda>(cc, _). prefix cc ?c) (sort_key (\<lambda>(cc, _). - int (length cc)) format_rules)"
  have digits: "list_all ascii_digit ?c" by (rule digits_canonicalize)
  show ?thesis
  proof (cases ?rules)
    case Nil
    then show ?thesis using False canonicalize_digits [OF digits]
      by (simp add: format_phone_for_display_def Let_def plus_dropped [simplified])
  next
    case (Cons rule rest)
    obtain cc groups where rule: "rule = (cc, groups)" by (cases rule)
    have "rule \<in> set ?rules" unfolding Cons by simp
    then have "prefix cc ?c" by (simp add: rule)
    then obtain nat' where c: "?c = cc @ nat'" by (auto simp: prefix_def)
    then have parts: "list_all ascii_digit cc" "list_all ascii_digit nat'" using digits by simp_all
    have "format_phone_for_display raw = join '' '' ((''+'' @ cc) # phone_groups groups (drop (length cc) ?c))"
      using False by (simp add: format_phone_for_display_def Let_def Cons rule)
    then have "format_phone_for_display raw = join '' '' ((''+'' @ cc) # phone_groups groups nat')" by (simp add: c)
    then have "canonicalize_phone (format_phone_for_display raw) =
        canonicalize_phone cc @ concat (map canonicalize_phone (phone_groups groups nat'))"
      by (simp only: canonicalize_join list.map concat.simps plus_dropped)
    also have "map canonicalize_phone (phone_groups groups nat') = phone_groups groups nat'"
      using phone_groups_digits [OF parts(2)] by (simp add: map_idI canonicalize_digits)
    finally show ?thesis using c by (simp add: concat_phone_groups canonicalize_digits parts(1))
  qed
qed

section \<open>The table of contacts\<close>

definition contact_ok :: "crm_contact \<Rightarrow> bool" where
  "contact_ok c = (\<not> (ct_ai_assigned c \<and> ct_assigned_agent_id c \<noteq> None)
     \<and> ct_phone c \<noteq> [] \<and> canonicalize_phone (ct_phone c) = ct_phone c)"

definition contact_inv :: "'a crm_scheme \<Rightarrow> bool" where
  "contact_inv s = (distinct (map ct_id (crm_contacts s)) \<and> distinct (map ct_phone (crm_contacts s))
     \<and> (\<forall>c\<in>set (crm_contacts s). ct_id c < next_id s \<and> contact_ok c))"

text \<open>Every operation on contacts, with the phones as the validators and callers pass them.\<close>

inductive contact_step :: "'a crm_scheme \<Rightarrow> 'a crm_scheme \<Rightarrow> bool" where
  create: "parse_contact_create r = Inr r' \<Longrightarrow> create_contact r' a s = Inr (i, s') \<Longrightarrow> contact_step s s'"
| update: "update_contact i u a s = Inr s' \<Longrightarrow> contact_step s s'"
| bulk: "contact_bulk_update ids u a s = Inr (x, s') \<Longrightarrow> contact_step s s'"
| import_file: "import_csv hs rows a s = (r, s') \<Longrightarrow> contact_step s s'"
| upsert: "canonicalize_phone p \<noteq> [] \<Longrightarrow> upsert_by_phone (canonicalize_phone p) n info s = Inr (c, s') \<Longrightarrow> contact_step s s'"
| upsert_append: "canonicalize_phone p \<noteq> [] \<Longrightarrow> upsert_by_phone_append (canonicalize_phone p) n info s = Inr (c, s')
    \<Longrightarrow> contact_step s s'"
| sweep: "contact_step s (snd (sweep_follow_up s))"
| contacted: "contact_step s (touch_last_contacted i s)"
| inbound: "contact_step s (touch_last_inbound i s)"
| status: "contact_step s (transition_status i st s)"
| opt_out: "contact_step s (set_do_not_contact i v s)"
| time: "clock s \<le> t \<Longrightarrow> contact_step s (s\<lparr>clock := t\<rparr>)"

inductive_cases contact_stepE: "contact_step s s'"

lemma contact_inv_frame:
  "crm_contacts s' = crm_contacts s \<Longrightarrow> next_id s' = next_id s \<Longrightarrow> contact_inv s' = contact_inv s"
  by (simp add: contact_inv_def)

lemma contact_audit_inv [simp]: "contact_inv (contact_audit a n i s) = contact_inv s"
  by (rule contact_inv_frame) (simp_all add: contact_audit_def audit_append_def)

lemma contact_inv_upd:
  assumes "contact_inv s"
    and f: "\<And>c. ct_id (f c) = ct_id c \<and> ct_phone (f c) = ct_phone c"
    and ok: "\<And>c. contact_ok c \<Longrightarrow> contact_ok (f c)"
  shows "contact_inv (upd_contact i f s)"
  using assms by (auto simp: contact_inv_def upd_contact_def map_upd_by set_upd_by)

lemma contact_inv_insert:
  assumes "contact_inv s" "ct_id c = next_id s" "contact_ok c"
    and "contact_insert c (s\<lparr>next_id := Suc (next_id s)\<rparr>) = Inr s'"
  shows "contact_inv s'"
  using assms by (fastforce simp: contact_inv_def contact_insert_def ok_simps less_Suc_eq)

lemma normalized_ok:
  assumes "contact_ok c"
  shows "contact_ok (apply_updates (normalize_assignment u) c)"
  using assms
  by (auto simp: contact_ok_def apply_updates_def normalize_assignment_def set_or_def split: option.splits)

lemma apply_updates_keys [simp]: "ct_id (apply_updates u c) = ct_id c" "ct_phone (apply_updates u c) = ct_phone c"
  by (simp_all add: apply_updates_def)

lemma contact_repo_update_inv:
  "contact_inv s \<Longrightarrow> contact_repo_update i (normalize_assignment u) s = Inr s' \<Longrightarrow> contact_inv s'"
  by (auto simp: contact_repo_update_def ok_simps intro!: contact_inv_upd normalized_ok)

lemma new_contact_ok: "p \<noteq> [] \<Longrightarrow> canonicalize_phone p = p \<Longrightarrow> contact_ok ((new_contact i p)\<lparr>ct_name := n, ct_information := info\<rparr>)"
  by (simp add: contact_ok_def new_contact_def)

lemma upsert_inv:
  assumes "contact_inv s" "p \<noteq> []" "canonicalize_phone p = p" "upsert_by_phone p n info s = Inr (c, s')"
  shows "contact_inv s'"
proof (cases "get_by_phone p s")
  case None
  then show ?thesis using assms contact_inv_insert [OF assms(1) _ new_contact_ok [OF assms(2,3)]]
    by (auto simp: upsert_by_phone_def ok_simps fresh_id_def new_contact_def Let_def)
next
  case (Some e)
  then show ?thesis using assms(1,4)
    by (auto simp: upsert_by_phone_def contact_ok_def intro!: contact_inv_upd split: if_splits)
qed

lemma upsert_append_inv:
  assumes "contact_inv s" "p \<noteq> []" "canonicalize_phone p = p" "upsert_by_phone_append p n info s = Inr (c, s')"
  shows "contact_inv s'"
proof (cases "get_by_phone p s")
  case None
  then show ?thesis using assms contact_inv_insert [OF assms(1) _ new_contact_ok [OF assms(2,3)]]
    by (auto simp: upsert_by_phone_append_def ok_simps fresh_id_def new_contact_def Let_def)
next
  case (Some e)
  then have "s' = upd_contact (ct_id e) ((\<lambda>c. if \<not> blank info then append_information (the info) c else c) \<circ>
      (\<lambda>c. if \<not> blank n \<and> blank (ct_name c) then c\<lparr>ct_name := n\<rparr> else c)) s"
    using assms(4) by (simp add: upsert_by_phone_append_def Let_def)
  then show ?thesis using assms(1)
    by (auto simp: contact_ok_def append_information_def intro!: contact_inv_upd)
qed

lemma canonical_idem [simp]: "canonicalize_phone (canonicalize_phone p) = canonicalize_phone p"
  by (rule canonicalize_digits [OF digits_canonicalize])

fun row_phone :: "csv_row \<Rightarrow> string option" where
  "row_phone (ParseError i p e) = None"
| "row_phone (ParsedContactRow i p n k) = Some p"

definition phones_ok :: "csv_row list \<Rightarrow> bool" where
  "phones_ok rows = (\<forall>r\<in>set rows. \<forall>p. row_phone r = Some p \<longrightarrow> p \<noteq> [] \<and> canonicalize_phone p = p)"

lemma phones_ok_simps [simp]: "phones_ok []" "phones_ok (rows @ qs) = (phones_ok rows \<and> phones_ok qs)"
  by (auto simp: phones_ok_def)

lemma phones_ok_Cons: "phones_ok (r # rows) \<Longrightarrow> phones_ok [r]" "phones_ok (r # rows) \<Longrightarrow> phones_ok rows"
  by (simp_all add: phones_ok_def)

lemma parsed_phones: "phones_ok (parse_csv m hs rows)"
  by (auto simp: phones_ok_def parse_csv_def parse_row_def Let_def valid_phone_def canonicalize_digits
      split: option.splits if_splits)

lemma import_row_inv:
  assumes "contact_inv s" "phones_ok [row]"
  shows "contact_inv (snd (import_row row (r, s)))"
proof (cases row)
  case (ParsedContactRow i p n k)
  then have "p \<noteq> []" "canonicalize_phone p = p" using assms(2) by (simp_all add: phones_ok_def)
  then show ?thesis using ParsedContactRow assms(1) upsert_inv [OF assms(1)]
    by (auto simp: Let_def contact_ok_def import_changes_def split: sum.splits intro!: contact_inv_upd)
qed (use assms(1) in simp)

lemma import_fold_inv:
  assumes "contact_inv s" "phones_ok rows"
  shows "contact_inv (snd (fold import_row rows (r, s)))"
  using assms
proof (induction rows arbitrary: r s)
  case (Cons row rows)
  obtain r1 s1 where one: "import_row row (r, s) = (r1, s1)" by (cases "import_row row (r, s)")
  have "contact_inv (snd (import_row row (r, s)))" using import_row_inv Cons.prems phones_ok_Cons by blast
  then show ?case using Cons.IH [of s1 r1] phones_ok_Cons(2) [OF Cons.prems(2)] by (simp add: one)
qed simp

lemma import_inv: "contact_inv s \<Longrightarrow> import_csv hs rows a s = (r, s') \<Longrightarrow> contact_inv s'"
  using import_fold_inv [OF _ parsed_phones, of s max_import_rows hs rows empty_receipt]
  by (auto simp: import_csv_def Let_def split: if_splits prod.splits)

lemma bulk_inv:
  assumes "contact_inv s" "contact_bulk_update ids u a s = Inr (x, s')"
  shows "contact_inv s'"
proof -
  let ?step = "\<lambda>cid (failed, count, s). if get_crm_contact cid s = None then Inr (failed @ [cid], count, s)
     else ebind (contact_repo_update cid (normalize_assignment u) s) (\<lambda>s1. Inr (failed, count + 1, s1))"
  obtain fs and n :: nat and t where run: "foldE ?step ids ([], 0, s) = Inr (fs, n, t)" and s': "contact_inv s' = contact_inv t"
    using assms(2) by (auto simp: contact_bulk_update_def Let_def ok_simps)
  have "contact_inv (snd (snd (fs, n, t)))"
    by (rule foldE_inv [OF run, where P = "\<lambda>acc. contact_inv (snd (snd acc))"])
      (use assms(1) in \<open>auto simp: ok_simps split: if_splits intro: contact_repo_update_inv\<close>)
  then show ?thesis using s' by simp
qed

lemma create_inv:
  assumes "contact_inv s" "parse_contact_create r = Inr r'" "create_contact r' a s = Inr (i, s')"
  shows "contact_inv s'"
proof -
  have p: "ccr_phone r' \<noteq> []" "canonicalize_phone (ccr_phone r') = ccr_phone r'"
    using assms(2) by (auto simp: parse_contact_create_def ok_simps)
  let ?c = "(new_contact (next_id s) (ccr_phone r'))\<lparr>ct_name := ccr_name r', ct_company := ccr_company r',
     ct_information := ccr_information r', ct_status := (case ccr_status r' of None \<Rightarrow> CT_ACTIVE | Some st \<Rightarrow> st)\<rparr>"
  have "contact_ok ?c" using p by (simp add: contact_ok_def new_contact_def)
  from contact_inv_insert [OF assms(1) _ normalized_ok [OF this]] assms(3) show ?thesis
    by (auto simp: create_contact_def Let_def ok_simps fresh_id_def new_contact_def Let_def)
qed

lemma contact_upd_steps:
  assumes "contact_inv s"
  shows "contact_inv (touch_last_contacted i s)" "contact_inv (touch_last_inbound i s)"
    "contact_inv (transition_status i st s)" "contact_inv (set_do_not_contact i v s)"
  unfolding touch_last_contacted_def touch_last_inbound_def transition_status_def set_do_not_contact_def
  by (rule contact_inv_upd [OF assms]; simp add: contact_ok_def)+

lemma contact_inv_map:
  assumes "contact_inv s" "\<And>c. ct_id (f c) = ct_id c" "\<And>c. ct_phone (f c) = ct_phone c"
    and "\<And>c. contact_ok c \<Longrightarrow> contact_ok (f c)"
  shows "contact_inv (s\<lparr>crm_contacts := map f (crm_contacts s)\<rparr>)"
  using assms by (simp add: contact_inv_def comp_def)

lemma sweep_inv: "contact_inv s \<Longrightarrow> contact_inv (snd (sweep_follow_up s))"
  unfolding sweep_follow_up_def Let_def snd_conv
  by (rule contact_inv_map) (simp_all add: contact_ok_def)

lemma update_inv: "contact_inv s \<Longrightarrow> update_contact i u a s = Inr s' \<Longrightarrow> contact_inv s'"
  by (auto simp: update_contact_def ok_simps split: if_splits intro: contact_repo_update_inv)

lemma contact_step_inv: "contact_step s s' \<Longrightarrow> contact_inv s \<Longrightarrow> contact_inv s'"
proof (induction rule: contact_step.induct)
  case (create r r' a s i s')
  then show ?case by (metis create_inv)
next
  case (update i u a s s')
  then show ?case by (metis update_inv)
next
  case (bulk ids u a s x s')
  then show ?case by (metis bulk_inv)
next
  case (import_file hs rows a s r s')
  then show ?case by (metis import_inv)
next
  case (upsert p n info s c s')
  then show ?case by (metis upsert_inv canonical_idem)
next
  case (upsert_append p n info s c s')
  then show ?case by (metis upsert_append_inv canonical_idem)
next
  case (time s t)
  then show ?case by (simp add: contact_inv_def)
qed (auto intro: contact_upd_steps sweep_inv)

lemma contact_steps_inv: "contact_step\<^sup>*\<^sup>* s s' \<Longrightarrow> contact_inv s \<Longrightarrow> contact_inv s'"
  by (induction rule: rtranclp_induct) (auto intro: contact_step_inv)


definition demo_contacts :: crm where
  "demo_contacts = \<lparr>next_id = 100, today = 0, contacts = [], sequences = (\<lambda>_. None), audit_log = [],
     clock = 1000000000000, users = [\<lparr>us_id = 1, us_role = ''agent'', us_is_active = True\<rparr>],
     crm_contacts = [(new_contact 10 ''971501234567'')\<lparr>ct_assigned_agent_id := Some 1\<rparr>],
     conversations = [], messages = [], media_assets = [], tags = [], contact_tags = [], templates = [], campaigns = [],
     campaign_recipients = [], bool_settings = (\<lambda>_. None), redis_keys = [], redis_counters = (\<lambda>_. 0), published = [], task_queue = [],
     row_choice = (\<lambda>_. 0)\<rparr>"

declare demo_contacts_def [evals]

lemma demo_contacts_inv: "contact_inv demo_contacts"
  by (simp add: contact_inv_def contact_ok_def demo_contacts_def new_contact_def canonicalize_phone_def ascii_digit_def)

lemma demo_assigns_ai:
  "\<not> isl (update_contact 10 (no_updates\<lparr>cu_ai_assigned := Some (Some True)\<rparr>) 1 demo_contacts)"
  by (simp add: evals Let_def cong: ebind_weak_cong)


section \<open>Importing a file twice\<close>

fun row_effect :: "csv_row \<Rightarrow> crm_contact \<Rightarrow> crm_contact" where
  "row_effect (ParseError i p e) c = c"
| "row_effect (ParsedContactRow i p n k) c = (if ct_phone c = p then import_changes n k c else c)"

lemma import_changes_keys [simp]:
  "ct_id (import_changes n k c) = ct_id c" "ct_phone (import_changes n k c) = ct_phone c"
  by (simp_all add: import_changes_def)

lemma row_effect_keys [simp]:
  "ct_id (row_effect r c) = ct_id c" "ct_phone (row_effect r c) = ct_phone c"
  by (cases r; simp)+

lemma fold_effect_keys [simp]:
  "ct_id (fold row_effect rows c) = ct_id c" "ct_phone (fold row_effect rows c) = ct_phone c"
  by (induction rows arbitrary: c) simp_all

lemma import_changes_compose:
  "import_changes n k (import_changes n' k' c) =
     import_changes (if n = None then n' else n) (if k = None then k' else k) c"
  by (cases n; cases k; cases n'; cases k') (simp_all add: import_changes_def)

text \<open>Every effect sets each of the two columns to a constant or leaves it: a repetition changes nothing.\<close>

lemma fold_effect_form:
  "\<exists>n k. \<forall>c. ct_phone c = p \<longrightarrow> fold row_effect rows c = import_changes n k c"
proof (induction rows)
  case Nil
  have "fold row_effect [] c = import_changes None None c" for c by (simp add: import_changes_def)
  then show ?case by blast
next
  case (Cons r rows)
  then obtain n k where ih: "\<And>c. ct_phone c = p \<Longrightarrow> fold row_effect rows c = import_changes n k c" by blast
  show ?case
  proof (cases "\<exists>i n' k'. r = ParsedContactRow i p n' k'")
    case True
    then obtain i n' k' where r: "r = ParsedContactRow i p n' k'" by blast
    have "fold row_effect (r # rows) c = import_changes (if n = None then n' else n) (if k = None then k' else k) c"
      if "ct_phone c = p" for c
      using that ih [of "import_changes n' k' c"] by (simp only: fold_simps r row_effect.simps import_changes_keys
          import_changes_compose if_True refl)
    then show ?thesis by blast
  next
    case False
    then have "row_effect r c = c" if "ct_phone c = p" for c using that by (cases r) auto
    then have "fold row_effect (r # rows) c = import_changes n k c" if "ct_phone c = p" for c
      using that ih by simp
    then show ?thesis by blast
  qed
qed

lemma import_changes_idem: "import_changes n k (import_changes n k c) = import_changes n k c"
  by (simp add: import_changes_compose)

lemma fold_effect_idem: "fold row_effect rows (fold row_effect rows c) = fold row_effect rows c"
proof -
  obtain n k where nk: "\<And>d. ct_phone d = ct_phone c \<Longrightarrow> fold row_effect rows d = import_changes n k d"
    using fold_effect_form [of "ct_phone c" rows] by blast
  have "fold row_effect rows (fold row_effect rows c) = import_changes n k (import_changes n k c)"
    using nk [of c] nk [of "import_changes n k c"] by simp
  then show ?thesis using nk [of c] by (simp add: import_changes_idem)
qed

lemma fold_effect_snoc_fixed:
  assumes "fold row_effect rows c = c"
  shows "fold row_effect (rows @ [r]) (row_effect r c) = row_effect r c"
proof (cases r)
  case (ParseError i p e)
  then show ?thesis using assms by simp
next
  case (ParsedContactRow i p n k)
  show ?thesis
  proof (cases "ct_phone c = p")
    case True
    obtain n' k' where nk: "\<And>d. ct_phone d = p \<Longrightarrow> fold row_effect rows d = import_changes n' k' d"
      using fold_effect_form [of p rows] by blast
    have "c = import_changes n' k' c" using assms nk [OF True] by simp
    then have "row_effect r c = import_changes n k (import_changes n' k' c)" using True ParsedContactRow by simp
    moreover have "fold row_effect (rows @ [r]) (row_effect r c)
        = import_changes n k (import_changes n' k' (import_changes n k c))"
      using True ParsedContactRow nk [of "import_changes n k c"] by simp
    ultimately show ?thesis by (simp add: import_changes_compose)
  next
    case False
    then show ?thesis using assms ParsedContactRow by simp
  qed
qed

lemma fold_effect_other:
  "(\<And>r. r \<in> set rows \<Longrightarrow> row_phone r \<noteq> Some (ct_phone c)) \<Longrightarrow> fold row_effect rows c = c"
proof (induction rows)
  case (Cons r rows)
  then have "row_phone r \<noteq> Some (ct_phone c)" by simp
  then have "row_effect r c = c" by (cases r) auto
  then show ?case using Cons by simp
qed simp

text \<open>One row of the file, for a known phone and for a new one.\<close>

lemma import_row_known:
  assumes "contact_inv s" "get_by_phone p s = Some c"
  shows "import_row (ParsedContactRow i p n k) (r, s) =
    (r\<lparr>ir_total_rows := ir_total_rows r + 1, ir_updated := ir_updated r + 1\<rparr>,
     s\<lparr>crm_contacts := map (row_effect (ParsedContactRow i p n k)) (crm_contacts s)\<rparr>)"
proof -
  have c: "c \<in> set (crm_contacts s)" "ct_phone c = p" using get_by_Some [OF assms(2) [unfolded get_by_phone_def]] by auto
  have same: "ct_id x = ct_id c \<longleftrightarrow> ct_phone x = p" if "x \<in> set (crm_contacts s)" for x
    using assms(1) that c by (auto simp: contact_inv_def distinct_map inj_on_def)
  have "upd_by ct_id (ct_id c) (import_changes n k) (crm_contacts s)
      = map (row_effect (ParsedContactRow i p n k)) (crm_contacts s)"
    unfolding upd_by_def by (rule map_cong [OF refl]) (simp add: same)
  moreover have "map (row_effect (ParsedContactRow i p n k)) (crm_contacts s) = crm_contacts s"
    if "import_changes n k c = c"
  proof (rule map_idI)
    fix x assume x: "x \<in> set (crm_contacts s)"
    have "ct_phone x = p \<Longrightarrow> x = c"
      using same [OF x] x c assms(1) by (auto simp: contact_inv_def distinct_map inj_on_def)
    then show "row_effect (ParsedContactRow i p n k) x = x" using that by auto
  qed
  ultimately show ?thesis using assms(2)
    by (auto simp: upsert_by_phone_def blank_def Let_def upd_contact_def)
qed

lemma import_row_new:
  assumes "contact_inv s" "get_by_phone p s = None"
  shows "import_row (ParsedContactRow i p n k) (r, s) =
    (r\<lparr>ir_total_rows := ir_total_rows r + 1, ir_created := ir_created r + 1\<rparr>,
     s\<lparr>next_id := Suc (next_id s), crm_contacts := map (row_effect (ParsedContactRow i p n k))
        (crm_contacts s @ [(new_contact (next_id s) p)\<lparr>ct_name := n\<rparr>])\<rparr>)"
proof -
  let ?c = "(new_contact (next_id s) p)\<lparr>ct_name := n\<rparr>"
  have p: "p \<notin> ct_phone ` set (crm_contacts s)" using assms(2) by (simp add: get_by_phone_def get_by_None_iff)
  have keys: "ct_id ?c = next_id s" "ct_phone ?c = p" by (simp_all add: new_contact_def)
  have ups: "upsert_by_phone p n None s = Inr (?c, s\<lparr>next_id := Suc (next_id s), crm_contacts := crm_contacts s @ [?c]\<rparr>)"
    using assms(2) p by (simp add: upsert_by_phone_def fresh_id_def contact_insert_def new_contact_def Let_def)
  have others: "map (row_effect (ParsedContactRow i p n k)) (crm_contacts s) = crm_contacts s"
    using p by (intro map_idI) auto
  have "next_id s \<notin> ct_id ` set (crm_contacts s)" using assms(1) by (auto simp: contact_inv_def)
  then have upd: "upd_by ct_id (next_id s) (import_changes n k) (crm_contacts s) = crm_contacts s"
    by (rule upd_by_other)
  show ?thesis
  proof (cases "import_changes n k ?c = ?c")
    case True
    then show ?thesis using assms(2) by (simp add: ups others keys)
  next
    case False
    then show ?thesis using assms(2) by (simp add: ups others keys upd_contact_def upd)
  qed
qed

text \<open>A run over a whole file: what it fixes, and what it counts.\<close>

definition covers :: "csv_row list \<Rightarrow> 'a crm_scheme \<Rightarrow> bool" where
  "covers rows s = (\<forall>r\<in>set rows. \<forall>p. row_phone r = Some p \<longrightarrow> p \<in> ct_phone ` set (crm_contacts s))"

lemma import_row_cases:
  assumes "contact_inv s"
  obtains (skipped) i q e where "row = ParseError i q e" "import_row row (r, s) = (import_skip i q e
      (r\<lparr>ir_total_rows := ir_total_rows r + 1\<rparr>), s)"
  | (known) i p n k where "row = ParsedContactRow i p n k" "p \<in> ct_phone ` set (crm_contacts s)"
      "import_row row (r, s) = (r\<lparr>ir_total_rows := ir_total_rows r + 1, ir_updated := ir_updated r + 1\<rparr>,
        s\<lparr>crm_contacts := map (row_effect row) (crm_contacts s)\<rparr>)"
  | (created) i p n k where "row = ParsedContactRow i p n k" "p \<notin> ct_phone ` set (crm_contacts s)"
      "import_row row (r, s) = (r\<lparr>ir_total_rows := ir_total_rows r + 1, ir_created := ir_created r + 1\<rparr>,
        s\<lparr>next_id := Suc (next_id s), crm_contacts := map (row_effect row)
          (crm_contacts s @ [(new_contact (next_id s) p)\<lparr>ct_name := n\<rparr>])\<rparr>)"
proof (cases row)
  case (ParseError i q e)
  then show ?thesis using skipped by simp
next
  case (ParsedContactRow i p n k)
  show ?thesis
  proof (cases "get_by_phone p s")
    case None
    then have "p \<notin> ct_phone ` set (crm_contacts s)" by (simp add: get_by_phone_def get_by_None_iff)
    then show ?thesis by (rule created [OF ParsedContactRow])
      (simp only: ParsedContactRow import_row_new [OF assms None])
  next
    case (Some c)
    have "p \<in> ct_phone ` set (crm_contacts s)"
      using get_by_Some [OF Some [unfolded get_by_phone_def]] by auto
    then show ?thesis by (rule known [OF ParsedContactRow])
      (simp only: ParsedContactRow import_row_known [OF assms Some])
  qed
qed

lemma import_fixes:
  assumes "contact_inv s" "phones_ok rows"
  shows "covers rows (snd (fold import_row rows (r, s)))
    \<and> (\<forall>c\<in>set (crm_contacts (snd (fold import_row rows (r, s)))). fold row_effect rows c = c)"
  using assms(2)
proof (induction rows rule: rev_induct)
  case Nil
  then show ?case by (simp add: covers_def)
next
  case (snoc row rows)
  obtain r1 s1 where run: "fold import_row rows (r, s) = (r1, s1)" by (cases "fold import_row rows (r, s)")
  have ih: "covers rows s1" "\<forall>c\<in>set (crm_contacts s1). fold row_effect rows c = c"
    using snoc by (simp_all add: run)
  have inv: "contact_inv s1"
    using import_fold_inv [OF assms(1), of rows r] snoc.prems by (simp add: run)
  from inv show ?case
  proof (cases rule: import_row_cases [where row = row and r = r1])
    case (skipped i q e)
    then show ?thesis using ih by (simp add: run covers_def)
  next
    case (known i p n k)
    have eq: "crm_contacts (snd (import_row row (r1, s1))) = map (row_effect row) (crm_contacts s1)"
      by (simp add: known(3))
    have "ct_phone ` set (map (row_effect row) (crm_contacts s1)) = ct_phone ` set (crm_contacts s1)"
      by (simp add: image_image)
    then have "covers (rows @ [row]) (snd (import_row row (r1, s1)))"
      using ih(1) known(1,2) unfolding covers_def eq by auto
    moreover have "\<forall>d\<in>set (crm_contacts (snd (import_row row (r1, s1)))). fold row_effect (rows @ [row]) d = d"
    proof
      fix d assume "d \<in> set (crm_contacts (snd (import_row row (r1, s1))))"
      then obtain x where x: "x \<in> set (crm_contacts s1)" "d = row_effect row x" unfolding eq by auto
      show "fold row_effect (rows @ [row]) d = d"
        unfolding x(2) by (rule fold_effect_snoc_fixed) (use ih(2) x(1) in blast)
    qed
    ultimately show ?thesis by (simp only: fold_append o_apply run fold_simps id_apply)
  next
    case (created i p n k)
    let ?c = "(new_contact (next_id s1) p)\<lparr>ct_name := n\<rparr>"
    have c: "ct_phone ?c = p" by (simp add: new_contact_def)
    have "fold row_effect rows ?c = ?c"
      by (rule fold_effect_other) (use ih(1) created(2) c in \<open>auto simp: covers_def\<close>)
    then have fixed: "\<forall>d\<in>set (crm_contacts s1 @ [?c]). fold row_effect (rows @ [row]) (row_effect row d) = row_effect row d"
      using ih(2) fold_effect_snoc_fixed by auto
    have eq: "crm_contacts (snd (import_row row (r1, s1))) = map (row_effect row) (crm_contacts s1 @ [?c])"
      by (simp add: created(3))
    have "ct_phone ` set (map (row_effect row) (crm_contacts s1 @ [?c])) = insert p (ct_phone ` set (crm_contacts s1))"
      by (simp add: image_image c)
    then have "covers (rows @ [row]) (snd (import_row row (r1, s1)))"
      using ih(1) created(1) unfolding covers_def eq by auto
    moreover have "\<forall>d\<in>set (crm_contacts (snd (import_row row (r1, s1)))). fold row_effect (rows @ [row]) d = d"
      using fixed unfolding eq by auto
    ultimately show ?thesis by (simp only: fold_append o_apply run fold_simps id_apply)
  qed
qed

lemma import_counts:
  assumes "contact_inv s" "phones_ok rows"
    and "fold import_row rows (r, s) = (r', s')"
  shows "ir_created r' + ir_updated r' = ir_created r + ir_updated r + length (filter (\<lambda>x. row_phone x \<noteq> None) rows)
    \<and> ir_skipped r' = ir_skipped r + length (filter (\<lambda>x. row_phone x = None) rows)"
  using assms
proof (induction rows arbitrary: r s)
  case (Cons row rows)
  obtain r1 s1 where one: "import_row row (r, s) = (r1, s1)" by (cases "import_row row (r, s)")
  have "contact_inv (snd (import_row row (r, s)))" using import_row_inv Cons.prems phones_ok_Cons by blast
  then have inv: "contact_inv s1" by (simp add: one)
  from Cons.prems(3) have "fold import_row rows (r1, s1) = (r', s')" by (simp add: one)
  moreover have "phones_ok rows" using phones_ok_Cons(2) [OF Cons.prems(2)] .
  ultimately have rest: "ir_created r' + ir_updated r' = ir_created r1 + ir_updated r1 + length (filter (\<lambda>x. row_phone x \<noteq> None) rows)
    \<and> ir_skipped r' = ir_skipped r1 + length (filter (\<lambda>x. row_phone x = None) rows)"
    using Cons.IH [OF inv] by blast
  show ?case
    using Cons.prems(1)
    by (cases rule: import_row_cases [where row = row and r = r]) (use one rest in \<open>auto simp: import_skip_def\<close>)
qed simp

lemma import_again:
  assumes "contact_inv s" "covers rows s" "fold import_row rows (r, s) = (r', s')"
    and "phones_ok rows"
  shows "crm_contacts s' = map (fold row_effect rows) (crm_contacts s) \<and> ir_created r' = ir_created r"
  using assms
proof (induction rows arbitrary: r s)
  case Nil
  then show ?case by (simp add: map_idI)
next
  case (Cons row rows)
  obtain r1 s1 where one: "import_row row (r, s) = (r1, s1)" by (cases "import_row row (r, s)")
  have "contact_inv (snd (import_row row (r, s)))" using import_row_inv Cons.prems phones_ok_Cons by blast
  then have inv: "contact_inv s1" by (simp add: one)
  from Cons.prems(1) have step: "crm_contacts s1 = map (row_effect row) (crm_contacts s) \<and> ir_created r1 = ir_created r"
  proof (cases rule: import_row_cases [where row = row and r = r])
    case (skipped i q e)
    then show ?thesis using one by (auto simp: import_skip_def map_idI)
  next
    case (known i p n k)
    then show ?thesis using one by auto
  next
    case (created i p n k)
    then show ?thesis using Cons.prems(2) by (simp add: covers_def)
  qed
  then have "ct_phone ` set (crm_contacts s1) = ct_phone ` set (crm_contacts s)" by (simp add: image_image)
  then have "covers rows s1" using Cons.prems(2) by (simp add: covers_def)
  moreover from Cons.prems(3) have "fold import_row rows (r1, s1) = (r', s')" by (simp add: one)
  ultimately have "crm_contacts s' = map (fold row_effect rows) (crm_contacts s1) \<and> ir_created r' = ir_created r1"
    using Cons.IH [OF inv] phones_ok_Cons(2) [OF Cons.prems(4)] by blast
  then show ?case using step by (simp add: comp_def)
qed

text \<open>Importing the same file a second time changes no contact: it creates none, reports as updated
  every row the first import created or updated, and skips the same rows.\<close>

theorem import_idempotent:
  assumes "contact_inv s" "import_csv hs rows a s = (r1, s1)" "import_csv hs rows a s1 = (r2, s2)"
  shows "crm_contacts s2 = crm_contacts s1 \<and> ir_created r2 = 0
    \<and> ir_updated r2 = ir_created r1 + ir_updated r1 \<and> ir_skipped r2 = ir_skipped r1"
proof -
  define parsed where "parsed = parse_csv max_import_rows hs rows"
  have ok: "phones_ok parsed" unfolding parsed_def by (rule parsed_phones)
  show ?thesis
  proof (cases "parsed = [ParseError 1 None ''csv_missing_phone_column'']")
    case True
    then show ?thesis using assms(2,3) by (auto simp: import_csv_def parsed_def [symmetric] empty_receipt_def)
  next
    case False
    obtain t1 where t1: "fold import_row parsed (empty_receipt, s) = (r1, t1)" "s1 = contact_audit (Some a) ''contact.imported_csv'' None t1"
      using assms(2) False by (auto simp: import_csv_def parsed_def [symmetric] Let_def split: prod.splits)
    obtain t2 where t2: "fold import_row parsed (empty_receipt, s1) = (r2, t2)" "s2 = contact_audit (Some a) ''contact.imported_csv'' None t2"
      using assms(3) False by (auto simp: import_csv_def parsed_def [symmetric] Let_def split: prod.splits)
    have same: "crm_contacts s1 = crm_contacts t1" "crm_contacts s2 = crm_contacts t2"
      by (simp_all add: t1(2) t2(2) contact_audit_def audit_append_def)
    have inv: "contact_inv s1" using import_fold_inv [OF assms(1) ok, where r = empty_receipt] by (simp add: t1)
    have fixes1: "covers parsed s1" "\<forall>c\<in>set (crm_contacts s1). fold row_effect parsed c = c"
      using import_fixes [OF assms(1) ok, where r = empty_receipt] by (simp_all add: t1(1) same covers_def)
    from import_again [OF inv fixes1(1) t2(1) ok]
    have again: "crm_contacts s2 = map (fold row_effect parsed) (crm_contacts s1)" "ir_created r2 = 0"
      by (simp_all add: same empty_receipt_def)
    have "crm_contacts s2 = crm_contacts s1" using fixes1(2) by (simp add: again(1) map_idI)
    then show ?thesis using again(2) import_counts [OF assms(1) ok t1(1)] import_counts [OF inv ok t2(1)]
      by (simp add: empty_receipt_def)
  qed
qed

theorem import_idempotent_witness:
  "ir_created (fst (import_csv (Some [''phone'', ''name'']) [[''phone'' \<mapsto> ''+971 50 765 4321'', ''name'' \<mapsto> ''Sara'']] 1
     (snd (import_csv (Some [''phone'', ''name'']) [[''phone'' \<mapsto> ''+971 50 765 4321'', ''name'' \<mapsto> ''Sara'']] 1 demo_contacts)))) = 0"
  using import_idempotent [OF demo_contacts_inv surjective_pairing surjective_pairing,
    of "Some [''phone'', ''name'']" "[[''phone'' \<mapsto> ''+971 50 765 4321'', ''name'' \<mapsto> ''Sara'']]" 1] by blast

end
