(* ===== verification/Categorization.thy ===== *)
theory Categorization
  imports Conversations Outreach
begin

text \<open>
  Tags, the tags of contacts and the suggestions of the AI (backend/app/modules/categorization). The record
  \<open>ai_crm\<close> extends the CRM with the tables \<open>tag_suggestions\<close> and \<open>ai_events\<close>. Texts are the bytes of their
  UTF-8 encoding; \<open>strip\<close> takes off the ASCII spaces and ILIKE folds the ASCII letters. The JSON
  snapshots of the audit rows and the rounding of a confidence to three places are left out.
\<close>

section \<open>State\<close>

datatype suggestion_status = TSG_PENDING | TSG_APPROVED | TSG_REJECTED

record tag_suggestion =
  sg_id :: uuid
  sg_contact_id :: uuid
  sg_tag_id :: uuid
  sg_confidence :: "rat option"
  sg_reason :: "string option"
  sg_status :: suggestion_status
  sg_reviewed_by :: "uuid option"
  sg_reviewed_at :: "int option"
  sg_created_at :: int

record ai_event =
  ev_id :: uuid
  ev_conversation_id :: uuid
  ev_intent :: "string option"
  ev_confidence :: "rat option"
  ev_error :: "string option"
  ev_created_at :: int

record ai_crm = crm +
  tag_suggestions :: "tag_suggestion list"
  ai_events :: "ai_event list"

section \<open>Requests\<close>

record tag_request =
  tr_name :: string
  tr_description :: "string option"
  tr_color :: "string option"

definition hex_digit :: "char \<Rightarrow> bool" where
  "hex_digit c = ((of_char c :: nat) \<in> {48..57} \<union> {65..70} \<union> {97..102})"

text \<open>\<open>re.match("^#[0-9A-Fa-f]{6}$", v)\<close>; the dollar also matches before a final newline.\<close>

definition color_ok :: "string option \<Rightarrow> bool" where
  "color_ok color = (case color of None \<Rightarrow> True
     | Some v \<Rightarrow> (case v of [] \<Rightarrow> False
         | c # ds \<Rightarrow> c = CHR ''#'' \<and> 6 \<le> length ds \<and> list_all hex_digit (take 6 ds) \<and> drop 6 ds \<in> {[], [CHR 10]}))"

text \<open>The number of code points: every byte but the continuation bytes.\<close>

definition code_points :: "string \<Rightarrow> nat" where
  "code_points w = length (filter (\<lambda>c. (of_char c :: nat) div 64 \<noteq> 2) w)"

definition tag_name_ok :: "string \<Rightarrow> bool" where
  "tag_name_ok w = (1 \<le> code_points w \<and> code_points w \<le> 100)"

definition tag_desc_ok :: "string option \<Rightarrow> bool" where
  "tag_desc_ok d = (case d of None \<Rightarrow> True | Some w \<Rightarrow> code_points w \<le> 2000)"

definition parse_tag_create :: "tag_request \<Rightarrow> err + tag_request" where
  "parse_tag_create rq =
     (let rq1 = rq\<lparr>tr_name := strip_ascii (tr_name rq), tr_description := map_option strip_ascii (tr_description rq)\<rparr>
      in ebind (ensure (tag_name_ok (tr_name rq1) \<and> tag_desc_ok (tr_description rq1) \<and> color_ok (tr_color rq1)) ValueError)
           (\<lambda>_. Inr rq1))"

text \<open>The fields of a partial update: not named, or named with a value or null.\<close>

record tag_update =
  tu_name :: "string option option"
  tu_description :: "string option option"
  tu_color :: "string option option"

definition parse_tag_update :: "tag_update \<Rightarrow> err + tag_update" where
  "parse_tag_update u =
     (let u1 = u\<lparr>tu_name := map_option (map_option strip_ascii) (tu_name u),
                 tu_description := map_option (map_option strip_ascii) (tu_description u)\<rparr>
      in ebind (ensure ((case tu_name u1 of Some (Some w) \<Rightarrow> tag_name_ok w | _ \<Rightarrow> True)
                 \<and> (case tu_description u1 of Some d \<Rightarrow> tag_desc_ok d | None \<Rightarrow> True)
                 \<and> (case tu_color u1 of Some c \<Rightarrow> color_ok c | None \<Rightarrow> True)) ValueError)
           (\<lambda>_. Inr u1))"

section \<open>Repositories\<close>

definition get_tag :: "uuid \<Rightarrow> 'a crm_scheme \<Rightarrow> tag option" where
  "get_tag i s = get_by tg_id i (tags s)"

definition get_suggestion :: "uuid \<Rightarrow> 'a ai_crm_scheme \<Rightarrow> tag_suggestion option" where
  "get_suggestion i s = get_by sg_id i (tag_suggestions s)"

definition list_all_tags :: "'a crm_scheme \<Rightarrow> tag list" where
  "list_all_tags s = sort_key tg_name (tags s)"

text \<open>The LIKE of SQL: percent for any text, underscore for one character, backslash before a literal.\<close>

fun sql_like :: "string \<Rightarrow> string \<Rightarrow> bool" where
  "sql_like [] w = (w = [])"
| "sql_like (p # ps) w =
     (if p = CHR ''%'' then list_ex (\<lambda>n. sql_like ps (drop n w)) [0..<Suc (length w)]
      else case w of
        [] \<Rightarrow> False
      | c # cs \<Rightarrow>
          if p = CHR ''_'' then sql_like ps cs
          else if p = CHR 92 then (case ps of [] \<Rightarrow> False | q # qs \<Rightarrow> q = c \<and> sql_like qs cs)
          else p = c \<and> sql_like ps cs)"

definition ilike :: "string \<Rightarrow> string \<Rightarrow> bool" where
  "ilike pattern w = sql_like (lower pattern) (lower w)"

definition count_contact_links :: "uuid \<Rightarrow> 'a crm_scheme \<Rightarrow> nat" where
  "count_contact_links tag_id s = length (filter (\<lambda>l. ctg_tag_id l = tag_id) (contact_tags s))"

definition count_pending_suggestions :: "uuid \<Rightarrow> 'a ai_crm_scheme \<Rightarrow> nat" where
  "count_pending_suggestions tag_id s =
     length (filter (\<lambda>g. sg_tag_id g = tag_id \<and> sg_status g = TSG_PENDING) (tag_suggestions s))"

definition list_paginated_tags :: "string option \<Rightarrow> nat \<Rightarrow> nat \<Rightarrow> 'a crm_scheme \<Rightarrow> (tag \<times> nat) list \<times> nat" where
  "list_paginated_tags q limit offset s =
     (let rows = filter (\<lambda>t. case q of None \<Rightarrow> True | Some w \<Rightarrow> w = [] \<or> ilike (CHR ''%'' # w @ ''%'') (tg_name t)) (tags s)
      in (map (\<lambda>t. (t, count_contact_links (tg_id t) s)) (take limit (drop offset (sort_key tg_name rows))), length rows))"

definition list_filtered_suggestions ::
  "suggestion_status option \<Rightarrow> uuid option \<Rightarrow> int \<Rightarrow> nat \<Rightarrow> 'a ai_crm_scheme \<Rightarrow> tag_suggestion list \<times> nat" where
  "list_filtered_suggestions status contact_id page page_size s =
     (let rows = filter (\<lambda>g. (case status of None \<Rightarrow> True | Some st \<Rightarrow> sg_status g = st)
                   \<and> (case contact_id of None \<Rightarrow> True | Some k \<Rightarrow> sg_contact_id g = k)) (tag_suggestions s)
      in (take page_size (drop (nat (max 0 ((page - 1) * int page_size))) (sort_key sg_created_at rows)), length rows))"

section \<open>CategorizationService\<close>

definition tag_audit :: "uuid \<Rightarrow> string \<Rightarrow> string \<Rightarrow> uuid \<Rightarrow> 'a session_scheme \<Rightarrow> 'a session_scheme" where
  "tag_audit actor_id action entity_type entity_id s = audit_append
     \<lparr>au_actor_type = ''user'', au_actor_id = Some actor_id, au_action = action, au_entity_type = entity_type,
      au_entity_id = Some entity_id\<rparr> s"

definition create_suggestion ::
  "uuid \<Rightarrow> string \<Rightarrow> rat option \<Rightarrow> string option \<Rightarrow> 'a ai_crm_scheme \<Rightarrow> err + uuid \<times> 'a ai_crm_scheme" where
  "create_suggestion contact_id tag_name confidence reason s =
     (let (t, s1) = ensure_tag tag_name s in
      ebind (ensure (contact_id \<in> ct_id ` set (crm_contacts s1)) (IntegrityError ''tag_suggestions_contact_id_fkey'')) (\<lambda>_.
      let (i, s2) = fresh_id s1
      in Inr (i, s2\<lparr>tag_suggestions := tag_suggestions s2 @
           [\<lparr>sg_id = i, sg_contact_id = contact_id, sg_tag_id = t, sg_confidence = confidence, sg_reason = reason,
             sg_status = TSG_PENDING, sg_reviewed_by = None, sg_reviewed_at = None, sg_created_at = clock s2\<rparr>]\<rparr>)))"

definition list_tags_paginated :: "string option \<Rightarrow> int \<Rightarrow> int \<Rightarrow> 'a crm_scheme \<Rightarrow> (tag \<times> nat) list \<times> nat" where
  "list_tags_paginated q limit offset s =
     list_paginated_tags q (nat (max 1 (min limit 500))) (nat (max 0 offset)) s"

definition create_tag :: "tag_request \<Rightarrow> uuid \<Rightarrow> 'a crm_scheme \<Rightarrow> err + uuid \<times> 'a crm_scheme" where
  "create_tag payload actor_id s =
     ebind (ensure (tag_by_name (tr_name payload) s = None) ConflictError) (\<lambda>_.
     let (i, s1) = fresh_id s;
         row = \<lparr>tg_id = i, tg_name = tr_name payload, tg_description = tr_description payload, tg_color = tr_color payload\<rparr>
     in Inr (i, tag_audit actor_id ''create'' ''tag'' i (s1\<lparr>tags := tags s1 @ [row]\<rparr>)))"

text \<open>\<open>setattr\<close> for the fields that differ; a name that is set to null violates the column.\<close>

definition named :: "'v option \<Rightarrow> 'v \<Rightarrow> 'v" where
  "named proposed old = (case proposed of None \<Rightarrow> old | Some v \<Rightarrow> v)"

definition update_tag :: "uuid \<Rightarrow> tag_update \<Rightarrow> uuid \<Rightarrow> 'a crm_scheme \<Rightarrow> err + 'a crm_scheme" where
  "update_tag i payload actor_id s =
     ebind (from_opt NotFoundError (get_tag i s)) (\<lambda>tag.
     let name = named (tu_name payload) (Some (tg_name tag));
         description = named (tu_description payload) (tg_description tag);
         color = named (tu_color payload) (tg_color tag) in
     ebind (ensure (name \<noteq> Some (tg_name tag) \<or> description \<noteq> tg_description tag \<or> color \<noteq> tg_color tag) ConflictError) (\<lambda>_.
     ebind (ensure (name = Some (tg_name tag)
              \<or> (case Option.bind name (\<lambda>n. tag_by_name n s) of None \<Rightarrow> True | Some taken \<Rightarrow> tg_id taken = i)) ConflictError) (\<lambda>_.
     case name of
       None \<Rightarrow> Inl (IntegrityError ''tags.name'')
     | Some n \<Rightarrow> Inr (tag_audit actor_id ''update'' ''tag'' i
         (s\<lparr>tags := upd_by tg_id i (\<lambda>t. t\<lparr>tg_name := n, tg_description := description, tg_color := color\<rparr>) (tags s)\<rparr>)))))"

text \<open>The ORM deletes the links and the suggestions with the tag.\<close>

definition delete_tag :: "uuid \<Rightarrow> uuid \<Rightarrow> 'a ai_crm_scheme \<Rightarrow> err + 'a ai_crm_scheme" where
  "delete_tag i actor_id s =
     ebind (from_opt NotFoundError (get_tag i s)) (\<lambda>tag.
     ebind (ensure (count_contact_links i s = 0 \<and> count_pending_suggestions i s = 0) ConflictError) (\<lambda>_.
     Inr (tag_audit actor_id ''delete'' ''tag'' i
       (s\<lparr>tags := filter (\<lambda>t. tg_id t \<noteq> i) (tags s),
          contact_tags := filter (\<lambda>l. ctg_tag_id l \<noteq> i) (contact_tags s),
          tag_suggestions := filter (\<lambda>g. sg_tag_id g \<noteq> i) (tag_suggestions s)\<rparr>))))"

definition list_contact_tags :: "uuid \<Rightarrow> 'a crm_scheme \<Rightarrow> contact_tag list" where
  "list_contact_tags contact_id s = filter (\<lambda>l. ctg_contact_id l = contact_id) (contact_tags s)"

text \<open>\<open>INSERT ... ON CONFLICT DO NOTHING\<close>, with the foreign key of a row that is inserted.\<close>

definition attach_link :: "uuid \<Rightarrow> uuid \<Rightarrow> uuid \<Rightarrow> 'a crm_scheme \<Rightarrow> err + 'a crm_scheme" where
  "attach_link contact_id tag_id approver_id s =
     ebind (ensure (has_tag contact_id tag_id s \<or> contact_id \<in> ct_id ` set (crm_contacts s))
              (IntegrityError ''contact_tags_contact_id_fkey'')) (\<lambda>_.
     Inr (attach_tag contact_id tag_id (Some approver_id) s))"

definition apply_tag :: "uuid \<Rightarrow> uuid \<Rightarrow> uuid \<Rightarrow> 'a crm_scheme \<Rightarrow> err + 'a crm_scheme" where
  "apply_tag contact_id tag_id actor_id s =
     ebind (from_opt NotFoundError (get_tag tag_id s)) (\<lambda>tag.
     ebind (attach_link contact_id tag_id actor_id s) (\<lambda>s1.
     Inr (tag_audit actor_id ''contact.tag_applied'' ''contact'' contact_id s1)))"

definition remove_tag :: "uuid \<Rightarrow> uuid \<Rightarrow> uuid \<Rightarrow> 'a crm_scheme \<Rightarrow> 'a crm_scheme" where
  "remove_tag contact_id tag_id actor_id s =
     tag_audit actor_id ''contact.tag_removed'' ''contact'' contact_id (detach_tag contact_id tag_id s)"

definition list_suggestions ::
  "suggestion_status option \<Rightarrow> uuid option \<Rightarrow> int \<Rightarrow> nat \<Rightarrow> 'a ai_crm_scheme \<Rightarrow> tag_suggestion list \<times> nat" where
  "list_suggestions status contact_id page page_size s =
     list_filtered_suggestions (Some (case status of None \<Rightarrow> TSG_PENDING | Some st \<Rightarrow> st)) contact_id page page_size s"

definition review_suggestion ::
  "uuid \<Rightarrow> uuid \<Rightarrow> suggestion_status \<Rightarrow> string \<Rightarrow> 'a ai_crm_scheme \<Rightarrow> err + tag_suggestion \<times> 'a ai_crm_scheme" where
  "review_suggestion i reviewer_id new_status audit_action s =
     ebind (from_opt NotFoundError (get_suggestion i s)) (\<lambda>suggestion.
     ebind (ensure (sg_status suggestion = TSG_PENDING) StateTransitionError) (\<lambda>_.
     let f = (\<lambda>g. g\<lparr>sg_status := new_status, sg_reviewed_by := Some reviewer_id, sg_reviewed_at := Some (clock s)\<rparr>)
     in Inr (f suggestion, tag_audit reviewer_id audit_action ''TagSuggestion'' i
          (s\<lparr>tag_suggestions := upd_by sg_id i f (tag_suggestions s)\<rparr>))))"

definition approve_suggestion :: "uuid \<Rightarrow> uuid \<Rightarrow> 'a ai_crm_scheme \<Rightarrow> err + 'a ai_crm_scheme" where
  "approve_suggestion i reviewer_id s =
     ebind (review_suggestion i reviewer_id TSG_APPROVED ''approve'' s) (\<lambda>(suggestion, s1).
     attach_link (sg_contact_id suggestion) (sg_tag_id suggestion) reviewer_id s1)"

definition reject_suggestion :: "uuid \<Rightarrow> uuid \<Rightarrow> 'a ai_crm_scheme \<Rightarrow> err + 'a ai_crm_scheme" where
  "reject_suggestion i reviewer_id s =
     ebind (review_suggestion i reviewer_id TSG_REJECTED ''reject'' s) (\<lambda>(suggestion, s1). Inr s1)"

lemmas categorization_evals = hex_digit_def color_ok_def code_points_def tag_name_ok_def tag_desc_ok_def
  parse_tag_create_def parse_tag_update_def get_tag_def get_suggestion_def list_all_tags_def ilike_def
  count_contact_links_def count_pending_suggestions_def list_paginated_tags_def list_filtered_suggestions_def
  tag_audit_def create_suggestion_def list_tags_paginated_def create_tag_def named_def update_tag_def
  delete_tag_def list_contact_tags_def attach_link_def apply_tag_def remove_tag_def list_suggestions_def
  review_suggestion_def approve_suggestion_def reject_suggestion_def

declare categorization_evals [evals]

end
