(* ===== verification/CategorizationProps.thy ===== *)
theory CategorizationProps
  imports Categorization
begin

text \<open>
  Tags as a transition system: \<open>tag_step\<close> is every operation on tags, links and suggestions. The
  references between the three tables stay sound, and a suggestion is decided once.
\<close>

inductive tag_step :: "'a ai_crm_scheme \<Rightarrow> 'a ai_crm_scheme \<Rightarrow> bool" where
  create: "create_tag rq a s = Inr (i, s') \<Longrightarrow> tag_step s s'"
| update: "update_tag i u a s = Inr s' \<Longrightarrow> tag_step s s'"
| delete: "delete_tag i a s = Inr s' \<Longrightarrow> tag_step s s'"
| apply_by_hand: "apply_tag k i a s = Inr s' \<Longrightarrow> tag_step s s'"
| remove: "tag_step s (remove_tag k i a s)"
| suggest: "create_suggestion k n c r s = Inr (i, s') \<Longrightarrow> tag_step s s'"
| approve: "approve_suggestion i a s = Inr s' \<Longrightarrow> tag_step s s'"
| reject: "reject_suggestion i a s = Inr s' \<Longrightarrow> tag_step s s'"
| automatic: "tag_step s (auto_tag k n s)"
| elsewhere: "tags s' = tags s \<Longrightarrow> contact_tags s' = contact_tags s \<Longrightarrow> tag_suggestions s' = tag_suggestions s
    \<Longrightarrow> next_id s \<le> next_id s' \<Longrightarrow> tag_step s s'"

inductive_cases tag_stepE: "tag_step s s'"

definition tag_inv :: "'a ai_crm_scheme \<Rightarrow> bool" where
  "tag_inv s =
     (distinct (map tg_id (tags s)) \<and> distinct (map tg_name (tags s)) \<and> (\<forall>t\<in>set (tags s). tg_id t < next_id s)
      \<and> distinct (map (\<lambda>l. (ctg_contact_id l, ctg_tag_id l)) (contact_tags s))
      \<and> (\<forall>l\<in>set (contact_tags s). ctg_tag_id l \<in> tg_id ` set (tags s))
      \<and> distinct (map sg_id (tag_suggestions s))
      \<and> (\<forall>g\<in>set (tag_suggestions s). sg_id g < next_id s \<and> sg_tag_id g \<in> tg_id ` set (tags s)
           \<and> (sg_status g = TSG_PENDING) = (sg_reviewed_by g = None)))"

text \<open>What happens to the suggestions: a decided one stays as it is until its tag is deleted, and none comes back.\<close>

definition suggestions_move :: "'a ai_crm_scheme \<Rightarrow> 'b ai_crm_scheme \<Rightarrow> bool" where
  "suggestions_move s s' =
     (next_id s \<le> next_id s'
      \<and> (\<forall>i. (i < next_id s \<and> get_suggestion i s = None \<longrightarrow> get_suggestion i s' = None)
           \<and> (\<forall>g g'. get_suggestion i s = Some g \<and> get_suggestion i s' = Some g' \<longrightarrow>
                sg_contact_id g' = sg_contact_id g \<and> sg_tag_id g' = sg_tag_id g
                \<and> (sg_status g \<noteq> TSG_PENDING \<longrightarrow> g' = g))))"

definition tag_good :: "'a ai_crm_scheme \<Rightarrow> 'a ai_crm_scheme \<Rightarrow> bool" where
  "tag_good s s' = (next_id s \<le> next_id s' \<and> (tag_inv s \<longrightarrow> tag_inv s' \<and> suggestions_move s s'))"

lemma suggestions_move_refl [simp]: "suggestions_move s s"
  by (auto simp: suggestions_move_def)

lemma suggestions_move_trans:
  assumes "suggestions_move s t" "suggestions_move t u" "tag_inv s"
  shows "suggestions_move s u"
proof -
  have le: "next_id s \<le> next_id t" "next_id t \<le> next_id u" using assms by (simp_all add: suggestions_move_def)
  have "sg_contact_id g' = sg_contact_id g \<and> sg_tag_id g' = sg_tag_id g \<and> (sg_status g \<noteq> TSG_PENDING \<longrightarrow> g' = g)"
    if g: "get_suggestion i s = Some g" and g': "get_suggestion i u = Some g'" for i g g'
  proof -
    have "i < next_id s" using assms(3) get_by_Some [OF g [unfolded get_suggestion_def]] by (auto simp: tag_inv_def)
    then have "i < next_id t" using le by simp
    then obtain h where h: "get_suggestion i t = Some h"
      using assms(2) g' unfolding suggestions_move_def by (metis option.distinct(1) option.exhaust)
    have "sg_contact_id h = sg_contact_id g \<and> sg_tag_id h = sg_tag_id g \<and> (sg_status g \<noteq> TSG_PENDING \<longrightarrow> h = g)"
      using assms(1) g h unfolding suggestions_move_def by blast
    moreover have "sg_contact_id g' = sg_contact_id h \<and> sg_tag_id g' = sg_tag_id h \<and> (sg_status h \<noteq> TSG_PENDING \<longrightarrow> g' = h)"
      using assms(2) h g' unfolding suggestions_move_def by blast
    ultimately show ?thesis by auto
  qed
  moreover have "get_suggestion i u = None" if "i < next_id s" "get_suggestion i s = None" for i
  proof -
    have "get_suggestion i t = None" using assms(1) that unfolding suggestions_move_def by blast
    moreover have "i < next_id t" using that(1) le by simp
    ultimately show ?thesis using assms(2) unfolding suggestions_move_def by blast
  qed
  ultimately show ?thesis using le unfolding suggestions_move_def by (meson le_trans)
qed

lemma tag_good_trans [trans]: "tag_good s t \<Longrightarrow> tag_good t u \<Longrightarrow> tag_good s u"
  unfolding tag_good_def by (meson le_trans suggestions_move_trans)

lemma tag_good_refl [simp]: "tag_good s s"
  by (simp add: tag_good_def)

lemma tag_good_same:
  "tags s' = tags s \<Longrightarrow> contact_tags s' = contact_tags s \<Longrightarrow> tag_suggestions s' = tag_suggestions s \<Longrightarrow> next_id s \<le> next_id s'
   \<Longrightarrow> tag_good s s'"
  by (fastforce simp: tag_good_def tag_inv_def suggestions_move_def get_suggestion_def)

lemma tag_audit_good [simp]: "tag_good s (tag_audit a n e i s)"
  by (rule tag_good_same) (simp_all add: tag_audit_def audit_append_def)

lemma tag_audited: "tag_good s t \<Longrightarrow> tag_good s (tag_audit a n e i t)"
  by (rule tag_good_trans [OF _ tag_audit_good])

lemma tag_by_name_None: "tag_by_name n s = None \<Longrightarrow> n \<notin> tg_name ` set (tags s)"
  by (auto simp: tag_by_name_def get_by_None_iff)

text \<open>A new tag under a name that is free.\<close>

lemma add_tag_good:
  assumes "tag_by_name (tg_name t) s = None" "tg_id t = next_id s"
  shows "tag_good s (s\<lparr>next_id := Suc (next_id s), tags := tags s @ [t]\<rparr>)"
  using assms tag_by_name_None [OF assms(1)]
  by (fastforce simp: tag_good_def tag_inv_def suggestions_move_def get_suggestion_def)

lemma attach_good:
  assumes "i \<in> tg_id ` set (tags s)"
  shows "tag_good s (attach_tag k i a s)"
  using assms
  by (fastforce simp: tag_good_def tag_inv_def attach_tag_def suggestions_move_def get_suggestion_def)

lemma detach_good [simp]: "tag_good s (detach_tag k i s)"
proof -
  have "distinct (map h (filter P xs))" if "distinct (map h xs)" for h :: "contact_tag \<Rightarrow> uuid \<times> uuid" and P xs
    using that by (rule distinct_map_filter)
  then show ?thesis
    by (auto simp: tag_good_def tag_inv_def detach_tag_def suggestions_move_def get_suggestion_def)
qed

lemma ensure_tag_good: "ensure_tag n s = (i, s') \<Longrightarrow> tag_good s s' \<and> i \<in> tg_id ` set (tags s')"
  using add_tag_good [of "\<lparr>tg_id = next_id s, tg_name = n, tg_description = None, tg_color = None\<rparr>" s]
  by (auto simp: ensure_tag_def fresh_id_def Let_def tag_by_name_def split: option.splits dest: get_by_Some)

lemma auto_tag_good: "tag_good s (auto_tag k n s)"
proof -
  obtain i t where e: "ensure_tag n s = (i, t)" by fastforce
  have "auto_tag k n s = attach_tag k i None t"
    by (auto simp: auto_tag_def e has_tag_def attach_tag_def list_ex_iff)
  then show ?thesis using ensure_tag_good [OF e] attach_good tag_good_trans by metis
qed

lemma add_suggestion_good:
  assumes g: "sg_id g = next_id s" "sg_tag_id g \<in> tg_id ` set (tags s)" "sg_status g = TSG_PENDING" "sg_reviewed_by g = None"
  shows "tag_good s (s\<lparr>next_id := Suc (next_id s), tag_suggestions := tag_suggestions s @ [g]\<rparr>)" (is "tag_good s ?t")
proof -
  have "tag_inv ?t" if inv: "tag_inv s"
  proof -
    have "next_id s \<notin> sg_id ` set (tag_suggestions s)" using inv by (auto simp: tag_inv_def)
    then show ?thesis using inv g by (auto simp: tag_inv_def less_Suc_eq)
  qed
  moreover have "suggestions_move s ?t"
    using g by (auto simp: suggestions_move_def get_suggestion_def get_by_append split: option.splits)
  ultimately show ?thesis by (simp add: tag_good_def)
qed

lemma create_suggestion_good:
  assumes "create_suggestion k n c r s = Inr (i, s')"
  shows "tag_good s s'"
proof -
  obtain t s1 where e: "ensure_tag n s = (t, s1)" by fastforce
  define g where "g = \<lparr>sg_id = next_id s1, sg_contact_id = k, sg_tag_id = t, sg_confidence = c, sg_reason = r,
    sg_status = TSG_PENDING, sg_reviewed_by = None, sg_reviewed_at = None, sg_created_at = clock s1\<rparr>"
  have s': "s' = s1\<lparr>next_id := Suc (next_id s1), tag_suggestions := tag_suggestions s1 @ [g]\<rparr>"
    using assms e by (auto simp: create_suggestion_def ok_simps fresh_id_def Let_def g_def)
  have g: "sg_id g = next_id s1" "sg_tag_id g = t" "sg_status g = TSG_PENDING" "sg_reviewed_by g = None" by (simp_all add: g_def)
  have "tag_good s1 s'"
    unfolding s' using g ensure_tag_good [OF e] by (intro add_suggestion_good) simp_all
  then show ?thesis using ensure_tag_good [OF e] tag_good_trans by blast
qed

lemma create_tag_good: "create_tag rq a s = Inr (i, s') \<Longrightarrow> tag_good s s'"
  by (auto simp: create_tag_def ok_simps fresh_id_def Let_def intro!: tag_audited add_tag_good)

lemma update_tag_good:
  assumes "update_tag i u a s = Inr s'"
  shows "tag_good s s'"
proof -
  obtain tag where tag: "get_tag i s = Some tag" using assms by (auto simp: update_tag_def ok_simps)
  define name where "name = named (tu_name u) (Some (tg_name tag))"
  define d where "d = named (tu_description u) (tg_description tag)"
  define c where "c = named (tu_color u) (tg_color tag)"
  obtain n where n: "name = Some n"
    using assms tag by (cases name) (auto simp: update_tag_def ok_simps Let_def name_def)
  let ?t = "s\<lparr>tags := upd_by tg_id i (\<lambda>t. t\<lparr>tg_name := n, tg_description := d, tg_color := c\<rparr>) (tags s)\<rparr>"
  have run: "update_tag i u a s = ebind (ensure (n \<noteq> tg_name tag \<or> d \<noteq> tg_description tag \<or> c \<noteq> tg_color tag) ConflictError) (\<lambda>_.
     ebind (ensure (n = tg_name tag \<or> (case tag_by_name n s of None \<Rightarrow> True | Some taken \<Rightarrow> tg_id taken = i)) ConflictError)
       (\<lambda>_. Inr (tag_audit a ''update'' ''tag'' i ?t)))"
    using n by (simp add: update_tag_def tag Let_def name_def d_def c_def)
  have free: "n = tg_name tag \<or> (\<forall>t. tag_by_name n s = Some t \<longrightarrow> tg_id t = i)"
    and s': "s' = tag_audit a ''update'' ''tag'' i ?t"
    using assms [unfolded run] by (auto simp: ok_simps)
  have "tag_inv ?t" if inv: "tag_inv s"
  proof -
    have here: "tag \<in> set (tags s)" "tg_id tag = i" using get_by_Some tag by (fastforce simp: get_tag_def)+
    have other: "tg_name t \<noteq> n" if t: "t \<in> set (tags s)" "tg_id t \<noteq> i" for t
    proof
      assume n: "tg_name t = n"
      have names: "distinct (map tg_name (tags s))" using inv by (simp add: tag_inv_def)
      have "tag_by_name n s = Some t" using get_by_mem [OF names t(1)] n by (simp add: tag_by_name_def)
      with free t(2) have "n = tg_name tag" by blast
      then have "tag = t" using names here(1) t(1) n by (auto simp: distinct_map dest: inj_onD)
      then show False using here t by simp
    qed
    have "distinct (map tg_id (tags ?t))" using inv by (simp add: tag_inv_def map_upd_by)
    moreover have "distinct (map tg_name (tags ?t))"
    proof -
      have ids: "distinct (map tg_id (tags s))" and names: "distinct (map tg_name (tags s))" using inv by (simp_all add: tag_inv_def)
      from map_one [OF ids here(1), of "\<lambda>t. t\<lparr>tg_name := n, tg_description := d, tg_color := c\<rparr>"] obtain ys zs
        where ts: "tags s = ys @ tag # zs"
        and ts': "tags ?t = ys @ (tag\<lparr>tg_name := n, tg_description := d, tg_color := c\<rparr>) # zs"
        using here(2) by (auto simp: upd_by_def)
      have "tg_id t \<noteq> i" if "t \<in> set ys \<union> set zs" for t using ids here(2) that by (auto simp: ts) (metis imageI)+
      then have "n \<notin> tg_name ` (set ys \<union> set zs)" using other ts by auto
      then show ?thesis unfolding ts' using names [unfolded ts] by auto
    qed
    moreover have "map tg_id (tags ?t) = map tg_id (tags s)" by (simp add: map_upd_by)
    then have "tg_id ` set (tags ?t) = tg_id ` set (tags s)" by (metis list.set_map)
    moreover have "\<forall>t\<in>set (tags ?t). tg_id t < next_id s" using inv by (auto simp: tag_inv_def set_upd_by)
    ultimately show ?thesis using inv unfolding tag_inv_def by simp
  qed
  moreover have "suggestions_move s ?t" by (auto simp: suggestions_move_def get_suggestion_def)
  ultimately have "tag_good s ?t" by (simp add: tag_good_def)
  then show ?thesis unfolding s' by (rule tag_audited)
qed

lemma get_by_filter: "get_by key i (filter P rs) = None \<or> (\<exists>r. get_by key i (filter P rs) = Some r \<and> r \<in> set rs \<and> key r = i \<and> P r)"
  using get_by_Some [of key i "filter P rs"] by (cases "get_by key i (filter P rs)") auto

lemma delete_tag_good:
  assumes "delete_tag i a s = Inr s'"
  shows "tag_good s s'"
proof -
  let ?t = "s\<lparr>tags := filter (\<lambda>t. tg_id t \<noteq> i) (tags s), contact_tags := filter (\<lambda>l. ctg_tag_id l \<noteq> i) (contact_tags s),
          tag_suggestions := filter (\<lambda>g. sg_tag_id g \<noteq> i) (tag_suggestions s)\<rparr>"
  have s': "s' = tag_audit a ''delete'' ''tag'' i ?t" using assms by (auto simp: delete_tag_def ok_simps)
  have "tag_inv ?t" if inv: "tag_inv s"
  proof -
    have "tg_id ` set (tags ?t) = tg_id ` set (tags s) - {i}" by auto
    then show ?thesis using inv by (auto simp: tag_inv_def distinct_map_filter)
  qed
  moreover have "suggestions_move s ?t" if inv: "tag_inv s"
  proof -
    have ids: "distinct (map sg_id (tag_suggestions s))" using inv by (simp add: tag_inv_def)
    have "get_suggestion j ?t = None \<or> get_suggestion j ?t = get_suggestion j s" for j
      using get_by_filter [of sg_id j "\<lambda>g. sg_tag_id g \<noteq> i" "tag_suggestions s"] get_by_mem [OF ids]
      by (auto simp: get_suggestion_def)
    then have kept: "get_suggestion j ?t = Some g \<Longrightarrow> get_suggestion j s = Some g" for j g by (metis option.distinct(1))
    have "get_suggestion j ?t = None" if "get_suggestion j s = None" for j
      using kept [of j] that by (cases "get_suggestion j ?t") simp_all
    then show ?thesis unfolding suggestions_move_def using kept by fastforce
  qed
  ultimately have "tag_good s ?t" by (simp add: tag_good_def)
  then show ?thesis unfolding s' by (rule tag_audited)
qed

lemma tag_present: "get_tag i s = Some t \<Longrightarrow> i \<in> tg_id ` set (tags s)"
  using get_by_Some by (fastforce simp: get_tag_def)

lemma apply_tag_good: "apply_tag k i a s = Inr s' \<Longrightarrow> tag_good s s'"
  by (auto simp: apply_tag_def attach_link_def ok_simps intro!: tag_audited attach_good dest: tag_present)

lemma review_good:
  assumes "review_suggestion i r st n s = Inr (g, s')" "st \<noteq> TSG_PENDING"
  shows "tag_good s s' \<and> get_suggestion i s' = Some g \<and> sg_status g = st \<and> tags s' = tags s
    \<and> (\<exists>g0. get_suggestion i s = Some g0 \<and> sg_status g0 = TSG_PENDING)"
proof -
  let ?f = "\<lambda>g. g\<lparr>sg_status := st, sg_reviewed_by := Some r, sg_reviewed_at := Some (clock s)\<rparr>"
  let ?t = "s\<lparr>tag_suggestions := upd_by sg_id i ?f (tag_suggestions s)\<rparr>"
  obtain g0 where g0: "get_suggestion i s = Some g0" "sg_status g0 = TSG_PENDING" and g: "g = ?f g0"
    and s': "s' = tag_audit r n ''TagSuggestion'' i ?t"
    using assms(1) by (auto simp: review_suggestion_def ok_simps Let_def)
  have look: "get_suggestion j ?t = (if j = i then map_option ?f (get_suggestion j s) else get_suggestion j s)" for j
    using get_by_upd_by [of sg_id ?f j i "tag_suggestions s"] by (simp add: get_suggestion_def)
  have "tag_inv ?t" if "tag_inv s"
    using that assms(2) by (auto simp: tag_inv_def map_upd_by set_upd_by)
  moreover have "suggestions_move s ?t" using g0 by (auto simp: suggestions_move_def look)
  ultimately have "tag_good s ?t" by (simp add: tag_good_def)
  moreover have "get_suggestion i s' = Some g" "tags s' = tags s"
    using look [of i] g0 g by (simp_all add: s' get_suggestion_def tag_audit_def audit_append_def)
  ultimately show ?thesis using g0 g unfolding s' by (auto intro: tag_audited)
qed

lemma approve_suggestion_good:
  assumes "approve_suggestion i r s = Inr s'"
  shows "tag_good s s'"
proof -
  obtain g s1 where one: "review_suggestion i r TSG_APPROVED ''approve'' s = Inr (g, s1)"
    and s': "s' = attach_tag (sg_contact_id g) (sg_tag_id g) (Some r) s1"
    using assms by (auto simp: approve_suggestion_def attach_link_def ok_simps)
  have r: "tag_good s s1" "get_suggestion i s1 = Some g" using review_good [OF one] by simp_all
  have "tag_good s1 s'" if "tag_inv s"
  proof -
    have "tag_inv s1" using r(1) that by (simp add: tag_good_def)
    then have "sg_tag_id g \<in> tg_id ` set (tags s1)"
      using get_by_Some [OF r(2) [unfolded get_suggestion_def]] by (simp add: tag_inv_def)
    then show ?thesis unfolding s' by (rule attach_good)
  qed
  moreover have "next_id s1 \<le> next_id s'" by (simp add: s' attach_tag_def)
  ultimately show ?thesis using r(1) tag_good_trans [OF r(1)] unfolding tag_good_def by (meson le_trans)
qed

lemma reject_suggestion_good: "reject_suggestion i r s = Inr s' \<Longrightarrow> tag_good s s'"
  by (auto simp: reject_suggestion_def ok_simps dest!: review_good)

lemma tag_step_good: "tag_step s s' \<Longrightarrow> tag_good s s'"
  by (erule tag_stepE)
    (auto simp: remove_tag_def auto_tag_good intro: create_tag_good update_tag_good delete_tag_good apply_tag_good
      create_suggestion_good approve_suggestion_good reject_suggestion_good tag_audited tag_good_same)

lemma tag_steps_good: "tag_step\<^sup>*\<^sup>* s s' \<Longrightarrow> tag_good s s'"
  by (induction rule: rtranclp_induct) (auto intro: tag_good_trans tag_step_good)

section \<open>Decided once\<close>

text \<open>Approving and rejecting are gates: they run on a pending suggestion and leave none pending.\<close>

interpretation approval: draft_gate "approve_suggestion i r" "\<lambda>s. map_option sg_status (get_suggestion i s)" TSG_PENDING for i r
proof unfold_locales
  fix s s' :: "'a ai_crm_scheme"
  assume run: "approve_suggestion i r s = Inr s'"
  obtain g s1 where one: "review_suggestion i r TSG_APPROVED ''approve'' s = Inr (g, s1)"
    and s': "s' = attach_tag (sg_contact_id g) (sg_tag_id g) (Some r) s1"
    using run by (auto simp: approve_suggestion_def attach_link_def ok_simps)
  have "get_suggestion i s' = get_suggestion i s1" by (simp add: s' attach_tag_def get_suggestion_def)
  then show "map_option sg_status (get_suggestion i s) = Some TSG_PENDING" "map_option sg_status (get_suggestion i s') \<noteq> Some TSG_PENDING"
    using review_good [OF one] by auto
qed

interpretation rejection: draft_gate "reject_suggestion i r" "\<lambda>s. map_option sg_status (get_suggestion i s)" TSG_PENDING for i r
  by unfold_locales (auto simp: reject_suggestion_def ok_simps dest!: review_good)

definition demo_tags :: ai_crm where
  "demo_tags = \<lparr>next_id = 100, today = 0, contacts = [], sequences = (\<lambda>_. None), audit_log = [], clock = 1000,
     users = [], crm_contacts = [\<lparr>ct_id = 10, ct_phone = ''971501234567'', ct_name = None, ct_company = None,
       ct_information = None, ct_status = CT_ACTIVE, ct_assigned_agent_id = None, ct_ai_assigned = False,
       ct_do_not_contact = False, ct_marketing_opt_out = False, ct_last_interaction_at = None,
       ct_last_contacted_at = None, ct_last_inbound_at = None\<rparr>],
     conversations = [], messages = [], media_assets = [],
     tags = [\<lparr>tg_id = 50, tg_name = ''Buyer'', tg_description = None, tg_color = None\<rparr>], contact_tags = [],
     templates = [], campaigns = [], campaign_recipients = [], bool_settings = (\<lambda>_. None), redis_keys = [],
     redis_counters = (\<lambda>_. 0), published = [], task_queue = [], row_choice = (\<lambda>_. 0),
     tag_suggestions = [\<lparr>sg_id = 60, sg_contact_id = 10, sg_tag_id = 50, sg_confidence = Some (9 / 10),
       sg_reason = None, sg_status = TSG_PENDING, sg_reviewed_by = None, sg_reviewed_at = None, sg_created_at = 0\<rparr>],
     ai_events = []\<rparr>"



end
