(* ===== verification/Ai.thy ===== *)
theory Ai
  imports MessagingTasks Categorization
begin

text \<open>
  The AI in the conversations (backend/app/modules/ai: service.py, tasks.py, delay.py, build_messages of
  prompts.py; backend/app/integrations/claude/client.py). What comes from outside is the record \<open>ai_env\<close>: the
  answers of the API, the dossiers it extracts, the memory file, the settings and random draws. What other
  transactions commit while the model thinks is the argument \<open>other\<close>. A confidence is the rational value of
  its float; the threshold 17/20 separates the floats exactly as the literal 0.85 does. Texts are the bytes of
  their UTF-8 encoding. Costs, latencies and the JSON of a round trip are left out, and so is the update of the memory file.
\<close>

section \<open>The client of the API\<close>

record claude_decision =
  cd_reply :: string
  cd_confidence :: rat
  cd_intent :: string
  cd_suggested_tags :: "string list"
  cd_requires_approval :: bool
  cd_escalate :: bool
  cd_detected_opt_out :: bool
  cd_send_contact_card :: bool
  cd_send_business_card_image :: bool

text \<open>A block of an answer: a tool call by name, with its input if it validates, or anything else.\<close>

datatype content_block = ToolUse string "claude_decision option" | OtherBlock

datatype api_outcome = ApiTimeout | ApiRateLimited | ApiStatus int | ApiConnection bool | ApiMessage "content_block list"

text \<open>\<open>ProviderError retryable code message\<close>\<close>

datatype provider_error = ProviderError bool string string

definition retryable_status :: "int list" where
  "retryable_status = [429, 500, 502, 503, 504]"

text \<open>
  What tenacity tries again: a timeout, a rate limit, an InternalServerError (status 500 and up) and Python's own
  ConnectionError (\<open>ApiConnection True\<close>; an APIConnectionError of the SDK is another class).
\<close>

fun transient :: "api_outcome \<Rightarrow> bool" where
  "transient ApiTimeout = True"
| "transient ApiRateLimited = True"
| "transient (ApiStatus c) = (500 \<le> c)"
| "transient (ApiConnection builtin) = builtin"
| "transient (ApiMessage blocks) = False"

primrec make_request :: "(nat \<Rightarrow> api_outcome) \<Rightarrow> nat \<Rightarrow> nat \<Rightarrow> api_outcome" where
  "make_request call n 0 = call n"
| "make_request call n (Suc left) = (if transient (call n) then make_request call (Suc n) left else call n)"

definition claude_attempts :: nat where
  "claude_attempts = 3"

definition invalid_response :: provider_error where
  "invalid_response = ProviderError False ''ai_provider_invalid_response'' ''ai_provider_invalid_response''"

fun parse_decision :: "content_block list \<Rightarrow> provider_error + claude_decision" where
  "parse_decision [] = Inl invalid_response"
| "parse_decision (ToolUse name input # blocks) =
     (if name = ''emit_decision'' then (case input of None \<Rightarrow> Inl invalid_response | Some d \<Rightarrow> Inr d)
      else parse_decision blocks)"
| "parse_decision (OtherBlock # blocks) = parse_decision blocks"

definition propose_reply :: "bool \<Rightarrow> (nat \<Rightarrow> api_outcome) \<Rightarrow> provider_error + claude_decision" where
  "propose_reply key_configured call =
     (if \<not> key_configured then Inl (ProviderError False ''ai_provider_error'' ''anthropic_api_key_not_configured'')
      else case make_request call 0 (claude_attempts - 1) of
        ApiTimeout \<Rightarrow> Inl (ProviderError True ''ai_provider_timeout'' ''anthropic_request_timeout'')
      | ApiRateLimited \<Rightarrow> Inl (ProviderError True ''ai_provider_error'' ''anthropic_rate_limited'')
      | ApiStatus c \<Rightarrow> Inl (ProviderError (c \<in> set retryable_status) ''ai_provider_error'' ''anthropic_api_error'')
      | ApiConnection builtin \<Rightarrow> Inl (ProviderError True ''ai_provider_error'' ''anthropic_transport_error'')
      | ApiMessage blocks \<Rightarrow> parse_decision blocks)"

section \<open>The prompt\<close>

record prompt_contact =
  pc_name :: "string option"
  pc_phone :: string
  pc_company :: "string option"
  pc_status :: string
  pc_information :: "string option"

record ai_request =
  ar_contact :: "prompt_contact option"
  ar_history :: "(string \<times> string) list"
  ar_incoming :: string
  ar_actions :: "string list"
  ar_memory :: "string option"

fun contact_status_value :: "contact_status \<Rightarrow> string" where
  "contact_status_value CT_ACTIVE = ''active''"
| "contact_status_value CT_INACTIVE = ''inactive''"
| "contact_status_value CT_BLOCKED = ''blocked''"
| "contact_status_value CT_CONTACTED = ''contacted''"
| "contact_status_value CT_FOLLOW_UP = ''follow_up''"
| "contact_status_value CT_INTERESTED = ''interested''"
| "contact_status_value CT_NOT_INTERESTED = ''not_interested''"

definition allowed_actions :: "string list" where
  "allowed_actions = [''reply'', ''tag'', ''escalate'']"

text \<open>The last \<open>limit\<close> messages, oldest first; of messages of one time those inserted later count as later.\<close>

definition load_history :: "nat \<Rightarrow> uuid \<Rightarrow> 'a crm_scheme \<Rightarrow> (string \<times> string) list" where
  "load_history limit i s =
     map (\<lambda>m. (if ms_direction m = INBOUND then ''user'' else ''assistant'', ms_content m))
       (rev (take limit (rev (sort_key ms_created_at (filter (\<lambda>m. ms_conversation_id m = i) (messages s))))))"

text \<open>\<open>str(list)\<close> of texts without quotes or escapes.\<close>

definition repr_texts :: "string list \<Rightarrow> string" where
  "repr_texts ws = ''['' @ join '', '' (map (\<lambda>w. CHR 0x27 # w @ [CHR 0x27]) ws) @ '']''"

definition labelled :: "string \<Rightarrow> string option \<Rightarrow> string list" where
  "labelled label w = (if some_text w then [label @ the w] else [])"

definition build_messages :: "ai_request \<Rightarrow> (string \<times> string) list" where
  "build_messages rq =
     (let history = filter (\<lambda>(role, content). role \<in> {''user'', ''assistant''} \<and> content \<noteq> []) (ar_history rq);
          parts = (case ar_contact rq of None \<Rightarrow> []
                   | Some c \<Rightarrow> labelled ''Name: '' (pc_name c) @ labelled ''Phone: '' (Some (pc_phone c))
                       @ labelled ''Company: '' (pc_company c) @ labelled ''Status: '' (Some (pc_status c)));
          context_parts = (if some_text (ar_memory rq) then [the (ar_memory rq)] else [])
            @ (if parts = [] then [] else [''Contact context: '' @ join ''; '' parts])
            @ (if ar_actions rq = [] then [] else [''Allowed actions: '' @ repr_texts (ar_actions rq)]);
          context_line = join [CHR 10] context_parts
      in history @ [(''user'', if context_line = [] then ar_incoming rq
                               else context_line @ [CHR 10] @ ''Incoming message: '' @ ar_incoming rq)])"

section \<open>Surroundings\<close>

datatype model_tier = BULK | ESCALATION

datatype extraction = ExtractFrom string | Condense string

record ai_env =
  ae_key :: bool
  ae_claude :: "model_tier \<Rightarrow> (string \<times> string) list \<Rightarrow> nat \<Rightarrow> api_outcome"
  ae_extract :: "extraction \<Rightarrow> string option"
  ae_memory :: "uuid \<Rightarrow> string option"
  ae_memory_enabled :: bool
  ae_history_limit :: nat
  ae_test_numbers :: "string list"
  ae_card_media :: "uuid option"
  ae_has_file :: "uuid \<Rightarrow> bool"
  ae_day_text :: "int \<Rightarrow> string"
  ae_uniform :: "nat \<Rightarrow> rat \<Rightarrow> rat \<Rightarrow> rat"
  ae_uuid_text :: "uuid \<Rightarrow> string"

section \<open>The delay of a reply\<close>

fun count_words :: "bool \<Rightarrow> string \<Rightarrow> nat" where
  "count_words inside [] = 0"
| "count_words inside (c # cs) =
     (if (of_char c :: nat) \<in> {9, 10, 11, 12, 13, 28, 29, 30, 31, 32} then count_words False cs
      else (if inside then 0 else 1) + count_words True cs)"

definition delay_band :: "nat \<Rightarrow> rat \<times> rat" where
  "delay_band words = (if words \<le> 15 then (1, 3) else if words \<le> 60 then (2, 5) else (4, 6))"

definition delay_variance :: rat where
  "delay_variance = 1 / 10"

definition compute_delay :: "(nat \<Rightarrow> rat \<Rightarrow> rat \<Rightarrow> rat) \<Rightarrow> string \<Rightarrow> int" where
  "compute_delay uniform reply =
     (let words = count_words False reply in
      if words = 0 then 1
      else let base = uniform 0 (fst (delay_band words)) (snd (delay_band words));
               variance = uniform 1 (- delay_variance) delay_variance
           in max 1 (floor (base * (1 + variance))))"

section \<open>AIOrchestrator\<close>

definition confidence_auto_reply_threshold :: rat where
  "confidence_auto_reply_threshold = 17 / 20"

definition needs_escalation :: "claude_decision \<Rightarrow> bool" where
  "needs_escalation d = (cd_escalate d \<or> cd_requires_approval d
     \<or> (1 / 2 \<le> cd_confidence d \<and> cd_confidence d \<le> confidence_auto_reply_threshold))"

definition cascade_route :: "ai_env \<Rightarrow> (string \<times> string) list \<Rightarrow> provider_error + claude_decision" where
  "cascade_route env msgs =
     (case propose_reply (ae_key env) (ae_claude env BULK msgs) of
        Inl e \<Rightarrow> Inl e
      | Inr response \<Rightarrow>
          if needs_escalation response then propose_reply (ae_key env) (ae_claude env ESCALATION msgs) else Inr response)"

subsection \<open>The dossier of a contact\<close>

definition contact_messages :: "uuid \<Rightarrow> 'a crm_scheme \<Rightarrow> message list" where
  "contact_messages contact_id s =
     take 5000 (sort_key ms_created_at (filter (\<lambda>m. list_ex (\<lambda>c. cv_id c = ms_conversation_id m \<and> cv_contact_id c = contact_id)
       (conversations s)) (messages s)))"

definition transcript_line :: "(int \<Rightarrow> string) \<Rightarrow> message \<Rightarrow> string list" where
  "transcript_line day_text m =
     (let content = strip_ascii (ms_content m) in
      if content = [] then []
      else [''['' @ day_text (ms_created_at m) @ ''] '' @ (if ms_direction m = INBOUND then ''Customer'' else ''Agent'')
            @ '': '' @ content])"

definition format_contact_transcript :: "(int \<Rightarrow> string) \<Rightarrow> message list \<Rightarrow> string" where
  "format_contact_transcript day_text ms = join [CHR 10] (concat (map (transcript_line day_text) ms))"

definition extract_direct :: "ai_env \<Rightarrow> string \<Rightarrow> string option" where
  "extract_direct env transcript =
     (case ae_extract env (ExtractFrom transcript) of
        None \<Rightarrow> None
      | Some w \<Rightarrow> if strip_ascii w = [] then None else Some (strip_ascii w))"

definition extract_two_tier :: "ai_env \<Rightarrow> string \<Rightarrow> string option" where
  "extract_two_tier env transcript =
     (case ae_extract env (Condense transcript) of
        None \<Rightarrow> None
      | Some condensed \<Rightarrow> if strip_ascii condensed = [] then None else extract_direct env condensed)"

text \<open>\<open>len(transcript) / 3.5 < 140_000\<close>\<close>

definition ensure_contact_information :: "ai_env \<Rightarrow> crm_contact \<Rightarrow> 'a crm_scheme \<Rightarrow> 'a crm_scheme" where
  "ensure_contact_information env contact s =
     (if some_text (ct_information contact) then s
      else let all_msgs = contact_messages (ct_id contact) s in
        if all_msgs = [] then s
        else let transcript = format_contact_transcript (ae_day_text env) all_msgs;
                 information = (if code_points transcript < 490000 then extract_direct env transcript
                                else extract_two_tier env transcript)
             in case information of
                  None \<Rightarrow> s
                | Some info \<Rightarrow> upd_contact (ct_id contact) (\<lambda>c. c\<lparr>ct_information := Some info\<rparr>) s)"

definition ai_prompt :: "ai_env \<Rightarrow> conversation \<Rightarrow> crm_contact option \<Rightarrow> string \<Rightarrow> 'a crm_scheme \<Rightarrow> ai_request" where
  "ai_prompt env conv contact incoming s =
     \<lparr>ar_contact = map_option (\<lambda>k. \<lparr>pc_name = ct_name k, pc_phone = ct_phone k, pc_company = ct_company k,
        pc_status = contact_status_value (ct_status k), pc_information = ct_information k\<rparr>) contact,
      ar_history = load_history (ae_history_limit env) (cv_id conv) s,
      ar_incoming = incoming, ar_actions = allowed_actions,
      ar_memory = (case contact of None \<Rightarrow> None
                   | Some k \<Rightarrow> if ae_memory_enabled env then ae_memory env (ct_id k) else None)\<rparr>"

definition record_event ::
  "uuid \<Rightarrow> string option \<Rightarrow> rat option \<Rightarrow> string option \<Rightarrow> 'a ai_crm_scheme \<Rightarrow> 'a ai_crm_scheme" where
  "record_event conversation_id intent confidence error s =
     (let (i, s1) = fresh_id s
      in s1\<lparr>ai_events := ai_events s1 @ [\<lparr>ev_id = i, ev_conversation_id = conversation_id, ev_intent = intent,
           ev_confidence = confidence, ev_error = error, ev_created_at = clock s1\<rparr>]\<rparr>)"

subsection \<open>The decision engine\<close>

datatype decision_action = AutoSend | Approval | Escalate | Noop

record ai_decision =
  dc_action :: decision_action
  dc_delay_seconds :: "int option"
  dc_draft_message_id :: "uuid option"
  dc_tag_suggestion_ids :: "uuid list"
  dc_reason :: "string option"

definition sara_card :: string where
  "sara_card = ''Sara Ahmed '' @ em_dash @ '' +971 50 000 0000''"

definition create_draft_message ::
  "ai_env \<Rightarrow> uuid \<Rightarrow> string \<Rightarrow> delivery_status \<Rightarrow> string option \<Rightarrow> uuid option \<Rightarrow> 'a crm_scheme \<Rightarrow> err + uuid \<times> 'a crm_scheme" where
  "create_draft_message env i content status msg_type media_asset_id s =
     ebind (create_message
       ((new_message i OUTBOUND SENDER_AI (if msg_type = Some ''contact'' then sara_card else content) status (clock s))
        \<lparr>ms_msg_type := (if some_text msg_type then the msg_type else ''text'')\<rparr>) s) (\<lambda>(m, s1).
     Inr (m, case media_asset_id of
               None \<Rightarrow> s1
             | Some a \<Rightarrow> if get_media a s1 \<noteq> None \<and> ae_has_file env a then link_media a m s1 else s1))"

fun create_suggestions ::
  "uuid \<Rightarrow> claude_decision \<Rightarrow> string list \<Rightarrow> 'a ai_crm_scheme \<Rightarrow> err + uuid list \<times> 'a ai_crm_scheme" where
  "create_suggestions contact_id d [] s = Inr ([], s)"
| "create_suggestions contact_id d (w # ws) s =
     (if w = [] then create_suggestions contact_id d ws s
      else ebind (create_suggestion contact_id w (Some (cd_confidence d))
                    (if cd_intent d = [] then None else Some (cd_intent d)) s) (\<lambda>(i, s1).
           ebind (create_suggestions contact_id d ws s1) (\<lambda>(is, s2). Inr (i # is, s2))))"

text \<open>The conversation leaves the AI.\<close>

definition hand_over :: "conversation \<Rightarrow> 'a crm_scheme \<Rightarrow> err + 'a crm_scheme" where
  "hand_over conv s =
     ebind (ai_transition_from conv CS_HUMAN_ASSIGNED s) (\<lambda>s1.
     Inr (upd_conv (cv_id conv) (\<lambda>c. c\<lparr>cv_ai_enabled := False\<rparr>) s1))"

text \<open>A draft that waits for approval.\<close>

definition draft_for_approval ::
  "ai_env \<Rightarrow> conversation \<Rightarrow> claude_decision \<Rightarrow> uuid list \<Rightarrow> string \<Rightarrow> 'a ai_crm_scheme
   \<Rightarrow> err + ai_decision \<times> 'a ai_crm_scheme" where
  "draft_for_approval env conv d tag_ids reason s =
     ebind (create_draft_message env (cv_id conv) (cd_reply d) MSG_DRAFT
              (if cd_send_contact_card d then Some ''contact'' else None)
              (if cd_send_business_card_image d then ae_card_media env else None) s) (\<lambda>(m, s1).
     ebind (ai_transition_from conv CS_AWAITING_APPROVAL s1) (\<lambda>s2.
     Inr (\<lparr>dc_action = Approval, dc_delay_seconds = None, dc_draft_message_id = Some m, dc_tag_suggestion_ids = tag_ids,
           dc_reason = Some reason\<rparr>, s2)))"

definition no_draft :: "decision_action \<Rightarrow> uuid list \<Rightarrow> string option \<Rightarrow> ai_decision" where
  "no_draft act tag_ids reason = \<lparr>dc_action = act, dc_delay_seconds = None, dc_draft_message_id = None,
     dc_tag_suggestion_ids = tag_ids, dc_reason = reason\<rparr>"

text \<open>The rules after the suggestions were stored, in their order.\<close>

definition decide_reply ::
  "ai_env \<Rightarrow> conversation \<Rightarrow> claude_decision \<Rightarrow> uuid list \<Rightarrow> 'a ai_crm_scheme \<Rightarrow> err + ai_decision \<times> 'a ai_crm_scheme" where
  "decide_reply env conv d tag_ids s =
     (if \<not> get_bool_setting ''ai.response_generation_enabled'' True s
      then Inr (no_draft Noop tag_ids (Some ''response_generation_disabled''), s)
      else if cd_escalate d
      then ebind (hand_over conv s) (\<lambda>s1. Inr (no_draft Escalate tag_ids (Some ''response_escalate''), s1))
      else if cd_requires_approval d then draft_for_approval env conv d tag_ids ''requires_approval'' s
      else if confidence_auto_reply_threshold < cd_confidence d \<and> strip_ascii (cd_reply d) \<noteq> []
      then if \<not> get_bool_setting ''ai.auto_send_enabled'' True s
           then draft_for_approval env conv d tag_ids ''auto_send_suppressed_by_settings'' s
           else ebind (create_draft_message env (cv_id conv) (cd_reply d) MSG_QUEUED
                         (if cd_send_contact_card d then Some ''contact'' else None)
                         (if cd_send_business_card_image d then ae_card_media env else None) s) (\<lambda>(m, s1).
                Inr (\<lparr>dc_action = AutoSend, dc_delay_seconds = Some (compute_delay (ae_uniform env) (cd_reply d)),
                      dc_draft_message_id = Some m, dc_tag_suggestion_ids = tag_ids, dc_reason = Some ''faq_auto_send''\<rparr>, s1))
      else if strip_ascii (cd_reply d) \<noteq> [] then draft_for_approval env conv d tag_ids ''low_confidence'' s
      else Inr (no_draft Noop tag_ids None, s))"

definition decide ::
  "ai_env \<Rightarrow> conversation \<Rightarrow> crm_contact option \<Rightarrow> claude_decision \<Rightarrow> 'a ai_crm_scheme \<Rightarrow> err + ai_decision \<times> 'a ai_crm_scheme" where
  "decide env conv contact d s =
     (case contact of
        None \<Rightarrow> decide_reply env conv d [] s
      | Some k \<Rightarrow>
          if cd_detected_opt_out d
          then ebind (hand_over conv (set_do_not_contact (ct_id k) True s)) (\<lambda>s1.
               Inr (no_draft Escalate [] (Some ''opt_out_detected''), s1))
          else if get_bool_setting ''ai.tag_suggestions_enabled'' True s
          then ebind (create_suggestions (ct_id k) d (cd_suggested_tags d) s) (\<lambda>(tag_ids, s1). decide_reply env conv d tag_ids s1)
          else decide_reply env conv d [] s)"

subsection \<open>One inbound message\<close>

definition kill_switch_blocks :: "ai_env \<Rightarrow> crm_contact option \<Rightarrow> 'a crm_scheme \<Rightarrow> bool" where
  "kill_switch_blocks env contact s =
     (get_bool_setting ''ai.kill_switch'' False s
      \<and> (case contact of None \<Rightarrow> [] | Some k \<Rightarrow> ct_phone k) \<notin> set (ae_test_numbers env))"

text \<open>A provider failure is committed with its event and then raised.\<close>

datatype ai_outcome = Decided ai_decision | ProviderFailed provider_error

definition process_inbound ::
  "ai_env \<Rightarrow> ('a ai_crm_scheme \<Rightarrow> 'a ai_crm_scheme) \<Rightarrow> uuid \<Rightarrow> string \<Rightarrow> 'a ai_crm_scheme
   \<Rightarrow> err + ai_outcome \<times> 'a ai_crm_scheme" where
  "process_inbound env other i incoming s =
     ebind (from_opt ConcurrentModificationError (get_conv i s)) (\<lambda>conv.
     let contact = get_crm_contact (cv_contact_id conv) s in
     if kill_switch_blocks env contact s then Inr (Decided (no_draft Noop [] (Some ''ai_kill_switch_blocked'')), s)
     else
       let s1 = (case contact of None \<Rightarrow> s | Some k \<Rightarrow> ensure_contact_information env k s);
           contact1 = get_crm_contact (cv_contact_id conv) s1;
           answer = cascade_route env (build_messages (ai_prompt env conv contact1 incoming s1));
           s2 = other s1
       in case answer of
            Inl e \<Rightarrow> (case e of ProviderError retryable code msg \<Rightarrow>
              Inr (ProviderFailed e, record_event i None None (Some (code @ '':'' @ msg)) s2))
          | Inr d \<Rightarrow>
              ebind (decide env conv contact1 d
                       (record_event i (if cd_intent d = [] then None else Some (cd_intent d)) (Some (cd_confidence d)) None s2))
                (\<lambda>(decision, s3). Inr (Decided decision, s3)))"

section \<open>The workers\<close>

definition ai_retry_delays :: "int list" where
  "ai_retry_delays = [10, 30, 90]"

definition ai_max_retries :: nat where
  "ai_max_retries = length ai_retry_delays"

definition ai_lock_key :: "ai_env \<Rightarrow> uuid \<Rightarrow> string" where
  "ai_lock_key env i = ''ai:lock:conv:'' @ ae_uuid_text env i"

definition run_ai_request ::
  "ai_env \<Rightarrow> ('a ai_crm_scheme \<Rightarrow> 'a ai_crm_scheme) \<Rightarrow> nat \<Rightarrow> uuid \<Rightarrow> string \<Rightarrow> 'a ai_crm_scheme
   \<Rightarrow> task_end \<times> 'a ai_crm_scheme" where
  "run_ai_request env other retries i incoming s =
     (case get_conv i s of
        None \<Rightarrow> (TaskDone, s)
      | Some conv \<Rightarrow>
          if \<not> cv_ai_enabled conv \<or> cv_state conv \<in> {CS_HUMAN_ASSIGNED, CS_AI_PAUSED, CS_CLOSED} then (TaskDone, s)
          else case process_inbound env other i incoming s of
            Inl e \<Rightarrow> (TaskFailed, other s)
          | Inr (ProviderFailed (ProviderError retryable code msg), s1) \<Rightarrow>
              if retryable \<and> retries < length ai_retry_delays then (TaskRetry (ai_retry_delays ! retries) ai_max_retries, s1)
              else (case assign_human i s1 of Inl e \<Rightarrow> (TaskFailed, s1) | Inr s2 \<Rightarrow> (TaskDone, s2))
          | Inr (Decided decision, s1) \<Rightarrow>
              (TaskDone, case dc_draft_message_id decision of
                 None \<Rightarrow> s1
               | Some m \<Rightarrow> if dc_action decision = AutoSend
                          then enqueue (SendAiReply i m (case dc_delay_seconds decision of None \<Rightarrow> 0 | Some n \<Rightarrow> n)) s1
                          else s1))"

definition request_ai_reply ::
  "ai_env \<Rightarrow> ('a ai_crm_scheme \<Rightarrow> 'a ai_crm_scheme) \<Rightarrow> nat \<Rightarrow> uuid \<Rightarrow> string \<Rightarrow> 'a ai_crm_scheme
   \<Rightarrow> task_end \<times> 'a ai_crm_scheme" where
  "request_ai_reply env other retries i incoming s =
     (let key = ai_lock_key env i in
      if key \<in> set (redis_keys s) then (TaskDone, s)
      else let (e, s1) = run_ai_request env other retries i incoming (s\<lparr>redis_keys := redis_keys s @ [key]\<rparr>)
           in (e, s1\<lparr>redis_keys := filter (\<lambda>k. k \<noteq> key) (redis_keys s1)\<rparr>))"

text \<open>Whether the reply is handed to the sender, and the state.\<close>

definition send_ai_reply :: "uuid \<Rightarrow> uuid \<Rightarrow> 'a crm_scheme \<Rightarrow> bool \<times> 'a crm_scheme" where
  "send_ai_reply i m s =
     (case get_conv i s of
        None \<Rightarrow> (False, s)
      | Some conv \<Rightarrow>
        (case get_message m s of
           None \<Rightarrow> (False, s)
         | Some msg \<Rightarrow>
             if \<not> cv_ai_enabled conv
                \<or> cv_state conv \<in> {CS_HUMAN_ASSIGNED, CS_AI_PAUSED, CS_AWAITING_APPROVAL, CS_CLOSED} then (False, s)
             else if ms_delivery_status msg \<noteq> MSG_QUEUED then (False, s)
             else (True, enqueue (SendOutbound m) s)))"

definition find_unreplied_inbound :: "uuid \<Rightarrow> 'a crm_scheme \<Rightarrow> string option" where
  "find_unreplied_inbound i s =
     (case latest_by ms_created_at (filter (\<lambda>m. ms_conversation_id m = i \<and> ms_direction m = INBOUND) (messages s)) s of
        None \<Rightarrow> None
      | Some row \<Rightarrow>
          if list_ex (\<lambda>m. ms_conversation_id m = i \<and> ms_direction m = OUTBOUND \<and> ms_created_at row < ms_created_at m) (messages s)
          then None else Some (ms_content row))"

text \<open>\<open>updated\<close>: the memory file could be written.\<close>

definition update_memory_on_ai_resume :: "bool \<Rightarrow> uuid \<Rightarrow> 'a crm_scheme \<Rightarrow> 'a crm_scheme" where
  "update_memory_on_ai_resume updated i s =
     (if get_conv i s = None \<or> list_all (\<lambda>m. ms_conversation_id m \<noteq> i) (messages s) \<or> \<not> updated then s
      else case find_unreplied_inbound i s of
        None \<Rightarrow> s
      | Some content \<Rightarrow> if content = [] then s else enqueue (RequestAiReply i content) s)"

definition list_events_by_conversation :: "uuid \<Rightarrow> nat \<Rightarrow> nat \<Rightarrow> 'a ai_crm_scheme \<Rightarrow> ai_event list \<times> nat" where
  "list_events_by_conversation i page page_size s =
     (let rows = filter (\<lambda>e. ev_conversation_id e = i) (ai_events s)
      in (take page_size (drop ((page - 1) * page_size) (sort_key (\<lambda>e. - ev_created_at e) rows)), length rows))"

lemmas ai_evals = retryable_status_def claude_attempts_def invalid_response_def propose_reply_def
  allowed_actions_def load_history_def repr_texts_def labelled_def build_messages_def delay_band_def delay_variance_def
  compute_delay_def confidence_auto_reply_threshold_def needs_escalation_def cascade_route_def
  contact_messages_def transcript_line_def format_contact_transcript_def extract_direct_def extract_two_tier_def
  ensure_contact_information_def ai_prompt_def record_event_def sara_card_def create_draft_message_def
  hand_over_def draft_for_approval_def no_draft_def decide_reply_def decide_def kill_switch_blocks_def
  process_inbound_def ai_retry_delays_def ai_max_retries_def ai_lock_key_def run_ai_request_def
  request_ai_reply_def send_ai_reply_def find_unreplied_inbound_def update_memory_on_ai_resume_def
  list_events_by_conversation_def

declare ai_evals [evals]

end
