(* ===== verification/AiProps.thy ===== *)
theory AiProps
  imports Ai SendingProps ConversationProps
begin

text \<open>
  What the AI may do by itself: the guards of a reply that goes out without a human, what each decision leaves
  behind, what the delayed dispatch looks at, and how a failing provider ends.
\<close>

section \<open>What the parts of a round leave alone\<close>

definition ai_frame :: "'a crm_scheme \<Rightarrow> 'b crm_scheme \<Rightarrow> bool" where
  "ai_frame s s' = (conversations s' = conversations s \<and> messages s' = messages s \<and> task_queue s' = task_queue s
     \<and> bool_settings s' = bool_settings s \<and> redis_keys s' = redis_keys s)"

lemma ai_frame_refl [simp]: "ai_frame s s"
  by (simp add: ai_frame_def)

lemma ai_frame_trans: "ai_frame s t \<Longrightarrow> ai_frame t u \<Longrightarrow> ai_frame s u"
  by (simp add: ai_frame_def)

lemma ai_frame_contact [simp]: "ai_frame s (upd_contact i f s)"
  by (simp add: ai_frame_def upd_contact_def)

lemma ai_frame_suppressed [simp]: "ai_frame s (set_do_not_contact i b s)"
  by (simp add: set_do_not_contact_def)

lemma ai_frame_event [simp]: "ai_frame s (record_event i w c e s)"
  by (simp add: ai_frame_def record_event_def fresh_id_def)

lemma ai_frame_information [simp]: "ai_frame s (ensure_contact_information env k s)"
  by (simp add: ensure_contact_information_def Let_def split: option.splits)

lemma ai_frame_tag: "ensure_tag n s = (i, s') \<Longrightarrow> ai_frame s s'"
  by (auto simp: ai_frame_def ensure_tag_def fresh_id_def Let_def split: option.splits)

lemma ai_frame_suggestion:
  assumes "create_suggestion k n c r s = Inr (i, s')"
  shows "ai_frame s s'"
proof -
  obtain t s1 where e: "ensure_tag n s = (t, s1)" by fastforce
  have "ai_frame s1 s'" using assms e by (auto simp: create_suggestion_def ok_simps fresh_id_def Let_def ai_frame_def)
  with ai_frame_tag [OF e] show ?thesis by (rule ai_frame_trans)
qed

lemma ai_frame_suggestions: "create_suggestions k d ws s = Inr (ids, s') \<Longrightarrow> ai_frame s s'"
proof (induction ws arbitrary: s ids)
  case (Cons w ws)
  then show ?case by (auto simp: ok_simps split: if_splits intro: ai_frame_trans [OF ai_frame_suggestion])
qed simp

text \<open>A stored draft: the one message that is new, and nothing else that decides later.\<close>

definition drafted :: "uuid \<Rightarrow> uuid \<Rightarrow> delivery_status \<Rightarrow> claude_decision \<Rightarrow> 'a crm_scheme \<Rightarrow> 'b crm_scheme \<Rightarrow> bool" where
  "drafted i m status d s s' =
     (\<exists>msg. messages s' = messages s @ [msg] \<and> ms_id msg = m \<and> ms_conversation_id msg = i \<and> ms_direction msg = OUTBOUND
        \<and> ms_sender_type msg = SENDER_AI \<and> ms_delivery_status msg = status
        \<and> ms_content msg = (if cd_send_contact_card d then sara_card else cd_reply d))"

lemma draft_result:
  assumes "create_draft_message env i (cd_reply d) status (if cd_send_contact_card d then Some ''contact'' else None) a s = Inr (m, s')"
  shows "drafted i m status d s s'" "conversations s' = conversations s" "task_queue s' = task_queue s"
    "bool_settings s' = bool_settings s" "redis_keys s' = redis_keys s"
  using assms
  by (auto simp: create_draft_message_def create_message_def ok_simps fresh_id_def Let_def drafted_def link_media_def
      new_message_def split: option.splits if_splits)

section \<open>Transitions of the AI\<close>

text \<open>
  The conversation was found in the state of the row \<open>conv\<close> and moved to \<open>st\<close>, or the row says it is there already.
\<close>

definition ai_moved :: "conversation \<Rightarrow> conv_state \<Rightarrow> 'a crm_scheme \<Rightarrow> 'b crm_scheme \<Rightarrow> bool" where
  "ai_moved conv st s s' =
     (cv_state conv = st
      \<or> (\<exists>c c'. get_conv (cv_id conv) s = Some c \<and> cv_state c = cv_state conv
           \<and> get_conv (cv_id conv) s' = Some c' \<and> cv_state c' = st))"

lemma publish_rest [simp]:
  "messages (publish e i s) = messages s" "bool_settings (publish e i s) = bool_settings s"
  "task_queue (publish e i s) = task_queue s" "redis_keys (publish e i s) = redis_keys s"
  by (simp_all add: publish_def)

lemma ai_transition_cases:
  assumes run: "ai_transition_from conv st s = Inr s'"
  shows "s' = s \<and> cv_state conv = st
    \<or> (\<exists>c e. get_conv (cv_id conv) s = Some c \<and> cv_state c = cv_state conv
        \<and> s' = publish e (cv_id conv) (upd_conv (cv_id conv) (\<lambda>c. c\<lparr>cv_state := st\<rparr>) s))"
  using run by (auto simp: ai_transition_from_def update_state_def ok_simps Let_def split: if_splits option.splits)

lemma ai_transition_result:
  assumes run: "ai_transition_from conv st s = Inr s'"
  shows "ai_moved conv st s s'" "messages s' = messages s" "task_queue s' = task_queue s"
    "bool_settings s' = bool_settings s" "redis_keys s' = redis_keys s"
  using ai_transition_cases [OF run] by (auto simp: ai_moved_def get_upd_conv)

lemma hand_over_result:
  assumes run: "hand_over conv s = Inr s'"
  shows "ai_moved conv CS_HUMAN_ASSIGNED s s'" "messages s' = messages s" "task_queue s' = task_queue s"
    "bool_settings s' = bool_settings s" "redis_keys s' = redis_keys s"
    "\<forall>c. get_conv (cv_id conv) s' = Some c \<longrightarrow> \<not> cv_ai_enabled c"
proof -
  obtain s1 where t: "ai_transition_from conv CS_HUMAN_ASSIGNED s = Inr s1"
    and s': "s' = upd_conv (cv_id conv) (\<lambda>c. c\<lparr>cv_ai_enabled := False\<rparr>) s1"
    using run by (auto simp: hand_over_def ok_simps)
  from ai_transition_result [OF t] s'
  show "ai_moved conv CS_HUMAN_ASSIGNED s s'" "messages s' = messages s" "task_queue s' = task_queue s"
    "bool_settings s' = bool_settings s" "redis_keys s' = redis_keys s"
    by (auto simp: get_upd_conv ai_moved_def)
  show "\<forall>c. get_conv (cv_id conv) s' = Some c \<longrightarrow> \<not> cv_ai_enabled c" by (auto simp: s' get_upd_conv)
qed

section \<open>The decision\<close>

text \<open>What is done with an answer, by the switches and the answer alone.\<close>

definition chosen_action :: "bool \<Rightarrow> claude_decision \<Rightarrow> 'a crm_scheme \<Rightarrow> decision_action" where
  "chosen_action contact_known d s =
     (if contact_known \<and> cd_detected_opt_out d then Escalate
      else if \<not> get_bool_setting ''ai.response_generation_enabled'' True s then Noop
      else if cd_escalate d then Escalate
      else if cd_requires_approval d then Approval
      else if strip_ascii (cd_reply d) = [] then Noop
      else if 17 / 20 < cd_confidence d \<and> get_bool_setting ''ai.auto_send_enabled'' True s then AutoSend
      else Approval)"

text \<open>What a decision leaves behind.\<close>

definition decision_effect :: "conversation \<Rightarrow> claude_decision \<Rightarrow> ai_decision \<Rightarrow> 'a crm_scheme \<Rightarrow> 'b crm_scheme \<Rightarrow> bool" where
  "decision_effect conv d dc s s' =
     (task_queue s' = task_queue s \<and> bool_settings s' = bool_settings s \<and>
      (case dc_action dc of
         AutoSend \<Rightarrow> (\<exists>m. dc_draft_message_id dc = Some m \<and> drafted (cv_id conv) m MSG_QUEUED d s s')
           \<and> conversations s' = conversations s
       | Approval \<Rightarrow> (\<exists>m. dc_draft_message_id dc = Some m \<and> drafted (cv_id conv) m MSG_DRAFT d s s')
           \<and> ai_moved conv CS_AWAITING_APPROVAL s s'
       | Escalate \<Rightarrow> messages s' = messages s \<and> ai_moved conv CS_HUMAN_ASSIGNED s s'
           \<and> (\<forall>c. get_conv (cv_id conv) s' = Some c \<longrightarrow> \<not> cv_ai_enabled c)
       | Noop \<Rightarrow> messages s' = messages s \<and> conversations s' = conversations s))"

lemma approval_draft_result:
  assumes run: "draft_for_approval env conv d tag_ids reason s = Inr (dc, s')"
  shows "dc_action dc = Approval \<and> decision_effect conv d dc s s'"
proof -
  obtain m s1 where m: "create_draft_message env (cv_id conv) (cd_reply d) MSG_DRAFT
      (if cd_send_contact_card d then Some ''contact'' else None)
      (if cd_send_business_card_image d then ae_card_media env else None) s = Inr (m, s1)"
    and t: "ai_transition_from conv CS_AWAITING_APPROVAL s1 = Inr s'"
    and dc: "dc_action dc = Approval" "dc_draft_message_id dc = Some m"
    using run by (auto simp: draft_for_approval_def ok_simps)
  note drafted = draft_result [OF m]
  have "get_conv i s1 = get_conv i s" for i using drafted(2) by (simp add: get_conv_def)
  with ai_transition_result [OF t] drafted dc show ?thesis
    by (simp add: decision_effect_def drafted_def ai_moved_def)
qed

lemma decide_reply_result:
  fixes s s' :: "'a ai_crm_scheme"
  assumes run: "decide_reply env conv d tag_ids s = Inr (dc, s')"
  shows "dc_action dc = chosen_action False d s \<and> decision_effect conv d dc s s'
    \<and> (dc_action dc = AutoSend \<longrightarrow> dc_delay_seconds dc = Some (compute_delay (ae_uniform env) (cd_reply d)))"
proof -
  have handed: "hand_over conv s = Inr t \<Longrightarrow> dc_action x = Escalate \<Longrightarrow> decision_effect conv d x s t" for t x
    using hand_over_result [of conv s t] by (simp add: decision_effect_def)
  have sent: "create_draft_message env (cv_id conv) (cd_reply d) MSG_QUEUED
      (if cd_send_contact_card d then Some ''contact'' else None) a s = Inr (m, t)
    \<Longrightarrow> dc_action x = AutoSend \<Longrightarrow> dc_draft_message_id x = Some m \<Longrightarrow> decision_effect conv d x s t" for a m t x
    using draft_result [of env "cv_id conv" d MSG_QUEUED a s m t] by (simp add: decision_effect_def)
  have idle: "dc_action x = Noop \<Longrightarrow> decision_effect conv d x t t" for x and t :: "'a ai_crm_scheme"
    by (simp add: decision_effect_def)
  show ?thesis
    using run unfolding decide_reply_def chosen_action_def confidence_auto_reply_threshold_def
    by (auto simp: ok_simps no_draft_def simp del: split_paired_Ex dest: approval_draft_result intro: handed sent idle
        split: if_splits)
qed

lemma effect_frame:
  assumes "ai_frame s t"
  shows "chosen_action b d t = chosen_action b d s" "decision_effect conv d dc t s' = decision_effect conv d dc s s'"
  using assms
  by (simp_all add: ai_frame_def chosen_action_def decision_effect_def drafted_def get_bool_setting_def ai_moved_def get_conv_def
      split: decision_action.split)

lemma decide_result:
  fixes s s' :: "'a ai_crm_scheme"
  assumes run: "decide env conv contact d s = Inr (dc, s')"
  shows "dc_action dc = chosen_action (contact \<noteq> None) d s" "decision_effect conv d dc s s'"
    "dc_action dc = AutoSend \<longrightarrow> dc_delay_seconds dc = Some (compute_delay (ae_uniform env) (cd_reply d))"
proof -
  have not_out: "\<not> (b \<and> cd_detected_opt_out d) \<Longrightarrow> chosen_action b d s = chosen_action False d s" for b
    by (cases b) (simp_all add: chosen_action_def)
  have "dc_action dc = chosen_action (contact \<noteq> None) d s \<and> decision_effect conv d dc s s'
    \<and> (dc_action dc = AutoSend \<longrightarrow> dc_delay_seconds dc = Some (compute_delay (ae_uniform env) (cd_reply d)))"
  proof (cases "contact \<noteq> None \<and> cd_detected_opt_out d")
    case True
    then obtain k where k: "hand_over conv (set_do_not_contact k True s) = Inr s'"
      and dc: "dc = no_draft Escalate [] (Some ''opt_out_detected'')"
      using run by (auto simp: decide_def ok_simps)
    have "decision_effect conv d dc (set_do_not_contact k True s) s'"
      using hand_over_result [OF k] by (simp add: decision_effect_def dc no_draft_def)
    then have "decision_effect conv d dc s s'" by (simp add: effect_frame(2) [OF ai_frame_suppressed])
    with True show ?thesis by (simp add: chosen_action_def dc no_draft_def)
  next
    case False
    obtain tag_ids t where frame: "ai_frame s t" and rest: "decide_reply env conv d tag_ids t = Inr (dc, s')"
      using run False ai_frame_suggestions
      by (fastforce simp: decide_def ok_simps split: option.splits if_splits)
    from decide_reply_result [OF rest] not_out [OF False] show ?thesis by (simp add: effect_frame [OF frame])
  qed
  then show "dc_action dc = chosen_action (contact \<noteq> None) d s" "decision_effect conv d dc s s'"
    "dc_action dc = AutoSend \<longrightarrow> dc_delay_seconds dc = Some (compute_delay (ae_uniform env) (cd_reply d))"
    by blast+
qed

section \<open>A round\<close>

text \<open>A round that the kill switch does not stop: what the session stored first, and what follows the answer.\<close>

lemma live_round:
  fixes s :: "'a ai_crm_scheme"
  assumes conv: "get_conv i s = Some conv" and live: "\<not> kill_switch_blocks env (get_crm_contact (cv_contact_id conv) s) s"
  obtains s1 msgs where "ai_frame s s1"
    "(get_crm_contact (cv_contact_id conv) s1 \<noteq> None) = (get_crm_contact (cv_contact_id conv) s \<noteq> None)"
    "process_inbound env other i w s =
     (case cascade_route env msgs of
        Inl e \<Rightarrow> (case e of ProviderError retryable code msg \<Rightarrow>
          Inr (ProviderFailed e, record_event i None None (Some (code @ '':'' @ msg)) (other s1)))
      | Inr d \<Rightarrow>
          ebind (decide env conv (get_crm_contact (cv_contact_id conv) s1) d
                   (record_event i (if cd_intent d = [] then None else Some (cd_intent d)) (Some (cd_confidence d)) None (other s1)))
            (\<lambda>(decision, s3). Inr (Decided decision, s3)))"
proof -
  let ?k = "get_crm_contact (cv_contact_id conv)"
  define s1 where "s1 = (case ?k s of None \<Rightarrow> s | Some k \<Rightarrow> ensure_contact_information env k s)"
  have "ai_frame s s1" by (simp add: s1_def split: option.splits)
  moreover have "(?k s1 \<noteq> None) = (?k s \<noteq> None)"
    by (simp add: s1_def ensure_contact_information_def Let_def get_crm_contact_def upd_contact_def get_by_upd_by
        split: option.splits)
  ultimately show ?thesis
    by (rule that) (simp only: process_inbound_def conv from_opt_simps ebind_simps Let_def if_not_P [OF live] s1_def [symmetric])
qed

lemma killed_round:
  assumes conv: "get_conv i s = Some conv" and blocked: "kill_switch_blocks env (get_crm_contact (cv_contact_id conv) s) s"
  shows "process_inbound env other i w s = Inr (Decided (no_draft Noop [] (Some ''ai_kill_switch_blocked'')), s)"
  by (simp only: process_inbound_def conv from_opt_simps ebind_simps Let_def if_P [OF blocked])

lemma round_cases:
  fixes s s' :: "'a ai_crm_scheme"
  assumes run: "process_inbound env other i w s = Inr (Decided dc, s')" and conv: "get_conv i s = Some conv"
  obtains (killed) "kill_switch_blocks env (get_crm_contact (cv_contact_id conv) s) s" "dc_action dc = Noop" "s' = s"
  | (answered) d s1 msgs where "\<not> kill_switch_blocks env (get_crm_contact (cv_contact_id conv) s) s"
      "ai_frame s s1" "cascade_route env msgs = Inr d"
      "dc_action dc = chosen_action (get_crm_contact (cv_contact_id conv) s \<noteq> None) d (other s1)"
      "decision_effect conv d dc (other s1) s'"
      "dc_action dc = AutoSend \<longrightarrow> dc_delay_seconds dc = Some (compute_delay (ae_uniform env) (cd_reply d))"
proof (cases "kill_switch_blocks env (get_crm_contact (cv_contact_id conv) s) s")
  case True
  have "dc_action dc = Noop" "s' = s" using run [unfolded killed_round [OF conv True]] by (auto simp: no_draft_def)
  with True show ?thesis by (rule killed)
next
  case False
  obtain s1 msgs where s1: "ai_frame s s1"
      "(get_crm_contact (cv_contact_id conv) s1 \<noteq> None) = (get_crm_contact (cv_contact_id conv) s \<noteq> None)"
    and eq: "process_inbound env other i w s =
     (case cascade_route env msgs of
        Inl e \<Rightarrow> (case e of ProviderError retryable code msg \<Rightarrow>
          Inr (ProviderFailed e, record_event i None None (Some (code @ '':'' @ msg)) (other s1)))
      | Inr d \<Rightarrow>
          ebind (decide env conv (get_crm_contact (cv_contact_id conv) s1) d
                   (record_event i (if cd_intent d = [] then None else Some (cd_intent d)) (Some (cd_confidence d)) None (other s1)))
            (\<lambda>(decision, s3). Inr (Decided decision, s3)))"
    by (rule live_round [OF conv False])
  obtain d where d: "cascade_route env msgs = Inr d"
    using run eq by (cases "cascade_route env msgs") (auto split: provider_error.splits)
  have rest: "decide env conv (get_crm_contact (cv_contact_id conv) s1) d
      (record_event i (if cd_intent d = [] then None else Some (cd_intent d)) (Some (cd_confidence d)) None (other s1)) = Inr (dc, s')"
    using run [unfolded eq] by (auto simp: d ok_simps)
  show ?thesis
    by (rule answered [OF False s1(1) d])
      (use decide_result [OF rest] s1(2) in \<open>simp_all add: effect_frame [OF ai_frame_event]\<close>)
qed

lemma failed_round:
  assumes run: "process_inbound env other i w s = Inr (ProviderFailed e, x)" and conv: "get_conv i s = Some conv"
  shows "\<exists>s1. ai_frame s s1 \<and> ai_frame (other s1) x"
proof (cases "kill_switch_blocks env (get_crm_contact (cv_contact_id conv) s) s")
  case True
  then show ?thesis using run by (simp add: killed_round [OF conv True])
next
  case False
  obtain s1 msgs where s1: "ai_frame s s1"
    and eq: "process_inbound env other i w s =
     (case cascade_route env msgs of
        Inl e \<Rightarrow> (case e of ProviderError retryable code msg \<Rightarrow>
          Inr (ProviderFailed e, record_event i None None (Some (code @ '':'' @ msg)) (other s1)))
      | Inr d \<Rightarrow>
          ebind (decide env conv (get_crm_contact (cv_contact_id conv) s1) d
                   (record_event i (if cd_intent d = [] then None else Some (cd_intent d)) (Some (cd_confidence d)) None (other s1)))
            (\<lambda>(decision, s3). Inr (Decided decision, s3)))"
    by (rule live_round [OF conv False])
  have "ai_frame (other s1) x"
    using run [unfolded eq] by (cases "cascade_route env msgs") (auto simp: ok_simps split: provider_error.splits)
  with s1 show ?thesis by blast
qed

lemma compute_delay_range:
  assumes uniform: "\<And>k a b. a \<le> b \<Longrightarrow> a \<le> uniform k a b \<and> uniform k a b \<le> b"
  shows "1 \<le> compute_delay uniform w" "compute_delay uniform w \<le> 6"
proof -
  let ?lo = "fst (delay_band (count_words False w))" and ?hi = "snd (delay_band (count_words False w))"
  define base where "base = uniform 0 ?lo ?hi"
  define v where "v = uniform 1 (- delay_variance) delay_variance"
  have "?lo \<le> ?hi" by (simp add: delay_band_def)
  then have b: "?lo \<le> base" "base \<le> ?hi" using uniform by (simp_all add: base_def)
  have b6: "1 \<le> base" "base \<le> 6" using b by (auto simp: delay_band_def split: if_splits)
  have v: "v \<le> 1 / 10" using uniform [of "- delay_variance" delay_variance 1] by (simp add: v_def delay_variance_def)
  have "base * (1 + v) \<le> base * (11 / 10)" using b6(1) v by (intro mult_left_mono) simp_all
  also have "\<dots> \<le> 66 / 10" using b6(2) by simp
  finally have "base * (1 + v) < 7" by simp
  then have "floor (base * (1 + v)) \<le> 6" by linarith
  then show "1 \<le> compute_delay uniform w" "compute_delay uniform w \<le> 6"
    by (simp_all add: compute_delay_def Let_def base_def [symmetric] v_def [symmetric] del: One_nat_def)
qed

section \<open>The worker\<close>

text \<open>An auto-send enters the queue only through a round that decided it.\<close>

lemma assign_human_queue: "assign_human i s = Inr s' \<Longrightarrow> task_queue s' = task_queue s"
  by (auto simp: assign_human_def update_state_def ok_simps Let_def split: option.splits if_splits)

lemma round_queue:
  assumes run: "process_inbound env other i w s = Inr (out, x)" and conv: "get_conv i s = Some conv"
    and t: "t \<in> set (task_queue x)"
    and others: "\<And>y. t \<in> set (task_queue (other y)) \<Longrightarrow> t \<in> set (task_queue y)"
  shows "t \<in> set (task_queue s)"
proof (cases out)
  case (Decided dc)
  from run have "process_inbound env other i w s = Inr (Decided dc, x)" by (simp add: Decided)
  from this conv show ?thesis
  proof (cases rule: round_cases)
    case killed
    then show ?thesis using t by simp
  next
    case (answered d s1 msgs)
    then have "t \<in> set (task_queue (other s1))" using t by (simp add: decision_effect_def)
    from others [OF this] answered(2) show ?thesis by (simp add: ai_frame_def)
  qed
next
  case (ProviderFailed e)
  obtain s1 where s1: "ai_frame s s1" "ai_frame (other s1) x"
    using failed_round [OF run [unfolded ProviderFailed] conv] by blast
  then have "t \<in> set (task_queue (other s1))" using t by (simp add: ai_frame_def)
  from others [OF this] s1(1) show ?thesis by (simp add: ai_frame_def)
qed

lemma request_sends:
  assumes run: "run_ai_request env other n i w s = (e, s')"
    and t: "t \<in> set (task_queue s')" "t \<notin> set (task_queue s)"
    and others: "\<And>y. t \<in> set (task_queue (other y)) \<Longrightarrow> t \<in> set (task_queue y)"
  obtains conv dc m x where "get_conv i s = Some conv" "cv_ai_enabled conv"
    "cv_state conv \<in> {CS_NEW, CS_AI_ACTIVE, CS_AWAITING_APPROVAL}"
    "process_inbound env other i w s = Inr (Decided dc, x)" "dc_action dc = AutoSend" "dc_draft_message_id dc = Some m"
    "t = SendAiReply i m (case dc_delay_seconds dc of None \<Rightarrow> 0 | Some n \<Rightarrow> n)" "s' = enqueue t x"
proof -
  obtain conv where conv: "get_conv i s = Some conv"
    using run t by (cases "get_conv i s") (auto simp: run_ai_request_def)
  have live: "\<not> (\<not> cv_ai_enabled conv \<or> cv_state conv \<in> {CS_HUMAN_ASSIGNED, CS_AI_PAUSED, CS_CLOSED})"
  proof
    assume "\<not> cv_ai_enabled conv \<or> cv_state conv \<in> {CS_HUMAN_ASSIGNED, CS_AI_PAUSED, CS_CLOSED}"
    from run [unfolded run_ai_request_def conv option.case if_P [OF this]] t show False by simp
  qed
  note rest = run [unfolded run_ai_request_def conv option.case if_not_P [OF live]]
  show ?thesis
  proof (cases "process_inbound env other i w s")
    case (Inl b)
    then show ?thesis using rest t others by auto
  next
    case (Inr r)
    obtain out x where r: "r = (out, x)" by fastforce
    have old: "t \<notin> set (task_queue x)" using round_queue [OF Inr [unfolded r] conv _ others] t(2) by blast
    show ?thesis
    proof (cases out)
      case (ProviderFailed p)
      have "task_queue s' = task_queue x"
        using rest unfolding Inr r ProviderFailed
        by (cases p) (auto split: if_splits sum.splits dest: assign_human_queue)
      with old t(1) show ?thesis by simp
    next
      case (Decided dc)
      have s': "s' = (case dc_draft_message_id dc of None \<Rightarrow> x
          | Some m \<Rightarrow> if dc_action dc = AutoSend
              then enqueue (SendAiReply i m (case dc_delay_seconds dc of None \<Rightarrow> 0 | Some n \<Rightarrow> n)) x else x)"
        using rest unfolding Inr r Decided by simp
      obtain m where m: "dc_draft_message_id dc = Some m" and auto: "dc_action dc = AutoSend"
        using s' t(1) old by (auto split: option.splits if_splits)
      have st: "cv_state conv \<in> {CS_NEW, CS_AI_ACTIVE, CS_AWAITING_APPROVAL}" using live by (cases "cv_state conv") auto
      have "t = SendAiReply i m (case dc_delay_seconds dc of None \<Rightarrow> 0 | Some n \<Rightarrow> n)" "s' = enqueue t x"
        using s' m auto t(1) old by (auto simp: enqueue_def)
      with that [OF conv _ st Inr [unfolded r Decided] auto m] live show ?thesis by blast
    qed
  qed
qed

text \<open>The lock is taken, the request runs, and the lock is released whatever the end.\<close>

lemma request_free:
  assumes "ai_lock_key env i \<notin> set (redis_keys s)"
    and "run_ai_request env other n i w (s\<lparr>redis_keys := redis_keys s @ [ai_lock_key env i]\<rparr>) = (e, s1)"
  shows "request_ai_reply env other n i w s = (e, s1\<lparr>redis_keys := filter (\<lambda>k. k \<noteq> ai_lock_key env i) (redis_keys s1)\<rparr>)"
  using assms by (simp add: request_ai_reply_def Let_def)

text \<open>A round that decided to send: the guards it passed and the message it stored.\<close>

lemma auto_send_round:
  assumes round: "process_inbound env other i w s = Inr (Decided dc, x)" and conv: "get_conv i s = Some conv"
    and auto: "dc_action dc = AutoSend" and m: "dc_draft_message_id dc = Some m"
  shows "\<not> kill_switch_blocks env (get_crm_contact (cv_contact_id conv) s) s
    \<and> (\<exists>d msgs msg. cascade_route env msgs = Inr d \<and> 17 / 20 < cd_confidence d \<and> strip_ascii (cd_reply d) \<noteq> []
         \<and> \<not> cd_escalate d \<and> \<not> cd_requires_approval d
         \<and> \<not> (cd_detected_opt_out d \<and> get_crm_contact (cv_contact_id conv) s \<noteq> None)
         \<and> dc_delay_seconds dc = Some (compute_delay (ae_uniform env) (cd_reply d))
         \<and> msg \<in> set (messages x) \<and> ms_id msg = m \<and> ms_conversation_id msg = i
         \<and> ms_direction msg = OUTBOUND \<and> ms_sender_type msg = SENDER_AI \<and> ms_delivery_status msg = MSG_QUEUED
         \<and> ms_content msg = (if cd_send_contact_card d then sara_card else cd_reply d))
    \<and> get_bool_setting ''ai.response_generation_enabled'' True x \<and> get_bool_setting ''ai.auto_send_enabled'' True x"
  using round conv
proof (cases rule: round_cases)
  case killed
  then show ?thesis using auto by simp
next
  case (answered d s1 msgs)
  have guards: "17 / 20 < cd_confidence d" "strip_ascii (cd_reply d) \<noteq> []" "\<not> cd_escalate d" "\<not> cd_requires_approval d"
    "\<not> (cd_detected_opt_out d \<and> get_crm_contact (cv_contact_id conv) s \<noteq> None)"
    "get_bool_setting ''ai.response_generation_enabled'' True (other s1)"
    "get_bool_setting ''ai.auto_send_enabled'' True (other s1)"
    using answered(4) auto by (auto simp: chosen_action_def split: if_splits)
  have eff: "drafted (cv_id conv) m MSG_QUEUED d (other s1) x" "bool_settings x = bool_settings (other s1)"
    using answered(5) auto m by (simp_all add: decision_effect_def)
  obtain msg where new: "messages x = messages (other s1) @ [msg]"
    and msg: "ms_id msg = m" "ms_conversation_id msg = cv_id conv"
      "ms_direction msg = OUTBOUND" "ms_sender_type msg = SENDER_AI" "ms_delivery_status msg = MSG_QUEUED"
      "ms_content msg = (if cd_send_contact_card d then sara_card else cd_reply d)"
    using eff(1) unfolding drafted_def by blast
  have "msg \<in> set (messages x)" by (simp add: new)
  moreover have "get_bool_setting key b x = get_bool_setting key b (other s1)" for key b
    by (simp add: get_bool_setting_def eff(2))
  ultimately show ?thesis using answered(1,3,6) auto guards msg get_conv_id [OF conv] by blast
qed

section \<open>A provider that fails\<close>

text \<open>Before the end: the AI is in charge of the conversation, nobody holds its lock and the kill switch is off.\<close>

definition ai_waits :: "(nat \<Rightarrow> ai_env) \<Rightarrow> uuid \<Rightarrow> 'a crm_scheme \<Rightarrow> bool" where
  "ai_waits env i s =
     ((\<exists>c. get_conv i s = Some c \<and> cv_ai_enabled c \<and> cv_state c \<in> {CS_NEW, CS_AI_ACTIVE, CS_AWAITING_APPROVAL})
      \<and> (\<forall>k. ai_lock_key (env k) i \<notin> set (redis_keys s)) \<and> \<not> get_bool_setting ''ai.kill_switch'' False s)"

definition handed_to_human :: "uuid \<Rightarrow> 'a crm_scheme \<Rightarrow> bool" where
  "handed_to_human i s =
     ((\<exists>c. get_conv i s = Some c \<and> cv_state c = CS_HUMAN_ASSIGNED \<and> \<not> cv_ai_enabled c)
      \<and> (''conversation.escalated'', i) \<in> set (published s))"

lemma update_state_found:
  "get_conv i s = Some c \<Longrightarrow> cv_state c = a \<Longrightarrow> update_state i a b s = (1, upd_conv i (\<lambda>c. c\<lparr>cv_state := b\<rparr>) s)"
  by (simp add: update_state_def)

lemma assign_human_hands_over:
  assumes "get_conv i s = Some c" "cv_state c \<in> {CS_NEW, CS_AI_ACTIVE, CS_AWAITING_APPROVAL}"
  shows "\<exists>s'. assign_human i s = Inr s' \<and> handed_to_human i s'"
proof -
  let ?s = "upd_conv i (\<lambda>c. c\<lparr>cv_state := CS_HUMAN_ASSIGNED\<rparr>) s"
  have "assign_human i s = Inr (publish ''conversation.escalated'' i (upd_conv i (\<lambda>c. c\<lparr>cv_ai_enabled := False\<rparr>) ?s))"
    using assms(2)
    by (auto simp: assign_human_def assms(1) update_state_found [OF assms(1) refl] assert_transition_def terminal_states_def
        can_transition_def)
  moreover have "handed_to_human i (publish ''conversation.escalated'' i (upd_conv i (\<lambda>c. c\<lparr>cv_ai_enabled := False\<rparr>) ?s))"
    using assms(1) by (simp add: handed_to_human_def get_upd_conv) (simp add: publish_def)
  ultimately show ?thesis by blast
qed

lemma failing_round:
  assumes conv: "get_conv i s = Some conv" and kill: "\<not> get_bool_setting ''ai.kill_switch'' False s"
    and failing: "\<And>msgs. isl (cascade_route env msgs)"
  shows "\<exists>e s1 x. process_inbound env other i w s = Inr (ProviderFailed e, x) \<and> ai_frame s s1 \<and> ai_frame (other s1) x"
proof -
  have live: "\<not> kill_switch_blocks env (get_crm_contact (cv_contact_id conv) s) s" using kill by (simp add: kill_switch_blocks_def)
  obtain s1 msgs where s1: "ai_frame s s1"
    and eq: "process_inbound env other i w s =
     (case cascade_route env msgs of
        Inl e \<Rightarrow> (case e of ProviderError retryable code msg \<Rightarrow>
          Inr (ProviderFailed e, record_event i None None (Some (code @ '':'' @ msg)) (other s1)))
      | Inr d \<Rightarrow>
          ebind (decide env conv (get_crm_contact (cv_contact_id conv) s1) d
                   (record_event i (if cd_intent d = [] then None else Some (cd_intent d)) (Some (cd_confidence d)) None (other s1)))
            (\<lambda>(decision, s3). Inr (Decided decision, s3)))"
    by (rule live_round [OF conv live])
  obtain e where e: "cascade_route env msgs = Inl e" using failing by (meson isl_def)
  obtain r code msg where p: "e = ProviderError r code msg" by (cases e)
  have "process_inbound env other i w s = Inr (ProviderFailed e, record_event i None None (Some (code @ '':'' @ msg)) (other s1))"
    unfolding eq e p by simp
  with s1 ai_frame_event show ?thesis by blast
qed

text \<open>One run of the task: it is tried again from where it was, or the conversation is handed over.\<close>

lemma failing_request:
  assumes waits: "ai_waits envs i s" and failing: "\<And>msgs. isl (cascade_route (envs n) msgs)"
    and other: "\<And>y. conversations (other y) = conversations y \<and> bool_settings (other y) = bool_settings y
      \<and> redis_keys (other y) = redis_keys y"
  shows "(\<exists>t s'. request_ai_reply (envs n) other n i w s = (TaskRetry t 3, s') \<and> n < 3 \<and> ai_waits envs i s')
    \<or> (\<exists>s'. request_ai_reply (envs n) other n i w s = (TaskDone, s') \<and> handed_to_human i s')"
proof -
  let ?s = "s\<lparr>redis_keys := redis_keys s @ [ai_lock_key (envs n) i]\<rparr>"
  let ?release = "\<lambda>x. x\<lparr>redis_keys := filter (\<lambda>k. k \<noteq> ai_lock_key (envs n) i) (redis_keys x)\<rparr>"
  obtain c where c: "get_conv i s = Some c" "cv_ai_enabled c" "cv_state c \<in> {CS_NEW, CS_AI_ACTIVE, CS_AWAITING_APPROVAL}"
    using waits by (auto simp: ai_waits_def)
  have free: "ai_lock_key (envs k) i \<notin> set (redis_keys s)" for k using waits by (simp add: ai_waits_def)
  have conv: "get_conv i ?s = Some c" using c(1) by (simp add: get_conv_def)
  have kill: "\<not> get_bool_setting ''ai.kill_switch'' False ?s" using waits by (simp add: ai_waits_def get_bool_setting_def)
  obtain e s1 x where round: "process_inbound (envs n) other i w ?s = Inr (ProviderFailed e, x)"
    and frames: "ai_frame ?s s1" "ai_frame (other s1) x"
    using failing_round [OF conv kill failing] by blast
  have x: "conversations x = conversations s" "bool_settings x = bool_settings s"
      "redis_keys x = redis_keys s @ [ai_lock_key (envs n) i]"
    using frames other [of s1] by (simp_all add: ai_frame_def)
  obtain r code msg where e: "e = ProviderError r code msg" by (cases e)
  have live: "\<not> (\<not> cv_ai_enabled c \<or> cv_state c \<in> {CS_HUMAN_ASSIGNED, CS_AI_PAUSED, CS_CLOSED})" using c by auto
  have run: "run_ai_request (envs n) other n i w ?s =
     (if r \<and> n < length ai_retry_delays then (TaskRetry (ai_retry_delays ! n) ai_max_retries, x)
      else (case assign_human i x of Inl e \<Rightarrow> (TaskFailed, x) | Inr s2 \<Rightarrow> (TaskDone, s2)))"
    unfolding run_ai_request_def conv option.case if_not_P [OF live] round e by simp
  show ?thesis
  proof (cases "r \<and> n < length ai_retry_delays")
    case True
    have "request_ai_reply (envs n) other n i w s = (TaskRetry (ai_retry_delays ! n) 3, ?release x)"
      by (rule request_free [OF free]) (use True in \<open>simp add: run ai_max_retries_def ai_retry_delays_def\<close>)
    moreover have "ai_waits envs i (?release x)"
      using c free waits x by (auto simp: ai_waits_def get_conv_def get_bool_setting_def)
    ultimately show ?thesis using True by (auto simp: ai_retry_delays_def)
  next
    case False
    have "get_conv i x = Some c" using c(1) x(1) by (simp add: get_conv_def)
    then obtain s2 where s2: "assign_human i x = Inr s2" "handed_to_human i s2"
      using assign_human_hands_over c(3) by blast
    have "request_ai_reply (envs n) other n i w s = (TaskDone, ?release s2)"
      by (rule request_free [OF free]) (use False s2 in \<open>simp add: run\<close>)
    moreover have "handed_to_human i (?release s2)" using s2(2) by (simp add: handed_to_human_def get_conv_def)
    ultimately show ?thesis by blast
  qed
qed

section \<open>A small example\<close>

definition demo_answer :: claude_decision where
  "demo_answer = \<lparr>cd_reply = ''We open at nine.'', cd_confidence = 19 / 20, cd_intent = ''hours'', cd_suggested_tags = [],
     cd_requires_approval = False, cd_escalate = False, cd_detected_opt_out = False, cd_send_contact_card = False,
     cd_send_business_card_image = False\<rparr>"

definition demo_ai_env :: ai_env where
  "demo_ai_env = \<lparr>ae_key = True, ae_claude = (\<lambda>tier msgs n. ApiMessage [ToolUse ''emit_decision'' (Some demo_answer)]),
     ae_extract = (\<lambda>w. None), ae_memory = (\<lambda>i. None), ae_memory_enabled = False, ae_history_limit = 50,
     ae_test_numbers = [], ae_card_media = None, ae_has_file = (\<lambda>i. False), ae_day_text = (\<lambda>t. ''2026-01-01''),
     ae_uniform = (\<lambda>k a b. a), ae_uuid_text = (\<lambda>i. ''x'')\<rparr>"

definition demo_ai :: ai_crm where
  "demo_ai = \<lparr>next_id = 100, today = 0, contacts = [], sequences = (\<lambda>_. None), audit_log = [], clock = 1000,
     users = [], crm_contacts = [\<lparr>ct_id = 10, ct_phone = ''971501234567'', ct_name = None, ct_company = None,
       ct_information = Some ''prefers mornings'', ct_status = CT_ACTIVE, ct_assigned_agent_id = None, ct_ai_assigned = False,
       ct_do_not_contact = False, ct_marketing_opt_out = False, ct_last_interaction_at = None,
       ct_last_contacted_at = None, ct_last_inbound_at = None\<rparr>],
     conversations = [\<lparr>cv_id = 20, cv_contact_id = 10, cv_state = CS_AI_ACTIVE, cv_outreach_state = None, cv_ai_enabled = True,
       cv_locked_by = None, cv_lock_expires_at = None, cv_last_message_at = None, cv_last_read_at = None,
       cv_created_at = 0, cv_updated_at = 0\<rparr>],
     messages = [], media_assets = [], tags = [], contact_tags = [],
     templates = [], campaigns = [], campaign_recipients = [], bool_settings = (\<lambda>_. None), redis_keys = [],
     redis_counters = (\<lambda>_. 0), published = [], task_queue = [], row_choice = (\<lambda>_. 0),
     tag_suggestions = [], ai_events = []\<rparr>"

lemma demo_cascade: "cascade_route demo_ai_env msgs = Inr demo_answer"
  by (simp add: cascade_route_def propose_reply_def demo_ai_env_def needs_escalation_def demo_answer_def
      claude_attempts_def confidence_auto_reply_threshold_def numeral_2_eq_2)

lemma demo_reply: "strip_ascii (cd_reply demo_answer) \<noteq> []"
  by code_simp

lemma demo_round:
  "\<exists>dc s'. process_inbound demo_ai_env (\<lambda>y. y) 20 ''Hi'' demo_ai = Inr (Decided dc, s') \<and> dc_action dc = AutoSend
     \<and> task_queue s' = []"
  unfolding process_inbound_def demo_cascade
  using demo_reply by (simp add: demo_ai_def demo_ai_env_def demo_answer_def evals Let_def cong: ebind_weak_cong)

lemma demo_request:
  "request_ai_reply demo_ai_env (\<lambda>y. y) 0 20 ''Hi'' demo_ai =
     (TaskDone, snd (request_ai_reply demo_ai_env (\<lambda>y. y) 0 20 ''Hi'' demo_ai))"
  "task_queue (snd (request_ai_reply demo_ai_env (\<lambda>y. y) 0 20 ''Hi'' demo_ai)) = [SendAiReply 20 101 1]"
  unfolding request_ai_reply_def run_ai_request_def process_inbound_def demo_cascade
  using demo_reply by (simp_all add: demo_ai_def demo_ai_env_def demo_answer_def evals Let_def cong: ebind_weak_cong)

section \<open>Properties\<close>

text \<open>C37: A reply of the AI goes out without a human only under all its guards. When a request puts the dispatch of a
  reply into the queue, the AI was enabled on the conversation and no human, pause or closing was in the way, the
  kill switch was off or the number is a test number, both switches were on, and a model answered with more than
  17/20 confidence, a reply that is not blank, no escalation, no need of approval and (for a known contact) no
  opt-out. The message is the reply of the model, stored as QUEUED, and it waits between one and six seconds.\<close>

theorem auto_send_guarded:
  assumes run: "request_ai_reply env other n i w s = (e, s')"
    and sent: "SendAiReply j m t \<in> set (task_queue s')" "SendAiReply j m t \<notin> set (task_queue s)"
    and others: "\<And>y. SendAiReply j m t \<in> set (task_queue (other y)) \<Longrightarrow> SendAiReply j m t \<in> set (task_queue y)"
    and uniform: "\<And>k a b. a \<le> b \<Longrightarrow> a \<le> ae_uniform env k a b \<and> ae_uniform env k a b \<le> b"
  shows "j = i \<and> 1 \<le> t \<and> t \<le> 6
    \<and> (\<exists>conv. get_conv i s = Some conv \<and> cv_ai_enabled conv
         \<and> cv_state conv \<in> {CS_NEW, CS_AI_ACTIVE, CS_AWAITING_APPROVAL}
         \<and> \<not> kill_switch_blocks env (get_crm_contact (cv_contact_id conv) s) s
         \<and> (\<exists>d msgs msg. cascade_route env msgs = Inr d \<and> 17 / 20 < cd_confidence d \<and> strip_ascii (cd_reply d) \<noteq> []
              \<and> \<not> cd_escalate d \<and> \<not> cd_requires_approval d
              \<and> \<not> (cd_detected_opt_out d \<and> get_crm_contact (cv_contact_id conv) s \<noteq> None)
              \<and> msg \<in> set (messages s') \<and> ms_id msg = m \<and> ms_conversation_id msg = i
              \<and> ms_direction msg = OUTBOUND \<and> ms_sender_type msg = SENDER_AI \<and> ms_delivery_status msg = MSG_QUEUED
              \<and> ms_content msg = (if cd_send_contact_card d then sara_card else cd_reply d)))
    \<and> get_bool_setting ''ai.response_generation_enabled'' True s' \<and> get_bool_setting ''ai.auto_send_enabled'' True s'"
proof -
  let ?s = "s\<lparr>redis_keys := redis_keys s @ [ai_lock_key env i]\<rparr>"
  have free: "ai_lock_key env i \<notin> set (redis_keys s)" using run sent by (auto simp: request_ai_reply_def Let_def)
  obtain s1 where s1: "run_ai_request env other n i w ?s = (e, s1)"
    and s': "s' = s1\<lparr>redis_keys := filter (\<lambda>k. k \<noteq> ai_lock_key env i) (redis_keys s1)\<rparr>"
    using run free by (auto simp: request_ai_reply_def Let_def split: prod.splits)
  have q: "SendAiReply j m t \<in> set (task_queue s1)" "SendAiReply j m t \<notin> set (task_queue ?s)" using sent s' by simp_all
  obtain conv dc m' x where conv: "get_conv i ?s = Some conv" "cv_ai_enabled conv"
      "cv_state conv \<in> {CS_NEW, CS_AI_ACTIVE, CS_AWAITING_APPROVAL}"
    and round: "process_inbound env other i w ?s = Inr (Decided dc, x)" and auto: "dc_action dc = AutoSend"
    and m': "dc_draft_message_id dc = Some m'"
    and t: "SendAiReply j m t = SendAiReply i m' (case dc_delay_seconds dc of None \<Rightarrow> 0 | Some n \<Rightarrow> n)"
    and s1x: "s1 = enqueue (SendAiReply j m t) x"
    by (rule request_sends [OF s1 q others])
  have here: "get_conv i s = Some conv" using conv(1) by (simp add: get_conv_def)
  have same: "get_crm_contact k ?s = get_crm_contact k s" "kill_switch_blocks env c ?s = kill_switch_blocks env c s" for k c
    by (simp_all add: get_crm_contact_def kill_switch_blocks_def get_bool_setting_def)
  have settings: "get_bool_setting key b s' = get_bool_setting key b x" for key b
    by (simp add: s' s1x enqueue_def get_bool_setting_def)
  have msgs: "messages s' = messages x" by (simp add: s' s1x enqueue_def)
  have "m' = m" "j = i" using t by simp_all
  note facts = auto_send_round [OF round conv(1) auto m', unfolded same]
  moreover have "1 \<le> t \<and> t \<le> 6"
    using facts t compute_delay_range [OF uniform] by auto
  ultimately show ?thesis
    using here conv(2,3) unfolding settings msgs \<open>m' = m\<close> \<open>j = i\<close> by blast
qed

theorem auto_send_guarded_witness:
  "\<exists>s'. request_ai_reply demo_ai_env (\<lambda>y. y) 0 20 ''Hi'' demo_ai = (TaskDone, s')
     \<and> get_bool_setting ''ai.auto_send_enabled'' True s'
     \<and> (\<exists>msg\<in>set (messages s'). ms_id msg = 101 \<and> ms_delivery_status msg = MSG_QUEUED)"
proof -
  let ?s' = "snd (request_ai_reply demo_ai_env (\<lambda>y. y) 0 20 ''Hi'' demo_ai)"
  have sent: "SendAiReply 20 101 1 \<in> set (task_queue ?s')" by (simp add: demo_request(2))
  have fresh: "SendAiReply 20 101 1 \<notin> set (task_queue demo_ai)" by (simp add: demo_ai_def)
  have uniform: "a \<le> b \<Longrightarrow> a \<le> ae_uniform demo_ai_env k a b \<and> ae_uniform demo_ai_env k a b \<le> b" for k a b
    by (simp add: demo_ai_env_def)
  from auto_send_guarded [OF demo_request(1) sent fresh _ uniform] demo_request(1) show ?thesis by blast
qed

text \<open>C38: A provider that keeps failing never leaves a customer with the AI. While the AI is in charge of a conversation and
  every call of the API ends in an error, the task of a request ends after at most four runs, and then the
  conversation is HUMAN_ASSIGNED with the AI switched off and its escalation published.\<close>

theorem ai_failure_hands_over:
  assumes waits: "ai_waits envs i s" and failing: "\<And>k msgs. isl (cascade_route (envs k) msgs)"
    and other: "\<And>k y. conversations (other k y) = conversations y \<and> bool_settings (other k y) = bool_settings y
      \<and> redis_keys (other k y) = redis_keys y"
  shows "\<exists>n s'. run_task (<) (\<lambda>k. request_ai_reply (envs k) (other k) k i w) 0 s = Some (TaskDone, n, s') \<and> n \<le> 3
    \<and> handed_to_human i s'"
proof -
  let ?task = "\<lambda>k. request_ai_reply (envs k) (other k) k i w"
  have "\<exists>m s'. run_task (<) ?task n s = Some (TaskDone, m, s') \<and> m \<le> 3 \<and> handed_to_human i s'"
    if "ai_waits envs i s" "n \<le> 3" for n s
    using that
  proof (induction "3 - n" arbitrary: n s)
    case 0
    then obtain s' where "?task n s = (TaskDone, s')" "handed_to_human i s'"
      using failing_request [of envs i s n "other n" w, OF 0(2) failing other] by auto
    with 0 show ?case by (subst run_task.simps) simp
  next
    case (Suc d)
    from failing_request [of envs i s n "other n" w, OF Suc.prems(1) failing other] show ?case
    proof (elim disjE exE conjE)
      fix t s' assume step: "?task n s = (TaskRetry t 3, s')" "n < 3" "ai_waits envs i s'"
      have "\<exists>m s2. run_task (<) ?task (Suc n) s' = Some (TaskDone, m, s2) \<and> m \<le> 3 \<and> handed_to_human i s2"
        by (rule Suc.hyps(1)) (use Suc.hyps(2) step in simp_all)
      with step show ?thesis by (subst run_task.simps) simp
    next
      fix s' assume "?task n s = (TaskDone, s')" "handed_to_human i s'"
      with Suc.prems show ?thesis by (subst run_task.simps) simp
    qed
  qed
  from this [OF waits, of 0] show ?thesis by simp
qed

theorem ai_failure_hands_over_witness:
  "\<exists>n s'. run_task (<) (\<lambda>k. request_ai_reply (demo_ai_env\<lparr>ae_claude := (\<lambda>tier msgs n. ApiTimeout)\<rparr>) (\<lambda>y. y) k 20 ''Hi'') 0 demo_ai
     = Some (TaskDone, n, s') \<and> n \<le> 3 \<and> handed_to_human 20 s'"
proof -
  let ?env = "demo_ai_env\<lparr>ae_claude := (\<lambda>tier msgs n. ApiTimeout)\<rparr>"
  have waits: "ai_waits (\<lambda>k. ?env) 20 demo_ai" by (simp add: ai_waits_def demo_ai_def get_conv_def get_bool_setting_def)
  have failing: "isl (cascade_route ?env msgs)" for msgs
    by (simp add: cascade_route_def propose_reply_def demo_ai_env_def claude_attempts_def numeral_2_eq_2)
  show ?thesis by (rule ai_failure_hands_over [OF waits failing]) simp
qed



end
