(* ===== verification/Spec2Isabelle.thy ===== *)
theory Spec2Isabelle
  imports EngagementProps CampaignReach ReportingProps ConversationProps ContactProps SendingProps CategorizationProps AiProps
begin

text \<open>
  A model of engage-OS (src/backend/app) with the theorems that make it correct and those that show where it is
  not.

  The program is a FastAPI backend over PostgreSQL with Celery workers, in two halves that share the session, the
  audit log and the table of contacts. The ERP keeps books and stock: general ledger, receivables, payables,
  inventory, procurement, fulfilment and the financial statements. The CRM talks to customers over WhatsApp:
  contacts, conversations, messages, campaigns, follow-ups, tags and an AI that answers. Each is a set of
  modules under modules/ with constants, models (tables), schemas (requests), a repository (queries), services
  (operations) and tasks (workers). Services commit in the router; payables calls the posting service itself, the
  other sub-ledgers emit domain events that the finance bridge turns into journals.

  State. A session is a record that every component extends with its own tables: \<open>session\<close>, \<open>ledger\<close>,
  \<open>receivables\<close>, \<open>payables\<close>, \<open>inventory\<close>, \<open>procurement\<close>, \<open>fulfilment\<close> for the ERP; \<open>crm\<close> and on top of it \<open>campaign_crm\<close> and
  \<open>ai_crm\<close> for the CRM. A table is the list of its rows in insertion order, a row a record with the columns the
  operations read or write. The fields \<open>contacts\<close> (ERP) and \<open>crm_contacts\<close> (CRM) are two projections of one table.
  An operation is a function from a state to \<open>err + state\<close>; \<open>Inl\<close> is the exception the code raises and carries no state
  because the transaction is rolled back. Amounts are rationals, rounded where Decimal or the column
  rounds (\<open>money\<close>, \<open>qty\<close>, \<open>fx_rate\<close>); dates are day numbers, times microseconds (\<open>clock\<close>); identifiers are numbers
  handed out by \<open>next_id\<close>, which stands for \<open>gen_random_uuid()\<close> never returning one in use; texts are the bytes of their
  UTF-8 encoding. Where a query leaves the order open, \<open>db_choice\<close> (ERP) and \<open>row_choice\<close> (CRM) give the position
  the database takes, in any way. Sessions do not flush before a query, and the loops that depend on it (the confirmation of
  a dispatch) read the quantities as they were.

  Workers. A Celery task is a function from the state and its number of retries to the state it committed and a
  \<open>task_end\<close>: done, failed, or run again after a countdown. \<open>run_task\<close> (a \<open>partial_function\<close>) repeats it while the queue
  admits it, and that it ends is proved. What Meta or the API of the model answers, whether Redis is up or a file
  there, the memory file and random draws are arguments. The argument \<open>other\<close> is what other transactions commit in
  between, \<open>tick\<close> the passing of time. \<open>task_queue\<close>, \<open>published\<close>, \<open>redis_keys\<close> and \<open>redis_counters\<close> log what leaves
  the database.

  Theories of the ERP:
    Prelude: exceptions, sequencing, loops that may raise, tables, and the locales
      \<open>keyed_table\<close> (a repository), \<open>draft_gate\<close> (leaving the draft state) and \<open>allocation_book\<close> (bookings against a fixed
      amount), interpreted for every table, document and payment below.
    Numbering, Money: the calendar and document numbers; core/money.py, its rounding error and monotonicity.
    Session: the shared session, the audit log, the number sequences.
    Ledger, Posting, Reversal, Books: modules/ledger. The locale \<open>posting_invariant\<close> is the contract of the posting service,
      interpreted on four invariants (balance, control accounts, bounded numbers, gapless numbers).
    Bridge: core/events.py and ledger/bridge.py, what an event posts and what it swallows.
    Receivables, ReceivablesProps; Payables, PayablesProps, PayablesReports: the sub-ledgers, their life cycles and allocations.
    Subledger, PayablesLedger: the locale \<open>private_account\<close> (a control account that only its sub-ledger moves) and the
      reconciliation \<open>ap_inv\<close> of account 2100 with the documents.
    Inventory, Procurement, Fulfilment with InventoryProps, FulfilmentProps: stock, receipts and dispatches.
    Erp, ErpProps: all of them as the relation \<open>erp_step\<close> with the invariant \<open>erp_inv\<close>, and what holds in every state
      it reaches: stock and stock ledger agree, no unit is lost or sold twice, postings have the value of the documents.
    Reporting, ReportingProps: modules/erp_reporting, the statements against the books.

  Theories of the CRM:
    Strings, Crm: Python's \<open>str\<close> methods; the tables.
    Conversations, ConversationProps: modules/conversations and assignments. \<open>conv_step\<close> is every operation, and it refines
      the abstract machine \<open>life_step\<close>, from which the life cycle follows; locks, round robin.
    Contacts, ContactProps: core/phone.py and modules/contacts, with the invariant of the table over \<open>contact_step\<close>.
    Outreach, Recipients: the constants and queries that messaging, campaigns and engagement share.
    Messaging, MessagingTasks, MessagingProps, SendingProps: modules/messaging. Callbacks commute; a webhook counts once (the locale
      \<open>dedup\<close>); an opt-out suppresses; sending and its retries end within the limits of the code.
    Operational: the operational settings; the wait until the business hours.
    Campaigns, CampaignTasks, CampaignProps, CampaignFlow, CampaignReach: modules/campaigns. \<open>campaign_step\<close> has the invariants
      (life cycle, counters, one message per recipient); the fan-out, the throttle and the polls are loops with
      bounds taken from the code.
    Engagement, EngagementProps: modules/engagement, with \<open>engage_step\<close>: how many follow-ups there are, and when.
    Categorization, CategorizationProps: modules/categorization, with \<open>tag_step\<close>: a suggestion is decided once.
    Ai, AiProps: modules/ai and integrations/claude. One round of the model is \<open>process_inbound\<close>; what it may do by itself
      (\<open>auto_send_guarded\<close>), what each action leaves (\<open>round_outcome\<close>), and that a failing provider ends with a human.

  Bounds. No definition takes fuel. The loops of the workers are structural over the rows they were given; the two that
  may run for ever, the repetition of a task and the fan-out of a campaign over its pages, are \<open>partial_function\<close>s, and
  that they return is a theorem (\<open>sending_ends\<close>, \<open>dispatch_covers\<close>, \<open>ai_failure_hands_over\<close>). The limits are those of the
  code: the retries of each task, 100 recipients of a batch, 120 polls, 3 calls of the API for one answer.

  Defects. Several theorems state what the code does where it does not do what it means to: a reversal counts twice, refused
  bridge postings are lost, voided bills keep their liability, a transferred unit never arrives, a fan-out skips pages,
  a recurring campaign sends once, an opted-out recipient is messaged, there is never a second follow-up.

  Not modelled. Transactions that interleave, beyond \<open>other\<close>, the row locks and the compare-and-set updates shown; VARCHAR and
  NUMERIC overflow; currencies, tax codes and units of measure (requests name existing ones); free-text columns and audit
  snapshots; the HTTP layer, authentication, permissions and the check of webhook signatures; the settings store; media
  download and transcoding; the text of the system prompt, the memory file and the costs of the model; the expiry of Redis
  keys and a broker that is down; the deletion and search of contacts; templates beyond the row that sending reads; the
  market module (extraction of listings), analytics and the client of the WhatsApp API. Quotients that a report
  computes in floating point are left out.
\<close>

section \<open>The books of the running system\<close>

text \<open>C1: Accounts payable reconcile with the general ledger in every reachable state: starting from
  books where they do, after any sequence of operations of the ledger, receivables, payables,
  inventory, procurement and fulfilment, the balance of account 2100 is exactly what the documents
  say: the totals of the bills that have a journal, less the reconciled payments and the issued
  debit notes. And every issued, overdue or paid bill has a posted entry that names it.\<close>

theorem payables_reconcile:
  assumes "erp_step\<^sup>*\<^sup>* s s'" and "erp_inv s" and "ap_inv a s"
  shows "get_account_by_code ''2100'' s' = Some a
    \<and> - account_net (acc_id a) s' =
        sum_list (map bill_total (filter (\<lambda>b. bill_je_id b \<noteq> None) (bills s')))
        - sum_list (map sp_amount (filter (\<lambda>p. sp_status p = SPM_CLEARED) (supplier_payments s')))
        - sum_list (map dn_amount (filter (\<lambda>n. dn_je_id n \<noteq> None) (debit_notes s')))
    \<and> (\<forall>b\<in>set (bills s'). bill_status b \<in> {BILL_ISSUED, BILL_OVERDUE, BILL_PAID} \<longrightarrow>
          (\<exists>e\<in>set (entries s'). bill_je_id b = Some (je_id e) \<and> je_source_type e = Some ''supplier_bill''
             \<and> je_source_id e = Some (bill_id b)))"
proof -
  have inv: "ap_inv a s'" using ap_inv_erp_reachable [OF assms] by simp
  have sum: "journaled je am rs = sum_list (map am (filter (\<lambda>r. je r \<noteq> None) rs))"
    for je and am and rs :: "'r list"
    by (induction rs) (auto simp: journaled_def)
  have "filter (\<lambda>p. sp_je_id p \<noteq> None) (supplier_payments s')
      = filter (\<lambda>p. sp_status p = SPM_CLEARED) (supplier_payments s')"
    using inv by (intro filter_cong) (auto simp: ap_inv_def ap_docs_def payment_linked_def)
  then have "- account_net (acc_id a) s' =
        sum_list (map bill_total (filter (\<lambda>b. bill_je_id b \<noteq> None) (bills s')))
        - sum_list (map sp_amount (filter (\<lambda>p. sp_status p = SPM_CLEARED) (supplier_payments s')))
        - sum_list (map dn_amount (filter (\<lambda>n. dn_je_id n \<noteq> None) (debit_notes s')))"
    using inv by (simp add: ap_inv_def ap_balance_def sum)
  moreover have "\<exists>e\<in>set (entries s'). bill_je_id b = Some (je_id e)
      \<and> je_source_type e = Some ''supplier_bill'' \<and> je_source_id e = Some (bill_id b)"
    if "b \<in> set (bills s')" "bill_status b \<in> {BILL_ISSUED, BILL_OVERDUE, BILL_PAID}" for b
    using inv that by (fastforce simp: ap_inv_def ap_docs_def bill_linked_def entry_for_def)
  ultimately show ?thesis using inv by (simp add: ap_inv_def)
qed

definition sample_payables :: fulfilment where
  "sample_payables = (erp_state [] [] [])\<lparr>bills := [sample_bill 121 BILL_DRAFT 100 738985 None]\<rparr>"

lemma sample_payables_inv: "ap_inv (sample_account 6 ''2100'' LIABILITY True) sample_payables"
proof -
  have "account_net 6 sample_payables = 0" by (simp add: account_net_lines sample_payables_def erp_state_def)
  then show ?thesis
    by (simp add: ap_inv_def ledger_defs control_ok_def ap_docs_def bill_linked_def ap_balance_def
        journaled_def sample_payables_def evals)
qed

lemma sample_payables_stock: "erp_inv sample_payables"
proof -
  have "erp_inv (s\<lparr>bills := bs\<rparr>) = erp_inv s" for s :: fulfilment and bs
    by (simp add: erp_inv_def stock_inv_def stock_defs erp_defs)
  then show ?thesis unfolding sample_payables_def by (simp add: erp_state_inv)
qed

lemma sample_payables_eval: "\<not> isl (bill_issue 121 7 sample_payables)"
  by (simp add: sample_payables_def evals Let_def cong: ebind_weak_cong)

theorem payables_reconcile_witness:
  "\<exists>s'. bill_issue 121 7 sample_payables = Inr s'
     \<and> - account_net 6 s' = sum_list (map bill_total (filter (\<lambda>b. bill_je_id b \<noteq> None) (bills s')))"
proof -
  obtain s' where r: "bill_issue 121 7 sample_payables = Inr s'"
    using not_isl_Inr [OF sample_payables_eval] by blast
  then have step: "erp_step\<^sup>*\<^sup>* sample_payables s'"
    by (blast intro: erp_step.finance finance_step.payables payables_step.issue)
  have "supplier_payments s' = []" "debit_notes s' = []"
    using bill_issue_others [OF r] by (simp_all add: sample_payables_def erp_state_def)
  with payables_reconcile [OF step sample_payables_stock sample_payables_inv] r show ?thesis
    by (auto simp: sample_account_def)
qed



end
